(* ===== verification/AxPrelude.thy ===== *)
theory AxPrelude
  imports Main "HOL-Library.Word" "HOL-Library.Monad_Syntax"
begin

unbundle bit_operations_syntax

text \<open>
  Prelude of the AXIOM NIC development: the C integer types the sources use, C arrays with
  explicit out-of-bounds accesses, kernel error codes, and the generic lemmas the component
  theories share.

  Conventions used throughout the development:
  \<^item> a C computation that may hit undefined behaviour (an access outside an array, a
    dereference of \<open>NULL\<close>) or may not return has an \<open>option\<close> result, and \<open>None\<close> is that
    outcome. A theorem of the form \<open>\<exists>r. f x = Some r\<close> therefore says that the call is memory
    safe and returns;
  \<^item> \<open>uintN_t\<close> is \<open>N word\<close>, \<open>int16_t\<close> is \<open>16 word\<close> read with \<open>sint\<close>, \<open>int\<close> and \<open>long\<close> are
    \<open>int\<close> where the sources cannot overflow them;
  \<^item> system calls return a negative \<open>errno\<close> value as in the kernel.
\<close>

section \<open>C integer types\<close>

type_synonym u8 = "8 word"
type_synonym u16 = "16 word"
type_synonym u32 = "32 word"
type_synonym u64 = "64 word"
type_synonym s16 = "16 word"

named_theorems c_defs \<open>definitional equations of the small C helpers\<close>

section \<open>Kernel error codes\<close>

definition EINTR :: int where "EINTR = 4"
definition EIO :: int where "EIO = 5"
definition ENXIO :: int where "ENXIO = 6"
definition EAGAIN :: int where "EAGAIN = 11"
definition ENOMEM :: int where "ENOMEM = 12"
definition EFAULT :: int where "EFAULT = 14"
definition EBUSY :: int where "EBUSY = 16"
definition EINVAL :: int where "EINVAL = 22"
definition EFBIG :: int where "EFBIG = 27"
definition ERESTARTSYS :: int where "ERESTARTSYS = 512"

lemmas errno_defs = EINTR_def EIO_def ENXIO_def EAGAIN_def ENOMEM_def EFAULT_def EBUSY_def
  EINVAL_def EFBIG_def ERESTARTSYS_def

section \<open>C arrays\<close>

text \<open>
  \<open>a[i]\<close> with a C \<open>int\<close> index: outside the bounds the access is undefined behaviour. A pointer
  that may be \<open>NULL\<close> is an \<open>option\<close>; \<open>deref\<close> of \<open>NULL\<close> is undefined behaviour too, which the
  \<open>option\<close> monad expresses by the identity.
\<close>

definition arr_get :: "'a list \<Rightarrow> int \<Rightarrow> 'a option" where
  "arr_get xs i = (if 0 \<le> i \<and> i < int (length xs) then Some (xs ! nat i) else None)"

definition arr_set :: "'a list \<Rightarrow> int \<Rightarrow> 'a \<Rightarrow> 'a list option" where
  "arr_set xs i v = (if 0 \<le> i \<and> i < int (length xs) then Some (xs[nat i := v]) else None)"

text \<open>\<open>memcpy\<close> of a byte string into an array at an offset.\<close>

definition arr_blit :: "'a list \<Rightarrow> int \<Rightarrow> 'a list \<Rightarrow> 'a list option" where
  "arr_blit xs i vs = (if 0 \<le> i \<and> i + int (length vs) \<le> int (length xs)
     then Some (take (nat i) xs @ vs @ drop (nat i + length vs) xs) else None)"

lemma arr_get_nth [simp]: "i < length xs \<Longrightarrow> arr_get xs (int i) = Some (xs ! i)"
  by (simp add: arr_get_def)

lemma arr_set_nth [simp]: "i < length xs \<Longrightarrow> arr_set xs (int i) v = Some (xs[i := v])"
  by (simp add: arr_set_def)

lemma arr_get_None [simp]: "arr_get xs i = None \<longleftrightarrow> i < 0 \<or> int (length xs) \<le> i"
  by (auto simp: arr_get_def)

lemma arr_set_length: "arr_set xs i v = Some ys \<Longrightarrow> length ys = length xs"
  by (auto simp: arr_set_def split: if_splits)

lemma arr_blit_length: "arr_blit xs i vs = Some ys \<Longrightarrow> length ys = length xs"
  by (auto simp: arr_blit_def split: if_splits)

lemma arr_blit_nat [simp]:
  "k + length vs \<le> length xs \<Longrightarrow>
   arr_blit xs (int k) vs = Some (take k xs @ vs @ drop (k + length vs) xs)"
  by (auto simp: arr_blit_def)

section \<open>Lists\<close>

lemma nth_subset_concat: "i < length xss \<Longrightarrow> set (xss ! i) \<subseteq> set (concat xss)"
  by (auto intro: nth_mem)

lemma set_concat_update:
  "i < length xss \<Longrightarrow> distinct (concat xss) \<Longrightarrow>
   set (concat (xss[i := ys])) = (set (concat xss) - set (xss ! i)) \<union> set ys"
proof (induction xss arbitrary: i)
  case (Cons xs xss)
  show ?case
  proof (cases i)
    case (Suc j)
    with Cons show ?thesis using nth_subset_concat [of j xss] by auto
  qed (use Cons in auto)
qed simp

lemma distinct_concat_update:
  "i < length xss \<Longrightarrow> distinct (concat xss) \<Longrightarrow> distinct ys \<Longrightarrow>
   set ys \<inter> (set (concat xss) - set (xss ! i)) = {} \<Longrightarrow> distinct (concat (xss[i := ys]))"
proof (induction xss arbitrary: i)
  case (Cons xs xss)
  show ?case
  proof (cases i)
    case 0
    with Cons.prems show ?thesis by auto
  next
    case (Suc j)
    with Cons.prems have j: "j < length xss" and d: "distinct (concat xss)"
      and disj: "set xs \<inter> set (concat xss) = {}" by auto
    from j have "xss ! j \<in> set xss" by simp
    with disj have "set xs \<inter> set (xss ! j) = {}" by auto
    with Cons.prems Suc disj have "distinct (concat (xss[j := ys]))"
      by (intro Cons.IH [OF j d]) auto
    moreover from Cons.prems Suc disj \<open>set xs \<inter> set (xss ! j) = {}\<close>
    have "set xs \<inter> set (concat (xss[j := ys])) = {}"
      using set_concat_update [OF j d, of ys] by auto
    ultimately show ?thesis using Cons.prems Suc by simp
  qed
qed simp

lemma distinct_concat_nth: "distinct (concat xss) \<Longrightarrow> i < length xss \<Longrightarrow> distinct (xss ! i)"
  by (auto simp: distinct_concat_iff)

lemma distinct_concat_nth_disjoint:
  "distinct (concat xss) \<Longrightarrow> i < length xss \<Longrightarrow> j < length xss \<Longrightarrow> i \<noteq> j \<Longrightarrow>
   set (xss ! i) \<inter> set (xss ! j) = {}"
proof (induction xss arbitrary: i j)
  case (Cons xs xss)
  show ?case
  proof (cases i)
    case 0
    with Cons.prems obtain k where "j = Suc k" "k < length xss" by (cases j) auto
    with Cons.prems 0 show ?thesis using nth_subset_concat [of k xss] by auto
  next
    case (Suc i')
    show ?thesis
    proof (cases j)
      case 0
      with Cons.prems Suc show ?thesis using nth_subset_concat [of i' xss] by auto
    next
      case (Suc j')
      with Cons.prems \<open>i = Suc i'\<close> show ?thesis using Cons.IH [of i' j'] by simp
    qed
  qed
qed simp

section \<open>Words\<close>

lemma sint_of_nat_s16: "n < 32768 \<Longrightarrow> sint (of_nat n :: s16) = int n"
  by (simp add: sint_word_ariths signed_of_nat signed_take_bit_int_eq_self)

lemma of_nat_s16_neq_none: "n < 32768 \<Longrightarrow> (of_nat n :: s16) \<noteq> - 1"
proof
  assume n: "n < 32768" and "(of_nat n :: s16) = - 1"
  then have "sint (of_nat n :: s16) = sint (- 1 :: s16)" by simp
  with n show False by (simp add: sint_of_nat_s16)
qed

lemma of_nat_s16_inject:
  "m < 32768 \<Longrightarrow> n < 32768 \<Longrightarrow> (of_nat m :: s16) = of_nat n \<longleftrightarrow> m = n"
  by (metis of_nat_eq_iff sint_of_nat_s16)

section \<open>The option monad\<close>

lemma bind_eq_Some: "Option.bind x f = Some y \<longleftrightarrow> (\<exists>a. x = Some a \<and> f a = Some y)"
  by (cases x) auto

end
