(* ===== verification/EviAlloc.thy ===== *)
theory EviAlloc
  imports AxPrelude
begin

text \<open>
  The EVI alloc manager (\<open>include/evi_alloc.h\<close>): a first-fit allocator of runs of equal elements
  in a byte array, where \<open>EVIA_NONE\<close> marks a free element. The theory translates the three
  operations, states the invariant that the \<open>free\<close> field counts the free elements, and proves
  that an allocation succeeds exactly when a long enough run of free elements exists, that it
  takes the first one, and that freeing the owner's value undoes it.
\<close>

section \<open>State and operations\<close>

abbreviation EVIA_NONE :: u8 where "EVIA_NONE \<equiv> - 1"

record evi_alloc =
  ea_elems :: int
  ea_free :: int
  ea_array :: "u8 list option"

definition evia_release :: "evi_alloc \<Rightarrow> evi_alloc" where
  "evia_release ea = ea\<lparr>ea_array := None\<rparr>"

text \<open>\<open>for (i = 0; i < ea->elems; i++) ea->array[i] = EVIA_NONE;\<close>\<close>

fun evia_init_loop :: "nat list \<Rightarrow> u8 list \<Rightarrow> u8 list option" where
  "evia_init_loop [] a = Some a"
| "evia_init_loop (i # is) a = do { a' \<leftarrow> arr_set a (int i) EVIA_NONE; evia_init_loop is a' }"

text \<open>\<open>mok\<close>: the allocation succeeds; \<open>junk\<close>: the bytes it returns.\<close>

definition evia_init :: "bool \<Rightarrow> (nat \<Rightarrow> u8) \<Rightarrow> evi_alloc \<Rightarrow> int \<Rightarrow> (int \<times> evi_alloc) option" where
  "evia_init mok junk ea elems =
     (if \<not> (0 \<le> elems \<and> mok) then Some (- 1, evia_release (ea\<lparr>ea_array := None\<rparr>))
      else do {
        a \<leftarrow> evia_init_loop [0..<nat elems] (map junk [0..<nat elems]);
        Some (0, ea\<lparr>ea_array := Some a, ea_elems := elems, ea_free := elems\<rparr>) })"

text \<open>The search loop of \<open>evia_alloc\<close>: the values of \<open>i\<close> and \<open>count\<close> when it stops.\<close>

function evia_search :: "u8 list \<Rightarrow> int \<Rightarrow> int \<Rightarrow> int \<Rightarrow> int \<Rightarrow> (int \<times> int) option" where
  "evia_search a elems num i count =
     (if count < num \<and> i < elems then do {
        x \<leftarrow> arr_get a i;
        if x = EVIA_NONE then evia_search a elems num (i + 1) (count + 1)
        else evia_search a elems num (i + 1) 0 }
      else Some (i, count))"
  by pat_completeness auto
termination
  by (relation "measure (\<lambda>(a, elems, num, i, count). nat (elems - i))") auto

declare evia_search.simps [simp del]

text \<open>\<open>for (i = start; i < start + count; i++) ea->array[i] = value;\<close>\<close>

fun evia_fill :: "int \<Rightarrow> nat \<Rightarrow> u8 \<Rightarrow> u8 list \<Rightarrow> u8 list option" where
  "evia_fill i 0 v a = Some a"
| "evia_fill i (Suc k) v a = do { a' \<leftarrow> arr_set a i v; evia_fill (i + 1) k v a' }"

definition evia_alloc :: "evi_alloc \<Rightarrow> u8 \<Rightarrow> int \<Rightarrow> (int \<times> evi_alloc) option" where
  "evia_alloc ea value num =
     (if num > ea_free ea then Some (- 1, ea)
      else do {
        a \<leftarrow> ea_array ea;
        (i, count) \<leftarrow> evia_search a (ea_elems ea) num 0 0;
        if count \<noteq> num then Some (- 1, ea)
        else do {
          let start = i - count;
          a' \<leftarrow> evia_fill start (nat count) value a;
          Some (start, ea\<lparr>ea_array := Some a', ea_free := ea_free ea - count\<rparr>) } })"

text \<open>The loop of \<open>evia_free\<close>, from index \<open>i\<close> on.\<close>

fun evia_free_loop :: "nat list \<Rightarrow> u8 \<Rightarrow> u8 list \<Rightarrow> int \<Rightarrow> (u8 list \<times> int) option" where
  "evia_free_loop [] v a fr = Some (a, fr)"
| "evia_free_loop (i # is) v a fr = do {
     x \<leftarrow> arr_get a (int i);
     if x = v then do { a' \<leftarrow> arr_set a (int i) EVIA_NONE; evia_free_loop is v a' (fr + 1) }
     else evia_free_loop is v a fr }"

definition evia_free :: "evi_alloc \<Rightarrow> u8 \<Rightarrow> evi_alloc option" where
  "evia_free ea value = do {
     a \<leftarrow> ea_array ea;
     (a', fr) \<leftarrow> evia_free_loop [0..<nat (ea_elems ea)] value a (ea_free ea);
     Some (ea\<lparr>ea_array := Some a', ea_free := fr\<rparr>) }"

section \<open>Invariant and abstract view\<close>

text \<open>The array has \<open>elems\<close> elements and \<open>free\<close> counts the free ones.\<close>

definition evia_inv :: "evi_alloc \<Rightarrow> bool" where
  "evia_inv ea \<longleftrightarrow> (\<exists>a. ea_array ea = Some a \<and> ea_elems ea = int (length a) \<and>
     ea_free ea = int (length (filter (\<lambda>x. x = EVIA_NONE) a)))"

text \<open>\<open>free_run a s n\<close>: the \<open>n\<close> elements from \<open>s\<close> on exist and are free.\<close>

definition free_run :: "u8 list \<Rightarrow> nat \<Rightarrow> nat \<Rightarrow> bool" where
  "free_run a s n \<longleftrightarrow> s + n \<le> length a \<and> (\<forall>k < n. a ! (s + k) = EVIA_NONE)"

lemma free_run_Suc: "free_run a s (Suc n) \<longleftrightarrow> free_run a s n \<and> s + n < length a \<and> a ! (s + n) = EVIA_NONE"
  by (auto simp: free_run_def less_Suc_eq)

lemma free_run_nth:
  assumes "free_run a s n" "s \<le> j" "j < s + n" shows "a ! j = EVIA_NONE"
proof -
  from assms have "\<forall>k < n. a ! (s + k) = EVIA_NONE" "j - s < n" by (auto simp: free_run_def)
  then have "a ! (s + (j - s)) = EVIA_NONE" by blast
  with assms(2) show ?thesis by simp
qed

section \<open>The search loop\<close>

text \<open>
  The loop invariant: the \<open>c\<close> elements before \<open>i\<close> are free, \<open>c\<close> is the longest such run ending at
  \<open>i\<close> within the elements seen, and no run of length \<open>n\<close> ends before \<open>i\<close>.
\<close>

definition search_inv :: "u8 list \<Rightarrow> nat \<Rightarrow> nat \<Rightarrow> nat \<Rightarrow> bool" where
  "search_inv a n i c \<longleftrightarrow> i \<le> length a \<and> c \<le> i \<and> c \<le> n \<and> free_run a (i - c) c \<and>
     (c < i \<longrightarrow> a ! (i - c - 1) \<noteq> EVIA_NONE) \<and>
     (\<forall>s. s + n \<le> i \<longrightarrow> free_run a s n \<longrightarrow> s = i - c \<and> c = n)"

lemma search_inv_step_free:
  assumes "search_inv a n i c" and "c < n" and "i < length a" and "a ! i = EVIA_NONE"
  shows "search_inv a n (Suc i) (Suc c)"
proof -
  have first: "s = Suc i - Suc c \<and> Suc c = n" if "s + n \<le> Suc i" "free_run a s n" for s
  proof -
    from assms(1,2) that have "\<not> s + n \<le> i" by (auto simp: search_inv_def)
    with that(1) have sn: "s + n = Suc i" by simp
    have "\<not> s < i - c"
    proof
      assume "s < i - c"
      with assms(1) have "a ! (i - c - 1) \<noteq> EVIA_NONE" by (auto simp: search_inv_def)
      moreover from \<open>s < i - c\<close> sn have "a ! (i - c - 1) = EVIA_NONE"
        by (intro free_run_nth [OF that(2)]) auto
      ultimately show False by simp
    qed
    with sn assms(2) show ?thesis using assms(1) by (auto simp: search_inv_def)
  qed
  from assms have "free_run a (Suc i - Suc c) (Suc c)"
    by (auto simp: search_inv_def free_run_Suc)
  with first assms show ?thesis unfolding search_inv_def by (metis Suc_le_mono Suc_leI
      diff_Suc_Suc not_less_eq)
qed

lemma search_inv_step_used:
  assumes "search_inv a n i c" and "c < n" and "i < length a" and "a ! i \<noteq> EVIA_NONE"
  shows "search_inv a n (Suc i) 0"
proof -
  have none: False if "s + n \<le> Suc i" "free_run a s n" for s
  proof -
    from assms(1,2) that have "\<not> s + n \<le> i" by (auto simp: search_inv_def)
    with that(1) have "s + n = Suc i" by simp
    with assms(2) have "a ! i = EVIA_NONE" by (intro free_run_nth [OF that(2)]) auto
    with assms(4) show False by simp
  qed
  have "free_run a (Suc i - 0) 0" using assms(3) by (simp add: free_run_def)
  with none assms show ?thesis unfolding search_inv_def by (auto dest: none)
qed

lemma evia_search_inv:
  assumes "search_inv a n i c"
  shows "\<exists>i' c'. evia_search a (int (length a)) (int n) (int i) (int c) = Some (int i', int c') \<and>
     search_inv a n i' c' \<and> \<not> (c' < n \<and> i' < length a)"
  using assms
proof (induction "length a - i" arbitrary: i c rule: less_induct)
  case less
  show ?case
  proof (cases "c < n \<and> i < length a")
    case False
    then have "evia_search a (int (length a)) (int n) (int i) (int c) = Some (int i, int c)"
      by (subst evia_search.simps) auto
    with False less.prems show ?thesis by blast
  next
    case True
    let ?c = "if a ! i = EVIA_NONE then Suc c else 0"
    have "search_inv a n (Suc i) ?c"
      using less.prems True search_inv_step_free search_inv_step_used by auto
    then obtain i' c' where
      "evia_search a (int (length a)) (int n) (int (Suc i)) (int ?c) = Some (int i', int c')"
      "search_inv a n i' c'" "\<not> (c' < n \<and> i' < length a)"
      using less.hyps [of "Suc i" ?c] True by (metis diff_less_mono2 lessI)
    moreover have "evia_search a (int (length a)) (int n) (int i) (int c) =
        evia_search a (int (length a)) (int n) (int (Suc i)) (int ?c)"
      using True by (subst evia_search.simps) (auto simp: ac_simps)
    ultimately show ?thesis by auto
  qed
qed

section \<open>Allocation\<close>

lemma evia_fill_eq:
  "s + k \<le> length a \<Longrightarrow>
   evia_fill (int s) k v a = Some (take s a @ replicate k v @ drop (s + k) a)"
proof (induction k arbitrary: s a)
  case (Suc k)
  have "evia_fill (int (Suc s)) k v (a[s := v]) =
      Some (take (Suc s) (a[s := v]) @ replicate k v @ drop (Suc s + k) (a[s := v]))"
    using Suc.prems by (intro Suc.IH) simp
  moreover have "take (Suc s) (a[s := v]) = take s a @ [v]"
    using Suc.prems by (simp add: take_Suc_conv_app_nth)
  ultimately show ?case using Suc.prems by (simp add: add.commute)
qed simp

abbreviation num_free :: "u8 list \<Rightarrow> nat" where
  "num_free a \<equiv> length (filter (\<lambda>x. x = EVIA_NONE) a)"

lemma free_run_split:
  assumes "free_run a s n"
  shows "a = take s a @ replicate n EVIA_NONE @ drop (s + n) a"
proof -
  from assms have len: "s + n \<le> length a" by (simp add: free_run_def)
  have "take n (drop s a) = replicate n EVIA_NONE"
    using assms by (auto simp: list_eq_iff_nth_eq free_run_def)
  then show ?thesis using len
    by (metis add.commute append_take_drop_id drop_drop)
qed

lemma num_free_run:
  assumes "free_run a s n"
  shows "num_free a = num_free (take s a) + n + num_free (drop (s + n) a)"
  by (subst free_run_split [OF assms]) (simp add: filter_replicate)

lemma evia_alloc_fits:
  assumes inv: "evia_inv ea" and arr: "ea_array ea = Some a" and run: "free_run a s n"
    and first: "\<And>s'. s' < s \<Longrightarrow> \<not> free_run a s' n"
  shows "evia_alloc ea v (int n) = Some (int s, ea\<lparr>ea_array :=
           Some (take s a @ replicate n v @ drop (s + n) a), ea_free := ea_free ea - int n\<rparr>)"
proof -
  have "search_inv a n 0 0" using first run by (cases "n = 0"; cases "s = 0")
    (auto simp: search_inv_def free_run_def)
  then obtain i c where sr: "evia_search a (int (length a)) (int n) 0 0 = Some (int i, int c)"
      and si: "search_inv a n i c" and stop: "\<not> (c < n \<and> i < length a)"
    using evia_search_inv [of a n 0 0] by auto
  have run': "s + n \<le> length a" using run by (simp add: free_run_def)
  have c: "c = n"
  proof (rule ccontr)
    assume "c \<noteq> n"
    with si stop have "i = length a" by (auto simp: search_inv_def)
    with si run run' \<open>c \<noteq> n\<close> show False by (auto simp: search_inv_def)
  qed
  have "free_run a (i - n) n" using si c by (auto simp: search_inv_def)
  with first have "s \<le> i - n" using leI by blast
  moreover have "c \<le> i" using si by (simp add: search_inv_def)
  ultimately have "s + n \<le> i" using c by simp
  with si run c have s: "s = i - n" by (auto simp: search_inv_def)
  have "int n \<le> ea_free ea" using inv arr num_free_run [OF run] by (auto simp: evia_inv_def)
  with inv arr sr c s \<open>c \<le> i\<close> run' show ?thesis
    by (auto simp: evia_alloc_def evia_inv_def evia_fill_eq Let_def simp flip: of_nat_diff)
qed

lemma evia_alloc_full:
  assumes inv: "evia_inv ea" and arr: "ea_array ea = Some a"
    and none: "\<And>s. \<not> free_run a s n"
  shows "evia_alloc ea v (int n) = Some (- 1, ea)"
proof -
  have "search_inv a n 0 0" using none [of 0] none by (auto simp: search_inv_def free_run_def)
  then obtain i c where sr: "evia_search a (int (length a)) (int n) 0 0 = Some (int i, int c)"
      and si: "search_inv a n i c"
    using evia_search_inv [of a n 0 0] by auto
  then have "c \<noteq> n" using none by (auto simp: search_inv_def)
  with inv arr sr show ?thesis by (auto simp: evia_alloc_def evia_inv_def)
qed

text \<open>The invariant survives an allocation to an owner other than \<open>EVIA_NONE\<close>.\<close>

lemma evia_alloc_inv:
  assumes "evia_inv ea" and "v \<noteq> EVIA_NONE" and "evia_alloc ea v (int n) = Some (r, ea')"
  shows "evia_inv ea'"
proof -
  from assms(1) obtain a where arr: "ea_array ea = Some a" by (auto simp: evia_inv_def)
  show ?thesis
  proof (cases "\<exists>s. free_run a s n")
    case False
    then have "ea' = ea" using assms(1,3) evia_alloc_full [OF assms(1) arr] by auto
    with assms(1) show ?thesis by simp
  next
    case True
    define s where "s = (LEAST s. free_run a s n)"
    from True have run: "free_run a s n" unfolding s_def by (rule LeastI_ex)
    have "\<not> free_run a s' n" if "s' < s" for s' using that unfolding s_def by (rule not_less_Least)
    with evia_alloc_fits [OF assms(1) arr run] assms(3)
    have "ea' = ea\<lparr>ea_array := Some (take s a @ replicate n v @ drop (s + n) a),
        ea_free := ea_free ea - int n\<rparr>" by auto
    moreover have "s + n \<le> length a" using run by (simp add: free_run_def)
    ultimately show ?thesis using assms(1,2) arr num_free_run [OF run]
      by (auto simp: evia_inv_def filter_replicate)
  qed
qed

section \<open>Freeing\<close>

lemma evia_free_loop_eq:
  "b \<le> length a \<Longrightarrow> evia_free_loop [b..<length a] v a fr =
     Some (take b a @ map (\<lambda>x. if x = v then EVIA_NONE else x) (drop b a),
           fr + int (length (filter (\<lambda>x. x = v) (drop b a))))"
proof (induction "length a - b" arbitrary: b a fr)
  case (Suc k)
  then have b: "b < length a" by simp
  define a' where "a' = (if a ! b = v then a[b := EVIA_NONE] else a)"
  define fr' where "fr' = (if a ! b = v then fr + 1 else fr)"
  have "evia_free_loop [Suc b..<length a'] v a' fr' =
     Some (take (Suc b) a' @ map (\<lambda>x. if x = v then EVIA_NONE else x) (drop (Suc b) a'),
           fr' + int (length (filter (\<lambda>x. x = v) (drop (Suc b) a'))))"
    using Suc by (intro Suc.hyps) (auto simp: a'_def)
  moreover have "length a' = length a" "drop (Suc b) a' = drop (Suc b) a"
    by (auto simp: a'_def)
  moreover have "take (Suc b) a' = take b a @ [if a ! b = v then EVIA_NONE else a ! b]"
    using b by (auto simp: a'_def take_Suc_conv_app_nth)
  moreover have "drop b a = a ! b # drop (Suc b) a" using b by (rule Cons_nth_drop_Suc [symmetric])
  moreover have "[b..<length a] = b # [Suc b..<length a]" using b by (rule upt_conv_Cons)
  ultimately show ?case using b by (auto simp: a'_def fr'_def)
qed simp

lemma evia_free_eq:
  assumes "evia_inv ea" and "ea_array ea = Some a"
  shows "evia_free ea v = Some (ea\<lparr>ea_array := Some (map (\<lambda>x. if x = v then EVIA_NONE else x) a),
           ea_free := ea_free ea + int (length (filter (\<lambda>x. x = v) a))\<rparr>)"
  using assms evia_free_loop_eq [of 0 a v "ea_free ea"] by (auto simp: evia_free_def evia_inv_def)

lemma num_free_freed:
  "v \<noteq> EVIA_NONE \<Longrightarrow> num_free (map (\<lambda>x. if x = v then EVIA_NONE else x) a) =
     num_free a + length (filter (\<lambda>x. x = v) a)"
  by (induction a) auto

lemma evia_free_inv:
  assumes "evia_inv ea" and "v \<noteq> EVIA_NONE" and "evia_free ea v = Some ea'"
  shows "evia_inv ea'"
proof -
  from assms(1) obtain a where arr: "ea_array ea = Some a" by (auto simp: evia_inv_def)
  with assms show ?thesis
    using evia_free_eq [OF assms(1) arr, of v] num_free_freed [OF assms(2), of a]
    by (auto simp: evia_inv_def)
qed

lemma evia_init_loop_eq:
  "b \<le> length a \<Longrightarrow>
   evia_init_loop [b..<length a] a = Some (take b a @ replicate (length a - b) EVIA_NONE)"
proof (induction "length a - b" arbitrary: b a)
  case (Suc k)
  then have b: "b < length a" by simp
  have "evia_init_loop [Suc b..<length (a[b := EVIA_NONE])] (a[b := EVIA_NONE]) =
     Some (take (Suc b) (a[b := EVIA_NONE]) @ replicate (length (a[b := EVIA_NONE]) - Suc b) EVIA_NONE)"
    using Suc by (intro Suc.hyps) auto
  moreover have "[b..<length a] = b # [Suc b..<length a]" using b by (rule upt_conv_Cons)
  moreover have "length a - b = Suc (length a - Suc b)" using b by simp
  ultimately show ?case using b by (simp add: take_Suc_conv_app_nth)
qed simp

section \<open>Properties\<close>

text \<open>
  Property C10. First fit, complete: on a consistent allocator, \<open>evia_alloc\<close> returns the lowest
  start of a run of \<open>n\<close> free elements, writes the owner's value there and nowhere else, and lowers
  \<open>free\<close> by \<open>n\<close>; when the array holds no such run it returns \<open>-1\<close> and changes nothing.
\<close>

theorem evia_alloc_first_fit:
  assumes inv: "evia_inv ea" and arr: "ea_array ea = Some a"
  shows "(\<forall>s. free_run a s n \<and> (\<forall>s' < s. \<not> free_run a s' n) \<longrightarrow>
            evia_alloc ea v (int n) =
              Some (int s, ea\<lparr>ea_array := Some (take s a @ replicate n v @ drop (s + n) a),
                              ea_free := ea_free ea - int n\<rparr>)) \<and>
         ((\<forall>s. \<not> free_run a s n) \<longrightarrow> evia_alloc ea v (int n) = Some (- 1, ea))"
  using evia_alloc_fits [OF inv arr] evia_alloc_full [OF inv arr] by blast

definition ea_demo :: evi_alloc where
  "ea_demo = \<lparr>ea_elems = 5, ea_free = 3, ea_array = Some [7, EVIA_NONE, 7, EVIA_NONE, EVIA_NONE]\<rparr>"

lemma ea_demo_inv: "evia_inv ea_demo"
  by (simp add: evia_inv_def ea_demo_def)

lemma ea_demo_array: "ea_array ea_demo = Some [7, EVIA_NONE, 7, EVIA_NONE, EVIA_NONE]"
  by (simp add: ea_demo_def)

lemma ea_demo_run:
  "free_run [7, EVIA_NONE, 7, EVIA_NONE, EVIA_NONE] 3 2 \<and>
   (\<forall>s' < 3. \<not> free_run [7, EVIA_NONE, 7, EVIA_NONE, EVIA_NONE] s' 2)"
proof -
  have "\<not> free_run [7, EVIA_NONE, 7, EVIA_NONE, EVIA_NONE] 0 2"
    using free_run_nth [of "[7, EVIA_NONE, 7, EVIA_NONE, EVIA_NONE]" 0 2 0] by auto
  moreover have "\<not> free_run [7, EVIA_NONE, 7, EVIA_NONE, EVIA_NONE] s' 2" if "s' = 1 \<or> s' = 2" for s'
    using free_run_nth [of "[7, EVIA_NONE, 7, EVIA_NONE, EVIA_NONE]" s' 2 2] that by auto
  moreover have "s' = 0 \<or> s' = 1 \<or> s' = 2" if "s' < 3" for s' :: nat using that by auto
  moreover have "free_run [7, EVIA_NONE, 7, EVIA_NONE, EVIA_NONE] 3 2"
    by (simp add: free_run_def less_2_cases_iff)
  ultimately show ?thesis by blast
qed

theorem evia_alloc_first_fit_witness:
  "evia_alloc ea_demo 9 (int 2) =
     Some (int 3, ea_demo\<lparr>ea_array := Some (take 3 [7, EVIA_NONE, 7, EVIA_NONE, EVIA_NONE] @
        replicate 2 9 @ drop (3 + 2) [7, EVIA_NONE, 7, EVIA_NONE, EVIA_NONE]),
        ea_free := ea_free ea_demo - int 2\<rparr>)"
  using evia_alloc_first_fit [OF ea_demo_inv ea_demo_array, of 2 9] ea_demo_run by blast

text \<open>
  Round trip: freeing the value of an owner that held nothing before restores the
  allocator exactly, whether the allocation succeeded or not.
\<close>

theorem evia_alloc_free_roundtrip:
  assumes inv: "evia_inv ea" and arr: "ea_array ea = Some a"
    and v: "v \<noteq> EVIA_NONE" "v \<notin> set a" and al: "evia_alloc ea v (int n) = Some (r, ea')"
  shows "evia_free ea' v = Some ea"
proof (cases "\<exists>s. free_run a s n")
  case False
  then have "ea' = ea" using al evia_alloc_full [OF inv arr] by auto
  moreover have "map (\<lambda>x. if x = v then EVIA_NONE else x) a = a" "filter (\<lambda>x. x = v) a = []"
    using v(2) by (auto simp: filter_empty_conv intro: map_idI)
  ultimately show ?thesis using evia_free_eq [OF inv arr, of v] arr by simp
next
  case True
  define s where "s = (LEAST s. free_run a s n)"
  from True have run: "free_run a s n" unfolding s_def by (rule LeastI_ex)
  have "\<not> free_run a s' n" if "s' < s" for s' using that unfolding s_def by (rule not_less_Least)
  with evia_alloc_fits [OF inv arr run] al
  have ea': "ea' = ea\<lparr>ea_array := Some (take s a @ replicate n v @ drop (s + n) a),
      ea_free := ea_free ea - int n\<rparr>" by auto
  let ?b = "take s a @ replicate n v @ drop (s + n) a"
  let ?f = "\<lambda>x. if x = v then EVIA_NONE else x"
  have nv: "v \<notin> set (take s a)" "v \<notin> set (drop (s + n) a)"
    using v(2) by (auto dest: in_set_takeD in_set_dropD)
  have "map ?f (take s a) = take s a" "map ?f (drop (s + n) a) = drop (s + n) a"
    using nv by (auto intro!: map_idI)
  then have "map ?f ?b = take s a @ replicate n EVIA_NONE @ drop (s + n) a" by simp
  also have "\<dots> = a" using free_run_split [OF run] by simp
  finally have "map ?f ?b = a" .
  moreover have "filter (\<lambda>x. x = v) (take s a) = []" "filter (\<lambda>x. x = v) (drop (s + n) a) = []"
    using nv by (metis (mono_tags, lifting) filter_False)+
  then have "filter (\<lambda>x. x = v) ?b = replicate n v" by (simp add: filter_replicate)
  moreover have "evia_inv ea'" using evia_alloc_inv [OF inv v(1) al] .
  ultimately show ?thesis using evia_free_eq [of ea' ?b v] ea' arr by simp
qed

lemma ea_demo_alloc:
  "evia_alloc ea_demo 9 (int 2) =
     Some (3, \<lparr>ea_elems = 5, ea_free = 1, ea_array = Some [7, EVIA_NONE, 7, 9, 9]\<rparr>)"
  using evia_alloc_fits [OF ea_demo_inv ea_demo_array, of 3 2 9] ea_demo_run
  by (simp add: ea_demo_def numeral_2_eq_2 numeral_3_eq_3)

theorem evia_alloc_free_roundtrip_witness:
  "evia_free \<lparr>ea_elems = 5, ea_free = 1, ea_array = Some [7, EVIA_NONE, 7, 9, 9]\<rparr> 9 = Some ea_demo"
  by (rule evia_alloc_free_roundtrip [OF ea_demo_inv ea_demo_array _ _ ea_demo_alloc]) auto

lemma evia_alloc_returns:
  assumes inv: "evia_inv ea" and arr: "ea_array ea = Some a"
  shows "\<exists>r ea'. evia_alloc ea v (int n) = Some (r, ea')"
proof (cases "\<exists>s. free_run a s n")
  case False
  then show ?thesis using evia_alloc_full [OF inv arr] by blast
next
  case True
  then have "free_run a (LEAST s. free_run a s n) n" by (rule LeastI_ex)
  moreover have "\<not> free_run a s' n" if "s' < (LEAST s. free_run a s n)" for s'
    using that by (rule not_less_Least)
  ultimately show ?thesis using evia_alloc_fits [OF inv arr, of "LEAST s. free_run a s n" n v] by blast
qed

text \<open>
  Property C11. Life cycle: after a successful \<open>evia_init\<close> the allocator is consistent and every
  element is free, after a failed one the array pointer is \<open>NULL\<close>; every allocation to a real
  owner and every freeing returns, and keeps the allocator consistent.
\<close>

theorem evia_inv_lifecycle:
  "(\<exists>ea'. evia_init True junk ea (int n) = Some (0, ea') \<and> evia_inv ea' \<and>
           ea_array ea' = Some (replicate n EVIA_NONE) \<and> ea_free ea' = int n) \<and>
   evia_init False junk ea (int n) = Some (- 1, ea\<lparr>ea_array := None\<rparr>) \<and>
   (evia_inv ea \<and> v \<noteq> EVIA_NONE \<longrightarrow>
      (\<exists>r ea'. evia_alloc ea v (int n) = Some (r, ea') \<and> evia_inv ea') \<and>
      (\<exists>ea'. evia_free ea v = Some ea' \<and> evia_inv ea'))"
proof (intro conjI impI)
  show "\<exists>ea'. evia_init True junk ea (int n) = Some (0, ea') \<and> evia_inv ea' \<and>
           ea_array ea' = Some (replicate n EVIA_NONE) \<and> ea_free ea' = int n"
    using evia_init_loop_eq [of 0 "map junk [0..<n]"]
    by (simp add: evia_init_def evia_inv_def filter_replicate)
  show "evia_init False junk ea (int n) = Some (- 1, ea\<lparr>ea_array := None\<rparr>)"
    by (simp add: evia_init_def evia_release_def)
next
  assume h: "evia_inv ea \<and> v \<noteq> EVIA_NONE"
  then obtain a where arr: "ea_array ea = Some a" by (auto simp: evia_inv_def)
  from h have inv: "evia_inv ea" by simp
  with h show "\<exists>r ea'. evia_alloc ea v (int n) = Some (r, ea') \<and> evia_inv ea'"
    using evia_alloc_inv evia_alloc_returns [OF inv arr, of v n] by blast
  from h arr show "\<exists>ea'. evia_free ea v = Some ea' \<and> evia_inv ea'"
    using evia_free_eq [OF _ arr, of v] evia_free_inv by blast
qed

theorem evia_inv_lifecycle_witness:
  "evia_inv ea_demo \<and> (7::u8) \<noteq> EVIA_NONE \<and> (\<exists>ea'. evia_free ea_demo 7 = Some ea' \<and> evia_inv ea')"
  using evia_inv_lifecycle [of _ ea_demo 2 7] ea_demo_inv by simp

end
