(* ===== verification/EviQueue.thy ===== *)
theory EviQueue
  imports AxPrelude
begin

text \<open>
  The EVI queue manager (\<open>include/evi_queue.h\<close>): several FIFO queues and one free list threaded
  through a single \<open>next\<close> array of slots. The operations are translated one by one; the
  predicate \<open>eviq_rep\<close> relates the arrays to the abstract state (the free list, the queues, and
  the set of slots that are out of the structure because some thread owns them), and the locale
  \<open>slot_queue\<close> is the contract the driver relies on. It is interpreted on the operations at the
  end.
\<close>

section \<open>State and operations\<close>

abbreviation EVIQ_NONE :: s16 where "EVIQ_NONE \<equiv> - 1"

record evi_queue =
  q_queues :: int
  q_free_elems :: int
  q_head :: "s16 list option"
  q_tail :: "s16 list option"
  q_free :: s16
  q_next :: "s16 list option"

definition eviq_release :: "evi_queue \<Rightarrow> evi_queue" where
  "eviq_release q = q\<lparr>q_head := None, q_tail := None, q_next := None\<rparr>"

text \<open>
  \<open>EVI_MALLOC\<close> of an array: the \<open>k\<close>-th allocation of the call succeeds when \<open>mok k\<close> holds and
  then holds the bytes \<open>junk k\<close>. A negative element count is a size close to \<open>2 ^ 64\<close> and never
  succeeds.
\<close>

definition eviq_malloc :: "(nat \<Rightarrow> bool) \<Rightarrow> (nat \<Rightarrow> nat \<Rightarrow> s16) \<Rightarrow> nat \<Rightarrow> int \<Rightarrow> s16 list option" where
  "eviq_malloc mok junk k n = (if 0 \<le> n \<and> mok k then Some (map (junk k) [0..<nat n]) else None)"

text \<open>The loops \<open>for (i = i0; i < m; i++) a[i] = f(i)\<close> of \<open>eviq_init\<close>.\<close>

fun fill_loop :: "(nat \<Rightarrow> s16) \<Rightarrow> nat list \<Rightarrow> s16 list \<Rightarrow> s16 list option" where
  "fill_loop f [] a = Some a"
| "fill_loop f (i # is) a = do { a' \<leftarrow> arr_set a (int i) (f i); fill_loop f is a' }"

definition eviq_init_heads :: "(nat \<Rightarrow> bool) \<Rightarrow> (nat \<Rightarrow> nat \<Rightarrow> s16) \<Rightarrow> evi_queue \<Rightarrow> int \<Rightarrow> (bool \<times> evi_queue) option" where
  "eviq_init_heads mok junk q queues =
     (if queues > 0 then
        (case eviq_malloc mok junk 0 queues of
           None \<Rightarrow> Some (False, q)
         | Some hd0 \<Rightarrow>
             (let q = q\<lparr>q_head := Some hd0\<rparr> in
              case eviq_malloc mok junk 1 queues of
                None \<Rightarrow> Some (False, q)
              | Some tl0 \<Rightarrow> do {
                  hd1 \<leftarrow> fill_loop (\<lambda>_. EVIQ_NONE) [0..<nat queues] hd0;
                  tl1 \<leftarrow> fill_loop (\<lambda>_. EVIQ_NONE) [0..<nat queues] tl0;
                  Some (True, q\<lparr>q_head := Some hd1, q_tail := Some tl1\<rparr>) }))
      else Some (True, q))"

definition eviq_init :: "(nat \<Rightarrow> bool) \<Rightarrow> (nat \<Rightarrow> nat \<Rightarrow> s16) \<Rightarrow> evi_queue \<Rightarrow> int \<Rightarrow> int \<Rightarrow> (int \<times> evi_queue) option" where
  "eviq_init mok junk q queues free_elems =
     (let q = q\<lparr>q_head := None, q_tail := None, q_next := None, q_queues := queues,
                q_free_elems := free_elems\<rparr> in
      do {
        (ok, q) \<leftarrow> eviq_init_heads mok junk q queues;
        (if \<not> ok then Some (- 1, eviq_release q)
         else case eviq_malloc mok junk 2 free_elems of
           None \<Rightarrow> Some (- 1, eviq_release q)
         | Some nx0 \<Rightarrow> do {
             nx1 \<leftarrow> fill_loop (\<lambda>i. of_nat (i + 1)) [0..<nat (free_elems - 1)] nx0;
             nx2 \<leftarrow> arr_set nx1 (int (nat (free_elems - 1))) EVIQ_NONE;
             Some (0, q\<lparr>q_free := 0, q_next := Some nx2\<rparr>) }) })"

definition eviq_free_avail :: "evi_queue \<Rightarrow> bool" where
  "eviq_free_avail q = (q_free q \<noteq> EVIQ_NONE)"

definition eviq_free_pop :: "evi_queue \<Rightarrow> (s16 \<times> evi_queue) option" where
  "eviq_free_pop q =
     (let slot = q_free q in
      if slot = EVIQ_NONE then Some (EVIQ_NONE, q)
      else do {
        nx \<leftarrow> q_next q;
        n \<leftarrow> arr_get nx (sint slot);
        Some (slot, q\<lparr>q_free := n\<rparr>) })"

definition eviq_free_push :: "evi_queue \<Rightarrow> s16 \<Rightarrow> evi_queue option" where
  "eviq_free_push q slot = do {
     nx \<leftarrow> q_next q;
     nx' \<leftarrow> arr_set nx (sint slot) (q_free q);
     Some (q\<lparr>q_next := Some nx', q_free := slot\<rparr>) }"

definition eviq_avail :: "evi_queue \<Rightarrow> int \<Rightarrow> bool option" where
  "eviq_avail q queue_id =
     (if q_queues q = 0 then Some False
      else do {
        hd \<leftarrow> q_head q;
        h \<leftarrow> arr_get hd queue_id;
        Some (h \<noteq> EVIQ_NONE) })"

definition eviq_enqueue :: "evi_queue \<Rightarrow> int \<Rightarrow> s16 \<Rightarrow> evi_queue option" where
  "eviq_enqueue q queue_id slot =
     (if q_queues q = 0 then Some q
      else do {
        nx \<leftarrow> q_next q;
        nx \<leftarrow> arr_set nx (sint slot) EVIQ_NONE;
        tl \<leftarrow> q_tail q;
        old_tail \<leftarrow> arr_get tl queue_id;
        q \<leftarrow> (if old_tail \<noteq> EVIQ_NONE then do {
                 nx \<leftarrow> arr_set nx (sint old_tail) slot;
                 Some (q\<lparr>q_next := Some nx\<rparr>) }
              else do {
                 hd \<leftarrow> q_head q;
                 hd \<leftarrow> arr_set hd queue_id slot;
                 Some (q\<lparr>q_next := Some nx, q_head := Some hd\<rparr>) });
        tl \<leftarrow> arr_set tl queue_id slot;
        Some (q\<lparr>q_tail := Some tl\<rparr>) })"

definition eviq_dequeue :: "evi_queue \<Rightarrow> int \<Rightarrow> (s16 \<times> evi_queue) option" where
  "eviq_dequeue q queue_id =
     (if q_queues q = 0 then Some (EVIQ_NONE, q)
      else do {
        hd \<leftarrow> q_head q;
        slot \<leftarrow> arr_get hd queue_id;
        if slot = EVIQ_NONE then Some (EVIQ_NONE, q)
        else do {
          nx \<leftarrow> q_next q;
          new_head \<leftarrow> arr_get nx (sint slot);
          q \<leftarrow> (if new_head = EVIQ_NONE then do {
                   tl \<leftarrow> q_tail q;
                   tl \<leftarrow> arr_set tl queue_id EVIQ_NONE;
                   Some (q\<lparr>q_tail := Some tl\<rparr>) }
                else Some q);
          hd \<leftarrow> arr_set hd queue_id new_head;
          Some (slot, q\<lparr>q_head := Some hd\<rparr>) } })"

text \<open>
  The debug printers walk a chain until \<open>EVIQ_NONE\<close>; \<open>eviq_walk\<close> collects the numbers they print
  (the closing \<open>EVIQ_NONE\<close> left out), with the array length as the number of steps, which is
  enough on a chain without repetitions (\<open>eviq_walk_chain\<close> below).
\<close>

fun eviq_walk :: "s16 list \<Rightarrow> s16 \<Rightarrow> nat \<Rightarrow> nat list" where
  "eviq_walk nx slot 0 = []"
| "eviq_walk nx slot (Suc k) =
     (if slot = EVIQ_NONE then []
      else case arr_get nx (sint slot) of
             None \<Rightarrow> []
           | Some n \<Rightarrow> nat (sint slot) # eviq_walk nx n k)"

section \<open>The representation relation\<close>

fun chain :: "s16 list \<Rightarrow> s16 \<Rightarrow> nat list \<Rightarrow> bool" where
  "chain nx p [] \<longleftrightarrow> p = EVIQ_NONE"
| "chain nx p (x # xs) \<longleftrightarrow> p = of_nat x \<and> x < length nx \<and> chain nx (nx ! x) xs"

definition slot_or_none :: "nat list \<Rightarrow> s16" where
  "slot_or_none xs = (if xs = [] then EVIQ_NONE else of_nat (last xs))"

text \<open>
  \<open>eviq_rep q fs qs own\<close>: the free list of \<open>q\<close> holds the slots \<open>fs\<close>, its \<open>i\<close>-th queue holds
  \<open>qs ! i\<close> in FIFO order, and the slots \<open>own\<close> are in neither. The three parts are disjoint and
  together are all the slots.
\<close>

definition slots_partition :: "nat \<Rightarrow> nat list \<Rightarrow> nat list list \<Rightarrow> nat set \<Rightarrow> bool" where
  "slots_partition n fs qs own \<longleftrightarrow>
     distinct fs \<and> distinct (concat qs) \<and> set fs \<inter> set (concat qs) = {} \<and>
     own \<inter> (set fs \<union> set (concat qs)) = {} \<and> own \<union> set fs \<union> set (concat qs) = {..<n}"

definition eviq_queues_rep :: "s16 list \<Rightarrow> s16 list option \<Rightarrow> s16 list option \<Rightarrow> nat list list \<Rightarrow> bool" where
  "eviq_queues_rep nx ho to qs \<longleftrightarrow> qs = [] \<or>
     (\<exists>hd tl. ho = Some hd \<and> to = Some tl \<and> length hd = length qs \<and> length tl = length qs \<and>
        (\<forall>i < length qs. chain nx (hd ! i) (qs ! i) \<and> tl ! i = slot_or_none (qs ! i)))"

definition eviq_rep :: "evi_queue \<Rightarrow> nat list \<Rightarrow> nat list list \<Rightarrow> nat set \<Rightarrow> bool" where
  "eviq_rep q fs qs own \<longleftrightarrow>
     (\<exists>nx. q_next q = Some nx \<and> length nx < 32768 \<and> q_queues q = int (length qs) \<and>
        chain nx (q_free q) fs \<and> eviq_queues_rep nx (q_head q) (q_tail q) qs \<and>
        slots_partition (length nx) fs qs own)"

section \<open>Chains\<close>

lemma chain_update_notin [simp]:
  "x \<notin> set xs \<Longrightarrow> chain (nx[x := v]) p xs = chain nx p xs"
  by (induction xs arbitrary: p) (auto simp: nth_list_update)

lemma chain_bound: "chain nx p xs \<Longrightarrow> x \<in> set xs \<Longrightarrow> x < length nx"
  by (induction xs arbitrary: p) auto

lemma chain_none_iff:
  "chain nx p xs \<Longrightarrow> length nx < 32768 \<Longrightarrow> (p = EVIQ_NONE) = (xs = [])"
  by (cases xs) (auto simp: of_nat_s16_neq_none)

text \<open>Linking a fresh slot behind the last one extends the chain at its end.\<close>

lemma chain_snoc:
  "chain nx p (xs @ [y]) \<Longrightarrow> s < length nx \<Longrightarrow> y \<notin> set xs \<Longrightarrow> s \<notin> set xs \<Longrightarrow> s \<noteq> y \<Longrightarrow>
   chain (nx[s := EVIQ_NONE, y := of_nat s]) p (xs @ [y, s])"
  by (induction xs arbitrary: p) (auto simp: nth_list_update)

lemma chain_unique:
  "chain nx p xs \<Longrightarrow> chain nx p ys \<Longrightarrow> length nx < 32768 \<Longrightarrow> xs = ys"
proof (induction xs arbitrary: p ys)
  case Nil
  then show ?case using chain_none_iff by auto
next
  case (Cons x xs)
  then obtain y ys' where ys: "ys = y # ys'" by (cases ys) (auto simp: of_nat_s16_neq_none)
  with Cons.prems have "x = y" by (auto simp: of_nat_s16_inject)
  with Cons ys show ?case by auto
qed

lemma eviq_walk_chain:
  "chain nx p xs \<Longrightarrow> length nx < 32768 \<Longrightarrow> length xs \<le> k \<Longrightarrow> eviq_walk nx p k = xs"
proof (induction xs arbitrary: p k)
  case Nil
  then show ?case by (cases k) auto
next
  case (Cons x xs)
  then obtain k' where "k = Suc k'" by (cases k) auto
  with Cons show ?case by (auto simp: of_nat_s16_neq_none sint_of_nat_s16)
qed

lemma slot_or_none_simps [simp]:
  "slot_or_none [] = EVIQ_NONE" "slot_or_none (xs @ [x]) = of_nat x"
  by (auto simp: slot_or_none_def)

lemma slot_or_none_eq_None:
  "(\<forall>x \<in> set xs. x < 32768) \<Longrightarrow> (slot_or_none xs = EVIQ_NONE) = (xs = [])"
  by (auto simp: slot_or_none_def of_nat_s16_neq_none)

section \<open>The operations on the representation\<close>

lemma eviq_repE:
  assumes "eviq_rep q fs qs own"
  obtains nx where "q_next q = Some nx" "length nx < 32768" "q_queues q = int (length qs)"
    "chain nx (q_free q) fs" "eviq_queues_rep nx (q_head q) (q_tail q) qs"
    "slots_partition (length nx) fs qs own"
  using assms by (auto simp: eviq_rep_def)

lemma eviq_repI:
  "q_next q = Some nx \<Longrightarrow> length nx < 32768 \<Longrightarrow> q_queues q = int (length qs) \<Longrightarrow>
   chain nx (q_free q) fs \<Longrightarrow> eviq_queues_rep nx (q_head q) (q_tail q) qs \<Longrightarrow>
   slots_partition (length nx) fs qs own \<Longrightarrow> eviq_rep q fs qs own"
  by (auto simp: eviq_rep_def)

lemma eviq_rep_slot_bound:
  "eviq_rep q fs qs own \<Longrightarrow> s \<in> set fs \<union> set (concat qs) \<union> own \<Longrightarrow> s < 32768"
  unfolding eviq_rep_def slots_partition_def using less_trans by blast

lemma eviq_queues_rep_update_notin:
  "eviq_queues_rep nx ho to qs \<Longrightarrow> s \<notin> set (concat qs) \<Longrightarrow>
   eviq_queues_rep (nx[s := v]) ho to qs"
  unfolding eviq_queues_rep_def using nth_subset_concat by fastforce

lemma eviq_free_avail_rep:
  "eviq_rep q fs qs own \<Longrightarrow> eviq_free_avail q = (fs \<noteq> [])"
  unfolding eviq_free_avail_def by (metis chain_none_iff eviq_repE)

lemma eviq_free_pop_empty:
  "eviq_rep q [] qs own \<Longrightarrow> eviq_free_pop q = Some (EVIQ_NONE, q)"
  by (auto simp: eviq_free_pop_def elim!: eviq_repE)

lemma eviq_free_pop_cons:
  assumes "eviq_rep q (s # fs) qs own"
  shows "\<exists>q'. eviq_free_pop q = Some (of_nat s, q') \<and> eviq_rep q' fs qs (insert s own)"
proof -
  from assms obtain nx where nx: "q_next q = Some nx" "length nx < 32768"
      "q_queues q = int (length qs)" "chain nx (q_free q) (s # fs)"
      "eviq_queues_rep nx (q_head q) (q_tail q) qs" "slots_partition (length nx) (s # fs) qs own"
    by (rule eviq_repE)
  then have "eviq_free_pop q = Some (of_nat s, q\<lparr>q_free := nx ! s\<rparr>)"
    by (simp add: eviq_free_pop_def of_nat_s16_neq_none sint_of_nat_s16)
  moreover have "eviq_rep (q\<lparr>q_free := nx ! s\<rparr>) fs qs (insert s own)"
    using nx by (intro eviq_repI [of _ nx]) (auto simp: slots_partition_def)
  ultimately show ?thesis by blast
qed

lemma eviq_free_push_rep:
  assumes rep: "eviq_rep q fs qs own" and s: "s \<in> own"
  shows "\<exists>q'. eviq_free_push q (of_nat s) = Some q' \<and> eviq_rep q' (s # fs) qs (own - {s})"
proof -
  from rep obtain nx where nx: "q_next q = Some nx" "length nx < 32768"
      "q_queues q = int (length qs)" "chain nx (q_free q) fs"
      "eviq_queues_rep nx (q_head q) (q_tail q) qs" "slots_partition (length nx) fs qs own"
    by (rule eviq_repE)
  let ?q = "q\<lparr>q_next := Some (nx[s := q_free q]), q_free := of_nat s\<rparr>"
  from nx(6) s have sl: "s < length nx" "s \<notin> set fs" "s \<notin> set (concat qs)"
    by (auto simp: slots_partition_def)
  with nx have "eviq_free_push q (of_nat s) = Some ?q"
    by (simp add: eviq_free_push_def sint_of_nat_s16)
  moreover have "eviq_rep ?q (s # fs) qs (own - {s})"
    using nx sl s by (intro eviq_repI [of _ "nx[s := q_free q]"])
      (auto simp: slots_partition_def intro: eviq_queues_rep_update_notin)
  ultimately show ?thesis by blast
qed

lemma eviq_avail_rep:
  assumes "eviq_rep q fs qs own" and "i < length qs"
  shows "eviq_avail q (int i) = Some (qs ! i \<noteq> [])"
proof -
  from assms(1) obtain nx where nx: "length nx < 32768" "q_queues q = int (length qs)"
      "eviq_queues_rep nx (q_head q) (q_tail q) qs"
    by (rule eviq_repE)
  with assms(2) obtain hd where hd: "q_head q = Some hd" "length hd = length qs"
      "chain nx (hd ! i) (qs ! i)"
    by (auto simp: eviq_queues_rep_def)
  with nx assms(2) show ?thesis by (auto simp: eviq_avail_def chain_none_iff)
qed

lemma eviq_avail_no_queues: "eviq_rep q fs [] own \<Longrightarrow> eviq_avail q i = Some False"
  by (auto simp: eviq_avail_def elim!: eviq_repE)

lemma slots_partition_enqueue:
  assumes "slots_partition n fs qs own" and "s \<in> own" and "i < length qs"
  shows "slots_partition n fs (qs[i := qs ! i @ [s]]) (own - {s})"
proof -
  from assms have d: "distinct (concat qs)" and s: "s \<notin> set (concat qs)"
    by (auto simp: slots_partition_def)
  with assms(3) have "set (qs ! i) \<subseteq> set (concat qs)" "distinct (qs ! i)"
    using nth_subset_concat distinct_concat_nth by blast+
  with s d assms(3) have "distinct (concat (qs[i := qs ! i @ [s]]))"
    by (intro distinct_concat_update) auto
  moreover have "set (concat (qs[i := qs ! i @ [s]])) = insert s (set (concat qs))"
    using set_concat_update [OF assms(3) d] \<open>set (qs ! i) \<subseteq> set (concat qs)\<close> by auto
  ultimately show ?thesis using assms(1,2) unfolding slots_partition_def by auto
qed

lemma slots_partition_dequeue:
  assumes "slots_partition n fs qs own" and "i < length qs" and q: "qs ! i = s # r"
  shows "slots_partition n fs (qs[i := r]) (insert s own)"
proof -
  from assms have d: "distinct (concat qs)" by (auto simp: slots_partition_def)
  with assms(2) have sub: "set (qs ! i) \<subseteq> set (concat qs)" "distinct (qs ! i)"
    using nth_subset_concat distinct_concat_nth by blast+
  with q d assms(2) have "distinct (concat (qs[i := r]))"
    by (intro distinct_concat_update) auto
  moreover have "set (concat (qs[i := r])) = set (concat qs) - {s}"
    using set_concat_update [OF assms(2) d, of r] sub q by auto
  ultimately show ?thesis using assms(1) sub q unfolding slots_partition_def by auto
qed

lemma eviq_queues_rep_nonempty:
  assumes "eviq_queues_rep nx ho to qs" and "i < length qs"
  obtains hd tl where "ho = Some hd" "to = Some tl" "length hd = length qs"
    "length tl = length qs" "\<And>j. j < length qs \<Longrightarrow> chain nx (hd ! j) (qs ! j)"
    "\<And>j. j < length qs \<Longrightarrow> tl ! j = slot_or_none (qs ! j)"
  using assms by (auto simp: eviq_queues_rep_def)

lemma eviq_queues_rep_updateI:
  assumes "length h = length qs" "length t = length qs" "i < length qs"
    and "chain nx (h ! i) xs" "t ! i = slot_or_none xs"
    and "\<And>j. j < length qs \<Longrightarrow> j \<noteq> i \<Longrightarrow> chain nx (h ! j) (qs ! j)"
    and "\<And>j. j < length qs \<Longrightarrow> j \<noteq> i \<Longrightarrow> t ! j = slot_or_none (qs ! j)"
  shows "eviq_queues_rep nx (Some h) (Some t) (qs[i := xs])"
proof -
  have "chain nx (h ! j) (qs[i := xs] ! j) \<and> t ! j = slot_or_none (qs[i := xs] ! j)"
    if "j < length qs" for j
    using assms that by (cases "j = i") auto
  with assms(1,2) show ?thesis by (auto simp: eviq_queues_rep_def)
qed

text \<open>
  Enqueueing an owned slot \<open>s\<close> on queue \<open>i\<close>: with an empty queue the head is set, otherwise the
  old tail is linked to \<open>s\<close>.
\<close>

lemma eviq_enqueue_rep:
  assumes rep: "eviq_rep q fs qs own" and s: "s \<in> own" and i: "i < length qs"
  shows "\<exists>q'. eviq_enqueue q (int i) (of_nat s) = Some q' \<and>
              eviq_rep q' fs (qs[i := qs ! i @ [s]]) (own - {s})"
proof -
  from rep obtain nx where nx: "q_next q = Some nx" "length nx < 32768"
      "q_queues q = int (length qs)" "chain nx (q_free q) fs"
      and qr: "eviq_queues_rep nx (q_head q) (q_tail q) qs"
      and part: "slots_partition (length nx) fs qs own"
    by (rule eviq_repE)
  from qr i obtain hd tl where ht: "q_head q = Some hd" "q_tail q = Some tl"
      "length hd = length qs" "length tl = length qs"
      and ch: "\<And>j. j < length qs \<Longrightarrow> chain nx (hd ! j) (qs ! j)"
      and tl: "\<And>j. j < length qs \<Longrightarrow> tl ! j = slot_or_none (qs ! j)"
    by (rule eviq_queues_rep_nonempty) blast
  from part s have sl: "s < length nx" "s \<notin> set fs" "s \<notin> set (concat qs)"
    by (auto simp: slots_partition_def)
  have sj: "j < length qs \<Longrightarrow> s \<notin> set (qs ! j)" for j
    using sl(3) nth_subset_concat by blast
  note part' = slots_partition_enqueue [OF part s i]
  show ?thesis
  proof (cases "qs ! i = []")
    case True
    let ?nx = "nx[s := EVIQ_NONE]" and ?hd = "hd[i := of_nat s]" and ?tl = "tl[i := of_nat s]"
    let ?q = "q\<lparr>q_next := Some ?nx, q_head := Some ?hd, q_tail := Some ?tl\<rparr>"
    have "eviq_enqueue q (int i) (of_nat s) = Some ?q"
      using nx ht i sl True tl [OF i] by (auto simp: eviq_enqueue_def sint_of_nat_s16)
    moreover have "eviq_queues_rep ?nx (Some ?hd) (Some ?tl) (qs[i := qs ! i @ [s]])"
      using ht ch tl i sj True sl
      by (intro eviq_queues_rep_updateI) (auto simp: slot_or_none_def)
    ultimately show ?thesis using nx part' sl
      by (intro exI [of _ ?q] conjI eviq_repI [of _ ?nx]) auto
  next
    case False
    then obtain xs y where xs: "qs ! i = xs @ [y]" by (metis rev_exhaust)
    with i have y: "y \<in> set (concat qs)" using nth_subset_concat by fastforce
    with part have y': "y < length nx" "y \<notin> set fs" by (auto simp: slots_partition_def)
    with y sl have "s \<noteq> y" by auto
    from part have dist: "distinct (concat qs)" by (simp add: slots_partition_def)
    with i xs have "y \<notin> set xs" using distinct_concat_nth by fastforce
    let ?nx = "nx[s := EVIQ_NONE, y := of_nat s]" and ?tl = "tl[i := of_nat s]"
    let ?q = "q\<lparr>q_next := Some ?nx, q_tail := Some ?tl\<rparr>"
    have "eviq_enqueue q (int i) (of_nat s) = Some ?q"
      using nx ht i sl y' tl [OF i] xs
      by (auto simp: eviq_enqueue_def sint_of_nat_s16 of_nat_s16_neq_none)
    moreover have "eviq_queues_rep ?nx (q_head q) (Some ?tl) (qs[i := qs ! i @ [s]])"
    proof -
      have "chain ?nx (hd ! i) (xs @ [y, s])"
        using ch [OF i] xs sl sj [OF i] \<open>y \<notin> set xs\<close> \<open>s \<noteq> y\<close> by (intro chain_snoc) auto
      moreover have "chain ?nx (hd ! j) (qs ! j)" if "j < length qs" "j \<noteq> i" for j
      proof -
        have "y \<notin> set (qs ! j)"
          using distinct_concat_nth_disjoint [OF dist that(1) i that(2)] xs by auto
        with sj that ch show ?thesis by simp
      qed
      ultimately show ?thesis unfolding ht(1) using ht tl i xs
        by (intro eviq_queues_rep_updateI) (auto simp: slot_or_none_def)
    qed
    ultimately show ?thesis using nx part' sl y'
      by (intro exI [of _ ?q] conjI eviq_repI [of _ ?nx]) auto
  qed
qed

lemma eviq_dequeue_empty:
  assumes "eviq_rep q fs qs own" and "i < length qs" and "qs ! i = []"
  shows "eviq_dequeue q (int i) = Some (EVIQ_NONE, q)"
proof -
  from assms(1) obtain nx where "length nx < 32768" "q_queues q = int (length qs)"
      and qr: "eviq_queues_rep nx (q_head q) (q_tail q) qs"
    by (rule eviq_repE)
  moreover from qr assms(2) obtain hd where "q_head q = Some hd" "length hd = length qs"
      "chain nx (hd ! i) (qs ! i)"
    by (metis eviq_queues_rep_nonempty)
  ultimately show ?thesis using assms by (auto simp: eviq_dequeue_def)
qed

lemma eviq_dequeue_cons:
  assumes rep: "eviq_rep q fs qs own" and i: "i < length qs" and q: "qs ! i = s # r"
  shows "\<exists>q'. eviq_dequeue q (int i) = Some (of_nat s, q') \<and>
              eviq_rep q' fs (qs[i := r]) (insert s own)"
proof -
  from rep obtain nx where nx: "q_next q = Some nx" "length nx < 32768"
      "q_queues q = int (length qs)" "chain nx (q_free q) fs"
      and qr: "eviq_queues_rep nx (q_head q) (q_tail q) qs"
      and part: "slots_partition (length nx) fs qs own"
    by (rule eviq_repE)
  from qr i obtain hd tl where ht: "q_head q = Some hd" "q_tail q = Some tl"
      "length hd = length qs" "length tl = length qs"
      and ch: "\<And>j. j < length qs \<Longrightarrow> chain nx (hd ! j) (qs ! j)"
      and tl: "\<And>j. j < length qs \<Longrightarrow> tl ! j = slot_or_none (qs ! j)"
    by (rule eviq_queues_rep_nonempty) blast
  have hs: "hd ! i = of_nat s" "s < length nx" "chain nx (nx ! s) r"
    using ch [OF i] q by auto
  with nx(2) have r: "(nx ! s = EVIQ_NONE) = (r = [])" by (intro chain_none_iff)
  let ?hd = "hd[i := nx ! s]" and ?tl = "if r = [] then tl[i := EVIQ_NONE] else tl"
  let ?q = "q\<lparr>q_tail := Some ?tl, q_head := Some ?hd\<rparr>"
  have "eviq_dequeue q (int i) = Some (of_nat s, ?q)"
    using nx ht i hs r
    by (cases q) (auto simp: eviq_dequeue_def of_nat_s16_neq_none sint_of_nat_s16)
  moreover have "eviq_queues_rep nx (Some ?hd) (Some ?tl) (qs[i := r])"
    using ht ch tl i q hs
    by (intro eviq_queues_rep_updateI) (auto simp: slot_or_none_def)
  ultimately show ?thesis using nx slots_partition_dequeue [OF part i q]
    by (intro exI [of _ ?q] conjI eviq_repI [of _ nx]) auto
qed

lemma eviq_dequeue_no_queues:
  "eviq_rep q fs [] own \<Longrightarrow> eviq_dequeue q i = Some (EVIQ_NONE, q)"
  by (auto simp: eviq_dequeue_def elim!: eviq_repE)

section \<open>Initialisation\<close>

lemma fill_loop_upt:
  "a \<le> b \<Longrightarrow> b \<le> length xs \<Longrightarrow>
   fill_loop f [a..<b] xs = Some (take a xs @ map f [a..<b] @ drop b xs)"
proof (induction "b - a" arbitrary: a xs)
  case 0
  then show ?case by simp
next
  case (Suc k)
  then have ab: "a < b" by simp
  then have "[a..<b] = a # [Suc a..<b]" by (rule upt_conv_Cons)
  moreover have "fill_loop f [Suc a..<b] (xs[a := f a]) =
      Some (take (Suc a) (xs[a := f a]) @ map f [Suc a..<b] @ drop b (xs[a := f a]))"
    using Suc by (intro Suc.hyps) auto
  moreover have "take (Suc a) (xs[a := f a]) = take a xs @ [f a]"
    using ab Suc.prems by (simp add: take_Suc_conv_app_nth)
  ultimately show ?case using ab Suc.prems by simp
qed

lemma chain_upt:
  "a \<le> n \<Longrightarrow> n < 32768 \<Longrightarrow> 0 < n \<Longrightarrow>
   chain (map (\<lambda>i. of_nat (i + 1)) [0..<n - 1] @ [EVIQ_NONE])
     (if a < n then of_nat a else EVIQ_NONE) [a..<n]"
proof (induction "n - a" arbitrary: a)
  case 0
  then show ?case by simp
next
  case (Suc k)
  then have "[a..<n] = a # [Suc a..<n]" by (intro upt_conv_Cons) simp
  moreover have "(map (\<lambda>i. of_nat (i + 1)) [0..<n - 1] @ [EVIQ_NONE]) ! a =
      (if Suc a < n then of_nat (Suc a) else EVIQ_NONE)"
    using Suc by (auto simp: nth_append)
  ultimately show ?case using Suc.hyps(1) [of "Suc a"] Suc.hyps(2) Suc.prems by simp
qed

lemma concat_replicate_Nil [simp]: "concat (replicate m []) = []"
  by (induction m) auto

lemma eviq_init_heads_ok:
  assumes "mok 0" "mok 1"
  shows "\<exists>q'. eviq_init_heads mok junk q (int m) = Some (True, q') \<and> q_queues q' = q_queues q \<and>
     (m = 0 \<or> q_head q' = Some (replicate m EVIQ_NONE) \<and> q_tail q' = Some (replicate m EVIQ_NONE))"
  using assms fill_loop_upt [of 0 m _ "\<lambda>_. EVIQ_NONE"]
  by (cases "m = 0") (auto simp: eviq_init_heads_def eviq_malloc_def map_replicate_const)

lemma eviq_init_rep:
  assumes "0 < n" "n < 32768" and "mok 0" "mok 1" "mok 2"
  shows "\<exists>q'. eviq_init mok junk q (int m) (int n) = Some (0, q') \<and>
              eviq_rep q' [0..<n] (replicate m []) {}"
proof -
  let ?q = "q\<lparr>q_head := None, q_tail := None, q_next := None, q_queues := int m,
              q_free_elems := int n\<rparr>"
  obtain q1 where q1: "eviq_init_heads mok junk ?q (int m) = Some (True, q1)"
      "q_queues q1 = int m"
      "m = 0 \<or> q_head q1 = Some (replicate m EVIQ_NONE) \<and> q_tail q1 = Some (replicate m EVIQ_NONE)"
    using eviq_init_heads_ok [of mok junk ?q m] assms by auto
  let ?nx = "map (\<lambda>i. of_nat (i + 1)) [0..<n - 1] @ [EVIQ_NONE]"
  have "fill_loop (\<lambda>i. of_nat (i + 1)) [0..<n - 1] (map (junk 2) [0..<n]) =
      Some (map (\<lambda>i. of_nat (i + 1)) [0..<n - 1] @ [junk 2 (n - 1)])"
    using fill_loop_upt [of 0 "n - 1" "map (junk 2) [0..<n]" "\<lambda>i. of_nat (i + 1)"] assms(1)
    by (cases n) (simp_all add: drop_map)
  moreover have "arr_set (map (\<lambda>i. of_nat (i + 1)) [0..<n - 1] @ [junk 2 (n - 1)])
      (int (n - 1)) EVIQ_NONE = Some ?nx"
    by (simp add: list_update_append del: of_nat_diff)
  moreover have "nat (int n - 1) = n - 1" using assms(1) by simp
  ultimately have "eviq_init mok junk q (int m) (int n) = Some (0, q1\<lparr>q_free := 0, q_next := Some ?nx\<rparr>)"
    using assms q1 by (simp add: eviq_init_def eviq_malloc_def del: of_nat_diff)
  moreover have "eviq_rep (q1\<lparr>q_free := 0, q_next := Some ?nx\<rparr>) [0..<n] (replicate m []) {}"
  proof (rule eviq_repI [of _ ?nx])
    show "chain ?nx (q_free (q1\<lparr>q_free := 0, q_next := Some ?nx\<rparr>)) [0..<n]"
      using chain_upt [of 0 n] assms by simp
    show "eviq_queues_rep ?nx (q_head (q1\<lparr>q_free := 0, q_next := Some ?nx\<rparr>))
        (q_tail (q1\<lparr>q_free := 0, q_next := Some ?nx\<rparr>)) (replicate m [])"
      using q1(3) by (auto simp: eviq_queues_rep_def)
    show "slots_partition (length ?nx) [0..<n] (replicate m []) {}"
      using assms(1) by (auto simp: slots_partition_def)
  qed (use assms q1 in auto)
  ultimately show ?thesis by blast
qed

text \<open>A failed allocation leaves no array behind, and the caller sees \<open>-1\<close>.\<close>

lemma eviq_init_heads_cases:
  assumes "\<not> (mok 0 \<and> mok 1)" and "0 < m"
  shows "\<exists>q'. eviq_init_heads mok junk q (int m) = Some (False, q')"
  using assms by (auto simp: eviq_init_heads_def eviq_malloc_def)

lemma eviq_init_fail:
  assumes "\<not> (mok 0 \<and> mok 1 \<and> mok 2)" and "0 < m"
  shows "\<exists>q'. eviq_init mok junk q (int m) n = Some (- 1, q') \<and>
              q_head q' = None \<and> q_tail q' = None \<and> q_next q' = None"
proof (cases "mok 0 \<and> mok 1")
  case True
  let ?q = "q\<lparr>q_head := None, q_tail := None, q_next := None, q_queues := int m,
              q_free_elems := n\<rparr>"
  from True obtain q1 where "eviq_init_heads mok junk ?q (int m) = Some (True, q1)"
    using eviq_init_heads_ok [of mok junk ?q m] by auto
  with True assms show ?thesis by (simp add: eviq_init_def eviq_malloc_def eviq_release_def)
next
  case False
  let ?q = "q\<lparr>q_head := None, q_tail := None, q_next := None, q_queues := int m,
              q_free_elems := n\<rparr>"
  from False obtain q1 where "eviq_init_heads mok junk ?q (int m) = Some (False, q1)"
    using eviq_init_heads_cases [OF False assms(2), of junk ?q] by blast
  then show ?thesis by (simp add: eviq_init_def eviq_release_def)
qed

section \<open>The contract of a slot queue\<close>

text \<open>
  What a client may rely on, whatever the implementation: a pool of numbered slots, each of which
  is at any time in the free list, in one queue, or owned by a client. \<open>rep q fs qs own\<close> names
  the abstract state; the laws say what each operation does to it. The lemmas of the locale are
  the composite steps the driver performs.
\<close>

locale slot_queue =
  fixes rep :: "'q \<Rightarrow> nat list \<Rightarrow> nat list list \<Rightarrow> nat set \<Rightarrow> bool"
    and free_avail :: "'q \<Rightarrow> bool"
    and free_pop :: "'q \<Rightarrow> (s16 \<times> 'q) option"
    and free_push :: "'q \<Rightarrow> s16 \<Rightarrow> 'q option"
    and avail :: "'q \<Rightarrow> int \<Rightarrow> bool option"
    and enqueue :: "'q \<Rightarrow> int \<Rightarrow> s16 \<Rightarrow> 'q option"
    and dequeue :: "'q \<Rightarrow> int \<Rightarrow> (s16 \<times> 'q) option"
  assumes slot_bound: "rep q fs qs own \<Longrightarrow> s \<in> set fs \<union> set (concat qs) \<union> own \<Longrightarrow> s < 32768"
    and partition: "rep q fs qs own \<Longrightarrow> \<exists>n. slots_partition n fs qs own"
    and free_avail: "rep q fs qs own \<Longrightarrow> free_avail q = (fs \<noteq> [])"
    and pop_empty: "rep q [] qs own \<Longrightarrow> free_pop q = Some (- 1, q)"
    and pop_cons: "rep q (s # fs) qs own \<Longrightarrow>
      \<exists>q'. free_pop q = Some (of_nat s, q') \<and> rep q' fs qs (insert s own)"
    and push: "rep q fs qs own \<Longrightarrow> s \<in> own \<Longrightarrow>
      \<exists>q'. free_push q (of_nat s) = Some q' \<and> rep q' (s # fs) qs (own - {s})"
    and avail: "rep q fs qs own \<Longrightarrow> i < length qs \<Longrightarrow> avail q (int i) = Some (qs ! i \<noteq> [])"
    and enqueue: "rep q fs qs own \<Longrightarrow> s \<in> own \<Longrightarrow> i < length qs \<Longrightarrow>
      \<exists>q'. enqueue q (int i) (of_nat s) = Some q' \<and> rep q' fs (qs[i := qs ! i @ [s]]) (own - {s})"
    and dequeue_empty: "rep q fs qs own \<Longrightarrow> i < length qs \<Longrightarrow> qs ! i = [] \<Longrightarrow>
      dequeue q (int i) = Some (- 1, q)"
    and dequeue_cons: "rep q fs qs own \<Longrightarrow> i < length qs \<Longrightarrow> qs ! i = s # r \<Longrightarrow>
      \<exists>q'. dequeue q (int i) = Some (of_nat s, q') \<and> rep q' fs (qs[i := r]) (insert s own)"
begin

lemma slot_not_none: "rep q fs qs own \<Longrightarrow> s \<in> set fs \<union> set (concat qs) \<union> own \<Longrightarrow> (of_nat s :: s16) \<noteq> - 1"
  using slot_bound of_nat_s16_neq_none by blast

lemma popped_not_owned: "rep q (s # fs) qs own \<Longrightarrow> s \<notin> own \<and> s \<notin> set (concat qs)"
  using partition [of q "s # fs" qs own] by (auto simp: slots_partition_def)

lemma queued_not_owned:
  "rep q fs qs own \<Longrightarrow> i < length qs \<Longrightarrow> s \<in> set (qs ! i) \<Longrightarrow> s \<notin> own \<and> s \<notin> set fs"
  using partition [of q fs qs own] nth_subset_concat [of i qs] by (auto simp: slots_partition_def)

text \<open>The receive path of a message: take a free slot, then enqueue it on a port.\<close>

lemma pop_enqueue:
  assumes "rep q (s # fs) qs own" and "i < length qs"
  shows "\<exists>q1 q2. free_pop q = Some (of_nat s, q1) \<and> enqueue q1 (int i) (of_nat s) = Some q2 \<and>
                 rep q1 fs qs (insert s own) \<and> rep q2 fs (qs[i := qs ! i @ [s]]) own"
proof -
  from pop_cons [OF assms(1)] obtain q1
    where q1: "free_pop q = Some (of_nat s, q1)" "rep q1 fs qs (insert s own)" by blast
  from enqueue [OF q1(2) _ assms(2), of s] obtain q2 where
    "enqueue q1 (int i) (of_nat s) = Some q2" "rep q2 fs (qs[i := qs ! i @ [s]]) (insert s own - {s})"
    by auto
  moreover have "insert s own - {s} = own" using popped_not_owned [OF assms(1)] by auto
  ultimately show ?thesis using q1 by auto
qed

text \<open>Returning a slot just taken restores the abstract state.\<close>

lemma pop_push:
  assumes "rep q (s # fs) qs own"
  shows "\<exists>q1 q2. free_pop q = Some (of_nat s, q1) \<and> free_push q1 (of_nat s) = Some q2 \<and>
                 rep q1 fs qs (insert s own) \<and> rep q2 (s # fs) qs own"
proof -
  from pop_cons [OF assms] obtain q1
    where q1: "free_pop q = Some (of_nat s, q1)" "rep q1 fs qs (insert s own)" by blast
  from push [OF q1(2), of s] obtain q2 where
    "free_push q1 (of_nat s) = Some q2" "rep q2 (s # fs) qs (insert s own - {s})" by auto
  moreover have "insert s own - {s} = own" using popped_not_owned [OF assms] by auto
  ultimately show ?thesis using q1 by auto
qed

text \<open>The consumption of a message, and one iteration of a flush: dequeue a slot, then free it.\<close>

lemma dequeue_push:
  assumes "rep q fs qs own" and "i < length qs" and "qs ! i = s # r"
  shows "\<exists>q1 q2. dequeue q (int i) = Some (of_nat s, q1) \<and> free_push q1 (of_nat s) = Some q2 \<and>
                 rep q1 fs (qs[i := r]) (insert s own) \<and> rep q2 (s # fs) (qs[i := r]) own"
proof -
  from dequeue_cons [OF assms] obtain q1
    where q1: "dequeue q (int i) = Some (of_nat s, q1)" "rep q1 fs (qs[i := r]) (insert s own)"
    by blast
  from push [OF q1(2), of s] obtain q2 where
    "free_push q1 (of_nat s) = Some q2" "rep q2 (s # fs) (qs[i := r]) (insert s own - {s})" by auto
  moreover have "insert s own - {s} = own"
    using queued_not_owned [OF assms(1,2), of s] assms(3) by auto
  ultimately show ?thesis using q1 by auto
qed

end

interpretation eviq: slot_queue eviq_rep eviq_free_avail eviq_free_pop eviq_free_push
  eviq_avail eviq_enqueue eviq_dequeue
proof (unfold_locales, goal_cases)
  case 1
  then show ?case by (rule eviq_rep_slot_bound)
next
  case 2
  then show ?case by (auto elim!: eviq_repE)
next
  case 3
  then show ?case by (rule eviq_free_avail_rep)
next
  case 4
  then show ?case by (rule eviq_free_pop_empty)
next
  case 5
  then show ?case by (rule eviq_free_pop_cons)
next
  case 6
  then show ?case by (rule eviq_free_push_rep)
next
  case 7
  then show ?case by (rule eviq_avail_rep)
next
  case 8
  then show ?case by (rule eviq_enqueue_rep)
next
  case 9
  then show ?case by (rule eviq_dequeue_empty)
next
  case 10
  then show ?case by (rule eviq_dequeue_cons)
qed

section \<open>Sequences of operations\<close>

text \<open>
  The abstract queue manager: a free list used as a stack, FIFO queues, and the owned slots. An
  operation is allowed when the caller owns the slot it gives back and names an existing queue.
\<close>

datatype eviq_op = FreePop | FreePush nat | Enqueue nat nat | Dequeue nat

record abs_queue =
  aq_free :: "nat list"
  aq_queues :: "nat list list"
  aq_own :: "nat set"

fun aq_allowed :: "abs_queue \<Rightarrow> eviq_op \<Rightarrow> bool" where
  "aq_allowed a FreePop = True"
| "aq_allowed a (FreePush s) = (s \<in> aq_own a)"
| "aq_allowed a (Enqueue i s) = (s \<in> aq_own a \<and> i < length (aq_queues a))"
| "aq_allowed a (Dequeue i) = (i < length (aq_queues a))"

fun aq_step :: "abs_queue \<Rightarrow> eviq_op \<Rightarrow> nat option \<times> abs_queue" where
  "aq_step a FreePop = (case aq_free a of
      [] \<Rightarrow> (None, a)
    | s # fs \<Rightarrow> (Some s, a\<lparr>aq_free := fs, aq_own := insert s (aq_own a)\<rparr>))"
| "aq_step a (FreePush s) = (None, a\<lparr>aq_free := s # aq_free a, aq_own := aq_own a - {s}\<rparr>)"
| "aq_step a (Enqueue i s) = (None, a\<lparr>aq_queues := (aq_queues a)[i := aq_queues a ! i @ [s]],
      aq_own := aq_own a - {s}\<rparr>)"
| "aq_step a (Dequeue i) = (case aq_queues a ! i of
      [] \<Rightarrow> (None, a)
    | s # r \<Rightarrow> (Some s, a\<lparr>aq_queues := (aq_queues a)[i := r], aq_own := insert s (aq_own a)\<rparr>))"

fun aq_run :: "abs_queue \<Rightarrow> eviq_op list \<Rightarrow> nat option list \<times> abs_queue" where
  "aq_run a [] = ([], a)"
| "aq_run a (p # ps) = (let (r, a') = aq_step a p; (rs, a'') = aq_run a' ps in (r # rs, a''))"

fun aq_all_allowed :: "abs_queue \<Rightarrow> eviq_op list \<Rightarrow> bool" where
  "aq_all_allowed a [] = True"
| "aq_all_allowed a (p # ps) = (aq_allowed a p \<and> aq_all_allowed (snd (aq_step a p)) ps)"

definition slot_result :: "s16 \<Rightarrow> nat option" where
  "slot_result r = (if r = EVIQ_NONE then None else Some (nat (sint r)))"

text \<open>The same operations on the arrays; \<open>eviq_free_push\<close> and \<open>eviq_enqueue\<close> return nothing.\<close>

fun eviq_step :: "evi_queue \<Rightarrow> eviq_op \<Rightarrow> (nat option \<times> evi_queue) option" where
  "eviq_step q FreePop = do { (r, q') \<leftarrow> eviq_free_pop q; Some (slot_result r, q') }"
| "eviq_step q (FreePush s) = do { q' \<leftarrow> eviq_free_push q (of_nat s); Some (None, q') }"
| "eviq_step q (Enqueue i s) = do { q' \<leftarrow> eviq_enqueue q (int i) (of_nat s); Some (None, q') }"
| "eviq_step q (Dequeue i) = do { (r, q') \<leftarrow> eviq_dequeue q (int i); Some (slot_result r, q') }"

fun eviq_run :: "evi_queue \<Rightarrow> eviq_op list \<Rightarrow> (nat option list \<times> evi_queue) option" where
  "eviq_run q [] = Some ([], q)"
| "eviq_run q (p # ps) = do {
     (r, q') \<leftarrow> eviq_step q p;
     (rs, q'') \<leftarrow> eviq_run q' ps;
     Some (r # rs, q'') }"

abbreviation aq_rep :: "evi_queue \<Rightarrow> abs_queue \<Rightarrow> bool" where
  "aq_rep q a \<equiv> eviq_rep q (aq_free a) (aq_queues a) (aq_own a)"

lemma slot_result_simps [simp]:
  "slot_result EVIQ_NONE = None" "s < 32768 \<Longrightarrow> slot_result (of_nat s) = Some s"
  by (auto simp: slot_result_def of_nat_s16_neq_none sint_of_nat_s16)

lemma eviq_step_refines:
  assumes rep: "aq_rep q a" and al: "aq_allowed a p"
  shows "\<exists>q'. eviq_step q p = Some (fst (aq_step a p), q') \<and> aq_rep q' (snd (aq_step a p))"
proof (cases p)
  case FreePop
  show ?thesis
  proof (cases "aq_free a")
    case Nil
    then show ?thesis using rep FreePop eviq.pop_empty [of q "aq_queues a" "aq_own a"] by simp
  next
    case (Cons s fs)
    then show ?thesis using rep FreePop eviq.pop_cons [of q s fs "aq_queues a" "aq_own a"]
        eviq.slot_bound [OF rep, of s] by auto
  qed
next
  case (FreePush s)
  then show ?thesis using al eviq.push [OF rep, of s] by auto
next
  case (Enqueue i s)
  then show ?thesis using al eviq.enqueue [OF rep, of s i] by auto
next
  case (Dequeue i)
  show ?thesis
  proof (cases "aq_queues a ! i")
    case Nil
    then show ?thesis using al Dequeue eviq.dequeue_empty [OF rep, of i] rep by simp
  next
    case (Cons s r)
    then have "s \<in> set (concat (aq_queues a))"
      using al Dequeue nth_subset_concat [of i "aq_queues a"] by auto
    then show ?thesis using Cons al Dequeue eviq.dequeue_cons [OF rep, of i s r]
        eviq.slot_bound [OF rep, of s] by auto
  qed
qed

lemma eviq_run_rep:
  "aq_rep q a \<Longrightarrow> aq_all_allowed a ps \<Longrightarrow>
   \<exists>q'. eviq_run q ps = Some (fst (aq_run a ps), q') \<and> aq_rep q' (snd (aq_run a ps))"
proof (induction ps arbitrary: q a)
  case (Cons p ps)
  then obtain q1 where "eviq_step q p = Some (fst (aq_step a p), q1)" "aq_rep q1 (snd (aq_step a p))"
    using eviq_step_refines [of q a p] by auto
  with Cons show ?case by (fastforce simp: case_prod_beta Let_def)
qed simp

definition aq_init :: "nat \<Rightarrow> nat \<Rightarrow> abs_queue" where
  "aq_init m n = \<lparr>aq_free = [0..<n], aq_queues = replicate m [], aq_own = {}\<rparr>"

text \<open>
  Property C5. Refinement of the queue manager: from \<open>eviq_init\<close> on \<open>m\<close> queues and \<open>n\<close> slots, any
  sequence of operations in which a client only gives back slots it owns runs without touching
  memory outside the arrays, returns exactly the slots of the abstract machine (free stack, FIFO
  queues), and ends with the \<open>n\<close> slots partitioned between the free list, the queues and the owners.
\<close>

theorem eviq_refines_fifo:
  assumes "0 < n" "n < 32768" "mok 0" "mok 1" "mok 2"
    and "aq_all_allowed (aq_init m n) ps"
  shows "\<exists>q0 q'. eviq_init mok junk q (int m) (int n) = Some (0, q0) \<and>
     eviq_run q0 ps = Some (fst (aq_run (aq_init m n) ps), q') \<and>
     aq_rep q' (snd (aq_run (aq_init m n) ps))"
proof -
  obtain q0 where "eviq_init mok junk q (int m) (int n) = Some (0, q0)" "aq_rep q0 (aq_init m n)"
    using eviq_init_rep [OF assms(1-5), of junk q m] by (auto simp: aq_init_def)
  then show ?thesis using eviq_run_rep assms(6) by blast
qed

definition eviq_blank :: evi_queue where
  "eviq_blank = \<lparr>q_queues = 0, q_free_elems = 0, q_head = None, q_tail = None, q_free = 0, q_next = None\<rparr>"

theorem eviq_refines_fifo_witness:
  "\<exists>q0 q'. eviq_init (\<lambda>_. True) (\<lambda>_ _. 0) eviq_blank (int 2) (int 3) = Some (0, q0) \<and>
     eviq_run q0 [FreePop, FreePop, Enqueue 1 1, Enqueue 1 0, Dequeue 1, Dequeue 1, Dequeue 1, FreePush 1] =
       Some ([Some 0, Some 1, None, None, Some 1, Some 0, None, None], q')"
  using eviq_refines_fifo [of 3 "\<lambda>_. True" 2
      "[FreePop, FreePop, Enqueue 1 1, Enqueue 1 0, Dequeue 1, Dequeue 1, Dequeue 1, FreePush 1]" "\<lambda>_ _. 0" eviq_blank]
  by (auto simp: aq_init_def numeral_2_eq_2 numeral_3_eq_3)

lemma aq_run_append:
  "aq_run a (ps @ ps') =
     (fst (aq_run a ps) @ fst (aq_run (snd (aq_run a ps)) ps'), snd (aq_run (snd (aq_run a ps)) ps'))"
  by (induction ps arbitrary: a) (auto simp: case_prod_beta Let_def)

lemma aq_all_allowed_append:
  "aq_all_allowed a (ps @ ps') = (aq_all_allowed a ps \<and> aq_all_allowed (snd (aq_run a ps)) ps')"
  by (induction ps arbitrary: a) (auto simp: case_prod_beta Let_def)

lemma aq_enqueue_all:
  assumes "i < length (aq_queues a)" "distinct ss" "set ss \<subseteq> aq_own a"
  shows "aq_all_allowed a (map (Enqueue i) ss) \<and>
         aq_run a (map (Enqueue i) ss) = (replicate (length ss) None,
           a\<lparr>aq_queues := (aq_queues a)[i := aq_queues a ! i @ ss], aq_own := aq_own a - set ss\<rparr>)"
  using assms
proof (induction ss arbitrary: a)
  case (Cons s ss)
  let ?a = "a\<lparr>aq_queues := (aq_queues a)[i := aq_queues a ! i @ [s]], aq_own := aq_own a - {s}\<rparr>"
  have "aq_all_allowed ?a (map (Enqueue i) ss) \<and>
         aq_run ?a (map (Enqueue i) ss) = (replicate (length ss) None,
           ?a\<lparr>aq_queues := (aq_queues ?a)[i := aq_queues ?a ! i @ ss], aq_own := aq_own ?a - set ss\<rparr>)"
    using Cons.prems by (intro Cons.IH) auto
  moreover have "aq_own a - {s} - set ss = aq_own a - set (s # ss)" by auto
  ultimately show ?case using Cons.prems by simp
qed simp

lemma aq_dequeue_all:
  "i < length (aq_queues a) \<Longrightarrow> aq_queues a ! i = ss \<Longrightarrow>
   aq_all_allowed a (replicate (length ss) (Dequeue i)) \<and>
   aq_run a (replicate (length ss) (Dequeue i)) = (map Some ss,
     a\<lparr>aq_queues := (aq_queues a)[i := []], aq_own := aq_own a \<union> set ss\<rparr>)"
proof (induction ss arbitrary: a)
  case Nil
  then have "(aq_queues a)[i := []] = aq_queues a" by (metis list_update_id)
  then show ?case by simp
next
  case (Cons s ss)
  let ?a = "a\<lparr>aq_queues := (aq_queues a)[i := ss], aq_own := insert s (aq_own a)\<rparr>"
  have "aq_all_allowed ?a (replicate (length ss) (Dequeue i)) \<and>
     aq_run ?a (replicate (length ss) (Dequeue i)) = (map Some ss,
       ?a\<lparr>aq_queues := (aq_queues ?a)[i := []], aq_own := aq_own ?a \<union> set ss\<rparr>)"
    using Cons.prems by (intro Cons.IH) auto
  with Cons.prems show ?case by (simp add: Un_commute insert_commute)
qed

text \<open>
  FIFO order on the arrays: a client that enqueues the slots \<open>ss\<close> it owns on a queue and
  then dequeues until the queue is empty gets first the slots that were queued before, then its
  own in the order it gave them, then \<open>EVIQ_NONE\<close>; no other queue and no free slot changes, and
  the dequeued slots are owned by the client.
\<close>

theorem eviq_fifo_order:
  assumes rep: "eviq_rep q fs qs own" and i: "i < length qs"
    and ss: "distinct ss" "set ss \<subseteq> own"
  shows "\<exists>q'. eviq_run q (map (Enqueue i) ss @ replicate (length (qs ! i @ ss)) (Dequeue i)) =
           Some (replicate (length ss) None @ map Some (qs ! i @ ss), q') \<and>
         eviq_rep q' fs (qs[i := []]) (own \<union> set (qs ! i)) \<and>
         eviq_dequeue q' (int i) = Some (EVIQ_NONE, q')"
proof -
  let ?a = "\<lparr>aq_free = fs, aq_queues = qs, aq_own = own\<rparr>"
  let ?ps = "map (Enqueue i) ss @ replicate (length (qs ! i @ ss)) (Dequeue i)"
  let ?b = "?a\<lparr>aq_queues := qs[i := qs ! i @ ss], aq_own := own - set ss\<rparr>"
  have enq: "aq_all_allowed ?a (map (Enqueue i) ss)"
      "aq_run ?a (map (Enqueue i) ss) = (replicate (length ss) None, ?b)"
    using aq_enqueue_all [of i ?a ss] i ss by auto
  have deq: "aq_all_allowed ?b (replicate (length (qs ! i @ ss)) (Dequeue i))"
      "aq_run ?b (replicate (length (qs ! i @ ss)) (Dequeue i)) = (map Some (qs ! i @ ss),
         ?b\<lparr>aq_queues := qs[i := []], aq_own := (own - set ss) \<union> set (qs ! i @ ss)\<rparr>)"
    using aq_dequeue_all [of i ?b "qs ! i @ ss"] i by auto
  have own: "(own - set ss) \<union> set (qs ! i @ ss) = own \<union> set (qs ! i)" using ss(2) by auto
  have "aq_all_allowed ?a ?ps" using enq deq by (simp add: aq_all_allowed_append)
  moreover have "aq_run ?a ?ps = (replicate (length ss) None @ map Some (qs ! i @ ss),
      ?b\<lparr>aq_queues := qs[i := []], aq_own := own \<union> set (qs ! i)\<rparr>)"
    using enq(2) deq(2) unfolding own by (simp add: aq_run_append)
  ultimately obtain q' where "eviq_run q ?ps = Some (replicate (length ss) None @ map Some (qs ! i @ ss), q')"
      and rep': "eviq_rep q' fs (qs[i := []]) (own \<union> set (qs ! i))"
    using eviq_run_rep [of q ?a ?ps] rep by auto
  moreover have "eviq_dequeue q' (int i) = Some (EVIQ_NONE, q')"
    using eviq.dequeue_empty [OF rep', of i] i by simp
  ultimately show ?thesis by blast
qed

text \<open>A queue with slot 2 queued on queue 1, slot 0 free and slot 1 owned.\<close>

definition eviq_demo :: evi_queue where
  "eviq_demo = \<lparr>q_queues = 2, q_free_elems = 3, q_head = Some [EVIQ_NONE, 2],
     q_tail = Some [EVIQ_NONE, 2], q_free = 0, q_next = Some [EVIQ_NONE, 0, EVIQ_NONE]\<rparr>"

lemma eviq_demo_rep: "eviq_rep eviq_demo [0] [[], [2]] {1}"
  by (auto simp: eviq_rep_def eviq_demo_def eviq_queues_rep_def slots_partition_def slot_or_none_def
      less_Suc_eq numeral_2_eq_2 numeral_3_eq_3)

theorem eviq_fifo_order_witness:
  "\<exists>q'. eviq_run eviq_demo [Enqueue 1 1, Dequeue 1, Dequeue 1] = Some ([None, Some 2, Some 1], q')"
  using eviq_fifo_order [OF eviq_demo_rep, of 1 "[1]"] by auto

end
