(* ===== verification/NicTypes.thy ===== *)
theory NicTypes
  imports AxPrelude
begin

text \<open>
  The data types of the NIC: limits (\<open>include/axiom_nic_limits.h\<close>), return values, flags, tokens
  and statistics (\<open>include/axiom_nic_types.h\<close>), packets (\<open>include/axiom_nic_packets.h\<close>) and
  register layouts (\<open>include/axiom_nic_regs.h\<close>). A bit field union keeps its raw word, with one
  getter and one setter per field at the bit positions of the little-endian ABI; a packed struct
  is a record together with its byte image, and the image functions are shown to be inverse.
\<close>

section \<open>Limits and constants\<close>

abbreviation (input) AXIOM_NODES_NUM :: nat where "AXIOM_NODES_NUM \<equiv> 256"
abbreviation (input) AXIOM_PORT_MAX :: int where "AXIOM_PORT_MAX \<equiv> 6"
abbreviation (input) AXIOM_PORT_NUM :: nat where "AXIOM_PORT_NUM \<equiv> 7"
abbreviation (input) AXIOM_MSG_ID_NUM :: nat where "AXIOM_MSG_ID_NUM \<equiv> 256"
abbreviation (input) AXIOM_RAW_HEADER_SIZE :: nat where "AXIOM_RAW_HEADER_SIZE \<equiv> 5"
abbreviation (input) AXIOM_RAW_PADDING :: nat where "AXIOM_RAW_PADDING \<equiv> 3"
abbreviation (input) AXIOM_RAW_PAYLOAD_MAX_SIZE :: nat where "AXIOM_RAW_PAYLOAD_MAX_SIZE \<equiv> 248"
abbreviation (input) AXIOM_RDMA_HEADER_SIZE :: nat where "AXIOM_RDMA_HEADER_SIZE \<equiv> 13"
abbreviation (input) AXIOM_RDMA_PADDING :: nat where "AXIOM_RDMA_PADDING \<equiv> 3"
abbreviation (input) AXIOM_RDMA_PAYLOAD_MAX_SIZE :: nat where "AXIOM_RDMA_PAYLOAD_MAX_SIZE \<equiv> 524280"
abbreviation (input) AXIOM_RDMA_PAYLOAD_SIZE_ORDER :: nat where "AXIOM_RDMA_PAYLOAD_SIZE_ORDER \<equiv> 3"
abbreviation (input) AXIOM_RDMA_ADDRESS_ALIGNMENT :: u32 where "AXIOM_RDMA_ADDRESS_ALIGNMENT \<equiv> 8"
abbreviation (input) AXIOM_LONG_PAYLOAD_MAX_SIZE :: nat where "AXIOM_LONG_PAYLOAD_MAX_SIZE \<equiv> 65528"

abbreviation (input) AXIOM_NULL_NODE :: u8 where "AXIOM_NULL_NODE \<equiv> 255"
abbreviation (input) AXIOM_PORT_ANY :: u8 where "AXIOM_PORT_ANY \<equiv> 255"

abbreviation (input) AXIOM_RET_OK :: int where "AXIOM_RET_OK \<equiv> 0"
abbreviation (input) AXIOM_RET_ERROR :: int where "AXIOM_RET_ERROR \<equiv> - 1"
abbreviation (input) AXIOM_RET_NOTAVAIL :: int where "AXIOM_RET_NOTAVAIL \<equiv> - 2"
abbreviation (input) AXIOM_RET_INTR :: int where "AXIOM_RET_INTR \<equiv> - 3"
abbreviation (input) AXIOM_RET_NOMEM :: int where "AXIOM_RET_NOMEM \<equiv> - 4"
abbreviation (input) AXIOM_RET_NOTREACH :: int where "AXIOM_RET_NOTREACH \<equiv> - 5"

abbreviation (input) AXIOM_TYPE_RAW_NEIGHBOUR :: u8 where "AXIOM_TYPE_RAW_NEIGHBOUR \<equiv> 2"
abbreviation (input) AXIOM_TYPE_RAW_DATA :: u8 where "AXIOM_TYPE_RAW_DATA \<equiv> 3"
abbreviation (input) AXIOM_TYPE_LONG_DATA :: u8 where "AXIOM_TYPE_LONG_DATA \<equiv> 4"
abbreviation (input) AXIOM_TYPE_RDMA_WRITE :: u8 where "AXIOM_TYPE_RDMA_WRITE \<equiv> 5"
abbreviation (input) AXIOM_TYPE_RDMA_READ :: u8 where "AXIOM_TYPE_RDMA_READ \<equiv> 6"

abbreviation (input) AXIOM_TOKEN_INVALID :: u8 where "AXIOM_TOKEN_INVALID \<equiv> 0"
abbreviation (input) AXIOM_TOKEN_PENDING :: u8 where "AXIOM_TOKEN_PENDING \<equiv> 1"
abbreviation (input) AXIOM_TOKEN_ACKED :: u8 where "AXIOM_TOKEN_ACKED \<equiv> 2"

abbreviation (input) AXIOMREG_LEN_LONG_BUF :: nat where "AXIOMREG_LEN_LONG_BUF \<equiv> 32"
abbreviation (input) AXIOMREG_LONG_BUF_FREE :: u8 where "AXIOMREG_LONG_BUF_FREE \<equiv> 1"
abbreviation (input) AXIOMREG_IRQ_RAW_TX :: u32 where "AXIOMREG_IRQ_RAW_TX \<equiv> 1"
abbreviation (input) AXIOMREG_IRQ_RAW_RX :: u32 where "AXIOMREG_IRQ_RAW_RX \<equiv> 2"
abbreviation (input) AXIOMREG_IRQ_RDMA_TX :: u32 where "AXIOMREG_IRQ_RDMA_TX \<equiv> 4"
abbreviation (input) AXIOMREG_IRQ_RDMA_RX :: u32 where "AXIOMREG_IRQ_RDMA_RX \<equiv> 8"
abbreviation (input) AXIOMREG_IRQ_ALL :: u32 where "AXIOMREG_IRQ_ALL \<equiv> 0xFFFFFFFF"
abbreviation (input) AXIOMREG_ROUTING_NULL_IF :: u32 where "AXIOMREG_ROUTING_NULL_IF \<equiv> 0xFF"

section \<open>Little-endian byte images\<close>

text \<open>
  The byte image of an integer as the ABI of the driver's targets (arm64, x86) stores it, and a
  load of a word from a byte string.
\<close>

definition le_bytes :: "nat \<Rightarrow> 'a::len word \<Rightarrow> u8 list" where
  "le_bytes n w = map (\<lambda>i. ucast (drop_bit (8 * i) w)) [0..<n]"

fun le_word :: "u8 list \<Rightarrow> 'a::len word" where
  "le_word [] = 0"
| "le_word (b # bs) = ucast b OR push_bit 8 (le_word bs)"

lemma length_le_bytes [simp]: "length (le_bytes n w) = n"
  by (simp add: le_bytes_def)

lemma nth_le_bytes [simp]: "i < n \<Longrightarrow> le_bytes n w ! i = ucast (drop_bit (8 * i) w)"
  by (simp add: le_bytes_def)

lemma bit_le_word:
  "bit (le_word bs :: 'a::len word) k \<longleftrightarrow>
     k < LENGTH('a) \<and> k div 8 < length bs \<and> bit (bs ! (k div 8)) (k mod 8)"
proof (induction bs arbitrary: k)
  case Nil
  then show ?case by simp
next
  case (Cons b bs)
  show ?case
  proof (cases "k < 8")
    case True
    then show ?thesis by (auto simp: bit_or_iff bit_push_bit_iff bit_ucast_iff)
  next
    case False
    then obtain j where j: "k = 8 + j" using le_Suc_ex by (metis linorder_not_less)
    have "\<not> bit b k" using False by (auto dest: bit_imp_le_length)
    moreover have "(8 + j) div 8 = Suc (j div 8)" by simp
    ultimately show ?thesis using Cons.IH [of j] j
      by (auto simp: bit_or_iff bit_push_bit_iff bit_ucast_iff)
  qed
qed

lemma bit_ucast_u8: "bit (ucast (w :: 'a::len word) :: u8) k \<longleftrightarrow> k < 8 \<and> bit w k"
  by (auto simp: bit_ucast_iff)

lemma le_word_le_bytes:
  assumes "LENGTH('a) \<le> 8 * n"
  shows "le_word (le_bytes n (w :: 'a::len word)) = w"
proof (rule bit_word_eqI)
  fix k assume k: "k < LENGTH('a)"
  with assms have "k div 8 < n" by (simp add: less_mult_imp_div_less mult.commute)
  with k show "bit (le_word (le_bytes n w) :: 'a word) k = bit w k"
    by (simp add: bit_le_word bit_ucast_u8 bit_drop_bit_eq)
qed

lemma le_bytes_le_word:
  assumes "length bs = n" "8 * n \<le> LENGTH('a)"
  shows "le_bytes n (le_word bs :: 'a::len word) = bs"
proof (rule nth_equalityI)
  fix i assume "i < length (le_bytes n (le_word bs :: 'a word))"
  then have i: "i < n" by simp
  show "le_bytes n (le_word bs :: 'a word) ! i = bs ! i"
  proof (rule bit_word_eqI)
    fix k assume k: "k < LENGTH(8)"
    then have "(8 * i + k) div 8 = i" "(8 * i + k) mod 8 = k" by auto
    moreover have "8 * i + k < LENGTH('a)" using i k assms(2) by simp
    ultimately show "bit (le_bytes n (le_word bs :: 'a word) ! i) k = bit (bs ! i) k"
      using i k assms(1) by (simp add: bit_ucast_u8 bit_drop_bit_eq bit_le_word)
  qed
qed (simp add: assms)

section \<open>Packets\<close>

subsection \<open>The port and type byte\<close>

type_synonym port_type = u8

definition pt_type :: "port_type \<Rightarrow> u8" where "pt_type p = p AND 7"
definition pt_port :: "port_type \<Rightarrow> u8" where "pt_port p = drop_bit 3 p AND 7"
definition pt_error :: "port_type \<Rightarrow> u8" where "pt_error p = drop_bit 6 p AND 1"
definition pt_s :: "port_type \<Rightarrow> u8" where "pt_s p = drop_bit 7 p AND 1"

definition set_pt_type :: "u8 \<Rightarrow> port_type \<Rightarrow> port_type" where
  "set_pt_type v p = (p AND NOT 7) OR (v AND 7)"
definition set_pt_port :: "u8 \<Rightarrow> port_type \<Rightarrow> port_type" where
  "set_pt_port v p = (p AND NOT 56) OR push_bit 3 (v AND 7)"
definition set_pt_error :: "u8 \<Rightarrow> port_type \<Rightarrow> port_type" where
  "set_pt_error v p = (p AND NOT 64) OR push_bit 6 (v AND 1)"
definition set_pt_s :: "u8 \<Rightarrow> port_type \<Rightarrow> port_type" where
  "set_pt_s v p = (p AND NOT 128) OR push_bit 7 (v AND 1)"

lemmas pt_defs = pt_type_def pt_port_def pt_error_def pt_s_def
  set_pt_type_def set_pt_port_def set_pt_error_def set_pt_s_def

text \<open>The four fields do not overlap: a setter changes its own field, to the masked value.\<close>

lemma below_8_cases:
  "k < (8 :: nat) \<Longrightarrow> k = 0 \<or> k = 1 \<or> k = 2 \<or> k = 3 \<or> k = 4 \<or> k = 5 \<or> k = 6 \<or> k = 7"
  by auto

lemma u8_eqI:
  assumes "bit (a :: u8) 0 = bit b 0" "bit a 1 = bit b 1" "bit a 2 = bit b 2" "bit a 3 = bit b 3"
    "bit a 4 = bit b 4" "bit a 5 = bit b 5" "bit a 6 = bit b 6" "bit a 7 = bit b 7"
  shows "a = b"
proof (rule bit_word_eqI)
  fix k assume "k < LENGTH(8)"
  with below_8_cases [of k] assms show "bit a k = bit b k" by auto
qed

lemmas u8_bits = bit_and_iff bit_or_iff bit_not_iff bit_push_bit_iff bit_drop_bit_eq

lemma pt_set_same [simp]:
  "pt_type (set_pt_type v p) = v AND 7" "pt_port (set_pt_port v p) = v AND 7"
  "pt_error (set_pt_error v p) = v AND 1" "pt_s (set_pt_s v p) = v AND 1"
  by (rule u8_eqI; simp add: pt_defs u8_bits)+

lemma pt_set_other [simp]:
  "pt_type (set_pt_port v p) = pt_type p" "pt_type (set_pt_error v p) = pt_type p"
  "pt_type (set_pt_s v p) = pt_type p" "pt_port (set_pt_type v p) = pt_port p"
  "pt_port (set_pt_error v p) = pt_port p" "pt_port (set_pt_s v p) = pt_port p"
  "pt_error (set_pt_type v p) = pt_error p" "pt_error (set_pt_port v p) = pt_error p"
  "pt_error (set_pt_s v p) = pt_error p" "pt_s (set_pt_type v p) = pt_s p"
  "pt_s (set_pt_port v p) = pt_s p" "pt_s (set_pt_error v p) = pt_s p"
  by (rule u8_eqI; simp add: pt_defs u8_bits)+

subsection \<open>RAW packets\<close>

text \<open>
  \<open>axiom_raw_tx_hdr_t\<close> and \<open>axiom_raw_rx_hdr_t\<close> are laid over each other by a union and differ
  only in the name of the node field: the destination when sending, the source when receiving.
\<close>

record raw_hdr =
  rh_port_type :: port_type
  rh_node :: u8
  rh_msg_id :: u8
  rh_payload_size :: u8
  rh_padding :: u8

record raw_msg =
  rm_header :: raw_hdr
  rm_payload :: "u8 list"

abbreviation (input) RAW_PAYLOAD_LEN :: nat where "RAW_PAYLOAD_LEN \<equiv> 251"

definition raw_hdr_bytes :: "raw_hdr \<Rightarrow> u8 list" where
  "raw_hdr_bytes h = [rh_port_type h, rh_node h, rh_msg_id h, rh_payload_size h, rh_padding h]"

definition raw_hdr_of_bytes :: "u8 list \<Rightarrow> raw_hdr" where
  "raw_hdr_of_bytes bs = \<lparr>rh_port_type = bs ! 0, rh_node = bs ! 1, rh_msg_id = bs ! 2,
     rh_payload_size = bs ! 3, rh_padding = bs ! 4\<rparr>"

definition raw_msg_bytes :: "raw_msg \<Rightarrow> u8 list" where
  "raw_msg_bytes m = raw_hdr_bytes (rm_header m) @ rm_payload m"

definition raw_msg_of_bytes :: "u8 list \<Rightarrow> raw_msg" where
  "raw_msg_of_bytes bs = \<lparr>rm_header = raw_hdr_of_bytes bs, rm_payload = drop 5 bs\<rparr>"

definition raw_msg_wf :: "raw_msg \<Rightarrow> bool" where
  "raw_msg_wf m = (length (rm_payload m) = RAW_PAYLOAD_LEN)"

lemma length_raw_hdr_bytes [simp]: "length (raw_hdr_bytes h) = 5"
  by (simp add: raw_hdr_bytes_def)

lemma length_raw_msg_bytes: "raw_msg_wf m \<Longrightarrow> length (raw_msg_bytes m) = 256"
  by (simp add: raw_msg_bytes_def raw_msg_wf_def)

lemma raw_hdr_of_bytes_append [simp]: "raw_hdr_of_bytes (raw_hdr_bytes h @ bs) = h"
  by (simp add: raw_hdr_of_bytes_def raw_hdr_bytes_def numeral_2_eq_2 numeral_3_eq_3
      numeral_eq_Suc)

lemma raw_msg_of_bytes_inverse [simp]: "raw_msg_of_bytes (raw_msg_bytes m) = m"
  by (simp add: raw_msg_of_bytes_def raw_msg_bytes_def)

subsection \<open>RDMA packets\<close>

text \<open>
  In \<open>axiom_rdma_hdr_t\<close> the word at offset 5 is \<open>tx.src_addr\<close> or \<open>rx.dst_addr\<close>; the word at
  offset 9 is \<open>tx.dst_addr\<close> and padding in the receive view.
\<close>

record rdma_hdr =
  dh_port_type :: port_type
  dh_node :: u8
  dh_msg_id :: u8
  dh_payload_size :: u16
  dh_addr0 :: u32
  dh_addr1 :: u32
  dh_pad0 :: u8
  dh_pad1 :: u8
  dh_pad2 :: u8

abbreviation (input) tx_src_addr :: "rdma_hdr \<Rightarrow> u32" where "tx_src_addr \<equiv> dh_addr0"
abbreviation (input) tx_dst_addr :: "rdma_hdr \<Rightarrow> u32" where "tx_dst_addr \<equiv> dh_addr1"
abbreviation (input) rx_dst_addr :: "rdma_hdr \<Rightarrow> u32" where "rx_dst_addr \<equiv> dh_addr0"

definition rdma_hdr_bytes :: "rdma_hdr \<Rightarrow> u8 list" where
  "rdma_hdr_bytes h = [dh_port_type h, dh_node h, dh_msg_id h] @ le_bytes 2 (dh_payload_size h) @
     le_bytes 4 (dh_addr0 h) @ le_bytes 4 (dh_addr1 h) @ [dh_pad0 h, dh_pad1 h, dh_pad2 h]"

definition rdma_hdr_of_bytes :: "u8 list \<Rightarrow> rdma_hdr" where
  "rdma_hdr_of_bytes bs = \<lparr>dh_port_type = bs ! 0, dh_node = bs ! 1, dh_msg_id = bs ! 2,
     dh_payload_size = le_word (take 2 (drop 3 bs)), dh_addr0 = le_word (take 4 (drop 5 bs)),
     dh_addr1 = le_word (take 4 (drop 9 bs)), dh_pad0 = bs ! 13, dh_pad1 = bs ! 14,
     dh_pad2 = bs ! 15\<rparr>"

definition rdma_hdr_zero :: rdma_hdr where
  "rdma_hdr_zero = \<lparr>dh_port_type = 0, dh_node = 0, dh_msg_id = 0, dh_payload_size = 0,
     dh_addr0 = 0, dh_addr1 = 0, dh_pad0 = 0, dh_pad1 = 0, dh_pad2 = 0\<rparr>"

lemma length_rdma_hdr_bytes [simp]: "length (rdma_hdr_bytes h) = 16"
  by (simp add: rdma_hdr_bytes_def)

lemma rdma_hdr_of_bytes_inverse [simp]: "rdma_hdr_of_bytes (rdma_hdr_bytes h) = h"
  by (simp add: rdma_hdr_of_bytes_def rdma_hdr_bytes_def nth_append le_word_le_bytes)

record long_msg =
  lm_header :: rdma_hdr
  lm_payload :: u64

section \<open>Tokens\<close>

text \<open>\<open>union axiom_token\<close>: message id, status and value at bits 0, 8 and 32 of the raw word.\<close>

type_synonym token = u64

definition tk_msg_id :: "token \<Rightarrow> u8" where "tk_msg_id t = ucast t"
definition tk_status :: "token \<Rightarrow> u8" where "tk_status t = ucast (drop_bit 8 t)"
definition tk_value :: "token \<Rightarrow> u32" where "tk_value t = ucast (drop_bit 32 t)"

definition set_tk_msg_id :: "u8 \<Rightarrow> token \<Rightarrow> token" where
  "set_tk_msg_id v t = (t AND NOT 0xFF) OR ucast v"
definition set_tk_status :: "u8 \<Rightarrow> token \<Rightarrow> token" where
  "set_tk_status v t = (t AND NOT 0xFF00) OR push_bit 8 (ucast v)"
definition set_tk_value :: "u32 \<Rightarrow> token \<Rightarrow> token" where
  "set_tk_value v t = (t AND NOT 0xFFFFFFFF00000000) OR push_bit 32 (ucast v)"

definition AXIOM_TOKEN_INVALIDATE :: "token \<Rightarrow> token" where
  "AXIOM_TOKEN_INVALIDATE t = set_tk_status AXIOM_TOKEN_INVALID t"
definition AXIOM_TOKEN_IS_VALID :: "token \<Rightarrow> bool" where
  "AXIOM_TOKEN_IS_VALID t = (tk_status t \<noteq> AXIOM_TOKEN_INVALID)"
definition AXIOM_TOKEN_IS_PENDING :: "token \<Rightarrow> bool" where
  "AXIOM_TOKEN_IS_PENDING t = (tk_status t = AXIOM_TOKEN_PENDING)"
definition AXIOM_TOKEN_IS_ACKED :: "token \<Rightarrow> bool" where
  "AXIOM_TOKEN_IS_ACKED t = (tk_status t = AXIOM_TOKEN_ACKED)"

lemma token_masks:
  "(0xFF :: token) = mask 8" "(0xFF00 :: token) = push_bit 8 (mask 8)"
  "(0xFFFFFFFF00000000 :: token) = push_bit 32 (mask 32)"
  by (simp_all add: mask_eq_exp_minus_1 push_bit_eq_mult)

lemmas token_defs = tk_msg_id_def tk_status_def tk_value_def set_tk_msg_id_def set_tk_status_def
  set_tk_value_def

lemmas token_bits = token_defs token_masks bit_and_iff bit_or_iff bit_not_iff bit_push_bit_iff
  bit_drop_bit_eq bit_ucast_iff bit_mask_iff

lemma token_set_same [simp]:
  "tk_msg_id (set_tk_msg_id v t) = v" "tk_status (set_tk_status v t) = v"
  "tk_value (set_tk_value x t) = x"
  by (rule bit_word_eqI; simp add: token_bits)+

lemma token_set_other [simp]:
  "tk_msg_id (set_tk_status v t) = tk_msg_id t" "tk_msg_id (set_tk_value x t) = tk_msg_id t"
  "tk_status (set_tk_msg_id v t) = tk_status t" "tk_status (set_tk_value x t) = tk_status t"
  "tk_value (set_tk_msg_id v t) = tk_value t" "tk_value (set_tk_status v t) = tk_value t"
  by (rule bit_word_eqI; auto simp: token_bits dest: bit_imp_le_length)+

section \<open>Registers\<close>

text \<open>\<open>axiomreg_long_buf_t\<close>: address, size, message id and flags of a LONG receive buffer.\<close>

record long_buf =
  lb_address :: u32
  lb_size :: u16
  lb_msg_id :: u8
  lb_flags :: u8

definition long_buf_raw :: "long_buf \<Rightarrow> u64" where
  "long_buf_raw b = le_word (le_bytes 4 (lb_address b) @ le_bytes 2 (lb_size b) @ [lb_msg_id b, lb_flags b])"

section \<open>Statistics\<close>

text \<open>
  \<open>struct axiom_stats\<close>: one 64-bit counter per field; \<open>stat_add\<close> is the \<open>+=\<close> of the sources and
  wraps as it does.
\<close>

datatype stat =
    irq | irq_raw_tx | irq_raw_rx | irq_rdma_tx | irq_rdma_rx
  | pkt_raw_tx | pkt_raw_rx | pkt_long_tx | pkt_long_rx | pkt_rdma_tx | pkt_rdma_rx
  | bytes_raw_tx | bytes_raw_rx | bytes_long_tx | bytes_long_rx | bytes_rdma_tx | bytes_rdma_rx
  | err_raw_tx | err_raw_rx | err_long_tx | err_long_rx | err_rdma_tx | err_rdma_rx
  | wait_raw_tx | wait_raw_rx | wait_long_tx | wait_long_rx | wait_rdma_tx | wait_rdma_rx
  | poll_raw_tx | poll_raw_rx | poll_long_tx | poll_long_rx | poll_rdma_tx | poll_rdma_rx
  | poll_avail_raw_tx | poll_avail_raw_rx | poll_avail_long_tx | poll_avail_long_rx
  | poll_avail_rdma_tx | poll_avail_rdma_rx
  | retries_rdma | discarded_rdma

type_synonym stats = "stat \<Rightarrow> u64"

definition stat_add :: "stat \<Rightarrow> u64 \<Rightarrow> stats \<Rightarrow> stats" where
  "stat_add k n st = st(k := st k + n)"

lemma stat_add_apply [simp]: "stat_add k n st j = (if j = k then st k + n else st j)"
  by (simp add: stat_add_def)

end
