(* ===== verification/UserCopy.thy ===== *)
theory UserCopy
  imports NicTypes
begin

text \<open>
  The driver's replacements of \<open>copy_from_user\<close> and \<open>copy_to_user\<close>
  (\<open>axiom_netdev_driver/axiom_netdev_common.c\<close>, lines 40 to 139), which work around alignment
  faults on the uncached RDMA zone. The primitives of the kernel they call (\<open>access_ok\<close>,
  \<open>__copy_from_user\<close>, \<open>__get_user\<close>, \<open>__copy_to_user\<close>, \<open>__put_user\<close>) are a parameter, the record
  \<open>uaccess\<close>; \<open>uaccess_spec\<close> is what the kernel documents of them, relative to a view of the user
  memory as a partial map from addresses to bytes.
\<close>

section \<open>The kernel primitives\<close>

text \<open>
  \<open>ua_copy_from\<close> gives the number of bytes left uncopied and the bytes written to the destination;
  the results of \<open>__get_user\<close> and \<open>__put_user\<close> are not kept because the callers ignore them.
\<close>

record 'u uaccess =
  ua_access_ok :: "u64 \<Rightarrow> u64 \<Rightarrow> bool"
  ua_copy_from :: "'u \<Rightarrow> u64 \<Rightarrow> u64 \<Rightarrow> u64 \<times> u8 list"
  ua_get8 :: "'u \<Rightarrow> u64 \<Rightarrow> u8"
  ua_copy_to :: "'u \<Rightarrow> u64 \<Rightarrow> u8 list \<Rightarrow> u64 \<times> 'u"
  ua_put8 :: "'u \<Rightarrow> u64 \<Rightarrow> u8 \<Rightarrow> 'u"

fun umem_read :: "(u64 \<Rightarrow> u8 option) \<Rightarrow> u64 \<Rightarrow> nat \<Rightarrow> u8 option list" where
  "umem_read m a 0 = []"
| "umem_read m a (Suc n) = m a # umem_read m (a + 1) n"

fun umem_write :: "(u64 \<Rightarrow> u8 option) \<Rightarrow> u64 \<Rightarrow> u8 list \<Rightarrow> u64 \<Rightarrow> u8 option" where
  "umem_write m a [] = m"
| "umem_write m a (b # bs) = umem_write (m(a \<mapsto> b)) (a + 1) bs"

definition readable :: "(u64 \<Rightarrow> u8 option) \<Rightarrow> u64 \<Rightarrow> nat \<Rightarrow> bool" where
  "readable m a n = (None \<notin> set (umem_read m a n))"

definition uaccess_spec :: "'u uaccess \<Rightarrow> ('u \<Rightarrow> u64 \<Rightarrow> u8 option) \<Rightarrow> bool" where
  "uaccess_spec ua view \<longleftrightarrow>
     (\<forall>u a n bs. ua_copy_from ua u a n = (0, bs) \<longrightarrow>
        map Some bs = umem_read (view u) a (unat n)) \<and>
     (\<forall>u a n. readable (view u) a (unat n) \<longrightarrow> fst (ua_copy_from ua u a n) = 0) \<and>
     (\<forall>u a b. view u a = Some b \<longrightarrow> ua_get8 ua u a = b) \<and>
     (\<forall>u a bs u'. ua_copy_to ua u a bs = (0, u') \<longrightarrow>
        view u' = umem_write (view u) a bs) \<and>
     (\<forall>u a bs. readable (view u) a (length bs) \<longrightarrow> fst (ua_copy_to ua u a bs) = 0) \<and>
     (\<forall>u a b. view u a \<noteq> None \<longrightarrow> view (ua_put8 ua u a b) = (view u)(a \<mapsto> b))"

section \<open>The copy functions\<close>

abbreviation (input) AXIOM_COPY_ALIGN :: u64 where "AXIOM_COPY_ALIGN \<equiv> 8"
abbreviation (input) AXIOM_COPY_MASK :: u64 where "AXIOM_COPY_MASK \<equiv> 7"

definition odd_part :: "u64 \<Rightarrow> u64" where
  "odd_part p = AXIOM_COPY_ALIGN - (p AND AXIOM_COPY_MASK)"

fun get_user_loop :: "'u uaccess \<Rightarrow> 'u \<Rightarrow> u64 \<Rightarrow> nat \<Rightarrow> u8 list" where
  "get_user_loop ua u from 0 = []"
| "get_user_loop ua u from (Suc k) = ua_get8 ua u from # get_user_loop ua u (from + 1) k"

text \<open>
  \<open>axiom_copy_from_user(to, from, n)\<close>: the number of bytes not copied and the bytes stored from \<open>to\<close>
  on. The caller stores them in the kernel object and notices when they do not fit.
\<close>

definition axiom_copy_from_user :: "'u uaccess \<Rightarrow> 'u \<Rightarrow> u64 \<Rightarrow> u64 \<Rightarrow> u64 \<Rightarrow> u64 \<times> u8 list" where
  "axiom_copy_from_user ua u to from n =
     (if \<not> ua_access_ok ua from n then (n, [])
      else
        let odd_to = odd_part to; odd_from = odd_part from in
        if odd_to = AXIOM_COPY_ALIGN \<and> odd_from = AXIOM_COPY_ALIGN then ua_copy_from ua u from n
        else if odd_to \<noteq> odd_from then (0, get_user_loop ua u from (unat n))
        else
          let bs = get_user_loop ua u from (unat odd_to);
              (r, bs') = ua_copy_from ua u (from + odd_to) (n - odd_to)
          in (r, bs @ bs'))"

fun put_user_loop :: "'u uaccess \<Rightarrow> 'u \<Rightarrow> u64 \<Rightarrow> u8 list \<Rightarrow> nat \<Rightarrow> 'u option" where
  "put_user_loop ua u to bs 0 = Some u"
| "put_user_loop ua u to [] (Suc k) = None"
| "put_user_loop ua u to (b # bs) (Suc k) = put_user_loop ua (ua_put8 ua u to b) (to + 1) bs k"

text \<open>
  \<open>axiom_copy_to_user(to, from, n)\<close>: \<open>src\<close> holds the bytes of the kernel object from the address
  \<open>from\<close> on; reading behind its end is undefined behaviour.
\<close>

definition copy_to_from :: "'u uaccess \<Rightarrow> 'u \<Rightarrow> u64 \<Rightarrow> u8 list \<Rightarrow> u64 \<Rightarrow> (u64 \<times> 'u) option" where
  "copy_to_from ua u to src n =
     (if unat n \<le> length src then Some (ua_copy_to ua u to (take (unat n) src)) else None)"

definition axiom_copy_to_user :: "'u uaccess \<Rightarrow> 'u \<Rightarrow> u64 \<Rightarrow> u64 \<Rightarrow> u8 list \<Rightarrow> u64 \<Rightarrow> (u64 \<times> 'u) option" where
  "axiom_copy_to_user ua u to from src n =
     (if \<not> ua_access_ok ua to n then Some (n, u)
      else
        let odd_to = odd_part to; odd_from = odd_part from in
        if odd_to = AXIOM_COPY_ALIGN \<and> odd_from = AXIOM_COPY_ALIGN then copy_to_from ua u to src n
        else if odd_to \<noteq> odd_from then do {
          u \<leftarrow> put_user_loop ua u to src (unat n);
          Some (0, u) }
        else do {
          u \<leftarrow> put_user_loop ua u to src (unat odd_to);
          copy_to_from ua u (to + odd_to) (drop (unat odd_to) src) (n - odd_to) })"

section \<open>Correctness\<close>

text \<open>
  The copies are right unless both addresses are misaligned by the same amount and \<open>n\<close> does not
  reach the next aligned address: the byte loop of that case runs to the alignment boundary
  whatever \<open>n\<close> is.
\<close>

definition copy_aligned :: "u64 \<Rightarrow> u64 \<Rightarrow> u64 \<Rightarrow> bool" where
  "copy_aligned to from n \<longleftrightarrow>
     odd_part to \<noteq> odd_part from \<or> odd_part to = AXIOM_COPY_ALIGN \<or> odd_part to \<le> n"

lemma uaccess_specD:
  assumes "uaccess_spec ua view"
  shows "ua_copy_from ua u a n = (0, bs) \<Longrightarrow> map Some bs = umem_read (view u) a (unat n)"
    "readable (view u) a (unat n) \<Longrightarrow> fst (ua_copy_from ua u a n) = 0"
    "view u a = Some b \<Longrightarrow> ua_get8 ua u a = b"
    "ua_copy_to ua u a bs = (0, u') \<Longrightarrow> view u' = umem_write (view u) a bs"
    "readable (view u) a (length bs) \<Longrightarrow> fst (ua_copy_to ua u a bs) = 0"
    "view u a \<noteq> None \<Longrightarrow> view (ua_put8 ua u a b) = (view u)(a \<mapsto> b)"
  using assms by (auto simp: uaccess_spec_def)

lemma length_umem_read [simp]: "length (umem_read m a n) = n"
  by (induction n arbitrary: a) auto

lemma umem_read_add: "umem_read m a (i + j) = umem_read m a i @ umem_read m (a + of_nat i) j"
  by (induction i arbitrary: a) (simp_all add: add.assoc)

lemma readable_add:
  "readable m a (i + j) \<longleftrightarrow> readable m a i \<and> readable m (a + of_nat i) j"
  by (auto simp: readable_def umem_read_add)

lemma umem_write_append:
  "umem_write m a (xs @ ys) = umem_write (umem_write m a xs) (a + of_nat (length xs)) ys"
  by (induction xs arbitrary: m a) (simp_all add: add.assoc)

lemma readable_write:
  "readable m a n \<Longrightarrow> readable (umem_write m b bs) a n"
proof (induction bs arbitrary: m b)
  case (Cons x bs)
  have "readable (m(b \<mapsto> x)) a n" using Cons.prems
    by (induction n arbitrary: a) (auto simp: readable_def)
  then show ?case using Cons.IH by simp
qed simp

lemma get_user_loop_view:
  assumes "uaccess_spec ua view"
  shows "readable (view u) a k \<Longrightarrow> map Some (get_user_loop ua u a k) = umem_read (view u) a k"
proof (induction k arbitrary: a)
  case (Suc k)
  then obtain b where "view u a = Some b" by (cases "view u a") (auto simp: readable_def)
  moreover from this have "ua_get8 ua u a = b" by (rule uaccess_specD(3) [OF assms])
  ultimately show ?case using Suc by (simp add: readable_def)
qed simp

lemma put_user_loop_view:
  assumes "uaccess_spec ua view"
  shows "readable (view u) a k \<Longrightarrow> k \<le> length bs \<Longrightarrow>
    \<exists>u'. put_user_loop ua u a bs k = Some u' \<and> view u' = umem_write (view u) a (take k bs)"
proof (induction k arbitrary: u a bs)
  case (Suc k)
  then obtain b r where bs: "bs = b # r" by (cases bs) auto
  from Suc have "view u a \<noteq> None" by (cases "view u a") (auto simp: readable_def)
  then have v: "view (ua_put8 ua u a b) = (view u)(a \<mapsto> b)" by (rule uaccess_specD(6) [OF assms])
  have "readable (view u) (a + 1) k" using Suc.prems by (simp add: readable_def)
  then have "readable (view (ua_put8 ua u a b)) (a + 1) k"
    using readable_write [of "view u" "a + 1" k a "[b]"] v by simp
  with Suc.prems bs obtain u' where "put_user_loop ua (ua_put8 ua u a b) (a + 1) r k = Some u'"
      "view u' = umem_write (view (ua_put8 ua u a b)) (a + 1) (take k r)"
    using Suc.IH [of "ua_put8 ua u a b" "a + 1" r] by auto
  with bs v show ?case by simp
qed simp

lemma copy_from_view:
  assumes "uaccess_spec ua view" "readable (view u) a (unat n)"
  shows "\<exists>bs. ua_copy_from ua u a n = (0, bs) \<and> map Some bs = umem_read (view u) a (unat n)"
proof -
  from uaccess_specD(2) [OF assms] obtain bs where "ua_copy_from ua u a n = (0, bs)"
    by (cases "ua_copy_from ua u a n") auto
  then show ?thesis using uaccess_specD(1) [OF assms(1)] by blast
qed

lemma copy_to_view:
  assumes "uaccess_spec ua view" "readable (view u) a (length bs)"
  shows "\<exists>u'. ua_copy_to ua u a bs = (0, u') \<and> view u' = umem_write (view u) a bs"
proof -
  from uaccess_specD(5) [OF assms] obtain u' where "ua_copy_to ua u a bs = (0, u')"
    by (cases "ua_copy_to ua u a bs") auto
  then show ?thesis using uaccess_specD(4) [OF assms(1)] by blast
qed

lemma odd_part_split:
  assumes "odd_part to \<le> n" shows "unat n = unat (odd_part to) + unat (n - odd_part to)"
  using assms by (simp add: unat_sub word_le_nat_alt)

text \<open>The form the handlers use: all bytes arrive, in order.\<close>

lemma axiom_copy_from_user_ok:
  assumes spec: "uaccess_spec ua view" and ok: "ua_access_ok ua from n"
    and rd: "readable (view u) from (unat n)" and al: "copy_aligned to from n"
  shows "\<exists>bs. axiom_copy_from_user ua u to from n = (0, bs) \<and>
              map Some bs = umem_read (view u) from (unat n)"
proof (cases "odd_part to = odd_part from \<and> odd_part to \<noteq> AXIOM_COPY_ALIGN")
  case False
  then show ?thesis using ok copy_from_view [OF spec rd] get_user_loop_view [OF spec rd]
    by (auto simp: axiom_copy_from_user_def Let_def)
next
  case True
  let ?o = "odd_part to"
  from True al have n: "unat n = unat ?o + unat (n - ?o)"
    by (intro odd_part_split) (auto simp: copy_aligned_def)
  with rd have r1: "readable (view u) from (unat ?o)"
    and r2: "readable (view u) (from + ?o) (unat (n - ?o))" by (simp_all add: readable_add)
  from copy_from_view [OF spec r2] obtain bs where
    bs: "ua_copy_from ua u (from + ?o) (n - ?o) = (0, bs)"
      "map Some bs = umem_read (view u) (from + ?o) (unat (n - ?o))" by blast
  then show ?thesis using True ok get_user_loop_view [OF spec r1] n
    by (auto simp: axiom_copy_from_user_def Let_def umem_read_add)
qed

lemma axiom_copy_to_user_ok:
  assumes spec: "uaccess_spec ua view" and ok: "ua_access_ok ua to n"
    and rd: "readable (view u) to (unat n)" and al: "copy_aligned to from n"
    and len: "unat n \<le> length src"
  shows "\<exists>u'. axiom_copy_to_user ua u to from src n = Some (0, u') \<and>
              view u' = umem_write (view u) to (take (unat n) src)"
proof (cases "odd_part to = odd_part from \<and> odd_part to \<noteq> AXIOM_COPY_ALIGN")
  case False
  have "\<exists>u'. ua_copy_to ua u to (take (unat n) src) = (0, u') \<and>
      view u' = umem_write (view u) to (take (unat n) src)"
    using copy_to_view [OF spec, of u to "take (unat n) src"] rd len by (simp add: min_absorb2)
  with False show ?thesis using ok len put_user_loop_view [OF spec rd len]
    by (auto simp: axiom_copy_to_user_def Let_def copy_to_from_def)
next
  case True
  let ?o = "odd_part to"
  from True al have n: "unat n = unat ?o + unat (n - ?o)"
    by (intro odd_part_split) (auto simp: copy_aligned_def)
  with rd have r1: "readable (view u) to (unat ?o)"
    and r2: "readable (view u) (to + ?o) (unat (n - ?o))" by (simp_all add: readable_add)
  from n len have lo: "unat ?o \<le> length src" by simp
  from put_user_loop_view [OF spec r1 lo] obtain u1 where
    u1: "put_user_loop ua u to src (unat ?o) = Some u1"
      "view u1 = umem_write (view u) to (take (unat ?o) src)" by blast
  let ?bs = "take (unat (n - ?o)) (drop (unat ?o) src)"
  have fits: "unat (n - ?o) \<le> length src - unat ?o" using len n by simp
  then have "length ?bs = unat (n - ?o)" by simp
  then have "readable (view u1) (to + ?o) (length ?bs)" using r2 u1(2) readable_write by metis
  from copy_to_view [OF spec this] obtain u2 where u2: "ua_copy_to ua u1 (to + ?o) ?bs = (0, u2)"
      "view u2 = umem_write (view u1) (to + ?o) ?bs" by blast
  have "take (unat n) src = take (unat ?o) src @ ?bs" unfolding n by (rule take_add)
  then have "view u2 = umem_write (view u) to (take (unat n) src)"
    using u2(2) u1(2) lo by (simp add: umem_write_append min_absorb2)
  moreover have "axiom_copy_to_user ua u to from src n = Some (0, u2)"
    using True ok u1(1) u2(1) fits by (auto simp: axiom_copy_to_user_def Let_def copy_to_from_def)
  ultimately show ?thesis by blast
qed

text \<open>A refused range leaves the user memory alone and reports every byte as uncopied.\<close>

lemma axiom_copy_refused:
  "\<not> ua_access_ok ua from n \<Longrightarrow> axiom_copy_from_user ua u to from n = (n, [])"
  "\<not> ua_access_ok ua to n \<Longrightarrow> axiom_copy_to_user ua u to from src n = Some (n, u)"
  by (simp_all add: axiom_copy_from_user_def axiom_copy_to_user_def)

section \<open>Reading back what was written\<close>

lemma unat_pred_word:
  assumes "(x :: u64) \<noteq> a" shows "unat (x - (a + 1)) = unat (x - a) - 1"
proof -
  have "x - (a + 1) = (x - a) - 1" by simp
  moreover have "unat ((x - a) - 1) = unat (x - a) - 1"
    using assms by (intro unat_minus_one) simp
  ultimately show ?thesis by metis
qed

lemma unat_ge_1_word: "(x :: u64) \<noteq> a \<Longrightarrow> 0 < unat (x - a)"
  by (simp add: unat_gt_0)

lemma umem_write_apply:
  "length bs \<le> 2 ^ 64 \<Longrightarrow>
   umem_write m a bs x = (if unat (x - a) < length bs then Some (bs ! unat (x - a)) else m x)"
proof (induction bs arbitrary: m a)
  case (Cons b bs)
  show ?case
  proof (cases "x = a")
    case True
    have "unat (- 1 :: u64) = 2 ^ 64 - 1" by (simp add: unsigned_minus_1_eq_mask mask_eq_exp_minus_1)
    with Cons True show ?thesis by simp
  next
    case False
    with Cons unat_pred_word [OF False] unat_ge_1_word [OF False] show ?thesis
      by (auto simp: nth_Cons split: nat.splits)
  qed
qed simp

lemma umem_read_nth: "i < n \<Longrightarrow> umem_read m a n ! i = m (a + of_nat i)"
proof (induction n arbitrary: a i)
  case (Suc n)
  then show ?case by (cases i) (simp_all add: add.assoc)
qed simp

lemma umem_read_write:
  assumes "length bs < 2 ^ 64"
  shows "umem_read (umem_write m a bs) a (length bs) = map Some bs"
proof (rule nth_equalityI)
  fix i assume "i < length (umem_read (umem_write m a bs) a (length bs))"
  then have i: "i < length bs" by simp
  with assms have "unat (of_nat i :: u64) = i" 
    by (simp add: unsigned_of_nat take_bit_nat_eq_self)
  with i assms show "umem_read (umem_write m a bs) a (length bs) ! i = map Some bs ! i"
    by (simp add: umem_read_nth umem_write_apply)
qed simp

text \<open>A concrete user memory, used by the witnesses: a partial map, with the addresses below \<open>2 ^ 48\<close>.\<close>

definition umem_ua :: "(u64 \<Rightarrow> u8 option) uaccess" where
  "umem_ua = \<lparr>ua_access_ok = \<lambda>a n. unat a + unat n \<le> 2 ^ 48,
     ua_copy_from = \<lambda>u a n. if readable u a (unat n) then (0, map the (umem_read u a (unat n))) else (n, []),
     ua_get8 = \<lambda>u a. case u a of Some b \<Rightarrow> b | None \<Rightarrow> 0,
     ua_copy_to = \<lambda>u a bs. if readable u a (length bs) then (0, umem_write u a bs) else (1, u),
     ua_put8 = \<lambda>u a b. if u a = None then u else u(a \<mapsto> b)\<rparr>"

lemma umem_read_numeral:
  "umem_read m a (numeral k) = m a # umem_read m (a + 1) (pred_numeral k)"
  by (simp add: numeral_eq_Suc)

lemma map_the_readable: "readable m a n \<Longrightarrow> map Some (map the (umem_read m a n)) = umem_read m a n"
  unfolding readable_def map_map by (intro map_idI) (metis comp_def option.collapse)

lemma umem_ua_spec: "uaccess_spec umem_ua (\<lambda>u. u)"
proof -
  have "readable u a 0" for u :: "u64 \<Rightarrow> u8 option" and a by (simp add: readable_def)
  then show ?thesis
    by (auto simp: uaccess_spec_def umem_ua_def map_the_readable simp del: map_map split: if_splits)
qed

section \<open>Properties\<close>

text \<open>
  Property C9. A copy of \<open>n\<close> bytes from user memory into a kernel buffer and back out to another place is
  faithful, whatever the alignment of the four addresses (except the case the next property
  describes): both calls report no uncopied byte, the buffer holds the source bytes, and reading
  the destination afterwards gives the bytes of the source.
\<close>

theorem axiom_copy_roundtrip:
  assumes spec: "uaccess_spec ua view"
    and src: "ua_access_ok ua from n" "readable (view u) from (unat n)" "copy_aligned kbuf from n"
    and dst: "ua_access_ok ua to n" "readable (view u) to (unat n)" "copy_aligned to kbuf n"
  shows "\<exists>bs u'. axiom_copy_from_user ua u kbuf from n = (0, bs) \<and> length bs = unat n \<and>
     axiom_copy_to_user ua u to kbuf bs n = Some (0, u') \<and>
     umem_read (view u') to (unat n) = umem_read (view u) from (unat n)"
proof -
  from axiom_copy_from_user_ok [OF spec src] obtain bs where
    bs: "axiom_copy_from_user ua u kbuf from n = (0, bs)" "map Some bs = umem_read (view u) from (unat n)"
    by blast
  then have len: "length bs = unat n" by (metis length_map length_umem_read)
  from axiom_copy_to_user_ok [OF spec dst, of bs] len obtain u' where
    u': "axiom_copy_to_user ua u to kbuf bs n = Some (0, u')" "view u' = umem_write (view u) to bs"
    by auto
  have "length bs < 2 ^ 64" using len unsigned_less [of n] by simp
  then have "umem_read (view u') to (unat n) = map Some bs"
    using u'(2) umem_read_write [of bs] len by metis
  with bs len u' show ?thesis by metis
qed

definition umem_demo :: "u64 \<Rightarrow> u8 option" where
  "umem_demo a = (if 4096 \<le> a \<and> a < 4120 then Some (ucast a) else None)"

lemma umem_demo_readable:
  "readable umem_demo 4097 9" "readable umem_demo 4107 9" "copy_aligned 1 4097 9" "copy_aligned 4107 1 9"
  by (simp_all add: readable_def umem_demo_def copy_aligned_def odd_part_def umem_read_numeral)

theorem axiom_copy_roundtrip_witness:
  "\<exists>bs u'. axiom_copy_from_user umem_ua umem_demo 1 4097 9 = (0, bs) \<and> length bs = 9 \<and>
     axiom_copy_to_user umem_ua umem_demo 4107 1 bs 9 = Some (0, u') \<and>
     umem_read u' 4107 9 = umem_read umem_demo 4097 9"
  using axiom_copy_roundtrip [OF umem_ua_spec, of 4097 9 umem_demo 1 4107] umem_demo_readable
  by (simp add: umem_ua_def)

text \<open>
  The excluded case. When both addresses are misaligned by the same amount and \<open>n\<close> is
  smaller than the distance to the next multiple of 8, \<open>axiom_copy_from_user\<close> stores more than \<open>n\<close>
  bytes, and asks \<open>__copy_from_user\<close> for a length that wrapped around to almost \<open>2 ^ 64\<close>.
\<close>

theorem axiom_copy_from_user_overrun:
  assumes "ua_access_ok ua from n" and "\<not> copy_aligned to from n"
  shows "unat n < length (snd (axiom_copy_from_user ua u to from n)) \<and>
    2 ^ 64 - 8 \<le> unat (n - odd_part to)"
proof
  have o: "odd_part to = odd_part from" "odd_part to \<noteq> 8" "n < odd_part to"
    using assms(2) by (auto simp: copy_aligned_def)
  have len: "length (get_user_loop ua u from k) = k" for k
    by (induction k arbitrary: "from") auto
  show "unat n < length (snd (axiom_copy_from_user ua u to from n))"
    using assms(1) o len by (auto simp: axiom_copy_from_user_def Let_def word_less_nat_alt split: prod.splits)
  have "to AND 7 \<le> 7" by (rule word_and_le1)
  then have "unat (odd_part to) \<le> 8"
    unfolding odd_part_def by (simp add: unat_sub word_le_nat_alt)
  moreover have "unat (n - odd_part to) = 2 ^ 64 + unat n - unat (odd_part to)"
    using o(3) by (simp add: unat_sub_if_size word_less_nat_alt word_size word_le_nat_alt)
  ultimately show "2 ^ 64 - 8 \<le> unat (n - odd_part to)" by simp
qed

theorem axiom_copy_from_user_overrun_witness:
  "unat (2 :: u64) < length (snd (axiom_copy_from_user umem_ua umem_demo 13 4101 2)) \<and>
   2 ^ 64 - 8 \<le> unat (2 - odd_part 13)"
  using axiom_copy_from_user_overrun [of umem_ua 4101 2 13 umem_demo]
  by (simp add: umem_ua_def copy_aligned_def odd_part_def)

end
