(* ===== verification/DriverState.thy ===== *)
theory DriverState
  imports EviQueue UserCopy
begin

text \<open>
  The hardware interface the driver calls (\<open>include/axiom_nic_api_hw.h\<close>) and the state of the driver
  (\<open>axiom_netdev_driver/axiom_netdev.h\<close>), with the mutexes, wait queues and blocking waits every
  handler uses.

  The hardware interface is a record of functions over an abstract device state \<open>'d\<close>, so that the
  driver is verified for every device; \<open>Arm64Api\<close> gives the implementation for the FPGA. Reads of
  registers return the device too: what the hardware does on its own shows up there.

  The ring structures of \<open>struct axiomnet_drvdata\<close> are flattened into one record and the pointers
  between them are resolved (\<open>rx_ring->tx_rdma_queue\<close> is \<open>rdma_queue\<close>). Two fields hold memory that
  lives outside the structure: the user memory and the LONG buffers.
\<close>

section \<open>The hardware interface\<close>

record 'd hw_api =
  hw_raw_tx :: "'d \<Rightarrow> raw_msg \<Rightarrow> (u8 \<times> raw_msg \<times> 'd) option"
  hw_raw_tx_avail :: "'d \<Rightarrow> u32 \<times> 'd"
  hw_raw_rx :: "'d \<Rightarrow> raw_msg \<Rightarrow> (u8 \<times> raw_msg \<times> 'd) option"
  hw_raw_rx_avail :: "'d \<Rightarrow> u32 \<times> 'd"
  hw_rdma_tx :: "'d \<Rightarrow> rdma_hdr \<Rightarrow> (u8 \<times> rdma_hdr \<times> 'd) option"
  hw_rdma_tx_avail :: "'d \<Rightarrow> u32 \<times> 'd"
  hw_rdma_rx :: "'d \<Rightarrow> rdma_hdr \<Rightarrow> (u8 \<times> rdma_hdr \<times> 'd) option"
  hw_rdma_rx_avail :: "'d \<Rightarrow> u32 \<times> 'd"
  hw_read_ni_status :: "'d \<Rightarrow> u32 \<times> 'd"
  hw_set_ni_control :: "'d \<Rightarrow> u32 \<Rightarrow> 'd"
  hw_read_ni_control :: "'d \<Rightarrow> u32 \<times> 'd"
  hw_set_rdma_zone :: "'d \<Rightarrow> u64 \<Rightarrow> u64 \<Rightarrow> 'd"
  hw_set_long_buf :: "'d \<Rightarrow> int \<Rightarrow> long_buf \<Rightarrow> 'd"
  hw_set_node_id :: "'d \<Rightarrow> u8 \<Rightarrow> 'd"
  hw_get_node_id :: "'d \<Rightarrow> u8 \<times> 'd"
  hw_set_routing :: "'d \<Rightarrow> u8 \<Rightarrow> u8 \<Rightarrow> int \<times> 'd"
  hw_get_routing :: "'d \<Rightarrow> u8 \<Rightarrow> int \<times> u8 \<times> 'd"
  hw_get_if_number :: "'d \<Rightarrow> int \<times> u8 \<times> 'd"
  hw_get_if_info :: "'d \<Rightarrow> u8 \<Rightarrow> int \<times> u8 \<times> 'd"
  hw_enable_irq :: "'d \<Rightarrow> 'd"
  hw_disable_irq :: "'d \<Rightarrow> 'd"
  hw_pending_irq :: "'d \<Rightarrow> u32 \<times> 'd"
  hw_ack_irq :: "'d \<Rightarrow> u32 \<Rightarrow> 'd"
  hw_check_version :: "'d \<Rightarrow> int \<times> 'd"

section \<open>Driver structures\<close>

text \<open>
  \<open>axiom_callback_t\<close>: the only callback the driver installs is \<open>axiomnet_long_callback\<close>, whose data is
  a slot of the LONG TX queue; \<open>None\<close> is the \<open>NULL\<close> function pointer. A wait queue is the number of
  \<open>wake_up\<close> calls made on it.
\<close>

record rdma_status =
  rs_msg_id :: u8
  rs_msg_id_counter :: u32
  rs_retries :: u8
  rs_ack_received :: bool
  rs_ack_waiting :: bool
  rs_wakes :: nat
  rs_queue_slot :: s16
  rs_callback :: "s16 option"
  rs_header :: rdma_hdr

text \<open>
  The three software queue structures (RAW, LONG, RDMA) have the same shape: a queue manager and
  an array of descriptors, allocated at \<open>sq_base\<close>. Their spin lock is not a field: the sections it
  protects are the atomic steps of the model.
\<close>

record 'm sw_queue =
  sq_evi :: evi_queue
  sq_desc :: "'m list option"
  sq_base :: u64

record sw_port =
  sp_mutex :: bool
  sp_wakes :: nat

record kthread =
  kt_task :: bool
  kt_pid :: int
  kt_scheduled :: u32
  kt_wakes :: nat

record long_buf_lut =
  lut_buf_id :: int
  lut_buf_hw :: long_buf
  lut_buf_sw :: u64

record ('d, 'u) drvdata =
  dev_api :: 'd
  dd_lock :: bool
  dd_used :: int
  dma_paddr :: u64
  dma_size :: u64
  rdma_paddr :: u64
  rdma_size :: u64
  long_paddr :: u64
  long_vaddr :: u64
  long_rx_vaddr :: u64
  long_tx_vaddr :: u64
  long_size :: u64
  long_rxbuf_lut :: "long_buf_lut list"
  raw_tx_port :: sw_port
  raw_rx_queue :: "raw_msg sw_queue"
  raw_rx_ports :: "sw_port list"
  raw_rx_port_used :: u8
  rdma_queue :: "rdma_status sw_queue"
  long_tx_queue :: "long_msg sw_queue"
  rdma_port :: sw_port
  long_tx_port :: sw_port
  long_rx_queue :: "long_msg sw_queue"
  long_rx_ports :: "sw_port list"
  long_rx_port_used :: u8
  kthread_raw :: kthread
  kthread_rdma :: kthread
  kthread_wtd :: kthread
  dd_stats :: stats
  watchdog_period_msec :: int
  retry_delay_usec :: int
  routing_table :: "u8 list"
  dd_node_id :: u8
  user_mem :: 'u
  long_mem :: "u64 \<Rightarrow> u8"

datatype fdtype = FDTYPE_GENERIC | FDTYPE_RAW | FDTYPE_LONG | FDTYPE_RDMA

record priv =
  bind_port :: int
  fd_type :: fdtype
  rdma_debug :: int

abbreviation (input) AXIOMNET_PORT_INVALID :: int where "AXIOMNET_PORT_INVALID \<equiv> - 1"
abbreviation (input) AXIOMNET_MAX_OPEN :: int where "AXIOMNET_MAX_OPEN \<equiv> 64"
abbreviation (input) AXIOMNET_MAX_IOVEC :: int where "AXIOMNET_MAX_IOVEC \<equiv> 16"
abbreviation (input) AXIOMNET_MAX_RDMA_RETRY :: nat where "AXIOMNET_MAX_RDMA_RETRY \<equiv> 1000"
abbreviation (input) AXIOMNET_RAW_QUEUE_FREE_LEN :: nat where "AXIOMNET_RAW_QUEUE_FREE_LEN \<equiv> 1792"
abbreviation (input) AXIOM_LONG_PAYLOAD_BUF_SIZE :: nat where "AXIOM_LONG_PAYLOAD_BUF_SIZE \<equiv> 65536"

record iovec =
  iov_base :: u64
  iov_len :: u64

section \<open>Counters, wake-ups and mutexes\<close>

definition inc_stat :: "stat \<Rightarrow> ('d, 'u) drvdata \<Rightarrow> ('d, 'u) drvdata" where
  "inc_stat k d = d\<lparr>dd_stats := stat_add k 1 (dd_stats d)\<rparr>"

definition add_stat :: "stat \<Rightarrow> u64 \<Rightarrow> ('d, 'u) drvdata \<Rightarrow> ('d, 'u) drvdata" where
  "add_stat k n d = d\<lparr>dd_stats := stat_add k n (dd_stats d)\<rparr>"

text \<open>\<open>axiom_kthread_wakeup\<close>: mark the worker as scheduled and wake it.\<close>

definition axiom_kthread_wakeup :: "kthread \<Rightarrow> kthread" where
  "axiom_kthread_wakeup k = k\<lparr>kt_scheduled := kt_scheduled k + 1, kt_wakes := kt_wakes k + 1\<rparr>"

text \<open>The ports: one for each direction and message class, and one per port number for reception.\<close>

datatype port_sel = RawTx | RawRx int | RdmaTx | LongTx | LongRx int

fun get_port :: "port_sel \<Rightarrow> ('d, 'u) drvdata \<Rightarrow> sw_port option" where
  "get_port RawTx d = Some (raw_tx_port d)"
| "get_port (RawRx p) d = arr_get (raw_rx_ports d) p"
| "get_port RdmaTx d = Some (rdma_port d)"
| "get_port LongTx d = Some (long_tx_port d)"
| "get_port (LongRx p) d = arr_get (long_rx_ports d) p"

fun set_port :: "port_sel \<Rightarrow> sw_port \<Rightarrow> ('d, 'u) drvdata \<Rightarrow> ('d, 'u) drvdata option" where
  "set_port RawTx x d = Some (d\<lparr>raw_tx_port := x\<rparr>)"
| "set_port (RawRx p) x d = do { ps \<leftarrow> arr_set (raw_rx_ports d) p x; Some (d\<lparr>raw_rx_ports := ps\<rparr>) }"
| "set_port RdmaTx x d = Some (d\<lparr>rdma_port := x\<rparr>)"
| "set_port LongTx x d = Some (d\<lparr>long_tx_port := x\<rparr>)"
| "set_port (LongRx p) x d = do { ps \<leftarrow> arr_set (long_rx_ports d) p x; Some (d\<lparr>long_rx_ports := ps\<rparr>) }"

text \<open>
  Taking a mutex the handler already holds would block it for ever, and releasing one it does not
  hold is an error: both are \<open>None\<close>. A handler that returns has paired its locks.
\<close>

definition mutex_lock :: "port_sel \<Rightarrow> ('d, 'u) drvdata \<Rightarrow> ('d, 'u) drvdata option" where
  "mutex_lock sel d = do {
     p \<leftarrow> get_port sel d;
     if sp_mutex p then None else set_port sel (p\<lparr>sp_mutex := True\<rparr>) d }"

definition mutex_unlock :: "port_sel \<Rightarrow> ('d, 'u) drvdata \<Rightarrow> ('d, 'u) drvdata option" where
  "mutex_unlock sel d = do {
     p \<leftarrow> get_port sel d;
     if \<not> sp_mutex p then None else set_port sel (p\<lparr>sp_mutex := False\<rparr>) d }"

definition wake_up :: "port_sel \<Rightarrow> ('d, 'u) drvdata \<Rightarrow> ('d, 'u) drvdata option" where
  "wake_up sel d = do {
     p \<leftarrow> get_port sel d;
     set_port sel (p\<lparr>sp_wakes := Suc (sp_wakes p)\<rparr>) d }"

text \<open>
  A port a thread may lock: it exists and its mutex is free. \<open>held\<close> is the state just after locking
  it, in which everything else is as before.
\<close>

definition port_free :: "port_sel \<Rightarrow> ('d, 'u) drvdata \<Rightarrow> bool" where
  "port_free sel d \<longleftrightarrow> (\<exists>p. get_port sel d = Some p \<and> \<not> sp_mutex p)"

lemma sw_port_mutex_noop [simp]:
  "\<not> sp_mutex p \<Longrightarrow> p\<lparr>sp_mutex := False\<rparr> = p" "sp_mutex p \<Longrightarrow> p\<lparr>sp_mutex := True\<rparr> = p"
  by simp_all

lemma arr_update_id: "arr_get xs i = Some x \<Longrightarrow> arr_set xs i x = Some xs"
  by (auto simp: arr_get_def arr_set_def split: if_splits)

lemma arr_get_set_same: "arr_set xs i x = Some ys \<Longrightarrow> arr_get ys i = Some x"
  by (auto simp: arr_get_def arr_set_def split: if_splits)

lemma arr_set_set: "arr_set xs i x = Some ys \<Longrightarrow> arr_set ys i y = arr_set xs i y"
  by (auto simp: arr_set_def split: if_splits)

lemma arr_set_exists: "arr_get xs i = Some x \<Longrightarrow> \<exists>ys. arr_set xs i y = Some ys"
  by (auto simp: arr_get_def arr_set_def split: if_splits)

section \<open>Blocking waits\<close>

text \<open>
  What can happen while a thread sleeps: a signal, or a wake-up after the other threads and the
  hardware have changed the state. A handler gets the list of these events; when the list runs
  out the thread is still asleep, which is \<open>None\<close>.
\<close>

datatype 's wait_ev = Signal | Wake "'s \<Rightarrow> 's"

fun wait_event_interruptible ::
    "('s \<Rightarrow> (bool \<times> 's) option) \<Rightarrow> 's wait_ev list \<Rightarrow> 's \<Rightarrow> (bool \<times> 's wait_ev list \<times> 's) option" where
  "wait_event_interruptible c [] s = do {
     (b, s) \<leftarrow> c s;
     if b then Some (True, [], s) else None }"
| "wait_event_interruptible c (e # env) s = do {
     (b, s) \<leftarrow> c s;
     if b then Some (True, e # env, s)
     else case e of
            Signal \<Rightarrow> Some (False, env, s)
          | Wake f \<Rightarrow> wait_event_interruptible c env (f s) }"

text \<open>
  The loop every blocking handler starts with, entered with the mutex of the port held:
  while the condition fails, count the wait, release the mutex, give up when the file is
  non-blocking, sleep until the condition holds or a signal arrives, and take the mutex again. The
  result 0 leaves the mutex held, an error code leaves it released.
\<close>

partial_function (option) wait_avail ::
    "(('d, 'u) drvdata \<Rightarrow> (bool \<times> ('d, 'u) drvdata) option) \<Rightarrow> port_sel \<Rightarrow> stat \<Rightarrow> bool \<Rightarrow>
     ('d, 'u) drvdata wait_ev list \<Rightarrow> ('d, 'u) drvdata \<Rightarrow>
     (int \<times> ('d, 'u) drvdata wait_ev list \<times> ('d, 'u) drvdata) option" where
  "wait_avail c sel k nonblock env s = do {
     (b, s) \<leftarrow> c s;
     if b then Some (0, env, s)
     else do {
       s \<leftarrow> mutex_unlock sel (inc_stat k s);
       if nonblock then Some (- EAGAIN, env, s)
       else do {
         (ok, env, s) \<leftarrow> wait_event_interruptible c env s;
         if \<not> ok then Some (- ERESTARTSYS, env, s)
         else do {
           s \<leftarrow> mutex_lock sel s;
           wait_avail c sel k nonblock env s } } } }"

subsection \<open>Rules for waits\<close>

text \<open>
  The rely condition of a sleeping thread: every wake-up keeps the invariant \<open>I\<close>.
\<close>

definition env_keeps :: "('s \<Rightarrow> bool) \<Rightarrow> 's wait_ev list \<Rightarrow> bool" where
  "env_keeps I env \<longleftrightarrow> (\<forall>f s. Wake f \<in> set env \<longrightarrow> I s \<longrightarrow> I (f s))"

lemma env_keeps_simps [simp]:
  "env_keeps I []" "env_keeps I (Signal # env) = env_keeps I env"
  "env_keeps I (Wake f # env) \<longleftrightarrow> (\<forall>s. I s \<longrightarrow> I (f s)) \<and> env_keeps I env"
  by (auto simp: env_keeps_def)

lemma wait_event_rule:
  assumes "wait_event_interruptible c env s = Some (ok, env', s')"
    and "\<And>s b s'. I s \<Longrightarrow> c s = Some (b, s') \<Longrightarrow> I s'" and "env_keeps I env" and "I s"
  shows "I s' \<and> env_keeps I env'"
  using assms(1,3,4)
proof (induction env arbitrary: s)
  case Nil
  then show ?case using assms(2) by (auto simp: bind_eq_Some split: if_splits)
next
  case (Cons e env)
  then show ?case using assms(2)
    by (cases e) (auto simp: bind_eq_Some split: if_splits)
qed

text \<open>
  The two invariants of the loop: \<open>J\<close> with the mutex held and \<open>I\<close> with the mutex released.
\<close>

lemma wait_avail_rule:
  assumes "wait_avail c sel k nonblock env s = Some (r, env', s')"
    and cI: "\<And>s b s'. I s \<Longrightarrow> c s = Some (b, s') \<Longrightarrow> I s'"
    and cJ: "\<And>s b s'. J s \<Longrightarrow> c s = Some (b, s') \<Longrightarrow> J s' \<and> (b \<longrightarrow> R s')"
    and unl: "\<And>s s'. J s \<Longrightarrow> mutex_unlock sel (inc_stat k s) = Some s' \<Longrightarrow> I s'"
    and loc: "\<And>s s'. I s \<Longrightarrow> mutex_lock sel s = Some s' \<Longrightarrow> J s'"
    and env: "env_keeps I env" and s: "J s"
  shows "(r = 0 \<and> J s' \<and> R s' \<or> (r = - EAGAIN \<or> r = - ERESTARTSYS) \<and> I s') \<and> env_keeps I env'"
proof -
  have "c' = c \<Longrightarrow> sel' = sel \<Longrightarrow> k' = k \<Longrightarrow> env_keeps I env \<Longrightarrow> J s \<Longrightarrow>
      (fst y = 0 \<and> J (snd (snd y)) \<and> R (snd (snd y)) \<or>
        (fst y = - EAGAIN \<or> fst y = - ERESTARTSYS) \<and> I (snd (snd y))) \<and> env_keeps I (fst (snd y))"
    if "wait_avail c' sel' k' nonblock env s = Some y" for c' sel' k' nonblock env s y
    using that
  proof (induct rule: wait_avail.raw_induct [rotated, consumes 1, case_names 1])
    case (1 w c' sel' k' nonblock env s y)
    from 1(2-) obtain b s1 where c: "c s = Some (b, s1)" and rest:
      "(if b then Some (0, env, s1) else mutex_unlock sel (inc_stat k s1) \<bind>
         (\<lambda>s. if nonblock then Some (- EAGAIN, env, s)
              else wait_event_interruptible c env s \<bind>
                (\<lambda>(ok, env, s). if \<not> ok then Some (- ERESTARTSYS, env, s)
                   else mutex_lock sel s \<bind> w c sel k nonblock env))) = Some y"
      by (auto simp: bind_eq_Some)
    from cJ [OF 1(7) c] have s1: "J s1" "b \<longrightarrow> R s1" by auto
    show ?case
    proof (cases b)
      case True
      with rest s1 1(6) show ?thesis by auto
    next
      case False
      with rest obtain s2 where s2: "mutex_unlock sel (inc_stat k s1) = Some s2" and
        rest: "(if nonblock then Some (- EAGAIN, env, s2)
              else wait_event_interruptible c env s2 \<bind>
                (\<lambda>(ok, env, s). if \<not> ok then Some (- ERESTARTSYS, env, s)
                   else mutex_lock sel s \<bind> w c sel k nonblock env)) = Some y"
        by (auto simp: bind_eq_Some)
      from unl [OF s1(1) s2] have "I s2" .
      show ?thesis
      proof (cases nonblock)
        case True
        with rest \<open>I s2\<close> 1(6) show ?thesis by auto
      next
        case False
        with rest obtain ok env3 s3 where w: "wait_event_interruptible c env s2 = Some (ok, env3, s3)"
          and rest: "(if \<not> ok then Some (- ERESTARTSYS, env3, s3)
                   else mutex_lock sel s3 \<bind> w c sel k nonblock env3) = Some y"
          by (auto simp: bind_eq_Some)
        have "I s3 \<and> env_keeps I env3" by (rule wait_event_rule [OF w]) (use cI 1(6) \<open>I s2\<close> in auto)
        then show ?thesis using rest 1(1) [of c sel k nonblock env3 _ y] loc [of s3]
          by (auto simp: bind_eq_Some split: if_splits)
      qed
    qed
  qed
  from this [OF assms(1)] env s show ?thesis by simp
qed

end
