(* ===== verification/Arm64Api.thy ===== *)
theory Arm64Api
  imports DriverState
begin

text \<open>
  The hardware layer for the FPGA of the arm64 boards
  (\<open>axiom_netdev_driver/axiom_kernel_api_arm64.c\<close>) with the accessors of the Xilinx blocks it uses
  (\<open>axiom_netdev_driver/axiom_xilinx.h\<close>, register numbers in \<open>axiom_nic_regs_arm64.h\<close>). The memory mapped
  device is a parameter: the four access functions of the kernel, over a device state \<open>'h\<close>, and what
  happens to the device while the thread yields the processor. Together the operations are an
  instance of the interface \<open>hw_api\<close> the driver is written against.
\<close>

section \<open>Memory mapped input and output\<close>

record 'h mmio =
  ioread32 :: "u64 \<Rightarrow> 'h \<Rightarrow> u32 \<times> 'h"
  iowrite32 :: "u32 \<Rightarrow> u64 \<Rightarrow> 'h \<Rightarrow> 'h"
  readq :: "u64 \<Rightarrow> 'h \<Rightarrow> u64 \<times> 'h"
  writeq :: "u64 \<Rightarrow> u64 \<Rightarrow> 'h \<Rightarrow> 'h"
  schedule :: "'h \<Rightarrow> 'h"

record axi_fifo =
  ff_base :: u64
  ff_axi4_base :: u64
  ff_axi4 :: int

record axi_gpio =
  gp_base :: u64
  gp_dual :: int

record axi_bram =
  br_base :: u64

record axi_reg =
  rg_base :: u64

abbreviation (input) XLLF_ISR_OFFSET :: u64 where "XLLF_ISR_OFFSET \<equiv> 0x00"
abbreviation (input) XLLF_TDFR_OFFSET :: u64 where "XLLF_TDFR_OFFSET \<equiv> 0x08"
abbreviation (input) XLLF_TDFV_OFFSET :: u64 where "XLLF_TDFV_OFFSET \<equiv> 0x0c"
abbreviation (input) XLLF_TLF_OFFSET :: u64 where "XLLF_TLF_OFFSET \<equiv> 0x14"
abbreviation (input) XLLF_RDFR_OFFSET :: u64 where "XLLF_RDFR_OFFSET \<equiv> 0x18"
abbreviation (input) XLLF_RDFO_OFFSET :: u64 where "XLLF_RDFO_OFFSET \<equiv> 0x1c"
abbreviation (input) XLLF_RLF_OFFSET :: u64 where "XLLF_RLF_OFFSET \<equiv> 0x24"
abbreviation (input) XLLF_LLR_OFFSET :: u64 where "XLLF_LLR_OFFSET \<equiv> 0x28"
abbreviation (input) XLLF_AXI4_TDFD_OFFSET :: u64 where "XLLF_AXI4_TDFD_OFFSET \<equiv> 0x0"
abbreviation (input) XLLF_AXI4_RDFD_OFFSET :: u64 where "XLLF_AXI4_RDFD_OFFSET \<equiv> 0x1000"
abbreviation (input) XLLF_INT_ALL_MASK :: u32 where "XLLF_INT_ALL_MASK \<equiv> 0xfff80000"
abbreviation (input) XLLF_RESET_MASK :: u32 where "XLLF_RESET_MASK \<equiv> 0xa5"
abbreviation (input) XGPIO_DATA_OFFSET :: u64 where "XGPIO_DATA_OFFSET \<equiv> 0x0"
abbreviation (input) XGPIO_DATA2_OFFSET :: u64 where "XGPIO_DATA2_OFFSET \<equiv> 0x8"

abbreviation (input) AXIOMREG_IO_DMA_END :: u64 where "AXIOMREG_IO_DMA_END \<equiv> 0x10"
abbreviation (input) AXIOMREG_IO_DMA_START :: u64 where "AXIOMREG_IO_DMA_START \<equiv> 0x1c"
abbreviation (input) AXIOMREG_IO_NODEID :: u64 where "AXIOMREG_IO_NODEID \<equiv> 0x28"
abbreviation (input) AXIOMREG_IO_MSKIRQ :: u64 where "AXIOMREG_IO_MSKIRQ \<equiv> 0x30"
abbreviation (input) AXIOMREG_IO_PNDIRQ :: u64 where "AXIOMREG_IO_PNDIRQ \<equiv> 0x38"
abbreviation (input) AXIOMREG_IO_CLRIRQ :: u64 where "AXIOMREG_IO_CLRIRQ \<equiv> 0x40"
abbreviation (input) AXIOMREG_IO_IFINFO_1 :: u64 where "AXIOMREG_IO_IFINFO_1 \<equiv> 0x48"
abbreviation (input) AXIOMREG_IO_IFINFO_2 :: u64 where "AXIOMREG_IO_IFINFO_2 \<equiv> 0x50"
abbreviation (input) AXIOMREG_IO_IFINFO_3 :: u64 where "AXIOMREG_IO_IFINFO_3 \<equiv> 0x58"
abbreviation (input) AXIOMREG_IO_IFINFO_4 :: u64 where "AXIOMREG_IO_IFINFO_4 \<equiv> 0x60"
abbreviation (input) AXIOMREG_IO_VERSION :: u64 where "AXIOMREG_IO_VERSION \<equiv> 0x68"
abbreviation (input) AXIOMREG_IO_IFNUMBER :: u64 where "AXIOMREG_IO_IFNUMBER \<equiv> 0x70"
abbreviation (input) AXIOMREG_IO_CONTROL :: u64 where "AXIOMREG_IO_CONTROL \<equiv> 0x78"
abbreviation (input) AXIOMREG_SIZE_LONG_BUF :: int where "AXIOMREG_SIZE_LONG_BUF \<equiv> 8"

definition axi_gpio_read32 :: "'h mmio \<Rightarrow> axi_gpio \<Rightarrow> 'h \<Rightarrow> u32 \<times> 'h" where
  "axi_gpio_read32 mm g h = ioread32 mm (gp_base g + XGPIO_DATA_OFFSET) h"
definition axi_gpio_write32 :: "'h mmio \<Rightarrow> axi_gpio \<Rightarrow> u32 \<Rightarrow> 'h \<Rightarrow> 'h" where
  "axi_gpio_write32 mm g x h = iowrite32 mm x (gp_base g + XGPIO_DATA_OFFSET) h"
definition axi_gpio_write64 :: "'h mmio \<Rightarrow> axi_gpio \<Rightarrow> u64 \<Rightarrow> 'h \<Rightarrow> 'h" where
  "axi_gpio_write64 mm g x h =
     iowrite32 mm (ucast (drop_bit 32 x)) (gp_base g + XGPIO_DATA2_OFFSET) (iowrite32 mm (ucast x) (gp_base g + XGPIO_DATA_OFFSET) h)"
definition axi_reg_read32 :: "'h mmio \<Rightarrow> axi_reg \<Rightarrow> u64 \<Rightarrow> 'h \<Rightarrow> u32 \<times> 'h" where
  "axi_reg_read32 mm r off h = ioread32 mm (rg_base r + off) h"
definition axi_reg_write32 :: "'h mmio \<Rightarrow> axi_reg \<Rightarrow> u64 \<Rightarrow> u32 \<Rightarrow> 'h \<Rightarrow> 'h" where
  "axi_reg_write32 mm r off x h = iowrite32 mm x (rg_base r + off) h"
definition axi_reg_read64 :: "'h mmio \<Rightarrow> axi_reg \<Rightarrow> u64 \<Rightarrow> 'h \<Rightarrow> u64 \<times> 'h" where
  "axi_reg_read64 mm r off h =
     (let (lo, h) = ioread32 mm (rg_base r + off) h; (hi, h) = ioread32 mm (rg_base r + off + 4) h in
      (ucast lo + push_bit 32 (ucast hi), h))"
definition axi_reg_write64 :: "'h mmio \<Rightarrow> axi_reg \<Rightarrow> u64 \<Rightarrow> u64 \<Rightarrow> 'h \<Rightarrow> 'h" where
  "axi_reg_write64 mm r off x h =
     iowrite32 mm (ucast (drop_bit 32 x)) (rg_base r + off + 4) (iowrite32 mm (ucast x) (rg_base r + off) h)"

definition axi_fifo_reset :: "'h mmio \<Rightarrow> axi_fifo \<Rightarrow> 'h \<Rightarrow> 'h" where
  "axi_fifo_reset mm f h =
     (let h = iowrite32 mm XLLF_INT_ALL_MASK (ff_base f + XLLF_ISR_OFFSET) h;
          h = iowrite32 mm XLLF_RESET_MASK (ff_base f + XLLF_TDFR_OFFSET) h;
          h = iowrite32 mm XLLF_RESET_MASK (ff_base f + XLLF_RDFR_OFFSET) h;
          h = iowrite32 mm XLLF_RESET_MASK (ff_base f + XLLF_LLR_OFFSET) h in
      iowrite32 mm XLLF_INT_ALL_MASK (ff_base f + XLLF_ISR_OFFSET) h)"
definition axi_fifo_tx_vacancy :: "'h mmio \<Rightarrow> axi_fifo \<Rightarrow> 'h \<Rightarrow> u32 \<times> 'h" where
  "axi_fifo_tx_vacancy mm f h = ioread32 mm (ff_base f + XLLF_TDFV_OFFSET) h"
definition axi_fifo_tx_setlen :: "'h mmio \<Rightarrow> axi_fifo \<Rightarrow> u32 \<Rightarrow> 'h \<Rightarrow> 'h" where
  "axi_fifo_tx_setlen mm f bytes h = iowrite32 mm bytes (ff_base f + XLLF_TLF_OFFSET) h"
definition axi_fifo_rx_occupancy :: "'h mmio \<Rightarrow> axi_fifo \<Rightarrow> 'h \<Rightarrow> u32 \<times> 'h" where
  "axi_fifo_rx_occupancy mm f h = ioread32 mm (ff_base f + XLLF_RDFO_OFFSET) h"
definition axi_fifo_rx_getlen :: "'h mmio \<Rightarrow> axi_fifo \<Rightarrow> 'h \<Rightarrow> u32 \<times> 'h" where
  "axi_fifo_rx_getlen mm f h = ioread32 mm (ff_base f + XLLF_RLF_OFFSET) h"
definition axi_fifo_write64 :: "'h mmio \<Rightarrow> axi_fifo \<Rightarrow> u64 \<Rightarrow> 'h \<Rightarrow> 'h" where
  "axi_fifo_write64 mm f x h = writeq mm x (ff_axi4_base f + XLLF_AXI4_TDFD_OFFSET) h"
definition axi_fifo_read64 :: "'h mmio \<Rightarrow> axi_fifo \<Rightarrow> 'h \<Rightarrow> u64 \<times> 'h" where
  "axi_fifo_read64 mm f h = readq mm (ff_axi4_base f + XLLF_AXI4_RDFD_OFFSET) h"
definition axi_bram_read32 :: "'h mmio \<Rightarrow> axi_bram \<Rightarrow> u64 \<Rightarrow> 'h \<Rightarrow> u32 \<times> 'h" where
  "axi_bram_read32 mm b off h = ioread32 mm (br_base b + off) h"
definition axi_bram_write32 :: "'h mmio \<Rightarrow> axi_bram \<Rightarrow> u64 \<Rightarrow> u32 \<Rightarrow> 'h \<Rightarrow> 'h" where
  "axi_bram_write32 mm b off x h = iowrite32 mm x (br_base b + off) h"
definition axi_bram_write64 :: "'h mmio \<Rightarrow> axi_bram \<Rightarrow> u64 \<Rightarrow> u64 \<Rightarrow> 'h \<Rightarrow> 'h" where
  "axi_bram_write64 mm b off x h = writeq mm x (br_base b + off) h"

lemmas axi_fifo_defs = axi_fifo_tx_vacancy_def axi_fifo_tx_setlen_def axi_fifo_rx_occupancy_def axi_fifo_rx_getlen_def
  axi_fifo_write64_def axi_fifo_read64_def
lemmas axi_reg_defs = axi_reg_read32_def axi_reg_write32_def axi_reg_read64_def axi_reg_write64_def
  axi_bram_read32_def axi_bram_write32_def axi_bram_write64_def

section \<open>The device\<close>

text \<open>
  \<open>axiom_dev_t\<close>: the register addresses are set once, by \<open>axiom_hw_dev_alloc\<close>, and are a separate
  argument of the operations; the state is the next message id and the device behind the registers.
\<close>

record axiom_dev_regs =
  ar_registers :: axi_reg
  ar_fifo_raw_tx :: axi_fifo
  ar_fifo_raw_rx :: axi_fifo
  ar_fifo_rdma_tx :: axi_fifo
  ar_fifo_rdma_rx :: axi_fifo
  ar_long_buf :: axi_bram
  ar_routing :: axi_bram
  ar_debug :: axi_gpio

record 'h arm64_dev =
  ad_next_raw_id :: u8
  ad_hw :: 'h

text \<open>\<open>axiom_hw_dev_alloc\<close> stores through the result of \<open>vmalloc\<close> without testing it.\<close>

definition axiom_hw_dev_alloc :: "bool \<Rightarrow> 'h \<Rightarrow> 'h arm64_dev option" where
  "axiom_hw_dev_alloc vmalloc h = (if vmalloc then Some \<lparr>ad_next_raw_id = 0, ad_hw = h\<rparr> else None)"

text \<open>A read through the registers, as a read of the device.\<close>

definition on_hw :: "('h \<Rightarrow> 'a \<times> 'h) \<Rightarrow> 'h arm64_dev \<Rightarrow> 'a \<times> 'h arm64_dev" where
  "on_hw f v = (let (x, h) = f (ad_hw v) in (x, v\<lparr>ad_hw := h\<rparr>))"

definition axiom_hw_enable_irq :: "'h mmio \<Rightarrow> axiom_dev_regs \<Rightarrow> 'h arm64_dev \<Rightarrow> 'h arm64_dev" where
  "axiom_hw_enable_irq mm r v = v\<lparr>ad_hw := axi_reg_write32 mm (ar_registers r) AXIOMREG_IO_MSKIRQ AXIOMREG_IRQ_ALL (ad_hw v)\<rparr>"
definition axiom_hw_disable_irq :: "'h mmio \<Rightarrow> axiom_dev_regs \<Rightarrow> 'h arm64_dev \<Rightarrow> 'h arm64_dev" where
  "axiom_hw_disable_irq mm r v =
     v\<lparr>ad_hw := axi_reg_write32 mm (ar_registers r) AXIOMREG_IO_MSKIRQ (NOT AXIOMREG_IRQ_ALL) (ad_hw v)\<rparr>"
definition axiom_hw_pending_irq :: "'h mmio \<Rightarrow> axiom_dev_regs \<Rightarrow> 'h arm64_dev \<Rightarrow> u32 \<times> 'h arm64_dev" where
  "axiom_hw_pending_irq mm r = on_hw (axi_reg_read32 mm (ar_registers r) AXIOMREG_IO_PNDIRQ)"
definition axiom_hw_ack_irq :: "'h mmio \<Rightarrow> axiom_dev_regs \<Rightarrow> 'h arm64_dev \<Rightarrow> u32 \<Rightarrow> 'h arm64_dev" where
  "axiom_hw_ack_irq mm r v ack_irq = v\<lparr>ad_hw := axi_reg_write32 mm (ar_registers r) AXIOMREG_IO_CLRIRQ 0
     (axi_reg_write32 mm (ar_registers r) AXIOMREG_IO_CLRIRQ ack_irq (ad_hw v))\<rparr>"
definition axiom_hw_check_version :: "'h mmio \<Rightarrow> axiom_dev_regs \<Rightarrow> 'h arm64_dev \<Rightarrow> int \<times> 'h arm64_dev" where
  "axiom_hw_check_version mm r v =
     (let (version, v) = on_hw (axi_reg_read32 mm (ar_registers r) AXIOMREG_IO_VERSION) v in (AXIOM_RET_OK, v))"

section \<open>RAW messages\<close>

definition axiom_hw_raw_tx_avail :: "'h mmio \<Rightarrow> axiom_dev_regs \<Rightarrow> 'h arm64_dev \<Rightarrow> u32 \<times> 'h arm64_dev" where
  "axiom_hw_raw_tx_avail mm r = on_hw (axi_fifo_tx_vacancy mm (ar_fifo_raw_tx r))"

text \<open>The wait for room: every turn reads the vacancy and yields the processor.\<close>

partial_function (option) wait_vacancy :: "'h mmio \<Rightarrow> axi_fifo \<Rightarrow> nat \<Rightarrow> 'h \<Rightarrow> 'h option" where
  "wait_vacancy mm f need h =
     (let (n, h) = axi_fifo_tx_vacancy mm f h in if unat n < need then wait_vacancy mm f need (schedule mm h) else Some h)"

text \<open>The loop over the payload in steps of eight bytes; a load behind the message is undefined.\<close>

function raw_tx_loop :: "'h mmio \<Rightarrow> axi_fifo \<Rightarrow> u8 list \<Rightarrow> nat \<Rightarrow> nat \<Rightarrow> u32 \<Rightarrow> 'h \<Rightarrow> (u32 \<times> 'h) option" where
  "raw_tx_loop mm f payload psize i tot h =
     (if i < psize \<and> i < RAW_PAYLOAD_LEN then
        if i + 8 \<le> length payload then
          raw_tx_loop mm f payload psize (i + 8) (tot + 8) (axi_fifo_write64 mm f (le_word (take 8 (drop i payload))) h)
        else None
      else Some (tot, h))"
  by pat_completeness auto
termination by (relation "measure (\<lambda>(mm, f, payload, psize, i, tot, h). psize - i)") auto

definition axiom_hw_raw_tx :: "'h mmio \<Rightarrow> axiom_dev_regs \<Rightarrow> 'h arm64_dev \<Rightarrow> raw_msg \<Rightarrow> (u8 \<times> raw_msg \<times> 'h arm64_dev) option" where
  "axiom_hw_raw_tx mm r v msg = do {
     let hdr = rm_header msg;
     let msg = msg\<lparr>rm_header := hdr\<lparr>rh_port_type := set_pt_s 0 (rh_port_type hdr), rh_msg_id := ad_next_raw_id v\<rparr>\<rparr>;
     let v = v\<lparr>ad_next_raw_id := ad_next_raw_id v + 1\<rparr>;
     let psize = unat (rh_payload_size hdr);
     h \<leftarrow> wait_vacancy mm (ar_fifo_raw_tx r) (5 + psize) (ad_hw v);
     let h = axi_fifo_write64 mm (ar_fifo_raw_tx r) (le_word (take 8 (raw_msg_bytes msg))) h;
     (tot, h) \<leftarrow> raw_tx_loop mm (ar_fifo_raw_tx r) (rm_payload msg) psize 3 8 h;
     let h = axi_fifo_tx_setlen mm (ar_fifo_raw_tx r) tot h;
     Some (rh_msg_id (rm_header msg), msg, v\<lparr>ad_hw := h\<rparr>) }"

text \<open>
  Reception: the loop ends when the remaining length, an \<open>uint32_t\<close> from which 8 is subtracted,
  is 0; a store behind the message buffer is undefined behaviour.
\<close>

function raw_rx_loop :: "'h mmio \<Rightarrow> axi_fifo \<Rightarrow> u8 list \<Rightarrow> nat \<Rightarrow> u32 \<Rightarrow> 'h \<Rightarrow> (u8 list \<times> 'h) option" where
  "raw_rx_loop mm f payload i tot h =
     (if tot = 0 then Some (payload, h)
      else if i + 8 \<le> length payload then
        case axi_fifo_read64 mm f h of (w, h) \<Rightarrow>
          raw_rx_loop mm f (take i payload @ le_bytes 8 w @ drop (i + 8) payload) (i + 8) (tot - 8) h
      else None)"
  by pat_completeness auto
termination
  by (relation "measure (\<lambda>(mm, f, payload, i, tot, h). length payload - i)") (auto simp: le_bytes_def)

definition axiom_hw_raw_rx :: "'h mmio \<Rightarrow> axiom_dev_regs \<Rightarrow> 'h arm64_dev \<Rightarrow> raw_msg \<Rightarrow> (u8 \<times> raw_msg \<times> 'h arm64_dev) option" where
  "axiom_hw_raw_rx mm r v msg =
     (let (tot, h) = axi_fifo_rx_getlen mm (ar_fifo_raw_rx r) (ad_hw v);
          (w, h) = axi_fifo_read64 mm (ar_fifo_raw_rx r) h;
          msg = raw_msg_of_bytes (le_bytes 8 w @ drop 8 (raw_msg_bytes msg)) in do {
        (payload, h) \<leftarrow> raw_rx_loop mm (ar_fifo_raw_rx r) (rm_payload msg) 3 (tot - 8) h;
        Some (rh_msg_id (rm_header msg), msg\<lparr>rm_payload := payload\<rparr>, v\<lparr>ad_hw := h\<rparr>) })"

definition axiom_hw_raw_rx_avail :: "'h mmio \<Rightarrow> axiom_dev_regs \<Rightarrow> 'h arm64_dev \<Rightarrow> u32 \<times> 'h arm64_dev" where
  "axiom_hw_raw_rx_avail mm r = on_hw (axi_fifo_rx_occupancy mm (ar_fifo_raw_rx r))"

declare raw_tx_loop.simps [simp del] raw_rx_loop.simps [simp del]

section \<open>RDMA descriptors\<close>

definition axiom_hw_rdma_tx_avail :: "'h mmio \<Rightarrow> axiom_dev_regs \<Rightarrow> 'h arm64_dev \<Rightarrow> u32 \<times> 'h arm64_dev" where
  "axiom_hw_rdma_tx_avail mm r = on_hw (axi_fifo_tx_vacancy mm (ar_fifo_rdma_tx r))"

definition axiom_hw_rdma_tx :: "'h mmio \<Rightarrow> axiom_dev_regs \<Rightarrow> 'h arm64_dev \<Rightarrow> rdma_hdr \<Rightarrow> (u8 \<times> rdma_hdr \<times> 'h arm64_dev) option" where
  "axiom_hw_rdma_tx mm r v hdr = do {
     let hdr = hdr\<lparr>dh_port_type := set_pt_s 0 (dh_port_type hdr)\<rparr>;
     h \<leftarrow> wait_vacancy mm (ar_fifo_rdma_tx r) 16 (ad_hw v);
     let h = axi_fifo_write64 mm (ar_fifo_rdma_tx r) (le_word (take 8 (rdma_hdr_bytes hdr))) h;
     let h = axi_fifo_write64 mm (ar_fifo_rdma_tx r) (le_word (drop 8 (rdma_hdr_bytes hdr))) h;
     let h = axi_fifo_tx_setlen mm (ar_fifo_rdma_tx r) 16 h;
     Some (dh_msg_id hdr, hdr, v\<lparr>ad_hw := h\<rparr>) }"

definition axiom_hw_rdma_rx_avail :: "'h mmio \<Rightarrow> axiom_dev_regs \<Rightarrow> 'h arm64_dev \<Rightarrow> u32 \<times> 'h arm64_dev" where
  "axiom_hw_rdma_rx_avail mm r = on_hw (axi_fifo_rx_occupancy mm (ar_fifo_rdma_rx r))"

text \<open>A length other than 16 is only reported, with a read of the occupancy for the message.\<close>

definition axiom_hw_rdma_rx :: "'h mmio \<Rightarrow> axiom_dev_regs \<Rightarrow> 'h arm64_dev \<Rightarrow> rdma_hdr \<Rightarrow> (u8 \<times> rdma_hdr \<times> 'h arm64_dev) option" where
  "axiom_hw_rdma_rx mm r v old =
     (let (tot, h) = axi_fifo_rx_getlen mm (ar_fifo_rdma_rx r) (ad_hw v);
          (w0, h) = axi_fifo_read64 mm (ar_fifo_rdma_rx r) h;
          (w1, h) = axi_fifo_read64 mm (ar_fifo_rdma_rx r) h;
          hdr = rdma_hdr_of_bytes (le_bytes 8 w0 @ le_bytes 8 w1);
          h = (if tot \<noteq> 16 then snd (axi_fifo_rx_occupancy mm (ar_fifo_rdma_rx r) h) else h) in
      Some (dh_msg_id hdr, hdr, v\<lparr>ad_hw := h\<rparr>))"

section \<open>Configuration\<close>

definition axiom_hw_read_ni_status :: "'h arm64_dev \<Rightarrow> u32 \<times> 'h arm64_dev" where
  "axiom_hw_read_ni_status v = (0, v)"
definition axiom_hw_set_ni_control :: "'h arm64_dev \<Rightarrow> u32 \<Rightarrow> 'h arm64_dev" where
  "axiom_hw_set_ni_control v reg_mask = v"
definition axiom_hw_read_ni_control :: "'h mmio \<Rightarrow> axiom_dev_regs \<Rightarrow> 'h arm64_dev \<Rightarrow> u32 \<times> 'h arm64_dev" where
  "axiom_hw_read_ni_control mm r = on_hw (axi_reg_read32 mm (ar_registers r) AXIOMREG_IO_CONTROL)"
definition axiom_hw_set_rdma_zone :: "'h mmio \<Rightarrow> axiom_dev_regs \<Rightarrow> 'h arm64_dev \<Rightarrow> u64 \<Rightarrow> u64 \<Rightarrow> 'h arm64_dev" where
  "axiom_hw_set_rdma_zone mm r v start end = v\<lparr>ad_hw := axi_reg_write64 mm (ar_registers r) AXIOMREG_IO_DMA_END end
     (axi_reg_write64 mm (ar_registers r) AXIOMREG_IO_DMA_START start (ad_hw v))\<rparr>"
definition axiom_hw_set_long_buf :: "'h mmio \<Rightarrow> axiom_dev_regs \<Rightarrow> 'h arm64_dev \<Rightarrow> int \<Rightarrow> long_buf \<Rightarrow> 'h arm64_dev" where
  "axiom_hw_set_long_buf mm r v buf_id b =
     v\<lparr>ad_hw := axi_bram_write64 mm (ar_long_buf r) (of_int (buf_id * AXIOMREG_SIZE_LONG_BUF)) (long_buf_raw b) (ad_hw v)\<rparr>"
definition axiom_hw_set_node_id :: "'h mmio \<Rightarrow> axiom_dev_regs \<Rightarrow> 'h arm64_dev \<Rightarrow> u8 \<Rightarrow> 'h arm64_dev" where
  "axiom_hw_set_node_id mm r v node_id = v\<lparr>ad_hw := axi_reg_write32 mm (ar_registers r) AXIOMREG_IO_NODEID (ucast node_id) (ad_hw v)\<rparr>"
definition axiom_hw_get_node_id :: "'h mmio \<Rightarrow> axiom_dev_regs \<Rightarrow> 'h arm64_dev \<Rightarrow> u8 \<times> 'h arm64_dev" where
  "axiom_hw_get_node_id mm r v = (let (x, v) = on_hw (axi_reg_read32 mm (ar_registers r) AXIOMREG_IO_NODEID) v in (ucast x, v))"

text \<open>\<open>ffs\<close>: the number of the first bit set, counted from 1; 0 for the argument 0.\<close>

fun ffs_from :: "nat \<Rightarrow> u8 \<Rightarrow> nat \<Rightarrow> nat" where
  "ffs_from 0 m i = 0"
| "ffs_from (Suc n) m i = (if bit m i then Suc i else ffs_from n m (Suc i))"

definition ffs :: "u8 \<Rightarrow> nat" where
  "ffs m = ffs_from 8 m 0"

definition axiom_hw_set_routing :: "'h mmio \<Rightarrow> axiom_dev_regs \<Rightarrow> 'h arm64_dev \<Rightarrow> u8 \<Rightarrow> u8 \<Rightarrow> int \<times> 'h arm64_dev" where
  "axiom_hw_set_routing mm r v node_id enabled_mask =
     (let enabled_if = (if enabled_mask = 0 then AXIOMREG_ROUTING_NULL_IF else of_nat (ffs enabled_mask - 1)) in
      (AXIOM_RET_OK, v\<lparr>ad_hw := axi_bram_write32 mm (ar_routing r) (ucast node_id * 4) enabled_if (ad_hw v)\<rparr>))"

text \<open>The mask is the low byte of \<open>1 << enabled_if\<close>; the shift is defined for the interface numbers the routing table holds.\<close>

definition axiom_hw_get_routing :: "'h mmio \<Rightarrow> axiom_dev_regs \<Rightarrow> 'h arm64_dev \<Rightarrow> u8 \<Rightarrow> int \<times> u8 \<times> 'h arm64_dev" where
  "axiom_hw_get_routing mm r v node_id =
     (let (enabled_if, v) = on_hw (axi_bram_read32 mm (ar_routing r) (ucast node_id * 4)) v in
      (AXIOM_RET_OK, if enabled_if = AXIOMREG_ROUTING_NULL_IF then 0 else ucast (push_bit (unat enabled_if) (1 :: u32)), v))"

definition axiom_hw_get_if_number :: "'h mmio \<Rightarrow> axiom_dev_regs \<Rightarrow> 'h arm64_dev \<Rightarrow> int \<times> u8 \<times> 'h arm64_dev" where
  "axiom_hw_get_if_number mm r v =
     (let (n, v) = on_hw (axi_reg_read32 mm (ar_registers r) AXIOMREG_IO_IFNUMBER) v in (AXIOM_RET_OK, ucast (n + 1), v))"

definition axiom_hw_get_if_info :: "'h mmio \<Rightarrow> axiom_dev_regs \<Rightarrow> 'h arm64_dev \<Rightarrow> u8 \<Rightarrow> int \<times> u8 \<times> 'h arm64_dev" where
  "axiom_hw_get_if_info mm r v if_number =
     (let info = (\<lambda>reg. let (ftr, v) = on_hw (axi_reg_read32 mm (ar_registers r) reg) v in (AXIOM_RET_OK, ucast ftr, v)) in
      if if_number = 0 then (AXIOM_RET_OK, 0, v)
      else if if_number = 1 then info AXIOMREG_IO_IFINFO_1
      else if if_number = 2 then info AXIOMREG_IO_IFINFO_2
      else if if_number = 3 then info AXIOMREG_IO_IFINFO_3
      else if if_number = 4 then info AXIOMREG_IO_IFINFO_4
      else (AXIOM_RET_ERROR, 0, v))"

definition arm64_hw :: "'h mmio \<Rightarrow> axiom_dev_regs \<Rightarrow> 'h arm64_dev hw_api" where
  "arm64_hw mm r = \<lparr>
     hw_raw_tx = axiom_hw_raw_tx mm r, hw_raw_tx_avail = axiom_hw_raw_tx_avail mm r,
     hw_raw_rx = axiom_hw_raw_rx mm r, hw_raw_rx_avail = axiom_hw_raw_rx_avail mm r,
     hw_rdma_tx = axiom_hw_rdma_tx mm r, hw_rdma_tx_avail = axiom_hw_rdma_tx_avail mm r,
     hw_rdma_rx = axiom_hw_rdma_rx mm r, hw_rdma_rx_avail = axiom_hw_rdma_rx_avail mm r,
     hw_read_ni_status = axiom_hw_read_ni_status, hw_set_ni_control = axiom_hw_set_ni_control,
     hw_read_ni_control = axiom_hw_read_ni_control mm r, hw_set_rdma_zone = axiom_hw_set_rdma_zone mm r,
     hw_set_long_buf = axiom_hw_set_long_buf mm r, hw_set_node_id = axiom_hw_set_node_id mm r,
     hw_get_node_id = axiom_hw_get_node_id mm r, hw_set_routing = axiom_hw_set_routing mm r,
     hw_get_routing = axiom_hw_get_routing mm r, hw_get_if_number = axiom_hw_get_if_number mm r,
     hw_get_if_info = axiom_hw_get_if_info mm r, hw_enable_irq = axiom_hw_enable_irq mm r,
     hw_disable_irq = axiom_hw_disable_irq mm r, hw_pending_irq = axiom_hw_pending_irq mm r,
     hw_ack_irq = axiom_hw_ack_irq mm r, hw_check_version = axiom_hw_check_version mm r\<rparr>"

section \<open>Register dumps\<close>

text \<open>The printing functions, as the values they print, in order.\<close>

fun read_regs :: "('h \<Rightarrow> u32 \<times> 'h) list \<Rightarrow> 'h \<Rightarrow> u32 list \<times> 'h" where
  "read_regs [] h = ([], h)"
| "read_regs (f # fs) h = (let (x, h) = f h; (xs, h) = read_regs fs h in (x # xs, h))"

definition axiom_print_status_reg :: "'h mmio \<Rightarrow> axiom_dev_regs \<Rightarrow> 'h arm64_dev \<Rightarrow> u32 list \<times> 'h arm64_dev" where
  "axiom_print_status_reg mm r = on_hw (read_regs (map (axi_reg_read32 mm (ar_registers r))
     [AXIOMREG_IO_VERSION, AXIOMREG_IO_IFNUMBER, AXIOMREG_IO_IFINFO_1, AXIOMREG_IO_IFINFO_2, AXIOMREG_IO_IFINFO_3, AXIOMREG_IO_IFINFO_4]))"

definition axiom_print_control_reg :: "'h mmio \<Rightarrow> axiom_dev_regs \<Rightarrow> 'h arm64_dev \<Rightarrow> u32 list \<times> 'h arm64_dev" where
  "axiom_print_control_reg mm r = on_hw (read_regs (map (axi_reg_read32 mm (ar_registers r)) [AXIOMREG_IO_CONTROL, AXIOMREG_IO_NODEID]))"

fun axiom_printbinary :: "u64 \<Rightarrow> nat \<Rightarrow> string" where
  "axiom_printbinary x 0 = []"
| "axiom_printbinary x (Suc n) = (if push_bit n 1 AND x \<noteq> 0 then CHR ''1'' else CHR ''0'') # axiom_printbinary x n"

fun axiom_print_routing_reg :: "'h mmio \<Rightarrow> axiom_dev_regs \<Rightarrow> nat list \<Rightarrow> 'h arm64_dev \<Rightarrow> string list \<times> 'h arm64_dev" where
  "axiom_print_routing_reg mm r [] v = ([], v)"
| "axiom_print_routing_reg mm r (i # is) v =
     (let (ret, m, v) = axiom_hw_get_routing mm r v (of_nat i); (ss, v) = axiom_print_routing_reg mm r is v in
      (axiom_printbinary (ucast m) 8 # ss, v))"

definition axiom_print_queue_reg :: "'h mmio \<Rightarrow> axiom_dev_regs \<Rightarrow> 'h arm64_dev \<Rightarrow> u32 list \<times> 'h arm64_dev" where
  "axiom_print_queue_reg mm r = on_hw (read_regs
     [axi_fifo_tx_vacancy mm (ar_fifo_raw_tx r), axi_fifo_rx_occupancy mm (ar_fifo_raw_rx r),
      axi_fifo_tx_vacancy mm (ar_fifo_rdma_tx r), axi_fifo_rx_occupancy mm (ar_fifo_rdma_rx r)])"

definition axiom_print_fpga_debug :: "'h mmio \<Rightarrow> axiom_dev_regs \<Rightarrow> 'h arm64_dev \<Rightarrow> u32 list \<times> 'h arm64_dev" where
  "axiom_print_fpga_debug mm r v =
     (if gp_base (ar_debug r) = 0 then ([], v) else on_hw (read_regs [axi_gpio_read32 mm (ar_debug r)]) v)"

end
