(* ===== verification/NicRegs.thy ===== *)
theory NicRegs
  imports NicTypes
begin

text \<open>
  The registers of the NIC: the bit fields of \<open>include/axiom_nic_regs.h\<close>, and the register map of the QEMU device
  (\<open>include/axiom_nic_regs_qemuarm64.h\<close>) with the access rules its comments state: address, width of an element, number
  of elements and direction.
\<close>

section \<open>Bit fields\<close>

text \<open>
  A register is a union of a raw word and a structure of bit fields, written here as the list of its fields with their widths.
  The ABI of the targets gives the fields consecutive bits from the least significant one on, in the order of their
  declaration; a field that does not fit into the 32 bits begun starts the next word.
\<close>

type_synonym bit_layout = "(string \<times> nat) list"

fun field_pos :: "bit_layout \<Rightarrow> string \<Rightarrow> nat \<Rightarrow> (nat \<times> nat) option" where
  "field_pos [] name pos = None"
| "field_pos ((f, w) # fs) name pos =
     (let p = (if 32 < pos mod 32 + w then 32 * Suc (pos div 32) else pos) in
      if f = name then Some (p, w) else field_pos fs name (p + w))"

definition axiomreg_version :: bit_layout where
  "axiomreg_version = [(''reserved'', 16), (''bitstream'', 8), (''board'', 8)]"
definition axiomreg_ifinfo :: bit_layout where
  "axiomreg_ifinfo = [(''reserved'', 29), (''connected'', 1), (''rx'', 1), (''tx'', 1)]"
definition axiomreg_control :: bit_layout where
  "axiomreg_control = [(''reserved'', 30), (''xsmll_enable'', 1), (''ack_enable'', 1), (''reset'', 1), (''loopback'', 1)]"
definition axiomreg_interrupt :: bit_layout where
  "axiomreg_interrupt = [(''reserved'', 28), (''rdma_rx'', 1), (''rdma_tx'', 1), (''raw_rx'', 1), (''raw_tx'', 1)]"
definition axiomreg_qstatus :: bit_layout where
  "axiomreg_qstatus = [(''reserved'', 31), (''avail'', 1)]"

text \<open>The masks the header declares next to the unions; the driver uses only these.\<close>

abbreviation (input) AXIOMREG_CONTROL_RESET :: u32 where "AXIOMREG_CONTROL_RESET \<equiv> 2"
abbreviation (input) AXIOMREG_CONTROL_ACK_ENABLE :: u32 where "AXIOMREG_CONTROL_ACK_ENABLE \<equiv> 4"
abbreviation (input) AXIOMREG_QSTATUS_AVAIL :: u32 where "AXIOMREG_QSTATUS_AVAIL \<equiv> 1"

definition version_masks :: "(string \<times> u32) list" where
  "version_masks = [(''board'', 0xFF), (''bitstream'', 0xFF00)]"
definition ifinfo_masks :: "(string \<times> u32) list" where
  "ifinfo_masks = [(''tx'', 1), (''rx'', 2), (''connected'', 4)]"
definition control_masks :: "(string \<times> u32) list" where
  "control_masks = [(''loopback'', 1), (''reset'', AXIOMREG_CONTROL_RESET), (''ack_enable'', AXIOMREG_CONTROL_ACK_ENABLE), (''xsmll_enable'', 8)]"
definition interrupt_masks :: "(string \<times> u32) list" where
  "interrupt_masks = [(''raw_tx'', AXIOMREG_IRQ_RAW_TX), (''raw_rx'', AXIOMREG_IRQ_RAW_RX), (''rdma_tx'', AXIOMREG_IRQ_RDMA_TX),
     (''rdma_rx'', AXIOMREG_IRQ_RDMA_RX)]"
definition qstatus_masks :: "(string \<times> u32) list" where
  "qstatus_masks = [(''avail'', AXIOMREG_QSTATUS_AVAIL)]"

text \<open>Whether a mask selects the bits a field occupies, and whether it selects the bits counted from the other end of the word.\<close>

definition mask_is_field :: "bit_layout \<Rightarrow> string \<times> u32 \<Rightarrow> bool" where
  "mask_is_field fs nm = (case field_pos fs (fst nm) 0 of Some (p, w) \<Rightarrow> snd nm = push_bit p (mask w) | None \<Rightarrow> False)"
definition mask_is_mirrored :: "bit_layout \<Rightarrow> string \<times> u32 \<Rightarrow> bool" where
  "mask_is_mirrored fs nm = (case field_pos fs (fst nm) 0 of Some (p, w) \<Rightarrow> p + w \<le> 32 \<and> snd nm = push_bit (32 - (p + w)) (mask w) | None \<Rightarrow> False)"

lemmas layout_defs = axiomreg_version_def axiomreg_ifinfo_def axiomreg_control_def axiomreg_interrupt_def axiomreg_qstatus_def
  version_masks_def ifinfo_masks_def control_masks_def interrupt_masks_def qstatus_masks_def mask_is_field_def mask_is_mirrored_def

text \<open>
  No mask selects the field of the same name: the unions are laid out for an ABI that allocates from the most
  significant bit. For such an ABI four of the five registers would be right; the fields of CONTROL have 34 bits
  together and are wrong for either.
\<close>

lemma masks_and_fields_disagree:
  "list_all (Not \<circ> mask_is_field axiomreg_version) version_masks" "list_all (Not \<circ> mask_is_field axiomreg_ifinfo) ifinfo_masks"
  "list_all (Not \<circ> mask_is_field axiomreg_control) control_masks" "list_all (Not \<circ> mask_is_field axiomreg_interrupt) interrupt_masks"
  "list_all (Not \<circ> mask_is_field axiomreg_qstatus) qstatus_masks"
  by (simp_all add: layout_defs mask_eq_exp_minus_1)

lemma masks_of_mirrored_fields:
  "list_all (mask_is_mirrored axiomreg_version) version_masks" "list_all (mask_is_mirrored axiomreg_ifinfo) ifinfo_masks"
  "list_all (mask_is_mirrored axiomreg_interrupt) interrupt_masks" "list_all (mask_is_mirrored axiomreg_qstatus) qstatus_masks"
  "list_all (Not \<circ> mask_is_mirrored axiomreg_control) control_masks"
  by (simp_all add: layout_defs mask_eq_exp_minus_1)

section \<open>The register map of the QEMU device\<close>

datatype io_reg = IO_VERSION | IO_STATUS | IO_IFNUMBER | IO_IFINFO_BASE | IO_CONTROL | IO_NODEID | IO_DMA_START | IO_DMA_END
  | IO_MSKIRQ | IO_PNDIRQ | IO_ROUTING_BASE | IO_RAW_TX_STATUS | IO_RAW_TX_DESC | IO_RAW_RX_STATUS | IO_RAW_RX_DESC
  | IO_RDMA_TX_STATUS | IO_RDMA_TX_DESC | IO_RDMA_RX_STATUS | IO_RDMA_RX_DESC | IO_LONG_BUF_BASE

datatype io_dir = RO | WO | RW

text \<open>Address, bytes of an element, number of elements, direction.\<close>

fun io_spec :: "io_reg \<Rightarrow> nat \<times> nat \<times> nat \<times> io_dir" where
  "io_spec IO_VERSION = (0x000, 4, 1, RO)"
| "io_spec IO_STATUS = (0x004, 4, 1, RO)"
| "io_spec IO_IFNUMBER = (0x008, 4, 1, RO)"
| "io_spec IO_IFINFO_BASE = (0x010, 1, 8, RO)"
| "io_spec IO_CONTROL = (0x040, 4, 1, RW)"
| "io_spec IO_NODEID = (0x044, 4, 1, RW)"
| "io_spec IO_DMA_START = (0x048, 8, 1, WO)"
| "io_spec IO_DMA_END = (0x050, 8, 1, WO)"
| "io_spec IO_MSKIRQ = (0x060, 4, 1, RW)"
| "io_spec IO_PNDIRQ = (0x064, 4, 1, RW)"
| "io_spec IO_ROUTING_BASE = (0x100, 1, 256, RW)"
| "io_spec IO_RAW_TX_STATUS = (0x300, 4, 1, RO)"
| "io_spec IO_RAW_TX_DESC = (0x400, 132, 1, WO)"
| "io_spec IO_RAW_RX_STATUS = (0x310, 4, 1, RW)"
| "io_spec IO_RAW_RX_DESC = (0x500, 132, 1, RO)"
| "io_spec IO_RDMA_TX_STATUS = (0x320, 4, 1, RO)"
| "io_spec IO_RDMA_TX_DESC = (0x600, 12, 1, WO)"
| "io_spec IO_RDMA_RX_STATUS = (0x330, 4, 1, RW)"
| "io_spec IO_RDMA_RX_DESC = (0x610, 12, 1, RO)"
| "io_spec IO_LONG_BUF_BASE = (0x620, 8, 32, RW)"

abbreviation (input) AXIOMREG_IO_SIZE :: nat where "AXIOMREG_IO_SIZE \<equiv> 0x720"

definition io_addr :: "io_reg \<Rightarrow> nat" where "io_addr r = fst (io_spec r)"
definition io_width :: "io_reg \<Rightarrow> nat" where "io_width r = fst (snd (io_spec r))"
definition io_count :: "io_reg \<Rightarrow> nat" where "io_count r = fst (snd (snd (io_spec r)))"
definition io_dir :: "io_reg \<Rightarrow> io_dir" where "io_dir r = snd (snd (snd (io_spec r)))"

lemmas io_defs = io_addr_def io_width_def io_count_def io_dir_def

definition all_io_regs :: "io_reg list" where
  "all_io_regs = [IO_VERSION, IO_STATUS, IO_IFNUMBER, IO_IFINFO_BASE, IO_CONTROL, IO_NODEID, IO_DMA_START, IO_DMA_END, IO_MSKIRQ,
     IO_PNDIRQ, IO_ROUTING_BASE, IO_RAW_TX_STATUS, IO_RAW_TX_DESC, IO_RAW_RX_STATUS, IO_RAW_RX_DESC, IO_RDMA_TX_STATUS,
     IO_RDMA_TX_DESC, IO_RDMA_RX_STATUS, IO_RDMA_RX_DESC, IO_LONG_BUF_BASE]"

lemma all_io_regs_complete: "r \<in> set all_io_regs"
  by (cases r) (simp_all add: all_io_regs_def)

text \<open>The windows of the registers lie inside the mapped region and do not overlap.\<close>

lemma io_regs_inside: "io_addr r + io_width r * io_count r \<le> AXIOMREG_IO_SIZE"
  by (cases r) (simp_all add: io_defs)

lemma io_regs_disjoint: "r \<noteq> r' \<Longrightarrow> io_addr r + io_width r * io_count r \<le> io_addr r' \<or> io_addr r' + io_width r' * io_count r' \<le> io_addr r"
  by (cases r; cases r') (simp_all add: io_defs)

text \<open>
  An access to the bus, with its width in bytes. It is allowed when it starts at an element of a register that may be
  accessed in its direction and is not wider than the element.
\<close>

datatype io_access = Rd nat u64 | Wr nat u64

fun access_dir :: "io_access \<Rightarrow> io_dir" where "access_dir (Rd n a) = RO" | "access_dir (Wr n a) = WO"
fun access_width :: "io_access \<Rightarrow> nat" where "access_width (Rd n a) = n" | "access_width (Wr n a) = n"
fun access_addr :: "io_access \<Rightarrow> u64" where "access_addr (Rd n a) = a" | "access_addr (Wr n a) = a"

definition access_at :: "u64 \<Rightarrow> io_reg \<Rightarrow> nat \<Rightarrow> io_access \<Rightarrow> bool" where
  "access_at base r i acc \<longleftrightarrow> i < io_count r \<and> access_addr acc = base + of_nat (io_addr r + i * io_width r) \<and>
     access_width acc \<le> io_width r \<and> io_dir r \<in> {access_dir acc, RW}"

definition access_ok :: "u64 \<Rightarrow> io_access \<Rightarrow> bool" where
  "access_ok base acc \<longleftrightarrow> (\<exists>r \<in> set all_io_regs. \<exists>i < io_count r. access_at base r i acc)"

lemma access_okI: "access_at base r i acc \<Longrightarrow> access_ok base acc"
  using all_io_regs_complete by (auto simp: access_ok_def access_at_def)

end
