(* ===== verification/Arm64Regs.thy ===== *)
theory Arm64Regs
  imports Arm64Api NicRegs
begin

text \<open>
  The register block of the FPGA: the map that \<open>axiom_nic_regs_arm64.h\<close> describes, at the offsets of \<open>axiom_xilinx.h\<close>, and
  the accesses the arm64 layer makes to it. Registers do not overlap, and every configuration function reads only registers
  that can be read and writes only words of registers that can be written.
\<close>

section \<open>The register map\<close>

datatype fpga_reg = FR_VERSION | FR_IFNUMBER | FR_IFINFO_1 | FR_IFINFO_2 | FR_IFINFO_3 | FR_IFINFO_4 | FR_CONTROL | FR_NODEID
  | FR_DMA_START | FR_DMA_END | FR_AXCACHE | FR_AXPROT | FR_MSKIRQ | FR_PNDIRQ | FR_CLRIRQ

text \<open>The offset of a register in the block.\<close>

fun fpga_addr :: "fpga_reg \<Rightarrow> nat" where
  "fpga_addr FR_VERSION = 0x68"
| "fpga_addr FR_IFNUMBER = 0x70"
| "fpga_addr FR_IFINFO_1 = 0x48"
| "fpga_addr FR_IFINFO_2 = 0x50"
| "fpga_addr FR_IFINFO_3 = 0x58"
| "fpga_addr FR_IFINFO_4 = 0x60"
| "fpga_addr FR_CONTROL = 0x78"
| "fpga_addr FR_NODEID = 0x28"
| "fpga_addr FR_DMA_START = 0x1c"
| "fpga_addr FR_DMA_END = 0x10"
| "fpga_addr FR_AXCACHE = 0x80"
| "fpga_addr FR_AXPROT = 0x88"
| "fpga_addr FR_MSKIRQ = 0x30"
| "fpga_addr FR_PNDIRQ = 0x38"
| "fpga_addr FR_CLRIRQ = 0x40"

text \<open>The number of 32-bit words and the direction. \<open>AXIOMREG_IO_STATUS\<close> is not implemented.\<close>

fun fpga_spec :: "fpga_reg \<Rightarrow> nat \<times> io_dir" where
  "fpga_spec FR_VERSION = (1, RO)"
| "fpga_spec FR_IFNUMBER = (1, RO)"
| "fpga_spec FR_IFINFO_1 = (1, RO)"
| "fpga_spec FR_IFINFO_2 = (1, RO)"
| "fpga_spec FR_IFINFO_3 = (1, RO)"
| "fpga_spec FR_IFINFO_4 = (1, RO)"
| "fpga_spec FR_CONTROL = (1, RW)"
| "fpga_spec FR_NODEID = (1, RW)"
| "fpga_spec FR_DMA_START = (2, WO)"
| "fpga_spec FR_DMA_END = (2, WO)"
| "fpga_spec FR_AXCACHE = (1, WO)"
| "fpga_spec FR_AXPROT = (1, WO)"
| "fpga_spec FR_MSKIRQ = (1, RW)"
| "fpga_spec FR_PNDIRQ = (1, RW)"
| "fpga_spec FR_CLRIRQ = (1, RW)"

definition fpga_words :: "fpga_reg \<Rightarrow> nat" where "fpga_words g = fst (fpga_spec g)"
definition fpga_dir :: "fpga_reg \<Rightarrow> io_dir" where "fpga_dir g = snd (fpga_spec g)"

lemmas fpga_defs = fpga_words_def fpga_dir_def

lemma fpga_aligned: "4 dvd fpga_addr g"
  by (cases g) (simp_all add: fpga_defs)

lemma fpga_disjoint: "g \<noteq> g' \<Longrightarrow> fpga_addr g + 4 * fpga_words g \<le> fpga_addr g' \<or> fpga_addr g' + 4 * fpga_words g' \<le> fpga_addr g"
  by (cases g; cases g') (simp_all add: fpga_defs)

section \<open>Accesses\<close>

text \<open>
  A device that records the 32-bit accesses; its answers are an arbitrary function of the accesses so far. An access is allowed when it is
  to a word of a register that has its direction.
\<close>

definition fpga_monitor :: "(io_access list \<Rightarrow> u64) \<Rightarrow> io_access list mmio" where
  "fpga_monitor ans = \<lparr>
     ioread32 = \<lambda>a h. (ucast (ans h), h @ [Rd 4 a]), iowrite32 = \<lambda>x a h. h @ [Wr 4 a],
     readq = \<lambda>a h. (ans h, h @ [Rd 8 a]), writeq = \<lambda>x a h. h @ [Wr 8 a], schedule = \<lambda>h. h\<rparr>"

definition dir_ok :: "io_dir \<Rightarrow> io_dir \<Rightarrow> bool" where
  "dir_ok d g \<longleftrightarrow> g = RW \<or> g = d"

definition fpga_allowed :: "u64 \<Rightarrow> io_access \<Rightarrow> bool" where
  "fpga_allowed base acc \<longleftrightarrow> access_width acc = 4 \<and>
     (\<exists>g j. j < fpga_words g \<and> access_addr acc = base + of_nat (fpga_addr g) + of_nat (4 * j) \<and> dir_ok (access_dir acc) (fpga_dir g))"

lemma fpga_allowedI: "j < fpga_words g \<Longrightarrow> dir_ok RO (fpga_dir g) \<Longrightarrow> a = base + of_nat (fpga_addr g) + of_nat (4 * j) \<Longrightarrow> fpga_allowed base (Rd 4 a)"
  "j < fpga_words g \<Longrightarrow> dir_ok WO (fpga_dir g) \<Longrightarrow> a = base + of_nat (fpga_addr g) + of_nat (4 * j) \<Longrightarrow> fpga_allowed base (Wr 4 a)"
  by (auto simp: fpga_allowed_def)

lemma allowed_reads:
  "fpga_allowed base (Rd 4 (base + AXIOMREG_IO_VERSION))" "fpga_allowed base (Rd 4 (base + AXIOMREG_IO_IFNUMBER))"
  "fpga_allowed base (Rd 4 (base + AXIOMREG_IO_IFINFO_1))" "fpga_allowed base (Rd 4 (base + AXIOMREG_IO_IFINFO_2))"
  "fpga_allowed base (Rd 4 (base + AXIOMREG_IO_IFINFO_3))" "fpga_allowed base (Rd 4 (base + AXIOMREG_IO_IFINFO_4))"
  "fpga_allowed base (Rd 4 (base + AXIOMREG_IO_CONTROL))" "fpga_allowed base (Rd 4 (base + AXIOMREG_IO_NODEID))"
  "fpga_allowed base (Rd 4 (base + AXIOMREG_IO_PNDIRQ))"
  by (rule fpga_allowedI(1) [of 0 FR_VERSION] fpga_allowedI(1) [of 0 FR_IFNUMBER] fpga_allowedI(1) [of 0 FR_IFINFO_1]
      fpga_allowedI(1) [of 0 FR_IFINFO_2] fpga_allowedI(1) [of 0 FR_IFINFO_3] fpga_allowedI(1) [of 0 FR_IFINFO_4]
      fpga_allowedI(1) [of 0 FR_CONTROL] fpga_allowedI(1) [of 0 FR_NODEID] fpga_allowedI(1) [of 0 FR_PNDIRQ];
      simp add: fpga_defs dir_ok_def; fail)+

lemma allowed_writes:
  "fpga_allowed base (Wr 4 (base + AXIOMREG_IO_MSKIRQ))" "fpga_allowed base (Wr 4 (base + AXIOMREG_IO_CLRIRQ))"
  "fpga_allowed base (Wr 4 (base + AXIOMREG_IO_NODEID))" "fpga_allowed base (Wr 4 (base + AXIOMREG_IO_DMA_START))"
  "fpga_allowed base (Wr 4 (base + AXIOMREG_IO_DMA_START + 4))" "fpga_allowed base (Wr 4 (base + AXIOMREG_IO_DMA_END))"
  "fpga_allowed base (Wr 4 (base + AXIOMREG_IO_DMA_END + 4))"
  by (rule fpga_allowedI(2) [of 0 FR_MSKIRQ] fpga_allowedI(2) [of 0 FR_CLRIRQ] fpga_allowedI(2) [of 0 FR_NODEID]
      fpga_allowedI(2) [of 0 FR_DMA_START] fpga_allowedI(2) [of 1 FR_DMA_START] fpga_allowedI(2) [of 0 FR_DMA_END]
      fpga_allowedI(2) [of 1 FR_DMA_END];
      simp add: fpga_defs dir_ok_def; fail)+

section \<open>The configuration functions\<close>

datatype fpga_call = FEnableIrq | FDisableIrq | FPendingIrq | FAckIrq u32 | FCheckVersion | FReadStatus | FSetControl u32 | FReadControl
  | FSetRdmaZone u64 u64 | FSetNodeId u8 | FGetNodeId | FGetIfNumber | FGetIfInfo u8 | FPrintStatus | FPrintControl

fun fpga_run :: "'h mmio \<Rightarrow> axiom_dev_regs \<Rightarrow> fpga_call \<Rightarrow> 'h arm64_dev \<Rightarrow> 'h arm64_dev" where
  "fpga_run mm r FEnableIrq v = axiom_hw_enable_irq mm r v"
| "fpga_run mm r FDisableIrq v = axiom_hw_disable_irq mm r v"
| "fpga_run mm r FPendingIrq v = snd (axiom_hw_pending_irq mm r v)"
| "fpga_run mm r (FAckIrq x) v = axiom_hw_ack_irq mm r v x"
| "fpga_run mm r FCheckVersion v = snd (axiom_hw_check_version mm r v)"
| "fpga_run mm r FReadStatus v = snd (axiom_hw_read_ni_status v)"
| "fpga_run mm r (FSetControl x) v = axiom_hw_set_ni_control v x"
| "fpga_run mm r FReadControl v = snd (axiom_hw_read_ni_control mm r v)"
| "fpga_run mm r (FSetRdmaZone a b) v = axiom_hw_set_rdma_zone mm r v a b"
| "fpga_run mm r (FSetNodeId n) v = axiom_hw_set_node_id mm r v n"
| "fpga_run mm r FGetNodeId v = snd (axiom_hw_get_node_id mm r v)"
| "fpga_run mm r FGetIfNumber v = snd (snd (axiom_hw_get_if_number mm r v))"
| "fpga_run mm r (FGetIfInfo n) v = snd (snd (axiom_hw_get_if_info mm r v n))"
| "fpga_run mm r FPrintStatus v = snd (axiom_print_status_reg mm r v)"
| "fpga_run mm r FPrintControl v = snd (axiom_print_control_reg mm r v)"

lemmas fpga_call_defs = axiom_hw_enable_irq_def axiom_hw_disable_irq_def axiom_hw_pending_irq_def axiom_hw_ack_irq_def
  axiom_hw_check_version_def axiom_hw_read_ni_status_def axiom_hw_set_ni_control_def axiom_hw_read_ni_control_def
  axiom_hw_set_rdma_zone_def axiom_hw_set_node_id_def axiom_hw_get_node_id_def axiom_hw_get_if_number_def
  axiom_hw_get_if_info_def axiom_print_status_reg_def axiom_print_control_reg_def

text \<open>One call adds allowed accesses to the log, whatever the device answers; so does every sequence of calls.\<close>

lemma fpga_call_allowed:
  assumes "list_all (fpga_allowed (rg_base (ar_registers r))) (ad_hw v)"
  shows "list_all (fpga_allowed (rg_base (ar_registers r))) (ad_hw (fpga_run (fpga_monitor ans) r c v))"
  using assms by (cases c)
    (auto simp: fpga_call_defs on_hw_def axi_reg_read32_def axi_reg_write32_def axi_reg_write64_def fpga_monitor_def Let_def
      allowed_reads allowed_writes allowed_writes [simplified] split: if_splits)

lemma fpga_calls_allowed:
  "list_all (fpga_allowed (rg_base (ar_registers r))) (ad_hw (fold (fpga_run (fpga_monitor ans) r) cs \<lparr>ad_next_raw_id = i, ad_hw = []\<rparr>))"
proof -
  have "list_all (fpga_allowed (rg_base (ar_registers r))) (ad_hw v) \<Longrightarrow>
      list_all (fpga_allowed (rg_base (ar_registers r))) (ad_hw (fold (fpga_run (fpga_monitor ans) r) cs v))" for v
    by (induction cs arbitrary: v) (auto intro: fpga_call_allowed)
  then show ?thesis by simp
qed

end
