(* ===== verification/QemuApi.thy ===== *)
theory QemuApi
  imports DriverState NicRegs Arm64Api
begin

text \<open>
  The hardware layer for the NIC that QEMU emulates (\<open>axiom_netdev_driver/axiom_kernel_api_qemuarm64.c\<close>). The device is a
  parameter: the five access functions of the kernel the layer uses, over a device state \<open>'h\<close>. The registers are mapped at
  \<open>vregs\<close>, which is set once and is an argument of the operations.

  The two RAW functions take header and payload apart, where the driver and the declarations of \<open>axiom_nic_api_hw.h\<close> have one
  pointer to a message, and they access a member \<open>raw32\<close> of the header that \<open>axiom_nic_packets.h\<close> does not declare: the file is
  older than the headers. The member is a parameter of the model.
\<close>

record 'h qemu_io =
  q_ioread32 :: "u64 \<Rightarrow> 'h \<Rightarrow> u32 \<times> 'h"
  q_iowrite32 :: "u32 \<Rightarrow> u64 \<Rightarrow> 'h \<Rightarrow> 'h"
  q_ioread8 :: "u64 \<Rightarrow> 'h \<Rightarrow> u8 \<times> 'h"
  q_iowrite8 :: "u8 \<Rightarrow> u64 \<Rightarrow> 'h \<Rightarrow> 'h"
  q_writeq :: "u64 \<Rightarrow> u64 \<Rightarrow> 'h \<Rightarrow> 'h"

record 'h qemu_dev =
  qd_next_raw_id :: u8
  qd_hw :: 'h

record raw32_member =
  r32_get :: "raw_hdr \<Rightarrow> u32"
  r32_set :: "u32 \<Rightarrow> raw_hdr \<Rightarrow> raw_hdr"

definition io_at :: "u64 \<Rightarrow> io_reg \<Rightarrow> u64" where
  "io_at vregs r = vregs + of_nat (io_addr r)"

definition on_qd :: "('h \<Rightarrow> 'a \<times> 'h) \<Rightarrow> 'h qemu_dev \<Rightarrow> 'a \<times> 'h qemu_dev" where
  "on_qd f v = (let (x, h) = f (qd_hw v) in (x, v\<lparr>qd_hw := h\<rparr>))"
definition upd_qd :: "('h \<Rightarrow> 'h) \<Rightarrow> 'h qemu_dev \<Rightarrow> 'h qemu_dev" where
  "upd_qd f v = v\<lparr>qd_hw := f (qd_hw v)\<rparr>"

text \<open>\<open>axiom_hw_dev_alloc\<close> stores through the result of \<open>vmalloc\<close> without testing it.\<close>

definition qemu_hw_dev_alloc :: "bool \<Rightarrow> 'h \<Rightarrow> 'h qemu_dev option" where
  "qemu_hw_dev_alloc vmalloc h = (if vmalloc then Some \<lparr>qd_next_raw_id = 0, qd_hw = h\<rparr> else None)"

section \<open>Interrupts and version\<close>

definition qemu_hw_enable_irq :: "'h qemu_io \<Rightarrow> u64 \<Rightarrow> 'h qemu_dev \<Rightarrow> 'h qemu_dev" where
  "qemu_hw_enable_irq io vregs = upd_qd (q_iowrite32 io AXIOMREG_IRQ_ALL (io_at vregs IO_MSKIRQ))"
definition qemu_hw_disable_irq :: "'h qemu_io \<Rightarrow> u64 \<Rightarrow> 'h qemu_dev \<Rightarrow> 'h qemu_dev" where
  "qemu_hw_disable_irq io vregs = upd_qd (q_iowrite32 io (NOT AXIOMREG_IRQ_ALL) (io_at vregs IO_MSKIRQ))"
definition qemu_hw_pending_irq :: "'h qemu_io \<Rightarrow> u64 \<Rightarrow> 'h qemu_dev \<Rightarrow> u32 \<times> 'h qemu_dev" where
  "qemu_hw_pending_irq io vregs = on_qd (q_ioread32 io (io_at vregs IO_PNDIRQ))"
definition qemu_hw_ack_irq :: "'h qemu_io \<Rightarrow> u64 \<Rightarrow> 'h qemu_dev \<Rightarrow> u32 \<Rightarrow> 'h qemu_dev" where
  "qemu_hw_ack_irq io vregs v ack_irq = upd_qd (q_iowrite32 io ack_irq (io_at vregs IO_PNDIRQ)) v"
definition qemu_hw_check_version :: "'h qemu_io \<Rightarrow> u64 \<Rightarrow> 'h qemu_dev \<Rightarrow> int \<times> 'h qemu_dev" where
  "qemu_hw_check_version io vregs v = (let (version, v) = on_qd (q_ioread32 io (io_at vregs IO_VERSION)) v in (AXIOM_RET_OK, v))"

section \<open>Messages\<close>

text \<open>
  The loops \<open>for (i = 0; i < limit; i += 4)\<close> that move bytes in words of 32 bits between a buffer and a descriptor register; an
  access behind the buffer is undefined behaviour.
\<close>

function word_tx_loop :: "'h qemu_io \<Rightarrow> u64 \<Rightarrow> u8 list \<Rightarrow> nat \<Rightarrow> nat \<Rightarrow> 'h \<Rightarrow> 'h option" where
  "word_tx_loop io reg buf limit i h =
     (if i < limit then
        if i + 4 \<le> length buf then word_tx_loop io reg buf limit (i + 4) (q_iowrite32 io (le_word (take 4 (drop i buf))) reg h) else None
      else Some h)"
  by pat_completeness auto
termination by (relation "measure (\<lambda>(io, reg, buf, limit, i, h). limit - i)") auto

function word_rx_loop :: "'h qemu_io \<Rightarrow> u64 \<Rightarrow> nat \<Rightarrow> nat \<Rightarrow> u8 list \<Rightarrow> 'h \<Rightarrow> (u8 list \<times> 'h) option" where
  "word_rx_loop io reg limit i buf h =
     (if i < limit then
        if i + 4 \<le> length buf then
          case q_ioread32 io reg h of (w, h) \<Rightarrow> word_rx_loop io reg limit (i + 4) (take i buf @ le_bytes 4 w @ drop (i + 4) buf) h
        else None
      else Some (buf, h))"
  by pat_completeness auto
termination by (relation "measure (\<lambda>(io, reg, limit, i, buf, h). limit - i)") auto

declare word_tx_loop.simps [simp del] word_rx_loop.simps [simp del]

definition qemu_hw_raw_tx :: "'h qemu_io \<Rightarrow> u64 \<Rightarrow> raw32_member \<Rightarrow> 'h qemu_dev \<Rightarrow> raw_hdr \<Rightarrow> u8 list \<Rightarrow>
    (u8 \<times> raw_hdr \<times> 'h qemu_dev) option" where
  "qemu_hw_raw_tx io vregs m32 v hdr payload = do {
     let hdr = hdr\<lparr>rh_port_type := set_pt_s 0 (rh_port_type hdr), rh_msg_id := qd_next_raw_id v\<rparr>;
     let v = v\<lparr>qd_next_raw_id := qd_next_raw_id v + 1\<rparr>;
     let base_reg = io_at vregs IO_RAW_TX_DESC;
     let h = q_iowrite32 io (r32_get m32 hdr) base_reg (qd_hw v);
     h \<leftarrow> word_tx_loop io base_reg payload (min (unat (rh_payload_size hdr)) AXIOM_RAW_PAYLOAD_MAX_SIZE) 0 h;
     Some (rh_msg_id hdr, hdr, v\<lparr>qd_hw := h\<rparr>) }"

definition qemu_hw_raw_tx_avail :: "'h qemu_io \<Rightarrow> u64 \<Rightarrow> 'h qemu_dev \<Rightarrow> u32 \<times> 'h qemu_dev" where
  "qemu_hw_raw_tx_avail io vregs v = (let (ret, v) = on_qd (q_ioread32 io (io_at vregs IO_RAW_TX_STATUS)) v in (ret AND AXIOMREG_QSTATUS_AVAIL, v))"

definition qemu_hw_raw_rx :: "'h qemu_io \<Rightarrow> u64 \<Rightarrow> raw32_member \<Rightarrow> 'h qemu_dev \<Rightarrow> raw_hdr \<Rightarrow> u8 list \<Rightarrow>
    (u8 \<times> raw_hdr \<times> u8 list \<times> 'h qemu_dev) option" where
  "qemu_hw_raw_rx io vregs m32 v hdr payload =
     (let base_reg = io_at vregs IO_RAW_RX_DESC;
          (w, h) = q_ioread32 io base_reg (qd_hw v);
          hdr = r32_set m32 w hdr in do {
        (payload, h) \<leftarrow> word_rx_loop io base_reg (min (unat (rh_payload_size hdr)) AXIOM_RAW_PAYLOAD_MAX_SIZE) 0 payload h;
        Some (rh_msg_id hdr, hdr, payload, v\<lparr>qd_hw := h\<rparr>) })"

definition qemu_hw_raw_rx_avail :: "'h qemu_io \<Rightarrow> u64 \<Rightarrow> 'h qemu_dev \<Rightarrow> u32 \<times> 'h qemu_dev" where
  "qemu_hw_raw_rx_avail io vregs v = (let (ret, v) = on_qd (q_ioread32 io (io_at vregs IO_RAW_RX_STATUS)) v in (ret AND AXIOMREG_QSTATUS_AVAIL, v))"

text \<open>An RDMA descriptor: its first 12 bytes in words, byte 12 alone; the padding of the structure is not transferred.\<close>

definition qemu_hw_rdma_tx :: "'h qemu_io \<Rightarrow> u64 \<Rightarrow> 'h qemu_dev \<Rightarrow> rdma_hdr \<Rightarrow> (u8 \<times> rdma_hdr \<times> 'h qemu_dev) option" where
  "qemu_hw_rdma_tx io vregs v hdr = do {
     let hdr = hdr\<lparr>dh_port_type := set_pt_s 0 (dh_port_type hdr)\<rparr>;
     let base_reg = io_at vregs IO_RDMA_TX_DESC;
     h \<leftarrow> word_tx_loop io base_reg (rdma_hdr_bytes hdr) (AXIOM_RDMA_HEADER_SIZE - 1) 0 (qd_hw v);
     b \<leftarrow> arr_get (rdma_hdr_bytes hdr) (int (AXIOM_RDMA_HEADER_SIZE - 1));
     Some (dh_msg_id hdr, hdr, v\<lparr>qd_hw := q_iowrite8 io b base_reg h\<rparr>) }"

definition qemu_hw_rdma_tx_avail :: "'h qemu_io \<Rightarrow> u64 \<Rightarrow> 'h qemu_dev \<Rightarrow> u32 \<times> 'h qemu_dev" where
  "qemu_hw_rdma_tx_avail io vregs v = (let (ret, v) = on_qd (q_ioread32 io (io_at vregs IO_RDMA_TX_STATUS)) v in (ret AND AXIOMREG_QSTATUS_AVAIL, v))"

definition qemu_hw_rdma_rx :: "'h qemu_io \<Rightarrow> u64 \<Rightarrow> 'h qemu_dev \<Rightarrow> rdma_hdr \<Rightarrow> (u8 \<times> rdma_hdr \<times> 'h qemu_dev) option" where
  "qemu_hw_rdma_rx io vregs v old = do {
     let base_reg = io_at vregs IO_RDMA_RX_DESC;
     (raw, h) \<leftarrow> word_rx_loop io base_reg (AXIOM_RDMA_HEADER_SIZE - 1) 0 (rdma_hdr_bytes old) (qd_hw v);
     let (b, h) = q_ioread8 io base_reg h;
     raw \<leftarrow> arr_set raw (int (AXIOM_RDMA_HEADER_SIZE - 1)) b;
     let hdr = rdma_hdr_of_bytes raw;
     Some (dh_msg_id hdr, hdr, v\<lparr>qd_hw := h\<rparr>) }"

definition qemu_hw_rdma_rx_avail :: "'h qemu_io \<Rightarrow> u64 \<Rightarrow> 'h qemu_dev \<Rightarrow> u32 \<times> 'h qemu_dev" where
  "qemu_hw_rdma_rx_avail io vregs v = (let (ret, v) = on_qd (q_ioread32 io (io_at vregs IO_RDMA_RX_STATUS)) v in (ret AND AXIOMREG_QSTATUS_AVAIL, v))"

section \<open>Configuration\<close>

definition qemu_hw_read_ni_status :: "'h qemu_io \<Rightarrow> u64 \<Rightarrow> 'h qemu_dev \<Rightarrow> u32 \<times> 'h qemu_dev" where
  "qemu_hw_read_ni_status io vregs = on_qd (q_ioread32 io (io_at vregs IO_STATUS))"
definition qemu_hw_set_ni_control :: "'h qemu_io \<Rightarrow> u64 \<Rightarrow> 'h qemu_dev \<Rightarrow> u32 \<Rightarrow> 'h qemu_dev" where
  "qemu_hw_set_ni_control io vregs v reg_mask = upd_qd (q_iowrite32 io reg_mask (io_at vregs IO_CONTROL)) v"
definition qemu_hw_read_ni_control :: "'h qemu_io \<Rightarrow> u64 \<Rightarrow> 'h qemu_dev \<Rightarrow> u32 \<times> 'h qemu_dev" where
  "qemu_hw_read_ni_control io vregs = on_qd (q_ioread32 io (io_at vregs IO_CONTROL))"
definition qemu_hw_set_rdma_zone :: "'h qemu_io \<Rightarrow> u64 \<Rightarrow> 'h qemu_dev \<Rightarrow> u64 \<Rightarrow> u64 \<Rightarrow> 'h qemu_dev" where
  "qemu_hw_set_rdma_zone io vregs v start end =
     upd_qd (q_writeq io end (io_at vregs IO_DMA_END)) (upd_qd (q_writeq io start (io_at vregs IO_DMA_START)) v)"
definition qemu_hw_set_long_buf :: "'h qemu_io \<Rightarrow> u64 \<Rightarrow> 'h qemu_dev \<Rightarrow> int \<Rightarrow> long_buf \<Rightarrow> 'h qemu_dev" where
  "qemu_hw_set_long_buf io vregs v buf_id b =
     upd_qd (q_writeq io (long_buf_raw b) (io_at vregs IO_LONG_BUF_BASE + of_int (buf_id * AXIOMREG_SIZE_LONG_BUF))) v"
definition qemu_hw_set_node_id :: "'h qemu_io \<Rightarrow> u64 \<Rightarrow> 'h qemu_dev \<Rightarrow> u8 \<Rightarrow> 'h qemu_dev" where
  "qemu_hw_set_node_id io vregs v node_id = upd_qd (q_iowrite32 io (ucast node_id) (io_at vregs IO_NODEID)) v"
definition qemu_hw_get_node_id :: "'h qemu_io \<Rightarrow> u64 \<Rightarrow> 'h qemu_dev \<Rightarrow> u8 \<times> 'h qemu_dev" where
  "qemu_hw_get_node_id io vregs v = (let (ret, v) = on_qd (q_ioread32 io (io_at vregs IO_NODEID)) v in (ucast ret, v))"

definition qemu_hw_set_routing :: "'h qemu_io \<Rightarrow> u64 \<Rightarrow> 'h qemu_dev \<Rightarrow> u8 \<Rightarrow> u8 \<Rightarrow> int \<times> 'h qemu_dev" where
  "qemu_hw_set_routing io vregs v node_id enabled_mask =
     (let enabled_if = (if enabled_mask = 0 then 0xFF else of_nat (ffs enabled_mask - 1)) in
      (0, upd_qd (q_iowrite8 io enabled_if (io_at vregs IO_ROUTING_BASE + ucast node_id)) v))"

text \<open>The mask is the low byte of \<open>1 << enabled_if\<close>.\<close>

definition qemu_hw_get_routing :: "'h qemu_io \<Rightarrow> u64 \<Rightarrow> 'h qemu_dev \<Rightarrow> u8 \<Rightarrow> int \<times> u8 \<times> 'h qemu_dev" where
  "qemu_hw_get_routing io vregs v node_id =
     (let (enabled_if, v) = on_qd (q_ioread8 io (io_at vregs IO_ROUTING_BASE + ucast node_id)) v in
      (0, if enabled_if = 0xFF then 0 else ucast (push_bit (unat enabled_if) (1 :: u32)), v))"

definition qemu_hw_get_if_number :: "'h qemu_io \<Rightarrow> u64 \<Rightarrow> 'h qemu_dev \<Rightarrow> int \<times> u8 \<times> 'h qemu_dev" where
  "qemu_hw_get_if_number io vregs v = (let (n, v) = on_qd (q_ioread8 io (io_at vregs IO_IFNUMBER)) v in (0, n, v))"
definition qemu_hw_get_if_info :: "'h qemu_io \<Rightarrow> u64 \<Rightarrow> 'h qemu_dev \<Rightarrow> u8 \<Rightarrow> int \<times> u8 \<times> 'h qemu_dev" where
  "qemu_hw_get_if_info io vregs v if_number =
     (let (ftr, v) = on_qd (q_ioread8 io (io_at vregs IO_IFINFO_BASE + ucast if_number)) v in (0, ftr, v))"

section \<open>Register dumps\<close>

text \<open>The printing functions, as the values they print, in order; \<open>axiom_print_fpga_debug\<close> is empty.\<close>

definition rd32 :: "'h qemu_io \<Rightarrow> u64 \<Rightarrow> io_reg \<Rightarrow> 'h \<Rightarrow> u32 \<times> 'h" where
  "rd32 io vregs r = q_ioread32 io (io_at vregs r)"
definition rd8 :: "'h qemu_io \<Rightarrow> u64 \<Rightarrow> io_reg \<Rightarrow> nat \<Rightarrow> 'h \<Rightarrow> u32 \<times> 'h" where
  "rd8 io vregs r i h = (let (x, h) = q_ioread8 io (io_at vregs r + of_nat i) h in (ucast x, h))"

definition qemu_print_status_reg :: "'h qemu_io \<Rightarrow> u64 \<Rightarrow> 'h qemu_dev \<Rightarrow> u32 list \<times> 'h qemu_dev" where
  "qemu_print_status_reg io vregs = on_qd (read_regs
     [rd32 io vregs IO_VERSION, rd32 io vregs IO_STATUS, rd32 io vregs IO_IFNUMBER, rd8 io vregs IO_IFINFO_BASE 0,
      rd8 io vregs IO_IFINFO_BASE 1, rd8 io vregs IO_IFINFO_BASE 2, rd8 io vregs IO_IFINFO_BASE 3])"
definition qemu_print_control_reg :: "'h qemu_io \<Rightarrow> u64 \<Rightarrow> 'h qemu_dev \<Rightarrow> u32 list \<times> 'h qemu_dev" where
  "qemu_print_control_reg io vregs = on_qd (read_regs [rd32 io vregs IO_CONTROL, rd32 io vregs IO_NODEID])"
definition qemu_print_routing_reg :: "'h qemu_io \<Rightarrow> u64 \<Rightarrow> 'h qemu_dev \<Rightarrow> string list \<times> 'h qemu_dev" where
  "qemu_print_routing_reg io vregs v =
     (let (xs, v) = on_qd (read_regs (map (rd8 io vregs IO_ROUTING_BASE) [0..<256])) v in (map (\<lambda>x. axiom_printbinary (ucast x) 8) xs, v))"
definition qemu_print_queue_reg :: "'h qemu_io \<Rightarrow> u64 \<Rightarrow> 'h qemu_dev \<Rightarrow> u32 list \<times> 'h qemu_dev" where
  "qemu_print_queue_reg io vregs = on_qd (read_regs
     [rd32 io vregs IO_RAW_TX_STATUS, rd32 io vregs IO_RAW_RX_STATUS, rd32 io vregs IO_RDMA_TX_STATUS, rd32 io vregs IO_RDMA_RX_STATUS])"

section \<open>The interface\<close>

text \<open>
  The layer as an instance of the driver's interface, with the RAW functions applied to the two parts of a message as their
  argument lists ask.
\<close>

definition qemu_hw :: "'h qemu_io \<Rightarrow> u64 \<Rightarrow> raw32_member \<Rightarrow> 'h qemu_dev hw_api" where
  "qemu_hw io vregs m32 = \<lparr>
     hw_raw_tx = \<lambda>v m. map_option (\<lambda>(i, hdr, v). (i, m\<lparr>rm_header := hdr\<rparr>, v)) (qemu_hw_raw_tx io vregs m32 v (rm_header m) (rm_payload m)),
     hw_raw_tx_avail = qemu_hw_raw_tx_avail io vregs,
     hw_raw_rx = \<lambda>v m. map_option (\<lambda>(i, hdr, payload, v). (i, \<lparr>rm_header = hdr, rm_payload = payload\<rparr>, v))
       (qemu_hw_raw_rx io vregs m32 v (rm_header m) (rm_payload m)),
     hw_raw_rx_avail = qemu_hw_raw_rx_avail io vregs,
     hw_rdma_tx = qemu_hw_rdma_tx io vregs, hw_rdma_tx_avail = qemu_hw_rdma_tx_avail io vregs,
     hw_rdma_rx = qemu_hw_rdma_rx io vregs, hw_rdma_rx_avail = qemu_hw_rdma_rx_avail io vregs,
     hw_read_ni_status = qemu_hw_read_ni_status io vregs, hw_set_ni_control = qemu_hw_set_ni_control io vregs,
     hw_read_ni_control = qemu_hw_read_ni_control io vregs, hw_set_rdma_zone = qemu_hw_set_rdma_zone io vregs,
     hw_set_long_buf = qemu_hw_set_long_buf io vregs, hw_set_node_id = qemu_hw_set_node_id io vregs,
     hw_get_node_id = qemu_hw_get_node_id io vregs, hw_set_routing = qemu_hw_set_routing io vregs,
     hw_get_routing = qemu_hw_get_routing io vregs, hw_get_if_number = qemu_hw_get_if_number io vregs,
     hw_get_if_info = qemu_hw_get_if_info io vregs, hw_enable_irq = qemu_hw_enable_irq io vregs,
     hw_disable_irq = qemu_hw_disable_irq io vregs, hw_pending_irq = qemu_hw_pending_irq io vregs,
     hw_ack_irq = qemu_hw_ack_irq io vregs, hw_check_version = qemu_hw_check_version io vregs\<rparr>"

end
