(* ===== verification/QemuProps.thy ===== *)
theory QemuProps
  imports QemuApi
begin

text \<open>
  Properties of the hardware layer for QEMU: every access it makes to the bus is one the register map allows, and what it
  writes to a descriptor register on one node it reads back from the descriptor register of another.
\<close>

section \<open>Accesses to the bus\<close>

text \<open>
  A device that records the accesses; what it answers is an arbitrary function of the accesses so far.
\<close>

definition monitor :: "(io_access list \<Rightarrow> u64) \<Rightarrow> io_access list qemu_io" where
  "monitor ans = \<lparr>
     q_ioread32 = \<lambda>a h. (ucast (ans h), h @ [Rd 4 a]), q_iowrite32 = \<lambda>x a h. h @ [Wr 4 a],
     q_ioread8 = \<lambda>a h. (ucast (ans h), h @ [Rd 1 a]), q_iowrite8 = \<lambda>x a h. h @ [Wr 1 a],
     q_writeq = \<lambda>x a h. h @ [Wr 8 a]\<rparr>"

text \<open>The calls of the layer.\<close>

datatype hw_call = CallRawTx raw_hdr "u8 list" | CallRawTxAvail | CallRawRx raw_hdr "u8 list" | CallRawRxAvail
  | CallRdmaTx rdma_hdr | CallRdmaTxAvail | CallRdmaRx rdma_hdr | CallRdmaRxAvail
  | CallEnableIrq | CallDisableIrq | CallPendingIrq | CallAckIrq u32 | CallCheckVersion
  | CallReadStatus | CallSetControl u32 | CallReadControl | CallSetRdmaZone u64 u64 | CallSetLongBuf int long_buf
  | CallSetNodeId u8 | CallGetNodeId | CallSetRouting u8 u8 | CallGetRouting u8 | CallGetIfNumber | CallGetIfInfo u8
  | CallPrintStatus | CallPrintControl | CallPrintRouting | CallPrintQueue

fun run_call :: "'h qemu_io \<Rightarrow> u64 \<Rightarrow> raw32_member \<Rightarrow> hw_call \<Rightarrow> 'h qemu_dev \<Rightarrow> 'h qemu_dev option" where
  "run_call io vregs m32 (CallRawTx h p) v = map_option (\<lambda>(i, h, v). v) (qemu_hw_raw_tx io vregs m32 v h p)"
| "run_call io vregs m32 CallRawTxAvail v = Some (snd (qemu_hw_raw_tx_avail io vregs v))"
| "run_call io vregs m32 (CallRawRx h p) v = map_option (\<lambda>(i, h, p, v). v) (qemu_hw_raw_rx io vregs m32 v h p)"
| "run_call io vregs m32 CallRawRxAvail v = Some (snd (qemu_hw_raw_rx_avail io vregs v))"
| "run_call io vregs m32 (CallRdmaTx h) v = map_option (\<lambda>(i, h, v). v) (qemu_hw_rdma_tx io vregs v h)"
| "run_call io vregs m32 CallRdmaTxAvail v = Some (snd (qemu_hw_rdma_tx_avail io vregs v))"
| "run_call io vregs m32 (CallRdmaRx h) v = map_option (\<lambda>(i, h, v). v) (qemu_hw_rdma_rx io vregs v h)"
| "run_call io vregs m32 CallRdmaRxAvail v = Some (snd (qemu_hw_rdma_rx_avail io vregs v))"
| "run_call io vregs m32 CallEnableIrq v = Some (qemu_hw_enable_irq io vregs v)"
| "run_call io vregs m32 CallDisableIrq v = Some (qemu_hw_disable_irq io vregs v)"
| "run_call io vregs m32 CallPendingIrq v = Some (snd (qemu_hw_pending_irq io vregs v))"
| "run_call io vregs m32 (CallAckIrq x) v = Some (qemu_hw_ack_irq io vregs v x)"
| "run_call io vregs m32 CallCheckVersion v = Some (snd (qemu_hw_check_version io vregs v))"
| "run_call io vregs m32 CallReadStatus v = Some (snd (qemu_hw_read_ni_status io vregs v))"
| "run_call io vregs m32 (CallSetControl x) v = Some (qemu_hw_set_ni_control io vregs v x)"
| "run_call io vregs m32 CallReadControl v = Some (snd (qemu_hw_read_ni_control io vregs v))"
| "run_call io vregs m32 (CallSetRdmaZone a b) v = Some (qemu_hw_set_rdma_zone io vregs v a b)"
| "run_call io vregs m32 (CallSetLongBuf i b) v = Some (qemu_hw_set_long_buf io vregs v i b)"
| "run_call io vregs m32 (CallSetNodeId n) v = Some (qemu_hw_set_node_id io vregs v n)"
| "run_call io vregs m32 CallGetNodeId v = Some (snd (qemu_hw_get_node_id io vregs v))"
| "run_call io vregs m32 (CallSetRouting n x) v = Some (snd (qemu_hw_set_routing io vregs v n x))"
| "run_call io vregs m32 (CallGetRouting n) v = Some (snd (snd (qemu_hw_get_routing io vregs v n)))"
| "run_call io vregs m32 CallGetIfNumber v = Some (snd (snd (qemu_hw_get_if_number io vregs v)))"
| "run_call io vregs m32 (CallGetIfInfo n) v = Some (snd (snd (qemu_hw_get_if_info io vregs v n)))"
| "run_call io vregs m32 CallPrintStatus v = Some (snd (qemu_print_status_reg io vregs v))"
| "run_call io vregs m32 CallPrintControl v = Some (snd (qemu_print_control_reg io vregs v))"
| "run_call io vregs m32 CallPrintRouting v = Some (snd (qemu_print_routing_reg io vregs v))"
| "run_call io vregs m32 CallPrintQueue v = Some (snd (qemu_print_queue_reg io vregs v))"

fun run_calls :: "'h qemu_io \<Rightarrow> u64 \<Rightarrow> raw32_member \<Rightarrow> hw_call list \<Rightarrow> 'h qemu_dev \<Rightarrow> 'h qemu_dev option" where
  "run_calls io vregs m32 [] v = Some v"
| "run_calls io vregs m32 (c # cs) v = do { v \<leftarrow> run_call io vregs m32 c v; run_calls io vregs m32 cs v }"

text \<open>What the layer leaves to its callers: payload buffers of the type's size, and the numbers of interfaces and buffers.\<close>

fun call_ok :: "hw_call \<Rightarrow> bool" where
  "call_ok (CallRawTx h p) = (length p = RAW_PAYLOAD_LEN)"
| "call_ok (CallRawRx h p) = (length p = RAW_PAYLOAD_LEN)"
| "call_ok (CallSetLongBuf i b) = (0 \<le> i \<and> i < 32)"
| "call_ok (CallGetIfInfo n) = (n < 8)"
| "call_ok c = True"

text \<open>A device state reached with allowed accesses only.\<close>

definition seen_ok :: "u64 \<Rightarrow> io_access list qemu_dev \<Rightarrow> bool" where
  "seen_ok vregs v = list_all (access_ok vregs) (qd_hw v)"

lemma access_ok_first: "io_count r > 0 \<Longrightarrow> access_width acc \<le> io_width r \<Longrightarrow> access_addr acc = io_at vregs r \<Longrightarrow>
    io_dir r \<in> {access_dir acc, RW} \<Longrightarrow> access_ok vregs acc"
  by (rule access_okI [of _ r 0]) (simp add: access_at_def io_at_def)

lemma access_ok_simps [simp]:
  "io_dir r = WO \<or> io_dir r = RW \<Longrightarrow> n \<le> io_width r \<Longrightarrow> access_ok vregs (Wr n (io_at vregs r))"
  "io_dir r = RO \<or> io_dir r = RW \<Longrightarrow> n \<le> io_width r \<Longrightarrow> access_ok vregs (Rd n (io_at vregs r))"
  by (rule access_ok_first [of r]; cases r; auto simp: io_defs)+

lemma access_ok_array:
  "i < io_count r \<Longrightarrow> n \<le> io_width r \<Longrightarrow> io_dir r = RO \<or> io_dir r = RW \<Longrightarrow> a = io_at vregs r + of_nat (i * io_width r) \<Longrightarrow> access_ok vregs (Rd n a)"
  "i < io_count r \<Longrightarrow> n \<le> io_width r \<Longrightarrow> io_dir r = WO \<or> io_dir r = RW \<Longrightarrow> a = io_at vregs r + of_nat (i * io_width r) \<Longrightarrow> access_ok vregs (Wr n a)"
  by (rule access_okI [of _ r i]; auto simp: access_at_def io_at_def)+

lemma word_tx_loop_monitored:
  assumes "access_ok vregs (Wr 4 reg)"
  shows "limit + 3 \<le> length buf \<Longrightarrow> list_all (access_ok vregs) h \<Longrightarrow>
    \<exists>h'. word_tx_loop (monitor ans) reg buf limit i h = Some h' \<and> list_all (access_ok vregs) h'"
proof (induction "limit - i" arbitrary: i h rule: less_induct)
  case less
  show ?case
  proof (cases "i < limit")
    case True
    have "\<exists>h'. word_tx_loop (monitor ans) reg buf limit (i + 4) (h @ [Wr 4 reg]) = Some h' \<and> list_all (access_ok vregs) h'"
      using True less.prems assms by (intro less.hyps) auto
    then show ?thesis using True less.prems by (subst word_tx_loop.simps) (simp add: monitor_def)
  qed (use less.prems in \<open>simp add: word_tx_loop.simps [of _ _ _ limit i]\<close>)
qed

lemma word_rx_loop_monitored:
  assumes "access_ok vregs (Rd 4 reg)"
  shows "limit + 3 \<le> length buf \<Longrightarrow> list_all (access_ok vregs) h \<Longrightarrow>
    \<exists>buf' h'. word_rx_loop (monitor ans) reg limit i buf h = Some (buf', h') \<and> length buf' = length buf \<and> list_all (access_ok vregs) h'"
proof (induction "limit - i" arbitrary: i buf h rule: less_induct)
  case less
  show ?case
  proof (cases "i < limit")
    case True
    let ?buf = "take i buf @ le_bytes 4 (ucast (ans h) :: u32) @ drop (i + 4) buf"
    have "length ?buf = length buf" using True less.prems by simp
    moreover from this have "\<exists>buf' h'. word_rx_loop (monitor ans) reg limit (i + 4) ?buf (h @ [Rd 4 reg]) = Some (buf', h') \<and>
        length buf' = length ?buf \<and> list_all (access_ok vregs) h'"
      using True less.prems assms by (intro less.hyps) auto
    ultimately show ?thesis using True less.prems by (subst word_rx_loop.simps) (simp add: monitor_def)
  qed (use less.prems in \<open>simp add: word_rx_loop.simps [of _ _ limit i]\<close>)
qed

lemma read_regs_monitored:
  assumes "\<And>f h. f \<in> set fs \<Longrightarrow> list_all (access_ok vregs) h \<Longrightarrow> list_all (access_ok vregs) (snd (f h))"
  shows "list_all (access_ok vregs) h \<Longrightarrow> list_all (access_ok vregs) (snd (read_regs fs h))"
  using assms by (induction fs arbitrary: h) (simp_all add: Let_def split: prod.split, metis snd_conv)

lemma rd_monitored:
  "io_dir r = RO \<or> io_dir r = RW \<Longrightarrow> 4 \<le> io_width r \<Longrightarrow> list_all (access_ok vregs) h \<Longrightarrow>
    list_all (access_ok vregs) (snd (rd32 (monitor ans) vregs r h))"
  "io_dir r = RO \<or> io_dir r = RW \<Longrightarrow> io_width r = 1 \<Longrightarrow> i < io_count r \<Longrightarrow> list_all (access_ok vregs) h \<Longrightarrow>
    list_all (access_ok vregs) (snd (rd8 (monitor ans) vregs r i h))"
  by (auto simp: rd32_def rd8_def monitor_def intro: access_ok_array)

lemma on_qd_monitored: "(list_all (access_ok vregs) (qd_hw v) \<Longrightarrow> list_all (access_ok vregs) (snd (f (qd_hw v)))) \<Longrightarrow> seen_ok vregs v \<Longrightarrow>
    seen_ok vregs (snd (on_qd f v))"
  by (simp add: seen_ok_def on_qd_def Let_def case_prod_beta)

lemma monitored_print:
  assumes "seen_ok vregs v"
  shows "seen_ok vregs (snd (qemu_print_status_reg (monitor ans) vregs v))" "seen_ok vregs (snd (qemu_print_control_reg (monitor ans) vregs v))"
    "seen_ok vregs (snd (qemu_print_queue_reg (monitor ans) vregs v))" "seen_ok vregs (snd (qemu_print_routing_reg (monitor ans) vregs v))"
proof -
  show "seen_ok vregs (snd (qemu_print_status_reg (monitor ans) vregs v))" "seen_ok vregs (snd (qemu_print_control_reg (monitor ans) vregs v))"
    "seen_ok vregs (snd (qemu_print_queue_reg (monitor ans) vregs v))"
    unfolding qemu_print_status_reg_def qemu_print_control_reg_def qemu_print_queue_reg_def
    by (rule on_qd_monitored [OF _ assms], rule read_regs_monitored, auto simp: io_defs intro!: rd_monitored)+
  have "seen_ok vregs (snd (on_qd (read_regs (map (rd8 (monitor ans) vregs IO_ROUTING_BASE) [0..<256])) v))"
    by (rule on_qd_monitored [OF _ assms], rule read_regs_monitored) (auto simp: io_defs intro!: rd_monitored)
  then show "seen_ok vregs (snd (qemu_print_routing_reg (monitor ans) vregs v))" by (simp add: qemu_print_routing_reg_def Let_def case_prod_beta)
qed

lemma monitored_messages:
  assumes "seen_ok vregs v"
  shows "length p = RAW_PAYLOAD_LEN \<Longrightarrow> \<exists>v'. run_call (monitor ans) vregs m32 (CallRawTx h p) v = Some v' \<and> seen_ok vregs v'"
    "length p = RAW_PAYLOAD_LEN \<Longrightarrow> \<exists>v'. run_call (monitor ans) vregs m32 (CallRawRx h p) v = Some v' \<and> seen_ok vregs v'"
    "\<exists>v'. run_call (monitor ans) vregs m32 (CallRdmaTx k) v = Some v' \<and> seen_ok vregs v'"
    "\<exists>v'. run_call (monitor ans) vregs m32 (CallRdmaRx k) v = Some v' \<and> seen_ok vregs v'"
proof -
  have tx: "\<exists>h'. word_tx_loop (monitor ans) (io_at vregs r) buf limit 0 h = Some h' \<and> list_all (access_ok vregs) h'"
    if "limit + 3 \<le> length buf" "list_all (access_ok vregs) h" "r = IO_RAW_TX_DESC \<or> r = IO_RDMA_TX_DESC" for r buf limit h
    by (rule word_tx_loop_monitored) (use that in \<open>auto simp: io_defs\<close>)
  have rx: "\<exists>buf' h'. word_rx_loop (monitor ans) (io_at vregs r) limit 0 buf h = Some (buf', h') \<and> length buf' = length buf \<and> list_all (access_ok vregs) h'"
    if "limit + 3 \<le> length buf" "list_all (access_ok vregs) h" "r = IO_RAW_RX_DESC \<or> r = IO_RDMA_RX_DESC" for r buf limit h
    by (rule word_rx_loop_monitored) (use that in \<open>auto simp: io_defs\<close>)
  show "\<exists>v'. run_call (monitor ans) vregs m32 (CallRawTx h p) v = Some v' \<and> seen_ok vregs v'" if "length p = RAW_PAYLOAD_LEN"
    using tx [of "min (unat (rh_payload_size h)) 248" p "qd_hw v @ [Wr 4 (io_at vregs IO_RAW_TX_DESC)]" IO_RAW_TX_DESC] that assms
    by (auto simp: qemu_hw_raw_tx_def Let_def monitor_def seen_ok_def io_defs)
  show "\<exists>v'. run_call (monitor ans) vregs m32 (CallRawRx h p) v = Some v' \<and> seen_ok vregs v'" if "length p = RAW_PAYLOAD_LEN"
    using rx [of "min (unat (rh_payload_size (r32_set m32 (ucast (ans (qd_hw v))) h))) 248" p "qd_hw v @ [Rd 4 (io_at vregs IO_RAW_RX_DESC)]" IO_RAW_RX_DESC]
      that assms by (auto simp: qemu_hw_raw_rx_def Let_def monitor_def seen_ok_def io_defs)
  show "\<exists>v'. run_call (monitor ans) vregs m32 (CallRdmaTx k) v = Some v' \<and> seen_ok vregs v'"
    using tx [of 12 "rdma_hdr_bytes (k\<lparr>dh_port_type := set_pt_s 0 (dh_port_type k)\<rparr>)" "qd_hw v" IO_RDMA_TX_DESC] assms
    by (auto simp: qemu_hw_rdma_tx_def Let_def monitor_def seen_ok_def io_defs arr_get_def)
  show "\<exists>v'. run_call (monitor ans) vregs m32 (CallRdmaRx k) v = Some v' \<and> seen_ok vregs v'"
    using rx [of 12 "rdma_hdr_bytes k" "qd_hw v" IO_RDMA_RX_DESC] assms
    by (auto simp: qemu_hw_rdma_rx_def Let_def monitor_def seen_ok_def io_defs arr_set_def)
qed

lemma unat_u8: "unat (n :: u8) < 256"
proof -
  have "unat n < 2 ^ LENGTH(8)" by (rule unsigned_less)
  then show ?thesis by simp
qed

lemma monitored_call:
  assumes "call_ok c" "seen_ok vregs v"
  shows "\<exists>v'. run_call (monitor ans) vregs m32 c v = Some v' \<and> seen_ok vregs v'"
proof (cases c)
  case (CallRawTx h p)
  then show ?thesis using monitored_messages(1) [OF assms(2)] assms(1) by simp
next
  case (CallRawRx h p)
  then show ?thesis using monitored_messages(2) [OF assms(2)] assms(1) by simp
next
  case (CallRdmaTx k)
  then show ?thesis using monitored_messages(3) [OF assms(2)] by simp
next
  case (CallRdmaRx k)
  then show ?thesis using monitored_messages(4) [OF assms(2)] by simp
next
  case (CallSetLongBuf i b)
  with assms(1) have "\<exists>n. i = int n \<and> n < 32" by (auto intro: exI [of _ "nat i"])
  then obtain n where n: "i = int n" "n < 32" by blast
  have "access_ok vregs (Wr 8 (io_at vregs IO_LONG_BUF_BASE + of_int (int n * 8)))"
    by (rule access_ok_array(2) [of n IO_LONG_BUF_BASE]) (use n in \<open>simp_all add: io_defs\<close>)
  then show ?thesis using assms(2) CallSetLongBuf n by (simp add: qemu_hw_set_long_buf_def upd_qd_def monitor_def seen_ok_def)
next
  case (CallSetRouting n x)
  have "access_ok vregs (Wr 1 (io_at vregs IO_ROUTING_BASE + ucast n))"
    by (rule access_ok_array(2) [of "unat n" IO_ROUTING_BASE]) (use unat_u8 [of n] in \<open>simp_all add: io_defs\<close>)
  then show ?thesis using assms(2) CallSetRouting by (simp add: qemu_hw_set_routing_def upd_qd_def monitor_def seen_ok_def Let_def)
next
  case (CallGetRouting n)
  have "access_ok vregs (Rd 1 (io_at vregs IO_ROUTING_BASE + ucast n))"
    by (rule access_ok_array(1) [of "unat n" IO_ROUTING_BASE]) (use unat_u8 [of n] in \<open>simp_all add: io_defs\<close>)
  then show ?thesis using assms(2) CallGetRouting by (simp add: qemu_hw_get_routing_def on_qd_def monitor_def seen_ok_def Let_def)
next
  case (CallGetIfInfo n)
  with assms(1) have "unat n < 8" by (simp add: word_less_nat_alt)
  then have "access_ok vregs (Rd 1 (io_at vregs IO_IFINFO_BASE + ucast n))"
    by (intro access_ok_array(1) [of "unat n" IO_IFINFO_BASE]) (simp_all add: io_defs)
  then show ?thesis using assms(2) CallGetIfInfo by (simp add: qemu_hw_get_if_info_def on_qd_def monitor_def seen_ok_def Let_def)
qed (use assms monitored_print [OF assms(2)] in \<open>simp_all add: seen_ok_def monitor_def io_defs upd_qd_def on_qd_def Let_def
    qemu_hw_raw_tx_avail_def qemu_hw_raw_rx_avail_def qemu_hw_rdma_tx_avail_def qemu_hw_rdma_rx_avail_def qemu_hw_enable_irq_def
    qemu_hw_disable_irq_def qemu_hw_pending_irq_def qemu_hw_ack_irq_def qemu_hw_check_version_def qemu_hw_read_ni_status_def
    qemu_hw_set_ni_control_def qemu_hw_read_ni_control_def qemu_hw_set_rdma_zone_def qemu_hw_set_node_id_def qemu_hw_get_node_id_def
    qemu_hw_get_if_number_def\<close>)


definition qemu_new :: "'h \<Rightarrow> 'h qemu_dev" where
  "qemu_new h = \<lparr>qd_next_raw_id = 0, qd_hw = h\<rparr>"


text \<open>An interface number the layer should have refused: the register it reads does not exist.\<close>

lemma get_if_info_beyond:
  "qd_hw (snd (snd (qemu_hw_get_if_info (monitor ans) 0 (qemu_new []) 9))) = [Rd 1 0x19]" "\<not> access_ok 0 (Rd 1 0x19)"
proof -
  show "qd_hw (snd (snd (qemu_hw_get_if_info (monitor ans) 0 (qemu_new []) 9))) = [Rd 1 0x19]"
    by (simp add: qemu_hw_get_if_info_def on_qd_def monitor_def qemu_new_def io_at_def io_defs)
  have "\<not> access_at 0 r i (Rd 1 0x19)" for r i
  proof
    assume a: "access_at 0 r i (Rd 1 0x19)"
    then have i: "i < io_count r" and eq: "(0x19 :: u64) = of_nat (io_addr r + i * io_width r)" by (simp_all add: access_at_def)
    from i have "i * io_width r < io_width r * io_count r" by (cases r) (simp_all add: io_defs)
    then have "io_addr r + i * io_width r < 0x720" using io_regs_inside [of r] by linarith
    then have "unat (of_nat (io_addr r + i * io_width r) :: u64) = io_addr r + i * io_width r"
      by (simp only: unsigned_of_nat) (simp add: take_bit_nat_eq_self)
    with arg_cong [OF eq, of unat] have "io_addr r + i * io_width r = 0x19" by simp
    with i show False by (cases r) (simp_all add: io_defs)
  qed
  then show "\<not> access_ok 0 (Rd 1 0x19)" by (auto simp: access_ok_def)
qed

section \<open>Messages from node to node\<close>

text \<open>
  The descriptor registers as the ends of a wire: what is written to \<open>tx\<close> is queued with its width, what is
  read from \<open>rx\<close> comes from a queue of that kind, provided it is read with the width it was written with.
\<close>

record wire =
  wr_out :: "(nat \<times> u32) list"
  wr_in :: "(nat \<times> u32) list"

definition wire_read :: "nat \<Rightarrow> wire \<Rightarrow> u32 \<times> wire" where
  "wire_read n h = (case wr_in h of [] \<Rightarrow> (0, h) | (m, x) # xs \<Rightarrow> if m = n then (x, h\<lparr>wr_in := xs\<rparr>) else (0, h\<lparr>wr_in := xs\<rparr>))"

definition wire_io :: "u64 \<Rightarrow> u64 \<Rightarrow> wire qemu_io" where
  "wire_io tx rx = \<lparr>
     q_ioread32 = \<lambda>a h. if a = rx then wire_read 4 h else (0, h),
     q_iowrite32 = \<lambda>x a h. if a = tx then h\<lparr>wr_out := wr_out h @ [(4, x)]\<rparr> else h,
     q_ioread8 = \<lambda>a h. if a = rx then (let (x, h) = wire_read 1 h in (ucast x, h)) else (0, h),
     q_iowrite8 = \<lambda>x a h. if a = tx then h\<lparr>wr_out := wr_out h @ [(1, ucast x)]\<rparr> else h,
     q_writeq = \<lambda>x a h. h\<rparr>"

definition words32 :: "u32 list \<Rightarrow> (nat \<times> u32) list" where "words32 ws = map (Pair 4) ws"
definition bytes32 :: "u32 list \<Rightarrow> u8 list" where "bytes32 ws = concat (map (le_bytes 4) ws)"

lemma words32_simps [simp]: "words32 [] = []" "words32 (w # ws) = (4, w) # words32 ws"
  by (simp_all add: words32_def)

lemma bytes32_simps [simp]: "bytes32 [] = []" "bytes32 (w # ws) = le_bytes 4 w @ bytes32 ws"
  by (simp_all add: bytes32_def)

lemma length_bytes32 [simp]: "length (bytes32 ws) = 4 * length ws"
  by (induction ws) (simp_all add: bytes32_def)

lemma chunk4: "i < (limit :: nat) \<Longrightarrow> (limit - i + 3) div 4 = Suc ((limit - (i + 4) + 3) div 4)"
proof (cases "limit \<le> i + 4")
  case True
  moreover assume "i < limit"
  ultimately have "limit - i = 1 \<or> limit - i = 2 \<or> limit - i = 3 \<or> limit - i = 4" by linarith
  with True show ?thesis by auto
next
  case False
  then have "limit - i + 3 = 4 + (limit - (i + 4) + 3)" by simp
  then show ?thesis by (simp only: div_add_self1)
qed

lemma word_tx_loop_wire:
  "limit + 3 \<le> length buf \<Longrightarrow>
    \<exists>ws. word_tx_loop (wire_io tx rx) tx buf limit i h = Some (h\<lparr>wr_out := wr_out h @ words32 ws\<rparr>) \<and>
      length ws = (limit - i + 3) div 4 \<and> bytes32 ws = take (4 * length ws) (drop i buf)"
proof (induction "limit - i" arbitrary: i h rule: less_induct)
  case less
  show ?case
  proof (cases "i < limit")
    case True
    let ?w = "le_word (take 4 (drop i buf)) :: u32"
    have "\<exists>ws. word_tx_loop (wire_io tx rx) tx buf limit (i + 4) (h\<lparr>wr_out := wr_out h @ [(4, ?w)]\<rparr>) =
        Some (h\<lparr>wr_out := wr_out h @ (4, ?w) # words32 ws\<rparr>) \<and>
      length ws = (limit - (i + 4) + 3) div 4 \<and> bytes32 ws = take (4 * length ws) (drop (i + 4) buf)"
      using True less.prems less.hyps [of "i + 4" "h\<lparr>wr_out := wr_out h @ [(4, ?w)]\<rparr>"] by simp
    then obtain ws where
      ws: "word_tx_loop (wire_io tx rx) tx buf limit (i + 4) (h\<lparr>wr_out := wr_out h @ [(4, ?w)]\<rparr>) =
          Some (h\<lparr>wr_out := wr_out h @ (4, ?w) # words32 ws\<rparr>)"
        "length ws = (limit - (i + 4) + 3) div 4" "bytes32 ws = take (4 * length ws) (drop (i + 4) buf)" by blast
    have "le_bytes 4 ?w = take 4 (drop i buf)" by (rule le_bytes_le_word) (use True less.prems in simp_all)
    moreover have "take (4 + 4 * length ws) (drop i buf) = take 4 (drop i buf) @ take (4 * length ws) (drop (i + 4) buf)"
      by (simp only: take_add drop_drop add.commute [of 4 i])
    moreover have "(limit - i + 3) div 4 = Suc ((limit - (i + 4) + 3) div 4)" by (rule chunk4 [OF True])
    moreover have "word_tx_loop (wire_io tx rx) tx buf limit i h = Some (h\<lparr>wr_out := wr_out h @ words32 (?w # ws)\<rparr>)"
      unfolding word_tx_loop.simps [of _ _ _ limit i] using True less.prems ws(1) by (simp add: wire_io_def)
    ultimately show ?thesis using ws(2,3)
      by (intro exI [of _ "?w # ws"] conjI) (simp_all only: list.size bytes32_simps mult_Suc_right add_Suc_right add_0_right)
  next
    case False
    then show ?thesis by (intro exI [of _ "[]"]) (simp add: word_tx_loop.simps [of _ _ _ limit i])
  qed
qed

lemma word_rx_loop_wire:
  "length ws = (limit - i + 3) div 4 \<Longrightarrow> i + 4 * length ws \<le> length buf \<Longrightarrow> wr_in h = words32 ws @ rest \<Longrightarrow>
    word_rx_loop (wire_io tx rx) rx limit i buf h = Some (take i buf @ bytes32 ws @ drop (i + 4 * length ws) buf, h\<lparr>wr_in := rest\<rparr>)"
proof (induction ws arbitrary: i buf h)
  case Nil
  then have "\<not> i < limit" by auto
  with Nil show ?case by (simp add: word_rx_loop.simps [of _ _ limit i])
next
  case (Cons w ws)
  have lt: "i < limit" using Cons.prems(1) by (cases "i < limit") simp_all
  have n: "length ws = (limit - (i + 4) + 3) div 4" using Cons.prems(1) lt by simp
  let ?buf = "take i buf @ le_bytes 4 w @ drop (i + 4) buf"
  have "length ?buf = length buf" using Cons.prems(2) by simp
  then have ih: "word_rx_loop (wire_io tx rx) rx limit (i + 4) ?buf (h\<lparr>wr_in := words32 ws @ rest\<rparr>) =
      Some (take (i + 4) ?buf @ bytes32 ws @ drop (i + 4 + 4 * length ws) ?buf, h\<lparr>wr_in := rest\<rparr>)"
    using Cons.IH [OF n, of ?buf "h\<lparr>wr_in := words32 ws @ rest\<rparr>"] Cons.prems(2) by simp
  have "word_rx_loop (wire_io tx rx) rx limit i buf h = word_rx_loop (wire_io tx rx) rx limit (i + 4) ?buf (h\<lparr>wr_in := words32 ws @ rest\<rparr>)"
    unfolding word_rx_loop.simps [of _ _ limit i] using lt Cons.prems by (simp add: wire_io_def wire_read_def)
  with ih show ?case using Cons.prems(2) by (simp add: algebra_simps)
qed

text \<open>What the member \<open>raw32\<close> must be: a word that carries all of the header but the padding byte behind it.\<close>

definition raw32_ok :: "raw32_member \<Rightarrow> bool" where
  "raw32_ok m32 \<longleftrightarrow> (\<forall>hdr old. r32_set m32 (r32_get m32 hdr) old = hdr\<lparr>rh_padding := rh_padding old\<rparr>)"

definition raw32_le :: raw32_member where
  "raw32_le = \<lparr>r32_get = (\<lambda>h. le_word (take 4 (raw_hdr_bytes h))), r32_set = (\<lambda>w h. raw_hdr_of_bytes (le_bytes 4 w @ [rh_padding h]))\<rparr>"

lemma raw32_le_ok: "raw32_ok raw32_le"
proof (unfold raw32_ok_def, intro allI)
  fix hdr old
  have "le_bytes 4 (le_word (take 4 (raw_hdr_bytes hdr)) :: u32) = take 4 (raw_hdr_bytes hdr)" by (rule le_bytes_le_word) simp_all
  then show "r32_set raw32_le (r32_get raw32_le hdr) old = hdr\<lparr>rh_padding := rh_padding old\<rparr>"
    by (simp add: raw32_le_def raw_hdr_bytes_def raw_hdr_of_bytes_def numeral_eq_Suc)
qed

lemma ucast_up_down: "ucast (ucast (x :: u8) :: u32) = x"
  by (rule bit_word_eqI) (simp add: bit_simps)

lemma rdma_bytes_first_13:
  "take 13 (rdma_hdr_bytes k) @ drop 13 (rdma_hdr_bytes old) = rdma_hdr_bytes (k\<lparr>dh_pad0 := dh_pad0 old, dh_pad1 := dh_pad1 old, dh_pad2 := dh_pad2 old\<rparr>)"
  by (simp add: rdma_hdr_bytes_def numeral_eq_Suc)

lemma rdma_wire:
  assumes k': "k' = k\<lparr>dh_port_type := set_pt_s 0 (dh_port_type k)\<rparr>"
  shows "\<exists>xs. qemu_hw_rdma_tx (wire_io (io_at vregs IO_RDMA_TX_DESC) rx) vregs v k =
      Some (dh_msg_id k, k', v\<lparr>qd_hw := (qd_hw v)\<lparr>wr_out := wr_out (qd_hw v) @ xs\<rparr>\<rparr>) \<and>
    (\<forall>u old rest. wr_in (qd_hw u) = xs @ rest \<longrightarrow>
      qemu_hw_rdma_rx (wire_io tx (io_at vregs' IO_RDMA_RX_DESC)) vregs' u old =
        Some (dh_msg_id k, k'\<lparr>dh_pad0 := dh_pad0 old, dh_pad1 := dh_pad1 old, dh_pad2 := dh_pad2 old\<rparr>, u\<lparr>qd_hw := (qd_hw u)\<lparr>wr_in := rest\<rparr>\<rparr>))"
proof -
  let ?reg = "io_at vregs IO_RDMA_TX_DESC" and ?bs = "rdma_hdr_bytes k'"
  have "\<exists>ws. word_tx_loop (wire_io ?reg rx) ?reg ?bs 12 0 (qd_hw v) = Some ((qd_hw v)\<lparr>wr_out := wr_out (qd_hw v) @ words32 ws\<rparr>) \<and>
      length ws = 3 \<and> bytes32 ws = take 12 ?bs"
    using word_tx_loop_wire [of 12 ?bs ?reg rx 0 "qd_hw v"] by auto
  then obtain ws where ws: "word_tx_loop (wire_io ?reg rx) ?reg ?bs 12 0 (qd_hw v) = Some ((qd_hw v)\<lparr>wr_out := wr_out (qd_hw v) @ words32 ws\<rparr>)"
    "length ws = 3" "bytes32 ws = take 12 ?bs" by blast
  let ?xs = "words32 ws @ [(1, ucast (?bs ! 12))]"
  have tx: "qemu_hw_rdma_tx (wire_io ?reg rx) vregs v k = Some (dh_msg_id k, k', v\<lparr>qd_hw := (qd_hw v)\<lparr>wr_out := wr_out (qd_hw v) @ ?xs\<rparr>\<rparr>)"
    unfolding qemu_hw_rdma_tx_def Let_def k' [symmetric] using ws(1) k' by (simp add: arr_get_def wire_io_def)
  have "qemu_hw_rdma_rx (wire_io tx (io_at vregs' IO_RDMA_RX_DESC)) vregs' u old =
      Some (dh_msg_id k, k'\<lparr>dh_pad0 := dh_pad0 old, dh_pad1 := dh_pad1 old, dh_pad2 := dh_pad2 old\<rparr>, u\<lparr>qd_hw := (qd_hw u)\<lparr>wr_in := rest\<rparr>\<rparr>)"
    if u: "wr_in (qd_hw u) = ?xs @ rest" for u :: "wire qemu_dev" and old rest
  proof -
    let ?reg = "io_at vregs' IO_RDMA_RX_DESC" and ?old = "rdma_hdr_bytes old"
    have rx: "word_rx_loop (wire_io tx ?reg) ?reg 12 0 ?old (qd_hw u) =
        Some (take 12 ?bs @ drop 12 ?old, (qd_hw u)\<lparr>wr_in := (1, ucast (?bs ! 12)) # rest\<rparr>)"
      using word_rx_loop_wire [of ws 12 0 ?old "qd_hw u" "(1, ucast (?bs ! 12)) # rest" tx ?reg] ws(2,3) u by simp
    have last: "q_ioread8 (wire_io tx ?reg) ?reg ((qd_hw u)\<lparr>wr_in := (1, ucast (?bs ! 12)) # rest\<rparr>) =
        (?bs ! 12, (qd_hw u)\<lparr>wr_in := rest\<rparr>)" by (simp add: wire_io_def wire_read_def ucast_up_down)
    have "take 13 ?bs = take 12 ?bs @ [?bs ! 12]" using take_Suc_conv_app_nth [of 12 ?bs] by simp
    moreover have "drop 12 ?old = ?old ! 12 # drop 13 ?old" using Cons_nth_drop_Suc [of 12 ?old] by simp
    ultimately have "(take 12 ?bs @ drop 12 ?old)[12 := ?bs ! 12] = take 13 ?bs @ drop 13 ?old" by (simp add: list_update_append)
    then show ?thesis unfolding qemu_hw_rdma_rx_def Let_def using rx last k'
      by (simp add: arr_set_def rdma_bytes_first_13)
  qed
  with tx show ?thesis by (intro exI [of _ ?xs]) blast
qed

lemma raw_wire:
  assumes "raw32_ok m32" "length p = 251" "unat (rh_payload_size hdr) \<le> 248"
    and h': "h' = hdr\<lparr>rh_port_type := set_pt_s 0 (rh_port_type hdr), rh_msg_id := qd_next_raw_id v\<rparr>"
  shows "\<exists>xs. qemu_hw_raw_tx (wire_io (io_at vregs IO_RAW_TX_DESC) rx) vregs m32 v hdr p =
      Some (qd_next_raw_id v, h', v\<lparr>qd_next_raw_id := qd_next_raw_id v + 1, qd_hw := (qd_hw v)\<lparr>wr_out := wr_out (qd_hw v) @ xs\<rparr>\<rparr>) \<and>
    (\<forall>u hold pold rest. wr_in (qd_hw u) = xs @ rest \<longrightarrow> length pold = 251 \<longrightarrow>
      (\<exists>p'. qemu_hw_raw_rx (wire_io tx (io_at vregs' IO_RAW_RX_DESC)) vregs' m32 u hold pold =
        Some (qd_next_raw_id v, h'\<lparr>rh_padding := rh_padding hold\<rparr>, p', u\<lparr>qd_hw := (qd_hw u)\<lparr>wr_in := rest\<rparr>\<rparr>) \<and>
        take (unat (rh_payload_size hdr)) p' = take (unat (rh_payload_size hdr)) p \<and> length p' = 251))"
proof -
  let ?reg = "io_at vregs IO_RAW_TX_DESC" and ?n = "unat (rh_payload_size hdr)"
  let ?h = "(qd_hw v)\<lparr>wr_out := wr_out (qd_hw v) @ [(4, r32_get m32 h')]\<rparr>"
  have n: "min ?n 248 = ?n" "rh_payload_size h' = rh_payload_size hdr" using assms(3) h' by simp_all
  obtain ws where ws: "word_tx_loop (wire_io ?reg rx) ?reg p ?n 0 ?h = Some (?h\<lparr>wr_out := wr_out ?h @ words32 ws\<rparr>)"
    "length ws = (?n + 3) div 4" "bytes32 ws = take (4 * length ws) p"
    using word_tx_loop_wire [of ?n p ?reg rx 0 ?h] assms(2,3) by auto
  let ?xs = "(4, r32_get m32 h') # words32 ws"
  have "q_iowrite32 (wire_io ?reg rx) (r32_get m32 h') ?reg (qd_hw v) = ?h" by (simp add: wire_io_def)
  then have tx: "qemu_hw_raw_tx (wire_io ?reg rx) vregs m32 v hdr p =
      Some (qd_next_raw_id v, h', v\<lparr>qd_next_raw_id := qd_next_raw_id v + 1, qd_hw := (qd_hw v)\<lparr>wr_out := wr_out (qd_hw v) @ ?xs\<rparr>\<rparr>)"
    unfolding qemu_hw_raw_tx_def Let_def h' [symmetric] n using ws(1) h' by simp
  have "\<exists>p'. qemu_hw_raw_rx (wire_io tx (io_at vregs' IO_RAW_RX_DESC)) vregs' m32 u hold pold =
        Some (qd_next_raw_id v, h'\<lparr>rh_padding := rh_padding hold\<rparr>, p', u\<lparr>qd_hw := (qd_hw u)\<lparr>wr_in := rest\<rparr>\<rparr>) \<and>
        take ?n p' = take ?n p \<and> length p' = 251"
    if u: "wr_in (qd_hw u) = ?xs @ rest" "length pold = 251" for u :: "wire qemu_dev" and hold pold rest
  proof -
    let ?reg = "io_at vregs' IO_RAW_RX_DESC" and ?p = "bytes32 ws @ drop (4 * length ws) pold"
    have rd: "q_ioread32 (wire_io tx ?reg) ?reg (qd_hw u) = (r32_get m32 h', (qd_hw u)\<lparr>wr_in := words32 ws @ rest\<rparr>)"
      using u(1) by (simp add: wire_io_def wire_read_def)
    have hd: "r32_set m32 (r32_get m32 h') hold = h'\<lparr>rh_padding := rh_padding hold\<rparr>" using assms(1) by (simp add: raw32_ok_def)
    have le: "?n \<le> 4 * length ws" "4 * length ws \<le> 251" using ws(2) assms(3) by linarith+
    have rx: "word_rx_loop (wire_io tx ?reg) ?reg ?n 0 pold ((qd_hw u)\<lparr>wr_in := words32 ws @ rest\<rparr>) = Some (?p, (qd_hw u)\<lparr>wr_in := rest\<rparr>)"
      using word_rx_loop_wire [of ws ?n 0 pold "(qd_hw u)\<lparr>wr_in := words32 ws @ rest\<rparr>" rest tx ?reg] ws(2) u(2) le by simp
    have "take ?n ?p = take ?n p" using ws(3) le assms(2) by (simp add: min_def)
    moreover have "length ?p = 251" using le u(2) by simp
    moreover have "rh_msg_id h' = qd_next_raw_id v" using h' by simp
    ultimately show ?thesis unfolding qemu_hw_raw_rx_def Let_def rd prod.case hd using rx n by (intro exI [of _ ?p]) simp
  qed
  with tx show ?thesis by (intro exI [of _ ?xs]) blast
qed

text \<open>
  Property C35. Messages between two nodes with this layer: the accesses by which one node writes an RDMA descriptor to its descriptor register, when
  they arrive at the other's, are read back to the same descriptor with the \<open>s\<close> bit cleared, but for the padding, and
  the same holds for RAW messages of up to 248 bytes, whose payload arrives byte for byte although it travels in words of four. Nothing
  behind the message is taken from the register.
\<close>

theorem qemu_messages_roundtrip:
  assumes "raw32_ok m32" "length p = 251" "unat (rh_payload_size hdr) \<le> 248"
    and "h' = hdr\<lparr>rh_port_type := set_pt_s 0 (rh_port_type hdr), rh_msg_id := qd_next_raw_id v\<rparr>"
    and "k' = k\<lparr>dh_port_type := set_pt_s 0 (dh_port_type k)\<rparr>"
  shows "(\<exists>xs. qemu_hw_rdma_tx (wire_io (io_at vregs IO_RDMA_TX_DESC) rx) vregs v k =
        Some (dh_msg_id k, k', v\<lparr>qd_hw := (qd_hw v)\<lparr>wr_out := wr_out (qd_hw v) @ xs\<rparr>\<rparr>) \<and>
      (\<forall>u old rest. wr_in (qd_hw u) = xs @ rest \<longrightarrow>
        qemu_hw_rdma_rx (wire_io tx (io_at vregs' IO_RDMA_RX_DESC)) vregs' u old =
          Some (dh_msg_id k, k'\<lparr>dh_pad0 := dh_pad0 old, dh_pad1 := dh_pad1 old, dh_pad2 := dh_pad2 old\<rparr>, u\<lparr>qd_hw := (qd_hw u)\<lparr>wr_in := rest\<rparr>\<rparr>))) \<and>
    (\<exists>xs. qemu_hw_raw_tx (wire_io (io_at vregs IO_RAW_TX_DESC) rx) vregs m32 v hdr p =
        Some (qd_next_raw_id v, h', v\<lparr>qd_next_raw_id := qd_next_raw_id v + 1, qd_hw := (qd_hw v)\<lparr>wr_out := wr_out (qd_hw v) @ xs\<rparr>\<rparr>) \<and>
      (\<forall>u hold pold rest. wr_in (qd_hw u) = xs @ rest \<longrightarrow> length pold = 251 \<longrightarrow>
        (\<exists>p'. qemu_hw_raw_rx (wire_io tx (io_at vregs' IO_RAW_RX_DESC)) vregs' m32 u hold pold =
          Some (qd_next_raw_id v, h'\<lparr>rh_padding := rh_padding hold\<rparr>, p', u\<lparr>qd_hw := (qd_hw u)\<lparr>wr_in := rest\<rparr>\<rparr>) \<and>
          take (unat (rh_payload_size hdr)) p' = take (unat (rh_payload_size hdr)) p \<and> length p' = 251)))"
  using rdma_wire [OF assms(5)] raw_wire [OF assms(1-4)] by blast

definition demo_hdr_msg :: raw_msg where
  "demo_hdr_msg = \<lparr>rm_header = \<lparr>rh_port_type = 3, rh_node = 2, rh_msg_id = 0, rh_payload_size = 10, rh_padding = 0\<rparr>, rm_payload = replicate 251 0\<rparr>"

theorem qemu_messages_roundtrip_witness:
  "\<exists>xs. qemu_hw_rdma_tx (wire_io (io_at 0 IO_RDMA_TX_DESC) 0) 0 (qemu_new \<lparr>wr_out = [], wr_in = []\<rparr>) (rdma_hdr_zero\<lparr>dh_msg_id := 9\<rparr>) =
      Some (9, rdma_hdr_zero\<lparr>dh_msg_id := 9\<rparr>, qemu_new \<lparr>wr_out = xs, wr_in = []\<rparr>)"
proof -
  have p: "length (replicate 251 (0 :: u8)) = 251" "unat (rh_payload_size (rm_header demo_hdr_msg)) \<le> 248" by (simp_all add: demo_hdr_msg_def)
  have k: "rdma_hdr_zero\<lparr>dh_msg_id := 9\<rparr> = (rdma_hdr_zero\<lparr>dh_msg_id := 9\<rparr>)\<lparr>dh_port_type := set_pt_s 0 (dh_port_type (rdma_hdr_zero\<lparr>dh_msg_id := 9\<rparr>))\<rparr>"
    by (simp add: rdma_hdr_zero_def pt_defs)
  note rt = qemu_messages_roundtrip [OF raw32_le_ok p refl k, of 0 0 "qemu_new \<lparr>wr_out = [], wr_in = []\<rparr>" 0 0]
  from conjunct1 [OF rt] show ?thesis by (elim exE conjE, intro exI) (simp add: qemu_new_def rdma_hdr_zero_def)
qed

end
