(* ===== verification/Kthread.thy ===== *)
theory Kthread
  imports DriverState
begin

text \<open>
  The worker threads (\<open>axiom_netdev_driver/axiom_kthread.c\<close>): the loop of \<open>axkt_worker\<close> as a step
  relation that interleaves with interrupt handlers, system calls and the request to stop, and the
  locale \<open>kthread_client\<close>, the contract between the thread and the work functions the driver gives it.
  Its results: a thread never sleeps on a pending request, every request is followed by a call of the worker
  function, and a stopped thread ends.
\<close>

section \<open>Starting and stopping\<close>

text \<open>
  \<open>axiom_kthread_init\<close>: \<open>create\<close> is the result of \<open>kthread_create\<close>, an error code or the process id of
  the new thread. The worker functions are parameters of the thread's loop below. A failed call
  leaves the context as it was, but for the new wait queue.
\<close>

definition axiom_kthread_init :: "int + int \<Rightarrow> kthread \<Rightarrow> int \<times> kthread" where
  "axiom_kthread_init create k =
     (let k = k\<lparr>kt_wakes := 0\<rparr> in
      case create of
        Inl err \<Rightarrow> (err, k)
      | Inr pid \<Rightarrow> (0, k\<lparr>kt_task := True, kt_scheduled := 0, kt_pid := pid\<rparr>))"

definition axiom_kthread_getpid :: "kthread \<Rightarrow> int" where
  "axiom_kthread_getpid k = kt_pid k"

text \<open>\<open>axiom_kthread_uninit\<close>: \<open>kthread_stop\<close> returns when the thread has ended, which \<open>kthread_stops\<close> shows it does.\<close>

definition axiom_kthread_uninit :: "kthread \<Rightarrow> kthread" where
  "axiom_kthread_uninit k = (if kt_task k then k\<lparr>kt_task := False\<rparr> else k)"

section \<open>The loop\<close>

text \<open>
  One thread. \<open>th_seen\<close> is the number of wake-ups when the thread last put itself on the wait queue:
  \<open>wait_event_interruptible\<close> enqueues the thread, tests the condition and sleeps only if no wake-up
  came in between. \<open>th_runs\<close> counts the calls of the worker function. Kernel threads ignore signals.
\<close>

datatype axkt_pc = Start | Prepare | Test | Asleep | Woken | Work | Resched | Exited

record axkt_thread =
  th_pc :: axkt_pc
  th_old_scheduled :: u32
  th_seen :: nat
  th_should_stop :: bool
  th_runs :: nat

text \<open>
  One turn of \<open>axkt_worker\<close> on the state shared with the rest of the driver; \<open>ctx\<close> finds the thread's
  context in it. \<open>Resched\<close> is the \<open>cond_resched\<close> at the end of the loop. The test reads the counter, calls \<open>work_todo_fn\<close> only when it has not moved, and looks
  at the stop flag last. \<open>kthread_stop\<close> wakes the thread itself. \<open>None\<close>: the thread is asleep or has
  ended, or the worker function does not return.
\<close>

fun axkt_worker :: "('s \<Rightarrow> kthread) \<Rightarrow> ('s \<Rightarrow> bool \<times> 's) \<Rightarrow> ('s \<Rightarrow> 's option) \<Rightarrow>
    axkt_thread \<times> 's \<Rightarrow> (axkt_thread \<times> 's) option" where
  "axkt_worker ctx work_todo_fn worker_fn (t, s) = (case th_pc t of
     Start \<Rightarrow> Some (t\<lparr>th_pc := Prepare, th_old_scheduled := kt_scheduled (ctx s)\<rparr>, s)
   | Prepare \<Rightarrow> Some (t\<lparr>th_pc := Test, th_seen := kt_wakes (ctx s)\<rparr>, s)
   | Test \<Rightarrow>
       if kt_scheduled (ctx s) \<noteq> th_old_scheduled t then Some (t\<lparr>th_pc := Woken\<rparr>, s)
       else (case work_todo_fn s of (todo, s) \<Rightarrow>
         Some (t\<lparr>th_pc := if todo \<or> th_should_stop t then Woken else Asleep\<rparr>, s))
   | Asleep \<Rightarrow>
       if kt_wakes (ctx s) \<noteq> th_seen t \<or> th_should_stop t then Some (t\<lparr>th_pc := Prepare\<rparr>, s) else None
   | Woken \<Rightarrow>
       if th_should_stop t then Some (t\<lparr>th_pc := Exited\<rparr>, s)
       else Some (t\<lparr>th_pc := Work, th_old_scheduled := kt_scheduled (ctx s)\<rparr>, s)
   | Work \<Rightarrow> map_option (Pair (t\<lparr>th_pc := Resched, th_runs := Suc (th_runs t)\<rparr>)) (worker_fn s)
   | Resched \<Rightarrow> Some (t\<lparr>th_pc := Prepare\<rparr>, s)
   | Exited \<Rightarrow> None)"

text \<open>The thread as \<open>axiom_kthread_init\<close> starts it.\<close>

definition axkt_start :: axkt_thread where
  "axkt_start = \<lparr>th_pc = Start, th_old_scheduled = 0, th_seen = 0, th_should_stop = False, th_runs = 0\<rparr>"

section \<open>Interleaving\<close>

text \<open>
  Steps of the thread and of everybody else: \<open>Turn\<close> is a step of the thread, \<open>StopReq\<close> the start of
  \<open>kthread_stop\<close>, and \<open>Others k\<close> any change of the shared state that keeps \<open>I\<close> and makes \<open>k\<close> requests with
  \<open>axiom_kthread_wakeup\<close>.
\<close>

datatype kt_ev = Turn | StopReq | Others nat

inductive kt_step :: "('s \<Rightarrow> kthread) \<Rightarrow> ('s \<Rightarrow> bool \<times> 's) \<Rightarrow> ('s \<Rightarrow> 's option) \<Rightarrow> ('s \<Rightarrow> bool) \<Rightarrow>
    axkt_thread \<times> 's \<Rightarrow> kt_ev \<Rightarrow> axkt_thread \<times> 's \<Rightarrow> bool"
  for ctx todo worker I where
  turn: "axkt_worker ctx todo worker c = Some c' \<Longrightarrow> kt_step ctx todo worker I c Turn c'"
| stop: "kt_step ctx todo worker I (t, s) StopReq (t\<lparr>th_should_stop := True\<rparr>, s)"
| others: "I s' \<Longrightarrow> ctx s' = (axiom_kthread_wakeup ^^ k) (ctx s) \<Longrightarrow> kt_step ctx todo worker I (t, s) (Others k) (t, s')"

inductive_simps kt_step_turn: "kt_step ctx todo worker I c Turn c'"
inductive_cases kt_step_stopE: "kt_step ctx todo worker I c StopReq c'"
inductive_cases kt_step_othersE: "kt_step ctx todo worker I c (Others k) c'"

inductive kt_run :: "('s \<Rightarrow> kthread) \<Rightarrow> ('s \<Rightarrow> bool \<times> 's) \<Rightarrow> ('s \<Rightarrow> 's option) \<Rightarrow> ('s \<Rightarrow> bool) \<Rightarrow>
    axkt_thread \<times> 's \<Rightarrow> kt_ev list \<Rightarrow> axkt_thread \<times> 's \<Rightarrow> bool"
  for ctx todo worker I where
  nil: "kt_run ctx todo worker I c [] c"
| snoc: "kt_run ctx todo worker I c es c1 \<Longrightarrow> kt_step ctx todo worker I c1 e c2 \<Longrightarrow> kt_run ctx todo worker I c (es @ [e]) c2"

text \<open>The number of turns of the thread and of requests in a sequence of events.\<close>

definition turns :: "kt_ev list \<Rightarrow> nat" where
  "turns es = length (filter (\<lambda>e. e = Turn) es)"

fun requests :: "kt_ev list \<Rightarrow> nat" where
  "requests [] = 0"
| "requests (Others k # es) = k + requests es"
| "requests (e # es) = requests es"

lemma requests_append [simp]: "requests (es @ fs) = requests es + requests fs"
  by (induction es rule: requests.induct) simp_all

lemma turns_simps [simp]: "turns [] = 0" "turns (es @ fs) = turns es + turns fs"
  "turns [Turn] = 1" "turns [StopReq] = 0" "turns [Others k] = 0"
  by (simp_all add: turns_def)

lemma wakeup_power:
  "kt_scheduled ((axiom_kthread_wakeup ^^ k) c) = kt_scheduled c + of_nat k"
  "kt_wakes ((axiom_kthread_wakeup ^^ k) c) = kt_wakes c + k"
  by (induction k) (simp_all add: axiom_kthread_wakeup_def)

section \<open>The contract of the work functions\<close>

text \<open>
  What the thread relies on: looking for work and working keep the driver's invariant and leave the
  thread's own context alone, and the worker function returns.
\<close>

locale kthread_client =
  fixes ctx :: "'s \<Rightarrow> kthread" and todo :: "'s \<Rightarrow> bool \<times> 's" and worker :: "'s \<Rightarrow> 's option" and I :: "'s \<Rightarrow> bool"
  assumes todo_keeps: "I s \<Longrightarrow> I (snd (todo s))" "I s \<Longrightarrow> ctx (snd (todo s)) = ctx s"
    and worker_returns: "I s \<Longrightarrow> \<exists>s'. worker s = Some s' \<and> I s' \<and> ctx s' = ctx s"
begin

abbreviation "thread \<equiv> axkt_worker ctx todo worker"
abbreviation "stp \<equiv> kt_step ctx todo worker I"
abbreviation "run \<equiv> kt_run ctx todo worker I"

text \<open>The invariant: a thread that is asleep with nobody having woken it has no request pending.\<close>

definition kt_inv :: "axkt_thread \<times> 's \<Rightarrow> bool" where
  "kt_inv c \<longleftrightarrow> I (snd c) \<and> (th_pc (fst c) \<in> {Test, Asleep} \<longrightarrow> th_seen (fst c) \<le> kt_wakes (ctx (snd c))) \<and>
     (th_pc (fst c) = Asleep \<longrightarrow> kt_wakes (ctx (snd c)) = th_seen (fst c) \<longrightarrow>
        kt_scheduled (ctx (snd c)) = th_old_scheduled (fst c))"

lemma turn_inv: "thread (t, s) = Some c' \<Longrightarrow> kt_inv (t, s) \<Longrightarrow> kt_inv c'"
  using todo_keeps [of s] worker_returns [of s]
  by (cases "th_pc t") (auto simp: kt_inv_def split: if_splits prod.splits)

lemma step_inv: "stp c e c' \<Longrightarrow> kt_inv c \<Longrightarrow> kt_inv c'"
proof (induction rule: kt_step.induct)
  case (turn c c')
  then show ?case by (cases c) (auto intro: turn_inv)
next
  case (others s' k s t)
  then show ?case by (cases k) (auto simp: wakeup_power kt_inv_def simp del: funpow.simps)
qed (simp add: kt_inv_def)

lemma run_inv: "run c es c' \<Longrightarrow> kt_inv c \<Longrightarrow> kt_inv c'"
  by (induction rule: kt_run.induct) (auto dest: step_inv)

lemma start_inv: "I s \<Longrightarrow> kt_inv (axkt_start, s)"
  by (simp add: kt_inv_def axkt_start_def)

text \<open>The counter has moved past the value the thread read by exactly the requests made since.\<close>

lemma step_requests:
  assumes "stp c e c'" and "kt_inv c" and "kt_scheduled (ctx (snd c)) = th_old_scheduled (fst c) + of_nat n" and "th_pc (fst c) \<noteq> Start"
  shows "th_pc (fst c') \<noteq> Start \<and> (\<exists>m \<le> n + requests [e]. kt_scheduled (ctx (snd c')) = th_old_scheduled (fst c') + of_nat m)"
  using assms
proof (induction rule: kt_step.induct)
  case (turn c c')
  then obtain t s where c: "c = (t, s)" "I s" by (cases c) (simp add: kt_inv_def)
  with turn todo_keeps(2) [of s] worker_returns [of s] show ?case
    by (cases "th_pc t") (auto split: if_splits prod.splits intro: exI [of _ "0 :: nat"])
next
  case (stop t s)
  then show ?case by auto
next
  case (others s' k s t)
  then show ?case by (auto simp: wakeup_power intro!: exI [of _ "n + k"])
qed

lemma run_requests:
  "run c es c' \<Longrightarrow> kt_inv c \<Longrightarrow> th_pc (fst c) = Start \<Longrightarrow> th_pc (fst c') \<noteq> Start \<Longrightarrow>
   \<exists>n \<le> requests es. kt_scheduled (ctx (snd c')) = th_old_scheduled (fst c') + of_nat n"
proof (induction rule: kt_run.induct)
  case (snoc c es c1 e c2)
  show ?case
  proof (cases "th_pc (fst c1) = Start")
    case True
    with snoc.hyps(2) snoc.prems(3) show ?thesis
      by (induction rule: kt_step.induct) (auto intro!: exI [of _ "0 :: nat"])
  next
    case False
    with snoc obtain n where "n \<le> requests es" "kt_scheduled (ctx (snd c1)) = th_old_scheduled (fst c1) + of_nat n" by auto
    with step_requests [OF snoc.hyps(2) run_inv [OF snoc.hyps(1) snoc.prems(1)], of n] False obtain m where
      "m \<le> n + requests [e]" "kt_scheduled (ctx (snd c2)) = th_old_scheduled (fst c2) + of_nat m" by auto
    then show ?thesis using \<open>n \<le> requests es\<close> by (intro exI [of _ m]) simp
  qed
qed simp

subsection \<open>Every request is served\<close>

text \<open>The turns left to the end of the next call of the worker function, at most 5.\<close>

fun turns_left :: "axkt_pc \<Rightarrow> nat" where
  "turns_left Asleep = 5" | "turns_left Resched = 5" | "turns_left Prepare = 4" | "turns_left Test = 3"
| "turns_left Woken = 2" | "turns_left Work = 1" | "turns_left Start = 0" | "turns_left Exited = 0"

lemma turn_enabled:
  assumes "kt_inv (t, s)" and "th_pc t \<noteq> Exited" and "th_pc t = Asleep \<Longrightarrow> kt_scheduled (ctx s) \<noteq> th_old_scheduled t \<or> th_should_stop t"
  shows "\<exists>c'. thread (t, s) = Some c'"
  using assms worker_returns [of s] by (cases "th_pc t") (auto simp: kt_inv_def split: prod.splits)

text \<open>On the way to the worker function: it has been called, or each turn brought it closer with the request still visible.\<close>

definition serving :: "axkt_thread \<times> 's \<Rightarrow> nat \<Rightarrow> nat \<Rightarrow> nat \<Rightarrow> axkt_thread \<times> 's \<Rightarrow> bool" where
  "serving c k n m c' \<longleftrightarrow> th_runs (fst c) < th_runs (fst c') \<or>
     th_runs (fst c') = th_runs (fst c) \<and> \<not> th_should_stop (fst c') \<and> 0 < turns_left (th_pc (fst c')) \<and>
     turns_left (th_pc (fst c')) + n = turns_left (th_pc (fst c)) \<and>
     (th_pc (fst c') \<in> {Prepare, Test, Asleep, Resched} \<longrightarrow> kt_scheduled (ctx (snd c')) = th_old_scheduled (fst c') + of_nat (k + m))"

lemma serving_turn:
  assumes "serving c k n m (t, s)" and "kt_inv (t, s)" and "thread (t, s) = Some c'" and "0 < k" "k + m < 2 ^ 32"
  shows "serving c k (Suc n) m c'"
proof -
  have "(of_nat (k + m) :: u32) \<noteq> 0"
    using assms(4,5) by (simp add: word_unat_eq_iff unat_of_nat take_bit_nat_eq_self del: of_nat_add)
  with assms(1-3) todo_keeps(2) [of s] worker_returns [of s] show ?thesis
    by (cases "th_pc t") (auto simp: serving_def kt_inv_def split: if_splits prod.splits)
qed

lemma serving_run:
  "run c es c' \<Longrightarrow> kt_inv c \<Longrightarrow> serving c k 0 0 c \<Longrightarrow> StopReq \<notin> set es \<Longrightarrow> 0 < k \<Longrightarrow> k + requests es < 2 ^ 32 \<Longrightarrow>
   serving c k (turns es) (requests es) c'"
proof (induction rule: kt_run.induct)
  case (snoc c es c1 e c2)
  then have srv: "serving c k (turns es) (requests es) c1" and inv: "kt_inv c1" using run_inv by auto
  show ?case
  proof (cases e)
    case Turn
    with snoc srv inv serving_turn [of c k "turns es" "requests es" "fst c1" "snd c1" c2] show ?thesis
      by (auto simp: kt_step_turn)
  next
    case (Others j)
    with snoc.hyps(2) srv show ?thesis
      by (auto elim!: kt_step_othersE simp: serving_def wakeup_power algebra_simps)
  qed (use snoc.prems in auto)
qed simp

lemma serving_enabled:
  assumes "serving c k n m (t, s)" and "th_runs t = th_runs (fst c)" and "kt_inv (t, s)" and "0 < k" "k + m < 2 ^ 32"
  shows "\<exists>c'. thread (t, s) = Some c'"
proof -
  have "(of_nat (k + m) :: u32) \<noteq> 0"
    using assms(4,5) by (simp add: word_unat_eq_iff unat_of_nat take_bit_nat_eq_self del: of_nat_add)
  with assms(1,2) show ?thesis by (intro turn_enabled [OF assms(3)]) (auto simp: serving_def)
qed

text \<open>
  A request made to a running thread: the thread can take a turn as long as it has not called the
  worker function, and five turns are enough for the call.
\<close>

lemma request_served:
  assumes start: "I s0" "run (axkt_start, s0) es0 (t, s)" "th_pc t \<notin> {Start, Exited}" "\<not> th_should_stop t"
    and request: "stp (t, s) (Others k) c" "0 < k"
    and es: "run c es (t', s')" "StopReq \<notin> set es" "requests es0 + k + requests es < 2 ^ 32"
  shows "th_runs t' = th_runs t \<Longrightarrow> \<exists>c'. thread (t', s') = Some c'" and "5 \<le> turns es \<Longrightarrow> th_runs t < th_runs t'"
proof -
  from start(1) have inv: "kt_inv (t, s)" "kt_inv c" using run_inv [OF start(2)] start_inv step_inv [OF request(1)] by auto
  from run_requests [OF start(2) start_inv [OF start(1)]] start(3) obtain n where
    n: "n \<le> requests es0" "kt_scheduled (ctx s) = th_old_scheduled t + of_nat n" by (auto simp: axkt_start_def)
  from request obtain s1 where c: "c = (t, s1)" "ctx s1 = (axiom_kthread_wakeup ^^ k) (ctx s)"
    by (auto elim: kt_step_othersE)
  have "serving c (n + k) 0 0 c" using start(3,4) c n(2) by (cases "th_pc t") (auto simp: serving_def wakeup_power)
  from serving_run [OF es(1) inv(2) this es(2)] n(1) request(2) es(3)
  have srv: "serving c (n + k) (turns es) (requests es) (t', s')" by simp
  show "\<exists>c'. thread (t', s') = Some c'" if "th_runs t' = th_runs t"
    by (rule serving_enabled [OF srv _ run_inv [OF es(1) inv(2)]]) (use that c n(1) request(2) es(3) in auto)
  have "turns_left (th_pc t) \<le> 5" by (cases "th_pc t") simp_all
  with srv c show "th_runs t < th_runs t'" if "5 \<le> turns es" using that by (auto simp: serving_def)
qed

subsection \<open>A stopped thread ends\<close>

fun turns_to_exit :: "axkt_pc \<Rightarrow> nat" where
  "turns_to_exit Start = 4" | "turns_to_exit Asleep = 4" | "turns_to_exit Prepare = 3" | "turns_to_exit Test = 2"
| "turns_to_exit Woken = 1" | "turns_to_exit Work = 5" | "turns_to_exit Resched = 4" | "turns_to_exit Exited = 0"

lemma stopped_run:
  "run c es c' \<Longrightarrow> kt_inv c \<Longrightarrow> th_should_stop (fst c) \<Longrightarrow>
   th_should_stop (fst c') \<and> turns_to_exit (th_pc (fst c')) + turns es \<le> turns_to_exit (th_pc (fst c))"
proof (induction rule: kt_run.induct)
  case (snoc c es c1 e c2)
  then have IH: "th_should_stop (fst c1)" "turns_to_exit (th_pc (fst c1)) + turns es \<le> turns_to_exit (th_pc (fst c))" by auto
  from snoc.hyps(2) IH show ?case
  proof (induction rule: kt_step.induct)
    case (turn c1 c2)
    then show ?case by (cases c1; cases "th_pc (fst c1)") (auto split: if_splits prod.splits)
  qed (auto simp: turns_def)
qed simp

text \<open>Once \<open>kthread_stop\<close> has been called, the thread can take turns until it ends, which it does after at most five.\<close>

lemma stop_ends:
  assumes "I s0" "run (axkt_start, s0) es0 (t, s)" and "th_should_stop t" and es: "run (t, s) es (t', s')"
  shows "th_pc t' = Exited \<or> (\<exists>c'. thread (t', s') = Some c')" and "5 \<le> turns es \<Longrightarrow> th_pc t' = Exited"
proof -
  have inv: "kt_inv (t, s)" using run_inv [OF assms(2)] start_inv [OF assms(1)] by simp
  from stopped_run [OF es inv] assms(3) have
    st: "th_should_stop t'" "turns_to_exit (th_pc t') + turns es \<le> turns_to_exit (th_pc t)" by auto
  show "th_pc t' = Exited \<or> (\<exists>c'. thread (t', s') = Some c')"
    using turn_enabled [OF run_inv [OF es inv]] st(1) by blast
  show "th_pc t' = Exited" if "5 \<le> turns es"
    using that st(2) by (cases "th_pc t"; cases "th_pc t'") simp_all
qed

end

end
