(* ===== verification/SwQueue.thy ===== *)
theory SwQueue
  imports DriverState
begin

text \<open>
  The software queues of the driver as lists of descriptors: a queue manager together with the
  descriptor array its slots index. \<open>swq_rep\<close> relates the structure to the free list, the queues
  and the slots some thread owns; \<open>swq_msgs\<close> and \<open>swq_free\<close> compute the abstract contents from the
  arrays, so that the properties of the handlers can be stated on the driver state itself.
\<close>

section \<open>Abstract contents\<close>

lemma sw_queue_update_order [simp]:
  "q\<lparr>sq_desc := a, sq_evi := e\<rparr> = q\<lparr>sq_evi := e, sq_desc := a\<rparr>"
  by simp

definition eviq_slots :: "evi_queue \<Rightarrow> nat \<Rightarrow> nat list" where
  "eviq_slots q p = (case (q_next q, q_head q) of
     (Some nx, Some heads) \<Rightarrow> (case arr_get heads (int p) of Some h \<Rightarrow> eviq_walk nx h (length nx) | None \<Rightarrow> [])
   | _ \<Rightarrow> [])"

definition eviq_free_slots :: "evi_queue \<Rightarrow> nat list" where
  "eviq_free_slots q = (case q_next q of Some nx \<Rightarrow> eviq_walk nx (q_free q) (length nx) | None \<Rightarrow> [])"

definition swq_msgs :: "'m sw_queue \<Rightarrow> nat \<Rightarrow> 'm list" where
  "swq_msgs q p = (case sq_desc q of Some ds \<Rightarrow> map (\<lambda>s. ds ! s) (eviq_slots (sq_evi q) p) | None \<Rightarrow> [])"

definition swq_free :: "'m sw_queue \<Rightarrow> nat" where
  "swq_free q = length (eviq_free_slots (sq_evi q))"

definition swq_rep :: "'m sw_queue \<Rightarrow> nat list \<Rightarrow> nat list list \<Rightarrow> nat set \<Rightarrow> 'm list \<Rightarrow> bool" where
  "swq_rep q fs qs own ds \<longleftrightarrow> eviq_rep (sq_evi q) fs qs own \<and> sq_desc q = Some ds \<and>
     (\<forall>s \<in> set fs \<union> set (concat qs) \<union> own. s < length ds)"

lemma length_le_bound: "distinct xs \<Longrightarrow> (\<forall>x \<in> set xs. x < n) \<Longrightarrow> length xs \<le> n"
  using card_mono [of "{..<n}" "set xs"] by (auto simp: distinct_card)

lemma eviq_rep_walks:
  assumes "eviq_rep q fs qs own"
  shows "eviq_free_slots q = fs" and "p < length qs \<Longrightarrow> eviq_slots q p = qs ! p"
proof -
  from assms obtain nx where nx: "q_next q = Some nx" "length nx < 32768" "chain nx (q_free q) fs"
      "eviq_queues_rep nx (q_head q) (q_tail q) qs" "slots_partition (length nx) fs qs own"
    by (rule eviq_repE)
  have "length fs \<le> length nx" using nx(5) by (intro length_le_bound) (auto simp: slots_partition_def)
  with nx show "eviq_free_slots q = fs" by (simp add: eviq_free_slots_def eviq_walk_chain)
  assume p: "p < length qs"
  then have "qs \<noteq> []" by auto
  with nx(4) p obtain hd where hd: "q_head q = Some hd" "length hd = length qs" "chain nx (hd ! p) (qs ! p)"
    by (auto simp: eviq_queues_rep_def)
  have "length (qs ! p) \<le> length nx"
  proof (rule length_le_bound)
    show "distinct (qs ! p)" using nx(5) p by (auto simp: slots_partition_def intro: distinct_concat_nth)
    show "\<forall>x \<in> set (qs ! p). x < length nx" using hd(3) by (auto intro: chain_bound)
  qed
  with nx hd p show "eviq_slots q p = qs ! p" by (simp add: eviq_slots_def eviq_walk_chain)
qed

lemma swq_rep_contents:
  assumes "swq_rep q fs qs own ds"
  shows "swq_free q = length fs" and "p < length qs \<Longrightarrow> swq_msgs q p = map (\<lambda>s. ds ! s) (qs ! p)"
  using assms eviq_rep_walks [of "sq_evi q"] by (auto simp: swq_rep_def swq_free_def swq_msgs_def)

lemma swq_repI:
  "eviq_rep (sq_evi q) fs qs own \<Longrightarrow> sq_desc q = Some ds \<Longrightarrow>
   (\<And>s. s \<in> set fs \<union> set (concat qs) \<union> own \<Longrightarrow> s < length ds) \<Longrightarrow> swq_rep q fs qs own ds"
  by (auto simp: swq_rep_def)

lemma swq_rep_slot:
  assumes "swq_rep q fs qs own ds" "s \<in> set fs \<union> set (concat qs) \<union> own"
  shows "s < length ds" "sint (of_nat s :: s16) = int s" "(of_nat s :: s16) \<noteq> EVIQ_NONE"
  using assms eviq.slot_bound [of "sq_evi q" fs qs own s] eviq.slot_not_none [of "sq_evi q" fs qs own s]
  by (auto simp: swq_rep_def intro!: sint_of_nat_s16)

section \<open>The steps of the handlers\<close>

text \<open>Replacing the queue manager by one that represents another partition of the same slots.\<close>

lemma swq_rep_evi:
  assumes "swq_rep q fs qs own ds" "eviq_rep e fs' qs' own'"
    and "set fs' \<union> set (concat qs') \<union> own' \<subseteq> set fs \<union> set (concat qs) \<union> own"
  shows "swq_rep (q\<lparr>sq_evi := e\<rparr>) fs' qs' own' ds"
  using assms unfolding swq_rep_def by (simp del: set_concat) blast

lemma set_concat_update_subset: "set (concat (xss[i := ys])) \<subseteq> set (concat xss) \<union> set ys"
  using set_update_subset_insert [of xss i ys] by (simp only: set_concat) blast

lemma swq_pop:
  assumes "swq_rep q (s # fs) qs own ds"
  shows "\<exists>e. eviq_free_pop (sq_evi q) = Some (of_nat s, e) \<and>
             swq_rep (q\<lparr>sq_evi := e\<rparr>) fs qs (insert s own) ds"
proof -
  from assms eviq.pop_cons [of "sq_evi q" s fs qs own] obtain e where
    "eviq_free_pop (sq_evi q) = Some (of_nat s, e)" "eviq_rep e fs qs (insert s own)"
    by (auto simp: swq_rep_def)
  then show ?thesis by (intro exI [of _ e] conjI swq_rep_evi [OF assms]) auto
qed

lemma swq_push:
  assumes "swq_rep q fs qs own ds" "s \<in> own"
  shows "\<exists>e. eviq_free_push (sq_evi q) (of_nat s) = Some e \<and>
             swq_rep (q\<lparr>sq_evi := e\<rparr>) (s # fs) qs (own - {s}) ds"
proof -
  from assms eviq.push [of "sq_evi q" fs qs own s] obtain e where
    "eviq_free_push (sq_evi q) (of_nat s) = Some e" "eviq_rep e (s # fs) qs (own - {s})"
    by (auto simp: swq_rep_def)
  then show ?thesis using assms(2) by (intro exI [of _ e] conjI swq_rep_evi [OF assms(1)]) auto
qed

lemma swq_enqueue:
  assumes "swq_rep q fs qs own ds" "s \<in> own" "p < length qs"
  shows "\<exists>e. eviq_enqueue (sq_evi q) (int p) (of_nat s) = Some e \<and>
             swq_rep (q\<lparr>sq_evi := e\<rparr>) fs (qs[p := qs ! p @ [s]]) (own - {s}) ds"
proof -
  from assms eviq.enqueue [of "sq_evi q" fs qs own s p] obtain e where
    e: "eviq_enqueue (sq_evi q) (int p) (of_nat s) = Some e" "eviq_rep e fs (qs[p := qs ! p @ [s]]) (own - {s})"
    by (auto simp: swq_rep_def)
  have "set (concat (qs[p := qs ! p @ [s]])) \<subseteq> set fs \<union> set (concat qs) \<union> own"
    using set_concat_update_subset [of qs p "qs ! p @ [s]"] nth_subset_concat [OF assms(3)] assms(2)
    by (simp del: set_concat) blast
  with e assms(2) show ?thesis
    by (intro exI [of _ e] conjI swq_rep_evi [OF assms(1)]) (auto simp del: set_concat)
qed

lemma swq_dequeue:
  assumes "swq_rep q fs qs own ds" "p < length qs" "qs ! p = s # r"
  shows "\<exists>e. eviq_dequeue (sq_evi q) (int p) = Some (of_nat s, e) \<and>
             swq_rep (q\<lparr>sq_evi := e\<rparr>) fs (qs[p := r]) (insert s own) ds"
proof -
  from assms eviq.dequeue_cons [of "sq_evi q" fs qs own p s r] obtain e where
    e: "eviq_dequeue (sq_evi q) (int p) = Some (of_nat s, e)" "eviq_rep e fs (qs[p := r]) (insert s own)"
    by (auto simp: swq_rep_def)
  have "set (concat (qs[p := r])) \<subseteq> set (concat qs)" "s \<in> set (concat qs)"
    using set_concat_update_subset [of qs p r] nth_subset_concat [OF assms(2)] assms(3)
    by (simp_all del: set_concat) blast
  with e show ?thesis
    by (intro exI [of _ e] conjI swq_rep_evi [OF assms(1)]) (auto simp del: set_concat)
qed

lemma swq_avail:
  "swq_rep q fs qs own ds \<Longrightarrow> p < length qs \<Longrightarrow> eviq_avail (sq_evi q) (int p) = Some (qs ! p \<noteq> [])"
  "swq_rep q fs qs own ds \<Longrightarrow> eviq_free_avail (sq_evi q) = (fs \<noteq> [])"
  using eviq.avail [of "sq_evi q" fs qs own p] eviq.free_avail [of "sq_evi q" fs qs own]
  by (simp_all add: swq_rep_def)

text \<open>Writing the descriptor of an owned slot changes no queued message.\<close>

lemma swq_write:
  assumes "swq_rep q fs qs own ds" "s \<in> own"
  shows "swq_rep (q\<lparr>sq_desc := Some (ds[s := m])\<rparr>) fs qs own (ds[s := m])"
  using assms by (auto simp: swq_rep_def)

lemma swq_own_not_queued:
  assumes "swq_rep q fs qs own ds" "s \<in> own" "p < length qs"
  shows "s \<notin> set (qs ! p)"
  using assms eviq.queued_not_owned [of "sq_evi q" fs qs own p s] by (auto simp: swq_rep_def)

lemma swq_free_not_queued:
  assumes "swq_rep q (s # fs) qs own ds" "p < length qs"
  shows "s \<notin> set (qs ! p)" and "s \<notin> own"
  using assms eviq.popped_not_owned [of "sq_evi q" s fs qs own] nth_subset_concat [of p qs]
  by (auto simp: swq_rep_def)

lemma map_nth_update_notin: "s \<notin> set xs \<Longrightarrow> map (\<lambda>x. ds[s := m] ! x) xs = map (\<lambda>x. ds ! x) xs"
  by (rule map_cong [OF refl]) (metis nth_list_update_neq)

end
