(* ===== verification/DemoDevice.thy ===== *)
theory DemoDevice
  imports SwQueue
begin

text \<open>
  A concrete device and a concrete driver state for the witnesses: two receive FIFOs, logs of what
  was transmitted, and the configuration registers. It has every behaviour the hypotheses of the
  properties ask for.
\<close>

record demo_dev =
  dv_raw_rx :: "raw_msg list"
  dv_raw_tx :: "raw_msg list"
  dv_rdma_rx :: "rdma_hdr list"
  dv_rdma_tx :: "rdma_hdr list"
  dv_next_id :: u8
  dv_node_id :: u8
  dv_control :: u32
  dv_zone :: "u64 \<times> u64"
  dv_routing :: "u8 \<Rightarrow> u8"
  dv_long :: "(int \<times> long_buf) list"
  dv_irq_mask :: bool

definition demo_fix :: "raw_msg \<Rightarrow> raw_msg" where
  "demo_fix m = m\<lparr>rm_payload := take 251 (rm_payload m @ replicate 251 0)\<rparr>"

definition demo_hw :: "demo_dev hw_api" where
  "demo_hw = \<lparr>
     hw_raw_tx = \<lambda>v m. let m = m\<lparr>rm_header := (rm_header m)\<lparr>rh_msg_id := dv_next_id v\<rparr>\<rparr> in
        Some (dv_next_id v, m, v\<lparr>dv_raw_tx := dv_raw_tx v @ [m], dv_next_id := dv_next_id v + 1\<rparr>),
     hw_raw_tx_avail = \<lambda>v. (1, v),
     hw_raw_rx = \<lambda>v old. (case dv_raw_rx v of [] \<Rightarrow> None
        | m # ms \<Rightarrow> Some (rh_msg_id (rm_header m), demo_fix m, v\<lparr>dv_raw_rx := ms\<rparr>)),
     hw_raw_rx_avail = \<lambda>v. (if dv_raw_rx v = [] then 0 else 1, v),
     hw_rdma_tx = \<lambda>v h. Some (dh_msg_id h, h, v\<lparr>dv_rdma_tx := dv_rdma_tx v @ [h]\<rparr>),
     hw_rdma_tx_avail = \<lambda>v. (1, v),
     hw_rdma_rx = \<lambda>v old. (case dv_rdma_rx v of [] \<Rightarrow> None
        | h # hs \<Rightarrow> Some (dh_msg_id h, h, v\<lparr>dv_rdma_rx := hs\<rparr>)),
     hw_rdma_rx_avail = \<lambda>v. (if dv_rdma_rx v = [] then 0 else 1, v),
     hw_read_ni_status = \<lambda>v. (0, v),
     hw_set_ni_control = \<lambda>v x. v\<lparr>dv_control := x\<rparr>,
     hw_read_ni_control = \<lambda>v. (dv_control v, v),
     hw_set_rdma_zone = \<lambda>v a b. v\<lparr>dv_zone := (a, b)\<rparr>,
     hw_set_long_buf = \<lambda>v i b. v\<lparr>dv_long := dv_long v @ [(i, b)]\<rparr>,
     hw_set_node_id = \<lambda>v n. v\<lparr>dv_node_id := n\<rparr>,
     hw_get_node_id = \<lambda>v. (dv_node_id v, v),
     hw_set_routing = \<lambda>v n x. (0, v\<lparr>dv_routing := (dv_routing v)(n := x)\<rparr>),
     hw_get_routing = \<lambda>v n. (0, dv_routing v n, v),
     hw_get_if_number = \<lambda>v. (0, 4, v),
     hw_get_if_info = \<lambda>v n. (0, 7, v),
     hw_enable_irq = \<lambda>v. v\<lparr>dv_irq_mask := True\<rparr>,
     hw_disable_irq = \<lambda>v. v\<lparr>dv_irq_mask := False\<rparr>,
     hw_pending_irq = \<lambda>v. (0, v),
     hw_ack_irq = \<lambda>v x. v,
     hw_check_version = \<lambda>v. (0, v)\<rparr>"

definition demo_v :: demo_dev where
  "demo_v = \<lparr>dv_raw_rx = [], dv_raw_tx = [], dv_rdma_rx = [], dv_rdma_tx = [], dv_next_id = 0,
     dv_node_id = 1, dv_control = 0, dv_zone = (0, 0), dv_routing = (\<lambda>_. 0), dv_long = [],
     dv_irq_mask = False\<rparr>"

text \<open>A queue manager with \<open>m\<close> empty queues and two free slots.\<close>

definition demo_evi :: "nat \<Rightarrow> evi_queue" where
  "demo_evi m = \<lparr>q_queues = int m, q_free_elems = 2, q_head = Some (replicate m EVIQ_NONE),
     q_tail = Some (replicate m EVIQ_NONE), q_free = 0, q_next = Some [1, EVIQ_NONE]\<rparr>"

lemma demo_evi_rep: "eviq_rep (demo_evi m) [0, 1] (replicate m []) {}"
  by (auto simp: eviq_rep_def demo_evi_def eviq_queues_rep_def slots_partition_def slot_or_none_def
      less_Suc_eq numeral_2_eq_2)

definition demo_port :: sw_port where "demo_port = \<lparr>sp_mutex = False, sp_wakes = 0\<rparr>"
definition demo_kthread :: kthread where "demo_kthread = \<lparr>kt_task = True, kt_pid = 2, kt_scheduled = 0, kt_wakes = 0\<rparr>"

definition demo_raw_msg :: raw_msg where
  "demo_raw_msg = \<lparr>rm_header = \<lparr>rh_port_type = 0, rh_node = 0, rh_msg_id = 0, rh_payload_size = 0,
     rh_padding = 0\<rparr>, rm_payload = replicate 251 0\<rparr>"

definition demo_status :: "u8 \<Rightarrow> rdma_status" where
  "demo_status i = \<lparr>rs_msg_id = i, rs_msg_id_counter = 0, rs_retries = 0, rs_ack_received = False,
     rs_ack_waiting = False, rs_wakes = 0, rs_queue_slot = 0, rs_callback = None,
     rs_header = rdma_hdr_zero\<lparr>dh_node := AXIOM_NULL_NODE\<rparr>\<rparr>"

definition demo_long_msg :: "nat \<Rightarrow> long_msg" where
  "demo_long_msg i = \<lparr>lm_header = rdma_hdr_zero, lm_payload = of_nat (65536 * i)\<rparr>"

definition demo_lut :: "nat \<Rightarrow> long_buf_lut" where
  "demo_lut i = \<lparr>lut_buf_id = int i, lut_buf_hw = \<lparr>lb_address = of_nat (4096 + 65536 * i), lb_size = 65528,
     lb_msg_id = 255, lb_flags = 1\<rparr>, lut_buf_sw = of_nat (65536 * i)\<rparr>"

definition demo_d :: "(demo_dev, u64 \<Rightarrow> u8 option) drvdata" where
  "demo_d = \<lparr>dev_api = demo_v, dd_lock = False, dd_used = 0, dma_paddr = 0, dma_size = 0, rdma_paddr = 4096,
     rdma_size = 4096, long_paddr = 0, long_vaddr = 0, long_rx_vaddr = 0, long_tx_vaddr = 0, long_size = 0,
     long_rxbuf_lut = map demo_lut [0..<32], raw_tx_port = demo_port,
     raw_rx_queue = \<lparr>sq_evi = demo_evi 7, sq_desc = Some (replicate 2 demo_raw_msg), sq_base = 0\<rparr>,
     raw_rx_ports = replicate 7 demo_port, raw_rx_port_used = 0,
     rdma_queue = \<lparr>sq_evi = demo_evi 0, sq_desc = Some (map (\<lambda>i. demo_status (of_nat i)) [0..<256]), sq_base = 0\<rparr>,
     long_tx_queue = \<lparr>sq_evi = demo_evi 0, sq_desc = Some (map demo_long_msg [0..<32]), sq_base = 0\<rparr>,
     rdma_port = demo_port, long_tx_port = demo_port,
     long_rx_queue = \<lparr>sq_evi = demo_evi 7, sq_desc = Some (map demo_long_msg [0..<32]), sq_base = 0\<rparr>,
     long_rx_ports = replicate 7 demo_port, long_rx_port_used = 0, kthread_raw = demo_kthread,
     kthread_rdma = demo_kthread, kthread_wtd = demo_kthread, dd_stats = (\<lambda>_. 0), watchdog_period_msec = 200,
     retry_delay_usec = 100, routing_table = (replicate 256 0)[2 := 1], dd_node_id = 1,
     user_mem = (\<lambda>a. if 4096 \<le> a \<and> a < 8192 then Some 0 else None), long_mem = (\<lambda>_. 0)\<rparr>"

end
