(* ===== verification/DriverSysfs.thy ===== *)
theory DriverSysfs
  imports Kthread DemoDevice
begin

text \<open>
  The sysfs interface of the driver (\<open>axiom_netdev_driver/axiom_netdev_sysfs.c\<close>): printing and parsing of
  the attributes, their show and store functions, and the creation and removal of the directory tree.
\<close>

section \<open>Numbers as text\<close>

text \<open>\<open>%u\<close> and its variants: the decimal digits of a number.\<close>

definition digit_char :: "nat \<Rightarrow> char" where
  "digit_char n = char_of (48 + n)"

fun dec_digits :: "nat \<Rightarrow> string" where
  "dec_digits n = (if n < 10 then [digit_char n] else dec_digits (n div 10) @ [digit_char (n mod 10)])"

declare dec_digits.simps [simp del]

definition axsys_uint8_show :: "u8 \<Rightarrow> string" where
  "axsys_uint8_show v = dec_digits (unat v) @ [CHR 0x0A]"

definition axsys_int32_show :: "32 word \<Rightarrow> string" where
  "axsys_int32_show v = (if sint v < 0 then CHR ''-'' # dec_digits (nat (- sint v)) else dec_digits (nat (sint v))) @ [CHR 0x0A]"

definition axsys_uint32_show :: "u32 \<Rightarrow> string" where
  "axsys_uint32_show v = dec_digits (unat v) @ [CHR 0x0A]"

definition axsys_uint64_show :: "u64 \<Rightarrow> string" where
  "axsys_uint64_show v = dec_digits (unat v) @ [CHR 0x0A]"

text \<open>
  The kernel's \<open>kstrto*\<close> functions with base 0: an optional sign, a prefix that selects the base, the
  longest run of digits, at most one newline, and then the end of the text. A value that does not
  fit is refused.
\<close>

definition digit_val :: "char \<Rightarrow> nat option" where
  "digit_val c = (let n = of_char c :: nat in
     if 48 \<le> n \<and> n \<le> 57 then Some (n - 48)
     else if 97 \<le> n \<and> n \<le> 102 then Some (n - 87)
     else if 65 \<le> n \<and> n \<le> 70 then Some (n - 55)
     else None)"

definition in_base :: "nat \<Rightarrow> char \<Rightarrow> bool" where
  "in_base b c = (case digit_val c of Some v \<Rightarrow> v < b | None \<Rightarrow> False)"

definition fixup_radix :: "string \<Rightarrow> nat \<times> string" where
  "fixup_radix s = (case s of
     c # x # h # r \<Rightarrow>
       if c = CHR ''0'' then (if (x = CHR ''x'' \<or> x = CHR ''X'') \<and> in_base 16 h then (16, h # r) else (8, s)) else (10, s)
   | c # r \<Rightarrow> if c = CHR ''0'' then (8, s) else (10, s)
   | [] \<Rightarrow> (10, s))"

definition digits_value :: "nat \<Rightarrow> string \<Rightarrow> nat" where
  "digits_value b ds = foldl (\<lambda>n c. n * b + the (digit_val c)) 0 ds"

definition kstrto_digits :: "string \<Rightarrow> nat option" where
  "kstrto_digits s = (let (b, s) = fixup_radix s; ds = takeWhile (in_base b) s; r = dropWhile (in_base b) s;
       r = (case r of c # t \<Rightarrow> if c = CHR 0x0A then t else r | [] \<Rightarrow> r) in
     if ds = [] \<or> r \<noteq> [] then None else Some (digits_value b ds))"

definition kstrtou :: "nat \<Rightarrow> string \<Rightarrow> nat option" where
  "kstrtou w s = (let s = (case s of c # r \<Rightarrow> if c = CHR ''+'' then r else s | [] \<Rightarrow> s) in
     case kstrto_digits s of Some n \<Rightarrow> if n < 2 ^ w then Some n else None | None \<Rightarrow> None)"

definition kstrtos :: "nat \<Rightarrow> string \<Rightarrow> int option" where
  "kstrtos w s = (case s of
     c # r \<Rightarrow> if c = CHR ''-'' then (case kstrto_digits r of
                 Some n \<Rightarrow> if n \<le> 2 ^ (w - 1) then Some (- int n) else None | None \<Rightarrow> None)
              else (case kstrtou (w - 1) s of Some n \<Rightarrow> Some (int n) | None \<Rightarrow> None)
   | [] \<Rightarrow> None)"

text \<open>The store functions return the number of bytes taken, which is all of them, or \<open>-EINVAL\<close>; \<open>None\<close> leaves the variable alone.\<close>

definition axsys_uint8_store :: "string \<Rightarrow> u8 \<Rightarrow> int \<times> u8" where
  "axsys_uint8_store buf v = (case kstrtou 8 buf of Some n \<Rightarrow> (int (length buf), of_nat n) | None \<Rightarrow> (- EINVAL, v))"

definition axsys_int32_store :: "string \<Rightarrow> 32 word \<Rightarrow> int \<times> 32 word" where
  "axsys_int32_store buf v = (case kstrtos 32 buf of Some n \<Rightarrow> (int (length buf), of_int n) | None \<Rightarrow> (- EINVAL, v))"

definition axsys_uint32_store :: "string \<Rightarrow> u32 \<Rightarrow> int \<times> u32" where
  "axsys_uint32_store buf v = (case kstrtou 32 buf of Some n \<Rightarrow> (int (length buf), of_nat n) | None \<Rightarrow> (- EINVAL, v))"

definition axsys_uint64_store :: "string \<Rightarrow> u64 \<Rightarrow> int \<times> u64" where
  "axsys_uint64_store buf v = (case kstrtou 64 buf of Some n \<Rightarrow> (int (length buf), of_nat n) | None \<Rightarrow> (- EINVAL, v))"

section \<open>Attributes\<close>

text \<open>The two parameters are \<open>uint32_t\<close>; in the driver state they are the numbers.\<close>

definition axsys_watchdog_period_show :: "('d, 'u) drvdata \<Rightarrow> string" where
  "axsys_watchdog_period_show d = axsys_uint32_show (of_int (watchdog_period_msec d))"

definition axsys_watchdog_period_store :: "string \<Rightarrow> ('d, 'u) drvdata \<Rightarrow> int \<times> ('d, 'u) drvdata" where
  "axsys_watchdog_period_store buf d =
     (let (ret, v) = axsys_uint32_store buf (of_int (watchdog_period_msec d));
          d = d\<lparr>watchdog_period_msec := uint v\<rparr> in
      (ret, d\<lparr>kthread_wtd := axiom_kthread_wakeup (kthread_wtd d)\<rparr>))"

definition axsys_retry_delay_show :: "('d, 'u) drvdata \<Rightarrow> string" where
  "axsys_retry_delay_show d = axsys_uint32_show (of_int (retry_delay_usec d))"

definition axsys_retry_delay_store :: "string \<Rightarrow> ('d, 'u) drvdata \<Rightarrow> int \<times> ('d, 'u) drvdata" where
  "axsys_retry_delay_store buf d =
     (let (ret, v) = axsys_uint32_store buf (of_int (retry_delay_usec d)) in (ret, d\<lparr>retry_delay_usec := uint v\<rparr>))"

definition axsys_nodeid_show :: "('d, 'u) drvdata \<Rightarrow> string" where
  "axsys_nodeid_show d = axsys_uint8_show (dd_node_id d)"

definition axsys_ifnumber_show :: "'d hw_api \<Rightarrow> ('d, 'u) drvdata \<Rightarrow> (int + string) \<times> ('d, 'u) drvdata" where
  "axsys_ifnumber_show hw d =
     (let (err, n, dev) = hw_get_if_number hw (dev_api d); d = d\<lparr>dev_api := dev\<rparr> in
      if err \<noteq> 0 then (Inl (- EFAULT), d) else (Inr (axsys_uint8_show n), d))"

text \<open>The directories below the root device; the last three share the function that shows the process id.\<close>

datatype sysdir = SysParam | SysInfo | SysKraw | SysKrdma | SysKwtd

definition axsys_pid_show :: "sysdir \<Rightarrow> ('d, 'u) drvdata \<Rightarrow> int + string" where
  "axsys_pid_show kobj d = (case kobj of
     SysKraw \<Rightarrow> Inr (axsys_uint32_show (of_int (axiom_kthread_getpid (kthread_raw d))))
   | SysKrdma \<Rightarrow> Inr (axsys_uint32_show (of_int (axiom_kthread_getpid (kthread_rdma d))))
   | SysKwtd \<Rightarrow> Inr (axsys_uint32_show (of_int (axiom_kthread_getpid (kthread_wtd d))))
   | _ \<Rightarrow> Inl (- EFAULT))"

section \<open>The directory tree\<close>

text \<open>
  What the driver holds of the rest of the kernel: the device number region, the character devices, the
  device class and nodes, the sysfs tree (the root device, a directory, the attributes in it), and the mapping of the
  LONG buffers. The set of live resources is part of the state of initialisation.
\<close>

datatype resource = ChrRegion | Cdev nat | DevClass | DevNode nat | SysRoot | SysKobj sysdir | SysGroup sysdir | IoMap

text \<open>
  \<open>struct axiomnet_sysfs\<close>, its parameters apart: the root device (0 for \<open>NULL\<close>, an error number, or a valid
  pointer), the directories (valid pointer or not) and whether the driver data is set.
\<close>

record sysfs =
  sf_dev :: int
  sf_kobj :: "sysdir \<Rightarrow> bool"
  sf_drvdata :: bool

text \<open>The answers of the kernel: \<open>root_device_register\<close>, \<open>kobject_create_and_add\<close> and \<open>sysfs_create_groups\<close>.\<close>

record sysfs_env =
  se_root :: int
  se_kobj :: "sysdir \<Rightarrow> bool"
  se_groups :: "sysdir \<Rightarrow> int"

definition kobject_put :: "sysdir \<Rightarrow> resource set \<Rightarrow> resource set" where
  "kobject_put k live = live - {SysKobj k, SysGroup k}"

definition sysfs_remove_groups :: "sysdir \<Rightarrow> resource set \<Rightarrow> resource set" where
  "sysfs_remove_groups k live = live - {SysGroup k}"

text \<open>
  The unwinding of \<open>axiom_sysfs_init\<close>. It asks to remove the groups from the root device, which has none; the
  attributes of a directory go with the directory. The code returns \<open>ret\<close>, which is 0 when it was
  \<open>kobject_create_and_add\<close> that failed.
\<close>

definition sysfs_free_root :: "int \<Rightarrow> sysfs \<Rightarrow> resource set \<Rightarrow> int \<times> sysfs \<times> resource set" where
  "sysfs_free_root ret sf live = (ret, sf\<lparr>sf_dev := 0\<rparr>, live - {SysRoot})"

fun sysfs_unwind :: "sysdir list \<Rightarrow> int \<Rightarrow> sysfs \<Rightarrow> resource set \<Rightarrow> int \<times> sysfs \<times> resource set" where
  "sysfs_unwind [] ret sf live = sysfs_free_root ret sf live"
| "sysfs_unwind (k # ks) ret sf live = sysfs_unwind ks ret sf (kobject_put k live)"

text \<open>One directory after the other; \<open>done\<close> lists those that exist, the last first.\<close>

fun sysfs_dirs :: "sysfs_env \<Rightarrow> sysdir list \<Rightarrow> sysdir list \<Rightarrow> sysfs \<Rightarrow> resource set \<Rightarrow> int \<times> sysfs \<times> resource set" where
  "sysfs_dirs e [] made sf live = (0, sf\<lparr>sf_drvdata := True\<rparr>, live)"
| "sysfs_dirs e (k # ks) made sf live =
     (let sf = sf\<lparr>sf_kobj := (sf_kobj sf)(k := se_kobj e k)\<rparr> in
      if \<not> se_kobj e k then sysfs_unwind made 0 sf live
      else
        let live = insert (SysKobj k) live in
        if se_groups e k \<noteq> 0 then sysfs_unwind (k # made) (se_groups e k) sf live
        else sysfs_dirs e ks (k # made) sf (insert (SysGroup k) live))"

definition axiom_sysfs_init :: "sysfs_env \<Rightarrow> sysfs \<Rightarrow> resource set \<Rightarrow> int \<times> sysfs \<times> resource set" where
  "axiom_sysfs_init e sf live =
     (if se_root e < 0 then (se_root e, sf\<lparr>sf_dev := se_root e\<rparr>, live)
      else sysfs_dirs e [SysParam, SysInfo, SysKraw, SysKrdma, SysKwtd] [] (sf\<lparr>sf_dev := 1\<rparr>) (insert SysRoot live))"

definition axiom_sysfs_uninit :: "sysfs \<Rightarrow> resource set \<Rightarrow> sysfs \<times> resource set" where
  "axiom_sysfs_uninit sf live =
     (if sf_dev sf = 0 then (sf, live)
      else
        let live = kobject_put SysKwtd (sysfs_remove_groups SysKwtd live);
            live = kobject_put SysKrdma (sysfs_remove_groups SysKrdma live);
            live = kobject_put SysKraw (sysfs_remove_groups SysKraw live);
            live = kobject_put SysInfo (sysfs_remove_groups SysInfo live);
            live = kobject_put SysParam (sysfs_remove_groups SysParam live) in
        (sf\<lparr>sf_dev := 0\<rparr>, live - {SysRoot}))"

section \<open>Properties\<close>

definition sys_tree :: "sysdir set \<Rightarrow> resource set" where
  "sys_tree ks = insert SysRoot (SysKobj ` ks \<union> SysGroup ` ks)"

lemma sysdir_UNIV: "{SysParam, SysInfo, SysKraw, SysKrdma, SysKwtd} = UNIV"
  by (auto intro: sysdir.exhaust)

lemma sys_tree_insert: "sys_tree (insert k ks) = insert (SysGroup k) (insert (SysKobj k) (sys_tree ks))"
  by (auto simp: sys_tree_def)

lemma sysfs_unwind_eq: "sysfs_unwind ks ret sf live = (ret, sf\<lparr>sf_dev := 0\<rparr>, live - sys_tree (set ks))"
  by (induction ks arbitrary: live) (auto simp: sysfs_free_root_def kobject_put_def sys_tree_def)

lemma sysfs_dirs_cases:
  assumes "sysfs_dirs e ks made sf (base \<union> sys_tree (set made)) = (ret, sf', live')"
    and disj: "base \<inter> sys_tree UNIV = {}" and "sf_dev sf = 1"
  shows "sf_dev sf' = 0 \<and> live' = base \<or> ret = 0 \<and> sf_dev sf' = 1 \<and> live' = base \<union> sys_tree (set made \<union> set ks)"
  using assms(1,3)
proof (induction ks arbitrary: made sf)
  case Nil
  then show ?case by auto
next
  case (Cons k ks)
  have free: "base \<inter> sys_tree ks = {}" for ks using disj by (auto simp: sys_tree_def)
  consider "\<not> se_kobj e k" | "se_kobj e k" "se_groups e k \<noteq> 0" | "se_kobj e k" "se_groups e k = 0" by blast
  then show ?case
  proof cases
    case 1
    with Cons.prems free [of "set made"] show ?thesis by (auto simp: sysfs_unwind_eq)
  next
    case 2
    with Cons.prems have "live' = insert (SysKobj k) (base \<union> sys_tree (set made)) - sys_tree (set (k # made))" "sf_dev sf' = 0"
      by (auto simp: sysfs_unwind_eq Let_def simp del: sysfs_unwind.simps)
    with free [of "set (k # made)"] show ?thesis by (auto simp: sys_tree_insert)
  next
    case 3
    then have "sysfs_dirs e ks (k # made) (sf\<lparr>sf_kobj := (sf_kobj sf)(k := True)\<rparr>) (base \<union> sys_tree (set (k # made))) = (ret, sf', live')"
      using Cons.prems by (simp add: sys_tree_insert)
    from Cons.IH [OF this] Cons.prems(2) show ?thesis by simp
  qed
qed

text \<open>
  The tree is created completely or not at all; a second result 0 with a \<open>NULL\<close> root device is the
  failure of \<open>kobject_create_and_add\<close> the code does not report.
\<close>

lemma sysfs_init_cases:
  assumes "axiom_sysfs_init e sf live = (ret, sf', live')" and "live \<inter> sys_tree UNIV = {}"
  shows "ret < 0 \<and> live' = live \<and> sf_dev sf' = ret \<or> sf_dev sf' = 0 \<and> live' = live \<or> ret = 0 \<and> sf_dev sf' = 1 \<and> live' = live \<union> sys_tree UNIV"
proof (cases "se_root e < 0")
  case True
  with assms(1) show ?thesis by (auto simp: axiom_sysfs_init_def)
next
  case False
  with assms(1) have "sysfs_dirs e [SysParam, SysInfo, SysKraw, SysKrdma, SysKwtd] [] (sf\<lparr>sf_dev := 1\<rparr>) (live \<union> sys_tree (set [])) = (ret, sf', live')"
    by (simp add: axiom_sysfs_init_def sys_tree_def)
  from sysfs_dirs_cases [OF this assms(2)] show ?thesis by (simp add: sysdir_UNIV)
qed

lemma sysfs_init_hides_failure:
  assumes "se_root e \<ge> 0" and "\<not> se_kobj e SysParam"
  shows "\<exists>sf'. axiom_sysfs_init e sf live = (0, sf', live - {SysRoot}) \<and> sf_dev sf' = 0"
  using assms by (simp add: axiom_sysfs_init_def sysfs_free_root_def)

lemma sysfs_uninit_eq:
  "axiom_sysfs_uninit sf live = (sf\<lparr>sf_dev := 0\<rparr>, if sf_dev sf = 0 then live else live - sys_tree UNIV)"
  by (auto simp: axiom_sysfs_uninit_def kobject_put_def sysfs_remove_groups_def sys_tree_def sysdir_UNIV [symmetric])

section \<open>Printing and parsing agree\<close>

lemma digit_char_val: "n < 10 \<Longrightarrow> digit_val (digit_char n) = Some n"
  by (auto simp: digit_val_def digit_char_def Let_def)

lemma dec_digits_base: "\<forall>c \<in> set (dec_digits n). in_base 10 c"
  by (induction n rule: dec_digits.induct) (subst dec_digits.simps, auto simp: in_base_def digit_char_val)

lemma dec_digits_value: "digits_value 10 (dec_digits n) = n"
  by (induction n rule: dec_digits.induct) (subst dec_digits.simps, auto simp: digits_value_def digit_char_val)

lemma digit_char_eq: "a < 10 \<Longrightarrow> b < 10 \<Longrightarrow> digit_char a = digit_char b \<longleftrightarrow> a = b"
  by (metis digit_char_val option.inject)

lemma dec_digits_head: "0 < n \<Longrightarrow> \<exists>k r. dec_digits n = digit_char k # r \<and> 0 < k \<and> k < 10"
proof (induction n rule: dec_digits.induct)
  case (1 n)
  show ?case
  proof (cases "n < 10")
    case True
    with 1(2) show ?thesis by (subst dec_digits.simps) auto
  next
    case False
    then have "0 < n div 10" by (simp add: div_greater_zero_iff)
    with False 1(1) obtain k r where "dec_digits (n div 10) = digit_char k # r" "0 < k" "k < 10" by auto
    with False show ?thesis by (subst dec_digits.simps) auto
  qed
qed

lemma zero_char: "digit_char 0 = CHR ''0''"
  by code_simp

lemma newline_digit: "\<not> in_base b (CHR 0x0A)"
  by (simp add: in_base_def digit_val_def)

lemma kstrto_dec_digits: "kstrto_digits (dec_digits n @ [CHR 0x0A]) = Some n"
proof (cases "n = 0")
  case True
  have "dec_digits 0 = ''0''" by (subst dec_digits.simps) (simp add: zero_char)
  with True show ?thesis
    by (simp add: kstrto_digits_def fixup_radix_def in_base_def digit_val_def digits_value_def)
next
  case False
  then obtain k r where h: "dec_digits n = digit_char k # r" "0 < k" "k < 10" using dec_digits_head by blast
  from h have "digit_char k \<noteq> CHR ''0''" using digit_char_eq [of k 0] by (simp add: zero_char)
  with h(1) have "fixup_radix (dec_digits n @ [CHR 0x0A]) = (10, dec_digits n @ [CHR 0x0A])"
    by (cases r; cases "tl r") (auto simp: fixup_radix_def)
  moreover have "takeWhile (in_base 10) (dec_digits n @ [CHR 0x0A]) = dec_digits n"
    "dropWhile (in_base 10) (dec_digits n @ [CHR 0x0A]) = [CHR 0x0A]"
    using dec_digits_base newline_digit by (simp_all add: takeWhile_append2 dropWhile_append2)
  moreover have "dec_digits n \<noteq> []" using h(1) by simp
  ultimately show ?thesis by (simp add: kstrto_digits_def dec_digits_value)
qed

lemma kstrtou_dec_digits: "n < 2 ^ w \<Longrightarrow> kstrtou w (dec_digits n @ [CHR 0x0A]) = Some n"
proof -
  assume n: "n < 2 ^ w"
  have "\<not> in_base 10 (CHR ''+'')" by (simp add: in_base_def digit_val_def)
  moreover have "dec_digits n \<noteq> []" by (subst dec_digits.simps) simp
  ultimately obtain c r where "dec_digits n = c # r" "c \<noteq> CHR ''+''" using dec_digits_base [of n] by (cases "dec_digits n") auto
  then show ?thesis using n kstrto_dec_digits [of n] by (simp add: kstrtou_def)
qed

text \<open>
  Property C32. What the sysfs files of the two parameters show is what they accept: text printed from one
  driver state and stored in another is taken completely, sets the parameter to the same value there, and
  changes nothing else, but for a wake-up of the watchdog thread.
\<close>

theorem sysfs_params_roundtrip:
  assumes "0 \<le> watchdog_period_msec d" "watchdog_period_msec d < 2 ^ 32" "0 \<le> retry_delay_usec d" "retry_delay_usec d < 2 ^ 32"
  shows "axsys_watchdog_period_store (axsys_watchdog_period_show d) d' =
      (int (length (axsys_watchdog_period_show d)),
       d'\<lparr>watchdog_period_msec := watchdog_period_msec d, kthread_wtd := axiom_kthread_wakeup (kthread_wtd d')\<rparr>) \<and>
    axsys_retry_delay_store (axsys_retry_delay_show d) d' =
      (int (length (axsys_retry_delay_show d)), d'\<lparr>retry_delay_usec := retry_delay_usec d\<rparr>)"
proof (intro conjI)
  have same: "uint (of_nat (unat (of_int x :: u32)) :: u32) = x" if "0 \<le> x" "x < 2 ^ 32" for x
    using that by (simp add: uint_word_of_int take_bit_int_eq_self)
  have "unat (w :: u32) < 2 ^ 32" for w using unsigned_less [of w] by simp
  note parse = kstrtou_dec_digits [OF this]
  show "axsys_watchdog_period_store (axsys_watchdog_period_show d) d' =
      (int (length (axsys_watchdog_period_show d)),
       d'\<lparr>watchdog_period_msec := watchdog_period_msec d, kthread_wtd := axiom_kthread_wakeup (kthread_wtd d')\<rparr>)"
    using same [OF assms(1,2)] by (simp add: axsys_watchdog_period_store_def axsys_watchdog_period_show_def axsys_uint32_store_def
        axsys_uint32_show_def parse)
  show "axsys_retry_delay_store (axsys_retry_delay_show d) d' =
      (int (length (axsys_retry_delay_show d)), d'\<lparr>retry_delay_usec := retry_delay_usec d\<rparr>)"
    using same [OF assms(3,4)] by (simp add: axsys_retry_delay_store_def axsys_retry_delay_show_def axsys_uint32_store_def
        axsys_uint32_show_def parse)
qed

theorem sysfs_params_roundtrip_witness:
  "axsys_watchdog_period_show demo_d = [CHR ''2'', CHR ''0'', CHR ''0'', CHR 0x0A] \<and>
   watchdog_period_msec (snd (axsys_watchdog_period_store (axsys_watchdog_period_show demo_d) (demo_d\<lparr>watchdog_period_msec := 5\<rparr>))) = 200"
proof -
  have "dec_digits 200 = ''200''" by code_simp
  then have "axsys_watchdog_period_show demo_d = [CHR ''2'', CHR ''0'', CHR ''0'', CHR 0x0A]"
    by (simp add: axsys_watchdog_period_show_def axsys_uint32_show_def demo_d_def)
  moreover have "watchdog_period_msec demo_d = 200" "retry_delay_usec demo_d = 100" by (simp_all add: demo_d_def)
  ultimately show ?thesis using sysfs_params_roundtrip [of demo_d "demo_d\<lparr>watchdog_period_msec := 5\<rparr>"] by simp
qed

end
