(* ===== verification/IoVec.thy ===== *)
theory IoVec
  imports DriverState
begin

text \<open>
  The gather and scatter loops over \<open>iovec\<close> arrays that the send and receive functions of
  \<open>axiom_netdev_driver/axiom_netdev_common.c\<close> share (RAW: lines 235 to 254 and 427 to 441, LONG: lines
  1084 to 1103 and 1215 to 1229).
\<close>

section \<open>The loops\<close>

text \<open>
  The gather loop of the two send functions: \<open>copied\<close> and \<open>offset\<close> are C \<open>int\<close>s (32 bits, with the
  wrapping addition the kernel is compiled with), the result of the copy is truncated to \<open>int\<close>.
  \<open>kbuf\<close> is the address of the destination object, \<open>dst\<close> its bytes. The result is 0 or an error code,
  and the bytes of the destination.
\<close>

fun gather_iov :: "'u uaccess \<Rightarrow> 'u \<Rightarrow> u64 \<Rightarrow> int \<Rightarrow> iovec list \<Rightarrow> u32 \<Rightarrow> u8 list \<Rightarrow> (int \<times> u8 list) option" where
  "gather_iov ua u kbuf payload_size [] offset dst = Some (0, dst)"
| "gather_iov ua u kbuf payload_size (v # iov) offset dst =
     (let copied = ucast (iov_len v) :: u32 in
      if sint (copied + offset) > payload_size then Some (- EFBIG, dst)
      else
        let (ret, bs) = axiom_copy_from_user ua u (kbuf + scast offset) (iov_base v) (scast copied) in do {
        dst \<leftarrow> arr_blit dst (sint offset) bs;
        if (ucast ret :: u32) \<noteq> 0 then Some (- EFAULT, dst)
        else gather_iov ua u kbuf payload_size iov (offset + copied) dst })"

text \<open>
  The scatter loop of the two receive functions: \<open>kbuf\<close> and \<open>src\<close> are the address and the bytes of the
  payload, \<open>payload_size\<close> its length.
\<close>

fun scatter_iov :: "'u uaccess \<Rightarrow> 'u \<Rightarrow> u64 \<Rightarrow> u8 list \<Rightarrow> int \<Rightarrow> iovec list \<Rightarrow> int \<Rightarrow> (bool \<times> 'u) option" where
  "scatter_iov ua u kbuf src payload_size [] offset = Some (True, u)"
| "scatter_iov ua u kbuf src payload_size (v # iov) offset =
     (if \<not> offset < payload_size then Some (True, u)
      else
        let copied = min (sint (ucast (iov_len v) :: u32)) (payload_size - offset) in do {
        (ret, u) \<leftarrow> axiom_copy_to_user ua u (iov_base v) (kbuf + of_int offset) (drop (nat offset) src)
                       (of_int copied);
        if (ucast ret :: u32) \<noteq> 0 then Some (False, u)
        else scatter_iov ua u kbuf src payload_size iov (offset + copied) })"

section \<open>Machine integers\<close>

lemma sint_of_nat_u32: "n < 2 ^ 31 \<Longrightarrow> sint (of_nat n :: u32) = int n"
  by (simp add: sint_word_ariths signed_of_nat signed_take_bit_int_eq_self)

lemma scast_of_nat_u32: "n < 2 ^ 31 \<Longrightarrow> (scast (of_nat n :: u32) :: u64) = of_nat n"
  by (simp add: signed_of_nat signed_take_bit_int_eq_self)

lemma ucast_u64_u32: "(ucast (w :: u64) :: u32) = of_nat (unat w)"
  by simp

lemma unat_of_nat_u64: "n < 2 ^ 64 \<Longrightarrow> unat (of_nat n :: u64) = n"
  by (simp add: unsigned_of_nat take_bit_nat_eq_self)

text \<open>The misalignment of an address does not change when a multiple of 256 is added.\<close>

lemma and7_take_bit: "(p :: u64) AND 7 = take_bit 3 p"
  by (simp add: take_bit_eq_mask mask_eq_exp_minus_1)

lemma take_bit_3_add: "take_bit 3 ((a :: u64) + b) = take_bit 3 (take_bit 3 a + take_bit 3 b)"
  by (transfer, simp add: min_def take_bit_add)

lemma take_bit_256: "take_bit 3 (of_int (256 * s) :: u64) = 0"
proof -
  have "(of_int (256 * s) :: u64) = push_bit 8 (of_int s)" by (simp add: push_bit_eq_mult)
  then show ?thesis by (simp add: take_bit_push_bit)
qed

lemma odd_part_add: "odd_part (b + of_int (256 * s) + x) = odd_part (b + x)"
proof -
  have "take_bit 3 ((b + x) + of_int (256 * s)) = take_bit 3 (take_bit 3 (b + x) + take_bit 3 (of_int (256 * s) :: u64))"
    by (rule take_bit_3_add)
  also have "\<dots> = take_bit 3 (b + x)" unfolding take_bit_256 by simp
  finally show ?thesis by (simp add: odd_part_def and7_take_bit add_ac)
qed

lemma copy_aligned_odd: "odd_part a = odd_part b \<Longrightarrow> copy_aligned x a n = copy_aligned x b n"
  "odd_part a = odd_part b \<Longrightarrow> copy_aligned a x n = copy_aligned b x n"
  by (simp_all add: copy_aligned_def)

section \<open>Gathering\<close>

text \<open>
  \<open>gather_ok\<close>: the vector fits in the \<open>n\<close> bytes that are left, and every element can be copied.
\<close>

fun gather_ok :: "'u uaccess \<Rightarrow> (u64 \<Rightarrow> u8 option) \<Rightarrow> u64 \<Rightarrow> nat \<Rightarrow> iovec list \<Rightarrow> bool" where
  "gather_ok ua m kbuf n [] = True"
| "gather_ok ua m kbuf n (v # vs) = (let c = unat (iov_len v) in
     c \<le> n \<and> ua_access_ok ua (iov_base v) (iov_len v) \<and> readable m (iov_base v) c \<and>
     copy_aligned kbuf (iov_base v) (iov_len v) \<and> gather_ok ua m (kbuf + iov_len v) (n - c) vs)"

definition gather_bytes :: "(u64 \<Rightarrow> u8 option) \<Rightarrow> iovec list \<Rightarrow> u8 list" where
  "gather_bytes m vs = concat (map (\<lambda>v. map the (umem_read m (iov_base v) (unat (iov_len v)))) vs)"

lemma gather_bytes_simps [simp]:
  "gather_bytes m [] = []"
  "gather_bytes m (v # vs) = map the (umem_read m (iov_base v) (unat (iov_len v))) @ gather_bytes m vs"
  by (simp_all add: gather_bytes_def)

lemma length_gather_bytes: "gather_ok ua m kbuf n vs \<Longrightarrow> length (gather_bytes m vs) \<le> n"
  by (induction ua m kbuf n vs rule: gather_ok.induct) (auto simp: Let_def)

lemma gather_iov_ok:
  assumes spec: "uaccess_spec ua view"
  shows "gather_ok ua (view u) (kbuf + of_nat off) (n - off) vs \<Longrightarrow> off \<le> n \<Longrightarrow> n \<le> length dst \<Longrightarrow>
    n < 2 ^ 31 \<Longrightarrow>
    gather_iov ua u kbuf (int n) vs (of_nat off) dst =
      Some (0, take off dst @ gather_bytes (view u) vs @ drop (off + length (gather_bytes (view u) vs)) dst)"
proof (induction vs arbitrary: off dst)
  case Nil
  then show ?case by simp
next
  case (Cons v vs)
  let ?c = "unat (iov_len v)"
  let ?bs = "map the (umem_read (view u) (iov_base v) ?c)"
  from Cons.prems have c: "?c + off \<le> n" and ok: "ua_access_ok ua (iov_base v) (iov_len v)"
    and rd: "readable (view u) (iov_base v) ?c" and al: "copy_aligned (kbuf + of_nat off) (iov_base v) (iov_len v)"
    and rest: "gather_ok ua (view u) (kbuf + of_nat (off + ?c)) (n - (off + ?c)) vs"
    by (auto simp: Let_def add.assoc)
  from axiom_copy_from_user_ok [OF spec ok rd al] obtain bs where
    bs: "axiom_copy_from_user ua u (kbuf + of_nat off) (iov_base v) (iov_len v) = (0, bs)"
      "map Some bs = umem_read (view u) (iov_base v) ?c" by blast
  have "map the (map Some bs) = bs" by (simp add: comp_def)
  with bs(2) have bseq: "bs = ?bs" by metis
  let ?dst = "take off dst @ bs @ drop (off + length bs) dst"
  have lb: "length bs = ?c" using bseq by simp
  have "gather_iov ua u kbuf (int n) vs (of_nat (off + ?c)) ?dst =
      Some (0, take (off + ?c) ?dst @ gather_bytes (view u) vs @
        drop (off + ?c + length (gather_bytes (view u) vs)) ?dst)"
    using Cons.IH [OF rest] c Cons.prems lb by simp
  moreover have "take (off + ?c) ?dst = take off dst @ bs" using lb c Cons.prems by simp
  moreover have "drop (off + ?c + k) ?dst = drop (off + ?c + k) dst" for k
  proof -
    have "off \<le> length dst" using c Cons.prems(3) by simp
    then show ?thesis using lb by (simp add: add.commute)
  qed
  moreover have "scast (of_nat ?c :: u32) = iov_len v"
  proof -
    have "scast (of_nat ?c :: u32) = (of_nat ?c :: u64)" using c Cons.prems(4) by (intro scast_of_nat_u32) simp
    then show ?thesis by (simp only: of_nat_unat ucast_id)
  qed
  moreover have "sint (of_nat ?c + of_nat off :: u32) = int (?c + off)"
    using c Cons.prems(4) sint_of_nat_u32 [of "?c + off"] by simp
  moreover have "(of_nat off + of_nat ?c :: u32) = of_nat (off + ?c)" by simp
  ultimately show ?case using c bs(1) lb bseq Cons.prems
    by (simp add: ucast_u64_u32 Let_def scast_of_nat_u32 sint_of_nat_u32 add.assoc del: of_nat_add of_nat_unat)
qed

section \<open>Scattering\<close>

fun scatter_ok :: "'u uaccess \<Rightarrow> (u64 \<Rightarrow> u8 option) \<Rightarrow> u64 \<Rightarrow> nat \<Rightarrow> iovec list \<Rightarrow> bool" where
  "scatter_ok ua m kbuf n [] = True"
| "scatter_ok ua m kbuf n (v # vs) = (n = 0 \<or> (let c = min (unat (iov_len v)) n in
     unat (iov_len v) < 2 ^ 31 \<and> ua_access_ok ua (iov_base v) (of_nat c) \<and> readable m (iov_base v) c \<and>
     copy_aligned (iov_base v) kbuf (of_nat c) \<and> scatter_ok ua m (kbuf + of_nat c) (n - c) vs))"

fun scatter_mem :: "(u64 \<Rightarrow> u8 option) \<Rightarrow> iovec list \<Rightarrow> u8 list \<Rightarrow> u64 \<Rightarrow> u8 option" where
  "scatter_mem m [] bs = m"
| "scatter_mem m (v # vs) bs =
     scatter_mem (umem_write m (iov_base v) (take (unat (iov_len v)) bs)) vs (drop (unat (iov_len v)) bs)"

lemma scatter_ok_write: "scatter_ok ua m kbuf n vs \<Longrightarrow> scatter_ok ua (umem_write m a bs) kbuf n vs"
  by (induction ua m kbuf n vs rule: scatter_ok.induct) (auto simp: Let_def intro: readable_write)

lemma scatter_mem_Nil [simp]: "scatter_mem m vs [] = m"
  by (induction vs) auto

lemma scatter_iov_ok:
  assumes spec: "uaccess_spec ua view"
  shows "scatter_ok ua (view u) (kbuf + of_nat off) (n - off) vs \<Longrightarrow> off \<le> n \<Longrightarrow> n \<le> length src \<Longrightarrow>
    n < 2 ^ 31 \<Longrightarrow>
    \<exists>u'. scatter_iov ua u kbuf src (int n) vs (int off) = Some (True, u') \<and>
         view u' = scatter_mem (view u) vs (take (n - off) (drop off src))"
proof (induction vs arbitrary: off u)
  case Nil
  then show ?case by simp
next
  case (Cons v vs)
  show ?case
  proof (cases "off < n")
    case False
    with Cons.prems show ?thesis by simp
  next
    case True
    let ?c = "min (unat (iov_len v)) (n - off)"
    from Cons.prems True have len: "unat (iov_len v) < 2 ^ 31" and ok: "ua_access_ok ua (iov_base v) (of_nat ?c)"
      and rd: "readable (view u) (iov_base v) ?c" and al: "copy_aligned (iov_base v) (kbuf + of_nat off) (of_nat ?c)"
      and rest: "scatter_ok ua (view u) (kbuf + of_nat (off + ?c)) (n - (off + ?c)) vs"
      by (auto simp: Let_def add.assoc)
    have c: "unat (of_nat ?c :: u64) = ?c" using len by (intro unat_of_nat_u64) simp
    have "?c \<le> length (drop off src)" using Cons.prems(3) by simp
    with axiom_copy_to_user_ok [OF spec ok _ al, of u "drop off src"] rd c obtain u1 where
      u1: "axiom_copy_to_user ua u (iov_base v) (kbuf + of_nat off) (drop off src) (of_nat ?c) = Some (0, u1)"
        "view u1 = umem_write (view u) (iov_base v) (take ?c (drop off src))"
      by (auto simp del: of_nat_min)
    have "scatter_ok ua (view u1) (kbuf + of_nat (off + ?c)) (n - (off + ?c)) vs"
      using scatter_ok_write [OF rest] u1(2) by simp
    moreover have "off + ?c \<le> n" using True min.cobounded2 [of "unat (iov_len v)" "n - off"] by linarith
    ultimately obtain u2 where
      u2: "scatter_iov ua u1 kbuf src (int n) vs (int (off + ?c)) = Some (True, u2)"
        "view u2 = scatter_mem (view u1) vs (take (n - (off + ?c)) (drop (off + ?c) src))" using Cons.IH [OF _ _ Cons.prems(3,4)] by blast
    have "min (sint (ucast (iov_len v) :: u32)) (int n - int off) = int ?c"
      using len True by (simp add: ucast_u64_u32 sint_of_nat_u32 of_nat_diff del: of_nat_unat)
    then have "scatter_iov ua u kbuf src (int n) (v # vs) (int off) = Some (True, u2)"
      using True u1(1) u2(1) by (simp add: Let_def del: of_nat_min)
    moreover have "take (unat (iov_len v)) (take (n - off) (drop off src)) = take ?c (drop off src)"
      by simp
    moreover have "drop (unat (iov_len v)) (take (n - off) (drop off src)) =
        take (n - (off + ?c)) (drop (off + ?c) src)"
      by (auto simp: drop_take min_def add.commute)
    ultimately show ?thesis using u1(2) u2(2) by simp
  qed
qed

lemma scatter_ok_shift:
  "scatter_ok ua m (b + of_int (256 * s) + x) n vs = scatter_ok ua m (b + x) n vs"
proof (induction vs arbitrary: x n)
  case (Cons v vs)
  have "copy_aligned (iov_base v) (b + of_int (256 * s) + x) k = copy_aligned (iov_base v) (b + x) k" for k
    by (rule copy_aligned_odd(1) [OF odd_part_add])
  with Cons.IH show ?case by (simp add: Let_def add.assoc del: of_int_mult of_int_numeral)
qed simp

end
