(* ===== verification/DriverRaw.thy ===== *)
theory DriverRaw
  imports SwQueue IoVec
begin

text \<open>
  RAW messages (\<open>axiom_netdev_driver/axiom_netdev_common.c\<close>, lines 143 to 503): the interrupt
  handler, sending, the receive worker that moves packets from the hardware into the per-port
  queues, receiving, and flushing.
\<close>

section \<open>Interrupts\<close>

definition axiomnet_irqhandler :: "'d hw_api \<Rightarrow> ('d, 'u) drvdata \<Rightarrow> ('d, 'u) drvdata option" where
  "axiomnet_irqhandler hw d =
     (let (irq_pending, dev) = hw_pending_irq hw (dev_api d);
          d = d\<lparr>dev_api := dev\<rparr>;
          d = (if irq_pending AND AXIOMREG_IRQ_RAW_RX \<noteq> 0
               then inc_stat irq_raw_rx (d\<lparr>kthread_raw := axiom_kthread_wakeup (kthread_raw d)\<rparr>) else d)
      in do {
        d \<leftarrow> (if irq_pending AND AXIOMREG_IRQ_RAW_TX \<noteq> 0
              then do { d \<leftarrow> wake_up RawTx d; Some (inc_stat irq_raw_tx d) } else Some d);
        let d = (if irq_pending AND AXIOMREG_IRQ_RDMA_RX \<noteq> 0
               then inc_stat irq_rdma_rx (d\<lparr>kthread_rdma := axiom_kthread_wakeup (kthread_rdma d)\<rparr>) else d);
        d \<leftarrow> (if irq_pending AND AXIOMREG_IRQ_RDMA_TX \<noteq> 0
              then do { d \<leftarrow> wake_up RdmaTx d; Some (inc_stat irq_rdma_tx d) } else Some d);
        let d = inc_stat irq d;
        Some (d\<lparr>dev_api := hw_ack_irq hw (dev_api d) irq_pending\<rparr>) })"

section \<open>Sending\<close>

definition axiomnet_raw_tx_avail :: "'d hw_api \<Rightarrow> ('d, 'u) drvdata \<Rightarrow> int \<times> ('d, 'u) drvdata" where
  "axiomnet_raw_tx_avail hw d =
     (let (n, dev) = hw_raw_tx_avail hw (dev_api d) in (sint n, d\<lparr>dev_api := dev\<rparr>))"

definition raw_tx_ready :: "'d hw_api \<Rightarrow> ('d, 'u) drvdata \<Rightarrow> (bool \<times> ('d, 'u) drvdata) option" where
  "raw_tx_ready hw d = (let (n, d) = axiomnet_raw_tx_avail hw d in Some (n \<noteq> 0, d))"

text \<open>
  \<open>axiomnet_raw_send\<close>. \<open>stk\<close> is the local \<open>raw_msg\<close>: its address and the bytes its payload holds
  before anything is written there. The message id the hardware returns is a \<open>uint8_t\<close>, so the
  branch for a negative result is never taken.
\<close>

definition axiomnet_raw_send :: "'d hw_api \<Rightarrow> 'u uaccess \<Rightarrow> (u64 \<times> u8 list) \<Rightarrow> bool \<Rightarrow> raw_hdr \<Rightarrow> iovec list \<Rightarrow>
    ('d, 'u) drvdata wait_ev list \<Rightarrow> ('d, 'u) drvdata \<Rightarrow>
    (int \<times> ('d, 'u) drvdata wait_ev list \<times> ('d, 'u) drvdata) option" where
  "axiomnet_raw_send hw ua stk nonblock header iov env d =
     (if unat (rh_payload_size header) > RAW_PAYLOAD_LEN then Some (- EFBIG, env, d)
      else do {
        unreach \<leftarrow> (if pt_type (rh_port_type header) \<noteq> AXIOM_TYPE_RAW_NEIGHBOUR
                   then do { if_mask \<leftarrow> arr_get (routing_table d) (uint (rh_node header)); Some (if_mask = 0) }
                   else Some False);
        if unreach then Some (- ENXIO, env, d)
        else do {
          d \<leftarrow> mutex_lock RawTx d;
          (r, env, d) \<leftarrow> wait_avail (raw_tx_ready hw) RawTx wait_raw_tx nonblock env d;
          if r \<noteq> 0 then Some (r, env, d)
          else do {
            d \<leftarrow> mutex_unlock RawTx d;
            (ret, payload) \<leftarrow> gather_iov ua (user_mem d) (fst stk + 5) (uint (rh_payload_size header)) iov 0 (snd stk);
            if ret \<noteq> 0 then Some (ret, env, d)
            else do {
              let msg = \<lparr>rm_header = header\<lparr>rh_port_type := set_pt_s 0 (set_pt_error 0 (rh_port_type header))\<rparr>,
                         rm_payload = payload\<rparr>;
              d \<leftarrow> mutex_lock RawTx d;
              (id, msg, dev) \<leftarrow> hw_raw_tx hw (dev_api d) msg;
              let d = d\<lparr>dev_api := dev\<rparr>;
              let d = add_stat bytes_raw_tx (ucast (rh_payload_size header)) (inc_stat pkt_raw_tx d);
              d \<leftarrow> mutex_unlock RawTx d;
              Some (uint id, env, d) } } } })"

section \<open>The receive worker\<close>

definition axiomnet_raw_rx_work_todo :: "'d hw_api \<Rightarrow> ('d, 'u) drvdata \<Rightarrow> bool \<times> ('d, 'u) drvdata" where
  "axiomnet_raw_rx_work_todo hw d =
     (let (n, dev) = hw_raw_rx_avail hw (dev_api d) in
      (n \<noteq> 0 \<and> eviq_free_avail (sq_evi (raw_rx_queue d)), d\<lparr>dev_api := dev\<rparr>))"

definition raw_msg_port :: "raw_msg \<Rightarrow> int" where
  "raw_msg_port m = uint (pt_port (rh_port_type (rm_header m)))"

text \<open>
  The body of the \<open>while\<close> loop of \<open>axiom_raw_rx_dequeue\<close>; the boolean says whether the loop goes on
  (\<open>break\<close> stops it).
\<close>

definition raw_rx_body :: "'d hw_api \<Rightarrow> ('d, 'u) drvdata \<Rightarrow> (bool \<times> ('d, 'u) drvdata) option" where
  "raw_rx_body hw d = do {
     (slot, e) \<leftarrow> eviq_free_pop (sq_evi (raw_rx_queue d));
     let d = d\<lparr>raw_rx_queue := (raw_rx_queue d)\<lparr>sq_evi := e\<rparr>\<rparr>;
     if slot = EVIQ_NONE then Some (False, d)
     else do {
       ds \<leftarrow> sq_desc (raw_rx_queue d);
       m \<leftarrow> arr_get ds (sint slot);
       (id, m, dev) \<leftarrow> hw_raw_rx hw (dev_api d) m;
       ds \<leftarrow> arr_set ds (sint slot) m;
       let d = d\<lparr>dev_api := dev, raw_rx_queue := (raw_rx_queue d)\<lparr>sq_desc := Some ds\<rparr>\<rparr>;
       let port = raw_msg_port m;
       if port < 0 \<or> port > AXIOM_PORT_MAX then do {
         let d = inc_stat err_raw_rx d;
         e \<leftarrow> eviq_free_push (sq_evi (raw_rx_queue d)) slot;
         Some (True, d\<lparr>raw_rx_queue := (raw_rx_queue d)\<lparr>sq_evi := e\<rparr>\<rparr>) }
       else do {
         avail \<leftarrow> eviq_avail (sq_evi (raw_rx_queue d)) port;
         e \<leftarrow> eviq_enqueue (sq_evi (raw_rx_queue d)) port slot;
         let d = d\<lparr>raw_rx_queue := (raw_rx_queue d)\<lparr>sq_evi := e\<rparr>\<rparr>;
         d \<leftarrow> (if \<not> avail then wake_up (RawRx port) d else Some d);
         let d = inc_stat pkt_raw_rx d;
         Some (True, add_stat bytes_raw_rx (ucast (rh_payload_size (rm_header m))) d) } } }"

partial_function (option) axiom_raw_rx_dequeue :: "'d hw_api \<Rightarrow> ('d, 'u) drvdata \<Rightarrow> ('d, 'u) drvdata option" where
  "axiom_raw_rx_dequeue hw d =
     (let (todo, d) = axiomnet_raw_rx_work_todo hw d in
      if \<not> todo then Some d
      else do {
        (go, d) \<leftarrow> raw_rx_body hw d;
        if go then axiom_raw_rx_dequeue hw d else Some d })"

section \<open>Receiving\<close>

definition axiomnet_raw_rx_avail :: "int \<Rightarrow> ('d, 'u) drvdata \<Rightarrow> (bool \<times> ('d, 'u) drvdata) option" where
  "axiomnet_raw_rx_avail port d = do {
     b \<leftarrow> eviq_avail (sq_evi (raw_rx_queue d)) port;
     Some (b, d) }"

text \<open>
  The part of \<open>axiomnet_raw_recv\<close> between the dequeue and the label \<open>free_enqueue\<close>: the length or
  error code, the header handed back, and the user memory.
\<close>

definition raw_recv_copy :: "'u uaccess \<Rightarrow> 'u \<Rightarrow> u64 \<Rightarrow> raw_msg \<Rightarrow> raw_hdr \<Rightarrow> iovec list \<Rightarrow> (int \<times> raw_hdr \<times> 'u) option" where
  "raw_recv_copy ua u kbuf m header iov =
     (if rh_payload_size header < rh_payload_size (rm_header m) then Some (- EFBIG, header, u)
      else do {
        let psize = uint (rh_payload_size (rm_header m));
        (ok, u) \<leftarrow> scatter_iov ua u kbuf (rm_payload m) psize iov 0;
        Some (if ok then 5 + psize else - EFAULT, rm_header m, u) })"

definition axiomnet_raw_recv :: "'u uaccess \<Rightarrow> bool \<Rightarrow> priv \<Rightarrow> raw_hdr \<Rightarrow> iovec list \<Rightarrow>
    ('d, 'u) drvdata wait_ev list \<Rightarrow> ('d, 'u) drvdata \<Rightarrow>
    (int \<times> raw_hdr \<times> ('d, 'u) drvdata wait_ev list \<times> ('d, 'u) drvdata) option" where
  "axiomnet_raw_recv ua nonblock pr header iov env d =
     (let port = bind_port pr in
      if port = AXIOMNET_PORT_INVALID then Some (- EFAULT, header, env, d)
      else do {
        d \<leftarrow> mutex_lock (RawRx port) d;
        (r, env, d) \<leftarrow> wait_avail (axiomnet_raw_rx_avail port) (RawRx port) wait_raw_rx nonblock env d;
        if r \<noteq> 0 then Some (r, header, env, d)
        else do {
          (slot, e) \<leftarrow> eviq_dequeue (sq_evi (raw_rx_queue d)) port;
          d \<leftarrow> mutex_unlock (RawRx port) (d\<lparr>raw_rx_queue := (raw_rx_queue d)\<lparr>sq_evi := e\<rparr>\<rparr>);
          if slot = EVIQ_NONE then Some (- EFAULT, header, env, d)
          else do {
            ds \<leftarrow> sq_desc (raw_rx_queue d);
            m \<leftarrow> arr_get ds (sint slot);
            (len, header, u) \<leftarrow> raw_recv_copy ua (user_mem d)
               (sq_base (raw_rx_queue d) + of_int (256 * sint slot + 5)) m header iov;
            let d = d\<lparr>user_mem := u\<rparr>;
            let avail = eviq_free_avail (sq_evi (raw_rx_queue d));
            e \<leftarrow> eviq_free_push (sq_evi (raw_rx_queue d)) slot;
            let d = d\<lparr>raw_rx_queue := (raw_rx_queue d)\<lparr>sq_evi := e\<rparr>\<rparr>;
            let d = (if \<not> avail then d\<lparr>kthread_raw := axiom_kthread_wakeup (kthread_raw d)\<rparr> else d);
            Some (len, header, env, d) } } })"

section \<open>Flushing\<close>

partial_function (option) raw_flush_loop :: "int \<Rightarrow> ('d, 'u) drvdata \<Rightarrow> (int \<times> ('d, 'u) drvdata) option" where
  "raw_flush_loop port d = do {
     (b, d) \<leftarrow> axiomnet_raw_rx_avail port d;
     if \<not> b then Some (0, d)
     else do {
       (slot, e) \<leftarrow> eviq_dequeue (sq_evi (raw_rx_queue d)) port;
       if slot = EVIQ_NONE then Some (- EFAULT, d\<lparr>raw_rx_queue := (raw_rx_queue d)\<lparr>sq_evi := e\<rparr>\<rparr>)
       else do {
         e \<leftarrow> eviq_free_push e slot;
         raw_flush_loop port (d\<lparr>raw_rx_queue := (raw_rx_queue d)\<lparr>sq_evi := e\<rparr>\<rparr>) } } }"

definition axiomnet_raw_flush :: "priv \<Rightarrow> ('d, 'u) drvdata \<Rightarrow> (int \<times> ('d, 'u) drvdata) option" where
  "axiomnet_raw_flush pr d =
     (let port = bind_port pr in
      if port = AXIOMNET_PORT_INVALID then Some (- EFAULT, d)
      else do {
        d \<leftarrow> mutex_lock (RawRx port) d;
        (ret, d) \<leftarrow> raw_flush_loop port d;
        d \<leftarrow> mutex_unlock (RawRx port) d;
        Some (ret, d\<lparr>kthread_raw := axiom_kthread_wakeup (kthread_raw d)\<rparr>) })"

section \<open>The receive path as queues of packets\<close>

text \<open>
  A packet is a header with the payload bytes it announces; what lies behind them in the message
  buffer is not part of it. \<open>raw_pkts d p\<close> is the sequence of packets waiting on port \<open>p\<close>.
\<close>

type_synonym raw_pkt = "raw_hdr \<times> u8 list"

definition raw_pkt_of :: "raw_msg \<Rightarrow> raw_pkt" where
  "raw_pkt_of m = (rm_header m, take (unat (rh_payload_size (rm_header m))) (rm_payload m))"

definition pkt_port :: "raw_pkt \<Rightarrow> nat" where
  "pkt_port k = unat (pt_port (rh_port_type (fst k)))"

definition raw_pkts :: "('d, 'u) drvdata \<Rightarrow> nat \<Rightarrow> raw_pkt list" where
  "raw_pkts d p = map raw_pkt_of (swq_msgs (raw_rx_queue d) p)"

definition raw_inv :: "('d, 'u) drvdata \<Rightarrow> nat set \<Rightarrow> bool" where
  "raw_inv d own \<longleftrightarrow> (\<exists>fs qs ds. swq_rep (raw_rx_queue d) fs qs own ds \<and> length qs = AXIOM_PORT_NUM \<and>
     (\<forall>m \<in> set ds. raw_msg_wf m)) \<and> length (raw_rx_ports d) = AXIOM_PORT_NUM"

text \<open>What the receive path leaves alone: everything but the device, the queue, the wake-ups and the counters.\<close>

definition raw_rx_frame :: "('d, 'u) drvdata \<Rightarrow> ('d, 'u) drvdata \<Rightarrow> bool" where
  "raw_rx_frame d d' \<longleftrightarrow> d' = d\<lparr>dev_api := dev_api d', raw_rx_queue := raw_rx_queue d',
     raw_rx_ports := raw_rx_ports d', dd_stats := dd_stats d'\<rparr> \<and>
   map sp_mutex (raw_rx_ports d') = map sp_mutex (raw_rx_ports d)"

text \<open>
  What the driver relies on of a receive FIFO: \<open>fifo\<close> lists the packets the device holds; the
  availability register is non-zero exactly when there is one; \<open>axiom_hw_raw_rx\<close> returns and takes the
  first one out.
\<close>

definition raw_rx_fifo :: "'d hw_api \<Rightarrow> ('d \<Rightarrow> raw_pkt list) \<Rightarrow> bool" where
  "raw_rx_fifo hw fifo \<longleftrightarrow>
     (\<forall>v. (fst (hw_raw_rx_avail hw v) \<noteq> 0) = (fifo v \<noteq> []) \<and> fifo (snd (hw_raw_rx_avail hw v)) = fifo v) \<and>
     (\<forall>v old k ks. fifo v = k # ks \<longrightarrow> raw_msg_wf old \<longrightarrow>
        (\<exists>id m v'. hw_raw_rx hw v old = Some (id, m, v') \<and> raw_pkt_of m = k \<and> raw_msg_wf m \<and> fifo v' = ks))"

lemma raw_rx_frame_refl [simp]: "raw_rx_frame d d"
  by (simp add: raw_rx_frame_def)

lemma raw_rx_frame_dev [simp]: "raw_rx_frame d (d\<lparr>dev_api := v\<rparr>)"
  by (simp add: raw_rx_frame_def)

lemma raw_rx_frame_trans: "raw_rx_frame d d1 \<Longrightarrow> raw_rx_frame d1 d2 \<Longrightarrow> raw_rx_frame d d2"
  unfolding raw_rx_frame_def by (cases d; cases d1; cases d2) simp

lemma raw_rx_frame_ports: "raw_rx_frame d d' \<Longrightarrow> length (raw_rx_ports d') = length (raw_rx_ports d)"
  unfolding raw_rx_frame_def by (metis length_map)

lemma raw_invI:
  "swq_rep (raw_rx_queue d) fs qs own ds \<Longrightarrow> length qs = 7 \<Longrightarrow> (\<forall>m \<in> set ds. raw_msg_wf m) \<Longrightarrow>
   length (raw_rx_ports d) = 7 \<Longrightarrow> raw_inv d own"
  unfolding raw_inv_def by blast

lemma raw_inv_dev [simp]: "raw_inv (d\<lparr>dev_api := v\<rparr>) own = raw_inv d own"
  by (simp add: raw_inv_def)

lemma raw_pkts_dev [simp]: "raw_pkts (d\<lparr>dev_api := v\<rparr>) p = raw_pkts d p"
  by (simp add: raw_pkts_def)

lemma raw_msg_port_eq: "raw_msg_port m = int (pkt_port (raw_pkt_of m))"
  by (simp add: raw_msg_port_def pkt_port_def raw_pkt_of_def)

lemma map_mutex_wake:
  "p < length ps \<Longrightarrow> map sp_mutex (ps[p := (ps ! p)\<lparr>sp_wakes := n\<rparr>]) = map sp_mutex ps"
  by (simp add: map_update list_update_same_conv)

lemma wake_up_raw_rx:
  "p < length (raw_rx_ports d) \<Longrightarrow> wake_up (RawRx (int p)) d = Some (d\<lparr>raw_rx_ports :=
     (raw_rx_ports d)[p := (raw_rx_ports d ! p)\<lparr>sp_wakes := Suc (sp_wakes (raw_rx_ports d ! p))\<rparr>]\<rparr>)"
  by (simp add: wake_up_def)

text \<open>One packet: it is appended to the queue of its port, or dropped with its slot when the port is 7.\<close>

lemma raw_rx_body_valid:
  assumes rep: "swq_rep (raw_rx_queue d) (s # fs) qs own ds" and len: "length qs = 7"
    and ports: "length (raw_rx_ports d) = 7"
    and rx: "hw_raw_rx hw (dev_api d) (ds ! s) = Some (i, m, v)" and p: "pkt_port (raw_pkt_of m) = p" "p < 7"
  shows "\<exists>d'. raw_rx_body hw d = Some (True, d') \<and> dev_api d' = v \<and> raw_rx_frame d d' \<and>
    dd_stats d' = stat_add bytes_raw_rx (ucast (rh_payload_size (rm_header m))) (stat_add pkt_raw_rx 1 (dd_stats d)) \<and>
    swq_rep (raw_rx_queue d') fs (qs[p := qs ! p @ [s]]) own (ds[s := m])"
proof -
  from swq_pop [OF rep] obtain e where e: "eviq_free_pop (sq_evi (raw_rx_queue d)) = Some (of_nat s, e)"
    and r1: "swq_rep ((raw_rx_queue d)\<lparr>sq_evi := e\<rparr>) fs qs (insert s own) ds" by blast
  have desc: "sq_desc (raw_rx_queue d) = Some ds" using rep by (simp add: swq_rep_def)
  have s: "s < length ds" "sint (of_nat s :: s16) = int s" "(of_nat s :: s16) \<noteq> EVIQ_NONE" "s \<notin> own"
    using swq_rep_slot [OF rep, of s] swq_free_not_queued [OF rep, of 0] len by auto
  from swq_write [OF r1, of s m] have
    r2: "swq_rep ((raw_rx_queue d)\<lparr>sq_evi := e, sq_desc := Some (ds[s := m])\<rparr>) fs qs (insert s own) (ds[s := m])"
    by simp
  from swq_enqueue [OF r2, of s p] len p obtain e' where
    e': "eviq_enqueue e (int p) (of_nat s) = Some e'"
      "swq_rep ((raw_rx_queue d)\<lparr>sq_evi := e', sq_desc := Some (ds[s := m])\<rparr>) fs (qs[p := qs ! p @ [s]])
         (insert s own - {s}) (ds[s := m])" by auto
  moreover have "insert s own - {s} = own" using s by auto
  moreover have "eviq_avail e (int p) = Some (qs ! p \<noteq> [])" using swq_avail(1) [OF r2, of p] len p by simp
  moreover have "raw_msg_port m = int p" using p by (simp add: raw_msg_port_eq)
  moreover have "p < length (raw_rx_ports d)" using p ports by simp
  ultimately show ?thesis using e desc s rx p
    by (cases "qs ! p = []") (simp_all add: raw_rx_body_def wake_up_raw_rx inc_stat_def add_stat_def
        raw_rx_frame_def map_mutex_wake)
qed

lemma raw_rx_body_invalid:
  assumes rep: "swq_rep (raw_rx_queue d) (s # fs) qs own ds" and len: "length qs = 7"
    and rx: "hw_raw_rx hw (dev_api d) (ds ! s) = Some (i, m, v)" and p: "\<not> pkt_port (raw_pkt_of m) < 7"
  shows "\<exists>d'. raw_rx_body hw d = Some (True, d') \<and> dev_api d' = v \<and> raw_rx_frame d d' \<and>
    raw_rx_ports d' = raw_rx_ports d \<and> dd_stats d' = stat_add err_raw_rx 1 (dd_stats d) \<and> swq_rep (raw_rx_queue d') (s # fs) qs own (ds[s := m])"
proof -
  from swq_pop [OF rep] obtain e where e: "eviq_free_pop (sq_evi (raw_rx_queue d)) = Some (of_nat s, e)"
    and r1: "swq_rep ((raw_rx_queue d)\<lparr>sq_evi := e\<rparr>) fs qs (insert s own) ds" by blast
  have desc: "sq_desc (raw_rx_queue d) = Some ds" using rep by (simp add: swq_rep_def)
  have s: "s < length ds" "sint (of_nat s :: s16) = int s" "(of_nat s :: s16) \<noteq> EVIQ_NONE" "s \<notin> own"
    using swq_rep_slot [OF rep, of s] swq_free_not_queued [OF rep, of 0] len by auto
  from swq_write [OF r1, of s m] have
    r2: "swq_rep ((raw_rx_queue d)\<lparr>sq_evi := e, sq_desc := Some (ds[s := m])\<rparr>) fs qs (insert s own) (ds[s := m])"
    by simp
  from swq_push [OF r2, of s] obtain e' where
    e': "eviq_free_push e (of_nat s) = Some e'"
      "swq_rep ((raw_rx_queue d)\<lparr>sq_evi := e', sq_desc := Some (ds[s := m])\<rparr>) (s # fs) qs
         (insert s own - {s}) (ds[s := m])" by auto
  moreover have "insert s own - {s} = own" using s by auto
  moreover have "\<not> raw_msg_port m < 7" using p by (simp add: raw_msg_port_eq)
  ultimately show ?thesis using e desc s rx
    by (simp add: raw_rx_body_def inc_stat_def raw_rx_frame_def)
qed

lemma swq_rep_msgs_write:
  assumes "swq_rep q (s # fs) qs own ds" "p < length qs"
  shows "map (\<lambda>x. ds[s := m] ! x) (qs ! p) = swq_msgs q p"
  using assms swq_rep_contents(2) [OF assms] map_nth_update_notin [OF swq_free_not_queued(1) [OF assms]]
  by simp

lemma raw_rx_step:
  assumes fifo: "raw_rx_fifo hw fifo" and inv: "raw_inv d own"
    and k: "fifo (dev_api d) = k # ks" and free: "swq_free (raw_rx_queue d) = Suc n"
  shows "\<exists>d'. raw_rx_body hw d = Some (True, d') \<and> raw_inv d' own \<and> fifo (dev_api d') = ks \<and>
    raw_rx_frame d d' \<and>
    (\<forall>p < 7. raw_pkts d' p = raw_pkts d p @ (if pkt_port k = p then [k] else [])) \<and>
    swq_free (raw_rx_queue d') = (if pkt_port k < 7 then n else Suc n) \<and>
    dd_stats d' pkt_raw_rx = dd_stats d pkt_raw_rx + (if pkt_port k < 7 then 1 else 0) \<and>
    dd_stats d' err_raw_rx = dd_stats d err_raw_rx + (if pkt_port k < 7 then 0 else 1)"
proof -
  from inv obtain fs0 qs ds where rep0: "swq_rep (raw_rx_queue d) fs0 qs own ds" and len: "length qs = 7"
    and wf: "\<forall>m \<in> set ds. raw_msg_wf m" and ports: "length (raw_rx_ports d) = 7" by (auto simp: raw_inv_def)
  from free swq_rep_contents(1) [OF rep0] obtain s fs where fs: "fs0 = s # fs" "length fs = n"
    by (cases fs0) auto
  with rep0 have rep: "swq_rep (raw_rx_queue d) (s # fs) qs own ds" by simp
  have s: "s < length ds" using swq_rep_slot(1) [OF rep] by auto
  with wf have "raw_msg_wf (ds ! s)" by auto
  with fifo k obtain i m v where rx: "hw_raw_rx hw (dev_api d) (ds ! s) = Some (i, m, v)"
    and m: "raw_pkt_of m = k" "raw_msg_wf m" "fifo v = ks"
    unfolding raw_rx_fifo_def by blast
  have wf': "\<forall>x \<in> set (ds[s := m]). raw_msg_wf x" using wf m(2) set_update_subset_insert [of ds s m] by auto
  have old: "map (\<lambda>x. ds[s := m] ! x) (qs ! p) = swq_msgs (raw_rx_queue d) p" if "p < 7" for p
    using swq_rep_msgs_write [OF rep] that len by simp
  show ?thesis
  proof (cases "pkt_port k < 7")
    case True
    from raw_rx_body_valid [OF rep len ports rx refl] True m obtain d' where
      d': "raw_rx_body hw d = Some (True, d')" "dev_api d' = v" "raw_rx_frame d d'"
        "dd_stats d' = stat_add bytes_raw_rx (ucast (rh_payload_size (rm_header m))) (stat_add pkt_raw_rx 1 (dd_stats d))"
        and rep': "swq_rep (raw_rx_queue d') fs (qs[pkt_port k := qs ! pkt_port k @ [s]]) own (ds[s := m])" by auto
    have "raw_inv d' own"
      using rep' len wf' ports raw_rx_frame_ports [OF d'(3)] by (intro raw_invI [OF rep']) auto
    moreover have "swq_msgs (raw_rx_queue d') p = swq_msgs (raw_rx_queue d) p @ (if pkt_port k = p then [m] else [])"
      if "p < 7" for p using that swq_rep_contents(2) [OF rep', of p] old [of p] len s
      by (cases "pkt_port k = p") simp_all
    then have "raw_pkts d' p = raw_pkts d p @ (if pkt_port k = p then [k] else [])" if "p < 7" for p
      using that m(1) by (simp add: raw_pkts_def)
    ultimately show ?thesis using d' m(3) True fs(2) swq_rep_contents(1) [OF rep'] by auto
  next
    case False
    from raw_rx_body_invalid [OF rep len rx] False m obtain d' where
      d': "raw_rx_body hw d = Some (True, d')" "dev_api d' = v" "raw_rx_frame d d'"
        "raw_rx_ports d' = raw_rx_ports d" "dd_stats d' = stat_add err_raw_rx 1 (dd_stats d)"
        and rep': "swq_rep (raw_rx_queue d') (s # fs) qs own (ds[s := m])" by auto
    have "raw_inv d' own" using len wf' d'(4) ports by (intro raw_invI [OF rep']) auto
    moreover have "raw_pkts d' p = raw_pkts d p" if "p < 7" for p
      using that swq_rep_contents(2) [OF rep', of p] old [of p] len by (simp add: raw_pkts_def)
    ultimately show ?thesis using d' m(3) False fs(2) swq_rep_contents(1) [OF rep'] by auto
  qed
qed

text \<open>
  The whole loop: it returns, takes a prefix of the FIFO, and stops only at the end of the FIFO or
  when no slot is free.
\<close>

definition count_valid :: "raw_pkt list \<Rightarrow> nat" where
  "count_valid ks = length (filter (\<lambda>k. pkt_port k < 7) ks)"

lemma count_valid_Cons [simp]:
  "count_valid [] = 0" "count_valid (k # ks) = (if pkt_port k < 7 then 1 else 0) + count_valid ks"
  by (simp_all add: count_valid_def)

lemma raw_work_todo_fifo:
  assumes "raw_rx_fifo hw fifo" "raw_inv d own"
  shows "axiomnet_raw_rx_work_todo hw d =
     (fifo (dev_api d) \<noteq> [] \<and> swq_free (raw_rx_queue d) \<noteq> 0,
      d\<lparr>dev_api := snd (hw_raw_rx_avail hw (dev_api d))\<rparr>)"
proof -
  from assms(2) obtain fs qs ds where "swq_rep (raw_rx_queue d) fs qs own ds" by (auto simp: raw_inv_def)
  then have "eviq_free_avail (sq_evi (raw_rx_queue d)) = (swq_free (raw_rx_queue d) \<noteq> 0)"
    using swq_avail(2) swq_rep_contents(1) by fastforce
  with assms(1) show ?thesis
    by (auto simp: axiomnet_raw_rx_work_todo_def raw_rx_fifo_def case_prod_beta Let_def)
qed

lemma raw_rx_dequeue_ok:
  assumes fifo: "raw_rx_fifo hw fifo"
  shows "raw_inv d own \<Longrightarrow> fifo (dev_api d) = ks \<Longrightarrow>
    \<exists>d' n. axiom_raw_rx_dequeue hw d = Some d' \<and> raw_inv d' own \<and> raw_rx_frame d d' \<and>
      fifo (dev_api d') = drop n ks \<and> (n \<ge> length ks \<or> swq_free (raw_rx_queue d') = 0) \<and>
      (\<forall>p < 7. raw_pkts d' p = raw_pkts d p @ filter (\<lambda>k. pkt_port k = p) (take n ks)) \<and>
      swq_free (raw_rx_queue d') + count_valid (take n ks) = swq_free (raw_rx_queue d) \<and>
      dd_stats d' pkt_raw_rx = dd_stats d pkt_raw_rx + of_nat (count_valid (take n ks)) \<and>
      dd_stats d' err_raw_rx = dd_stats d err_raw_rx + of_nat (length (take n ks) - count_valid (take n ks))"
proof (induction ks arbitrary: d)
  case Nil
  let ?d = "d\<lparr>dev_api := snd (hw_raw_rx_avail hw (dev_api d))\<rparr>"
  have "axiom_raw_rx_dequeue hw d = Some ?d"
    using raw_work_todo_fifo [OF fifo Nil(1)] Nil(2) by (subst axiom_raw_rx_dequeue.simps) simp
  moreover have "fifo (dev_api ?d) = []" using fifo Nil by (simp add: raw_rx_fifo_def)
  ultimately show ?case using Nil by (intro exI [of _ ?d] exI [of _ 0]) simp
next
  case (Cons k ks)
  let ?d = "d\<lparr>dev_api := snd (hw_raw_rx_avail hw (dev_api d))\<rparr>"
  have todo: "axiomnet_raw_rx_work_todo hw d = (swq_free (raw_rx_queue d) \<noteq> 0, ?d)"
    using raw_work_todo_fifo [OF fifo Cons.prems(1)] Cons.prems(2) by simp
  have fd: "fifo (dev_api ?d) = k # ks" using fifo Cons.prems by (simp add: raw_rx_fifo_def)
  show ?case
  proof (cases "swq_free (raw_rx_queue d)")
    case 0
    then have "axiom_raw_rx_dequeue hw d = Some ?d"
      using todo by (subst axiom_raw_rx_dequeue.simps) simp
    then show ?thesis using 0 fd Cons.prems by (intro exI [of _ ?d] exI [of _ 0]) simp
  next
    case (Suc n)
    from raw_rx_step [OF fifo _ fd, of own n] Suc Cons.prems(1) obtain d1 where
      d1: "raw_rx_body hw ?d = Some (True, d1)" "raw_inv d1 own" "fifo (dev_api d1) = ks"
        "raw_rx_frame ?d d1" "\<forall>p < 7. raw_pkts d1 p = raw_pkts d p @ (if pkt_port k = p then [k] else [])"
        "swq_free (raw_rx_queue d1) = (if pkt_port k < 7 then n else Suc n)"
        "dd_stats d1 pkt_raw_rx = dd_stats d pkt_raw_rx + (if pkt_port k < 7 then 1 else 0)"
        "dd_stats d1 err_raw_rx = dd_stats d err_raw_rx + (if pkt_port k < 7 then 0 else 1)" by auto
    from Cons.IH [OF d1(2,3)] obtain d' m where
      d': "axiom_raw_rx_dequeue hw d1 = Some d'" "raw_inv d' own" "raw_rx_frame d1 d'"
        "fifo (dev_api d') = drop m ks" "m \<ge> length ks \<or> swq_free (raw_rx_queue d') = 0"
        "\<forall>p < 7. raw_pkts d' p = raw_pkts d1 p @ filter (\<lambda>k. pkt_port k = p) (take m ks)"
        "swq_free (raw_rx_queue d') + count_valid (take m ks) = swq_free (raw_rx_queue d1)"
        "dd_stats d' pkt_raw_rx = dd_stats d1 pkt_raw_rx + of_nat (count_valid (take m ks))"
        "dd_stats d' err_raw_rx = dd_stats d1 err_raw_rx + of_nat (length (take m ks) - count_valid (take m ks))"
      by blast
    have le: "count_valid (take m ks) \<le> length (take m ks)" by (simp add: count_valid_def del: length_take)
    have "axiom_raw_rx_dequeue hw d = Some d'"
      using todo Suc d1(1) d'(1) by (subst axiom_raw_rx_dequeue.simps) simp
    moreover have "raw_rx_frame d d'"
      using raw_rx_frame_trans [OF raw_rx_frame_trans [OF raw_rx_frame_dev d1(4)] d'(3)] .
    ultimately show ?thesis using d1(5-) d'(2,4-) Suc le
      by (intro exI [of _ d'] exI [of _ "Suc m"]) (auto simp: Suc_diff_le simp del: length_take)
  qed
qed

section \<open>Receiving a packet\<close>

lemma raw_rx_mutex:
  assumes "p < length (raw_rx_ports d)" "\<not> sp_mutex (raw_rx_ports d ! p)"
  shows "mutex_lock (RawRx (int p)) d =
    Some (d\<lparr>raw_rx_ports := (raw_rx_ports d)[p := (raw_rx_ports d ! p)\<lparr>sp_mutex := True\<rparr>]\<rparr>)"
  using assms by (simp add: mutex_lock_def)

lemma raw_rx_unlock:
  assumes "p < length ps" "\<not> sp_mutex (ps ! p)"
  shows "mutex_unlock (RawRx (int p)) (d\<lparr>raw_rx_ports := ps[p := (ps ! p)\<lparr>sp_mutex := True\<rparr>]\<rparr>) =
    Some (d\<lparr>raw_rx_ports := ps\<rparr>)"
  using assms by (simp add: mutex_unlock_def)

lemma wait_avail_ready:
  "c d = Some (True, d') \<Longrightarrow> wait_avail c sel k nonblock env d = Some (0, env, d')"
  by (subst wait_avail.simps) simp

lemma drv_queue_ports_order [simp]:
  "d\<lparr>raw_rx_ports := ps, raw_rx_queue := q\<rparr> = d\<lparr>raw_rx_queue := q, raw_rx_ports := ps\<rparr>"
  by simp

text \<open>
  The receive handler when a packet waits on the port, whatever the copy to the user gives: the
  first slot of the queue goes back to the free list, the worker is woken when it was out of
  slots, and nothing else changes.
\<close>

lemma raw_recv_core:
  assumes rep: "swq_rep (raw_rx_queue d) fs qs own ds" and len: "length qs = 7" and p: "p < 7"
    and ports: "length (raw_rx_ports d) = 7" "\<not> sp_mutex (raw_rx_ports d ! p)" and q: "qs ! p = s # r"
    and pr: "bind_port pr = int p"
  shows "\<exists>e. swq_rep ((raw_rx_queue d)\<lparr>sq_evi := e\<rparr>) (s # fs) (qs[p := r]) own ds \<and>
    (\<forall>header iov env. axiomnet_raw_recv ua nonblock pr header iov env d = do {
       (n, h', u') \<leftarrow> raw_recv_copy ua (user_mem d) (sq_base (raw_rx_queue d) + of_int (256 * int s) + 5)
                        (ds ! s) header iov;
       Some (n, h', env, d\<lparr>raw_rx_queue := (raw_rx_queue d)\<lparr>sq_evi := e\<rparr>, user_mem := u',
         kthread_raw := if fs = [] then axiom_kthread_wakeup (kthread_raw d) else kthread_raw d\<rparr>) })"
proof -
  let ?ps = "raw_rx_ports d"
  from swq_dequeue [OF rep _ q] len p obtain e where
    e: "eviq_dequeue (sq_evi (raw_rx_queue d)) (int p) = Some (of_nat s, e)"
    and r1: "swq_rep ((raw_rx_queue d)\<lparr>sq_evi := e\<rparr>) fs (qs[p := r]) (insert s own) ds" by auto
  have "s \<in> set (qs ! p)" using q by simp
  then have sc: "s \<in> set (concat qs)" using nth_subset_concat [of p qs] len p by auto
  have s: "s < length ds" "sint (of_nat s :: s16) = int s" "(of_nat s :: s16) \<noteq> EVIQ_NONE"
    using swq_rep_slot [OF rep, of s] sc by auto
  have "s \<notin> own" using eviq.queued_not_owned [of "sq_evi (raw_rx_queue d)" fs qs own p s] rep q len p
    by (simp add: swq_rep_def)
  with swq_push [OF r1, of s] obtain e' where e': "eviq_free_push e (of_nat s) = Some e'"
    "swq_rep ((raw_rx_queue d)\<lparr>sq_evi := e'\<rparr>) (s # fs) (qs[p := r]) own ds" by auto
  have av: "eviq_avail (sq_evi (raw_rx_queue d)) (int p) = Some True"
    using swq_avail(1) [OF rep, of p] len p q by simp
  have fr: "eviq_free_avail e = (fs \<noteq> [])" using swq_avail(2) [OF r1] by simp
  have desc: "sq_desc (raw_rx_queue d) = Some ds" using rep by (simp add: swq_rep_def)
  let ?d1 = "d\<lparr>raw_rx_ports := ?ps[p := (?ps ! p)\<lparr>sp_mutex := True\<rparr>]\<rparr>"
  have lock: "mutex_lock (RawRx (int p)) d = Some ?d1" using ports p by (intro raw_rx_mutex) auto
  have ready: "axiomnet_raw_rx_avail (int p) ?d1 = Some (True, ?d1)"
    using av by (simp add: axiomnet_raw_rx_avail_def)
  have unlock: "mutex_unlock (RawRx (int p)) (?d1\<lparr>raw_rx_queue := q\<rparr>) = Some (d\<lparr>raw_rx_queue := q\<rparr>)" for q
    using raw_rx_unlock [of p ?ps "d\<lparr>raw_rx_queue := q\<rparr>"] ports p by simp
  have "axiomnet_raw_recv ua nonblock pr header iov env d = do {
       (n, h', u') \<leftarrow> raw_recv_copy ua (user_mem d) (sq_base (raw_rx_queue d) + of_int (256 * int s) + 5)
                        (ds ! s) header iov;
       Some (n, h', env, d\<lparr>raw_rx_queue := (raw_rx_queue d)\<lparr>sq_evi := e'\<rparr>, user_mem := u',
         kthread_raw := if fs = [] then axiom_kthread_wakeup (kthread_raw d) else kthread_raw d\<rparr>) }"
    for header iov env
    using pr lock wait_avail_ready [where c = "axiomnet_raw_rx_avail (int p)", OF ready] unlock e e'(1) s fr desc
    by (cases "raw_recv_copy ua (user_mem d) (sq_base (raw_rx_queue d) + of_int (256 * int s) + 5) (ds ! s) header iov")
      (auto simp: axiomnet_raw_recv_def Let_def add.assoc)
  with e'(2) show ?thesis by blast
qed

lemma raw_inv_pkts:
  assumes "raw_inv d own" "p < 7" "raw_pkts d p = k # ks"
  obtains fs qs ds s r where "swq_rep (raw_rx_queue d) fs qs own ds" "length qs = 7"
    "\<forall>m \<in> set ds. raw_msg_wf m" "length (raw_rx_ports d) = 7" "qs ! p = s # r"
    "k = raw_pkt_of (ds ! s)" "s < length ds" "ks = map (\<lambda>x. raw_pkt_of (ds ! x)) r"
proof -
  from assms(1) obtain fs qs ds where rep: "swq_rep (raw_rx_queue d) fs qs own ds" and len: "length qs = 7"
    and wf: "\<forall>m \<in> set ds. raw_msg_wf m" and ports: "length (raw_rx_ports d) = 7" by (auto simp: raw_inv_def)
  from assms(2,3) len swq_rep_contents(2) [OF rep, of p] obtain s r where
    q: "qs ! p = s # r" "k = raw_pkt_of (ds ! s)" "ks = map (\<lambda>x. raw_pkt_of (ds ! x)) r"
    by (cases "qs ! p") (auto simp: raw_pkts_def)
  have "s \<in> set (concat qs)" using nth_subset_concat [of p qs] q len assms(2) by auto
  with swq_rep_slot(1) [OF rep] have "s < length ds" by blast
  with that rep len wf ports q show thesis by blast
qed

lemma raw_pkts_dequeued:
  assumes rep: "swq_rep (raw_rx_queue d) fs qs own ds" and rep': "swq_rep (raw_rx_queue d') fs' (qs[p := r]) own' ds"
    and "length qs = 7" "p < 7"
  shows "raw_pkts d' p = map (\<lambda>x. raw_pkt_of (ds ! x)) r"
    and "p' < 7 \<Longrightarrow> p' \<noteq> p \<Longrightarrow> raw_pkts d' p' = raw_pkts d p'"
  using swq_rep_contents(2) [OF rep', of p] swq_rep_contents(2) [OF rep', of p'] swq_rep_contents(2) [OF rep, of p'] assms
  by (simp_all add: raw_pkts_def)

lemma raw_recv_copy_ok:
  assumes spec: "uaccess_spec ua view" and wf: "raw_msg_wf m"
    and size: "rh_payload_size (rm_header m) \<le> rh_payload_size header" "unat (rh_payload_size (rm_header m)) \<le> 251"
    and sc: "scatter_ok ua (view u) kbuf (unat (rh_payload_size (rm_header m))) iov"
  shows "\<exists>u'. raw_recv_copy ua u kbuf m header iov =
      Some (5 + uint (rh_payload_size (rm_header m)), rm_header m, u') \<and>
    view u' = scatter_mem (view u) iov (snd (raw_pkt_of m))"
proof -
  let ?n = "unat (rh_payload_size (rm_header m))"
  from scatter_iov_ok [OF spec, of u kbuf 0 ?n iov "rm_payload m"] sc wf size obtain u' where
    "scatter_iov ua u kbuf (rm_payload m) (int ?n) iov 0 = Some (True, u')"
    "view u' = scatter_mem (view u) iov (take ?n (rm_payload m))"
    by (auto simp: raw_msg_wf_def)
  moreover have "\<not> rh_payload_size header < rh_payload_size (rm_header m)" using size(1) by (simp only: not_less)
  ultimately show ?thesis by (simp add: raw_recv_copy_def raw_pkt_of_def)
qed

lemma raw_recv_delivers_lemma:
  assumes spec: "uaccess_spec ua view" and inv: "raw_inv d own" and p: "p < 7" "bind_port pr = int p"
    and free: "\<not> sp_mutex (raw_rx_ports d ! p)" and k: "raw_pkts d p = k # ks"
    and size: "rh_payload_size (fst k) \<le> rh_payload_size header" "unat (rh_payload_size (fst k)) \<le> 251"
    and sc: "scatter_ok ua (view (user_mem d)) (sq_base (raw_rx_queue d) + 5) (unat (rh_payload_size (fst k))) iov"
  shows "\<exists>d'. axiomnet_raw_recv ua nonblock pr header iov env d =
      Some (5 + uint (rh_payload_size (fst k)), fst k, env, d') \<and> raw_inv d' own \<and>
    view (user_mem d') = scatter_mem (view (user_mem d)) iov (snd k) \<and>
    (\<forall>p' < 7. raw_pkts d' p' = (if p' = p then ks else raw_pkts d p')) \<and>
    swq_free (raw_rx_queue d') = Suc (swq_free (raw_rx_queue d)) \<and>
    (swq_free (raw_rx_queue d) = 0 \<longrightarrow> kt_scheduled (kthread_raw d') = kt_scheduled (kthread_raw d) + 1)"
proof -
  from raw_inv_pkts [OF inv p(1) k] obtain fs qs ds s r where
    rep: "swq_rep (raw_rx_queue d) fs qs own ds" and len: "length qs = 7" and wf: "\<forall>m \<in> set ds. raw_msg_wf m"
    and ports: "length (raw_rx_ports d) = 7" and q: "qs ! p = s # r" and ks: "k = raw_pkt_of (ds ! s)"
    "s < length ds" "ks = map (\<lambda>x. raw_pkt_of (ds ! x)) r" .
  let ?kbuf = "sq_base (raw_rx_queue d) + of_int (256 * int s) + 5"
  have hdr: "rm_header (ds ! s) = fst k" using ks(1) by (simp add: raw_pkt_of_def)
  have "scatter_ok ua (view (user_mem d)) ?kbuf (unat (rh_payload_size (fst k))) iov"
    using sc by (simp only: scatter_ok_shift)
  from raw_recv_copy_ok [OF spec, of "ds ! s" header "user_mem d" ?kbuf iov] this wf ks size hdr obtain u' where
    u': "raw_recv_copy ua (user_mem d) ?kbuf (ds ! s) header iov =
        Some (5 + uint (rh_payload_size (fst k)), fst k, u')"
      "view u' = scatter_mem (view (user_mem d)) iov (snd k)" by auto
  from raw_recv_core [OF rep len p(1) ports free q p(2), of ua nonblock] obtain e where
    rep1: "swq_rep ((raw_rx_queue d)\<lparr>sq_evi := e\<rparr>) (s # fs) (qs[p := r]) own ds"
    and rc: "\<And>header iov env. axiomnet_raw_recv ua nonblock pr header iov env d = do {
       (n, h', u') \<leftarrow> raw_recv_copy ua (user_mem d) ?kbuf (ds ! s) header iov;
       Some (n, h', env, d\<lparr>raw_rx_queue := (raw_rx_queue d)\<lparr>sq_evi := e\<rparr>, user_mem := u',
         kthread_raw := if fs = [] then axiom_kthread_wakeup (kthread_raw d) else kthread_raw d\<rparr>) }" by blast
  let ?d = "d\<lparr>raw_rx_queue := (raw_rx_queue d)\<lparr>sq_evi := e\<rparr>, user_mem := u',
         kthread_raw := if fs = [] then axiom_kthread_wakeup (kthread_raw d) else kthread_raw d\<rparr>"
  have rep': "swq_rep (raw_rx_queue ?d) (s # fs) (qs[p := r]) own ds" using rep1 by simp
  have "axiomnet_raw_recv ua nonblock pr header iov env d =
        Some (5 + uint (rh_payload_size (fst k)), fst k, env, ?d)" unfolding rc u'(1) by simp
  moreover have "raw_inv ?d own" using len wf ports by (intro raw_invI [OF rep']) auto
  ultimately show ?thesis
    using u'(2) raw_pkts_dequeued [OF rep rep' len p(1)] ks(3) swq_rep_contents(1) [OF rep] swq_rep_contents(1) [OF rep']
    by (intro exI [of _ ?d]) (auto simp: axiom_kthread_wakeup_def)
qed

text \<open>
  Whatever the copy does, a receive that returns has taken the first packet of its port, and
  reports that packet when it succeeds.
\<close>

lemma raw_recv_taken:
  assumes inv: "raw_inv d own" and p: "p < 7" "bind_port pr = int p"
    and free: "\<not> sp_mutex (raw_rx_ports d ! p)" and k: "raw_pkts d p = k # ks"
    and rcv: "axiomnet_raw_recv ua nonblock pr header iov env d = Some (n, h', env', d')"
  shows "raw_inv d' own \<and> raw_rx_ports d' = raw_rx_ports d \<and> dev_api d' = dev_api d \<and>
    (\<forall>p' < 7. raw_pkts d' p' = (if p' = p then ks else raw_pkts d p')) \<and>
    (0 \<le> n \<longrightarrow> h' = fst k \<and> n = 5 + uint (rh_payload_size (fst k)))"
proof -
  from raw_inv_pkts [OF inv p(1) k] obtain fs qs ds s r where
    rep: "swq_rep (raw_rx_queue d) fs qs own ds" and len: "length qs = 7" and wf: "\<forall>m \<in> set ds. raw_msg_wf m"
    and ports: "length (raw_rx_ports d) = 7" and q: "qs ! p = s # r" and ks: "k = raw_pkt_of (ds ! s)"
    "s < length ds" "ks = map (\<lambda>x. raw_pkt_of (ds ! x)) r" .
  from raw_recv_core [OF rep len p(1) ports free q p(2), of ua nonblock] rcv obtain e u' where
    rep1: "swq_rep ((raw_rx_queue d)\<lparr>sq_evi := e\<rparr>) (s # fs) (qs[p := r]) own ds"
    and cp: "raw_recv_copy ua (user_mem d) (sq_base (raw_rx_queue d) + of_int (256 * int s) + 5) (ds ! s) header iov =
       Some (n, h', u')"
    and d': "d' = d\<lparr>raw_rx_queue := (raw_rx_queue d)\<lparr>sq_evi := e\<rparr>, user_mem := u',
         kthread_raw := if fs = [] then axiom_kthread_wakeup (kthread_raw d) else kthread_raw d\<rparr>"
    by (auto simp: bind_eq_Some)
  have rep': "swq_rep (raw_rx_queue d') (s # fs) (qs[p := r]) own ds" using rep1 d' by simp
  have "raw_inv d' own" using len wf ports d' by (intro raw_invI [OF rep']) auto
  moreover have "0 \<le> n \<longrightarrow> h' = fst k \<and> n = 5 + uint (rh_payload_size (fst k))"
    using cp ks(1) by (auto simp: raw_recv_copy_def bind_eq_Some raw_pkt_of_def EFBIG_def EFAULT_def Let_def
        split: if_splits)
  ultimately show ?thesis using raw_pkts_dequeued [OF rep rep' len p(1)] ks(3) d' by auto
qed

text \<open>Nothing to receive: a non-blocking file gets \<open>-EAGAIN\<close>, a sleeping one \<open>-ERESTARTSYS\<close> on a signal.\<close>

lemma raw_recv_empty:
  assumes inv: "raw_inv d own" and p: "p < 7" "bind_port pr = int p"
    and free: "\<not> sp_mutex (raw_rx_ports d ! p)" and k: "raw_pkts d p = []"
  shows "axiomnet_raw_recv ua True pr header iov env d = Some (- EAGAIN, header, env, inc_stat wait_raw_rx d)"
    and "axiomnet_raw_recv ua False pr header iov (Signal # env) d =
           Some (- ERESTARTSYS, header, env, inc_stat wait_raw_rx d)"
proof -
  from inv obtain fs qs ds where rep: "swq_rep (raw_rx_queue d) fs qs own ds" and len: "length qs = 7"
    and ports: "length (raw_rx_ports d) = 7" by (auto simp: raw_inv_def)
  have "qs ! p = []" using k swq_rep_contents(2) [OF rep, of p] len p by (simp add: raw_pkts_def)
  then have av: "eviq_avail (sq_evi (raw_rx_queue d)) (int p) = Some False"
    using swq_avail(1) [OF rep, of p] len p by simp
  let ?ps = "raw_rx_ports d"
  let ?d1 = "d\<lparr>raw_rx_ports := ?ps[p := (?ps ! p)\<lparr>sp_mutex := True\<rparr>]\<rparr>"
  have lock: "mutex_lock (RawRx (int p)) d = Some ?d1" using ports free p by (intro raw_rx_mutex) auto
  have ready: "axiomnet_raw_rx_avail (int p) ?d1 = Some (False, ?d1)"
    "axiomnet_raw_rx_avail (int p) (inc_stat wait_raw_rx d) = Some (False, inc_stat wait_raw_rx d)"
    using av by (simp_all add: axiomnet_raw_rx_avail_def inc_stat_def)
  have unlock: "mutex_unlock (RawRx (int p)) (inc_stat wait_raw_rx ?d1) = Some (inc_stat wait_raw_rx d)"
    using ports free p by (simp add: mutex_unlock_def inc_stat_def)
  show "axiomnet_raw_recv ua True pr header iov env d = Some (- EAGAIN, header, env, inc_stat wait_raw_rx d)"
    using p lock ready unlock by (simp add: axiomnet_raw_recv_def Let_def wait_avail.simps EAGAIN_def)
  show "axiomnet_raw_recv ua False pr header iov (Signal # env) d =
           Some (- ERESTARTSYS, header, env, inc_stat wait_raw_rx d)"
    using p lock ready unlock by (simp add: axiomnet_raw_recv_def Let_def wait_avail.simps ERESTARTSYS_def)
qed

section \<open>Flushing a port\<close>

lemma raw_flush_loop_ok:
  "swq_rep (raw_rx_queue d) fs qs own ds \<Longrightarrow> length qs = 7 \<Longrightarrow> p < 7 \<Longrightarrow> qs ! p = xs \<Longrightarrow>
   \<exists>d'. raw_flush_loop (int p) d = Some (0, d') \<and>
     swq_rep (raw_rx_queue d') (rev xs @ fs) (qs[p := []]) own ds \<and>
     d' = d\<lparr>raw_rx_queue := raw_rx_queue d'\<rparr>"
proof (induction xs arbitrary: d fs qs)
  case Nil
  then have "qs[p := []] = qs" by (metis list_update_id)
  moreover have "raw_flush_loop (int p) d = Some (0, d)"
    using Nil swq_avail(1) [OF Nil(1), of p] by (subst raw_flush_loop.simps) (simp add: axiomnet_raw_rx_avail_def)
  ultimately show ?case using Nil by simp
next
  case (Cons s xs)
  from swq_dequeue [OF Cons.prems(1) _ Cons.prems(4)] Cons.prems obtain e where
    e: "eviq_dequeue (sq_evi (raw_rx_queue d)) (int p) = Some (of_nat s, e)"
    and r1: "swq_rep ((raw_rx_queue d)\<lparr>sq_evi := e\<rparr>) fs (qs[p := xs]) (insert s own) ds" by auto
  have "s \<notin> own" using eviq.queued_not_owned [of "sq_evi (raw_rx_queue d)" fs qs own p s] Cons.prems
    by (simp add: swq_rep_def)
  with swq_push [OF r1, of s] obtain e' where e': "eviq_free_push e (of_nat s) = Some e'"
    "swq_rep ((raw_rx_queue d)\<lparr>sq_evi := e'\<rparr>) (s # fs) (qs[p := xs]) own ds" by auto
  have ne: "(of_nat s :: s16) \<noteq> EVIQ_NONE" using swq_rep_slot(3) [OF r1] by blast
  let ?d = "d\<lparr>raw_rx_queue := (raw_rx_queue d)\<lparr>sq_evi := e'\<rparr>\<rparr>"
  have "raw_flush_loop (int p) d = raw_flush_loop (int p) ?d"
    using swq_avail(1) [OF Cons.prems(1), of p] Cons.prems e e'(1) ne
    by (subst raw_flush_loop.simps) (simp add: axiomnet_raw_rx_avail_def)
  moreover from Cons.IH [of ?d "s # fs" "qs[p := xs]"] e'(2) Cons.prems obtain d' where
    "raw_flush_loop (int p) ?d = Some (0, d')"
    "swq_rep (raw_rx_queue d') (rev xs @ s # fs) (qs[p := []]) own ds" "d' = ?d\<lparr>raw_rx_queue := raw_rx_queue d'\<rparr>"
    by auto
  ultimately show ?case by auto
qed

lemma raw_flush_lemma:
  assumes inv: "raw_inv d own" and p: "p < 7" "bind_port pr = int p"
    and free: "\<not> sp_mutex (raw_rx_ports d ! p)"
  shows "\<exists>d'. axiomnet_raw_flush pr d = Some (0, d') \<and> raw_inv d' own \<and>
    (\<forall>p' < 7. raw_pkts d' p' = (if p' = p then [] else raw_pkts d p')) \<and>
    swq_free (raw_rx_queue d') = swq_free (raw_rx_queue d) + length (raw_pkts d p) \<and>
    d' = d\<lparr>raw_rx_queue := raw_rx_queue d', kthread_raw := axiom_kthread_wakeup (kthread_raw d)\<rparr>"
proof -
  from inv obtain fs qs ds where rep: "swq_rep (raw_rx_queue d) fs qs own ds" and len: "length qs = 7"
    and wf: "\<forall>m \<in> set ds. raw_msg_wf m" and ports: "length (raw_rx_ports d) = 7" by (auto simp: raw_inv_def)
  let ?ps = "raw_rx_ports d"
  let ?d1 = "d\<lparr>raw_rx_ports := ?ps[p := (?ps ! p)\<lparr>sp_mutex := True\<rparr>]\<rparr>"
  have lock: "mutex_lock (RawRx (int p)) d = Some ?d1" using ports free p by (intro raw_rx_mutex) auto
  from raw_flush_loop_ok [of ?d1 fs qs own ds p "qs ! p"] rep len p(1) obtain d2 where
    d2: "raw_flush_loop (int p) ?d1 = Some (0, d2)" "d2 = ?d1\<lparr>raw_rx_queue := raw_rx_queue d2\<rparr>"
    and rep': "swq_rep (raw_rx_queue d2) (rev (qs ! p) @ fs) (qs[p := []]) own ds" by auto
  have unlock: "mutex_unlock (RawRx (int p)) d2 = Some (d\<lparr>raw_rx_queue := raw_rx_queue d2\<rparr>)"
    using raw_rx_unlock [of p ?ps "d\<lparr>raw_rx_queue := raw_rx_queue d2\<rparr>"] ports free p d2(2) by simp
  let ?d = "d\<lparr>raw_rx_queue := raw_rx_queue d2, kthread_raw := axiom_kthread_wakeup (kthread_raw d)\<rparr>"
  have rep'': "swq_rep (raw_rx_queue ?d) (rev (qs ! p) @ fs) (qs[p := []]) own ds" using rep' by simp
  have "axiomnet_raw_flush pr d = Some (0, ?d)"
    using p lock d2(1) unlock by (simp add: axiomnet_raw_flush_def Let_def)
  moreover have "raw_inv ?d own" using len wf ports by (intro raw_invI [OF rep'']) auto
  moreover have "length (raw_pkts d p) = length (qs ! p)"
    using swq_rep_contents(2) [OF rep, of p] len p(1) by (simp add: raw_pkts_def)
  ultimately show ?thesis
    using raw_pkts_dequeued [OF rep rep'' len p(1)] swq_rep_contents(1) [OF rep] swq_rep_contents(1) [OF rep'']
    by (intro exI [of _ ?d]) auto
qed

section \<open>Sending a packet\<close>

definition raw_tx_header :: "raw_hdr \<Rightarrow> raw_hdr" where
  "raw_tx_header h = h\<lparr>rh_port_type := set_pt_s 0 (set_pt_error 0 (rh_port_type h))\<rparr>"

lemma sint_eq_0_iff [simp]: "sint (n :: u32) = 0 \<longleftrightarrow> n = 0"
proof
  assume "sint n = 0"
  then have "sint n = sint (0 :: u32)" by simp
  then show "n = 0" by (rule signed_word_eqI)
qed simp

lemma raw_tx_lock_cycle:
  assumes "\<not> sp_mutex (raw_tx_port d)"
  shows "mutex_lock RawTx d = Some (d\<lparr>raw_tx_port := (raw_tx_port d)\<lparr>sp_mutex := True\<rparr>\<rparr>)"
    and "mutex_unlock RawTx (d\<lparr>raw_tx_port := (raw_tx_port d)\<lparr>sp_mutex := True\<rparr>\<rparr>) = Some d"
    and "mutex_unlock RawTx (d\<lparr>dev_api := v, raw_tx_port := (raw_tx_port d)\<lparr>sp_mutex := True\<rparr>, dd_stats := st\<rparr>) =
         Some (d\<lparr>dev_api := v, dd_stats := st\<rparr>)"
  using assms by (simp_all add: mutex_lock_def mutex_unlock_def)

lemma raw_send_lemma:
  assumes spec: "uaccess_spec ua view" and mtx: "\<not> sp_mutex (raw_tx_port d)"
    and size: "unat (rh_payload_size h) \<le> 251" "length junk = 251"
    and rt: "length (routing_table d) = 256"
      "pt_type (rh_port_type h) = AXIOM_TYPE_RAW_NEIGHBOUR \<or> routing_table d ! unat (rh_node h) \<noteq> 0"
    and av: "hw_raw_tx_avail hw (dev_api d) = (n, v)" "n \<noteq> 0"
    and g: "gather_ok ua (view (user_mem d)) (stk + 5) (unat (rh_payload_size h)) iov"
    and tx: "hw_raw_tx hw v \<lparr>rm_header = raw_tx_header h,
        rm_payload = gather_bytes (view (user_mem d)) iov @ drop (length (gather_bytes (view (user_mem d)) iov)) junk\<rparr> =
      Some (i, m, v')"
  shows "axiomnet_raw_send hw ua (stk, junk) nonblock h iov env d = Some (uint i, env,
      d\<lparr>dev_api := v', dd_stats := stat_add bytes_raw_tx (ucast (rh_payload_size h)) (stat_add pkt_raw_tx 1 (dd_stats d))\<rparr>)"
proof -
  let ?d1 = "d\<lparr>raw_tx_port := (raw_tx_port d)\<lparr>sp_mutex := True\<rparr>\<rparr>"
  have unreach: "(if pt_type (rh_port_type h) \<noteq> AXIOM_TYPE_RAW_NEIGHBOUR
      then do { k \<leftarrow> arr_get (routing_table d) (uint (rh_node h)); Some (k = 0) } else Some False) = Some False"
  proof -
    have "unat (rh_node h) < 256" using unsigned_less [of "rh_node h"] by simp
    then have "arr_get (routing_table d) (uint (rh_node h)) = Some (routing_table d ! unat (rh_node h))"
      using rt(1) arr_get_nth [of "unat (rh_node h)" "routing_table d"] by simp
    then show ?thesis using rt(2) by auto
  qed
  have ready: "raw_tx_ready hw ?d1 = Some (True, ?d1\<lparr>dev_api := v\<rparr>)"
    using av by (simp add: raw_tx_ready_def axiomnet_raw_tx_avail_def)
  have gi: "gather_iov ua (user_mem d) (stk + 5) (uint (rh_payload_size h)) iov 0 junk =
      Some (0, gather_bytes (view (user_mem d)) iov @ drop (length (gather_bytes (view (user_mem d)) iov)) junk)"
    using gather_iov_ok [OF spec, of "user_mem d" "stk + 5" 0 "unat (rh_payload_size h)" iov junk] g size by simp
  show ?thesis
    using mtx size unreach wait_avail_ready [where c = "raw_tx_ready hw", OF ready] gi tx
      raw_tx_lock_cycle [OF mtx] 
    by (simp add: axiomnet_raw_send_def mutex_lock_def mutex_unlock_def raw_tx_header_def inc_stat_def add_stat_def Let_def)
qed

end
