(* ===== verification/RawProps.thy ===== *)
theory RawProps
  imports DriverRaw DemoDevice
begin

text \<open>
  The properties of the RAW message path: what the worker, the receive, flush and send handlers do
  on the queues of packets, and the in-order delivery of packets over any sequence of their calls.
\<close>

section \<open>A concrete instance\<close>

definition demo_fifo :: "demo_dev \<Rightarrow> raw_pkt list" where
  "demo_fifo v = map (\<lambda>m. raw_pkt_of (demo_fix m)) (dv_raw_rx v)"

lemma demo_rx_fifo: "raw_rx_fifo demo_hw demo_fifo"
proof -
  have "raw_msg_wf (demo_fix m)" for m by (simp add: raw_msg_wf_def demo_fix_def)
  then show ?thesis unfolding raw_rx_fifo_def by (auto simp: demo_hw_def demo_fifo_def)
qed

lemma demo_d_inv: "raw_inv demo_d {}"
proof (rule raw_invI)
  show "swq_rep (raw_rx_queue demo_d) [0, 1] (replicate 7 []) {} (replicate 2 demo_raw_msg)"
    using demo_evi_rep [of 7] by (simp add: swq_rep_def demo_d_def)
qed (auto simp: demo_d_def raw_msg_wf_def demo_raw_msg_def)

definition demo_pkt :: "u8 \<Rightarrow> u8 \<Rightarrow> raw_msg" where
  "demo_pkt port i = \<lparr>rm_header = \<lparr>rh_port_type = set_pt_port port 3, rh_node = 2, rh_msg_id = i,
     rh_payload_size = 4, rh_padding = 0\<rparr>, rm_payload = [i, 1, 2, 3]\<rparr>"

section \<open>The receive worker\<close>

text \<open>
  Property C1. The receive worker returns for every receive FIFO the hardware can present. It takes the
  first \<open>n\<close> packets, and stops only when the FIFO is empty or no slot is free, so nothing is
  dropped for lack of space; it appends each packet to the queue of the port in its header, in
  order and with its bytes, discards those for the reserved port 7, counts both kinds, and
  changes nothing else of the driver.
\<close>

theorem raw_rx_worker_delivers:
  assumes "raw_rx_fifo hw fifo" and "raw_inv d own" and "fifo (dev_api d) = ks"
  shows "\<exists>d' n. axiom_raw_rx_dequeue hw d = Some d' \<and> raw_inv d' own \<and> raw_rx_frame d d' \<and>
      fifo (dev_api d') = drop n ks \<and> (n \<ge> length ks \<or> swq_free (raw_rx_queue d') = 0) \<and>
      (\<forall>p < 7. raw_pkts d' p = raw_pkts d p @ filter (\<lambda>k. pkt_port k = p) (take n ks)) \<and>
      swq_free (raw_rx_queue d') + count_valid (take n ks) = swq_free (raw_rx_queue d) \<and>
      dd_stats d' pkt_raw_rx = dd_stats d pkt_raw_rx + of_nat (count_valid (take n ks)) \<and>
      dd_stats d' err_raw_rx = dd_stats d err_raw_rx + of_nat (length (take n ks) - count_valid (take n ks))"
  by (rule raw_rx_dequeue_ok [OF assms])

definition demo_rx_d :: "(demo_dev, u64 \<Rightarrow> u8 option) drvdata" where
  "demo_rx_d = demo_d\<lparr>dev_api := demo_v\<lparr>dv_raw_rx := [demo_pkt 2 10, demo_pkt 7 11, demo_pkt 2 12]\<rparr>\<rparr>"

lemma demo_rx_d_inv: "raw_inv demo_rx_d {}"
  using demo_d_inv by (simp add: demo_rx_d_def)

theorem raw_rx_worker_delivers_witness:
  "\<exists>d' n. axiom_raw_rx_dequeue demo_hw demo_rx_d = Some d' \<and> raw_inv d' {} \<and>
     raw_pkts d' 2 = raw_pkts demo_rx_d 2 @ filter (\<lambda>k. pkt_port k = 2) (take n (demo_fifo (dev_api demo_rx_d)))"
proof -
  obtain d' n where "axiom_raw_rx_dequeue demo_hw demo_rx_d = Some d'" "raw_inv d' {}"
    "\<forall>p < 7. raw_pkts d' p = raw_pkts demo_rx_d p @ filter (\<lambda>k. pkt_port k = p) (take n (demo_fifo (dev_api demo_rx_d)))"
    using raw_rx_worker_delivers [OF demo_rx_fifo demo_rx_d_inv refl] by blast
  moreover have "(2 :: nat) < 7" by simp
  ultimately show ?thesis by blast
qed

section \<open>The receive handler\<close>

text \<open>
  Property C2. Receiving: when packets wait on the bound port, the call takes the first one, whatever the
  blocking mode: it returns the length of header and payload, hands back the header of the packet,
  stores the payload bytes in the user's buffers in order, leaves the other packets and ports
  as they were, gives the slot back, and restarts the worker if it had run out of slots.
\<close>

theorem raw_recv_delivers:
  assumes "uaccess_spec ua view" and "raw_inv d own" and "p < 7" "bind_port pr = int p"
    and "\<not> sp_mutex (raw_rx_ports d ! p)" and "raw_pkts d p = k # ks"
    and "rh_payload_size (fst k) \<le> rh_payload_size header" "unat (rh_payload_size (fst k)) \<le> 251"
    and "scatter_ok ua (view (user_mem d)) (sq_base (raw_rx_queue d) + 5) (unat (rh_payload_size (fst k))) iov"
  shows "\<exists>d'. axiomnet_raw_recv ua nonblock pr header iov env d =
      Some (5 + uint (rh_payload_size (fst k)), fst k, env, d') \<and> raw_inv d' own \<and>
    view (user_mem d') = scatter_mem (view (user_mem d)) iov (snd k) \<and>
    (\<forall>p' < 7. raw_pkts d' p' = (if p' = p then ks else raw_pkts d p')) \<and>
    swq_free (raw_rx_queue d') = Suc (swq_free (raw_rx_queue d)) \<and>
    (swq_free (raw_rx_queue d) = 0 \<longrightarrow> kt_scheduled (kthread_raw d') = kt_scheduled (kthread_raw d) + 1)"
  by (rule raw_recv_delivers_lemma [OF assms])

text \<open>A driver state with one packet waiting on port 2 in slot 1.\<close>

definition demo_one :: "(demo_dev, u64 \<Rightarrow> u8 option) drvdata" where
  "demo_one = demo_d\<lparr>raw_rx_queue := \<lparr>sq_evi = (demo_evi 7)\<lparr>q_head := Some ((replicate 7 EVIQ_NONE)[2 := 1]),
      q_tail := Some ((replicate 7 EVIQ_NONE)[2 := 1]), q_next := Some [EVIQ_NONE, EVIQ_NONE]\<rparr>,
    sq_desc = Some [demo_raw_msg, demo_fix (demo_pkt 2 10)], sq_base = 0\<rparr>\<rparr>"

lemma demo_one_rep:
  "swq_rep (raw_rx_queue demo_one) [0] ((replicate 7 [])[2 := [1]]) {} [demo_raw_msg, demo_fix (demo_pkt 2 10)]"
proof -
  let ?qs = "(replicate 7 [])[2 := [1 :: nat]]"
  have cc: "set (concat ?qs) = {1}" "concat ?qs = [1]" by (simp_all add: numeral_eq_Suc)
  have "eviq_rep (sq_evi (raw_rx_queue demo_one)) [0] ?qs {}"
  proof (rule eviq_repI [of _ "[EVIQ_NONE, EVIQ_NONE]"])
    show "eviq_queues_rep [EVIQ_NONE, EVIQ_NONE] (q_head (sq_evi (raw_rx_queue demo_one)))
        (q_tail (sq_evi (raw_rx_queue demo_one))) ?qs"
      by (auto simp: demo_one_def demo_evi_def eviq_queues_rep_def nth_list_update slot_or_none_def)
    show "slots_partition (length [EVIQ_NONE, EVIQ_NONE]) [0] ?qs {}"
      unfolding slots_partition_def cc by (auto simp: cc)
  qed (simp_all add: demo_one_def demo_evi_def)
  then show ?thesis using cc(1) by (auto simp: swq_rep_def demo_one_def simp del: set_concat)
qed

lemma demo_one_inv: "raw_inv demo_one {}"
  by (rule raw_invI [OF demo_one_rep])
    (auto simp: demo_one_def demo_d_def raw_msg_wf_def demo_raw_msg_def demo_fix_def)

lemma demo_one_pkts: "raw_pkts demo_one 2 = [(rm_header (demo_pkt 2 10), [10, 1, 2, 3])]"
  using swq_rep_contents(2) [OF demo_one_rep, of 2]
  by (simp add: raw_pkts_def raw_pkt_of_def demo_fix_def demo_pkt_def)

definition demo_pr :: priv where
  "demo_pr = \<lparr>bind_port = 2, fd_type = FDTYPE_RAW, rdma_debug = 0\<rparr>"

lemma demo_one_scatter:
  "scatter_ok umem_ua (user_mem demo_one) (sq_base (raw_rx_queue demo_one) + 5) 4 [\<lparr>iov_base = 4096, iov_len = 4\<rparr>]"
  by (simp add: demo_one_def demo_d_def umem_ua_def readable_def umem_read_numeral copy_aligned_def odd_part_def)

theorem raw_recv_delivers_witness:
  "\<exists>d'. axiomnet_raw_recv umem_ua True demo_pr (rm_header (demo_pkt 0 0)) [\<lparr>iov_base = 4096, iov_len = 4\<rparr>] [] demo_one =
     Some (9, rm_header (demo_pkt 2 10), [], d') \<and> raw_pkts d' 2 = []"
proof -
  have "\<not> sp_mutex (raw_rx_ports demo_one ! 2)" by (simp add: demo_one_def demo_d_def demo_port_def)
  then show ?thesis
    using raw_recv_delivers [OF umem_ua_spec demo_one_inv, of 2 demo_pr "(rm_header (demo_pkt 2 10), [10, 1, 2, 3])" "[]"
        "rm_header (demo_pkt 0 0)" "[\<lparr>iov_base = 4096, iov_len = 4\<rparr>]" True "[]"] demo_one_pkts demo_one_scatter
    by (auto simp: demo_pr_def demo_pkt_def)
qed

text \<open>
  Property C8. Receiving from an empty port never takes the handler's mutex away: a non-blocking call
  returns \<open>-EAGAIN\<close>, a call interrupted while it sleeps returns \<open>-ERESTARTSYS\<close>, and in both cases only
  the wait counter has changed.
\<close>

theorem raw_recv_would_block:
  assumes "raw_inv d own" and "p < 7" "bind_port pr = int p"
    and "\<not> sp_mutex (raw_rx_ports d ! p)" and "raw_pkts d p = []"
  shows "axiomnet_raw_recv ua True pr header iov env d = Some (- EAGAIN, header, env, inc_stat wait_raw_rx d) \<and>
    axiomnet_raw_recv ua False pr header iov (Signal # env) d =
      Some (- ERESTARTSYS, header, env, inc_stat wait_raw_rx d)"
  using raw_recv_empty [OF assms] by blast

lemma demo_d_pkts: "p < 7 \<Longrightarrow> raw_pkts demo_d p = []"
  using swq_rep_contents(2) [of "raw_rx_queue demo_d" "[0, 1]" "replicate 7 []" "{}" "replicate 2 demo_raw_msg" p]
    demo_evi_rep [of 7] by (simp add: raw_pkts_def swq_rep_def demo_d_def)

theorem raw_recv_would_block_witness:
  "axiomnet_raw_recv umem_ua True demo_pr (rm_header (demo_pkt 0 0)) [] [] demo_d =
     Some (- EAGAIN, rm_header (demo_pkt 0 0), [], inc_stat wait_raw_rx demo_d)"
proof -
  have "\<not> sp_mutex (raw_rx_ports demo_d ! 2)" by (simp add: demo_d_def demo_port_def)
  then show ?thesis
    using raw_recv_would_block [OF demo_d_inv, of 2 demo_pr] demo_d_pkts [of 2] by (simp add: demo_pr_def)
qed

section \<open>Flush\<close>

text \<open>
  Property C7. Flushing the bound port returns, empties that port only, gives all its slots back to the free
  list and restarts the worker; it changes nothing else.
\<close>

theorem raw_flush_empties:
  assumes "raw_inv d own" and "p < 7" "bind_port pr = int p" and "\<not> sp_mutex (raw_rx_ports d ! p)"
  shows "\<exists>d'. axiomnet_raw_flush pr d = Some (0, d') \<and> raw_inv d' own \<and>
    (\<forall>p' < 7. raw_pkts d' p' = (if p' = p then [] else raw_pkts d p')) \<and>
    swq_free (raw_rx_queue d') = swq_free (raw_rx_queue d) + length (raw_pkts d p) \<and>
    d' = d\<lparr>raw_rx_queue := raw_rx_queue d', kthread_raw := axiom_kthread_wakeup (kthread_raw d)\<rparr>"
  by (rule raw_flush_lemma [OF assms])

theorem raw_flush_empties_witness:
  "\<exists>d'. axiomnet_raw_flush demo_pr demo_one = Some (0, d') \<and> raw_pkts d' 2 = []"
proof -
  have "\<not> sp_mutex (raw_rx_ports demo_one ! 2)" by (simp add: demo_one_def demo_d_def demo_port_def)
  then show ?thesis using raw_flush_empties [OF demo_one_inv, of 2 demo_pr] by (auto simp: demo_pr_def)
qed

section \<open>The send handler\<close>

text \<open>
  Property C6. Sending: with room in the hardware queue, a reachable destination (or a message to a
  neighbour) and readable buffers that fit the announced size, the call hands the hardware one
  message with the caller's header, error and \<open>s\<close> bits cleared, and the bytes of the buffers in
  order; it returns the message id of the hardware, counts packet and bytes, releases the mutex it
  took twice and changes nothing else. Payload bytes the buffers do not supply are the previous
  contents of the driver's stack buffer.
\<close>

theorem raw_send_transmits:
  assumes "uaccess_spec ua view" and "\<not> sp_mutex (raw_tx_port d)"
    and "unat (rh_payload_size h) \<le> 251" "length junk = 251"
    and "length (routing_table d) = 256"
      "pt_type (rh_port_type h) = AXIOM_TYPE_RAW_NEIGHBOUR \<or> routing_table d ! unat (rh_node h) \<noteq> 0"
    and "hw_raw_tx_avail hw (dev_api d) = (n, v)" "n \<noteq> 0"
    and "gather_ok ua (view (user_mem d)) (stk + 5) (unat (rh_payload_size h)) iov"
    and "hw_raw_tx hw v \<lparr>rm_header = raw_tx_header h,
        rm_payload = gather_bytes (view (user_mem d)) iov @ drop (length (gather_bytes (view (user_mem d)) iov)) junk\<rparr> =
      Some (i, m, v')"
  shows "axiomnet_raw_send hw ua (stk, junk) nonblock h iov env d = Some (uint i, env,
      d\<lparr>dev_api := v', dd_stats := stat_add bytes_raw_tx (ucast (rh_payload_size h)) (stat_add pkt_raw_tx 1 (dd_stats d))\<rparr>)"
  by (rule raw_send_lemma [OF assms])

theorem raw_send_transmits_witness:
  "\<exists>d'. axiomnet_raw_send demo_hw umem_ua (0, replicate 251 0) True (rm_header (demo_pkt 2 10))
     [\<lparr>iov_base = 4096, iov_len = 4\<rparr>] [] demo_d = Some (0, [], d')"
proof -
  have "gather_ok umem_ua (user_mem demo_d) (0 + 5) 4 [\<lparr>iov_base = 4096, iov_len = 4\<rparr>]"
    by (simp add: demo_d_def umem_ua_def readable_def umem_read_numeral copy_aligned_def odd_part_def)
  then show ?thesis
    using raw_send_transmits [OF umem_ua_spec, of demo_d "rm_header (demo_pkt 2 10)" "replicate 251 0" demo_hw 1 demo_v 0
        "[\<lparr>iov_base = 4096, iov_len = 4\<rparr>]"]
    by (simp add: demo_d_def demo_port_def demo_pkt_def demo_hw_def demo_v_def Let_def)
qed

end
