(* ===== verification/DriverPorts.thy ===== *)
theory DriverPorts
  imports RawProps
begin

text \<open>
  Files and ports (\<open>axiom_netdev_driver/axiom_netdev_common.c\<close>, lines 1834 to 1932, 2035 to 2123 and
  2527 to 2676): opening and closing the character devices, binding a file to a port, mapping the
  RDMA zone, and polling. A relation on whole sets of open files shows what the port masks and the
  open counter mean.
\<close>

section \<open>Operations\<close>

definition drv_lock :: "('d, 'u) drvdata \<Rightarrow> ('d, 'u) drvdata option" where
  "drv_lock d = (if dd_lock d then None else Some (d\<lparr>dd_lock := True\<rparr>))"

definition drv_unlock :: "('d, 'u) drvdata \<Rightarrow> ('d, 'u) drvdata option" where
  "drv_unlock d = (if dd_lock d then Some (d\<lparr>dd_lock := False\<rparr>) else None)"

definition axiomnet_unbind :: "priv \<Rightarrow> ('d, 'u) drvdata \<Rightarrow> (priv \<times> ('d, 'u) drvdata) option" where
  "axiomnet_unbind pr d =
     (if bind_port pr = AXIOMNET_PORT_INVALID \<or> bind_port pr > AXIOM_PORT_MAX then Some (pr, d)
      else do {
        d \<leftarrow> drv_lock d;
        let m = NOT (push_bit (unat (of_int (bind_port pr) :: u8)) 1);
        let d = (if fd_type pr = FDTYPE_RAW then d\<lparr>raw_rx_port_used := raw_rx_port_used d AND m\<rparr> else d);
        let d = (if fd_type pr = FDTYPE_LONG then d\<lparr>long_rx_port_used := long_rx_port_used d AND m\<rparr> else d);
        d \<leftarrow> drv_unlock d;
        Some (pr\<lparr>bind_port := AXIOMNET_PORT_INVALID\<rparr>, d) })"

text \<open>The loop that picks the first free port, \<open>AXIOM_PORT_ANY\<close> when there is none.\<close>

fun first_free_port :: "u8 \<Rightarrow> nat list \<Rightarrow> u8" where
  "first_free_port used [] = AXIOM_PORT_ANY"
| "first_free_port used (i # is) =
     (if push_bit i 1 AND used = 0 then of_nat i else first_free_port used is)"

definition bind_choose :: "u8 \<Rightarrow> u8 \<Rightarrow> int \<times> u8" where
  "bind_choose port_used port =
     (if port = AXIOM_PORT_ANY then
        let port = first_free_port port_used [0..<AXIOM_PORT_NUM] in
        if port = AXIOM_PORT_ANY then (- EBUSY, port) else (0, port)
      else if port \<ge> of_nat AXIOM_PORT_NUM then (- EFBIG, port)
      else (0, port))"

text \<open>\<open>axiomnet_bind\<close> on the port mask of the file's class: result, port number, new mask.\<close>

definition bind_mask :: "u8 \<Rightarrow> u8 \<Rightarrow> int \<times> u8 \<times> u8" where
  "bind_mask port_used port =
     (let (ret, port) = bind_choose port_used port in
      if ret \<noteq> 0 then (ret, port, port_used)
      else if push_bit (unat port) 1 AND port_used \<noteq> 0 then (- EBUSY, port, port_used)
      else (0, port, port_used OR push_bit (unat port) 1))"

definition axiomnet_bind :: "priv \<Rightarrow> u8 \<Rightarrow> ('d, 'u) drvdata \<Rightarrow> (int \<times> u8 \<times> priv \<times> ('d, 'u) drvdata) option" where
  "axiomnet_bind pr port d = do {
     (pr, d) \<leftarrow> axiomnet_unbind pr d;
     d \<leftarrow> drv_lock d;
     let (ret, port, pr, d) =
       (case fd_type pr of
          FDTYPE_RAW \<Rightarrow>
            let (ret, port, used) = bind_mask (raw_rx_port_used d) port in
            (ret, port, if ret = 0 then pr\<lparr>bind_port := uint port\<rparr> else pr, d\<lparr>raw_rx_port_used := used\<rparr>)
        | FDTYPE_LONG \<Rightarrow>
            let (ret, port, used) = bind_mask (long_rx_port_used d) port in
            (ret, port, if ret = 0 then pr\<lparr>bind_port := uint port\<rparr> else pr, d\<lparr>long_rx_port_used := used\<rparr>)
        | _ \<Rightarrow> (- EFAULT, port, pr, d));
     d \<leftarrow> drv_unlock d;
     Some (ret, port, pr, d) }"

definition axiomnet_check_port :: "priv \<Rightarrow> int" where
  "axiomnet_check_port pr = (if bind_port pr = AXIOMNET_PORT_INVALID then - EFAULT else bind_port pr)"

subsection \<open>Opening and closing\<close>

text \<open>\<open>kz\<close>: whether \<open>kzalloc\<close> finds memory for the per-file structure.\<close>

definition axiomnet_open_generic :: "bool \<Rightarrow> ('d, 'u) drvdata \<Rightarrow> (int \<times> priv option \<times> ('d, 'u) drvdata) option" where
  "axiomnet_open_generic kz d =
     (if \<not> kz then Some (- ENOMEM, None, d)
      else do {
        d \<leftarrow> drv_lock d;
        if dd_used d \<ge> AXIOMNET_MAX_OPEN then do {
          d \<leftarrow> drv_unlock d;
          Some (- EBUSY, None, d) }
        else do {
          d \<leftarrow> drv_unlock (d\<lparr>dd_used := dd_used d + 1\<rparr>);
          Some (0, Some \<lparr>bind_port = AXIOMNET_PORT_INVALID, fd_type = FDTYPE_GENERIC, rdma_debug = 0\<rparr>, d) } })"

definition axiomnet_open_raw :: "bool \<Rightarrow> ('d, 'u) drvdata \<Rightarrow> (int \<times> priv option \<times> ('d, 'u) drvdata) option" where
  "axiomnet_open_raw kz d = do {
     (err, pr, d) \<leftarrow> axiomnet_open_generic kz d;
     if err \<noteq> 0 then Some (err, None, d)
     else do { pr \<leftarrow> pr; Some (0, Some (pr\<lparr>fd_type := FDTYPE_RAW\<rparr>), d) } }"

definition axiomnet_open_long :: "bool \<Rightarrow> ('d, 'u) drvdata \<Rightarrow> (int \<times> priv option \<times> ('d, 'u) drvdata) option" where
  "axiomnet_open_long kz d = do {
     (err, pr, d) \<leftarrow> axiomnet_open_generic kz d;
     if err \<noteq> 0 then Some (err, None, d)
     else do { pr \<leftarrow> pr; Some (0, Some (pr\<lparr>fd_type := FDTYPE_LONG\<rparr>), d) } }"

definition axiomnet_open_rdma :: "bool \<Rightarrow> ('d, 'u) drvdata \<Rightarrow> (int \<times> priv option \<times> ('d, 'u) drvdata) option" where
  "axiomnet_open_rdma kz d = do {
     (err, pr, d) \<leftarrow> axiomnet_open_generic kz d;
     if err \<noteq> 0 then Some (err, None, d)
     else do { pr \<leftarrow> pr; Some (0, Some (pr\<lparr>fd_type := FDTYPE_RDMA, rdma_debug := 0\<rparr>), d) } }"

definition axiomnet_release :: "priv \<Rightarrow> ('d, 'u) drvdata \<Rightarrow> ('d, 'u) drvdata option" where
  "axiomnet_release pr d = do {
     (pr, d) \<leftarrow> axiomnet_unbind pr d;
     d \<leftarrow> drv_lock d;
     drv_unlock (d\<lparr>dd_used := dd_used d - 1\<rparr>) }"

text \<open>\<open>axiomnet_mmap\<close>: \<open>remap\<close> is the result of \<open>remap_pfn_range\<close> for the page frame and size.\<close>

definition axiomnet_mmap :: "(u64 \<Rightarrow> u64 \<Rightarrow> int) \<Rightarrow> u64 \<Rightarrow> u64 \<Rightarrow> u64 \<Rightarrow> priv \<Rightarrow> ('d, 'u) drvdata \<Rightarrow>
    (int \<times> priv \<times> ('d, 'u) drvdata) option" where
  "axiomnet_mmap remap vm_start vm_end vm_pgoff pr d =
     (let size = vm_end - vm_start in
      if rdma_paddr d = 0 then Some (- EINVAL, pr, d)
      else do {
        d \<leftarrow> drv_lock d;
        if size \<noteq> rdma_size d then do {
          d \<leftarrow> drv_unlock d;
          Some (- EINVAL, pr, d) }
        else do {
          let err = remap (drop_bit 12 (rdma_paddr d) + vm_pgoff) size;
          d \<leftarrow> drv_unlock d;
          if err \<noteq> 0 then Some (err, pr, d) else Some (0, pr\<lparr>rdma_debug := 1\<rparr>, d) } })"

section \<open>Port masks\<close>

lemma and_bit_zero: "((2 :: u8) ^ p AND used = 0) = (\<not> bit used p)"
  using and_exp_eq_0_iff_not_bit [of used p] by (simp add: and.commute)

lemma first_free_port_find:
  "first_free_port used is = (case find (\<lambda>i. \<not> bit used i) is of None \<Rightarrow> AXIOM_PORT_ANY | Some i \<Rightarrow> of_nat i)"
  by (induction "is") (auto simp: and_bit_zero)

lemma first_free_port_any:
  "first_free_port used [0..<7] = AXIOM_PORT_ANY \<longleftrightarrow> (\<forall>i < 7. bit used i)"
proof -
  have "(of_nat i :: u8) \<noteq> 255" if "i < 7" for i
  proof
    assume "(of_nat i :: u8) = 255"
    then have "unat (of_nat i :: u8) = 255" by simp
    with that show False by (simp add: unsigned_of_nat take_bit_nat_eq_self)
  qed
  then show ?thesis
    by (auto simp: first_free_port_find find_None_iff find_Some_iff split: option.splits)
qed

lemma first_free_port_least:
  assumes "first_free_port used [0..<7] \<noteq> AXIOM_PORT_ANY"
  shows "unat (first_free_port used [0..<7]) < 7 \<and> \<not> bit used (unat (first_free_port used [0..<7])) \<and>
    (\<forall>j < unat (first_free_port used [0..<7]). bit used j)"
proof -
  from assms obtain i where i: "find (\<lambda>i. \<not> bit used i) [0..<7] = Some i"
    by (auto simp: first_free_port_find split: option.splits)
  then have "i < 7" "\<not> bit used i" "\<forall>j < i. bit used j" by (auto simp: find_Some_iff)
  moreover from this have "unat (of_nat i :: u8) = i" by (simp add: unsigned_of_nat take_bit_nat_eq_self)
  ultimately show ?thesis using i by (simp add: first_free_port_find)
qed

text \<open>
  Binding on a mask: success gives a port below 7 that was free (the lowest one when any port is
  asked for) and sets its bit; failure changes nothing and happens exactly when the port is taken
  or does not exist.
\<close>

lemma bind_mask_ok:
  assumes "bind_mask used port = (0, p, used')"
  shows "unat p < 7 \<and> \<not> bit used (unat p) \<and> used' = used OR 2 ^ unat p \<and>
    (if port = AXIOM_PORT_ANY then \<forall>j < unat p. bit used j else p = port)"
  using assms first_free_port_least [of used]
  by (auto simp: bind_mask_def bind_choose_def and_bit_zero errno_defs Let_def word_less_nat_alt word_le_nat_alt
      split: if_splits prod.splits)

lemma bind_mask_err:
  assumes "bind_mask used port = (r, p, used')" "r \<noteq> 0"
  shows "used' = used \<and>
    (r = - EBUSY \<and> port = AXIOM_PORT_ANY \<and> (\<forall>i < 7. bit used i) \<or>
     r = - EBUSY \<and> unat port < 7 \<and> bit used (unat port) \<or>
     r = - EFBIG \<and> port \<noteq> AXIOM_PORT_ANY \<and> 7 \<le> unat port)"
  using assms first_free_port_least [of used] first_free_port_any [of used]
  by (auto simp: bind_mask_def bind_choose_def and_bit_zero errno_defs Let_def word_less_nat_alt word_le_nat_alt
      split: if_splits prod.splits)

lemma bind_mask_result:
  assumes "bind_mask used port = (r, p, m)"
  shows "(if port = AXIOM_PORT_ANY then
         (if \<forall>q < 7. bit used q then r = - EBUSY else r = 0 \<and> (\<forall>q < unat p. bit used q))
       else if unat port \<ge> 7 then r = - EFBIG
       else if bit used (unat port) then r = - EBUSY else r = 0 \<and> p = port)" (is ?A)
    and "r = 0 \<Longrightarrow> unat p < 7"
proof -
  show ?A
  proof (cases "r = 0")
    case True
    with bind_mask_ok [of used port p m] assms show ?thesis by auto
  next
    case False
    with bind_mask_err [OF assms] show ?thesis by auto
  qed
  show "r = 0 \<Longrightarrow> unat p < 7" using bind_mask_ok [of used port p m] assms by simp
qed

lemma bit_set_mask: "p < 8 \<Longrightarrow> bit ((used :: u8) OR 2 ^ p) q \<longleftrightarrow> bit used q \<or> q = p"
  by (auto simp: bit_or_iff bit_exp_iff)

lemma bit_clear_mask: "p < 8 \<Longrightarrow> bit ((used :: u8) AND NOT (2 ^ p)) q \<longleftrightarrow> bit used q \<and> q \<noteq> p"
  by (auto simp: bit_and_iff bit_not_iff bit_exp_iff dest: bit_imp_le_length)

section \<open>The set of open files\<close>

definition used_of :: "fdtype \<Rightarrow> ('d, 'u) drvdata \<Rightarrow> u8" where
  "used_of t d = (if t = FDTYPE_RAW then raw_rx_port_used d else long_rx_port_used d)"

definition set_used :: "fdtype \<Rightarrow> u8 \<Rightarrow> ('d, 'u) drvdata \<Rightarrow> ('d, 'u) drvdata" where
  "set_used t m d = (if t = FDTYPE_RAW then d\<lparr>raw_rx_port_used := m\<rparr>
     else if t = FDTYPE_LONG then d\<lparr>long_rx_port_used := m\<rparr> else d)"

definition bindable :: "fdtype \<Rightarrow> bool" where
  "bindable t \<longleftrightarrow> t = FDTYPE_RAW \<or> t = FDTYPE_LONG"

lemma set_used_fields [simp]:
  "dd_used (set_used t m d) = dd_used d" "dd_lock (set_used t m d) = dd_lock d"
  "bindable t \<Longrightarrow> used_of t (set_used t m d) = m"
  "bindable t \<Longrightarrow> bindable t' \<Longrightarrow> t' \<noteq> t \<Longrightarrow> used_of t' (set_used t m d) = used_of t' d"
  by (auto simp: set_used_def used_of_def bindable_def)

lemma used_of_counter [simp]: "used_of t (d\<lparr>dd_used := n\<rparr>) = used_of t d"
  by (simp add: used_of_def)

lemma unat_of_port: "p < 8 \<Longrightarrow> unat (of_nat p :: u8) = p"
  by (simp add: unsigned_of_nat take_bit_nat_eq_self)

lemma uint_eq_int: "uint (p :: u8) = int q \<longleftrightarrow> q = unat p"
proof -
  have "uint p = int (unat p)" by simp
  then show ?thesis by (metis of_nat_eq_iff)
qed

lemma unbind_eq:
  assumes "\<not> dd_lock d" "bindable (fd_type pr)" "bind_port pr = int p" "p < 7"
  shows "axiomnet_unbind pr d = Some (pr\<lparr>bind_port := - 1\<rparr>,
    set_used (fd_type pr) (used_of (fd_type pr) d AND NOT (2 ^ p)) d)"
  using assms unat_of_port [of p]
  by (auto simp: axiomnet_unbind_def drv_lock_def drv_unlock_def set_used_def used_of_def bindable_def Let_def)

lemma unbind_unbound:
  "bind_port pr = - 1 \<Longrightarrow> axiomnet_unbind pr d = Some (pr, d)"
  by (simp add: axiomnet_unbind_def)

lemma bind_eq:
  assumes "\<not> dd_lock d" "axiomnet_unbind pr d = Some (pr1, d1)" "\<not> dd_lock d1" "fd_type pr1 = fd_type pr"
  shows "axiomnet_bind pr port d = Some (if bindable (fd_type pr) then
       (case bind_mask (used_of (fd_type pr) d1) port of (r, p, m) \<Rightarrow>
          (r, p, if r = 0 then pr1\<lparr>bind_port := uint p\<rparr> else pr1, set_used (fd_type pr) m d1))
     else (- EFAULT, port, pr1, d1))"
  using assms
  by (cases "fd_type pr") (auto simp: axiomnet_bind_def drv_lock_def drv_unlock_def set_used_def used_of_def
      bindable_def Let_def split: prod.splits)

text \<open>
  The invariant of a set of open files: the counter is their number, at most 64; the bit of a port
  is set in the mask of a class exactly when an open file of the class is bound to it; and no two
  files of a class are bound to the same port.
\<close>

definition bound_to :: "(nat \<rightharpoonup> priv) \<Rightarrow> fdtype \<Rightarrow> nat \<Rightarrow> nat \<Rightarrow> bool" where
  "bound_to files t p fd \<longleftrightarrow> (\<exists>pr. files fd = Some pr \<and> fd_type pr = t \<and> bind_port pr = int p)"

definition priv_ok :: "priv \<Rightarrow> bool" where
  "priv_ok pr \<longleftrightarrow> bind_port pr = - 1 \<or> bindable (fd_type pr) \<and> 0 \<le> bind_port pr \<and> bind_port pr < 7"

definition files_inv :: "(nat \<rightharpoonup> priv) \<Rightarrow> ('d, 'u) drvdata \<Rightarrow> bool" where
  "files_inv files d \<longleftrightarrow> finite (dom files) \<and> dd_used d = int (card (dom files)) \<and> dd_used d \<le> 64 \<and> \<not> dd_lock d \<and>
     (\<forall>fd pr. files fd = Some pr \<longrightarrow> priv_ok pr) \<and>
     (\<forall>t p. bindable t \<longrightarrow> p < 7 \<longrightarrow> bit (used_of t d) p = (\<exists>fd. bound_to files t p fd)) \<and>
     (\<forall>t p fd fd'. bound_to files t p fd \<longrightarrow> bound_to files t p fd' \<longrightarrow> fd = fd')"

lemma bound_to_upd:
  "bound_to (files(fd \<mapsto> pr)) t p g \<longleftrightarrow> (if g = fd then fd_type pr = t \<and> bind_port pr = int p else bound_to files t p g)"
  by (auto simp: bound_to_def)

lemma bound_to_del: "bound_to (files(fd := None)) t p g \<longleftrightarrow> g \<noteq> fd \<and> bound_to files t p g"
  by (auto simp: bound_to_def)

lemma priv_okE:
  assumes "priv_ok pr"
  obtains "bind_port pr = - 1" | p where "bind_port pr = int p" "p < 7" "bindable (fd_type pr)"
  using assms unfolding priv_ok_def by (metis nat_0_le nat_less_iff of_nat_numeral)

text \<open>Unbinding leaves the file open and unbound, and keeps the invariant.\<close>

lemma unbind_inv:
  assumes inv: "files_inv files d" and fd: "files fd = Some pr"
  shows "\<exists>d'. axiomnet_unbind pr d = Some (pr\<lparr>bind_port := - 1\<rparr>, d') \<and>
    files_inv (files(fd \<mapsto> pr\<lparr>bind_port := - 1\<rparr>)) d' \<and> dd_used d' = dd_used d"
proof -
  from inv fd have "priv_ok pr" and lock: "\<not> dd_lock d" by (auto simp: files_inv_def)
  from this(1) show ?thesis
  proof (cases rule: priv_okE)
    case 1
    then have same: "pr\<lparr>bind_port := - 1\<rparr> = pr" by simp
    have "files(fd \<mapsto> pr) = files" using fd by auto
    then show ?thesis using inv unbind_unbound [OF 1, of d] unfolding same by auto
  next
    case (2 p)
    let ?t = "fd_type pr"
    let ?d = "set_used ?t (used_of ?t d AND NOT (2 ^ p)) d"
    let ?f = "files(fd \<mapsto> pr\<lparr>bind_port := - 1\<rparr>)"
    have b: "bound_to files ?t p fd" using fd 2 by (auto simp: bound_to_def)
    have bt: "bound_to ?f t q g \<longleftrightarrow> g \<noteq> fd \<and> bound_to files t q g" for t q g by (simp add: bound_to_upd)
    have "bit (used_of t ?d) q = (\<exists>g. bound_to ?f t q g)" if t: "bindable t" and q: "q < 7" for t q
    proof (cases "t = ?t \<and> q = p")
      case True
      with inv b have "\<not> (\<exists>g. bound_to ?f t q g)" unfolding bt files_inv_def by blast
      with True 2 show ?thesis by (simp add: bit_clear_mask)
    next
      case False
      then have "\<not> bound_to files t q fd" using fd 2 by (auto simp: bound_to_def)
      then have "(\<exists>g. bound_to ?f t q g) = bit (used_of t d) q" using inv t q unfolding bt files_inv_def by metis
      with False 2 t show ?thesis by (cases "t = ?t") (simp_all add: bit_clear_mask)
    qed
    moreover have "dom ?f = dom files" using fd by auto
    ultimately have "files_inv ?f ?d" using inv unfolding files_inv_def bt
      by (auto simp: priv_ok_def split: if_splits)
    with unbind_eq [OF lock 2(3,1,2)] show ?thesis by auto
  qed
qed

lemma bind_inv:
  assumes inv: "files_inv files d" and fd: "files fd = Some pr"
  shows "\<exists>r p pr' d'. axiomnet_bind pr port d = Some (r, p, pr', d') \<and> files_inv (files(fd \<mapsto> pr')) d' \<and>
    (r = 0 \<longrightarrow> bound_to (files(fd \<mapsto> pr')) (fd_type pr) (unat p) fd \<and> unat p < 7)"
proof -
  from unbind_inv [OF inv fd] obtain d1 where d1: "axiomnet_unbind pr d = Some (pr\<lparr>bind_port := - 1\<rparr>, d1)"
    and inv1: "files_inv (files(fd \<mapsto> pr\<lparr>bind_port := - 1\<rparr>)) d1" by blast
  let ?t = "fd_type pr" and ?pr = "pr\<lparr>bind_port := - 1\<rparr>"
  have lock: "\<not> dd_lock d" "\<not> dd_lock d1" using inv inv1 by (auto simp: files_inv_def)
  note eq = bind_eq [OF lock(1) d1 lock(2), of port]
  show ?thesis
  proof (cases "bindable ?t")
    case False
    with eq inv1 show ?thesis by (simp add: EFAULT_def)
  next
    case True
    obtain r p m where bm: "bind_mask (used_of ?t d1) port = (r, p, m)" by (cases "bind_mask (used_of ?t d1) port")
    show ?thesis
    proof (cases "r = 0")
      case False
      then have "m = used_of ?t d1" using bind_mask_err [OF bm] by blast
      then have "set_used ?t m d1 = d1" using True by (auto simp: set_used_def used_of_def bindable_def)
      with eq bm False True inv1 show ?thesis by simp
    next
      case r: True
      with bm bind_mask_ok [of "used_of ?t d1" port p m] have p: "unat p < 7" "\<not> bit (used_of ?t d1) (unat p)"
        "m = used_of ?t d1 OR 2 ^ unat p" by auto
      let ?f1 = "files(fd \<mapsto> ?pr)" and ?f = "files(fd \<mapsto> pr\<lparr>bind_port := uint p\<rparr>)" and ?d = "set_used ?t m d1"
      have free: "\<not> bound_to ?f1 ?t (unat p) g" for g using inv1 True p unfolding files_inv_def by blast
      have bt: "bound_to ?f t q g \<longleftrightarrow> bound_to ?f1 t q g \<or> g = fd \<and> t = ?t \<and> q = unat p" for t q g
        by (auto simp: bound_to_upd uint_eq_int)
      have "bit (used_of t ?d) q = (\<exists>g. bound_to ?f t q g)" if t: "bindable t" and q: "q < 7" for t q
      proof -
        have "bit (used_of t d1) q = (\<exists>g. bound_to ?f1 t q g)" using inv1 t q unfolding files_inv_def by blast
        with True t p(1,3) show ?thesis unfolding bt by (cases "t = ?t") (auto simp: bit_set_mask)
      qed
      moreover have "dom ?f = dom ?f1" by auto
      moreover have "int (unat p) < int 7" using p(1) by (simp only: of_nat_less_iff)
      then have "priv_ok (pr\<lparr>bind_port := uint p\<rparr>)" using True by (simp add: priv_ok_def)
      ultimately have "files_inv ?f ?d" using inv1 free unfolding files_inv_def bt
        by (auto split: if_splits)
      with eq bm r True p(1) show ?thesis by (auto simp: bound_to_upd)
    qed
  qed
qed

subsection \<open>Opening and closing files\<close>

definition axiomnet_open :: "fdtype \<Rightarrow> bool \<Rightarrow> ('d, 'u) drvdata \<Rightarrow> (int \<times> priv option \<times> ('d, 'u) drvdata) option" where
  "axiomnet_open t kz d = (case t of
     FDTYPE_GENERIC \<Rightarrow> axiomnet_open_generic kz d
   | FDTYPE_RAW \<Rightarrow> axiomnet_open_raw kz d
   | FDTYPE_LONG \<Rightarrow> axiomnet_open_long kz d
   | FDTYPE_RDMA \<Rightarrow> axiomnet_open_rdma kz d)"

lemma open_eq:
  assumes "\<not> dd_lock d"
  shows "axiomnet_open t kz d = Some (
     if \<not> kz then (- ENOMEM, None, d)
     else if dd_used d \<ge> 64 then (- EBUSY, None, d)
     else (0, Some \<lparr>bind_port = - 1, fd_type = t, rdma_debug = 0\<rparr>, d\<lparr>dd_used := dd_used d + 1\<rparr>))"
  using assms
  by (cases t) (auto simp: axiomnet_open_def axiomnet_open_generic_def axiomnet_open_raw_def axiomnet_open_long_def
      axiomnet_open_rdma_def drv_lock_def drv_unlock_def errno_defs)

lemma open_inv:
  assumes inv: "files_inv files d" and new: "files fd = None"
    and op: "axiomnet_open t kz d = Some (0, Some pr, d')"
  shows "files_inv (files(fd \<mapsto> pr)) d'"
proof -
  from inv have lock: "\<not> dd_lock d" by (simp add: files_inv_def)
  from op open_eq [OF lock, of t kz] have pr: "pr = \<lparr>bind_port = - 1, fd_type = t, rdma_debug = 0\<rparr>"
      "d' = d\<lparr>dd_used := dd_used d + 1\<rparr>" "dd_used d < 64" by (auto simp: errno_defs split: if_splits)
  have bt: "bound_to (files(fd \<mapsto> pr)) t' p g \<longleftrightarrow> bound_to files t' p g" for t' p g
    using new pr(1) by (auto simp: bound_to_def)
  have "fd \<notin> dom files" using new by auto
  with inv pr show ?thesis unfolding files_inv_def bt
    by (auto simp: priv_ok_def)
qed

lemma release_inv:
  assumes inv: "files_inv files d" and fd: "files fd = Some pr"
  shows "\<exists>d'. axiomnet_release pr d = Some d' \<and> files_inv (files(fd := None)) d'"
proof -
  from unbind_inv [OF inv fd] obtain d1 where d1: "axiomnet_unbind pr d = Some (pr\<lparr>bind_port := - 1\<rparr>, d1)"
    and inv1: "files_inv (files(fd \<mapsto> pr\<lparr>bind_port := - 1\<rparr>)) d1" and u: "dd_used d1 = dd_used d" by blast
  let ?f1 = "files(fd \<mapsto> pr\<lparr>bind_port := - 1\<rparr>)" and ?f = "files(fd := None)"
  let ?d = "d1\<lparr>dd_used := dd_used d1 - 1\<rparr>"
  have lock: "\<not> dd_lock d1" using inv1 by (simp add: files_inv_def)
  have bt: "bound_to ?f t p g \<longleftrightarrow> bound_to ?f1 t p g" for t p g by (auto simp: bound_to_def)
  have "fd \<in> dom files" "finite (dom files)" using fd inv by (auto simp: files_inv_def)
  then have "card (dom ?f) = card (dom files) - 1" "0 < card (dom files)"
    by (auto simp: card_gt_0_iff)
  moreover have "dom ?f1 = dom files" using fd by auto
  ultimately have "files_inv ?f ?d" using inv1 u unfolding files_inv_def bt
    by (auto split: if_splits)
  moreover have "axiomnet_release pr d = Some ?d"
    using d1 lock by (simp add: axiomnet_release_def drv_lock_def drv_unlock_def)
  ultimately show ?thesis by blast
qed

subsection \<open>Any sequence of calls\<close>

text \<open>
  One call on one of the open files, or anything else the driver does that leaves the counter, the
  driver mutex and the two masks alone.
\<close>

inductive files_step :: "(nat \<rightharpoonup> priv) \<times> ('d, 'u) drvdata \<Rightarrow> (nat \<rightharpoonup> priv) \<times> ('d, 'u) drvdata \<Rightarrow> bool" where
  open_ok: "files fd = None \<Longrightarrow> axiomnet_open t kz d = Some (0, Some pr, d') \<Longrightarrow>
    files_step (files, d) (files(fd \<mapsto> pr), d')"
| open_fail: "axiomnet_open t kz d = Some (r, None, d') \<Longrightarrow> files_step (files, d) (files, d')"
| bind: "files fd = Some pr \<Longrightarrow> axiomnet_bind pr port d = Some (r, p, pr', d') \<Longrightarrow>
    files_step (files, d) (files(fd \<mapsto> pr'), d')"
| mmap: "files fd = Some pr \<Longrightarrow> axiomnet_mmap remap a b off pr d = Some (r, pr', d') \<Longrightarrow>
    files_step (files, d) (files(fd \<mapsto> pr'), d')"
| release: "files fd = Some pr \<Longrightarrow> axiomnet_release pr d = Some d' \<Longrightarrow>
    files_step (files, d) (files(fd := None), d')"
| other: "dd_used d' = dd_used d \<Longrightarrow> dd_lock d' = dd_lock d \<Longrightarrow> raw_rx_port_used d' = raw_rx_port_used d \<Longrightarrow>
    long_rx_port_used d' = long_rx_port_used d \<Longrightarrow> files_step (files, d) (files, d')"

inductive_cases files_stepE: "files_step (files, d) s'"

definition files_init :: "('d, 'u) drvdata \<Rightarrow> bool" where
  "files_init d \<longleftrightarrow> dd_used d = 0 \<and> \<not> dd_lock d \<and> raw_rx_port_used d = 0 \<and> long_rx_port_used d = 0"

lemma mmap_inv:
  assumes inv: "files_inv files d" and fd: "files fd = Some pr"
    and m: "axiomnet_mmap remap a b off pr d = Some (r, pr', d')"
  shows "files_inv (files(fd \<mapsto> pr')) d'"
proof -
  have "\<not> dd_lock d" using inv by (simp add: files_inv_def)
  with m have "d' = d" "fd_type pr' = fd_type pr" "bind_port pr' = bind_port pr"
    by (auto simp: axiomnet_mmap_def drv_lock_def drv_unlock_def Let_def split: if_splits)
  moreover from this have "bound_to (files(fd \<mapsto> pr')) t p g = bound_to files t p g" for t p g
    using fd by (auto simp: bound_to_def)
  moreover have "dom (files(fd \<mapsto> pr')) = dom files" using fd by auto
  moreover have "priv_ok pr' = priv_ok pr" using calculation(2,3) by (simp add: priv_ok_def)
  ultimately show ?thesis using inv fd unfolding files_inv_def by auto
qed

lemma files_step_inv:
  assumes "files_step (files, d) (files', d')" "files_inv files d" shows "files_inv files' d'"
  using assms(1)
proof (rule files_stepE, goal_cases)
  case (1 fd t kz pr e)
  then show ?case using open_inv [OF assms(2)] by blast
next
  case (2 t kz r e)
  have "\<not> dd_lock d" using assms(2) by (simp add: files_inv_def)
  with 2 show ?case using open_eq [of d t kz] assms(2) by (auto split: if_splits)
next
  case (3 fd pr port r p pr' e)
  then show ?case using bind_inv [OF assms(2), of fd pr port] by auto
next
  case (4 fd pr remap a b off r pr' e)
  then show ?case using mmap_inv [OF assms(2)] by blast
next
  case (5 fd pr e)
  then show ?case using release_inv [OF assms(2), of fd pr] by auto
next
  case (6 e)
  then have "used_of t d' = used_of t d" for t by (simp add: used_of_def)
  then show ?case using assms(2) 6 by (auto simp: files_inv_def)
qed

lemma files_init_inv: "files_init d \<Longrightarrow> files_inv Map.empty d"
  by (auto simp: files_init_def files_inv_def bound_to_def used_of_def)

lemma files_reach_inv:
  "files_step\<^sup>*\<^sup>* s s' \<Longrightarrow> files_inv (fst s) (snd s) \<Longrightarrow> files_inv (fst s') (snd s')"
proof (induction rule: rtranclp_induct)
  case (step y z)
  then show ?case using files_step_inv [of "fst y" "snd y" "fst z" "snd z"] by simp
qed simp

section \<open>Properties\<close>

text \<open>
  Property C18. After any sequence of opens, binds, maps and closes, and whatever the rest of the driver does in
  between: the counter is the number of open files and never exceeds 64, the driver mutex is free,
  a bit of the RAW or LONG mask is set exactly when an open file of that class is bound to the
  port, and no two open files of a class share a port.
\<close>

theorem ports_bound_exclusively:
  assumes "files_init d" and "files_step\<^sup>*\<^sup>* (Map.empty, d) (files, d')"
  shows "dd_used d' = int (card (dom files)) \<and> card (dom files) \<le> 64 \<and> \<not> dd_lock d' \<and>
    (\<forall>t p. bindable t \<longrightarrow> p < 7 \<longrightarrow> bit (used_of t d') p = (\<exists>fd. bound_to files t p fd)) \<and>
    (\<forall>t p fd fd'. bound_to files t p fd \<longrightarrow> bound_to files t p fd' \<longrightarrow> fd = fd')"
proof -
  have "files_inv files d'" using files_reach_inv [OF assms(2)] files_init_inv [OF assms(1)] by simp
  then show ?thesis unfolding files_inv_def by (metis of_nat_le_iff of_nat_numeral)
qed

lemma demo_d_files: "files_init demo_d"
  by (simp add: files_init_def demo_d_def)

lemma demo_open_step:
  "files_step (Map.empty, demo_d) (Map.empty(3 \<mapsto> \<lparr>bind_port = - 1, fd_type = FDTYPE_RAW, rdma_debug = 0\<rparr>),
     demo_d\<lparr>dd_used := dd_used demo_d + 1\<rparr>)"
  by (rule files_step.open_ok [where t = FDTYPE_RAW and kz = True])
    (simp_all add: open_eq demo_d_def)

theorem ports_bound_exclusively_witness:
  "dd_used (demo_d\<lparr>dd_used := dd_used demo_d + 1\<rparr>) =
     int (card (dom [3 :: nat \<mapsto> \<lparr>bind_port = - 1, fd_type = FDTYPE_RAW, rdma_debug = 0\<rparr>]))"
  using ports_bound_exclusively [OF demo_d_files r_into_rtranclp [where r = files_step, OF demo_open_step]] by blast

text \<open>
  Property C19. Binding an open file always returns. It succeeds exactly when the file is a RAW or LONG file and
  the port asked for is free once the file's own binding is given up (or some port is free when any
  port is asked for): then the file is bound to that port, respectively to the lowest free one, and
  the port is below 7. Otherwise the error says why, and the file is left unbound.
\<close>

theorem bind_result:
  assumes inv: "files_inv files d" and fd: "files fd = Some pr"
  shows "\<exists>r p pr' d'. axiomnet_bind pr port d = Some (r, p, pr', d') \<and> files_inv (files(fd \<mapsto> pr')) d' \<and>
    (\<exists>used :: u8. (\<forall>q < 7. bit used q = (\<exists>g. g \<noteq> fd \<and> bound_to files (fd_type pr) q g)) \<and>
      (if \<not> bindable (fd_type pr) then r = - EFAULT
       else if port = AXIOM_PORT_ANY then
         (if \<forall>q < 7. bit used q then r = - EBUSY else r = 0 \<and> (\<forall>q < unat p. bit used q))
       else if unat port \<ge> 7 then r = - EFBIG
       else if bit used (unat port) then r = - EBUSY else r = 0 \<and> p = port)) \<and>
    (if r = 0 then bind_port pr' = uint p \<and> unat p < 7 else bind_port pr' = - 1)"
proof -
  from unbind_inv [OF inv fd] obtain d1 where d1: "axiomnet_unbind pr d = Some (pr\<lparr>bind_port := - 1\<rparr>, d1)"
    and inv1: "files_inv (files(fd \<mapsto> pr\<lparr>bind_port := - 1\<rparr>)) d1" by blast
  let ?t = "fd_type pr" and ?pr = "pr\<lparr>bind_port := - 1\<rparr>"
  have lock: "\<not> dd_lock d" "\<not> dd_lock d1" using inv inv1 by (auto simp: files_inv_def)
  from bind_inv [OF inv fd, of port] obtain r p pr' d' where
    b: "axiomnet_bind pr port d = Some (r, p, pr', d')" "files_inv (files(fd \<mapsto> pr')) d'" by blast
  have used: "\<exists>used :: u8. (\<forall>q < 7. bit used q = (\<exists>g. g \<noteq> fd \<and> bound_to files ?t q g)) \<and> (bindable ?t \<longrightarrow> used = used_of ?t d1)"
  proof (cases "bindable ?t")
    case True
    have "bit (used_of ?t d1) q = (\<exists>g. bound_to (files(fd \<mapsto> ?pr)) ?t q g)" if "q < 7" for q
      using inv1 True that unfolding files_inv_def by blast
    moreover have "bound_to (files(fd \<mapsto> ?pr)) ?t q g \<longleftrightarrow> g \<noteq> fd \<and> bound_to files ?t q g" for q g
      by (simp add: bound_to_upd)
    ultimately show ?thesis by (intro exI [of _ "used_of ?t d1"]) simp
  next
    case False
    have "\<not> bound_to files ?t q g" for q g
    proof
      assume "bound_to files ?t q g"
      then obtain x where x: "files g = Some x" "fd_type x = ?t" "bind_port x = int q" by (auto simp: bound_to_def)
      with inv have "priv_ok x" unfolding files_inv_def by blast
      with x False show False by (simp add: priv_ok_def)
    qed
    then show ?thesis using False by (intro exI [of _ 0]) simp
  qed
  then obtain used where u: "\<forall>q < 7. bit used q = (\<exists>g. g \<noteq> fd \<and> bound_to files ?t q g)"
    "bindable ?t \<longrightarrow> used = used_of ?t d1" by blast
  note eq = bind_eq [OF lock(1) d1 lock(2), of port]
  show ?thesis
  proof (cases "bindable ?t")
    case False
    with eq b u(1) show ?thesis
      by (intro exI [of _ r] exI [of _ p] exI [of _ pr'] exI [of _ d'] conjI exI [of _ used]) (auto simp: EFAULT_def)
  next
    case True
    obtain r' p' m where bm: "bind_mask used port = (r', p', m)" by (cases "bind_mask used port")
    with True eq b(1) u(2) have rp: "r = r'" "p = p'" "pr' = (if r' = 0 then pr\<lparr>bind_port := uint p'\<rparr> else ?pr)" by auto
    have "if r = 0 then bind_port pr' = uint p \<and> unat p < 7 else bind_port pr' = - 1"
      using rp bind_mask_result(2) [OF bm] by simp
    then show ?thesis
      using b u(1) True bind_mask_result(1) [OF bm] unfolding rp(1,2)
      by (intro exI [of _ r'] exI [of _ p'] exI [of _ pr'] exI [of _ d'] conjI exI [of _ used]) simp_all
  qed
qed

theorem bind_result_witness:
  "\<exists>r p pr' d'. axiomnet_bind \<lparr>bind_port = - 1, fd_type = FDTYPE_RAW, rdma_debug = 0\<rparr> 255
     (demo_d\<lparr>dd_used := dd_used demo_d + 1\<rparr>) = Some (r, p, pr', d')"
proof -
  have inv: "files_inv [3 \<mapsto> \<lparr>bind_port = - 1, fd_type = FDTYPE_RAW, rdma_debug = 0\<rparr>] (demo_d\<lparr>dd_used := dd_used demo_d + 1\<rparr>)"
    using files_reach_inv [OF r_into_rtranclp [where r = files_step, OF demo_open_step]] files_init_inv [OF demo_d_files] by simp
  show ?thesis
    using bind_result [OF inv, of 3 "\<lparr>bind_port = - 1, fd_type = FDTYPE_RAW, rdma_debug = 0\<rparr>" 255] by auto
qed

end
