(* ===== verification/DriverRdma.thy ===== *)
theory DriverRdma
  imports DriverPorts
begin

text \<open>
  RDMA requests and their acknowledgements (\<open>axiom_netdev_driver/axiom_netdev_common.c\<close>, lines 518 to
  1019): submitting a request, checking and waiting for tokens, and the worker that handles
  acknowledgements, retransmissions and incoming LONG messages.

  Each outstanding request owns one slot of the RDMA queue, and its message id is the number of the
  slot. The invariant \<open>rdma_inv\<close> says so, and that a slot is outstanding exactly as long as its saved
  header names a destination.
\<close>

section \<open>Submitting a request\<close>

definition axiomnet_rdma_tx_avail :: "'d hw_api \<Rightarrow> ('d, 'u) drvdata \<Rightarrow> bool \<times> ('d, 'u) drvdata" where
  "axiomnet_rdma_tx_avail hw d =
     (let (n, dev) = hw_rdma_tx_avail hw (dev_api d) in
      (n \<noteq> 0 \<and> eviq_free_avail (sq_evi (rdma_queue d)), d\<lparr>dev_api := dev\<rparr>))"

definition rdma_tx_ready :: "'d hw_api \<Rightarrow> ('d, 'u) drvdata \<Rightarrow> (bool \<times> ('d, 'u) drvdata) option" where
  "rdma_tx_ready hw d = Some (axiomnet_rdma_tx_avail hw d)"

abbreviation (input) AXIOCTL_RDMA_FLAGS_ASYNC :: u32 where "AXIOCTL_RDMA_FLAGS_ASYNC \<equiv> 1"

definition get_status :: "int \<Rightarrow> ('d, 'u) drvdata \<Rightarrow> rdma_status option" where
  "get_status i d = do { ds \<leftarrow> sq_desc (rdma_queue d); arr_get ds i }"

definition set_status :: "int \<Rightarrow> rdma_status \<Rightarrow> ('d, 'u) drvdata \<Rightarrow> ('d, 'u) drvdata option" where
  "set_status i rs d = do {
     ds \<leftarrow> sq_desc (rdma_queue d);
     ds \<leftarrow> arr_set ds i rs;
     Some (d\<lparr>rdma_queue := (rdma_queue d)\<lparr>sq_desc := Some ds\<rparr>\<rparr>) }"

text \<open>Giving the slot of a request back; a sender that waits for one is woken.\<close>

definition rdma_free_slot :: "s16 \<Rightarrow> ('d, 'u) drvdata \<Rightarrow> ('d, 'u) drvdata option" where
  "rdma_free_slot slot d = do {
     let avail = eviq_free_avail (sq_evi (rdma_queue d));
     e \<leftarrow> eviq_free_push (sq_evi (rdma_queue d)) slot;
     let d = d\<lparr>rdma_queue := (rdma_queue d)\<lparr>sq_evi := e\<rparr>\<rparr>;
     if \<not> avail then wake_up RdmaTx d else Some d }"

definition rdma_ack_ready :: "int \<Rightarrow> ('d, 'u) drvdata \<Rightarrow> (bool \<times> ('d, 'u) drvdata) option" where
  "rdma_ack_ready i d = do { rs \<leftarrow> get_status i d; Some (rs_ack_received rs, d) }"

text \<open>The header as it goes out: the message id of the slot, error and \<open>s\<close> bits cleared.\<close>

definition rdma_tx_header :: "u8 \<Rightarrow> rdma_hdr \<Rightarrow> rdma_hdr" where
  "rdma_tx_header i h = h\<lparr>dh_msg_id := i, dh_port_type := set_pt_s 0 (set_pt_error 0 (dh_port_type h))\<rparr>"

definition rdma_token :: "rdma_status \<Rightarrow> token \<Rightarrow> token" where
  "rdma_token rs t = set_tk_value (rs_msg_id_counter rs)
     (set_tk_status AXIOM_TOKEN_PENDING (set_tk_msg_id (rs_msg_id rs) t))"

definition rdma_setup :: "s16 \<Rightarrow> rdma_hdr \<Rightarrow> s16 option \<Rightarrow> u32 \<Rightarrow> rdma_status \<Rightarrow> rdma_status" where
  "rdma_setup slot header callback user_flags rs =
     (let rs = rs\<lparr>rs_ack_received := False, rs_queue_slot := slot, rs_retries := 0, rs_header := header\<rparr> in
      case callback of
        Some c \<Rightarrow> rs\<lparr>rs_ack_waiting := False, rs_callback := Some c\<rparr>
      | None \<Rightarrow> rs\<lparr>rs_ack_waiting := (user_flags AND AXIOCTL_RDMA_FLAGS_ASYNC = 0), rs_callback := None\<rparr>)"

text \<open>The part after the slot was taken, from the second \<open>mutex_lock\<close> on.\<close>

definition rdma_tx_submit :: "'d hw_api \<Rightarrow> s16 \<Rightarrow> rdma_hdr \<Rightarrow> ('d, 'u) drvdata wait_ev list \<Rightarrow> ('d, 'u) drvdata \<Rightarrow>
    (int \<times> rdma_hdr \<times> ('d, 'u) drvdata wait_ev list \<times> ('d, 'u) drvdata) option" where
  "rdma_tx_submit hw slot header env d = do {
     d \<leftarrow> mutex_lock RdmaTx d;
     (ret, header, dev) \<leftarrow> hw_rdma_tx hw (dev_api d) header;
     let d = d\<lparr>dev_api := dev\<rparr>;
     if ret \<noteq> dh_msg_id header then do {
       d \<leftarrow> mutex_unlock RdmaTx (inc_stat err_rdma_tx d);
       d \<leftarrow> rdma_free_slot slot d;
       Some (- EFAULT, header, env, d) }
     else do {
       let d = add_stat bytes_rdma_tx (ucast (dh_payload_size header)) (inc_stat pkt_rdma_tx d);
       rs \<leftarrow> get_status (sint slot) d;
       if \<not> rs_ack_waiting rs then do {
         d \<leftarrow> mutex_unlock RdmaTx d;
         Some (uint ret, header, env, d) }
       else do {
         (r, env, d) \<leftarrow> wait_avail (rdma_ack_ready (sint slot)) RdmaTx wait_rdma_rx False env d;
         rs \<leftarrow> get_status (sint slot) d;
         if r \<noteq> 0 then do {
           d \<leftarrow> set_status (sint slot) (rs\<lparr>rs_ack_waiting := False\<rparr>) d;
           Some (- ERESTARTSYS, header, env, d) }
         else do {
           d \<leftarrow> set_status (sint slot) (rs\<lparr>rs_ack_received := False,
                  rs_header := (rs_header rs)\<lparr>dh_node := AXIOM_NULL_NODE\<rparr>\<rparr>) d;
           d \<leftarrow> mutex_unlock RdmaTx d;
           d \<leftarrow> rdma_free_slot slot d;
           Some (uint ret, header, env, d) } } } }"

definition axiomnet_rdma_tx :: "'d hw_api \<Rightarrow> bool \<Rightarrow> rdma_hdr \<Rightarrow> token option \<Rightarrow> s16 option \<Rightarrow> u32 \<Rightarrow>
    ('d, 'u) drvdata wait_ev list \<Rightarrow> ('d, 'u) drvdata \<Rightarrow>
    (int \<times> rdma_hdr \<times> token option \<times> ('d, 'u) drvdata wait_ev list \<times> ('d, 'u) drvdata) option" where
  "axiomnet_rdma_tx hw nonblock header tok callback user_flags env d = do {
     if_mask \<leftarrow> arr_get (routing_table d) (uint (dh_node header));
     if if_mask = 0 then Some (- ENXIO, header, tok, env, d)
     else if tx_src_addr header AND (AXIOM_RDMA_ADDRESS_ALIGNMENT - 1) \<noteq> 0 then Some (- EFAULT, header, tok, env, d)
     else if tx_dst_addr header AND (AXIOM_RDMA_ADDRESS_ALIGNMENT - 1) \<noteq> 0 then Some (- EFAULT, header, tok, env, d)
     else do {
       d \<leftarrow> mutex_lock RdmaTx d;
       (r, env, d) \<leftarrow> wait_avail (rdma_tx_ready hw) RdmaTx wait_rdma_tx nonblock env d;
       if r \<noteq> 0 then Some (r, header, tok, env, d)
       else do {
         (slot, e) \<leftarrow> eviq_free_pop (sq_evi (rdma_queue d));
         d \<leftarrow> mutex_unlock RdmaTx (d\<lparr>rdma_queue := (rdma_queue d)\<lparr>sq_evi := e\<rparr>\<rparr>);
         if slot = EVIQ_NONE then Some (- EFAULT, header, tok, env, d)
         else do {
           rs \<leftarrow> get_status (sint slot) d;
           let header = rdma_tx_header (rs_msg_id rs) header;
           let tok = map_option (rdma_token rs) tok;
           d \<leftarrow> set_status (sint slot) (rdma_setup slot header callback user_flags rs) d;
           (ret, header, env, d) \<leftarrow> rdma_tx_submit hw slot header env d;
           Some (ret, header, tok, env, d) } } } }"

section \<open>Tokens\<close>

fun rdma_check_loop :: "rdma_status list \<Rightarrow> token list \<Rightarrow> nat \<Rightarrow> (token list \<times> nat) option" where
  "rdma_check_loop ds [] acked = Some ([], acked)"
| "rdma_check_loop ds (t # ts) acked =
     (if tk_status t \<noteq> AXIOM_TOKEN_PENDING then do {
        (ts, n) \<leftarrow> rdma_check_loop ds ts (if tk_status t = AXIOM_TOKEN_ACKED then Suc acked else acked);
        Some (t # ts, n) }
      else if unat (tk_msg_id t) \<ge> AXIOM_MSG_ID_NUM then do {
        (ts, n) \<leftarrow> rdma_check_loop ds ts acked;
        Some (set_tk_status AXIOM_TOKEN_INVALID t # ts, n) }
      else do {
        rs \<leftarrow> arr_get ds (uint (tk_msg_id t));
        if rs_msg_id_counter rs \<noteq> tk_value t then do {
          (ts, n) \<leftarrow> rdma_check_loop ds ts (Suc acked);
          Some (set_tk_status AXIOM_TOKEN_ACKED t # ts, n) }
        else do {
          (ts, n) \<leftarrow> rdma_check_loop ds ts acked;
          Some (t # ts, n) } })"

fun bytes_tokens :: "nat \<Rightarrow> u8 list \<Rightarrow> token list" where
  "bytes_tokens 0 bs = []"
| "bytes_tokens (Suc n) bs = le_word (take 8 bs) # bytes_tokens n (drop 8 bs)"

definition tokens_bytes :: "token list \<Rightarrow> u8 list" where
  "tokens_bytes ts = concat (map (le_bytes 8) ts)"

text \<open>
  \<open>axiomnet_rdma_check\<close>; \<open>vm n\<close> is the address \<open>vmalloc(n)\<close> returns. Bytes stored behind the end of the
  buffer are undefined behaviour.
\<close>

definition axiomnet_rdma_check :: "'u uaccess \<Rightarrow> (u64 \<Rightarrow> u64 option) \<Rightarrow> u64 \<Rightarrow> int \<Rightarrow> ('d, 'u) drvdata \<Rightarrow>
    (int \<times> ('d, 'u) drvdata) option" where
  "axiomnet_rdma_check ua vm tokens count d =
     (let n = 8 * of_int count in
      case vm n of
        None \<Rightarrow> Some (- ENOMEM, d)
      | Some kbuf \<Rightarrow>
          let (ret, bs) = axiom_copy_from_user ua (user_mem d) kbuf tokens n in
          if unat n < length bs then None
          else if ret \<noteq> 0 then Some (- EFAULT, d)
          else do {
            ds \<leftarrow> sq_desc (rdma_queue d);
            (ts, acked) \<leftarrow> rdma_check_loop ds (bytes_tokens (nat count) bs) 0;
            (ret, u) \<leftarrow> axiom_copy_to_user ua (user_mem d) tokens kbuf (tokens_bytes ts) n;
            let d = d\<lparr>user_mem := u\<rparr>;
            if ret \<noteq> 0 then Some (- EFAULT, d) else Some (int acked, d) })"

definition rdma_counter_moved :: "int \<Rightarrow> u32 \<Rightarrow> ('d, 'u) drvdata \<Rightarrow> (bool \<times> ('d, 'u) drvdata) option" where
  "rdma_counter_moved i v d = do { rs \<leftarrow> get_status i d; Some (rs_msg_id_counter rs \<noteq> v, d) }"

partial_function (option) rdma_wait_loop :: "int \<Rightarrow> u32 \<Rightarrow> ('d, 'u) drvdata wait_ev list \<Rightarrow> ('d, 'u) drvdata \<Rightarrow>
    (bool \<times> ('d, 'u) drvdata wait_ev list \<times> ('d, 'u) drvdata) option" where
  "rdma_wait_loop i v env d = do {
     (b, d) \<leftarrow> rdma_counter_moved i v d;
     if b then Some (True, env, d)
     else do {
       (ok, env, d) \<leftarrow> wait_event_interruptible (rdma_counter_moved i v) env (inc_stat wait_rdma_rx d);
       if \<not> ok then Some (False, env, d) else rdma_wait_loop i v env d } }"

text \<open>\<open>axiomnet_rdma_wait\<close>; \<open>stk\<close> is the address of the local \<open>token\<close>.\<close>

definition axiomnet_rdma_wait :: "'u uaccess \<Rightarrow> u64 \<Rightarrow> u64 \<Rightarrow> int \<Rightarrow> ('d, 'u) drvdata wait_ev list \<Rightarrow> ('d, 'u) drvdata \<Rightarrow>
    (int \<times> ('d, 'u) drvdata wait_ev list \<times> ('d, 'u) drvdata) option" where
  "axiomnet_rdma_wait ua stk tokens count env d =
     (if count \<noteq> 1 then Some (- EINVAL, env, d)
      else
        let (ret, bs) = axiom_copy_from_user ua (user_mem d) stk tokens 8 in
        if 8 < length bs then None
        else if ret \<noteq> 0 then Some (- EFAULT, env, d)
        else
          let t = le_word bs :: token in
          if tk_status t \<noteq> AXIOM_TOKEN_PENDING then Some (0, env, d)
          else if unat (tk_msg_id t) \<ge> AXIOM_MSG_ID_NUM then Some (- EINVAL, env, d)
          else do {
            (ok, env, d) \<leftarrow> rdma_wait_loop (uint (tk_msg_id t)) (tk_value t) env d;
            if \<not> ok then Some (- ERESTARTSYS, env, d)
            else do {
              (ret, u) \<leftarrow> axiom_copy_to_user ua (user_mem d) tokens stk
                             (le_bytes 8 (set_tk_status AXIOM_TOKEN_ACKED t)) 8;
              let d = d\<lparr>user_mem := u\<rparr>;
              if ret \<noteq> 0 then Some (- EFAULT, env, d) else Some (0, env, d) } })"

section \<open>The receive worker\<close>

definition axiomnet_rdma_rx_work_todo :: "'d hw_api \<Rightarrow> ('d, 'u) drvdata \<Rightarrow> bool \<times> ('d, 'u) drvdata" where
  "axiomnet_rdma_rx_work_todo hw d =
     (let (n, dev) = hw_rdma_rx_avail hw (dev_api d) in (n \<noteq> 0, d\<lparr>dev_api := dev\<rparr>))"

definition axiomnet_long_callback :: "s16 \<Rightarrow> ('d, 'u) drvdata \<Rightarrow> ('d, 'u) drvdata option" where
  "axiomnet_long_callback slot d = do {
     e \<leftarrow> eviq_free_push (sq_evi (long_tx_queue d)) slot;
     wake_up LongTx (d\<lparr>long_tx_queue := (long_tx_queue d)\<lparr>sq_evi := e\<rparr>\<rparr>) }"

text \<open>\<open>while (!axiom_hw_rdma_tx_avail(...)) msleep(1)\<close>: every turn reads the register again.\<close>

partial_function (option) wait_tx_space :: "'d hw_api \<Rightarrow> 'd \<Rightarrow> 'd option" where
  "wait_tx_space hw v = (let (n, v) = hw_rdma_tx_avail hw v in if n \<noteq> 0 then Some v else wait_tx_space hw v)"

text \<open>
  The retransmission of a request the remote node refused; the boolean says whether it went out.
  The counter of retries is a \<open>uint8_t\<close>.
\<close>

definition rdma_retry :: "'d hw_api \<Rightarrow> int \<Rightarrow> ('d, 'u) drvdata \<Rightarrow> (bool \<times> ('d, 'u) drvdata) option" where
  "rdma_retry hw i d = do {
     d \<leftarrow> mutex_lock RdmaTx d;
     v \<leftarrow> wait_tx_space hw (dev_api d);
     rs \<leftarrow> get_status i d;
     (ret, h, v) \<leftarrow> hw_rdma_tx hw v (rs_header rs);
     d \<leftarrow> mutex_unlock RdmaTx (d\<lparr>dev_api := v\<rparr>);
     d \<leftarrow> set_status i (rs\<lparr>rs_header := h, rs_retries := rs_retries rs + 1\<rparr>) d;
     Some (ret = dh_msg_id h, inc_stat retries_rdma d) }"

text \<open>Completion of a request: wake its waiter, or run the callback and free the slot.\<close>

definition rdma_complete :: "int \<Rightarrow> ('d, 'u) drvdata \<Rightarrow> ('d, 'u) drvdata option" where
  "rdma_complete i d = do {
     rs \<leftarrow> get_status i d;
     let rs = rs\<lparr>rs_msg_id_counter := rs_msg_id_counter rs + 1\<rparr>;
     d \<leftarrow> set_status i rs d;
     d \<leftarrow> (if rs_ack_waiting rs then set_status i (rs\<lparr>rs_ack_received := True\<rparr>) d
           else do {
             d \<leftarrow> (case rs_callback rs of None \<Rightarrow> Some d | Some s \<Rightarrow> axiomnet_long_callback s d);
             d \<leftarrow> set_status i (rs\<lparr>rs_ack_received := False,
                    rs_header := (rs_header rs)\<lparr>dh_node := AXIOM_NULL_NODE\<rparr>\<rparr>) d;
             let avail = eviq_free_avail (sq_evi (rdma_queue d));
             e \<leftarrow> eviq_free_push (sq_evi (rdma_queue d)) (rs_queue_slot rs);
             let d = d\<lparr>rdma_queue := (rdma_queue d)\<lparr>sq_evi := e\<rparr>\<rparr>;
             if avail then wake_up RdmaTx d else Some d });
     rs \<leftarrow> get_status i d;
     set_status i (rs\<lparr>rs_wakes := Suc (rs_wakes rs)\<rparr>) d }"

definition rdma_rx_ack :: "'d hw_api \<Rightarrow> u8 \<Rightarrow> rdma_hdr \<Rightarrow> ('d, 'u) drvdata \<Rightarrow> ('d, 'u) drvdata option" where
  "rdma_rx_ack hw msg_id h d = do {
     rs \<leftarrow> get_status (uint msg_id) d;
     if dh_node (rs_header rs) \<noteq> dh_node h then Some (inc_stat err_rdma_rx d)
     else do {
       (sent, d) \<leftarrow> (if pt_error (dh_port_type h) = 1 \<and> unat (rs_retries rs) < AXIOMNET_MAX_RDMA_RETRY
                      then rdma_retry hw (uint msg_id) d else Some (False, d));
       if sent then Some d
       else do {
         let d = (if pt_error (dh_port_type h) = 1 then inc_stat discarded_rdma d else d);
         d \<leftarrow> rdma_complete (uint msg_id) d;
         Some (add_stat bytes_rdma_rx (ucast (dh_payload_size h)) (inc_stat pkt_rdma_rx d)) } } }"

definition rdma_rx_long :: "rdma_hdr \<Rightarrow> ('d, 'u) drvdata \<Rightarrow> ('d, 'u) drvdata option" where
  "rdma_rx_long h d =
     (if pt_type (dh_port_type h) = AXIOM_TYPE_RDMA_WRITE then
        Some (add_stat bytes_rdma_rx (ucast (dh_payload_size h)) (inc_stat pkt_rdma_rx d))
      else if pt_type (dh_port_type h) \<noteq> AXIOM_TYPE_LONG_DATA then Some (inc_stat err_rdma_rx d)
      else do {
        (slot, e) \<leftarrow> eviq_free_pop (sq_evi (long_rx_queue d));
        let d = d\<lparr>long_rx_queue := (long_rx_queue d)\<lparr>sq_evi := e\<rparr>\<rparr>;
        if slot = EVIQ_NONE then Some (inc_stat err_long_rx d)
        else do {
          ds \<leftarrow> sq_desc (long_rx_queue d);
          m \<leftarrow> arr_get ds (sint slot);
          ds \<leftarrow> arr_set ds (sint slot) (m\<lparr>lm_header := h\<rparr>);
          let d = d\<lparr>long_rx_queue := (long_rx_queue d)\<lparr>sq_desc := Some ds\<rparr>\<rparr>;
          let port = uint (pt_port (dh_port_type h));
          if port < 0 \<or> port > AXIOM_PORT_MAX then do {
            let d = inc_stat err_long_rx d;
            e \<leftarrow> eviq_free_push (sq_evi (long_rx_queue d)) slot;
            Some (d\<lparr>long_rx_queue := (long_rx_queue d)\<lparr>sq_evi := e\<rparr>\<rparr>) }
          else do {
            avail \<leftarrow> eviq_avail (sq_evi (long_rx_queue d)) port;
            e \<leftarrow> eviq_enqueue (sq_evi (long_rx_queue d)) port slot;
            let d = d\<lparr>long_rx_queue := (long_rx_queue d)\<lparr>sq_evi := e\<rparr>\<rparr>;
            d \<leftarrow> (if \<not> avail then wake_up (LongRx port) d else Some d);
            Some (add_stat bytes_long_rx (ucast (dh_payload_size h)) (inc_stat pkt_long_rx d)) } } })"

definition rdma_rx_body :: "'d hw_api \<Rightarrow> rdma_hdr \<Rightarrow> ('d, 'u) drvdata \<Rightarrow> (rdma_hdr \<times> ('d, 'u) drvdata) option" where
  "rdma_rx_body hw old d = do {
     (msg_id, h, dev) \<leftarrow> hw_rdma_rx hw (dev_api d) old;
     let d = d\<lparr>dev_api := dev\<rparr>;
     d \<leftarrow> (if pt_s (dh_port_type h) = 1 then rdma_rx_ack hw msg_id h d else rdma_rx_long h d);
     Some (h, d) }"

text \<open>\<open>axiom_rdma_rx_dequeue\<close>; \<open>old\<close> is what the local header holds before the first packet.\<close>

partial_function (option) axiom_rdma_rx_dequeue :: "'d hw_api \<Rightarrow> rdma_hdr \<Rightarrow> ('d, 'u) drvdata \<Rightarrow> ('d, 'u) drvdata option" where
  "axiom_rdma_rx_dequeue hw old d =
     (let (todo, d) = axiomnet_rdma_rx_work_todo hw d in
      if \<not> todo then Some d
      else do {
        (h, d) \<leftarrow> rdma_rx_body hw old d;
        axiom_rdma_rx_dequeue hw h d })"

section \<open>The invariant of the request table\<close>

text \<open>
  \<open>own\<close> are the slots of the requests in flight. The descriptor of slot \<open>i\<close> has message id \<open>i\<close>; it
  names a destination exactly while the request is in flight, and then it remembers its own slot.
\<close>

definition rdma_slot :: "('d, 'u) drvdata \<Rightarrow> nat \<Rightarrow> rdma_status" where
  "rdma_slot d i = (case sq_desc (rdma_queue d) of Some ds \<Rightarrow> ds ! i | None \<Rightarrow> undefined)"

definition rdma_in_flight :: "rdma_status \<Rightarrow> bool" where
  "rdma_in_flight rs \<longleftrightarrow> dh_node (rs_header rs) \<noteq> AXIOM_NULL_NODE"

definition rdma_table :: "nat set \<Rightarrow> rdma_status list \<Rightarrow> bool" where
  "rdma_table own ds \<longleftrightarrow> length ds = AXIOM_MSG_ID_NUM \<and>
     (\<forall>i < AXIOM_MSG_ID_NUM. rs_msg_id (ds ! i) = of_nat i \<and> (i \<in> own \<longleftrightarrow> rdma_in_flight (ds ! i)) \<and>
        (i \<in> own \<longrightarrow> rs_queue_slot (ds ! i) = of_nat i))"

definition rdma_inv :: "('d, 'u) drvdata \<Rightarrow> nat set \<Rightarrow> bool" where
  "rdma_inv d own \<longleftrightarrow> (\<exists>fs ds. swq_rep (rdma_queue d) fs [] own ds \<and> rdma_table own ds)"

text \<open>The slot of a LONG buffer a completion gives back is owned by the sender.\<close>

definition callback_ok :: "('d, 'u) drvdata \<Rightarrow> s16 option \<Rightarrow> bool" where
  "callback_ok d cb \<longleftrightarrow> (case cb of None \<Rightarrow> True
     | Some s \<Rightarrow> \<exists>fs own ds k. swq_rep (long_tx_queue d) fs [] own ds \<and> k \<in> own \<and> s = of_nat k)"

text \<open>What the request path may touch: its table and port, the LONG TX queue and port, and counters.\<close>

definition rdma_frame :: "('d, 'u) drvdata \<Rightarrow> ('d, 'u) drvdata \<Rightarrow> bool" where
  "rdma_frame d d' \<longleftrightarrow> d' = d\<lparr>rdma_queue := rdma_queue d', rdma_port := rdma_port d',
     long_tx_queue := long_tx_queue d', long_tx_port := long_tx_port d', dd_stats := dd_stats d'\<rparr>"

lemma rdma_frame_refl [simp]: "rdma_frame d d"
  by (simp add: rdma_frame_def)

lemma rdma_frame_trans: "rdma_frame d d1 \<Longrightarrow> rdma_frame d1 d2 \<Longrightarrow> rdma_frame d d2"
  unfolding rdma_frame_def by (cases d; cases d1; cases d2) simp

lemma rdma_invE:
  assumes "rdma_inv d own"
  obtains fs ds where "swq_rep (rdma_queue d) fs [] own ds" "rdma_table own ds" "sq_desc (rdma_queue d) = Some ds"
    "length ds = 256" "own \<subseteq> {..<256}" "rdma_slot d = (!) ds"
proof -
  from assms obtain fs ds where *: "swq_rep (rdma_queue d) fs [] own ds" "rdma_table own ds"
    by (auto simp: rdma_inv_def)
  then have "sq_desc (rdma_queue d) = Some ds" "length ds = 256" "own \<subseteq> {..<256}"
    by (auto simp: swq_rep_def rdma_table_def)
  with * show ?thesis by (auto intro!: that simp: rdma_slot_def)
qed

lemma status_access:
  assumes "sq_desc (rdma_queue d) = Some ds" "i < length ds"
  shows "get_status (int i) d = Some (ds ! i)"
    and "set_status (int i) rs d = Some (d\<lparr>rdma_queue := (rdma_queue d)\<lparr>sq_desc := Some (ds[i := rs])\<rparr>\<rparr>)"
  using assms by (simp_all add: get_status_def set_status_def)

lemma rdma_table_free:
  assumes "rdma_table own ds" "i < 256" "rs_msg_id rs = of_nat i" "\<not> rdma_in_flight rs"
  shows "rdma_table (own - {i}) (ds[i := rs])"
  using assms by (auto simp: rdma_table_def nth_list_update)

lemma rdma_table_take:
  assumes "rdma_table own ds" "i < 256" "rs_msg_id rs = of_nat i" "rdma_in_flight rs" "rs_queue_slot rs = of_nat i"
  shows "rdma_table (insert i own) (ds[i := rs])"
  using assms by (auto simp: rdma_table_def nth_list_update)

lemma rdma_table_keep:
  assumes "rdma_table own ds" "i < 256" "rs_msg_id rs = rs_msg_id (ds ! i)" "dh_node (rs_header rs) = dh_node (rs_header (ds ! i))"
    "rs_queue_slot rs = rs_queue_slot (ds ! i)"
  shows "rdma_table own (ds[i := rs])"
  using assms by (auto simp: rdma_table_def nth_list_update rdma_in_flight_def)

section \<open>Completing a request\<close>

lemma long_callback_ok:
  fixes d :: "('d, 'u) drvdata"
  assumes "callback_ok d (Some s)"
  shows "\<exists>e p. (\<forall>d1 :: ('d, 'u) drvdata. long_tx_queue d1 = long_tx_queue d \<longrightarrow> long_tx_port d1 = long_tx_port d \<longrightarrow>
       axiomnet_long_callback s d1 = Some (d1\<lparr>long_tx_queue := (long_tx_queue d)\<lparr>sq_evi := e\<rparr>, long_tx_port := p\<rparr>)) \<and>
     sp_mutex p = sp_mutex (long_tx_port d) \<and>
     (\<forall>fs own ds k. swq_rep (long_tx_queue d) fs [] own ds \<longrightarrow> k \<in> own \<longrightarrow> s = of_nat k \<longrightarrow>
        swq_rep ((long_tx_queue d)\<lparr>sq_evi := e\<rparr>) (k # fs) [] (own - {k}) ds)"
proof -
  from assms obtain fs own ds k where "swq_rep (long_tx_queue d) fs [] own ds" "k \<in> own" "s = of_nat k"
    by (auto simp: callback_ok_def)
  from swq_push [OF this(1,2)] this(3) obtain e where e: "eviq_free_push (sq_evi (long_tx_queue d)) s = Some e"
    by auto
  have "swq_rep ((long_tx_queue d)\<lparr>sq_evi := e\<rparr>) (k # fs) [] (own - {k}) ds"
    if "swq_rep (long_tx_queue d) fs [] own ds" "k \<in> own" "s = of_nat k" for fs own ds k
    using swq_push [OF that(1,2)] e that(3) by auto
  then show ?thesis unfolding axiomnet_long_callback_def wake_up_def
    by (intro exI [of _ e] exI [of _ "(long_tx_port d)\<lparr>sp_wakes := Suc (sp_wakes (long_tx_port d))\<rparr>"]) (auto simp: e)
qed

text \<open>
  The sending path of a waiter: the request stays in flight until its thread runs, and the flag
  \<open>ack_received\<close> tells it to go on.
\<close>

lemma rdma_complete_waiting:
  assumes inv: "rdma_inv d own" and i: "i < 256" and w: "rs_ack_waiting (rdma_slot d i)"
  shows "\<exists>d'. rdma_complete (int i) d = Some d' \<and> rdma_inv d' own \<and>
    d' = d\<lparr>rdma_queue := rdma_queue d'\<rparr> \<and> sq_evi (rdma_queue d') = sq_evi (rdma_queue d) \<and>
    rdma_slot d' i = (rdma_slot d i)\<lparr>rs_msg_id_counter := rs_msg_id_counter (rdma_slot d i) + 1,
        rs_ack_received := True, rs_wakes := Suc (rs_wakes (rdma_slot d i))\<rparr> \<and>
    (\<forall>j. j \<noteq> i \<longrightarrow> rdma_slot d' j = rdma_slot d j)"
proof -
  from inv obtain fs ds where rep: "swq_rep (rdma_queue d) fs [] own ds" and t: "rdma_table own ds"
    and ds: "sq_desc (rdma_queue d) = Some ds" "length ds = 256" and own: "own \<subseteq> {..<256}"
    and sl: "rdma_slot d = (!) ds" by (rule rdma_invE)
  let ?rs = "(ds ! i)\<lparr>rs_msg_id_counter := rs_msg_id_counter (ds ! i) + 1,
        rs_ack_received := True, rs_wakes := Suc (rs_wakes (ds ! i))\<rparr>"
  let ?d = "d\<lparr>rdma_queue := (rdma_queue d)\<lparr>sq_desc := Some (ds[i := ?rs])\<rparr>\<rparr>"
  have "rdma_complete (int i) d = Some ?d"
    using ds i w sl by (simp add: rdma_complete_def status_access)
  moreover have "rdma_inv ?d own" unfolding rdma_inv_def
    using rep rdma_table_keep [OF t i, of ?rs] by (intro exI [of _ fs] exI [of _ "ds[i := ?rs]"]) (auto simp: swq_rep_def)
  ultimately show ?thesis using i ds sl by (intro exI [of _ ?d]) (auto simp: rdma_slot_def)
qed

lemma rdma_complete_async:
  assumes inv: "rdma_inv d own" and i: "i \<in> own" and w: "\<not> rs_ack_waiting (rdma_slot d i)"
    and cb: "callback_ok d (rs_callback (rdma_slot d i))"
  shows "\<exists>d'. rdma_complete (int i) d = Some d' \<and> rdma_inv d' (own - {i}) \<and> rdma_frame d d' \<and>
    sp_mutex (rdma_port d') = sp_mutex (rdma_port d) \<and> swq_free (rdma_queue d') = Suc (swq_free (rdma_queue d)) \<and>
    \<not> rdma_in_flight (rdma_slot d' i) \<and> rs_msg_id_counter (rdma_slot d' i) = rs_msg_id_counter (rdma_slot d i) + 1 \<and>
    (\<forall>j. j \<noteq> i \<longrightarrow> rdma_slot d' j = rdma_slot d j) \<and> dd_stats d' = dd_stats d \<and>
    (case rs_callback (rdma_slot d i) of None \<Rightarrow> long_tx_queue d' = long_tx_queue d \<and> long_tx_port d' = long_tx_port d
     | Some s \<Rightarrow> sp_mutex (long_tx_port d') = sp_mutex (long_tx_port d) \<and>
        (\<forall>lfs lown lds k. swq_rep (long_tx_queue d) lfs [] lown lds \<longrightarrow> k \<in> lown \<longrightarrow> s = of_nat k \<longrightarrow>
           swq_rep (long_tx_queue d') (k # lfs) [] (lown - {k}) lds))"
proof -
  from inv obtain fs ds where rep: "swq_rep (rdma_queue d) fs [] own ds" and t: "rdma_table own ds"
    and ds: "sq_desc (rdma_queue d) = Some ds" "length ds = 256" and own: "own \<subseteq> {..<256}"
    and sl: "rdma_slot d = (!) ds" by (rule rdma_invE)
  from own i have i256: "i < 256" by auto
  let ?rs = "(ds ! i)\<lparr>rs_msg_id_counter := rs_msg_id_counter (ds ! i) + 1, rs_ack_received := False,
     rs_header := (rs_header (ds ! i))\<lparr>dh_node := AXIOM_NULL_NODE\<rparr>, rs_wakes := Suc (rs_wakes (ds ! i))\<rparr>"
  from swq_push [OF rep i] obtain e where push: "eviq_free_push (sq_evi (rdma_queue d)) (of_nat i) = Some e"
    and rep1: "swq_rep ((rdma_queue d)\<lparr>sq_evi := e\<rparr>) (i # fs) [] (own - {i}) ds" by auto
  let ?q = "(rdma_queue d)\<lparr>sq_evi := e, sq_desc := Some (ds[i := ?rs])\<rparr>"
  have qs: "rs_queue_slot (ds ! i) = of_nat i" using t i i256 by (simp add: rdma_table_def)
  have rep2: "swq_rep ?q (i # fs) [] (own - {i}) (ds[i := ?rs])" using rep1 by (auto simp: swq_rep_def)
  have free: "swq_free ?q = Suc (swq_free (rdma_queue d))"
    using swq_rep_contents(1) [OF rep] swq_rep_contents(1) [OF rep2] by simp
  have t2: "rdma_table (own - {i}) (ds[i := ?rs])"
    using t i256 by (intro rdma_table_free) (auto simp: rdma_table_def rdma_in_flight_def)
  let ?wk = "\<lambda>p. if fs \<noteq> [] then p\<lparr>sp_wakes := Suc (sp_wakes p)\<rparr> else p"
  obtain lq lp where l: "\<forall>d1 :: ('a, 'b) drvdata. long_tx_queue d1 = long_tx_queue d \<longrightarrow> long_tx_port d1 = long_tx_port d \<longrightarrow>
        (case rs_callback (ds ! i) of None \<Rightarrow> Some d1 | Some s \<Rightarrow> axiomnet_long_callback s d1) =
        Some (d1\<lparr>long_tx_queue := lq, long_tx_port := lp\<rparr>)"
    and lok: "case rs_callback (ds ! i) of None \<Rightarrow> lq = long_tx_queue d \<and> lp = long_tx_port d
     | Some s \<Rightarrow> sp_mutex lp = sp_mutex (long_tx_port d) \<and>
        (\<forall>lfs lown lds k. swq_rep (long_tx_queue d) lfs [] lown lds \<longrightarrow> k \<in> lown \<longrightarrow> s = of_nat k \<longrightarrow>
           swq_rep lq (k # lfs) [] (lown - {k}) lds)"
  proof (cases "rs_callback (ds ! i)")
    case None
    show ?thesis by (rule that [of "long_tx_port d" "long_tx_queue d"]) (auto simp: None)
  next
    case (Some s)
    with cb sl have "callback_ok d (Some s)" by simp
    from long_callback_ok [OF this] obtain e p where
      *: "\<forall>d1 :: ('a, 'b) drvdata. long_tx_queue d1 = long_tx_queue d \<longrightarrow> long_tx_port d1 = long_tx_port d \<longrightarrow>
        axiomnet_long_callback s d1 = Some (d1\<lparr>long_tx_queue := (long_tx_queue d)\<lparr>sq_evi := e\<rparr>, long_tx_port := p\<rparr>)"
      "sp_mutex p = sp_mutex (long_tx_port d)"
      "\<forall>fs own ds k. swq_rep (long_tx_queue d) fs [] own ds \<longrightarrow> k \<in> own \<longrightarrow> s = of_nat k \<longrightarrow>
        swq_rep ((long_tx_queue d)\<lparr>sq_evi := e\<rparr>) (k # fs) [] (own - {k}) ds" by blast
    show ?thesis by (rule that [of p "(long_tx_queue d)\<lparr>sq_evi := e\<rparr>"]) (simp_all add: * Some)
  qed
  let ?d = "d\<lparr>rdma_queue := ?q, rdma_port := ?wk (rdma_port d), long_tx_queue := lq, long_tx_port := lp\<rparr>"
  have "rdma_complete (int i) d = Some ?d"
    using ds i256 w sl l push qs swq_avail(2) [OF rep]
    by (simp add: rdma_complete_def status_access wake_up_def Let_def)
  moreover have "rdma_inv ?d (own - {i})" using rep2 t2 by (auto simp: rdma_inv_def)
  ultimately show ?thesis using i256 ds sl free lok
    by (intro exI [of _ ?d]) (auto simp: rdma_slot_def rdma_frame_def rdma_in_flight_def split: option.splits)
qed

section \<open>Submitting a request\<close>

text \<open>The promise of the hardware interface: a request goes out as given and its message id is returned.\<close>

definition rdma_tx_echo :: "'d hw_api \<Rightarrow> bool" where
  "rdma_tx_echo hw \<longleftrightarrow> (\<forall>v h. \<exists>v'. hw_rdma_tx hw v h = Some (dh_msg_id h, h, v'))"

text \<open>A request the handler accepts: its node is reachable and its addresses are aligned.\<close>

definition rdma_valid :: "('d, 'u) drvdata \<Rightarrow> rdma_hdr \<Rightarrow> bool" where
  "rdma_valid d h \<longleftrightarrow> length (routing_table d) = AXIOM_NODES_NUM \<and> routing_table d ! unat (dh_node h) \<noteq> 0 \<and>
     dh_node h \<noteq> AXIOM_NULL_NODE \<and> tx_src_addr h AND 7 = 0 \<and> tx_dst_addr h AND 7 = 0"

definition rdma_next :: "('d, 'u) drvdata \<Rightarrow> nat" where
  "rdma_next d = hd (eviq_free_slots (sq_evi (rdma_queue d)))"

definition rdma_taken :: "('d, 'u) drvdata \<Rightarrow> evi_queue \<Rightarrow> rdma_status \<Rightarrow> ('d, 'u) drvdata" where
  "rdma_taken d e rs = d\<lparr>rdma_queue := (rdma_queue d)\<lparr>sq_evi := e,
     sq_desc := Some ((the (sq_desc (rdma_queue d)))[rdma_next d := rs])\<rparr>\<rparr>"

lemma rdma_next_dev [simp]: "rdma_next (d\<lparr>dev_api := v\<rparr>) = rdma_next d"
  by (simp add: rdma_next_def)

lemma rdma_pop:
  assumes inv: "rdma_inv d own" and free: "swq_free (rdma_queue d) \<noteq> 0"
  shows "\<exists>e. eviq_free_pop (sq_evi (rdma_queue d)) = Some (of_nat (rdma_next d), e) \<and> rdma_next d \<notin> own \<and>
    rdma_next d < 256 \<and> sint (of_nat (rdma_next d) :: s16) = int (rdma_next d) \<and>
    (of_nat (rdma_next d) :: s16) \<noteq> EVIQ_NONE \<and> eviq_free_avail (sq_evi (rdma_queue d)) \<and>
    (\<forall>rs. rs_msg_id rs = of_nat (rdma_next d) \<longrightarrow> rdma_in_flight rs \<longrightarrow> rs_queue_slot rs = of_nat (rdma_next d) \<longrightarrow>
      rdma_inv (rdma_taken d e rs) (insert (rdma_next d) own) \<and>
      Suc (swq_free (rdma_queue (rdma_taken d e rs))) = swq_free (rdma_queue d))"
proof -
  from inv obtain fs0 ds where rep0: "swq_rep (rdma_queue d) fs0 [] own ds" and t: "rdma_table own ds"
    and ds: "sq_desc (rdma_queue d) = Some ds" "length ds = 256" and own: "own \<subseteq> {..<256}"
    and sl: "rdma_slot d = (!) ds" by (rule rdma_invE)
  from free swq_rep_contents(1) [OF rep0] obtain i fs where fs: "fs0 = i # fs" by (cases fs0) auto
  note rep = rep0 [unfolded fs]
  have i: "rdma_next d = i"
    using eviq_rep_walks(1) [of "sq_evi (rdma_queue d)" "i # fs" "[]" own] rep by (simp add: rdma_next_def swq_rep_def)
  from swq_pop [OF rep] obtain e where e: "eviq_free_pop (sq_evi (rdma_queue d)) = Some (of_nat i, e)"
    "swq_rep ((rdma_queue d)\<lparr>sq_evi := e\<rparr>) fs [] (insert i own) ds" by auto
  have i256: "i < 256" using swq_rep_slot(1) [OF rep, of i] ds by simp
  have *: "swq_rep (rdma_queue (rdma_taken d e rs)) fs [] (insert i own) (ds[i := rs])" for rs
    using swq_write [OF e(2), of i rs] i ds by (simp add: rdma_taken_def swq_rep_def)
  show ?thesis unfolding i
  proof (intro exI [of _ e] conjI allI impI)
    show "i \<notin> own" using rep eviq.popped_not_owned [of "sq_evi (rdma_queue d)" i fs "[]" own] by (auto simp: swq_rep_def)
    fix rs assume rs: "rs_msg_id rs = of_nat i" "rdma_in_flight rs" "rs_queue_slot rs = of_nat i"
    show "rdma_inv (rdma_taken d e rs) (insert i own)"
      using * rdma_table_take [OF t i256 rs] by (auto simp: rdma_inv_def)
    show "Suc (swq_free (rdma_queue (rdma_taken d e rs))) = swq_free (rdma_queue d)"
      using swq_rep_contents(1) [OF *] swq_rep_contents(1) [OF rep] by simp
  qed (use e i256 swq_rep_slot(2,3) [OF rep, of i] swq_avail(2) [OF rep] in auto)
qed

lemma rdma_lock_cycle:
  "\<not> sp_mutex (rdma_port d) \<Longrightarrow> mutex_lock RdmaTx d = Some (d\<lparr>rdma_port := (rdma_port d)\<lparr>sp_mutex := True\<rparr>\<rparr>)"
  "sp_mutex (rdma_port d) \<Longrightarrow> mutex_unlock RdmaTx d = Some (d\<lparr>rdma_port := (rdma_port d)\<lparr>sp_mutex := False\<rparr>\<rparr>)"
  by (simp_all add: mutex_lock_def mutex_unlock_def)

lemma rdma_setup_simps [simp]:
  "rs_msg_id (rdma_setup s h cb fl rs) = rs_msg_id rs" "rs_queue_slot (rdma_setup s h cb fl rs) = s"
  "rs_header (rdma_setup s h cb fl rs) = h" "rs_callback (rdma_setup s h cb fl rs) = cb"
  "rs_msg_id_counter (rdma_setup s h cb fl rs) = rs_msg_id_counter rs" "\<not> rs_ack_received (rdma_setup s h cb fl rs)"
  "rs_ack_waiting (rdma_setup s h cb fl rs) \<longleftrightarrow> cb = None \<and> fl AND AXIOCTL_RDMA_FLAGS_ASYNC = 0"
  by (simp_all add: rdma_setup_def Let_def split: option.split)

lemma rdma_tx_header_simps [simp]:
  "dh_node (rdma_tx_header i h) = dh_node h" "dh_msg_id (rdma_tx_header i h) = i"
  by (simp_all add: rdma_tx_header_def)

text \<open>
  The whole first part of \<open>axiomnet_rdma_tx\<close>: with room in the hardware queue and in the table it
  comes to the submission of the header with the id of the next free slot, which it has set up.
\<close>

lemma rdma_tx_prepare:
  assumes inv: "rdma_inv d own" and free: "swq_free (rdma_queue d) \<noteq> 0" and mx: "\<not> sp_mutex (rdma_port d)"
    and v: "rdma_valid d h" and hw: "hw_rdma_tx_avail hw (dev_api d) = (n, dev)" "n \<noteq> 0"
  defines "i \<equiv> rdma_next d"
  defines "h' \<equiv> rdma_tx_header (of_nat i) h"
  shows "\<exists>e. (\<forall>env. axiomnet_rdma_tx hw nonblock h tok cb flags env d = do {
      (ret, h, env, d') \<leftarrow> rdma_tx_submit hw (of_nat i) h' env
         (rdma_taken (d\<lparr>dev_api := dev\<rparr>) e (rdma_setup (of_nat i) h' cb flags (rdma_slot d i)));
      Some (ret, h, map_option (rdma_token (rdma_slot d i)) tok, env, d') }) \<and>
    i \<notin> own \<and> i < 256 \<and>
    rdma_inv (rdma_taken d e (rdma_setup (of_nat i) h' cb flags (rdma_slot d i))) (insert i own) \<and>
    Suc (swq_free (rdma_queue (rdma_taken d e (rdma_setup (of_nat i) h' cb flags (rdma_slot d i))))) =
      swq_free (rdma_queue d)"
proof -
  from inv obtain fs ds where rep: "swq_rep (rdma_queue d) fs [] own ds" and t: "rdma_table own ds"
    and ds: "sq_desc (rdma_queue d) = Some ds" "length ds = 256" and own: "own \<subseteq> {..<256}"
    and sl: "rdma_slot d = (!) ds" by (rule rdma_invE)
  let ?rs = "rdma_setup (of_nat i) h' cb flags (ds ! i)"
  from rdma_pop [OF inv free] obtain e where
    e: "eviq_free_pop (sq_evi (rdma_queue d)) = Some (of_nat i, e)" and i: "i \<notin> own" "i < 256"
      "sint (of_nat i :: s16) = int i" "(of_nat i :: s16) \<noteq> EVIQ_NONE" "eviq_free_avail (sq_evi (rdma_queue d))"
    and taken: "\<And>rs. rs_msg_id rs = of_nat i \<Longrightarrow> rdma_in_flight rs \<Longrightarrow> rs_queue_slot rs = of_nat i \<Longrightarrow>
      rdma_inv (rdma_taken d e rs) (insert i own) \<and>
      Suc (swq_free (rdma_queue (rdma_taken d e rs))) = swq_free (rdma_queue d)" unfolding i_def by blast
  have id: "rs_msg_id (ds ! i) = of_nat i" using t i by (simp add: rdma_table_def)
  have rs: "rs_msg_id ?rs = of_nat i" "rdma_in_flight ?rs" "rs_queue_slot ?rs = of_nat i"
    using id v by (auto simp: rdma_in_flight_def h'_def rdma_valid_def)
  have rt: "arr_get (routing_table d) (uint (dh_node h)) = Some (routing_table d ! unat (dh_node h))"
    using v uint_lt2p [of "dh_node h"] by (simp add: arr_get_def rdma_valid_def)
  have nx: "rdma_next (d\<lparr>dev_api := dev\<rparr>) = i" by (simp add: rdma_next_def i_def)
  let ?dl = "d\<lparr>dev_api := dev, rdma_port := (rdma_port d)\<lparr>sp_mutex := True\<rparr>\<rparr>"
  have w: "wait_avail (rdma_tx_ready hw) RdmaTx wait_rdma_tx nonblock env
      (d\<lparr>rdma_port := (rdma_port d)\<lparr>sp_mutex := True\<rparr>\<rparr>) = Some (0, env, ?dl)" for env
    by (rule wait_avail_ready) (use hw i(5) in \<open>simp add: rdma_tx_ready_def axiomnet_rdma_tx_avail_def\<close>)
  have "axiomnet_rdma_tx hw nonblock h tok cb flags env d = do {
      (ret, h, env, d') \<leftarrow> rdma_tx_submit hw (of_nat i) h' env (rdma_taken (d\<lparr>dev_api := dev\<rparr>) e ?rs);
      Some (ret, h, map_option (rdma_token (ds ! i)) tok, env, d') }" for env
    using v mx e i ds id nx
    by (simp add: axiomnet_rdma_tx_def rt rdma_valid_def rdma_lock_cycle w status_access rdma_taken_def h'_def Let_def)
  with taken [OF rs] i sl show ?thesis by auto
qed

text \<open>The counters of a request that went out.\<close>

definition rdma_count_tx :: "rdma_hdr \<Rightarrow> stats \<Rightarrow> stats" where
  "rdma_count_tx h st = stat_add bytes_rdma_tx (ucast (dh_payload_size h)) (stat_add pkt_rdma_tx 1 st)"

lemma rdma_submit_async:
  assumes "sq_desc (rdma_queue d) = Some ds" "i < length ds" "i < 256" "\<not> rs_ack_waiting (ds ! i)"
    and "\<not> sp_mutex (rdma_port d)" and "hw_rdma_tx hw (dev_api d) h = Some (dh_msg_id h, h, v)"
  shows "rdma_tx_submit hw (of_nat i) h env d =
    Some (uint (dh_msg_id h), h, env, d\<lparr>dev_api := v, dd_stats := rdma_count_tx h (dd_stats d)\<rparr>)"
proof -
  have "sint (of_nat i :: s16) = int i" using assms(3) by (intro sint_of_nat_s16) simp
  then show ?thesis using assms
    by (simp add: rdma_tx_submit_def rdma_lock_cycle status_access inc_stat_def add_stat_def rdma_count_tx_def Let_def)
qed

lemma rdma_tx_async_lemma:
  assumes inv: "rdma_inv d own" and free: "swq_free (rdma_queue d) \<noteq> 0" and mx: "\<not> sp_mutex (rdma_port d)"
    and v: "rdma_valid d h" and hw: "hw_rdma_tx_avail hw (dev_api d) = (n, dev)" "n \<noteq> 0"
    and echo: "hw_rdma_tx hw dev (rdma_tx_header (of_nat (rdma_next d)) h) =
       Some (of_nat (rdma_next d), rdma_tx_header (of_nat (rdma_next d)) h, dev')"
    and async: "cb \<noteq> None \<or> flags AND AXIOCTL_RDMA_FLAGS_ASYNC \<noteq> 0"
  shows "\<exists>d'. axiomnet_rdma_tx hw nonblock h tok cb flags env d =
      Some (int (rdma_next d), rdma_tx_header (of_nat (rdma_next d)) h, map_option (rdma_token (rdma_slot d (rdma_next d))) tok, env, d') \<and>
    rdma_next d \<notin> own \<and> rdma_inv d' (insert (rdma_next d) own) \<and>
    Suc (swq_free (rdma_queue d')) = swq_free (rdma_queue d) \<and>
    rdma_slot d' = (rdma_slot d)(rdma_next d := rdma_setup (of_nat (rdma_next d))
        (rdma_tx_header (of_nat (rdma_next d)) h) cb flags (rdma_slot d (rdma_next d))) \<and>
    d' = d\<lparr>dev_api := dev', rdma_queue := rdma_queue d', dd_stats := rdma_count_tx h (dd_stats d)\<rparr>"
proof -
  from inv obtain fs ds where rep: "swq_rep (rdma_queue d) fs [] own ds" and t: "rdma_table own ds"
    and ds: "sq_desc (rdma_queue d) = Some ds" "length ds = 256" and own: "own \<subseteq> {..<256}"
    and sl: "rdma_slot d = (!) ds" by (rule rdma_invE)
  define i where "i = rdma_next d"
  define h' where "h' = rdma_tx_header (of_nat i) h"
  define rs where "rs = rdma_setup (of_nat i) h' cb flags (rdma_slot d i)"
  have echo': "hw_rdma_tx hw dev h' = Some (dh_msg_id h', h', dev')"
    using echo by (simp add: h'_def i_def)
  from rdma_tx_prepare [OF inv free mx v hw] obtain e where
    run: "axiomnet_rdma_tx hw nonblock h tok cb flags env d = do {
      (ret, h, env, d') \<leftarrow> rdma_tx_submit hw (of_nat i) h' env (rdma_taken (d\<lparr>dev_api := dev\<rparr>) e rs);
      Some (ret, h, map_option (rdma_token (rdma_slot d i)) tok, env, d') }"
    and i: "i \<notin> own" "i < 256" and taken: "rdma_inv (rdma_taken d e rs) (insert i own)"
      "Suc (swq_free (rdma_queue (rdma_taken d e rs))) = swq_free (rdma_queue d)"
    unfolding i_def h'_def rs_def by blast
  let ?d = "rdma_taken (d\<lparr>dev_api := dev\<rparr>) e rs"
  have d: "?d = d\<lparr>dev_api := dev, rdma_queue := (rdma_queue d)\<lparr>sq_evi := e, sq_desc := Some (ds[i := rs])\<rparr>\<rparr>"
    using ds by (simp add: rdma_taken_def i_def rdma_next_def)
  have rsw: "\<not> rs_ack_waiting rs" using async by (auto simp: rs_def)
  have "rdma_tx_submit hw (of_nat i) h' env ?d =
      Some (uint (dh_msg_id h'), h', env, ?d\<lparr>dev_api := dev', dd_stats := rdma_count_tx h' (dd_stats ?d)\<rparr>)"
    by (rule rdma_submit_async [of _ "ds[i := rs]"]) (use ds i mx echo' rsw in \<open>simp_all add: d\<close>)
  moreover have "uint (of_nat i :: u8) = int i" using i(2) by (simp add: uint_nat unat_of_nat)
  ultimately have "axiomnet_rdma_tx hw nonblock h tok cb flags env d =
      Some (int i, h', map_option (rdma_token (rdma_slot d i)) tok, env, ?d\<lparr>dev_api := dev', dd_stats := rdma_count_tx h' (dd_stats ?d)\<rparr>)"
    using run by (simp add: h'_def)
  then show ?thesis using taken i ds sl
    unfolding i_def [symmetric] h'_def [symmetric] rs_def [symmetric]
    by (intro exI [of _ "?d\<lparr>dev_api := dev', dd_stats := rdma_count_tx h' (dd_stats ?d)\<rparr>"])
      (auto simp: d rdma_inv_def rdma_taken_def i_def rdma_slot_def rdma_count_tx_def h'_def rdma_tx_header_def nth_list_update fun_eq_iff)
qed

subsection \<open>Waiting for the acknowledgement\<close>

lemma ack_ready: "sq_desc (rdma_queue d) = Some ds \<Longrightarrow> i < length ds \<Longrightarrow>
    rdma_ack_ready (int i) d = Some (rs_ack_received (ds ! i), d)"
  by (simp add: rdma_ack_ready_def status_access)

lemma wait_event_ready: "c s = Some (True, s') \<Longrightarrow> wait_event_interruptible c env s = Some (True, env, s')"
  by (cases env) simp_all

text \<open>What the waiter does when its acknowledgement has come: it frees the slot itself.\<close>

lemma rdma_free_acked:
  assumes inv: "rdma_inv d own" and i: "i \<in> own" and mx: "\<not> sp_mutex (rdma_port d)"
  defines "rs \<equiv> rdma_slot d i"
  shows "\<exists>d'. do {
      d \<leftarrow> set_status (int i) (rs\<lparr>rs_ack_received := False,
             rs_header := (rs_header rs)\<lparr>dh_node := AXIOM_NULL_NODE\<rparr>\<rparr>) d;
      rdma_free_slot (of_nat i) d } = Some d' \<and>
    rdma_inv d' (own - {i}) \<and> rdma_frame d d' \<and> \<not> sp_mutex (rdma_port d') \<and>
    swq_free (rdma_queue d') = Suc (swq_free (rdma_queue d))"
proof -
  from inv obtain fs ds where rep: "swq_rep (rdma_queue d) fs [] own ds" and t: "rdma_table own ds"
    and ds: "sq_desc (rdma_queue d) = Some ds" "length ds = 256" and own: "own \<subseteq> {..<256}"
    and sl: "rdma_slot d = (!) ds" by (rule rdma_invE)
  from own i have i256: "i < 256" by auto
  let ?rs = "rs\<lparr>rs_ack_received := False, rs_header := (rs_header rs)\<lparr>dh_node := AXIOM_NULL_NODE\<rparr>\<rparr>"
  from swq_push [OF rep i] obtain e where push: "eviq_free_push (sq_evi (rdma_queue d)) (of_nat i) = Some e"
    and rep1: "swq_rep ((rdma_queue d)\<lparr>sq_evi := e\<rparr>) (i # fs) [] (own - {i}) ds" by auto
  let ?q = "(rdma_queue d)\<lparr>sq_evi := e, sq_desc := Some (ds[i := ?rs])\<rparr>"
  let ?d = "d\<lparr>rdma_queue := ?q, rdma_port := (if fs = [] then (rdma_port d)\<lparr>sp_wakes := Suc (sp_wakes (rdma_port d))\<rparr> else rdma_port d)\<rparr>"
  have rep2: "swq_rep ?q (i # fs) [] (own - {i}) (ds[i := ?rs])" using rep1 by (auto simp: swq_rep_def)
  have t2: "rdma_table (own - {i}) (ds[i := ?rs])"
    using t i256 by (intro rdma_table_free) (auto simp: rdma_table_def rdma_in_flight_def rs_def sl)
  have "swq_free ?q = Suc (swq_free (rdma_queue d))"
    using swq_rep_contents(1) [OF rep] swq_rep_contents(1) [OF rep2] by simp
  moreover have "do { d \<leftarrow> set_status (int i) ?rs d; rdma_free_slot (of_nat i) d } = Some ?d"
    using ds i256 push swq_avail(2) [OF rep] by (simp add: status_access rdma_free_slot_def wake_up_def Let_def)
  moreover have "rdma_inv ?d (own - {i})" using rep2 t2 by (auto simp: rdma_inv_def)
  ultimately show ?thesis using mx by (intro exI [of _ ?d]) (auto simp: rdma_frame_def)
qed

lemma rdma_submit_sync:
  assumes ds: "sq_desc (rdma_queue d) = Some ds" "i < length ds" "i < 256"
    and st: "rs_ack_waiting (ds ! i)" "\<not> rs_ack_received (ds ! i)"
    and mx: "\<not> sp_mutex (rdma_port d)" and tx: "hw_rdma_tx hw (dev_api d) h = Some (dh_msg_id h, h, v)"
  defines "d1 \<equiv> d\<lparr>dev_api := v, dd_stats := stat_add wait_rdma_rx 1 (rdma_count_tx h (dd_stats d))\<rparr>"
  shows "rdma_tx_submit hw (of_nat i) h (Signal # env) d = Some (- ERESTARTSYS, h, env,
      d1\<lparr>rdma_queue := (rdma_queue d)\<lparr>sq_desc := Some (ds[i := (ds ! i)\<lparr>rs_ack_waiting := False\<rparr>])\<rparr>\<rparr>)"
    and "\<lbrakk>rdma_inv (f d1) own; i \<in> own; \<not> sp_mutex (rdma_port (f d1)); rs_ack_received (rdma_slot (f d1) i)\<rbrakk> \<Longrightarrow>
      \<exists>d'. rdma_tx_submit hw (of_nat i) h (Wake f # env) d = Some (uint (dh_msg_id h), h, env, d') \<and>
        rdma_inv d' (own - {i}) \<and> rdma_frame (f d1) d' \<and> \<not> sp_mutex (rdma_port d') \<and>
        swq_free (rdma_queue d') = Suc (swq_free (rdma_queue (f d1)))"
proof -
  have i: "sint (of_nat i :: s16) = int i" using ds(3) by (intro sint_of_nat_s16) simp
  let ?dl = "d\<lparr>rdma_port := (rdma_port d)\<lparr>sp_mutex := True\<rparr>, dev_api := v, dd_stats := rdma_count_tx h (dd_stats d)\<rparr>"
  have unl: "mutex_unlock RdmaTx (inc_stat wait_rdma_rx ?dl) = Some d1"
    using mx by (simp add: mutex_unlock_def inc_stat_def d1_def)
  have d1: "sq_desc (rdma_queue d1) = Some ds" using ds by (simp add: d1_def)
  have sub: "rdma_tx_submit hw (of_nat i) h env' d = do {
      (r, env, d) \<leftarrow> wait_avail (rdma_ack_ready (int i)) RdmaTx wait_rdma_rx False env' ?dl;
      rs \<leftarrow> get_status (int i) d;
      if r \<noteq> 0 then do {
        d \<leftarrow> set_status (int i) (rs\<lparr>rs_ack_waiting := False\<rparr>) d;
        Some (- ERESTARTSYS, h, env, d) }
      else do {
        d \<leftarrow> set_status (int i) (rs\<lparr>rs_ack_received := False,
               rs_header := (rs_header rs)\<lparr>dh_node := AXIOM_NULL_NODE\<rparr>\<rparr>) d;
        d \<leftarrow> mutex_unlock RdmaTx d;
        d \<leftarrow> rdma_free_slot (of_nat i) d;
        Some (uint (dh_msg_id h), h, env, d) } }" for env'
    using ds st mx tx unfolding rdma_tx_submit_def i
    by (simp add: rdma_lock_cycle status_access inc_stat_def add_stat_def rdma_count_tx_def Let_def)
  have w: "wait_avail (rdma_ack_ready (int i)) RdmaTx wait_rdma_rx False env' ?dl = do {
      (ok, env, s) \<leftarrow> wait_event_interruptible (rdma_ack_ready (int i)) env' d1;
      if \<not> ok then Some (- ERESTARTSYS, env, s)
      else do { s \<leftarrow> mutex_lock RdmaTx s; wait_avail (rdma_ack_ready (int i)) RdmaTx wait_rdma_rx False env s } }" for env'
    by (subst wait_avail.simps) (use ds st ack_ready [of ?dl ds i] unl in simp)
  show "rdma_tx_submit hw (of_nat i) h (Signal # env) d = Some (- ERESTARTSYS, h, env,
      d1\<lparr>rdma_queue := (rdma_queue d)\<lparr>sq_desc := Some (ds[i := (ds ! i)\<lparr>rs_ack_waiting := False\<rparr>])\<rparr>\<rparr>)"
    using ds st d1 by (simp add: sub w ack_ready status_access errno_defs) (simp add: d1_def)
  assume inv: "rdma_inv (f d1) own" and own: "i \<in> own" and mx2: "\<not> sp_mutex (rdma_port (f d1))"
    and ack: "rs_ack_received (rdma_slot (f d1) i)"
  let ?d2 = "f d1"
  from inv obtain fs ds2 where ds2: "sq_desc (rdma_queue ?d2) = Some ds2" "length ds2 = 256" and sl: "rdma_slot ?d2 = (!) ds2"
    by (rule rdma_invE)
  let ?dl2 = "?d2\<lparr>rdma_port := (rdma_port ?d2)\<lparr>sp_mutex := True\<rparr>\<rparr>"
  have r2: "rdma_ack_ready (int i) ?d2 = Some (True, ?d2)" "rdma_ack_ready (int i) ?dl2 = Some (True, ?dl2)"
    using ds2 ds(3) ack sl by (simp_all add: ack_ready)
  have w2: "wait_avail (rdma_ack_ready (int i)) RdmaTx wait_rdma_rx False (Wake f # env) ?dl = Some (0, env, ?dl2)"
    using ds st d1 by (simp add: w ack_ready wait_event_ready [of "rdma_ack_ready (int i)", OF r2(1)]
        rdma_lock_cycle(1) [OF mx2] wait_avail_ready [of "rdma_ack_ready (int i)", OF r2(2)])
  from rdma_free_acked [OF inv own mx2] obtain d' where d': "do {
      d \<leftarrow> set_status (int i) ((ds2 ! i)\<lparr>rs_ack_received := False,
             rs_header := (rs_header (ds2 ! i))\<lparr>dh_node := AXIOM_NULL_NODE\<rparr>\<rparr>) ?d2;
      rdma_free_slot (of_nat i) d } = Some d'" "rdma_inv d' (own - {i})" "rdma_frame ?d2 d'" "\<not> sp_mutex (rdma_port d')"
      "swq_free (rdma_queue d') = Suc (swq_free (rdma_queue ?d2))"
    unfolding sl by blast
  have "rdma_tx_submit hw (of_nat i) h (Wake f # env) d = Some (uint (dh_msg_id h), h, env, d')"
    using d'(1) ds2 ds(3) mx2 by (simp add: sub w2 status_access rdma_lock_cycle bind_eq_Some)
  with d' show "\<exists>d'. rdma_tx_submit hw (of_nat i) h (Wake f # env) d = Some (uint (dh_msg_id h), h, env, d') \<and>
        rdma_inv d' (own - {i}) \<and> rdma_frame (f d1) d' \<and> \<not> sp_mutex (rdma_port d') \<and>
        swq_free (rdma_queue d') = Suc (swq_free (rdma_queue (f d1)))" by blast
qed

end
