(* ===== verification/RdmaProps.thy ===== *)
theory RdmaProps
  imports DriverRdma
begin

text \<open>
  The properties of RDMA requests: submission with and without waiting, acknowledgement, refusal
  and retransmission, and what the token of a request says about it.
\<close>

section \<open>A concrete instance\<close>

definition demo_rdma_h :: rdma_hdr where
  "demo_rdma_h = rdma_hdr_zero\<lparr>dh_node := 2, dh_payload_size := 16, dh_addr0 := 64, dh_addr1 := 128\<rparr>"

lemma demo_rdma_inv: "rdma_inv demo_d {}"
proof -
  have "swq_rep (rdma_queue demo_d) [0, 1] [] {} (map (\<lambda>i. demo_status (of_nat i)) [0..<256])"
    using demo_evi_rep [of 0] by (simp add: swq_rep_def demo_d_def)
  moreover have "rdma_table {} (map (\<lambda>i. demo_status (of_nat i)) [0..<256])"
    by (simp add: rdma_table_def demo_status_def rdma_in_flight_def)
  ultimately show ?thesis unfolding rdma_inv_def by blast
qed

lemma demo_rdma_free: "swq_free (rdma_queue demo_d) = 2" "rdma_next demo_d = 0"
  using eviq_rep_walks(1) [OF demo_evi_rep [of 0, simplified]] by (simp_all add: swq_free_def rdma_next_def demo_d_def)

lemma demo_rdma_port: "\<not> sp_mutex (rdma_port demo_d)"
  by (simp add: demo_d_def demo_port_def)

lemma demo_rdma_valid: "rdma_valid demo_d demo_rdma_h"
  by (simp add: rdma_valid_def demo_d_def demo_rdma_h_def)

lemma demo_rdma_tx: "hw_rdma_tx demo_hw v h = Some (dh_msg_id h, h, v\<lparr>dv_rdma_tx := dv_rdma_tx v @ [h]\<rparr>)"
  "hw_rdma_tx_avail demo_hw v = (1, v)"
  by (simp_all add: demo_hw_def)

section \<open>Submission\<close>

text \<open>
  Property C13. An asynchronous request (a request with a completion callback, or with the asynchronous flag)
  takes the next free slot, which no request in flight has; the hardware gets the caller's header
  with the slot as message id and the error and \<open>s\<close> bits cleared; the token names the slot and its
  current generation; the call returns the message id at once, with the mutex free, and only the
  table, the device and the two counters have changed.
\<close>

theorem rdma_tx_async:
  assumes "rdma_inv d own" and "swq_free (rdma_queue d) \<noteq> 0" and "\<not> sp_mutex (rdma_port d)"
    and "rdma_valid d h" and "hw_rdma_tx_avail hw (dev_api d) = (n, dev)" "n \<noteq> 0"
    and "hw_rdma_tx hw dev (rdma_tx_header (of_nat (rdma_next d)) h) =
       Some (of_nat (rdma_next d), rdma_tx_header (of_nat (rdma_next d)) h, dev')"
    and "cb \<noteq> None \<or> flags AND AXIOCTL_RDMA_FLAGS_ASYNC \<noteq> 0"
  shows "\<exists>d'. axiomnet_rdma_tx hw nonblock h tok cb flags env d =
      Some (int (rdma_next d), rdma_tx_header (of_nat (rdma_next d)) h, map_option (rdma_token (rdma_slot d (rdma_next d))) tok, env, d') \<and>
    rdma_next d \<notin> own \<and> rdma_inv d' (insert (rdma_next d) own) \<and>
    Suc (swq_free (rdma_queue d')) = swq_free (rdma_queue d) \<and>
    rdma_slot d' = (rdma_slot d)(rdma_next d := rdma_setup (of_nat (rdma_next d))
        (rdma_tx_header (of_nat (rdma_next d)) h) cb flags (rdma_slot d (rdma_next d))) \<and>
    d' = d\<lparr>dev_api := dev', rdma_queue := rdma_queue d', dd_stats := rdma_count_tx h (dd_stats d)\<rparr>"
  by (rule rdma_tx_async_lemma [OF assms])

theorem rdma_tx_async_witness:
  "\<exists>h tok d'. axiomnet_rdma_tx demo_hw True demo_rdma_h (Some 0) None 1 [] demo_d = Some (0, h, tok, [], d') \<and>
     rdma_inv d' {0}"
  using rdma_tx_async [OF demo_rdma_inv _ demo_rdma_port demo_rdma_valid demo_rdma_tx(2), of _ None 1 True "Some 0" "[]"]
    demo_rdma_free by (auto simp: demo_rdma_tx)

text \<open>
  Property C14. A synchronous request sleeps until its acknowledgement. Whatever other threads did to the
  driver in the meantime, when it is woken with the acknowledgement it returns its message id and
  frees its own slot; when a signal interrupts it, it returns \<open>-ERESTARTSYS\<close> and leaves the request in
  flight as an asynchronous one, so that the acknowledgement still to come frees the slot.
\<close>

theorem rdma_tx_sync:
  assumes "rdma_inv d own" and "swq_free (rdma_queue d) \<noteq> 0" and "\<not> sp_mutex (rdma_port d)"
    and "rdma_valid d h" and "hw_rdma_tx_avail hw (dev_api d) = (n, dev)" "n \<noteq> 0"
    and "hw_rdma_tx hw dev (rdma_tx_header (of_nat (rdma_next d)) h) =
       Some (of_nat (rdma_next d), rdma_tx_header (of_nat (rdma_next d)) h, dev')"
    and "flags AND AXIOCTL_RDMA_FLAGS_ASYNC = 0"
    and "\<And>s. rdma_inv s (insert (rdma_next d) own) \<Longrightarrow> rs_ack_waiting (rdma_slot s (rdma_next d)) \<Longrightarrow>
       \<not> sp_mutex (rdma_port s) \<Longrightarrow> rdma_inv (f s) own2 \<and> rdma_next d \<in> own2 \<and> \<not> sp_mutex (rdma_port (f s)) \<and>
         rs_ack_received (rdma_slot (f s) (rdma_next d))"
  shows "(\<exists>d' tok'. axiomnet_rdma_tx hw nonblock h tok None flags (Wake f # env) d =
        Some (int (rdma_next d), rdma_tx_header (of_nat (rdma_next d)) h, tok', env, d') \<and>
      rdma_inv d' (own2 - {rdma_next d}) \<and> \<not> sp_mutex (rdma_port d')) \<and>
    (\<exists>d' tok'. axiomnet_rdma_tx hw nonblock h tok None flags (Signal # env) d =
        Some (- ERESTARTSYS, rdma_tx_header (of_nat (rdma_next d)) h, tok', env, d') \<and>
      rdma_inv d' (insert (rdma_next d) own) \<and> \<not> sp_mutex (rdma_port d') \<and>
      rdma_in_flight (rdma_slot d' (rdma_next d)) \<and> \<not> rs_ack_waiting (rdma_slot d' (rdma_next d)))"
proof -
  from assms(1) obtain fs ds where ds: "sq_desc (rdma_queue d) = Some ds" "length ds = 256" by (rule rdma_invE)
  define i where "i = rdma_next d"
  define h' where "h' = rdma_tx_header (of_nat i) h"
  define rs where "rs = rdma_setup (of_nat i) h' None flags (rdma_slot d i)"
  from rdma_tx_prepare [OF assms(1-6), of nonblock tok None flags] obtain e where
    run: "\<forall>env. axiomnet_rdma_tx hw nonblock h tok None flags env d = do {
      (ret, h, env, d') \<leftarrow> rdma_tx_submit hw (of_nat i) h' env (rdma_taken (d\<lparr>dev_api := dev\<rparr>) e rs);
      Some (ret, h, map_option (rdma_token (rdma_slot d i)) tok, env, d') }"
    and i: "i \<notin> own" "i < 256" and inv: "rdma_inv (rdma_taken d e rs) (insert i own)"
    unfolding i_def h'_def rs_def by blast
  let ?d = "rdma_taken (d\<lparr>dev_api := dev\<rparr>) e rs"
  have d: "?d = d\<lparr>dev_api := dev, rdma_queue := (rdma_queue d)\<lparr>sq_evi := e, sq_desc := Some (ds[i := rs])\<rparr>\<rparr>"
    "rdma_taken d e rs = d\<lparr>rdma_queue := (rdma_queue d)\<lparr>sq_evi := e, sq_desc := Some (ds[i := rs])\<rparr>\<rparr>"
    using ds by (simp_all add: rdma_taken_def i_def)
  let ?d1 = "?d\<lparr>dev_api := dev', dd_stats := stat_add wait_rdma_rx 1 (rdma_count_tx h' (dd_stats ?d))\<rparr>"
  have rs: "rs_ack_waiting rs" "\<not> rs_ack_received rs" using assms(8) by (simp_all add: rs_def)
  have tx: "hw_rdma_tx hw (dev_api ?d) h' = Some (dh_msg_id h', h', dev')"
    using assms(7) by (simp add: d h'_def i_def)
  have id: "uint (dh_msg_id h') = int i" using i(2) by (simp add: h'_def uint_nat unat_of_nat)
  have inv1: "rdma_inv ?d1 (insert i own)" using inv by (simp add: rdma_inv_def d)
  have pre: "sq_desc (rdma_queue ?d) = Some (ds[i := rs])" "i < length (ds[i := rs])" "rs_ack_waiting (ds[i := rs] ! i)"
    "\<not> rs_ack_received (ds[i := rs] ! i)" "\<not> sp_mutex (rdma_port ?d)"
    using ds i rs assms(3) by (simp_all add: d)
  note sync = rdma_submit_sync [OF pre(1,2) i(2) pre(3-5) tx]
  have f: "rdma_inv (f ?d1) own2 \<and> i \<in> own2 \<and> \<not> sp_mutex (rdma_port (f ?d1)) \<and> rs_ack_received (rdma_slot (f ?d1) i)"
    using assms(9) [of ?d1] inv1 pre(3,5) by (simp add: i_def [symmetric] rdma_slot_def d)
  let ?d2 = "?d1\<lparr>rdma_queue := (rdma_queue ?d)\<lparr>sq_desc := Some (ds[i := rs\<lparr>rs_ack_waiting := False\<rparr>])\<rparr>\<rparr>"
  have "rdma_tx_submit hw (of_nat i) h' (Signal # env) ?d = Some (- ERESTARTSYS, h', env, ?d2)"
    using sync(1) [of env] i ds by simp
  moreover have "rdma_inv ?d2 (insert i own)"
  proof -
    from inv1 obtain fs where "swq_rep (rdma_queue ?d1) fs [] (insert i own) (ds[i := rs])" "rdma_table (insert i own) (ds[i := rs])"
      using pre(1) by (auto elim!: rdma_invE simp: d)
    then show ?thesis using rdma_table_keep [of "insert i own" "ds[i := rs]" i "rs\<lparr>rs_ack_waiting := False\<rparr>"] i ds
      by (auto simp: rdma_inv_def swq_rep_def d intro!: exI [of _ fs])
  qed
  moreover have "rdma_in_flight rs" using assms(4) by (simp add: rs_def h'_def rdma_in_flight_def rdma_valid_def)
  ultimately have "\<exists>d' tok'. axiomnet_rdma_tx hw nonblock h tok None flags (Signal # env) d =
        Some (- ERESTARTSYS, h', tok', env, d') \<and> rdma_inv d' (insert i own) \<and> \<not> sp_mutex (rdma_port d') \<and>
      rdma_in_flight (rdma_slot d' i) \<and> \<not> rs_ack_waiting (rdma_slot d' i)"
    using run pre(5) i ds by (intro exI [of _ ?d2]) (simp add: rdma_slot_def rdma_in_flight_def)
  moreover obtain d' where "rdma_tx_submit hw (of_nat i) h' (Wake f # env) ?d = Some (int i, h', env, d')"
        "rdma_inv d' (own2 - {i})" "\<not> sp_mutex (rdma_port d')"
    using sync(2) [of f own2 env] f id by auto
  ultimately show ?thesis using run unfolding i_def [symmetric] h'_def [symmetric] by auto
qed

text \<open>The wake-up of the witness is the worker that handles the acknowledgement.\<close>

theorem rdma_tx_sync_witness:
  "\<exists>h tok' d'. axiomnet_rdma_tx demo_hw False demo_rdma_h None None 0 [Wake (\<lambda>s. the (rdma_complete 0 s))] demo_d =
     Some (0, h, tok', [], d') \<and> rdma_inv d' {}"
proof -
  have f: "rdma_inv (the (rdma_complete 0 s)) {0} \<and> rdma_next demo_d \<in> {0} \<and>
      \<not> sp_mutex (rdma_port (the (rdma_complete 0 s))) \<and> rs_ack_received (rdma_slot (the (rdma_complete 0 s)) (rdma_next demo_d))"
    if "rdma_inv s (insert (rdma_next demo_d) {})" "rs_ack_waiting (rdma_slot s (rdma_next demo_d))" "\<not> sp_mutex (rdma_port s)"
    for s :: "(demo_dev, u64 \<Rightarrow> u8 option) drvdata"
  proof -
    from rdma_complete_waiting [of s "{0}" 0] that obtain d' where
      d': "rdma_complete 0 s = Some d'" "rdma_inv d' {0}" "d' = s\<lparr>rdma_queue := rdma_queue d'\<rparr>" "rs_ack_received (rdma_slot d' 0)"
      by (auto simp: demo_rdma_free)
    have "rdma_port d' = rdma_port s" using arg_cong [OF d'(3), of rdma_port] by simp
    with d' that show ?thesis by (simp add: demo_rdma_free)
  qed
  show ?thesis
    using rdma_tx_sync [where f = "\<lambda>s. the (rdma_complete 0 s)" and flags = 0 and nonblock = False and tok = None and env = "[]",
        OF demo_rdma_inv _ demo_rdma_port demo_rdma_valid demo_rdma_tx(2) _ _ _ f]
      demo_rdma_free by (auto simp: demo_rdma_tx)
qed

section \<open>Acknowledgement\<close>

lemma rdma_ack_lemma:
  assumes inv: "rdma_inv d own" and i: "i \<in> own" and id: "unat msg_id = i"
    and w: "\<not> rs_ack_waiting (rdma_slot d i)" and cb: "callback_ok d (rs_callback (rdma_slot d i))"
    and h: "dh_node h = dh_node (rs_header (rdma_slot d i))" "pt_error (dh_port_type h) = 0"
  shows "\<exists>d'. rdma_rx_ack hw msg_id h d = Some d' \<and> rdma_inv d' (own - {i}) \<and> rdma_frame d d' \<and>
    sp_mutex (rdma_port d') = sp_mutex (rdma_port d) \<and> swq_free (rdma_queue d') = Suc (swq_free (rdma_queue d)) \<and>
    \<not> rdma_in_flight (rdma_slot d' i) \<and> rs_msg_id_counter (rdma_slot d' i) = rs_msg_id_counter (rdma_slot d i) + 1 \<and>
    (\<forall>j. j \<noteq> i \<longrightarrow> rdma_slot d' j = rdma_slot d j) \<and>
    (case rs_callback (rdma_slot d i) of None \<Rightarrow> long_tx_queue d' = long_tx_queue d \<and> long_tx_port d' = long_tx_port d
     | Some s \<Rightarrow> sp_mutex (long_tx_port d') = sp_mutex (long_tx_port d) \<and>
        (\<forall>lfs lown lds k. swq_rep (long_tx_queue d) lfs [] lown lds \<longrightarrow> k \<in> lown \<longrightarrow> s = of_nat k \<longrightarrow>
           swq_rep (long_tx_queue d') (k # lfs) [] (lown - {k}) lds))"
proof -
  from inv obtain fs ds where ds: "sq_desc (rdma_queue d) = Some ds" "length ds = 256" and own: "own \<subseteq> {..<256}"
    and sl: "rdma_slot d = (!) ds" by (rule rdma_invE)
  from rdma_complete_async [OF inv i w cb] obtain d1 where d1: "rdma_complete (int i) d = Some d1"
    "rdma_inv d1 (own - {i})" "rdma_frame d d1" "sp_mutex (rdma_port d1) = sp_mutex (rdma_port d)"
    "swq_free (rdma_queue d1) = Suc (swq_free (rdma_queue d))" "\<not> rdma_in_flight (rdma_slot d1 i)"
    "rs_msg_id_counter (rdma_slot d1 i) = rs_msg_id_counter (rdma_slot d i) + 1"
    "\<forall>j. j \<noteq> i \<longrightarrow> rdma_slot d1 j = rdma_slot d j"
    and l: "case rs_callback (rdma_slot d i) of None \<Rightarrow> long_tx_queue d1 = long_tx_queue d \<and> long_tx_port d1 = long_tx_port d
     | Some s \<Rightarrow> sp_mutex (long_tx_port d1) = sp_mutex (long_tx_port d) \<and>
        (\<forall>lfs lown lds k. swq_rep (long_tx_queue d) lfs [] lown lds \<longrightarrow> k \<in> lown \<longrightarrow> s = of_nat k \<longrightarrow>
           swq_rep (long_tx_queue d1) (k # lfs) [] (lown - {k}) lds)" by blast
  let ?d = "add_stat bytes_rdma_rx (ucast (dh_payload_size h)) (inc_stat pkt_rdma_rx d1)"
  have i2: "uint msg_id = int i" using id by (simp add: uint_nat)
  have "rdma_rx_ack hw msg_id h d = Some ?d"
    using status_access(1) [OF ds(1), of i] own i ds(2) h sl d1(1) by (auto simp: rdma_rx_ack_def i2)
  moreover have "rdma_frame d ?d" using d1(3) unfolding rdma_frame_def by (cases d; cases d1) (simp add: add_stat_def inc_stat_def)
  moreover have "rdma_queue ?d = rdma_queue d1" "rdma_port ?d = rdma_port d1" "long_tx_queue ?d = long_tx_queue d1"
    "long_tx_port ?d = long_tx_port d1" by (simp_all add: add_stat_def inc_stat_def)
  moreover from this(1) have "rdma_slot ?d = rdma_slot d1" "rdma_inv ?d (own - {i})"
    using d1(2) by (simp_all add: rdma_slot_def rdma_inv_def fun_eq_iff)
  ultimately show ?thesis using d1(4-8) l by (intro exI [of _ ?d]) (simp split: option.splits)
qed

lemma rdma_stray_lemma:
  assumes "rdma_inv d own" and "dh_node h \<noteq> dh_node (rs_header (rdma_slot d (unat msg_id)))"
  shows "rdma_rx_ack hw msg_id h d = Some (inc_stat err_rdma_rx d)"
proof -
  from assms(1) obtain fs ds where ds: "sq_desc (rdma_queue d) = Some ds" "length ds = 256"
    and sl: "rdma_slot d = (!) ds" by (rule rdma_invE)
  have "unat msg_id < length ds" using unsigned_less [of msg_id] ds(2) by simp
  from status_access(1) [OF ds(1) this] assms(2) sl show ?thesis by (simp add: rdma_rx_ack_def uint_nat [symmetric])
qed


text \<open>The state after one asynchronous request.\<close>

definition demo_flight :: "(demo_dev, u64 \<Rightarrow> u8 option) drvdata" where
  "demo_flight = (case axiomnet_rdma_tx demo_hw True demo_rdma_h None None 1 [] demo_d of
     Some (r, h, t, e, d) \<Rightarrow> d | None \<Rightarrow> demo_d)"

lemma demo_flight:
  "rdma_inv demo_flight {0}"
  "rdma_slot demo_flight 0 = rdma_setup 0 (rdma_tx_header 0 demo_rdma_h) None 1 (demo_status 0)"
  "\<not> sp_mutex (rdma_port demo_flight)" "swq_free (rdma_queue demo_flight) = 1" "routing_table demo_flight = routing_table demo_d"
proof -
  from rdma_tx_async_lemma [where hw = demo_hw and cb = None and flags = 1 and nonblock = True and tok = None and env = "[]",
      OF demo_rdma_inv _ demo_rdma_port demo_rdma_valid demo_rdma_tx(2)] demo_rdma_free
  obtain d' dev where d': "axiomnet_rdma_tx demo_hw True demo_rdma_h None None 1 [] demo_d =
        Some (0, rdma_tx_header 0 demo_rdma_h, None, [], d')"
    "rdma_inv d' {0}" "Suc (swq_free (rdma_queue d')) = 2"
    "rdma_slot d' = (rdma_slot demo_d)(0 := rdma_setup 0 (rdma_tx_header 0 demo_rdma_h) None 1 (rdma_slot demo_d 0))"
    "d' = demo_d\<lparr>dev_api := dev, rdma_queue := rdma_queue d', dd_stats := rdma_count_tx demo_rdma_h (dd_stats demo_d)\<rparr>"
    by (auto simp: demo_rdma_tx)
  have f: "demo_flight = d'" by (simp add: demo_flight_def d'(1))
  have sl: "rdma_slot demo_d 0 = demo_status 0" by (simp add: rdma_slot_def demo_d_def nth_append)
  have "rdma_port d' = rdma_port demo_d" "routing_table d' = routing_table demo_d"
    using arg_cong [OF d'(5), of rdma_port] arg_cong [OF d'(5), of routing_table] by simp_all
  with f sl d' demo_rdma_port show "rdma_inv demo_flight {0}"
    "rdma_slot demo_flight 0 = rdma_setup 0 (rdma_tx_header 0 demo_rdma_h) None 1 (demo_status 0)"
    "\<not> sp_mutex (rdma_port demo_flight)" "swq_free (rdma_queue demo_flight) = 1" "routing_table demo_flight = routing_table demo_d" by simp_all
qed

definition demo_ack :: "u8 \<Rightarrow> rdma_hdr" where
  "demo_ack err = demo_rdma_h\<lparr>dh_port_type := set_pt_s 1 (set_pt_error err AXIOM_TYPE_RDMA_WRITE), dh_msg_id := 0\<rparr>"


lemma rdma_nack_lemma:
  assumes "rdma_inv d own" and "i \<in> own" and "unat msg_id = i" and "\<not> sp_mutex (rdma_port d)"
    and "dh_node h = dh_node (rs_header (rdma_slot d i))" "pt_error (dh_port_type h) = 1"
    and "wait_tx_space hw (dev_api d) = Some v"
    and "hw_rdma_tx hw v (rs_header (rdma_slot d i)) = Some (dh_msg_id h', h', v')" "dh_node h' = dh_node (rs_header (rdma_slot d i))"
  shows "\<exists>d'. rdma_rx_ack hw msg_id h d = Some d' \<and> rdma_inv d' own \<and>
    rdma_slot d' = (rdma_slot d)(i := (rdma_slot d i)\<lparr>rs_header := h', rs_retries := rs_retries (rdma_slot d i) + 1\<rparr>) \<and>
    d' = d\<lparr>dev_api := v', rdma_queue := rdma_queue d', dd_stats := stat_add retries_rdma 1 (dd_stats d)\<rparr>"
proof -
  from assms(1) obtain fs ds where rep: "swq_rep (rdma_queue d) fs [] own ds" and t: "rdma_table own ds"
    and ds: "sq_desc (rdma_queue d) = Some ds" "length ds = 256" and own: "own \<subseteq> {..<256}"
    and sl: "rdma_slot d = (!) ds" by (rule rdma_invE)
  have i: "i < 256" "uint msg_id = int i" using own assms(2,3) by (auto simp: uint_nat)
  have "unat (rs_retries (ds ! i)) < 2 ^ LENGTH(8)" by (rule unsigned_less)
  then have lt: "unat (rs_retries (ds ! i)) < 1000" by simp
  let ?rs = "(ds ! i)\<lparr>rs_header := h', rs_retries := rs_retries (ds ! i) + 1\<rparr>"
  let ?d = "d\<lparr>dev_api := v', rdma_queue := (rdma_queue d)\<lparr>sq_desc := Some (ds[i := ?rs])\<rparr>, dd_stats := stat_add retries_rdma 1 (dd_stats d)\<rparr>"
  have "rdma_retry hw (int i) d = Some (True, ?d)"
    using assms(4,7,8) ds i sl by (simp add: rdma_retry_def rdma_lock_cycle status_access inc_stat_def)
  then have "rdma_rx_ack hw msg_id h d = Some ?d"
    using ds i assms(5,6) sl lt by (simp add: rdma_rx_ack_def status_access)
  moreover have "rdma_inv ?d own" unfolding rdma_inv_def
    using rep rdma_table_keep [OF t i(1), of ?rs] assms(9) sl by (intro exI [of _ fs] exI [of _ "ds[i := ?rs]"]) (auto simp: swq_rep_def)
  ultimately show ?thesis using i ds sl by (intro exI [of _ ?d]) (auto simp: rdma_slot_def fun_eq_iff)
qed

text \<open>
  Property C21. A refused request (an acknowledgement with the error bit) is transmitted again with its saved
  header, the hardware layer's changes to which are kept, and stays in flight, for every value of its retry counter: the counter is eight bits wide
  and the limit \<open>AXIOMNET_MAX_RDMA_RETRY\<close> is 1000, so the branch that gives a request up is taken only
  when the hardware returns another message id.
\<close>

theorem rdma_nack_retransmits:
  assumes "rdma_inv d own" and "i \<in> own" and "unat msg_id = i" and "\<not> sp_mutex (rdma_port d)"
    and "dh_node h = dh_node (rs_header (rdma_slot d i))" "pt_error (dh_port_type h) = 1"
    and "wait_tx_space hw (dev_api d) = Some v"
    and "hw_rdma_tx hw v (rs_header (rdma_slot d i)) = Some (dh_msg_id h', h', v')" "dh_node h' = dh_node (rs_header (rdma_slot d i))"
  shows "\<exists>d'. rdma_rx_ack hw msg_id h d = Some d' \<and> rdma_inv d' own \<and>
    rdma_slot d' = (rdma_slot d)(i := (rdma_slot d i)\<lparr>rs_header := h', rs_retries := rs_retries (rdma_slot d i) + 1\<rparr>) \<and>
    d' = d\<lparr>dev_api := v', rdma_queue := rdma_queue d', dd_stats := stat_add retries_rdma 1 (dd_stats d)\<rparr>"
  by (rule rdma_nack_lemma [OF assms])

theorem rdma_nack_retransmits_witness:
  "\<exists>d'. rdma_rx_ack demo_hw 0 (demo_ack 1) demo_flight = Some d' \<and> rdma_inv d' {0}"
proof -
  have "dh_node (demo_ack 1) = dh_node (rs_header (rdma_slot demo_flight 0))" "pt_error (dh_port_type (demo_ack 1)) = 1"
    by (simp_all add: demo_flight demo_ack_def demo_rdma_h_def)
  moreover have "wait_tx_space demo_hw (dev_api demo_flight) = Some (dev_api demo_flight)"
    by (subst wait_tx_space.simps) (simp add: demo_rdma_tx)
  ultimately show ?thesis
    using rdma_nack_retransmits [OF demo_flight(1) _ _ demo_flight(3), of 0 0 "demo_ack 1" demo_hw "dev_api demo_flight"]
    by (auto simp: demo_rdma_tx)
qed

section \<open>Tokens\<close>

text \<open>What a check makes of one token: a pending token is acknowledged when its slot has a new generation.\<close>

definition token_after :: "rdma_status list \<Rightarrow> token \<Rightarrow> token" where
  "token_after ds t = (if AXIOM_TOKEN_IS_PENDING t \<and> rs_msg_id_counter (ds ! unat (tk_msg_id t)) \<noteq> tk_value t
     then set_tk_status AXIOM_TOKEN_ACKED t else t)"

lemma rdma_check_loop_eq:
  assumes "length ds = 256"
  shows "rdma_check_loop ds ts n =
    Some (map (token_after ds) ts, n + length (filter AXIOM_TOKEN_IS_ACKED (map (token_after ds) ts)))"
proof (induction ts arbitrary: n)
  case (Cons t ts)
  have "unat (tk_msg_id t) < 2 ^ LENGTH(8)" by (rule unsigned_less)
  then have id: "unat (tk_msg_id t) < 256" by simp
  then have "arr_get ds (uint (tk_msg_id t)) = Some (ds ! unat (tk_msg_id t))"
    using assms arr_get_nth [of "unat (tk_msg_id t)" ds] by simp
  with id Cons show ?case
    by (simp add: token_after_def AXIOM_TOKEN_IS_PENDING_def AXIOM_TOKEN_IS_ACKED_def)
qed simp

lemma length_tokens_bytes [simp]: "length (tokens_bytes ts) = 8 * length ts"
  by (induction ts) (simp_all add: tokens_bytes_def)

lemma bytes_tokens_inverse: "bytes_tokens (length ts) (tokens_bytes ts) = ts"
  by (induction ts) (simp_all add: tokens_bytes_def le_word_le_bytes)

lemma copy_aligned_long: assumes "8 \<le> n" shows "copy_aligned to from n"
proof -
  have "to AND 7 \<le> 8" by (rule order_trans [OF word_and_le1]) simp
  then have "unat (odd_part to) \<le> 8" by (simp add: odd_part_def unat_sub)
  then have "odd_part to \<le> 8" by (simp add: word_le_nat_alt)
  with assms show ?thesis by (auto simp: copy_aligned_def intro: order_trans)
qed

text \<open>
  Property C20. Checking an array of tokens: the call returns how many are acknowledged and rewrites the
  array in place, turning exactly the pending tokens whose slot has a new generation into
  acknowledged ones; the rest of user memory and the driver are untouched.
\<close>

theorem rdma_check_reports:
  assumes "uaccess_spec ua view" and "rdma_inv d own"
    and "0 < length ts" "length ts < 2 ^ 31" and "vm (8 * of_nat (length ts)) = Some kbuf"
    and "ua_access_ok ua a (8 * of_nat (length ts))"
    and "umem_read (view (user_mem d)) a (8 * length ts) = map Some (tokens_bytes ts)"
  shows "\<exists>u. axiomnet_rdma_check ua vm a (int (length ts)) d =
      Some (int (length (filter AXIOM_TOKEN_IS_ACKED (map (token_after (map (rdma_slot d) [0..<256])) ts))), d\<lparr>user_mem := u\<rparr>) \<and>
    view u = umem_write (view (user_mem d)) a (tokens_bytes (map (token_after (map (rdma_slot d) [0..<256])) ts))"
proof -
  from assms(2) obtain fs ds where ds: "sq_desc (rdma_queue d) = Some ds" "length ds = 256"
    and sl: "rdma_slot d = (!) ds" by (rule rdma_invE)
  have dsl: "map (rdma_slot d) [0..<256] = ds" using ds(2) by (simp add: sl list_eq_iff_nth_eq)
  let ?n = "8 * of_nat (length ts) :: u64"
  let ?ts = "map (token_after ds) ts"
  have "8 * length ts < 2 ^ LENGTH(64)" using assms(4) by simp
  then have n: "unat ?n = 8 * length ts" using unat_of_nat [of "8 * length ts", where 'a = 64] by simp
  then have al: "copy_aligned x y ?n" for x y using assms(3) by (intro copy_aligned_long) (simp add: word_le_nat_alt Suc_le_eq)
  have rd: "readable (view (user_mem d)) a (unat ?n)" using assms(7) n by (auto simp: readable_def)
  from axiom_copy_from_user_ok [OF assms(1,6) rd al] assms(7) n obtain bs where
    bs: "axiom_copy_from_user ua (user_mem d) kbuf a ?n = (0, bs)" "bs = tokens_bytes ts"
    by (metis list.inj_map_strong option.inject)
  from axiom_copy_to_user_ok [OF assms(1,6) rd al, of "tokens_bytes ?ts" kbuf] n obtain u where
    u: "axiom_copy_to_user ua (user_mem d) a kbuf (tokens_bytes ?ts) ?n = Some (0, u)"
      "view u = umem_write (view (user_mem d)) a (tokens_bytes ?ts)" by auto
  have "axiomnet_rdma_check ua vm a (int (length ts)) d = Some (int (length (filter AXIOM_TOKEN_IS_ACKED ?ts)), d\<lparr>user_mem := u\<rparr>)"
    using bs u n ds assms(5) by (simp add: axiomnet_rdma_check_def rdma_check_loop_eq bytes_tokens_inverse)
  with u show ?thesis unfolding dsl by blast
qed

definition demo_tok_d :: "(demo_dev, u64 \<Rightarrow> u8 option) drvdata" where
  "demo_tok_d = demo_flight\<lparr>user_mem := (\<lambda>a. if 4096 \<le> a \<and> a < 8192
     then Some (if a = 4097 then 1 else if a = 4100 then 5 else 0) else None)\<rparr>"

theorem rdma_check_reports_witness:
  "\<exists>d'. axiomnet_rdma_check umem_ua (\<lambda>n. Some 0) 4096 1 demo_tok_d = Some (1, d')"
proof -
  have inv: "rdma_inv demo_tok_d {0}" using demo_flight(1) by (simp add: demo_tok_d_def rdma_inv_def)
  have sl: "rdma_slot demo_tok_d 0 = rdma_slot demo_flight 0" by (simp add: demo_tok_d_def rdma_slot_def)
  have rd: "umem_read (user_mem demo_tok_d) 4096 8 = map Some (tokens_bytes [0x500000100])"
    by (simp add: demo_tok_d_def umem_read_numeral tokens_bytes_def le_bytes_def upt_conv_Cons drop_bit_eq_div)
  have "token_after (map (rdma_slot demo_tok_d) [0..<256]) 0x500000100 = set_tk_status AXIOM_TOKEN_ACKED 0x500000100"
    by (simp add: token_after_def AXIOM_TOKEN_IS_PENDING_def tk_status_def tk_msg_id_def tk_value_def sl demo_flight(2)
        demo_status_def drop_bit_eq_div)
  then show ?thesis
    using rdma_check_reports [OF umem_ua_spec inv, of "[0x500000100]" "\<lambda>n. Some 0" 0 4096] rd
    by (auto simp: umem_ua_def AXIOM_TOKEN_IS_ACKED_def)
qed

text \<open>
  The life of a token: the token an asynchronous submission hands out is pending, a check
  leaves it so while the request is in flight, and turns it into an acknowledged one once the
  acknowledgement has been handled.
\<close>

theorem rdma_token_lifecycle:
  assumes "rdma_inv d own" and "swq_free (rdma_queue d) \<noteq> 0" and "\<not> sp_mutex (rdma_port d)"
    and "rdma_valid d h" and "hw_rdma_tx_avail hw (dev_api d) = (n, dev)" "n \<noteq> 0"
    and "hw_rdma_tx hw dev (rdma_tx_header (of_nat (rdma_next d)) h) =
       Some (of_nat (rdma_next d), rdma_tx_header (of_nat (rdma_next d)) h, dev')"
    and "flags AND AXIOCTL_RDMA_FLAGS_ASYNC \<noteq> 0"
    and "dh_node ack = dh_node h" "pt_error (dh_port_type ack) = 0"
  shows "\<exists>h' t d1 d2 ds1 ds2.
    axiomnet_rdma_tx hw nonblock h (Some tok) None flags env d = Some (int (rdma_next d), h', Some t, env, d1) \<and>
    AXIOM_TOKEN_IS_PENDING t \<and> sq_desc (rdma_queue d1) = Some ds1 \<and> rdma_check_loop ds1 [t] 0 = Some ([t], 0) \<and>
    rdma_rx_ack hw (tk_msg_id t) ack d1 = Some d2 \<and> sq_desc (rdma_queue d2) = Some ds2 \<and>
    rdma_check_loop ds2 [t] 0 = Some ([set_tk_status AXIOM_TOKEN_ACKED t], 1)"
proof -
  let ?i = "rdma_next d"
  let ?rs = "rdma_slot d ?i"
  let ?t = "rdma_token ?rs tok"
  from assms(1) obtain fs ds where t: "rdma_table own ds" and sl: "rdma_slot d = (!) ds" by (rule rdma_invE)
  have i: "?i < 256" using rdma_pop [OF assms(1,2)] by blast
  then have id: "rs_msg_id ?rs = of_nat ?i" using t sl by (simp add: rdma_table_def)
  have uid: "unat (of_nat ?i :: u8) = ?i" using i by (simp add: unat_of_nat)
  have tk: "tk_msg_id ?t = of_nat ?i" "tk_status ?t = AXIOM_TOKEN_PENDING" "tk_value ?t = rs_msg_id_counter ?rs"
    by (simp_all add: rdma_token_def id)
  from rdma_tx_async_lemma [OF assms(1-7), of None flags nonblock "Some tok" env] assms(8) obtain d1 where
    d1: "axiomnet_rdma_tx hw nonblock h (Some tok) None flags env d =
        Some (int ?i, rdma_tx_header (of_nat ?i) h, Some ?t, env, d1)" "rdma_inv d1 (insert ?i own)"
      "rdma_slot d1 ?i = rdma_setup (of_nat ?i) (rdma_tx_header (of_nat ?i) h) None flags ?rs" by auto
  from d1(2) obtain ds1 where ds1: "sq_desc (rdma_queue d1) = Some ds1" "length ds1 = 256" "rdma_slot d1 = (!) ds1"
    by (rule rdma_invE)
  have "callback_ok d1 (rs_callback (rdma_slot d1 ?i))" "\<not> rs_ack_waiting (rdma_slot d1 ?i)"
    "dh_node ack = dh_node (rs_header (rdma_slot d1 ?i))" using assms(8,9) by (simp_all add: d1(3) callback_ok_def)
  from rdma_ack_lemma [OF d1(2) _ uid this(2,1,3) assms(10)] obtain d2 where
    d2: "rdma_rx_ack hw (of_nat ?i) ack d1 = Some d2" "rdma_inv d2 (insert ?i own - {?i})"
      "rs_msg_id_counter (rdma_slot d2 ?i) = rs_msg_id_counter (rdma_slot d1 ?i) + 1" by blast
  from d2(2) obtain ds2 where ds2: "sq_desc (rdma_queue d2) = Some ds2" "length ds2 = 256" "rdma_slot d2 = (!) ds2"
    by (rule rdma_invE)
  have "rdma_check_loop ds1 [?t] 0 = Some ([?t], 0)" "rdma_check_loop ds2 [?t] 0 = Some ([set_tk_status AXIOM_TOKEN_ACKED ?t], 1)"
    using rdma_check_loop_eq [OF ds1(2), of "[?t]" 0] rdma_check_loop_eq [OF ds2(2), of "[?t]" 0] tk uid d1(3) d2(3) ds1(3) ds2(3)
    by (simp_all add: token_after_def AXIOM_TOKEN_IS_PENDING_def AXIOM_TOKEN_IS_ACKED_def del: rdma_check_loop.simps)
  with d1 d2 ds1 ds2 tk show ?thesis unfolding AXIOM_TOKEN_IS_PENDING_def by (metis (no_types))
qed

theorem rdma_token_lifecycle_witness:
  "\<exists>h' t d1 d2. axiomnet_rdma_tx demo_hw True demo_rdma_h (Some 0) None 1 [] demo_d = Some (0, h', Some t, [], d1) \<and>
     rdma_rx_ack demo_hw (tk_msg_id t) (demo_ack 0) d1 = Some d2"
proof -
  have "dh_node (demo_ack 0) = dh_node demo_rdma_h" "pt_error (dh_port_type (demo_ack 0)) = 0"
    by (simp_all add: demo_ack_def)
  then show ?thesis
    using rdma_token_lifecycle [where hw = demo_hw and flags = 1 and nonblock = True and env = "[]" and tok = 0,
        OF demo_rdma_inv _ demo_rdma_port demo_rdma_valid demo_rdma_tx(2), of _ "demo_ack 0"] demo_rdma_free
    by (auto simp: demo_rdma_tx)
qed

end
