(* ===== verification/DriverLong.thy ===== *)
theory DriverLong
  imports RdmaProps
begin

text \<open>
  LONG messages (\<open>axiom_netdev_driver/axiom_netdev_common.c\<close>, lines 505 to 515 and 1004 to 1365): a LONG
  message travels as an RDMA request between two of the reserved 64 KiB buffers. Sending copies the
  user's bytes into a transmit buffer and submits a request whose callback gives the buffer back;
  receiving finds the receive buffer from the address in the header and hands it back to the
  hardware. The workers of the kernel threads close the theory.
\<close>

section \<open>Buffers\<close>

text \<open>Bytes of the reserved memory the LONG buffers live in.\<close>

definition mem_load :: "(u64 \<Rightarrow> u8) \<Rightarrow> u64 \<Rightarrow> nat \<Rightarrow> u8 list" where
  "mem_load m a n = map (\<lambda>i. m (a + of_nat i)) [0..<n]"

definition mem_store :: "(u64 \<Rightarrow> u8) \<Rightarrow> u64 \<Rightarrow> u8 list \<Rightarrow> u64 \<Rightarrow> u8" where
  "mem_store m a bs x = (let k = unat (x - a) in if k < length bs then bs ! k else m x)"

text \<open>
  \<open>axiomnet_long_rdma2buf\<close>: the subtraction is done in 64 bits and the quotient is cut to a 32-bit
  \<open>int\<close>. The inner option is the \<open>NULL\<close> pointer.
\<close>

definition axiomnet_long_rdma2buf :: "('d, 'u) drvdata \<Rightarrow> u32 \<Rightarrow> long_buf_lut option option" where
  "axiomnet_long_rdma2buf d rdma_addr =
     (let buf_id = sint (ucast ((ucast rdma_addr - rdma_size d) div of_nat AXIOM_LONG_PAYLOAD_BUF_SIZE) :: u32) in
      if buf_id \<ge> int AXIOMREG_LEN_LONG_BUF \<or> buf_id < 0 then Some None
      else do { lut \<leftarrow> arr_get (long_rxbuf_lut d) buf_id; Some (Some lut) })"

section \<open>Sending\<close>

definition axiomnet_long_tx_avail :: "('d, 'u) drvdata \<Rightarrow> (bool \<times> ('d, 'u) drvdata) option" where
  "axiomnet_long_tx_avail d = Some (eviq_free_avail (sq_evi (long_tx_queue d)), d)"

definition get_long_tx :: "s16 \<Rightarrow> ('d, 'u) drvdata \<Rightarrow> long_msg option" where
  "get_long_tx slot d = do { ds \<leftarrow> sq_desc (long_tx_queue d); arr_get ds (sint slot) }"

definition set_long_tx :: "s16 \<Rightarrow> rdma_hdr \<Rightarrow> ('d, 'u) drvdata \<Rightarrow> ('d, 'u) drvdata option" where
  "set_long_tx slot h d = do {
     ds \<leftarrow> sq_desc (long_tx_queue d);
     m \<leftarrow> arr_get ds (sint slot);
     ds \<leftarrow> arr_set ds (sint slot) (m\<lparr>lm_header := h\<rparr>);
     Some (d\<lparr>long_tx_queue := (long_tx_queue d)\<lparr>sq_desc := Some ds\<rparr>\<rparr>) }"

text \<open>The label \<open>err\<close>: the buffer goes back to the free list.\<close>

definition long_tx_push :: "s16 \<Rightarrow> ('d, 'u) drvdata \<Rightarrow> ('d, 'u) drvdata option" where
  "long_tx_push slot d = do {
     let avail = eviq_free_avail (sq_evi (long_tx_queue d));
     e \<leftarrow> eviq_free_push (sq_evi (long_tx_queue d)) slot;
     let d = d\<lparr>long_tx_queue := (long_tx_queue d)\<lparr>sq_evi := e\<rparr>\<rparr>;
     if \<not> avail then wake_up LongTx d else Some d }"

text \<open>The fields of the user's header the message takes over.\<close>

definition long_tx_header :: "rdma_hdr \<Rightarrow> rdma_hdr \<Rightarrow> rdma_hdr" where
  "long_tx_header user h = h\<lparr>dh_port_type := dh_port_type user, dh_node := dh_node user,
     dh_payload_size := dh_payload_size user\<rparr>"

text \<open>
  The part between the check of the slot and the submission: the error code, or 0, and the state.
\<close>

definition long_send_copy :: "'u uaccess \<Rightarrow> s16 \<Rightarrow> rdma_hdr \<Rightarrow> iovec list \<Rightarrow> ('d, 'u) drvdata \<Rightarrow>
    (int \<times> ('d, 'u) drvdata) option" where
  "long_send_copy ua slot user iov d = do {
     m \<leftarrow> get_long_tx slot d;
     d \<leftarrow> set_long_tx slot (long_tx_header user (lm_header m)) d;
     if unat (dh_payload_size user) > AXIOM_LONG_PAYLOAD_MAX_SIZE then Some (- EFBIG, d)
     else do {
       (ret, bs) \<leftarrow> gather_iov ua (user_mem d) (lm_payload m) (uint (dh_payload_size user)) iov 0
          (mem_load (long_mem d) (lm_payload m) AXIOM_LONG_PAYLOAD_BUF_SIZE);
       Some (ret, d\<lparr>long_mem := mem_store (long_mem d) (lm_payload m) bs\<rparr>) } }"

definition axiomnet_long_send :: "'d hw_api \<Rightarrow> 'u uaccess \<Rightarrow> bool \<Rightarrow> rdma_hdr \<Rightarrow> iovec list \<Rightarrow>
    ('d, 'u) drvdata wait_ev list \<Rightarrow> ('d, 'u) drvdata \<Rightarrow>
    (int \<times> ('d, 'u) drvdata wait_ev list \<times> ('d, 'u) drvdata) option" where
  "axiomnet_long_send hw ua nonblock user iov env d = do {
     d \<leftarrow> mutex_lock LongTx d;
     (r, env, d) \<leftarrow> wait_avail axiomnet_long_tx_avail LongTx wait_long_tx nonblock env d;
     if r \<noteq> 0 then Some (r, env, d)
     else do {
       (slot, e) \<leftarrow> eviq_free_pop (sq_evi (long_tx_queue d));
       d \<leftarrow> mutex_unlock LongTx (d\<lparr>long_tx_queue := (long_tx_queue d)\<lparr>sq_evi := e\<rparr>\<rparr>);
       if slot = EVIQ_NONE then Some (- EFAULT, env, d)
       else do {
         (r, d) \<leftarrow> long_send_copy ua slot user iov d;
         if r \<noteq> 0 then do { d \<leftarrow> long_tx_push slot d; Some (r, env, d) }
         else do {
           m \<leftarrow> get_long_tx slot d;
           (ret, h, tok, env, d) \<leftarrow> axiomnet_rdma_tx hw nonblock (lm_header m) None (Some slot) 0 env d;
           d \<leftarrow> set_long_tx slot h d;
           d \<leftarrow> mutex_lock LongTx d;
           if ret < 0 then do {
             d \<leftarrow> mutex_unlock LongTx (inc_stat err_long_tx d);
             d \<leftarrow> long_tx_push slot d;
             Some (ret, env, d) }
           else do {
             d \<leftarrow> mutex_unlock LongTx (add_stat bytes_long_tx (ucast (dh_payload_size h)) (inc_stat pkt_long_tx d));
             Some (ret, env, d) } } } } }"

section \<open>Receiving\<close>

definition axiomnet_long_rx_avail :: "int \<Rightarrow> ('d, 'u) drvdata \<Rightarrow> (bool \<times> ('d, 'u) drvdata) option" where
  "axiomnet_long_rx_avail port d = do {
     b \<leftarrow> eviq_avail (sq_evi (long_rx_queue d)) port;
     Some (b, d) }"

text \<open>From the lookup of the buffer to the label \<open>free_enqueue\<close>: the length or error code, the header and the user memory.\<close>

definition long_recv_copy :: "'u uaccess \<Rightarrow> ('d, 'u) drvdata \<Rightarrow> long_buf_lut option \<Rightarrow> long_msg \<Rightarrow> rdma_hdr \<Rightarrow> iovec list \<Rightarrow>
    (int \<times> rdma_hdr \<times> 'u) option" where
  "long_recv_copy ua d lut m header iov =
     (case lut of
        None \<Rightarrow> Some (- EFAULT, header, user_mem d)
      | Some l \<Rightarrow>
          if dh_payload_size header < dh_payload_size (lm_header m) then Some (- EFBIG, header, user_mem d)
          else do {
            let psize = uint (dh_payload_size (lm_header m));
            (ok, u) \<leftarrow> scatter_iov ua (user_mem d) (lut_buf_sw l)
               (mem_load (long_mem d) (lut_buf_sw l) AXIOM_LONG_PAYLOAD_BUF_SIZE) psize iov 0;
            Some (if ok then 16 + psize else - EFAULT, lm_header m, u) })"

definition axiomnet_long_recv :: "'d hw_api \<Rightarrow> 'u uaccess \<Rightarrow> bool \<Rightarrow> priv \<Rightarrow> rdma_hdr \<Rightarrow> iovec list \<Rightarrow>
    ('d, 'u) drvdata wait_ev list \<Rightarrow> ('d, 'u) drvdata \<Rightarrow>
    (int \<times> rdma_hdr \<times> ('d, 'u) drvdata wait_ev list \<times> ('d, 'u) drvdata) option" where
  "axiomnet_long_recv hw ua nonblock pr header iov env d =
     (let port = bind_port pr in
      if port = AXIOMNET_PORT_INVALID then Some (- EFAULT, header, env, d)
      else do {
        d \<leftarrow> mutex_lock (LongRx port) d;
        (r, env, d) \<leftarrow> wait_avail (axiomnet_long_rx_avail port) (LongRx port) wait_long_rx nonblock env d;
        if r \<noteq> 0 then Some (r, header, env, d)
        else do {
          (slot, e) \<leftarrow> eviq_dequeue (sq_evi (long_rx_queue d)) port;
          d \<leftarrow> mutex_unlock (LongRx port) (d\<lparr>long_rx_queue := (long_rx_queue d)\<lparr>sq_evi := e\<rparr>\<rparr>);
          if slot = EVIQ_NONE then Some (- EFAULT, header, env, d)
          else do {
            ds \<leftarrow> sq_desc (long_rx_queue d);
            m \<leftarrow> arr_get ds (sint slot);
            lut \<leftarrow> axiomnet_long_rdma2buf d (rx_dst_addr (lm_header m));
            (len, header, u) \<leftarrow> long_recv_copy ua d lut m header iov;
            let d = d\<lparr>user_mem := u\<rparr>;
            let avail = eviq_free_avail (sq_evi (long_rx_queue d));
            e \<leftarrow> eviq_free_push (sq_evi (long_rx_queue d)) slot;
            let d = d\<lparr>long_rx_queue := (long_rx_queue d)\<lparr>sq_evi := e\<rparr>\<rparr>;
            let d = (if avail then d\<lparr>kthread_rdma := axiom_kthread_wakeup (kthread_rdma d)\<rparr> else d);
            d \<leftarrow> mutex_lock (LongRx port) d;
            let d = (case lut of None \<Rightarrow> d
                     | Some l \<Rightarrow> d\<lparr>dev_api := hw_set_long_buf hw (dev_api d) (lut_buf_id l) (lut_buf_hw l)\<rparr>);
            d \<leftarrow> mutex_unlock (LongRx port) d;
            Some (len, header, env, d) } } })"

section \<open>Flushing\<close>

partial_function (option) long_flush_loop :: "'d hw_api \<Rightarrow> int \<Rightarrow> ('d, 'u) drvdata \<Rightarrow> (int \<times> ('d, 'u) drvdata) option" where
  "long_flush_loop hw port d = do {
     (b, d) \<leftarrow> axiomnet_long_rx_avail port d;
     if \<not> b then Some (0, d)
     else do {
       (slot, e) \<leftarrow> eviq_dequeue (sq_evi (long_rx_queue d)) port;
       let d = d\<lparr>long_rx_queue := (long_rx_queue d)\<lparr>sq_evi := e\<rparr>\<rparr>;
       if slot = EVIQ_NONE then Some (- EFAULT, d)
       else do {
         ds \<leftarrow> sq_desc (long_rx_queue d);
         m \<leftarrow> arr_get ds (sint slot);
         lut \<leftarrow> axiomnet_long_rdma2buf d (rx_dst_addr (lm_header m));
         case lut of
           None \<Rightarrow> Some (- EFAULT, d)
         | Some l \<Rightarrow> do {
             e \<leftarrow> eviq_free_push (sq_evi (long_rx_queue d)) slot;
             long_flush_loop hw port (d\<lparr>long_rx_queue := (long_rx_queue d)\<lparr>sq_evi := e\<rparr>,
               dev_api := hw_set_long_buf hw (dev_api d) (lut_buf_id l) (lut_buf_hw l)\<rparr>) } } } }"

definition axiomnet_long_flush :: "'d hw_api \<Rightarrow> priv \<Rightarrow> ('d, 'u) drvdata \<Rightarrow> (int \<times> ('d, 'u) drvdata) option" where
  "axiomnet_long_flush hw pr d =
     (let port = bind_port pr in
      if port = AXIOMNET_PORT_INVALID then Some (- EFAULT, d)
      else do {
        d \<leftarrow> mutex_lock (LongRx port) d;
        (ret, d) \<leftarrow> long_flush_loop hw port d;
        d \<leftarrow> mutex_unlock (LongRx port) d;
        Some (ret, d\<lparr>kthread_rdma := axiom_kthread_wakeup (kthread_rdma d)\<rparr>) })"

section \<open>Workers\<close>

definition axiomnet_raw_rx_worker :: "'d hw_api \<Rightarrow> ('d, 'u) drvdata \<Rightarrow> ('d, 'u) drvdata option" where
  "axiomnet_raw_rx_worker hw d = axiom_raw_rx_dequeue hw d"

definition axiomnet_rdma_rx_worker :: "'d hw_api \<Rightarrow> rdma_hdr \<Rightarrow> ('d, 'u) drvdata \<Rightarrow> ('d, 'u) drvdata option" where
  "axiomnet_rdma_rx_worker hw old d = axiom_rdma_rx_dequeue hw old d"

definition axiomnet_watchdog_work_todo :: "('d, 'u) drvdata \<Rightarrow> bool" where
  "axiomnet_watchdog_work_todo d = (watchdog_period_msec d \<noteq> 0)"

text \<open>\<open>axiomnet_watchdog_worker\<close>; the sleep at its end changes no state.\<close>

definition axiomnet_watchdog_worker :: "'d hw_api \<Rightarrow> ('d, 'u) drvdata \<Rightarrow> ('d, 'u) drvdata option" where
  "axiomnet_watchdog_worker hw d =
     (let (b, d) = axiomnet_raw_rx_work_todo hw d;
          d = (if b then d\<lparr>kthread_raw := axiom_kthread_wakeup (kthread_raw d)\<rparr> else d);
          (n, d) = axiomnet_raw_tx_avail hw d in do {
        d \<leftarrow> (if n \<noteq> 0 then wake_up RawTx d else Some d);
        let (b, d) = axiomnet_rdma_rx_work_todo hw d;
        let d = (if b then d\<lparr>kthread_rdma := axiom_kthread_wakeup (kthread_rdma d)\<rparr> else d);
        let (b, d) = axiomnet_rdma_tx_avail hw d;
        if b then wake_up RdmaTx d else Some d })"

end
