(* ===== verification/LongProps.thy ===== *)
theory LongProps
  imports DriverLong
begin

text \<open>
  The properties of LONG messages: the buffer lookup, reception by the worker, delivery to the user,
  flushing, and sending.
\<close>

section \<open>The receive queue as headers\<close>

definition long_hdrs :: "('d, 'u) drvdata \<Rightarrow> nat \<Rightarrow> rdma_hdr list" where
  "long_hdrs d p = map lm_header (swq_msgs (long_rx_queue d) p)"

definition long_inv :: "('d, 'u) drvdata \<Rightarrow> nat set \<Rightarrow> bool" where
  "long_inv d own \<longleftrightarrow> (\<exists>fs qs ds. swq_rep (long_rx_queue d) fs qs own ds \<and> length qs = AXIOM_PORT_NUM) \<and>
     length (long_rx_ports d) = AXIOM_PORT_NUM"

definition long_port :: "rdma_hdr \<Rightarrow> nat" where
  "long_port h = unat (pt_port (dh_port_type h))"

lemma long_invI: "swq_rep (long_rx_queue d) fs qs own ds \<Longrightarrow> length qs = 7 \<Longrightarrow> length (long_rx_ports d) = 7 \<Longrightarrow> long_inv d own"
  unfolding long_inv_def by blast

section \<open>The buffer of an address\<close>

lemma sint_unat_u32: "unat (w :: u32) < 2 ^ 31 \<Longrightarrow> sint w = int (unat w)"
  using sint_of_nat_u32 [of "unat w"] by (simp only: of_nat_unat ucast_id)

lemma mod_wrapped:
  assumes "2 ^ 48 - 2 ^ 16 \<le> (q :: nat)" "q < 2 ^ 48"
  shows "2 ^ 31 \<le> q mod 2 ^ 32"
proof -
  obtain r where q: "q = 65535 * 2 ^ 32 + r" using assms(1) le_Suc_ex [of "65535 * 2 ^ 32" q] by auto
  with assms have "r < 2 ^ 32" "2 ^ 31 \<le> r" by simp_all
  moreover from this have "q mod 2 ^ 32 = r" unfolding q by (simp only: mod_mult_self3 mod_less)
  ultimately show ?thesis by simp
qed

lemma sint_neg_u32: assumes "2 ^ 31 \<le> unat (w :: u32)" shows "sint w < 0"
proof (rule ccontr)
  assume "\<not> sint w < 0"
  moreover have lt: "sint w < 2 ^ 31" using sint_lt [of w] by simp
  ultimately have "uint w = sint w" unfolding uint_sint [of w] by (intro take_bit_int_eq_self) simp_all
  with lt have "uint w < 2 ^ 31" by (simp only:)
  then have "int (unat w) < int (2 ^ 31)" by (simp only: uint_nat of_nat_power of_nat_numeral)
  then have "unat w < 2 ^ 31" by (simp only: of_nat_less_iff)
  with assms leD show False by blast
qed

text \<open>The lookup of a receive buffer, for every address; the property below states it.\<close>

lemma long_rdma2buf_lemma:
  assumes "unat (rdma_size d) \<le> 2 ^ 32" and "length (long_rxbuf_lut d) = AXIOMREG_LEN_LONG_BUF"
  shows "axiomnet_long_rdma2buf d a =
    Some (if unat (rdma_size d) \<le> unat a \<and> unat a < unat (rdma_size d) + 32 * 65536
          then Some (long_rxbuf_lut d ! ((unat a - unat (rdma_size d)) div 65536)) else None)"
proof -
  let ?s = "unat (rdma_size d)"
  let ?x = "ucast a - rdma_size d :: u64"
  let ?w = "ucast (?x div 65536) :: u32"
  have a: "unat a < 2 ^ 32" using unsigned_less [of a, where 'a = nat] by simp
  have ua: "unat (ucast a :: u64) = unat a" using a by (simp add: unsigned_ucast_eq take_bit_nat_def)
  have w: "unat ?w = (unat ?x div 65536) mod 2 ^ 32" by (simp add: unsigned_ucast_eq take_bit_nat_def unat_div)
  show ?thesis
  proof (cases "?s \<le> unat a")
    case True
    then have x: "unat ?x = unat a - ?s" by (simp add: unat_sub_if' ua)
    then have wx: "unat ?w = (unat a - ?s) div 65536" using a w by simp
    then have "unat ?w < 2 ^ 31" using a by simp
    then have "sint ?w = int ((unat a - ?s) div 65536)" using sint_unat_u32 wx by metis
    moreover have "(unat a - ?s) div 65536 < 32 \<longleftrightarrow> unat a < ?s + 32 * 65536" using True by auto
    ultimately show ?thesis using True assms(2) by (auto simp: axiomnet_long_rdma2buf_def Let_def)
  next
    case False
    then have "unat ?x = unat a + 2 ^ 64 - ?s" by (simp add: unat_sub_if' ua)
    then have "2 ^ 48 - 2 ^ 16 \<le> unat ?x div 65536" "unat ?x div 65536 < 2 ^ 48" using False assms(1) by auto
    then have "2 ^ 31 \<le> unat ?w" unfolding w by (rule mod_wrapped)
    then have "sint ?w < 0" by (rule sint_neg_u32)
    then show ?thesis using False by (simp add: axiomnet_long_rdma2buf_def)
  qed
qed

text \<open>
  Property C22. The lookup of a receive buffer stays inside the table for every address the network can
  deliver: an address inside the 32 buffers behind the RDMA zone gives the buffer that holds it,
  every other address gives \<open>NULL\<close>, also those below the zone, whose difference wraps around.
\<close>

theorem long_rdma2buf_exact:
  assumes "unat (rdma_size d) \<le> 2 ^ 32" and "length (long_rxbuf_lut d) = AXIOMREG_LEN_LONG_BUF"
  shows "axiomnet_long_rdma2buf d a =
    Some (if unat (rdma_size d) \<le> unat a \<and> unat a < unat (rdma_size d) + 32 * 65536
          then Some (long_rxbuf_lut d ! ((unat a - unat (rdma_size d)) div 65536)) else None)"
  by (rule long_rdma2buf_lemma [OF assms])

theorem long_rdma2buf_exact_witness:
  "axiomnet_long_rdma2buf demo_d 69640 = Some (Some (demo_lut 1)) \<and> axiomnet_long_rdma2buf demo_d 8 = Some None"
proof -
  have "unat (rdma_size demo_d) \<le> 2 ^ 32" "length (long_rxbuf_lut demo_d) = AXIOMREG_LEN_LONG_BUF"
    by (simp_all add: demo_d_def)
  from long_rdma2buf_exact [OF this] show ?thesis by (simp add: demo_d_def)
qed

section \<open>Reception by the worker\<close>

definition long_frame :: "('d, 'u) drvdata \<Rightarrow> ('d, 'u) drvdata \<Rightarrow> bool" where
  "long_frame d d' \<longleftrightarrow> d' = d\<lparr>long_rx_queue := long_rx_queue d', long_rx_ports := long_rx_ports d', dd_stats := dd_stats d'\<rparr> \<and>
     map sp_mutex (long_rx_ports d') = map sp_mutex (long_rx_ports d)"

definition long_accepted :: "('d, 'u) drvdata \<Rightarrow> rdma_hdr \<Rightarrow> bool" where
  "long_accepted d h \<longleftrightarrow> pt_type (dh_port_type h) = AXIOM_TYPE_LONG_DATA \<and> swq_free (long_rx_queue d) \<noteq> 0 \<and> long_port h < 7"

lemma wake_up_long_rx:
  "p < length (long_rx_ports d) \<Longrightarrow> wake_up (LongRx (int p)) d = Some (d\<lparr>long_rx_ports :=
     (long_rx_ports d)[p := (long_rx_ports d ! p)\<lparr>sp_wakes := Suc (sp_wakes (long_rx_ports d ! p))\<rparr>]\<rparr>)"
  by (simp add: wake_up_def)

lemma rdma_rx_long_accepted:
  assumes rep: "swq_rep (long_rx_queue d) (s # fs) qs own ds" and len: "length qs = 7"
    and ports: "length (long_rx_ports d) = 7" and h: "pt_type (dh_port_type h) = AXIOM_TYPE_LONG_DATA" "long_port h < 7"
  shows "\<exists>d'. rdma_rx_long h d = Some d' \<and> long_frame d d' \<and>
    dd_stats d' = stat_add bytes_long_rx (ucast (dh_payload_size h)) (stat_add pkt_long_rx 1 (dd_stats d)) \<and>
    swq_rep (long_rx_queue d') fs (qs[long_port h := qs ! long_port h @ [s]]) own (ds[s := (ds ! s)\<lparr>lm_header := h\<rparr>])"
proof -
  let ?m = "(ds ! s)\<lparr>lm_header := h\<rparr>"
  let ?p = "long_port h"
  from swq_pop [OF rep] obtain e where e: "eviq_free_pop (sq_evi (long_rx_queue d)) = Some (of_nat s, e)"
    and r1: "swq_rep ((long_rx_queue d)\<lparr>sq_evi := e\<rparr>) fs qs (insert s own) ds" by blast
  have desc: "sq_desc (long_rx_queue d) = Some ds" using rep by (simp add: swq_rep_def)
  have s: "s < length ds" "sint (of_nat s :: s16) = int s" "(of_nat s :: s16) \<noteq> EVIQ_NONE" "s \<notin> own"
    using swq_rep_slot [OF rep, of s] swq_free_not_queued [OF rep, of 0] len by auto
  from swq_write [OF r1, of s ?m] have
    r2: "swq_rep ((long_rx_queue d)\<lparr>sq_evi := e, sq_desc := Some (ds[s := ?m])\<rparr>) fs qs (insert s own) (ds[s := ?m])"
    by simp
  from swq_enqueue [OF r2, of s ?p] len h obtain e' where
    e': "eviq_enqueue e (int ?p) (of_nat s) = Some e'"
      "swq_rep ((long_rx_queue d)\<lparr>sq_evi := e', sq_desc := Some (ds[s := ?m])\<rparr>) fs (qs[?p := qs ! ?p @ [s]])
         (insert s own - {s}) (ds[s := ?m])" by auto
  moreover have "insert s own - {s} = own" using s by auto
  moreover have "eviq_avail e (int ?p) = Some (qs ! ?p \<noteq> [])" using swq_avail(1) [OF r2, of ?p] len h by simp
  moreover have "?p < length (long_rx_ports d)" using h ports by simp
  moreover have "uint (pt_port (dh_port_type h)) = int ?p" by (simp add: long_port_def)
  ultimately show ?thesis using e desc s h
    by (cases "qs ! ?p = []") (simp_all add: rdma_rx_long_def wake_up_long_rx inc_stat_def add_stat_def
        long_frame_def map_mutex_wake)
qed

lemma rdma_rx_long_port7:
  assumes rep: "swq_rep (long_rx_queue d) (s # fs) qs own ds" and len: "length qs = 7"
    and h: "pt_type (dh_port_type h) = AXIOM_TYPE_LONG_DATA" "\<not> long_port h < 7"
  shows "\<exists>d'. rdma_rx_long h d = Some d' \<and> long_frame d d' \<and> dd_stats d' = stat_add err_long_rx 1 (dd_stats d) \<and>
    long_rx_ports d' = long_rx_ports d \<and>
    swq_rep (long_rx_queue d') (s # fs) qs own (ds[s := (ds ! s)\<lparr>lm_header := h\<rparr>])"
proof -
  let ?m = "(ds ! s)\<lparr>lm_header := h\<rparr>"
  from swq_pop [OF rep] obtain e where e: "eviq_free_pop (sq_evi (long_rx_queue d)) = Some (of_nat s, e)"
    and r1: "swq_rep ((long_rx_queue d)\<lparr>sq_evi := e\<rparr>) fs qs (insert s own) ds" by blast
  have desc: "sq_desc (long_rx_queue d) = Some ds" using rep by (simp add: swq_rep_def)
  have s: "s < length ds" "sint (of_nat s :: s16) = int s" "(of_nat s :: s16) \<noteq> EVIQ_NONE" "s \<notin> own"
    using swq_rep_slot [OF rep, of s] swq_free_not_queued [OF rep, of 0] len by auto
  from swq_write [OF r1, of s ?m] have
    r2: "swq_rep ((long_rx_queue d)\<lparr>sq_evi := e, sq_desc := Some (ds[s := ?m])\<rparr>) fs qs (insert s own) (ds[s := ?m])"
    by simp
  from swq_push [OF r2, of s] obtain e' where
    e': "eviq_free_push e (of_nat s) = Some e'"
      "swq_rep ((long_rx_queue d)\<lparr>sq_evi := e', sq_desc := Some (ds[s := ?m])\<rparr>) (s # fs) qs
         (insert s own - {s}) (ds[s := ?m])" by auto
  moreover have "insert s own - {s} = own" using s by auto
  moreover have "uint (pt_port (dh_port_type h)) = int (long_port h)" by (simp add: long_port_def)
  then have "\<not> uint (pt_port (dh_port_type h)) < 7" using h(2) by linarith
  ultimately show ?thesis using e desc s h
    by (simp add: rdma_rx_long_def inc_stat_def long_frame_def)
qed

lemma long_rx_lemma:
  assumes inv: "long_inv d own"
  shows "\<exists>d'. rdma_rx_long h d = Some d' \<and> long_inv d' own \<and> long_frame d d' \<and>
    (\<forall>p < 7. long_hdrs d' p = long_hdrs d p @ (if long_accepted d h \<and> long_port h = p then [h] else [])) \<and>
    swq_free (long_rx_queue d') + (if long_accepted d h then 1 else 0) = swq_free (long_rx_queue d)"
proof -
  from inv obtain fs qs ds where rep: "swq_rep (long_rx_queue d) fs qs own ds" and len: "length qs = 7"
    and ports: "length (long_rx_ports d) = 7" by (auto simp: long_inv_def)
  note free = swq_rep_contents(1) [OF rep]
  consider "pt_type (dh_port_type h) \<noteq> AXIOM_TYPE_LONG_DATA" | "pt_type (dh_port_type h) = AXIOM_TYPE_LONG_DATA" "fs = []"
    | s fs' where "pt_type (dh_port_type h) = AXIOM_TYPE_LONG_DATA" "fs = s # fs'" "long_port h < 7"
    | s fs' where "pt_type (dh_port_type h) = AXIOM_TYPE_LONG_DATA" "fs = s # fs'" "\<not> long_port h < 7"
    by (cases fs) auto
  then show ?thesis
  proof cases
    case 1
    then have "\<exists>d'. rdma_rx_long h d = Some d' \<and> long_rx_queue d' = long_rx_queue d \<and> long_rx_ports d' = long_rx_ports d \<and> long_frame d d'"
      by (auto simp: rdma_rx_long_def add_stat_def inc_stat_def long_frame_def)
    then obtain d' where d': "rdma_rx_long h d = Some d'" "long_rx_queue d' = long_rx_queue d"
      "long_rx_ports d' = long_rx_ports d" "long_frame d d'" by blast
    moreover have "long_inv d' own" using inv d' by (simp add: long_inv_def)
    ultimately show ?thesis using 1 by (intro exI [of _ d']) (simp add: long_accepted_def long_hdrs_def)
  next
    case 2
    then have "eviq_free_pop (sq_evi (long_rx_queue d)) = Some (- 1, sq_evi (long_rx_queue d))"
      using rep eviq.pop_empty by (auto simp: swq_rep_def)
    then have "rdma_rx_long h d = Some (inc_stat err_long_rx d)" using 2 by (simp add: rdma_rx_long_def)
    with 2 inv free show ?thesis
      by (auto simp: long_accepted_def long_inv_def long_hdrs_def inc_stat_def long_frame_def)
  next
    case 3
    with rep have rep0: "swq_rep (long_rx_queue d) (s # fs') qs own ds" by simp
    from rdma_rx_long_accepted [OF rep0 len ports 3(1,3)] obtain d' where d': "rdma_rx_long h d = Some d'" "long_frame d d'"
      and rep': "swq_rep (long_rx_queue d') fs' (qs[long_port h := qs ! long_port h @ [s]]) own (ds[s := (ds ! s)\<lparr>lm_header := h\<rparr>])"
      by auto
    have "length (long_rx_ports d') = 7" using d'(2) ports unfolding long_frame_def by (metis length_map)
    then have "long_inv d' own" using rep' len by (intro long_invI [OF rep']) auto
    moreover have "long_hdrs d' p = long_hdrs d p @ (if long_port h = p then [h] else [])" if "p < 7" for p
      using that swq_rep_contents(2) [OF rep', of p] swq_rep_msgs_write [OF rep0, of p "(ds ! s)\<lparr>lm_header := h\<rparr>"] len
        swq_rep_slot(1) [OF rep0, of s] by (cases "long_port h = p") (simp_all add: long_hdrs_def)
    moreover have "long_accepted d h" using 3 free by (simp add: long_accepted_def)
    ultimately show ?thesis using d' free swq_rep_contents(1) [OF rep'] 3(2) by (intro exI [of _ d']) auto
  next
    case 4
    with rep have rep0: "swq_rep (long_rx_queue d) (s # fs') qs own ds" by simp
    from rdma_rx_long_port7 [OF rep0 len 4(1,3)] obtain d' where d': "rdma_rx_long h d = Some d'" "long_frame d d'"
      "long_rx_ports d' = long_rx_ports d"
      and rep': "swq_rep (long_rx_queue d') (s # fs') qs own (ds[s := (ds ! s)\<lparr>lm_header := h\<rparr>])"
      by auto
    have "long_inv d' own" using rep' len d'(3) ports by (intro long_invI [OF rep']) auto
    moreover have "long_hdrs d' p = long_hdrs d p" if "p < 7" for p
      using that swq_rep_contents(2) [OF rep', of p] swq_rep_msgs_write [OF rep0, of p] len by (simp add: long_hdrs_def)
    moreover have "\<not> long_accepted d h" using 4 by (simp add: long_accepted_def)
    ultimately show ?thesis using d' free swq_rep_contents(1) [OF rep'] 4(2) by (intro exI [of _ d']) auto
  qed
qed

end
