(* ===== verification/RdmaWorker.thy ===== *)
theory RdmaWorker
  imports LongProps
begin

text \<open>
  The RDMA receive worker as a whole (\<open>axiom_rdma_rx_dequeue\<close>): for every device that behaves as
  the hardware interface documents, it empties the receive FIFO, keeps the invariants of the request
  table and of the LONG queues, and delivers the LONG messages in order.
\<close>

section \<open>The joint invariant\<close>

text \<open>
  \<open>own\<close> are the requests in flight, \<open>lown\<close> the LONG transmit buffers in use, \<open>rown\<close> the receive slots
  held by readers. A request with a callback holds the buffer the callback gives back, and no two
  requests share one.
\<close>

definition callbacks_inv :: "('d, 'u) drvdata \<Rightarrow> nat set \<Rightarrow> nat set \<Rightarrow> bool" where
  "callbacks_inv d own lown \<longleftrightarrow> (\<exists>lfs lds. swq_rep (long_tx_queue d) lfs [] lown lds) \<and>
     (\<forall>i \<in> own. \<forall>s. rs_callback (rdma_slot d i) = Some s \<longrightarrow> (\<exists>k \<in> lown. s = of_nat k)) \<and>
     (\<forall>i \<in> own. \<forall>j \<in> own. i \<noteq> j \<longrightarrow> rs_callback (rdma_slot d i) \<noteq> None \<longrightarrow>
        rs_callback (rdma_slot d i) \<noteq> rs_callback (rdma_slot d j))"

definition nic_inv :: "('d, 'u) drvdata \<Rightarrow> nat set \<Rightarrow> nat set \<Rightarrow> nat set \<Rightarrow> bool" where
  "nic_inv d own lown rown \<longleftrightarrow> rdma_inv d own \<and> callbacks_inv d own lown \<and> long_inv d rown \<and> \<not> sp_mutex (rdma_port d)"

lemma callbacks_ok: "callbacks_inv d own lown \<Longrightarrow> i \<in> own \<Longrightarrow> callback_ok d (rs_callback (rdma_slot d i))"
  unfolding callbacks_inv_def callback_ok_def by (fastforce split: option.split)

lemma nic_inv_cong:
  assumes "nic_inv d own lown rown" "rdma_queue d' = rdma_queue d" "long_tx_queue d' = long_tx_queue d"
    "rdma_port d' = rdma_port d" "long_inv d' rown'"
  shows "nic_inv d' own lown rown'"
  using assms by (simp add: nic_inv_def rdma_inv_def callbacks_inv_def rdma_slot_def)

lemma callbacks_inv_same:
  assumes "callbacks_inv d own lown" "long_tx_queue d' = long_tx_queue d"
    "\<And>i. i \<in> own \<Longrightarrow> rs_callback (rdma_slot d' i) = rs_callback (rdma_slot d i)"
  shows "callbacks_inv d' own lown"
  using assms by (simp add: callbacks_inv_def)

lemma pt_error_cases: "pt_error p = 0 \<or> pt_error p = 1"
  by (auto simp: pt_error_def and_one_eq mod_2_eq_odd)

lemma rdma_frameD:
  assumes "rdma_frame d d'"
  shows "dev_api d' = dev_api d" "long_rx_queue d' = long_rx_queue d" "long_rx_ports d' = long_rx_ports d"
  using arg_cong [OF assms [unfolded rdma_frame_def], of dev_api] arg_cong [OF assms [unfolded rdma_frame_def], of long_rx_queue]
    arg_cong [OF assms [unfolded rdma_frame_def], of long_rx_ports] by simp_all

text \<open>The completion of a request takes its buffer out of use.\<close>

lemma callbacks_inv_freed:
  assumes cb: "callbacks_inv d own lown" and i: "i \<in> own" and same: "\<forall>j. j \<noteq> i \<longrightarrow> rdma_slot d' j = rdma_slot d j"
    and s: "rs_callback (rdma_slot d i) = Some (of_nat k)" "k \<in> lown"
    and l: "\<forall>lfs lown lds k'. swq_rep (long_tx_queue d) lfs [] lown lds \<longrightarrow> k' \<in> lown \<longrightarrow> (of_nat k :: s16) = of_nat k' \<longrightarrow>
       swq_rep (long_tx_queue d') (k' # lfs) [] (lown - {k'}) lds"
  shows "callbacks_inv d' (own - {i}) (lown - {k})"
  unfolding callbacks_inv_def
proof (intro conjI ballI allI impI)
  from cb obtain lfs lds where rep: "swq_rep (long_tx_queue d) lfs [] lown lds" by (auto simp: callbacks_inv_def)
  with l s(2) show "\<exists>lfs lds. swq_rep (long_tx_queue d') lfs [] (lown - {k}) lds" by blast
  fix j t assume j: "j \<in> own - {i}" and t: "rs_callback (rdma_slot d' j) = Some t"
  then have t': "rs_callback (rdma_slot d j) = Some t" using same by auto
  with cb j obtain k' where k': "k' \<in> lown" "t = of_nat k'" by (auto simp: callbacks_inv_def)
  have "t \<noteq> of_nat k" using cb i j t' s(1) by (fastforce simp: callbacks_inv_def)
  with k' show "\<exists>k' \<in> lown - {k}. t = of_nat k'" by auto
qed (use cb same in \<open>auto simp: callbacks_inv_def\<close>)

lemma callbacks_inv_complete:
  assumes cb: "callbacks_inv d own lown" and i: "i \<in> own" and same: "\<forall>j. j \<noteq> i \<longrightarrow> rdma_slot d' j = rdma_slot d j"
    and l: "case rs_callback (rdma_slot d i) of None \<Rightarrow> long_tx_queue d' = long_tx_queue d \<and> long_tx_port d' = long_tx_port d
     | Some s \<Rightarrow> sp_mutex (long_tx_port d') = sp_mutex (long_tx_port d) \<and>
        (\<forall>lfs lown lds k. swq_rep (long_tx_queue d) lfs [] lown lds \<longrightarrow> k \<in> lown \<longrightarrow> s = of_nat k \<longrightarrow>
           swq_rep (long_tx_queue d') (k # lfs) [] (lown - {k}) lds)"
  shows "\<exists>lown' \<subseteq> lown. callbacks_inv d' (own - {i}) lown'"
proof (cases "rs_callback (rdma_slot d i)")
  case None
  have "callbacks_inv d' (own - {i}) lown" unfolding callbacks_inv_def
  proof (intro conjI ballI allI impI)
    show "\<exists>lfs lds. swq_rep (long_tx_queue d') lfs [] lown lds" using cb l None by (auto simp: callbacks_inv_def)
  qed (use cb same in \<open>auto simp: callbacks_inv_def\<close>)
  then show ?thesis by blast
next
  case (Some s)
  with cb i obtain k where k: "k \<in> lown" "s = of_nat k" by (auto simp: callbacks_inv_def)
  have "callbacks_inv d' (own - {i}) (lown - {k})"
    by (rule callbacks_inv_freed [OF cb i same]) (use l Some k in auto)
  then show ?thesis by blast
qed

text \<open>The LONG messages among the packets, and the packets the worker may trust: no node has the null id.\<close>

definition is_long :: "rdma_hdr \<Rightarrow> bool" where
  "is_long h \<longleftrightarrow> pt_s (dh_port_type h) \<noteq> 1 \<and> pt_type (dh_port_type h) = AXIOM_TYPE_LONG_DATA \<and> long_port h < 7"

definition ack_sane :: "rdma_hdr \<Rightarrow> bool" where
  "ack_sane h \<longleftrightarrow> (pt_s (dh_port_type h) = 1 \<longrightarrow> dh_node h \<noteq> AXIOM_NULL_NODE)"

lemma long_inv_same:
  "long_rx_queue d' = long_rx_queue d \<Longrightarrow> long_rx_ports d' = long_rx_ports d \<Longrightarrow> long_inv d' own = long_inv d own"
  by (simp add: long_inv_def)

section \<open>The device\<close>

text \<open>
  What the worker relies on of the hardware: \<open>fifo v\<close> lists the packets waiting in the device; the
  availability register is non-zero exactly when there is one; receiving takes the first one out and
  returns its message id; the transmit queue has room again after a while; a transmission returns its
  message id, keeps the node and leaves the receive FIFO alone.
\<close>

locale rdma_device =
  fixes hw :: "'d hw_api" and fifo :: "'d \<Rightarrow> rdma_hdr list"
  assumes rx_avail: "fst (hw_rdma_rx_avail hw v) \<noteq> 0 \<longleftrightarrow> fifo v \<noteq> []" "fifo (snd (hw_rdma_rx_avail hw v)) = fifo v"
    and rx: "fifo v = k # ks \<Longrightarrow> \<exists>v'. hw_rdma_rx hw v old = Some (dh_msg_id k, k, v') \<and> fifo v' = ks"
    and tx_space: "\<exists>v'. wait_tx_space hw v = Some v' \<and> fifo v' = fifo v"
    and tx: "\<exists>h' v'. hw_rdma_tx hw v h = Some (dh_msg_id h', h', v') \<and> dh_node h' = dh_node h \<and> fifo v' = fifo v"
begin

lemma work_todo:
  "axiomnet_rdma_rx_work_todo hw d = (fifo (dev_api d) \<noteq> [], d\<lparr>dev_api := snd (hw_rdma_rx_avail hw (dev_api d))\<rparr>)"
  using rx_avail(1) by (simp add: axiomnet_rdma_rx_work_todo_def case_prod_beta)

text \<open>An acknowledgement: stray, refused, awaited, or the completion of an asynchronous request.\<close>

lemma ack_step:
  assumes inv: "nic_inv d own lown rown" and node: "dh_node h \<noteq> AXIOM_NULL_NODE"
  shows "\<exists>d' own' lown'. rdma_rx_ack hw msg_id h d = Some d' \<and> nic_inv d' own' lown' rown \<and>
    own' \<subseteq> own \<and> lown' \<subseteq> lown \<and> fifo (dev_api d') = fifo (dev_api d) \<and> long_rx_queue d' = long_rx_queue d"
proof -
  let ?i = "unat msg_id"
  let ?rs = "rdma_slot d ?i"
  from inv have r: "rdma_inv d own" and cb: "callbacks_inv d own lown" and li: "long_inv d rown"
    and mx: "\<not> sp_mutex (rdma_port d)" by (auto simp: nic_inv_def)
  from r obtain fs ds where rep: "swq_rep (rdma_queue d) fs [] own ds" and t: "rdma_table own ds"
    and ds: "sq_desc (rdma_queue d) = Some ds" "length ds = 256" and own: "own \<subseteq> {..<256}"
    and sl: "rdma_slot d = (!) ds" by (rule rdma_invE)
  show ?thesis
  proof (cases "dh_node h = dh_node (rs_header ?rs)")
    case False
    then have "rdma_rx_ack hw msg_id h d = Some (inc_stat err_rdma_rx d)" by (rule rdma_stray_lemma [OF r])
    moreover have "nic_inv (inc_stat err_rdma_rx d) own lown rown"
      by (rule nic_inv_cong [OF inv]) (use li in \<open>auto simp: inc_stat_def long_inv_def\<close>)
    ultimately show ?thesis by (auto simp: inc_stat_def)
  next
    case match: True
    have "?i < 2 ^ LENGTH(8)" by (rule unsigned_less)
    then have i256: "?i < 256" by simp
    with match node t sl have i: "?i \<in> own" by (auto simp: rdma_table_def rdma_in_flight_def)
    consider "pt_error (dh_port_type h) = 1" | "pt_error (dh_port_type h) = 0" "rs_ack_waiting ?rs"
      | "pt_error (dh_port_type h) = 0" "\<not> rs_ack_waiting ?rs" using pt_error_cases by blast
    then show ?thesis
    proof cases
      case 1
      obtain v where v: "wait_tx_space hw (dev_api d) = Some v" "fifo v = fifo (dev_api d)" using tx_space by blast
      obtain h' v' where v': "hw_rdma_tx hw v (rs_header ?rs) = Some (dh_msg_id h', h', v')"
        "dh_node h' = dh_node (rs_header ?rs)" "fifo v' = fifo v" using tx by blast
      from rdma_nack_lemma [OF r i refl mx match 1 v(1) v'(1,2)] obtain d' where
        d': "rdma_rx_ack hw msg_id h d = Some d'" "rdma_inv d' own"
        "rdma_slot d' = (rdma_slot d)(?i := ?rs\<lparr>rs_header := h', rs_retries := rs_retries ?rs + 1\<rparr>)"
        "d' = d\<lparr>dev_api := v', rdma_queue := rdma_queue d', dd_stats := stat_add retries_rdma 1 (dd_stats d)\<rparr>" by blast
      have f: "dev_api d' = v'" "long_tx_queue d' = long_tx_queue d" "rdma_port d' = rdma_port d"
        "long_rx_queue d' = long_rx_queue d" "long_rx_ports d' = long_rx_ports d" by (subst d'(4), simp)+
      have "callbacks_inv d' own lown" by (rule callbacks_inv_same [OF cb f(2)]) (simp add: d'(3))
      with d' f li mx have "nic_inv d' own lown rown" by (simp add: nic_inv_def long_inv_def)
      with d'(1) f v v' show ?thesis by auto
    next
      case 2
      from rdma_complete_waiting [OF r i256 2(2)] obtain d1 where d1: "rdma_complete (int ?i) d = Some d1" "rdma_inv d1 own"
        "d1 = d\<lparr>rdma_queue := rdma_queue d1\<rparr>" "rs_callback (rdma_slot d1 ?i) = rs_callback ?rs"
        "\<forall>j. j \<noteq> ?i \<longrightarrow> rdma_slot d1 j = rdma_slot d j" by auto
      let ?d = "add_stat bytes_rdma_rx (ucast (dh_payload_size h)) (inc_stat pkt_rdma_rx d1)"
      have "rdma_rx_ack hw msg_id h d = Some ?d"
        using status_access(1) [OF ds(1), of ?i] i256 ds(2) match 2 sl d1(1) by (simp add: rdma_rx_ack_def)
      moreover have f: "dev_api d1 = dev_api d" "long_tx_queue d1 = long_tx_queue d" "rdma_port d1 = rdma_port d"
        "long_rx_queue d1 = long_rx_queue d" "long_rx_ports d1 = long_rx_ports d" by (subst d1(3), simp)+
      moreover have "callbacks_inv d1 own lown" by (rule callbacks_inv_same [OF cb f(2)]) (metis d1(4,5))
      then have "nic_inv d1 own lown rown" using d1 f li mx by (simp add: nic_inv_def long_inv_def)
      then have "nic_inv ?d own lown rown"
        by (rule nic_inv_cong) (use f li in \<open>auto simp: add_stat_def inc_stat_def long_inv_def\<close>)
      ultimately show ?thesis by (intro exI [of _ ?d] exI [of _ own] exI [of _ lown]) (simp add: add_stat_def inc_stat_def)
    next
      case 3
      from rdma_ack_lemma [OF r i refl 3(2) callbacks_ok [OF cb i] match 3(1)] obtain d' where
        d': "rdma_rx_ack hw msg_id h d = Some d'" "rdma_inv d' (own - {?i})" "rdma_frame d d'"
          "sp_mutex (rdma_port d') = sp_mutex (rdma_port d)" "\<forall>j. j \<noteq> ?i \<longrightarrow> rdma_slot d' j = rdma_slot d j"
        and l: "case rs_callback ?rs of None \<Rightarrow> long_tx_queue d' = long_tx_queue d \<and> long_tx_port d' = long_tx_port d
         | Some s \<Rightarrow> sp_mutex (long_tx_port d') = sp_mutex (long_tx_port d) \<and>
            (\<forall>lfs lown lds k. swq_rep (long_tx_queue d) lfs [] lown lds \<longrightarrow> k \<in> lown \<longrightarrow> s = of_nat k \<longrightarrow>
               swq_rep (long_tx_queue d') (k # lfs) [] (lown - {k}) lds)" by blast
      from callbacks_inv_complete [OF cb i d'(5) l] obtain lown' where lo: "lown' \<subseteq> lown" "callbacks_inv d' (own - {?i}) lown'"
        by blast
      note f = rdma_frameD [OF d'(3)]
      with d' lo li mx have "nic_inv d' (own - {?i}) lown' rown" by (simp add: nic_inv_def long_inv_def)
      with d'(1) f lo show ?thesis by (intro exI [of _ d'] exI [of _ "own - {?i}"] exI [of _ lown']) auto
    qed
  qed
qed

text \<open>The positive acknowledgement of a request for a LONG message: request and buffer are free again.\<close>

lemma ack_frees:
  assumes inv: "nic_inv d own lown rown" and i: "i \<in> own" "unat msg_id = i" and w: "\<not> rs_ack_waiting (rdma_slot d i)"
    and k: "rs_callback (rdma_slot d i) = Some (of_nat k)" "k \<in> lown"
    and h: "dh_node h = dh_node (rs_header (rdma_slot d i))" "pt_error (dh_port_type h) = 0"
  shows "\<exists>d'. rdma_rx_ack hw msg_id h d = Some d' \<and> nic_inv d' (own - {i}) (lown - {k}) rown \<and> dev_api d' = dev_api d"
proof -
  from inv have r: "rdma_inv d own" and cb: "callbacks_inv d own lown" and li: "long_inv d rown"
    and mx: "\<not> sp_mutex (rdma_port d)" by (auto simp: nic_inv_def)
  from rdma_ack_lemma [OF r i w callbacks_ok [OF cb i(1)] h, of hw] k(1) obtain d' where
    d': "rdma_rx_ack hw msg_id h d = Some d'" "rdma_inv d' (own - {i})" "rdma_frame d d'"
      "sp_mutex (rdma_port d') = sp_mutex (rdma_port d)" "\<forall>j. j \<noteq> i \<longrightarrow> rdma_slot d' j = rdma_slot d j"
    and l: "\<forall>lfs lown lds k'. swq_rep (long_tx_queue d) lfs [] lown lds \<longrightarrow> k' \<in> lown \<longrightarrow> (of_nat k :: s16) = of_nat k' \<longrightarrow>
       swq_rep (long_tx_queue d') (k' # lfs) [] (lown - {k'}) lds" by auto
  note f = rdma_frameD [OF d'(3)]
  from d' callbacks_inv_freed [OF cb i(1) d'(5) k l] mx li f have "nic_inv d' (own - {i}) (lown - {k}) rown"
    by (simp add: nic_inv_def long_inv_def)
  with d'(1) f(1) show ?thesis by blast
qed

lemma long_step:
  assumes inv: "nic_inv d own lown rown" and s: "pt_s (dh_port_type h) \<noteq> 1"
  shows "\<exists>d'. rdma_rx_long h d = Some d' \<and> nic_inv d' own lown rown \<and> dev_api d' = dev_api d \<and>
    (\<forall>p < 7. long_hdrs d' p = long_hdrs d p @
       (if is_long h \<and> 0 < swq_free (long_rx_queue d) \<and> long_port h = p then [h] else [])) \<and>
    swq_free (long_rx_queue d') = swq_free (long_rx_queue d) - (if is_long h then 1 else 0)"
proof -
  from inv have li: "long_inv d rown" by (simp add: nic_inv_def)
  have acc: "long_accepted d h \<longleftrightarrow> is_long h \<and> 0 < swq_free (long_rx_queue d)"
    using s by (auto simp: long_accepted_def is_long_def)
  from long_rx_lemma [OF li, of h] obtain d' where
    d': "rdma_rx_long h d = Some d'" "long_inv d' rown" "long_frame d d'"
      "\<forall>p < 7. long_hdrs d' p = long_hdrs d p @ (if long_accepted d h \<and> long_port h = p then [h] else [])"
      "swq_free (long_rx_queue d') + (if long_accepted d h then 1 else 0) = swq_free (long_rx_queue d)" by blast
  from d'(3) have eq: "d' = d\<lparr>long_rx_queue := long_rx_queue d', long_rx_ports := long_rx_ports d', dd_stats := dd_stats d'\<rparr>"
    by (simp add: long_frame_def)
  have f: "dev_api d' = dev_api d" "rdma_queue d' = rdma_queue d" "long_tx_queue d' = long_tx_queue d"
    "rdma_port d' = rdma_port d" by (subst eq, simp)+
  have "nic_inv d' own lown rown" by (rule nic_inv_cong [OF inv f(2-4) d'(2)])
  with d'(1,4,5) f(1) acc show ?thesis by (intro exI [of _ d']) (auto split: if_splits)
qed

lemma body_step:
  assumes inv: "nic_inv d own lown rown" and k: "fifo (dev_api d) = k # ks" "ack_sane k"
  shows "\<exists>d' own' lown'. rdma_rx_body hw old d = Some (k, d') \<and> nic_inv d' own' lown' rown \<and> own' \<subseteq> own \<and> lown' \<subseteq> lown \<and>
    fifo (dev_api d') = ks \<and>
    (\<forall>p < 7. long_hdrs d' p = long_hdrs d p @
       (if is_long k \<and> 0 < swq_free (long_rx_queue d) \<and> long_port k = p then [k] else [])) \<and>
    swq_free (long_rx_queue d') = swq_free (long_rx_queue d) - (if is_long k then 1 else 0)"
proof -
  from rx [OF k(1), of old] obtain v where v: "hw_rdma_rx hw (dev_api d) old = Some (dh_msg_id k, k, v)" "fifo v = ks" by blast
  let ?d = "d\<lparr>dev_api := v\<rparr>"
  have inv': "nic_inv ?d own lown rown"
    by (rule nic_inv_cong [OF inv]) (use inv in \<open>auto simp: nic_inv_def long_inv_def\<close>)
  have same: "long_hdrs ?d p = long_hdrs d p" "long_rx_queue ?d = long_rx_queue d" for p by (simp_all add: long_hdrs_def)
  show ?thesis
  proof (cases "pt_s (dh_port_type k) = 1")
    case True
    with k(2) have "dh_node k \<noteq> AXIOM_NULL_NODE" by (simp add: ack_sane_def)
    from ack_step [OF inv' this, of "dh_msg_id k"] obtain d' own' lown' where
      d': "rdma_rx_ack hw (dh_msg_id k) k ?d = Some d'" "nic_inv d' own' lown' rown" "own' \<subseteq> own" "lown' \<subseteq> lown"
        "fifo (dev_api d') = fifo v" "long_rx_queue d' = long_rx_queue d" by auto
    then show ?thesis using True v
      by (intro exI [of _ d'] exI [of _ own'] exI [of _ lown']) (simp add: rdma_rx_body_def is_long_def long_hdrs_def)
  next
    case False
    from long_step [OF inv' False] obtain d' where
      "rdma_rx_long k ?d = Some d'" "nic_inv d' own lown rown" "dev_api d' = v"
      "\<forall>p < 7. long_hdrs d' p = long_hdrs d p @
         (if is_long k \<and> 0 < swq_free (long_rx_queue d) \<and> long_port k = p then [k] else [])"
      "swq_free (long_rx_queue d') = swq_free (long_rx_queue d) - (if is_long k then 1 else 0)" by (auto simp: same)
    then show ?thesis using False v
      by (intro exI [of _ d'] exI [of _ own] exI [of _ lown]) (simp add: rdma_rx_body_def)
  qed
qed

lemma worker_drains:
  "nic_inv d own lown rown \<Longrightarrow> fifo (dev_api d) = ks \<Longrightarrow> \<forall>k \<in> set ks. ack_sane k \<Longrightarrow>
   \<exists>d' own' lown'. axiom_rdma_rx_dequeue hw old d = Some d' \<and> nic_inv d' own' lown' rown \<and> own' \<subseteq> own \<and> lown' \<subseteq> lown \<and>
     fifo (dev_api d') = [] \<and>
     (\<forall>p < 7. long_hdrs d' p = long_hdrs d p @
        filter (\<lambda>k. long_port k = p) (take (swq_free (long_rx_queue d)) (filter is_long ks))) \<and>
     swq_free (long_rx_queue d') = swq_free (long_rx_queue d) - length (filter is_long ks)"
proof (induction ks arbitrary: d own lown old)
  case Nil
  let ?d = "d\<lparr>dev_api := snd (hw_rdma_rx_avail hw (dev_api d))\<rparr>"
  have "axiom_rdma_rx_dequeue hw old d = Some ?d"
    using Nil(2) by (subst axiom_rdma_rx_dequeue.simps) (simp add: work_todo)
  moreover have "nic_inv ?d own lown rown"
    by (rule nic_inv_cong [OF Nil(1)]) (use Nil(1) in \<open>auto simp: nic_inv_def long_inv_def\<close>)
  ultimately show ?case using Nil(2) rx_avail(2)
    by (intro exI [of _ ?d] exI [of _ own] exI [of _ lown]) (simp add: long_hdrs_def)
next
  case (Cons k ks)
  let ?d = "d\<lparr>dev_api := snd (hw_rdma_rx_avail hw (dev_api d))\<rparr>"
  have inv: "nic_inv ?d own lown rown"
    by (rule nic_inv_cong [OF Cons(2)]) (use Cons(2) in \<open>auto simp: nic_inv_def long_inv_def\<close>)
  have same: "long_hdrs ?d p = long_hdrs d p" "long_rx_queue ?d = long_rx_queue d" for p by (simp_all add: long_hdrs_def)
  have "fifo (dev_api ?d) = k # ks" using Cons(3) rx_avail(2) by simp
  from body_step [OF inv this, of old] Cons(4) obtain d1 own1 lown1 where
    d1: "rdma_rx_body hw old ?d = Some (k, d1)" "nic_inv d1 own1 lown1 rown" "own1 \<subseteq> own" "lown1 \<subseteq> lown" "fifo (dev_api d1) = ks"
      "\<forall>p < 7. long_hdrs d1 p = long_hdrs d p @
         (if is_long k \<and> 0 < swq_free (long_rx_queue d) \<and> long_port k = p then [k] else [])"
      "swq_free (long_rx_queue d1) = swq_free (long_rx_queue d) - (if is_long k then 1 else 0)" by (auto simp: same)
  from Cons.IH [OF d1(2,5), of k] Cons(4) obtain d' own' lown' where
    d': "axiom_rdma_rx_dequeue hw k d1 = Some d'" "nic_inv d' own' lown' rown" "own' \<subseteq> own1" "lown' \<subseteq> lown1" "fifo (dev_api d') = []"
      "\<forall>p < 7. long_hdrs d' p = long_hdrs d1 p @
         filter (\<lambda>k. long_port k = p) (take (swq_free (long_rx_queue d1)) (filter is_long ks))"
      "swq_free (long_rx_queue d') = swq_free (long_rx_queue d1) - length (filter is_long ks)" by auto
  have "axiom_rdma_rx_dequeue hw old d = Some d'"
    using Cons(3) d1(1) d'(1) by (subst axiom_rdma_rx_dequeue.simps) (simp add: work_todo)
  moreover have "long_hdrs d' p = long_hdrs d p @
      filter (\<lambda>k. long_port k = p) (take (swq_free (long_rx_queue d)) (filter is_long (k # ks)))" if "p < 7" for p
    using that d1(6,7) d'(6) by (cases "swq_free (long_rx_queue d)") auto
  ultimately show ?case using d1(3,4,7) d'(2-5,7)
    by (intro exI [of _ d'] exI [of _ own'] exI [of _ lown']) auto
qed

end

section \<open>The worker\<close>

text \<open>
  Property C12. The RDMA receive worker returns for every receive FIFO and leaves it empty. It keeps the
  invariants of the request table, of the transmit buffers and of the receive queues; requests and
  buffers are only ever given back. The LONG messages among the packets go to the queues of their
  ports, in order and unchanged, as long as there are receive slots; later ones are dropped.
\<close>

theorem rdma_rx_worker_drains:
  assumes "rdma_device hw fifo" and "nic_inv d own lown rown"
    and "fifo (dev_api d) = ks" and "\<forall>k \<in> set ks. ack_sane k"
  shows "\<exists>d' own' lown'. axiom_rdma_rx_dequeue hw old d = Some d' \<and> nic_inv d' own' lown' rown \<and> own' \<subseteq> own \<and> lown' \<subseteq> lown \<and>
     fifo (dev_api d') = [] \<and>
     (\<forall>p < 7. long_hdrs d' p = long_hdrs d p @
        filter (\<lambda>k. long_port k = p) (take (swq_free (long_rx_queue d)) (filter is_long ks))) \<and>
     swq_free (long_rx_queue d') = swq_free (long_rx_queue d) - length (filter is_long ks)"
  by (rule rdma_device.worker_drains [OF assms])

lemma demo_rdma_device: "rdma_device demo_hw dv_rdma_rx"
proof
  show "\<exists>v'. wait_tx_space demo_hw v = Some v' \<and> dv_rdma_rx v' = dv_rdma_rx v" for v
    by (subst wait_tx_space.simps) (simp add: demo_hw_def)
qed (simp_all add: demo_hw_def)

lemma demo_nic_inv: "nic_inv demo_d {} {} {}"
proof -
  have "swq_rep (long_rx_queue demo_d) [0, 1] (replicate 7 []) {} (map demo_long_msg [0..<32])"
    "swq_rep (long_tx_queue demo_d) [0, 1] [] {} (map demo_long_msg [0..<32])"
    using demo_evi_rep [of 7] demo_evi_rep [of 0] by (simp_all add: swq_rep_def demo_d_def)
  moreover have "length (long_rx_ports demo_d) = 7" by (simp add: demo_d_def)
  ultimately have "long_inv demo_d {}" "callbacks_inv demo_d {} {}"
    by (auto intro!: long_invI simp: callbacks_inv_def)
  with demo_rdma_inv demo_rdma_port show ?thesis by (simp add: nic_inv_def)
qed

definition demo_long_hdr :: "u8 \<Rightarrow> rdma_hdr" where
  "demo_long_hdr p = demo_rdma_h\<lparr>dh_port_type := set_pt_port p AXIOM_TYPE_LONG_DATA, dh_addr0 := 4096\<rparr>"

definition demo_rdma_rx_d :: "(demo_dev, u64 \<Rightarrow> u8 option) drvdata" where
  "demo_rdma_rx_d = demo_d\<lparr>dev_api := demo_v\<lparr>dv_rdma_rx := [demo_long_hdr 2, demo_ack 0]\<rparr>\<rparr>"

theorem rdma_rx_worker_drains_witness:
  "\<exists>d' own' lown'. axiom_rdma_rx_dequeue demo_hw rdma_hdr_zero demo_rdma_rx_d = Some d' \<and> nic_inv d' own' lown' {} \<and>
     dv_rdma_rx (dev_api d') = []"
proof -
  have "nic_inv demo_rdma_rx_d {} {} {}"
    by (rule nic_inv_cong [OF demo_nic_inv]) (use demo_nic_inv in \<open>auto simp: demo_rdma_rx_d_def nic_inv_def long_inv_def\<close>)
  moreover have "\<forall>k \<in> set [demo_long_hdr 2, demo_ack 0]. ack_sane k"
    by (simp add: ack_sane_def demo_long_hdr_def demo_ack_def demo_rdma_h_def)
  ultimately show ?thesis
    using rdma_rx_worker_drains [OF demo_rdma_device, of demo_rdma_rx_d "{}" "{}" "{}" "[demo_long_hdr 2, demo_ack 0]" rdma_hdr_zero]
    by (auto simp: demo_rdma_rx_d_def)
qed

end
