(* ===== verification/LongIo.thy ===== *)
theory LongIo
  imports RdmaWorker
begin

text \<open>
  What the LONG handlers do for the user: receiving, flushing and sending.
\<close>

section \<open>Receiving\<close>

lemma long_rx_lock:
  assumes "p < length (long_rx_ports d)" "\<not> sp_mutex (long_rx_ports d ! p)"
  shows "mutex_lock (LongRx (int p)) d =
    Some (d\<lparr>long_rx_ports := (long_rx_ports d)[p := (long_rx_ports d ! p)\<lparr>sp_mutex := True\<rparr>]\<rparr>)"
  using assms by (simp add: mutex_lock_def)

lemma long_rx_unlock:
  assumes "p < length ps" "\<not> sp_mutex (ps ! p)" "long_rx_ports d = ps[p := (ps ! p)\<lparr>sp_mutex := True\<rparr>]"
  shows "mutex_unlock (LongRx (int p)) d = Some (d\<lparr>long_rx_ports := ps\<rparr>)"
  using assms by (simp add: mutex_unlock_def)

lemma long_inv_hdrs:
  assumes "long_inv d own" "p < 7" "long_hdrs d p = h # hs"
  obtains fs qs ds s r where "swq_rep (long_rx_queue d) fs qs own ds" "length qs = 7" "length (long_rx_ports d) = 7"
    "qs ! p = s # r" "h = lm_header (ds ! s)" "s < length ds" "hs = map (\<lambda>x. lm_header (ds ! x)) r"
proof -
  from assms(1) obtain fs qs ds where rep: "swq_rep (long_rx_queue d) fs qs own ds" and len: "length qs = 7"
    and ports: "length (long_rx_ports d) = 7" by (auto simp: long_inv_def)
  from assms(2,3) len swq_rep_contents(2) [OF rep, of p] obtain s r where
    q: "qs ! p = s # r" "h = lm_header (ds ! s)" "hs = map (\<lambda>x. lm_header (ds ! x)) r"
    by (cases "qs ! p") (auto simp: long_hdrs_def)
  have "s \<in> set (concat qs)" using nth_subset_concat [of p qs] q len assms(2) by auto
  with swq_rep_slot(1) [OF rep] have "s < length ds" by blast
  with that rep len ports q show thesis by blast
qed

lemma long_hdrs_dequeued:
  assumes rep: "swq_rep (long_rx_queue d) fs qs own ds" and rep': "swq_rep (long_rx_queue d') fs' (qs[p := r]) own' ds"
    and "length qs = 7" "p < 7"
  shows "long_hdrs d' p = map (\<lambda>x. lm_header (ds ! x)) r"
    and "p' < 7 \<Longrightarrow> p' \<noteq> p \<Longrightarrow> long_hdrs d' p' = long_hdrs d p'"
  using swq_rep_contents(2) [OF rep', of p] swq_rep_contents(2) [OF rep', of p'] swq_rep_contents(2) [OF rep, of p'] assms
  by (simp_all add: long_hdrs_def)

lemma long_dequeue_free:
  assumes rep: "swq_rep q fs qs own ds" and p: "p < length qs" and q: "qs ! p = s # r"
  shows "\<exists>e e'. eviq_dequeue (sq_evi q) (int p) = Some (of_nat s, e) \<and> eviq_free_push e (of_nat s) = Some e' \<and>
    eviq_free_avail e = (fs \<noteq> []) \<and> swq_rep (q\<lparr>sq_evi := e'\<rparr>) (s # fs) (qs[p := r]) own ds \<and>
    s < length ds \<and> sint (of_nat s :: s16) = int s \<and> (of_nat s :: s16) \<noteq> EVIQ_NONE"
proof -
  from swq_dequeue [OF rep p q] obtain e where e: "eviq_dequeue (sq_evi q) (int p) = Some (of_nat s, e)"
    and r1: "swq_rep (q\<lparr>sq_evi := e\<rparr>) fs (qs[p := r]) (insert s own) ds" by auto
  have "s \<notin> own" using eviq.queued_not_owned [of "sq_evi q" fs qs own p s] rep q p by (simp add: swq_rep_def)
  with swq_push [OF r1, of s] obtain e' where "eviq_free_push e (of_nat s) = Some e'"
    "swq_rep (q\<lparr>sq_evi := e'\<rparr>) (s # fs) (qs[p := r]) own ds" by auto
  with e swq_avail(2) [OF r1] swq_rep_slot [OF r1, of s] show ?thesis by auto
qed

lemma rdma2buf_cong:
  "rdma_size d' = rdma_size d \<Longrightarrow> long_rxbuf_lut d' = long_rxbuf_lut d \<Longrightarrow>
   axiomnet_long_rdma2buf d' a = axiomnet_long_rdma2buf d a"
  by (simp only: axiomnet_long_rdma2buf_def)

lemma mem_load_take: "n \<le> m \<Longrightarrow> take n (mem_load mem a m) = mem_load mem a n"
  by (simp add: mem_load_def take_map)

lemma long_recv_lemma:
  fixes d :: "('d, 'u) drvdata"
  assumes spec: "uaccess_spec ua view" and inv: "long_inv d own" and p: "p < 7" "bind_port pr = int p"
    and mx: "\<not> sp_mutex (long_rx_ports d ! p)" and h: "long_hdrs d p = h # hs"
    and l: "axiomnet_long_rdma2buf d (rx_dst_addr h) = Some (Some l)"
    and size: "dh_payload_size h \<le> dh_payload_size header"
    and sc: "scatter_ok ua (view (user_mem d)) (lut_buf_sw l) (unat (dh_payload_size h)) iov"
  shows "\<exists>d'. axiomnet_long_recv hw ua nonblock pr header iov env d =
      Some (16 + uint (dh_payload_size h), h, env, d') \<and> long_inv d' own \<and>
    view (user_mem d') = scatter_mem (view (user_mem d)) iov
      (mem_load (long_mem d) (lut_buf_sw l) (unat (dh_payload_size h))) \<and>
    (\<forall>p' < 7. long_hdrs d' p' = (if p' = p then hs else long_hdrs d p')) \<and>
    swq_free (long_rx_queue d') = Suc (swq_free (long_rx_queue d)) \<and>
    d' = d\<lparr>dev_api := hw_set_long_buf hw (dev_api d) (lut_buf_id l) (lut_buf_hw l), long_rx_queue := long_rx_queue d',
      user_mem := user_mem d', kthread_rdma := (if swq_free (long_rx_queue d) = 0 then kthread_rdma d
        else axiom_kthread_wakeup (kthread_rdma d))\<rparr>"
proof -
  from long_inv_hdrs [OF inv p(1) h] obtain fs qs ds s r where
    rep: "swq_rep (long_rx_queue d) fs qs own ds" and len: "length qs = 7" and ports: "length (long_rx_ports d) = 7"
    and q: "qs ! p = s # r" and hs: "h = lm_header (ds ! s)" "s < length ds" "hs = map (\<lambda>x. lm_header (ds ! x)) r" .
  from long_dequeue_free [OF rep _ q] len p obtain e e' where
    e: "eviq_dequeue (sq_evi (long_rx_queue d)) (int p) = Some (of_nat s, e)" "eviq_free_push e (of_nat s) = Some e'"
      "eviq_free_avail e = (fs \<noteq> [])" and rep': "swq_rep ((long_rx_queue d)\<lparr>sq_evi := e'\<rparr>) (s # fs) (qs[p := r]) own ds"
    and s: "sint (of_nat s :: s16) = int s" "(of_nat s :: s16) \<noteq> EVIQ_NONE" by auto
  let ?n = "unat (dh_payload_size h)"
  let ?src = "mem_load (long_mem d) (lut_buf_sw l) 65536"
  have "?n < 2 ^ LENGTH(16)" by (rule unsigned_less)
  then have n: "?n < 65536" by simp
  from scatter_iov_ok [OF spec, of "user_mem d" "lut_buf_sw l" 0 ?n iov ?src] sc n obtain u' where
    u': "scatter_iov ua (user_mem d) (lut_buf_sw l) ?src (int ?n) iov 0 = Some (True, u')"
      "view u' = scatter_mem (view (user_mem d)) iov (mem_load (long_mem d) (lut_buf_sw l) ?n)"
    by (auto simp: mem_load_take) (auto simp: mem_load_def)
  have cp: "long_recv_copy ua d0 (Some l) (ds ! s) header iov = Some (16 + uint (dh_payload_size h), h, u')"
    if "user_mem d0 = user_mem d" "long_mem d0 = long_mem d" for d0 :: "('d, 'u) drvdata"
    using u'(1) leD [OF size] hs(1) that by (simp add: long_recv_copy_def)
  let ?ps = "long_rx_ports d"
  let ?d1 = "d\<lparr>long_rx_ports := ?ps[p := (?ps ! p)\<lparr>sp_mutex := True\<rparr>]\<rparr>"
  let ?d2 = "d\<lparr>long_rx_queue := (long_rx_queue d)\<lparr>sq_evi := e\<rparr>\<rparr>"
  have av: "axiomnet_long_rx_avail (int p) ?d1 = Some (True, ?d1)"
    using swq_avail(1) [OF rep, of p] len p q by (simp add: axiomnet_long_rx_avail_def)
  have unlock: "mutex_unlock (LongRx (int p)) (?d1\<lparr>long_rx_queue := (long_rx_queue d)\<lparr>sq_evi := e\<rparr>\<rparr>) = Some ?d2"
    using long_rx_unlock [of p ?ps "?d1\<lparr>long_rx_queue := (long_rx_queue d)\<lparr>sq_evi := e\<rparr>\<rparr>"] mx ports p by simp
  have l2: "axiomnet_long_rdma2buf ?d2 (rx_dst_addr h) = Some (Some l)" using l rdma2buf_cong [of ?d2 d] by simp
  let ?d = "d\<lparr>dev_api := hw_set_long_buf hw (dev_api d) (lut_buf_id l) (lut_buf_hw l),
    long_rx_queue := (long_rx_queue d)\<lparr>sq_evi := e'\<rparr>, user_mem := u',
    kthread_rdma := (if fs = [] then kthread_rdma d else axiom_kthread_wakeup (kthread_rdma d))\<rparr>"
  have run: "axiomnet_long_recv hw ua nonblock pr header iov env d = Some (16 + uint (dh_payload_size h), h, env, ?d)"
    using p long_rx_lock [of p d] mx ports wait_avail_ready [where c = "axiomnet_long_rx_avail (int p)", OF av] e s unlock
      l2 cp [of ?d2] rep hs
    by (simp add: axiomnet_long_recv_def Let_def swq_rep_def mutex_lock_def mutex_unlock_def)
  have rep'': "swq_rep (long_rx_queue ?d) (s # fs) (qs[p := r]) own ds" using rep' by simp
  have "long_inv ?d own" using len ports by (intro long_invI [OF rep'']) auto
  then show ?thesis using run u'(2) long_hdrs_dequeued [OF rep rep'' len p(1)] hs(3) swq_rep_contents(1) [OF rep]
      swq_rep_contents(1) [OF rep'']
    by (intro exI [of _ ?d]) auto
qed

section \<open>Flushing\<close>

definition free_bufs :: "'d hw_api \<Rightarrow> long_buf_lut list \<Rightarrow> 'd \<Rightarrow> 'd" where
  "free_bufs hw ls v = fold (\<lambda>l v. hw_set_long_buf hw v (lut_buf_id l) (lut_buf_hw l)) ls v"

lemma long_flush_loop_ok:
  "swq_rep (long_rx_queue d) fs qs own ds \<Longrightarrow> length qs = 7 \<Longrightarrow> p < 7 \<Longrightarrow> qs ! p = xs \<Longrightarrow>
   map (\<lambda>x. axiomnet_long_rdma2buf d (rx_dst_addr (lm_header (ds ! x)))) xs = map (\<lambda>l. Some (Some l)) ls \<Longrightarrow>
   \<exists>d'. long_flush_loop hw (int p) d = Some (0, d') \<and>
     swq_rep (long_rx_queue d') (rev xs @ fs) (qs[p := []]) own ds \<and>
     d' = d\<lparr>dev_api := free_bufs hw ls (dev_api d), long_rx_queue := long_rx_queue d'\<rparr>"
proof (induction xs arbitrary: d fs qs ls)
  case Nil
  then have "qs[p := []] = qs" by (metis list_update_id)
  moreover have "long_flush_loop hw (int p) d = Some (0, d)"
    using Nil swq_avail(1) [OF Nil(1), of p] by (subst long_flush_loop.simps) (simp add: axiomnet_long_rx_avail_def)
  ultimately show ?case using Nil by (simp add: free_bufs_def)
next
  case (Cons s xs)
  from Cons.prems(5) obtain l ls' where ls: "ls = l # ls'"
    "axiomnet_long_rdma2buf d (rx_dst_addr (lm_header (ds ! s))) = Some (Some l)"
    "map (\<lambda>x. axiomnet_long_rdma2buf d (rx_dst_addr (lm_header (ds ! x)))) xs = map (\<lambda>l. Some (Some l)) ls'" by auto
  from long_dequeue_free [OF Cons.prems(1) _ Cons.prems(4)] Cons.prems obtain e e' where
    e: "eviq_dequeue (sq_evi (long_rx_queue d)) (int p) = Some (of_nat s, e)" "eviq_free_push e (of_nat s) = Some e'"
    and rep': "swq_rep ((long_rx_queue d)\<lparr>sq_evi := e'\<rparr>) (s # fs) (qs[p := xs]) own ds"
    and s: "s < length ds" "sint (of_nat s :: s16) = int s" "(of_nat s :: s16) \<noteq> EVIQ_NONE" by auto
  have desc: "sq_desc (long_rx_queue d) = Some ds" using Cons.prems(1) by (simp add: swq_rep_def)
  let ?d = "d\<lparr>long_rx_queue := (long_rx_queue d)\<lparr>sq_evi := e'\<rparr>,
    dev_api := hw_set_long_buf hw (dev_api d) (lut_buf_id l) (lut_buf_hw l)\<rparr>"
  have l2: "axiomnet_long_rdma2buf (d\<lparr>long_rx_queue := q\<rparr>) a = axiomnet_long_rdma2buf d a" for q a
    by (rule rdma2buf_cong) simp_all
  have "long_flush_loop hw (int p) d = long_flush_loop hw (int p) ?d"
    using swq_avail(1) [OF Cons.prems(1), of p] Cons.prems e s desc ls(2)
    by (subst long_flush_loop.simps) (simp add: axiomnet_long_rx_avail_def l2)
  moreover have "map (\<lambda>x. axiomnet_long_rdma2buf ?d (rx_dst_addr (lm_header (ds ! x)))) xs = map (\<lambda>l. Some (Some l)) ls'"
    using ls(3) rdma2buf_cong [of ?d d] by simp
  with Cons.IH [of ?d "s # fs" "qs[p := xs]" ls'] rep' Cons.prems obtain d' where
    "long_flush_loop hw (int p) ?d = Some (0, d')"
    "swq_rep (long_rx_queue d') (rev xs @ s # fs) (qs[p := []]) own ds"
    "d' = ?d\<lparr>dev_api := free_bufs hw ls' (dev_api ?d), long_rx_queue := long_rx_queue d'\<rparr>" by auto
  ultimately show ?case unfolding ls(1) by (auto simp: free_bufs_def)
qed

lemma long_flush_lemma:
  assumes inv: "long_inv d own" and p: "p < 7" "bind_port pr = int p"
    and mx: "\<not> sp_mutex (long_rx_ports d ! p)"
    and ls: "map (\<lambda>h. axiomnet_long_rdma2buf d (rx_dst_addr h)) (long_hdrs d p) = map (\<lambda>l. Some (Some l)) ls"
  shows "\<exists>d'. axiomnet_long_flush hw pr d = Some (0, d') \<and> long_inv d' own \<and>
    (\<forall>p' < 7. long_hdrs d' p' = (if p' = p then [] else long_hdrs d p')) \<and>
    swq_free (long_rx_queue d') = swq_free (long_rx_queue d) + length (long_hdrs d p) \<and>
    d' = d\<lparr>dev_api := free_bufs hw ls (dev_api d), long_rx_queue := long_rx_queue d',
      kthread_rdma := axiom_kthread_wakeup (kthread_rdma d)\<rparr>"
proof -
  from inv obtain fs qs ds where rep: "swq_rep (long_rx_queue d) fs qs own ds" and len: "length qs = 7"
    and ports: "length (long_rx_ports d) = 7" by (auto simp: long_inv_def)
  let ?ps = "long_rx_ports d"
  let ?d1 = "d\<lparr>long_rx_ports := ?ps[p := (?ps ! p)\<lparr>sp_mutex := True\<rparr>]\<rparr>"
  have lock: "mutex_lock (LongRx (int p)) d = Some ?d1" using ports mx p by (intro long_rx_lock) auto
  have hd: "long_hdrs d p = map (\<lambda>x. lm_header (ds ! x)) (qs ! p)"
    using swq_rep_contents(2) [OF rep, of p] len p by (simp add: long_hdrs_def)
  have "map (\<lambda>x. axiomnet_long_rdma2buf ?d1 (rx_dst_addr (lm_header (ds ! x)))) (qs ! p) = map (\<lambda>l. Some (Some l)) ls"
    using ls hd rdma2buf_cong [of ?d1 d] by (simp add: comp_def)
  with long_flush_loop_ok [of ?d1 fs qs own ds p "qs ! p" ls hw] rep len p(1) obtain d2 where
    d2: "long_flush_loop hw (int p) ?d1 = Some (0, d2)"
      "d2 = ?d1\<lparr>dev_api := free_bufs hw ls (dev_api d), long_rx_queue := long_rx_queue d2\<rparr>"
    and rep': "swq_rep (long_rx_queue d2) (rev (qs ! p) @ fs) (qs[p := []]) own ds" by auto
  let ?d3 = "d\<lparr>dev_api := free_bufs hw ls (dev_api d), long_rx_queue := long_rx_queue d2\<rparr>"
  have unlock: "mutex_unlock (LongRx (int p)) d2 = Some ?d3"
  proof -
    have "long_rx_ports d2 = ?ps[p := (?ps ! p)\<lparr>sp_mutex := True\<rparr>]" "d2\<lparr>long_rx_ports := ?ps\<rparr> = ?d3"
      by (subst d2(2), simp)+
    then show ?thesis using long_rx_unlock [of p ?ps d2] ports mx p by simp
  qed
  let ?d = "?d3\<lparr>kthread_rdma := axiom_kthread_wakeup (kthread_rdma d)\<rparr>"
  have rep'': "swq_rep (long_rx_queue ?d) (rev (qs ! p) @ fs) (qs[p := []]) own ds" using rep' by simp
  have "axiomnet_long_flush hw pr d = Some (0, ?d)"
    using p lock d2(1) unlock by (simp add: axiomnet_long_flush_def Let_def)
  moreover have "long_inv ?d own" using len ports by (intro long_invI [OF rep'']) auto
  ultimately show ?thesis
    using long_hdrs_dequeued [OF rep rep'' len p(1)] swq_rep_contents(1) [OF rep] swq_rep_contents(1) [OF rep''] hd
    by (intro exI [of _ ?d]) auto
qed

section \<open>Sending\<close>

lemma mem_store_load:
  assumes "length bs \<le> n"
  shows "mem_store m a (bs @ drop (length bs) (mem_load m a n)) = mem_store m a bs"
proof
  fix x
  have "m (a + of_nat (unat (x - a))) = m x" by simp
  then show "mem_store m a (bs @ drop (length bs) (mem_load m a n)) x = mem_store m a bs x"
    using assms by (auto simp: mem_store_def Let_def nth_append mem_load_def)
qed

definition long_next :: "('d, 'u) drvdata \<Rightarrow> nat" where
  "long_next d = hd (eviq_free_slots (sq_evi (long_tx_queue d)))"

definition long_desc :: "('d, 'u) drvdata \<Rightarrow> nat \<Rightarrow> long_msg" where
  "long_desc d k = (case sq_desc (long_tx_queue d) of Some ds \<Rightarrow> ds ! k | None \<Rightarrow> undefined)"

lemma long_tx_lock_cycle:
  "\<not> sp_mutex (long_tx_port d) \<Longrightarrow> mutex_lock LongTx d = Some (d\<lparr>long_tx_port := (long_tx_port d)\<lparr>sp_mutex := True\<rparr>\<rparr>)"
  "sp_mutex (long_tx_port d) \<Longrightarrow> mutex_unlock LongTx d = Some (d\<lparr>long_tx_port := (long_tx_port d)\<lparr>sp_mutex := False\<rparr>\<rparr>)"
  by (simp_all add: mutex_lock_def mutex_unlock_def)

text \<open>Taking a transmit buffer.\<close>

lemma long_tx_take:
  assumes rep0: "swq_rep (long_tx_queue d) fs0 [] lown ds" and free: "swq_free (long_tx_queue d) \<noteq> 0"
  shows "\<exists>e fs. fs0 = long_next d # fs \<and> eviq_free_pop (sq_evi (long_tx_queue d)) = Some (of_nat (long_next d), e) \<and>
    swq_rep ((long_tx_queue d)\<lparr>sq_evi := e\<rparr>) fs [] (insert (long_next d) lown) ds \<and> long_next d \<notin> lown \<and>
    long_next d < length ds \<and> sint (of_nat (long_next d) :: s16) = int (long_next d) \<and>
    (of_nat (long_next d) :: s16) \<noteq> EVIQ_NONE \<and> long_desc d (long_next d) = ds ! long_next d"
proof -
  from free swq_rep_contents(1) [OF rep0] obtain k fs where fs: "fs0 = k # fs" by (cases fs0) auto
  note rep = rep0 [unfolded fs]
  have k: "long_next d = k"
    using eviq_rep_walks(1) [of "sq_evi (long_tx_queue d)" "k # fs" "[]" lown] rep by (simp add: long_next_def swq_rep_def)
  have "k \<notin> lown" using rep eviq.popped_not_owned [of "sq_evi (long_tx_queue d)" k fs "[]" lown] by (auto simp: swq_rep_def)
  with swq_pop [OF rep] swq_rep_slot [OF rep, of k] rep fs show ?thesis
    by (auto simp: k long_desc_def swq_rep_def)
qed

text \<open>A new request with a buffer of its own.\<close>

lemma callbacks_inv_insert:
  assumes cb: "callbacks_inv d own lown" and "i \<notin> own" and k: "k \<notin> lown"
    and rep: "swq_rep (long_tx_queue d') fs [] (insert k lown) ds"
    and i: "rs_callback (rdma_slot d' i) = Some (of_nat k)" and same: "\<And>j. j \<noteq> i \<Longrightarrow> rdma_slot d' j = rdma_slot d j"
  shows "callbacks_inv d' (insert i own) (insert k lown)"
proof -
  have bound: "j \<in> insert k lown \<Longrightarrow> j < 32768" for j
    using rep eviq.slot_bound [of "sq_evi (long_tx_queue d')" fs "[]" "insert k lown" j] by (auto simp: swq_rep_def)
  have new: "rs_callback (rdma_slot d j) \<noteq> Some (of_nat k)" if "j \<in> own" for j
  proof
    assume "rs_callback (rdma_slot d j) = Some (of_nat k)"
    with cb that obtain k' where "k' \<in> lown" "(of_nat k :: s16) = of_nat k'"
      unfolding callbacks_inv_def by blast
    with bound k of_nat_s16_inject [of k k'] show False by auto
  qed
  have c1: "rs_callback (rdma_slot d' j) = (if j = i then Some (of_nat k) else rs_callback (rdma_slot d j))" for j
    using i same by simp
  show ?thesis unfolding callbacks_inv_def
  proof (intro conjI ballI allI impI)
    fix j t assume "j \<in> insert i own" "rs_callback (rdma_slot d' j) = Some t"
    then show "\<exists>k \<in> insert k lown. t = of_nat k" using cb i same assms(2) by (cases "j = i") (auto simp: callbacks_inv_def)
  next
    fix j j' assume "j \<in> insert i own" "j' \<in> insert i own" "j \<noteq> j'" "rs_callback (rdma_slot d' j) \<noteq> None"
    then show "rs_callback (rdma_slot d' j) \<noteq> rs_callback (rdma_slot d' j')"
      using cb new [of j] new [of j'] unfolding c1 callbacks_inv_def by (cases "j = i"; cases "j' = i") auto
  qed (use rep in blast)
qed

lemma long_send_copy_ok:
  assumes spec: "uaccess_spec ua view" and ds: "sq_desc (long_tx_queue d) = Some ds" "k < length ds"
    and k: "sint (of_nat k :: s16) = int k" and size: "unat (dh_payload_size user) \<le> AXIOM_LONG_PAYLOAD_MAX_SIZE"
    and g: "gather_ok ua (view (user_mem d)) (lm_payload (ds ! k)) (unat (dh_payload_size user)) iov"
  shows "long_send_copy ua (of_nat k) user iov d = Some (0, d\<lparr>
      long_tx_queue := (long_tx_queue d)\<lparr>sq_desc := Some (ds[k := (ds ! k)\<lparr>lm_header := long_tx_header user (lm_header (ds ! k))\<rparr>])\<rparr>,
      long_mem := mem_store (long_mem d) (lm_payload (ds ! k)) (gather_bytes (view (user_mem d)) iov)\<rparr>)"
proof -
  let ?n = "unat (dh_payload_size user)"
  let ?b = "gather_bytes (view (user_mem d)) iov"
  let ?m = "mem_load (long_mem d) (lm_payload (ds ! k)) 65536"
  have lb: "length ?b \<le> 65536" using length_gather_bytes [OF g] size by simp
  have "gather_iov ua (user_mem d) (lm_payload (ds ! k)) (int ?n) iov 0 ?m = Some (0, ?b @ drop (length ?b) ?m)"
    using gather_iov_ok [OF spec, of "user_mem d" "lm_payload (ds ! k)" 0 ?n iov ?m] g size by (simp add: mem_load_def)
  then show ?thesis using ds k size
    by (simp add: long_send_copy_def get_long_tx_def set_long_tx_def mem_store_load [OF lb])
qed

lemma long_frame_update:
  "e = d\<lparr>long_tx_queue := l, long_mem := m, dev_api := a, rdma_queue := r, dd_stats := t\<rparr> \<Longrightarrow>
   e\<lparr>long_tx_queue := q, dd_stats := s\<rparr> = d\<lparr>dev_api := dev_api e, rdma_queue := rdma_queue e, long_tx_queue := q, long_mem := long_mem e,
     dd_stats := s\<rparr>"
  by (cases d) simp

lemma long_send_lemma:
  fixes d :: "('d, 'u) drvdata"
  assumes spec: "uaccess_spec ua view" and r: "rdma_inv d own" and cb: "callbacks_inv d own lown"
    and mx: "\<not> sp_mutex (rdma_port d)" "\<not> sp_mutex (long_tx_port d)"
    and free: "swq_free (rdma_queue d) \<noteq> 0" "swq_free (long_tx_queue d) \<noteq> 0"
    and size: "unat (dh_payload_size user) \<le> AXIOM_LONG_PAYLOAD_MAX_SIZE"
    and g: "gather_ok ua (view (user_mem d)) (lm_payload (long_desc d (long_next d))) (unat (dh_payload_size user)) iov"
    and v: "rdma_valid d (long_tx_header user (lm_header (long_desc d (long_next d))))"
    and hw: "hw_rdma_tx_avail hw (dev_api d) = (n, dev)" "n \<noteq> 0"
    and echo: "hw_rdma_tx hw dev (rdma_tx_header (of_nat (rdma_next d)) (long_tx_header user (lm_header (long_desc d (long_next d))))) =
       Some (of_nat (rdma_next d), rdma_tx_header (of_nat (rdma_next d)) (long_tx_header user (lm_header (long_desc d (long_next d)))), dev')"
  shows "\<exists>d'. axiomnet_long_send hw ua nonblock user iov env d = Some (int (rdma_next d), env, d') \<and>
    rdma_inv d' (insert (rdma_next d) own) \<and> callbacks_inv d' (insert (rdma_next d) own) (insert (long_next d) lown) \<and>
    rdma_next d \<notin> own \<and> long_next d \<notin> lown \<and> rs_callback (rdma_slot d' (rdma_next d)) = Some (of_nat (long_next d)) \<and>
    \<not> rs_ack_waiting (rdma_slot d' (rdma_next d)) \<and> \<not> sp_mutex (rdma_port d') \<and> \<not> sp_mutex (long_tx_port d') \<and>
    dev_api d' = dev' \<and>
    long_mem d' = mem_store (long_mem d) (lm_payload (long_desc d (long_next d))) (gather_bytes (view (user_mem d)) iov) \<and>
    d' = d\<lparr>dev_api := dev_api d', rdma_queue := rdma_queue d', long_tx_queue := long_tx_queue d', long_mem := long_mem d',
      dd_stats := dd_stats d'\<rparr> \<and>
    Suc (swq_free (rdma_queue d')) = swq_free (rdma_queue d) \<and> Suc (swq_free (long_tx_queue d')) = swq_free (long_tx_queue d) \<and>
    dh_node (rs_header (rdma_slot d' (rdma_next d))) = dh_node user \<and>
    (\<exists>ds h'. sq_desc (long_tx_queue d) = Some ds \<and> dh_addr0 h' = dh_addr0 (lm_header (ds ! long_next d)) \<and>
       dh_addr1 h' = dh_addr1 (lm_header (ds ! long_next d)) \<and>
       sq_desc (long_tx_queue d') = Some (ds[long_next d := (ds ! long_next d)\<lparr>lm_header := h'\<rparr>]))"
proof -
  let ?k = "long_next d"
  let ?i = "rdma_next d"
  from cb obtain fs0 ds where rep: "swq_rep (long_tx_queue d) fs0 [] lown ds" by (auto simp: callbacks_inv_def)
  from long_tx_take [OF rep free(2)] obtain e fs where
    fs: "fs0 = ?k # fs" and e: "eviq_free_pop (sq_evi (long_tx_queue d)) = Some (of_nat ?k, e)"
      "swq_rep ((long_tx_queue d)\<lparr>sq_evi := e\<rparr>) fs [] (insert ?k lown) ds" and k: "?k \<notin> lown" "?k < length ds"
      "sint (of_nat ?k :: s16) = int ?k" "(of_nat ?k :: s16) \<noteq> EVIQ_NONE" "long_desc d ?k = ds ! ?k" by blast
  have desc: "sq_desc (long_tx_queue d) = Some ds" using rep by (simp add: swq_rep_def)
  let ?m = "ds ! ?k"
  let ?h = "long_tx_header user (lm_header ?m)"
  let ?mem = "mem_store (long_mem d) (lm_payload ?m) (gather_bytes (view (user_mem d)) iov)"
  let ?q = "\<lambda>h. (long_tx_queue d)\<lparr>sq_evi := e, sq_desc := Some (ds[?k := ?m\<lparr>lm_header := h\<rparr>])\<rparr>"
  let ?d1 = "d\<lparr>long_tx_queue := (long_tx_queue d)\<lparr>sq_evi := e\<rparr>\<rparr>"
  let ?d2 = "d\<lparr>long_tx_queue := ?q ?h, long_mem := ?mem\<rparr>"
  have wt: "wait_avail axiomnet_long_tx_avail LongTx wait_long_tx nonblock env x = Some (0, env, x)"
    if "long_tx_queue x = long_tx_queue d" for x :: "('d, 'u) drvdata"
    by (rule wait_avail_ready) (use that swq_avail(2) [OF rep] fs in \<open>simp add: axiomnet_long_tx_avail_def\<close>)
  have cp: "long_send_copy ua (of_nat ?k) user iov ?d1 = Some (0, ?d2)"
    using long_send_copy_ok [OF spec, of ?d1 ds ?k user iov] desc k size g by simp
  have same: "rdma_next ?d2 = ?i" "rdma_slot ?d2 = rdma_slot d" by (simp_all add: rdma_next_def rdma_slot_def fun_eq_iff)
  have pre: "rdma_inv ?d2 own" "swq_free (rdma_queue ?d2) \<noteq> 0" "\<not> sp_mutex (rdma_port ?d2)" "rdma_valid ?d2 ?h"
    "hw_rdma_tx_avail hw (dev_api ?d2) = (n, dev)"
    using r free(1) mx(1) v hw k(5) by (simp_all add: rdma_inv_def rdma_valid_def)
  have "\<exists>d'. axiomnet_rdma_tx hw nonblock ?h None (Some (of_nat ?k)) 0 env ?d2 =
      Some (int ?i, rdma_tx_header (of_nat ?i) ?h, None, env, d') \<and> ?i \<notin> own \<and> rdma_inv d' (insert ?i own) \<and>
      Suc (swq_free (rdma_queue d')) = swq_free (rdma_queue d) \<and>
      rdma_slot d' = (rdma_slot d)(?i := rdma_setup (of_nat ?i) (rdma_tx_header (of_nat ?i) ?h) (Some (of_nat ?k)) 0 (rdma_slot d ?i)) \<and>
      d' = ?d2\<lparr>dev_api := dev', rdma_queue := rdma_queue d', dd_stats := rdma_count_tx ?h (dd_stats d)\<rparr>"
    using rdma_tx_async_lemma [OF pre hw(2), of dev' "Some (of_nat ?k)" 0 nonblock None env] echo k(5) by (simp add: same)
  then obtain d3 where d3: "axiomnet_rdma_tx hw nonblock ?h None (Some (of_nat ?k)) 0 env ?d2 =
      Some (int ?i, rdma_tx_header (of_nat ?i) ?h, None, env, d3)" "?i \<notin> own" "rdma_inv d3 (insert ?i own)" "Suc (swq_free (rdma_queue d3)) = swq_free (rdma_queue d)"
      "rdma_slot d3 = (rdma_slot d)(?i := rdma_setup (of_nat ?i) (rdma_tx_header (of_nat ?i) ?h) (Some (of_nat ?k)) 0 (rdma_slot d ?i))"
      "d3 = ?d2\<lparr>dev_api := dev', rdma_queue := rdma_queue d3, dd_stats := rdma_count_tx ?h (dd_stats d)\<rparr>" by blast
  have f: "long_tx_queue d3 = ?q ?h" "long_tx_port d3 = long_tx_port d" "rdma_port d3 = rdma_port d" "dev_api d3 = dev'"
    "long_mem d3 = ?mem" by (subst d3(6), simp)+
  let ?h' = "rdma_tx_header (of_nat ?i) ?h"
  let ?d = "d3\<lparr>long_tx_queue := ?q ?h', dd_stats := stat_add bytes_long_tx (ucast (dh_payload_size ?h')) (stat_add pkt_long_tx 1 (dd_stats d3))\<rparr>"
  have node: "dh_node ?h = dh_node user" by (simp add: long_tx_header_def)
  have sl: "rdma_slot ?d = rdma_slot d3" by (simp add: rdma_slot_def fun_eq_iff)
  have "axiomnet_long_send hw ua nonblock user iov env d = Some (int ?i, env, ?d)"
    using mx e(1) k desc cp d3(1) f wt free(2) swq_avail(2) [OF rep] fs
    by (simp add: axiomnet_long_send_def long_tx_lock_cycle get_long_tx_def set_long_tx_def inc_stat_def add_stat_def)
  moreover have "rdma_inv ?d (insert ?i own)" using d3(3) by (simp add: rdma_inv_def)
  moreover have rep': "swq_rep (?q ?h') fs [] (insert ?k lown) (ds[?k := ?m\<lparr>lm_header := ?h'\<rparr>])"
    using swq_write [OF e(2), of ?k "?m\<lparr>lm_header := ?h'\<rparr>"] by simp
  then have "callbacks_inv ?d (insert ?i own) (insert ?k lown)"
    by (intro callbacks_inv_insert [OF cb d3(2) k(1)]) (simp_all add: sl d3(5))
  moreover have "Suc (swq_free (rdma_queue ?d)) = swq_free (rdma_queue d)" "Suc (swq_free (long_tx_queue ?d)) = swq_free (long_tx_queue d)"
    "dh_node (rs_header (rdma_slot ?d ?i)) = dh_node user"
    using d3(4) swq_rep_contents(1) [OF rep'] swq_rep_contents(1) [OF rep] fs node by (simp_all add: sl d3(5))
  moreover have "?d = d\<lparr>dev_api := dev_api ?d, rdma_queue := rdma_queue ?d, long_tx_queue := long_tx_queue ?d, long_mem := long_mem ?d,
      dd_stats := dd_stats ?d\<rparr>" using long_frame_update [OF d3(6)] by simp
  moreover have "\<exists>ds h'. sq_desc (long_tx_queue d) = Some ds \<and> dh_addr0 h' = dh_addr0 (lm_header (ds ! ?k)) \<and>
       dh_addr1 h' = dh_addr1 (lm_header (ds ! ?k)) \<and>
       sq_desc (long_tx_queue ?d) = Some (ds[?k := (ds ! ?k)\<lparr>lm_header := h'\<rparr>])"
    using desc by (intro exI [of _ ds] exI [of _ ?h']) (simp add: long_tx_header_def rdma_tx_header_def)
  moreover have "dev_api ?d = dev'" "long_mem ?d = mem_store (long_mem d) (lm_payload (long_desc d ?k)) (gather_bytes (view (user_mem d)) iov)"
    "\<not> sp_mutex (rdma_port ?d)" "\<not> sp_mutex (long_tx_port ?d)" using f mx k(5) by simp_all
  moreover have "rs_callback (rdma_slot ?d ?i) = Some (of_nat ?k)" "\<not> rs_ack_waiting (rdma_slot ?d ?i)" by (simp_all add: sl d3(5))
  ultimately show ?thesis using d3(2) k(1) by blast
qed

section \<open>Properties\<close>

text \<open>A driver state with one LONG message on port 2, as the worker leaves it.\<close>

definition demo_long_one :: "(demo_dev, u64 \<Rightarrow> u8 option) drvdata" where
  "demo_long_one = (case rdma_rx_long (demo_long_hdr 2) demo_d of Some d \<Rightarrow> d | None \<Rightarrow> demo_d)"

lemma demo_long_one:
  "long_inv demo_long_one {}" "long_hdrs demo_long_one 2 = [demo_long_hdr 2]" "\<not> sp_mutex (long_rx_ports demo_long_one ! 2)"
  "user_mem demo_long_one = user_mem demo_d" "rdma_size demo_long_one = 4096" "long_rxbuf_lut demo_long_one = map demo_lut [0..<32]"
proof -
  have inv: "long_inv demo_d {}" using demo_nic_inv by (simp add: nic_inv_def)
  have rep: "swq_rep (long_rx_queue demo_d) [0, 1] (replicate 7 []) {} (map demo_long_msg [0..<32])"
    using demo_evi_rep [of 7] by (simp add: swq_rep_def demo_d_def)
  have z: "long_hdrs demo_d 2 = []" "swq_free (long_rx_queue demo_d) = 2"
    using swq_rep_contents(1) [OF rep] swq_rep_contents(2) [OF rep, of 2] by (simp_all add: long_hdrs_def)
  have "pt_type 4 = 4" by (simp add: pt_type_def)
  then have acc: "long_accepted demo_d (demo_long_hdr 2)" "long_port (demo_long_hdr 2) = 2"
    using z by (simp_all add: long_accepted_def long_port_def demo_long_hdr_def)
  from long_rx_lemma [OF inv, of "demo_long_hdr 2"] obtain d' where
    d': "rdma_rx_long (demo_long_hdr 2) demo_d = Some d'" "long_inv d' {}" "long_frame demo_d d'"
      "long_hdrs d' 2 = long_hdrs demo_d 2 @ [demo_long_hdr 2]" using acc by auto
  have one: "demo_long_one = d'" by (simp add: demo_long_one_def d'(1))
  from d'(3) have eq: "d' = demo_d\<lparr>long_rx_queue := long_rx_queue d', long_rx_ports := long_rx_ports d', dd_stats := dd_stats d'\<rparr>"
    and mx: "map sp_mutex (long_rx_ports d') = map sp_mutex (long_rx_ports demo_d)" by (simp_all add: long_frame_def)
  have len: "length (long_rx_ports d') = 7" using d'(2) by (simp add: long_inv_def)
  have "sp_mutex (long_rx_ports d' ! 2) = map sp_mutex (long_rx_ports demo_d) ! 2" using len by (simp flip: mx)
  then have "\<not> sp_mutex (long_rx_ports d' ! 2)" by (simp add: demo_d_def demo_port_def)
  moreover have "user_mem d' = user_mem demo_d" "rdma_size d' = rdma_size demo_d" "long_rxbuf_lut d' = long_rxbuf_lut demo_d"
    by (subst eq, simp)+
  ultimately show "long_inv demo_long_one {}" "long_hdrs demo_long_one 2 = [demo_long_hdr 2]"
    "\<not> sp_mutex (long_rx_ports demo_long_one ! 2)" "user_mem demo_long_one = user_mem demo_d" "rdma_size demo_long_one = 4096"
    "long_rxbuf_lut demo_long_one = map demo_lut [0..<32]" using one d' z by (simp_all add: demo_d_def)
qed

lemma demo_long_buf: "axiomnet_long_rdma2buf demo_long_one (rx_dst_addr (demo_long_hdr 2)) = Some (Some (demo_lut 0))"
  by (simp add: axiomnet_long_rdma2buf_def demo_long_one demo_long_hdr_def arr_get_def)

text \<open>
  Property C17. Receiving a LONG message: the call returns the length and header of the first message of the bound
  port, stores the bytes of the receive buffer that its address names in the user's buffers in order,
  gives the queue slot back, hands the buffer back to the hardware with its initial descriptor, and
  leaves every other message and port alone.
\<close>

theorem long_recv_delivers:
  assumes "uaccess_spec ua view" and "long_inv d own" and "p < 7" "bind_port pr = int p"
    and "\<not> sp_mutex (long_rx_ports d ! p)" and "long_hdrs d p = h # hs"
    and "axiomnet_long_rdma2buf d (rx_dst_addr h) = Some (Some l)"
    and "dh_payload_size h \<le> dh_payload_size header"
    and "scatter_ok ua (view (user_mem d)) (lut_buf_sw l) (unat (dh_payload_size h)) iov"
  shows "\<exists>d'. axiomnet_long_recv hw ua nonblock pr header iov env d =
      Some (16 + uint (dh_payload_size h), h, env, d') \<and> long_inv d' own \<and>
    view (user_mem d') = scatter_mem (view (user_mem d)) iov
      (mem_load (long_mem d) (lut_buf_sw l) (unat (dh_payload_size h))) \<and>
    (\<forall>p' < 7. long_hdrs d' p' = (if p' = p then hs else long_hdrs d p')) \<and>
    swq_free (long_rx_queue d') = Suc (swq_free (long_rx_queue d)) \<and>
    d' = d\<lparr>dev_api := hw_set_long_buf hw (dev_api d) (lut_buf_id l) (lut_buf_hw l), long_rx_queue := long_rx_queue d',
      user_mem := user_mem d', kthread_rdma := (if swq_free (long_rx_queue d) = 0 then kthread_rdma d
        else axiom_kthread_wakeup (kthread_rdma d))\<rparr>"
  by (rule long_recv_lemma [OF assms])

theorem long_recv_delivers_witness:
  "\<exists>d'. axiomnet_long_recv demo_hw umem_ua True demo_pr (demo_long_hdr 0) [\<lparr>iov_base = 4096, iov_len = 16\<rparr>] [] demo_long_one =
     Some (32, demo_long_hdr 2, [], d') \<and> long_inv d' {}"
proof -
  have "scatter_ok umem_ua (user_mem demo_long_one) (lut_buf_sw (demo_lut 0)) 16 [\<lparr>iov_base = 4096, iov_len = 16\<rparr>]"
    by (simp add: demo_long_one demo_d_def demo_lut_def umem_ua_def readable_def umem_read_numeral copy_aligned_def odd_part_def)
  then show ?thesis
    using long_recv_delivers [OF umem_ua_spec demo_long_one(1) _ _ demo_long_one(3,2) demo_long_buf, of demo_pr "demo_long_hdr 0"
        "[\<lparr>iov_base = 4096, iov_len = 16\<rparr>]" demo_hw True "[]"]
    by (auto simp: demo_pr_def demo_long_hdr_def demo_rdma_h_def)
qed

text \<open>
  Flushing a LONG port whose messages all name valid buffers returns, empties that port only, gives
  all its slots back, hands every buffer back to the hardware in order and restarts the worker.
\<close>

theorem long_flush_empties:
  assumes "long_inv d own" and "p < 7" "bind_port pr = int p" and "\<not> sp_mutex (long_rx_ports d ! p)"
    and "map (\<lambda>h. axiomnet_long_rdma2buf d (rx_dst_addr h)) (long_hdrs d p) = map (\<lambda>l. Some (Some l)) ls"
  shows "\<exists>d'. axiomnet_long_flush hw pr d = Some (0, d') \<and> long_inv d' own \<and>
    (\<forall>p' < 7. long_hdrs d' p' = (if p' = p then [] else long_hdrs d p')) \<and>
    swq_free (long_rx_queue d') = swq_free (long_rx_queue d) + length (long_hdrs d p) \<and>
    d' = d\<lparr>dev_api := free_bufs hw ls (dev_api d), long_rx_queue := long_rx_queue d',
      kthread_rdma := axiom_kthread_wakeup (kthread_rdma d)\<rparr>"
  by (rule long_flush_lemma [OF assms])

theorem long_flush_empties_witness:
  "\<exists>d'. axiomnet_long_flush demo_hw demo_pr demo_long_one = Some (0, d') \<and> long_hdrs d' 2 = []"
  using long_flush_empties [OF demo_long_one(1) _ _ demo_long_one(3), of demo_pr "[demo_lut 0]" demo_hw] demo_long_buf
  by (auto simp: demo_pr_def demo_long_one(2))

text \<open>
  Sending a LONG message: with a free transmit buffer, a free request slot and room in the hardware,
  the bytes of the user's buffers are stored at the start of the buffer and nothing else of the
  reserved memory changes; one asynchronous request with the user's port, destination and size goes
  out for that buffer; the buffer stays in use, tied to the request, until the request completes;
  both mutexes are free again.
\<close>

theorem long_send_submits:
  assumes "uaccess_spec ua view" and "rdma_inv d own" and "callbacks_inv d own lown"
    and "\<not> sp_mutex (rdma_port d)" "\<not> sp_mutex (long_tx_port d)"
    and "swq_free (rdma_queue d) \<noteq> 0" "swq_free (long_tx_queue d) \<noteq> 0"
    and "unat (dh_payload_size user) \<le> AXIOM_LONG_PAYLOAD_MAX_SIZE"
    and "gather_ok ua (view (user_mem d)) (lm_payload (long_desc d (long_next d))) (unat (dh_payload_size user)) iov"
    and "rdma_valid d (long_tx_header user (lm_header (long_desc d (long_next d))))"
    and "hw_rdma_tx_avail hw (dev_api d) = (n, dev)" "n \<noteq> 0"
    and "hw_rdma_tx hw dev (rdma_tx_header (of_nat (rdma_next d)) (long_tx_header user (lm_header (long_desc d (long_next d))))) =
       Some (of_nat (rdma_next d), rdma_tx_header (of_nat (rdma_next d)) (long_tx_header user (lm_header (long_desc d (long_next d)))), dev')"
  shows "\<exists>d'. axiomnet_long_send hw ua nonblock user iov env d = Some (int (rdma_next d), env, d') \<and>
    rdma_inv d' (insert (rdma_next d) own) \<and> callbacks_inv d' (insert (rdma_next d) own) (insert (long_next d) lown) \<and>
    rdma_next d \<notin> own \<and> long_next d \<notin> lown \<and> rs_callback (rdma_slot d' (rdma_next d)) = Some (of_nat (long_next d)) \<and>
    \<not> rs_ack_waiting (rdma_slot d' (rdma_next d)) \<and> \<not> sp_mutex (rdma_port d') \<and> \<not> sp_mutex (long_tx_port d') \<and>
    dev_api d' = dev' \<and>
    long_mem d' = mem_store (long_mem d) (lm_payload (long_desc d (long_next d))) (gather_bytes (view (user_mem d)) iov)"
  using long_send_lemma [OF assms] by blast

lemma demo_long_next: "long_next demo_d = 0" "swq_free (long_tx_queue demo_d) = 2" "long_desc demo_d 0 = demo_long_msg 0"
  using eviq_rep_walks(1) [OF demo_evi_rep [of 0, simplified]]
  by (simp_all add: long_next_def swq_free_def long_desc_def demo_d_def)

theorem long_send_submits_witness:
  "\<exists>d'. axiomnet_long_send demo_hw umem_ua True (demo_long_hdr 2) [\<lparr>iov_base = 4096, iov_len = 16\<rparr>] [] demo_d = Some (0, [], d')"
proof -
  have "gather_ok umem_ua (user_mem demo_d) (lm_payload (demo_long_msg 0)) 16 [\<lparr>iov_base = 4096, iov_len = 16\<rparr>]"
    by (simp add: demo_d_def demo_long_msg_def umem_ua_def readable_def umem_read_numeral copy_aligned_def odd_part_def)
  moreover have "rdma_valid demo_d (long_tx_header (demo_long_hdr 2) (lm_header (demo_long_msg 0)))"
    by (simp add: rdma_valid_def demo_d_def long_tx_header_def demo_long_hdr_def demo_rdma_h_def demo_long_msg_def rdma_hdr_zero_def)
  moreover have "callbacks_inv demo_d {} {}" using demo_nic_inv by (simp add: nic_inv_def)
  moreover have "\<not> sp_mutex (long_tx_port demo_d)" by (simp add: demo_d_def demo_port_def)
  ultimately show ?thesis
    using long_send_submits [OF umem_ua_spec demo_rdma_inv _ demo_rdma_port, of "{}" "demo_long_hdr 2"
        "[\<lparr>iov_base = 4096, iov_len = 16\<rparr>]" demo_hw 1 "dev_api demo_d" _ True "[]"] demo_rdma_free demo_long_next
    by (auto simp: demo_rdma_tx demo_long_hdr_def demo_rdma_h_def)
qed

end
