(* ===== verification/WorkerThreads.thy ===== *)
theory WorkerThreads
  imports Kthread LongIo
begin

text \<open>
  The three threads of the driver: the RAW and RDMA receive workers and the watchdog as clients of the
  thread loop, and the path of a packet from the interrupt to the queue of its port.
\<close>

section \<open>What the work functions leave alone\<close>

lemma port_ops_kthreads:
  "set_port sel x d = Some d' \<Longrightarrow> kthread_raw d' = kthread_raw d \<and> kthread_rdma d' = kthread_rdma d \<and> kthread_wtd d' = kthread_wtd d"
  by (cases sel) (auto simp: bind_eq_Some)

lemma wake_up_kthreads:
  "wake_up sel d = Some d' \<Longrightarrow> kthread_raw d' = kthread_raw d \<and> kthread_rdma d' = kthread_rdma d \<and> kthread_wtd d' = kthread_wtd d"
  "mutex_lock sel d = Some d' \<Longrightarrow> kthread_raw d' = kthread_raw d \<and> kthread_rdma d' = kthread_rdma d \<and> kthread_wtd d' = kthread_wtd d"
  "mutex_unlock sel d = Some d' \<Longrightarrow> kthread_raw d' = kthread_raw d \<and> kthread_rdma d' = kthread_rdma d \<and> kthread_wtd d' = kthread_wtd d"
  by (auto simp: wake_up_def mutex_lock_def mutex_unlock_def bind_eq_Some port_ops_kthreads split: if_splits dest: port_ops_kthreads)

lemma set_status_kthread: "set_status i rs d = Some d' \<Longrightarrow> kthread_rdma d' = kthread_rdma d"
  by (auto simp: set_status_def bind_eq_Some)

lemma rdma_retry_kthread: "rdma_retry hw i d = Some (b, d') \<Longrightarrow> kthread_rdma d' = kthread_rdma d"
  by (auto simp: rdma_retry_def bind_eq_Some inc_stat_def dest!: wake_up_kthreads set_status_kthread)

lemma rdma_complete_kthread: "rdma_complete i d = Some d' \<Longrightarrow> kthread_rdma d' = kthread_rdma d"
  by (auto simp: rdma_complete_def axiomnet_long_callback_def bind_eq_Some Let_def split: if_splits option.splits
      dest!: wake_up_kthreads set_status_kthread)

lemma rdma_rx_ack_kthread: "rdma_rx_ack hw i h d = Some d' \<Longrightarrow> kthread_rdma d' = kthread_rdma d"
  by (auto simp: rdma_rx_ack_def bind_eq_Some Let_def inc_stat_def add_stat_def split: if_splits
      dest!: rdma_retry_kthread rdma_complete_kthread)

definition keeps_kthread :: "kthread \<Rightarrow> ('d, 'u) drvdata option \<Rightarrow> bool" where
  "keeps_kthread k m \<longleftrightarrow> (\<forall>d. m = Some d \<longrightarrow> kthread_rdma d = k)"

lemma keeps_kthread_rules:
  "(\<And>x. m = Some x \<Longrightarrow> keeps_kthread k (f x)) \<Longrightarrow> keeps_kthread k (m \<bind> f)"
  "(\<And>x. x = e \<Longrightarrow> keeps_kthread k (f x)) \<Longrightarrow> keeps_kthread k (Let e f)"
  "(b \<Longrightarrow> keeps_kthread k x) \<Longrightarrow> (\<not> b \<Longrightarrow> keeps_kthread k y) \<Longrightarrow> keeps_kthread k (if b then x else y)"
  "(\<And>x y. p = (x, y) \<Longrightarrow> keeps_kthread k (g x y)) \<Longrightarrow> keeps_kthread k (case p of (x, y) \<Rightarrow> g x y)"
  "kthread_rdma d = k \<Longrightarrow> keeps_kthread k (Some d)"
  by (auto simp: keeps_kthread_def bind_eq_Some split: prod.splits)

lemma rdma_rx_long_kthread: "rdma_rx_long h d = Some d' \<Longrightarrow> kthread_rdma d' = kthread_rdma d"
proof -
  have "keeps_kthread (kthread_rdma d) (rdma_rx_long h d)"
    unfolding rdma_rx_long_def inc_stat_def add_stat_def
    by (intro keeps_kthread_rules) (auto split: if_splits dest: wake_up_kthreads(1))
  then show "rdma_rx_long h d = Some d' \<Longrightarrow> kthread_rdma d' = kthread_rdma d" by (simp add: keeps_kthread_def)
qed

lemma rdma_rx_body_kthread: "rdma_rx_body hw old d = Some (h, d') \<Longrightarrow> kthread_rdma d' = kthread_rdma d"
  by (auto simp: rdma_rx_body_def Let_def bind_eq_Some split: if_splits dest!: rdma_rx_ack_kthread rdma_rx_long_kthread)

lemma rdma_dequeue_kthread: "axiom_rdma_rx_dequeue hw old d = Some d' \<Longrightarrow> kthread_rdma d' = kthread_rdma d"
proof (induct rule: axiom_rdma_rx_dequeue.raw_induct [rotated, consumes 1, case_names 1])
  case (1 w hw old d y)
  then show ?case
    by (auto simp: axiomnet_rdma_rx_work_todo_def bind_eq_Some split: if_splits prod.splits dest!: rdma_rx_body_kthread)
qed

section \<open>The threads\<close>

text \<open>The RAW receive thread of a driver whose hardware keeps the contract of its receive FIFO.\<close>

locale raw_thread =
  fixes hw :: "'d hw_api" and fifo :: "'d \<Rightarrow> raw_pkt list" and own :: "nat set"
  assumes raw_fifo: "raw_rx_fifo hw fifo"

sublocale raw_thread \<subseteq> raw_kt: kthread_client kthread_raw "axiomnet_raw_rx_work_todo hw" "axiomnet_raw_rx_worker hw" "\<lambda>d. raw_inv d own"
proof
  fix d :: "('d, 'u) drvdata"
  assume inv: "raw_inv d own"
  show "raw_inv (snd (axiomnet_raw_rx_work_todo hw d)) own" "kthread_raw (snd (axiomnet_raw_rx_work_todo hw d)) = kthread_raw d"
    using inv by (auto simp: axiomnet_raw_rx_work_todo_def Let_def split: prod.splits)
  from raw_rx_dequeue_ok [OF raw_fifo inv refl] obtain d' where d': "axiom_raw_rx_dequeue hw d = Some d'" "raw_inv d' own" "raw_rx_frame d d'"
    by blast
  from d'(3) have "d' = d\<lparr>dev_api := dev_api d', raw_rx_queue := raw_rx_queue d', raw_rx_ports := raw_rx_ports d', dd_stats := dd_stats d'\<rparr>"
    by (simp add: raw_rx_frame_def)
  then have "kthread_raw d' = kthread_raw d" by (rule ssubst) simp
  with d' show "\<exists>d'. axiomnet_raw_rx_worker hw d = Some d' \<and> raw_inv d' own \<and> kthread_raw d' = kthread_raw d"
    by (simp add: axiomnet_raw_rx_worker_def)
qed

context raw_thread
begin

lemmas requests_served = raw_kt.request_served
lemmas stopped = raw_kt.stop_ends

end

text \<open>
  The RDMA receive thread: the invariant is that of the request table and LONG queues, with
  acknowledgements from real nodes only in the FIFO. \<open>old\<close> is what the worker's local header holds.
\<close>

definition rdma_thread_inv :: "('d \<Rightarrow> rdma_hdr list) \<Rightarrow> ('d, 'u) drvdata \<Rightarrow> bool" where
  "rdma_thread_inv fifo d \<longleftrightarrow> (\<exists>own lown rown. nic_inv d own lown rown) \<and> (\<forall>k \<in> set (fifo (dev_api d)). ack_sane k)"

locale rdma_thread = rdma_device +
  fixes old :: rdma_hdr

sublocale rdma_thread \<subseteq> rdma_kt: kthread_client kthread_rdma "axiomnet_rdma_rx_work_todo hw" "axiomnet_rdma_rx_worker hw old"
  "rdma_thread_inv fifo"
proof
  fix d :: "('a, 'u) drvdata"
  assume inv: "rdma_thread_inv fifo d"
  then obtain o1 l1 r1 where n: "nic_inv d o1 l1 r1" and sane: "\<forall>k \<in> set (fifo (dev_api d)). ack_sane k"
    by (auto simp: rdma_thread_inv_def)
  let ?d = "d\<lparr>dev_api := snd (hw_rdma_rx_avail hw (dev_api d))\<rparr>"
  have "nic_inv ?d o1 l1 r1" by (rule nic_inv_cong [OF n]) (use n in \<open>auto simp: nic_inv_def long_inv_def\<close>)
  then show "rdma_thread_inv fifo (snd (axiomnet_rdma_rx_work_todo hw d))"
    "kthread_rdma (snd (axiomnet_rdma_rx_work_todo hw d)) = kthread_rdma d"
    using sane rx_avail(2) by (auto simp: work_todo rdma_thread_inv_def)
  from worker_drains [OF n refl sane, of old] show
    "\<exists>d'. axiomnet_rdma_rx_worker hw old d = Some d' \<and> rdma_thread_inv fifo d' \<and> kthread_rdma d' = kthread_rdma d"
    using rdma_dequeue_kthread [of hw old d] by (fastforce simp: axiomnet_rdma_rx_worker_def rdma_thread_inv_def)
qed

text \<open>The watchdog wakes the other threads and the senders; nothing can keep it from returning.\<close>

lemma register_reads_wtd:
  "kthread_wtd (snd (axiomnet_raw_rx_work_todo hw d)) = kthread_wtd d" "kthread_wtd (snd (axiomnet_raw_tx_avail hw d)) = kthread_wtd d"
  "kthread_wtd (snd (axiomnet_rdma_rx_work_todo hw d)) = kthread_wtd d" "kthread_wtd (snd (axiomnet_rdma_tx_avail hw d)) = kthread_wtd d"
  by (simp_all add: axiomnet_raw_rx_work_todo_def axiomnet_raw_tx_avail_def axiomnet_rdma_rx_work_todo_def
      axiomnet_rdma_tx_avail_def Let_def case_prod_beta)

lemma wake_up_senders:
  "wake_up RawTx d = Some (d\<lparr>raw_tx_port := (raw_tx_port d)\<lparr>sp_wakes := Suc (sp_wakes (raw_tx_port d))\<rparr>\<rparr>)"
  "wake_up RdmaTx d = Some (d\<lparr>rdma_port := (rdma_port d)\<lparr>sp_wakes := Suc (sp_wakes (rdma_port d))\<rparr>\<rparr>)"
  by (simp_all add: wake_up_def)

lemma watchdog_returns: "\<exists>d'. axiomnet_watchdog_worker hw d = Some d' \<and> kthread_wtd d' = kthread_wtd d"
proof -
  define d1 where "d1 = (if fst (axiomnet_raw_rx_work_todo hw d)
    then (snd (axiomnet_raw_rx_work_todo hw d))\<lparr>kthread_raw := axiom_kthread_wakeup (kthread_raw (snd (axiomnet_raw_rx_work_todo hw d)))\<rparr>
    else snd (axiomnet_raw_rx_work_todo hw d))"
  define d2 where "d2 = snd (axiomnet_raw_tx_avail hw d1)"
  have "kthread_wtd d2 = kthread_wtd d" by (simp add: d2_def d1_def register_reads_wtd)
  then show ?thesis unfolding axiomnet_watchdog_worker_def
    by (simp add: Let_def case_prod_beta wake_up_senders register_reads_wtd flip: d1_def d2_def)
qed

interpretation wtd_kt: kthread_client kthread_wtd "\<lambda>d. (axiomnet_watchdog_work_todo d, d)" "axiomnet_watchdog_worker hw" "\<lambda>_. True" for hw
  using watchdog_returns by unfold_locales auto

interpretation demo_raw_thread: raw_thread demo_hw demo_fifo "{}"
  by unfold_locales (rule demo_rx_fifo)

interpretation demo_rdma_thread: rdma_thread demo_hw dv_rdma_rx rdma_hdr_zero
  using demo_rdma_device by (simp add: rdma_thread_def)

section \<open>Requests and stops\<close>

abbreviation (input) raw_rx_thread :: "'d hw_api \<Rightarrow> axkt_thread \<times> ('d, 'u) drvdata \<Rightarrow> (axkt_thread \<times> ('d, 'u) drvdata) option" where
  "raw_rx_thread hw \<equiv> axkt_worker kthread_raw (axiomnet_raw_rx_work_todo hw) (axiomnet_raw_rx_worker hw)"

abbreviation (input) raw_rx_run :: "'d hw_api \<Rightarrow> nat set \<Rightarrow> axkt_thread \<times> ('d, 'u) drvdata \<Rightarrow> kt_ev list \<Rightarrow>
    axkt_thread \<times> ('d, 'u) drvdata \<Rightarrow> bool" where
  "raw_rx_run hw own \<equiv> kt_run kthread_raw (axiomnet_raw_rx_work_todo hw) (axiomnet_raw_rx_worker hw) (\<lambda>d. raw_inv d own)"

text \<open>
  Property C30. No wake-up of the receive thread is lost. Take any interleaving \<open>es0\<close> of the thread with
  interrupt handlers and system calls after which the thread is running, then any step of somebody
  else that makes \<open>k > 0\<close> requests, then any interleaving \<open>es\<close>. As long as the thread has not called the worker
  function since the requests, it can take a turn (it does not sleep), and five turns are enough for the call. The counter
  has 32 bits: the theorem is for fewer than \<open>2 ^ 32\<close> requests in all.
\<close>

theorem raw_thread_requests_served:
  assumes "raw_rx_fifo hw fifo" and "raw_inv d0 own" and "raw_rx_run hw own (axkt_start, d0) es0 (t, d)"
    and "th_pc t \<notin> {Start, Exited}" and "\<not> th_should_stop t" and "0 < k"
    and "kt_step kthread_raw (axiomnet_raw_rx_work_todo hw) (axiomnet_raw_rx_worker hw) (\<lambda>d. raw_inv d own) (t, d) (Others k) c"
    and "raw_rx_run hw own c es (t', d')" and "StopReq \<notin> set es" and "requests es0 + k + requests es < 2 ^ 32"
  shows "(th_runs t' = th_runs t \<longrightarrow> (\<exists>c'. raw_rx_thread hw (t', d') = Some c')) \<and> (5 \<le> turns es \<longrightarrow> th_runs t < th_runs t')"
  using raw_thread.requests_served [OF raw_thread.intro [OF assms(1)] assms(2-5,7,6,8-10)] by blast

definition demo_asleep :: axkt_thread where
  "demo_asleep = \<lparr>th_pc = Asleep, th_old_scheduled = 0, th_seen = 0, th_should_stop = False, th_runs = 0\<rparr>"

lemma kt_run_singles:
  "kt_step ctx todo worker I c e c' \<Longrightarrow> kt_run ctx todo worker I c [e] c'"
  "axkt_worker ctx todo worker c = Some c' \<Longrightarrow> kt_run ctx todo worker I c0 es c \<Longrightarrow> kt_run ctx todo worker I c0 (es @ [Turn]) c'"
  by (metis kt_run.nil kt_run.snoc append_Nil) (blast intro: kt_run.snoc kt_step.turn)

text \<open>After \<open>kthread_stop\<close> has been called the thread can go on until it has ended, which takes at most five turns.\<close>

lemma kthread_stops:
  assumes "raw_rx_fifo hw fifo" and "raw_inv d0 own" and "raw_rx_run hw own (axkt_start, d0) es0 (t, d)"
    and "th_should_stop t" and "raw_rx_run hw own (t, d) es (t', d')"
  shows "(th_pc t' = Exited \<or> (\<exists>c'. raw_rx_thread hw (t', d') = Some c')) \<and> (5 \<le> turns es \<longrightarrow> th_pc t' = Exited)"
  using raw_thread.stopped [OF raw_thread.intro [OF assms(1)] assms(2-5)] by blast

section \<open>From the interrupt to the queue\<close>

text \<open>
  The interrupt handler returns; it makes one request to the RAW thread if the hardware reports a received
  packet and none otherwise, and touches no queue.
\<close>

lemma irqhandler_raw:
  "\<exists>d'. axiomnet_irqhandler hw d = Some d' \<and> raw_rx_queue d' = raw_rx_queue d \<and> raw_rx_ports d' = raw_rx_ports d \<and>
     dd_stats d' pkt_raw_rx = dd_stats d pkt_raw_rx \<and> dd_stats d' err_raw_rx = dd_stats d err_raw_rx \<and>
     kthread_raw d' = (if fst (hw_pending_irq hw (dev_api d)) AND AXIOMREG_IRQ_RAW_RX \<noteq> 0
       then axiom_kthread_wakeup (kthread_raw d) else kthread_raw d) \<and>
     dev_api d' = hw_ack_irq hw (snd (hw_pending_irq hw (dev_api d))) (fst (hw_pending_irq hw (dev_api d)))"
  by (simp add: axiomnet_irqhandler_def case_prod_beta Let_def wake_up_senders inc_stat_def stat_add_def)

lemma raw_interrupt_lemma:
  assumes "raw_rx_fifo hw fifo" and "\<And>v x. fifo (hw_ack_irq hw v x) = fifo v" and "\<And>v. fifo (snd (hw_pending_irq hw v)) = fifo v"
    and "raw_inv d own" and "fifo (dev_api d) = ks" and "fst (hw_pending_irq hw (dev_api d)) AND AXIOMREG_IRQ_RAW_RX \<noteq> 0"
    and "th_pc t = Asleep" "\<not> th_should_stop t" "th_old_scheduled t = kt_scheduled (kthread_raw d)" "th_seen t = kt_wakes (kthread_raw d)"
  shows "raw_rx_thread hw (t, d) = None \<and>
    (\<exists>d1 t' d' n. axiomnet_irqhandler hw d = Some d1 \<and> raw_rx_run hw own (t, d1) [Turn, Turn, Turn, Turn, Turn] (t', d') \<and>
       th_runs t' = Suc (th_runs t) \<and> raw_inv d' own \<and> fifo (dev_api d') = drop n ks \<and>
       (n \<ge> length ks \<or> swq_free (raw_rx_queue d') = 0) \<and>
       (\<forall>p < 7. raw_pkts d' p = raw_pkts d p @ filter (\<lambda>k. pkt_port k = p) (take n ks)))"
proof -
  from irqhandler_raw [of hw d] assms(6) obtain d1 where
    d1: "axiomnet_irqhandler hw d = Some d1" "raw_rx_queue d1 = raw_rx_queue d" "raw_rx_ports d1 = raw_rx_ports d"
      "kthread_raw d1 = axiom_kthread_wakeup (kthread_raw d)"
      "dev_api d1 = hw_ack_irq hw (snd (hw_pending_irq hw (dev_api d))) (fst (hw_pending_irq hw (dev_api d)))" by auto
  from assms(4) d1 have inv: "raw_inv d1 own" and same: "raw_pkts d1 = raw_pkts d" by (auto simp: raw_inv_def raw_pkts_def)
  have "fifo (dev_api d1) = ks" using d1(5) assms(2,3,5) by simp
  from raw_rx_dequeue_ok [OF assms(1) inv this] obtain d' n where
    d': "axiom_raw_rx_dequeue hw d1 = Some d'" "raw_inv d' own" "fifo (dev_api d') = drop n ks"
      "n \<ge> length ks \<or> swq_free (raw_rx_queue d') = 0"
      "\<forall>p < 7. raw_pkts d' p = raw_pkts d1 p @ filter (\<lambda>k. pkt_port k = p) (take n ks)" by blast
  let ?s = "kt_scheduled (kthread_raw d1)" and ?w = "kt_wakes (kthread_raw d1)"
  let ?t1 = "t\<lparr>th_pc := Prepare\<rparr>"
  let ?t2 = "t\<lparr>th_pc := Test, th_seen := ?w\<rparr>"
  let ?t3 = "t\<lparr>th_pc := Woken, th_seen := ?w\<rparr>"
  let ?t4 = "t\<lparr>th_pc := Work, th_seen := ?w, th_old_scheduled := ?s\<rparr>"
  let ?t5 = "t\<lparr>th_pc := Resched, th_seen := ?w, th_old_scheduled := ?s, th_runs := Suc (th_runs t)\<rparr>"
  have moved: "?s \<noteq> th_old_scheduled t" "?w \<noteq> th_seen t" using d1(4) assms(9,10) by (simp_all add: axiom_kthread_wakeup_def)
  have "raw_rx_run hw own (t, d1) (((([] @ [Turn]) @ [Turn]) @ [Turn]) @ [Turn]) (?t4, d1)"
    using assms(7,8) moved by (intro kt_run_singles(2) [of _ _ _ "(t, d1)" "(?t1, d1)"] kt_run_singles(2) [of _ _ _ "(?t1, d1)" "(?t2, d1)"]
      kt_run_singles(2) [of _ _ _ "(?t2, d1)" "(?t3, d1)"] kt_run_singles(2) [of _ _ _ "(?t3, d1)" "(?t4, d1)"] kt_run.nil) simp_all
  then have "raw_rx_run hw own (t, d1) [Turn, Turn, Turn, Turn, Turn] (?t5, d')"
    using kt_run_singles(2) [of kthread_raw "axiomnet_raw_rx_work_todo hw" "axiomnet_raw_rx_worker hw" "(?t4, d1)" "(?t5, d')" _ "(t, d1)"
        "[Turn, Turn, Turn, Turn]"] d'(1)
    by (simp add: axiomnet_raw_rx_worker_def)
  moreover have "raw_rx_thread hw (t, d) = None" using assms(7-10) by simp
  ultimately show ?thesis using d1(1) d'(2-5) same by (intro conjI exI [of _ d1] exI [of _ ?t5] exI [of _ d'] exI [of _ n]) simp_all
qed

text \<open>
  Property C31. From the interrupt to the port. While no interrupt comes, the sleeping receive thread takes no turn. When the
  hardware raises the RAW receive interrupt, the handler returns and acknowledges it, and five turns of the
  thread bring the waiting packets, in order and unchanged, to the queues of their ports: all of
  them, or as many as there are free slots.
\<close>

theorem raw_interrupt_delivers:
  assumes "raw_rx_fifo hw fifo" and "\<And>v x. fifo (hw_ack_irq hw v x) = fifo v" and "\<And>v. fifo (snd (hw_pending_irq hw v)) = fifo v"
    and "raw_inv d own" and "fifo (dev_api d) = ks" and "fst (hw_pending_irq hw (dev_api d)) AND AXIOMREG_IRQ_RAW_RX \<noteq> 0"
    and "th_pc t = Asleep" "\<not> th_should_stop t" "th_old_scheduled t = kt_scheduled (kthread_raw d)" "th_seen t = kt_wakes (kthread_raw d)"
  shows "raw_rx_thread hw (t, d) = None \<and>
    (\<exists>d1 t' d' n. axiomnet_irqhandler hw d = Some d1 \<and> raw_rx_run hw own (t, d1) [Turn, Turn, Turn, Turn, Turn] (t', d') \<and>
       th_runs t' = Suc (th_runs t) \<and> raw_inv d' own \<and> fifo (dev_api d') = drop n ks \<and>
       (n \<ge> length ks \<or> swq_free (raw_rx_queue d') = 0) \<and>
       (\<forall>p < 7. raw_pkts d' p = raw_pkts d p @ filter (\<lambda>k. pkt_port k = p) (take n ks)))"
  by (rule raw_interrupt_lemma [OF assms])

definition demo_irq_hw :: "demo_dev hw_api" where
  "demo_irq_hw = demo_hw\<lparr>hw_pending_irq := \<lambda>v. (AXIOMREG_IRQ_RAW_RX, v)\<rparr>"

lemma demo_irq_fifo: "raw_rx_fifo demo_irq_hw demo_fifo"
  using demo_rx_fifo by (simp add: raw_rx_fifo_def demo_irq_hw_def)

lemma demo_asleep_thread:
  "th_pc demo_asleep = Asleep" "\<not> th_should_stop demo_asleep"
  "th_old_scheduled demo_asleep = kt_scheduled (kthread_raw demo_rx_d)" "th_seen demo_asleep = kt_wakes (kthread_raw demo_rx_d)"
proof -
  have "kthread_raw demo_rx_d = demo_kthread" by (simp add: demo_rx_d_def demo_d_def)
  then show "th_pc demo_asleep = Asleep" "\<not> th_should_stop demo_asleep"
    "th_old_scheduled demo_asleep = kt_scheduled (kthread_raw demo_rx_d)" "th_seen demo_asleep = kt_wakes (kthread_raw demo_rx_d)"
    by (simp_all add: demo_asleep_def demo_kthread_def)
qed

lemma demo_irq_laws:
  "demo_fifo (hw_ack_irq demo_irq_hw v x) = demo_fifo v" "demo_fifo (snd (hw_pending_irq demo_irq_hw v)) = demo_fifo v"
  "fst (hw_pending_irq demo_irq_hw v) AND AXIOMREG_IRQ_RAW_RX \<noteq> 0"
  by (simp_all add: demo_irq_hw_def demo_hw_def)

theorem raw_interrupt_delivers_witness:
  "\<exists>d1 t' d' n. axiomnet_irqhandler demo_irq_hw demo_rx_d = Some d1 \<and>
     raw_rx_run demo_irq_hw {} (demo_asleep, d1) [Turn, Turn, Turn, Turn, Turn] (t', d') \<and>
     (\<forall>p < 7. raw_pkts d' p = raw_pkts demo_rx_d p @ filter (\<lambda>k. pkt_port k = p) (take n (demo_fifo (dev_api demo_rx_d))))"
  using raw_interrupt_delivers [OF demo_irq_fifo demo_irq_laws(1,2) demo_rx_d_inv refl demo_irq_laws(3) demo_asleep_thread] by blast

lemma demo_sleeps: "raw_rx_run demo_irq_hw {} (axkt_start, demo_d) [Turn, Turn, Turn] (demo_asleep, demo_d)"
proof -
  let ?t1 = "axkt_start\<lparr>th_pc := Prepare\<rparr>" and ?t2 = "axkt_start\<lparr>th_pc := Test\<rparr>"
  have k: "kthread_raw demo_d = demo_kthread" "axiomnet_raw_rx_work_todo demo_irq_hw demo_d = (False, demo_d)"
    by (simp_all add: demo_d_def axiomnet_raw_rx_work_todo_def demo_irq_hw_def demo_hw_def demo_v_def)
  have "raw_rx_run demo_irq_hw {} (axkt_start, demo_d) ((([] @ [Turn]) @ [Turn]) @ [Turn]) (demo_asleep, demo_d)"
    using k by (intro kt_run_singles(2) [of _ _ _ "(axkt_start, demo_d)" "(?t1, demo_d)"] kt_run_singles(2) [of _ _ _ "(?t1, demo_d)" "(?t2, demo_d)"]
      kt_run_singles(2) [of _ _ _ "(?t2, demo_d)" "(demo_asleep, demo_d)"] kt_run.nil)
      (simp_all add: axkt_start_def demo_asleep_def demo_kthread_def)
  then show ?thesis by simp
qed

theorem raw_thread_requests_served_witness:
  "\<exists>d1 t' (d' :: (demo_dev, u64 \<Rightarrow> u8 option) drvdata). raw_rx_run demo_irq_hw {} (demo_asleep, d1) [Turn, Turn, Turn, Turn, Turn] (t', d') \<and> th_runs demo_asleep < th_runs t'"
proof -
  from raw_interrupt_lemma [OF demo_irq_fifo demo_irq_laws(1,2) demo_rx_d_inv refl demo_irq_laws(3) demo_asleep_thread]
  obtain d1 t' d' where d1: "axiomnet_irqhandler demo_irq_hw demo_rx_d = Some d1"
    "raw_rx_run demo_irq_hw {} (demo_asleep, d1) [Turn, Turn, Turn, Turn, Turn] (t', d')" by blast
  with irqhandler_raw [of demo_irq_hw demo_rx_d] demo_irq_laws(3) [of "dev_api demo_rx_d"] demo_rx_d_inv
  have "kthread_raw d1 = (axiom_kthread_wakeup ^^ 1) (kthread_raw demo_d)" "raw_inv d1 {}"
    by (auto simp: demo_rx_d_def raw_inv_def)
  then have "kt_step kthread_raw (axiomnet_raw_rx_work_todo demo_irq_hw) (axiomnet_raw_rx_worker demo_irq_hw) (\<lambda>d. raw_inv d {})
      (demo_asleep, demo_d) (Others 1) (demo_asleep, d1)" by (intro kt_step.others)
  with raw_thread_requests_served [OF demo_irq_fifo demo_d_inv demo_sleeps _ _ _ this d1(2)] d1(2)
  have "th_runs demo_asleep < th_runs t'" by (simp add: demo_asleep_def turns_def)
  with d1(2) show ?thesis by blast
qed

end
