(* ===== verification/DriverInit.thy ===== *)
theory DriverInit
  imports DriverSysfs DriverPorts WorkerThreads
begin

text \<open>
  Life of the driver (\<open>axiom_netdev_driver/axiom_netdev_common.c\<close>): the rings, the memory of the NIC, the
  character devices, probing with its unwinding, removal, and loading and unloading of the module.
\<close>

section \<open>The environment\<close>

text \<open>
  The answers of the kernel during initialisation. The queues are numbered: 0 RAW reception, 1 RDMA, 2 LONG
  transmission, 3 LONG reception; the threads: 0 RAW, 1 RDMA, 2 watchdog. \<open>ie_app\<close> and \<open>ie_nic\<close> are the address and size
  \<open>axiom_mem_dev_get_appspace\<close> and \<open>axiom_mem_dev_get_nicspace\<close> return, \<open>None\<close> for a failure. \<open>ie_print\<close> is what the
  register dumps of a verbose probe do to the device.
\<close>

record 'd init_env =
  ie_print :: "'d \<Rightarrow> 'd"
  ie_node :: "nat \<Rightarrow> int"
  ie_sysfs :: sysfs_env
  ie_mok :: "nat \<Rightarrow> nat \<Rightarrow> bool"
  ie_junk :: "nat \<Rightarrow> nat \<Rightarrow> nat \<Rightarrow> s16"
  ie_kcalloc :: "nat \<Rightarrow> u64 option"
  ie_kthread :: "nat \<Rightarrow> int + int"
  ie_app :: "(u64 \<times> u64) option"
  ie_nic :: "(u64 \<times> u64) option"
  ie_ioremap :: "u64 \<Rightarrow> u64 \<Rightarrow> u64"
  ie_region :: int
  ie_cdev :: "nat \<Rightarrow> int"
  ie_class :: int

text \<open>The driver data, the sysfs part of it, the driver data pointer of \<open>chrdev\<close> (set or \<open>NULL\<close>), and the resources held.\<close>

record ('d, 'u) probe_st =
  ps_drv :: "('d, 'u) drvdata"
  ps_sysfs :: sysfs
  ps_chrdev :: bool
  ps_live :: "resource set"

definition on_drv :: "(('d, 'u) drvdata \<Rightarrow> ('d, 'u) drvdata) \<Rightarrow> ('d, 'u) probe_st \<Rightarrow> ('d, 'u) probe_st" where
  "on_drv f st = st\<lparr>ps_drv := f (ps_drv st)\<rparr>"

section \<open>Rings\<close>

definition port_init :: sw_port where "port_init = \<lparr>sp_mutex = False, sp_wakes = 0\<rparr>"

text \<open>
  The allocation all queues share: the queue manager, then the zeroed descriptors; when these cannot be had, the queue
  manager is released again.
\<close>

definition queue_init :: "'d init_env \<Rightarrow> nat \<Rightarrow> 'm \<Rightarrow> nat \<Rightarrow> nat \<Rightarrow> 'm sw_queue \<Rightarrow> (int \<times> 'm sw_queue) option" where
  "queue_init env i zero queues free_elem q = do {
     (err, e) \<leftarrow> eviq_init (ie_mok env i) (ie_junk env i) (sq_evi q) (int queues) (int free_elem);
     let q = q\<lparr>sq_evi := e\<rparr>;
     if err \<noteq> 0 then Some (- ENOMEM, q)
     else case ie_kcalloc env i of
            None \<Rightarrow> Some (- ENOMEM, q\<lparr>sq_desc := None, sq_evi := eviq_release e\<rparr>)
          | Some base \<Rightarrow> Some (0, q\<lparr>sq_desc := Some (replicate free_elem zero), sq_base := base\<rparr>) }"

definition queue_release :: "'m sw_queue \<Rightarrow> 'm sw_queue" where
  "queue_release q = q\<lparr>sq_desc := None, sq_evi := eviq_release (sq_evi q)\<rparr>"

definition raw_msg_zero :: raw_msg where
  "raw_msg_zero = \<lparr>rm_header = \<lparr>rh_port_type = 0, rh_node = 0, rh_msg_id = 0, rh_payload_size = 0, rh_padding = 0\<rparr>,
     rm_payload = replicate RAW_PAYLOAD_LEN 0\<rparr>"

definition long_msg_zero :: long_msg where
  "long_msg_zero = \<lparr>lm_header = rdma_hdr_zero, lm_payload = 0\<rparr>"

definition rdma_status_zero :: rdma_status where
  "rdma_status_zero = \<lparr>rs_msg_id = 0, rs_msg_id_counter = 0, rs_retries = 0, rs_ack_received = False, rs_ack_waiting = False,
     rs_wakes = 0, rs_queue_slot = 0, rs_callback = None, rs_header = rdma_hdr_zero\<rparr>"

definition axiomnet_raw_rx_hwring_release :: "('d, 'u) drvdata \<Rightarrow> ('d, 'u) drvdata" where
  "axiomnet_raw_rx_hwring_release d = d\<lparr>raw_rx_queue := queue_release (raw_rx_queue d)\<rparr>"

definition axiomnet_raw_rx_hwring_init :: "'d init_env \<Rightarrow> ('d, 'u) drvdata \<Rightarrow> (int \<times> ('d, 'u) drvdata) option" where
  "axiomnet_raw_rx_hwring_init env d = do {
     let d = d\<lparr>raw_rx_ports := replicate AXIOM_PORT_NUM port_init\<rparr>;
     (err, q) \<leftarrow> queue_init env 0 raw_msg_zero AXIOM_PORT_NUM AXIOMNET_RAW_QUEUE_FREE_LEN (raw_rx_queue d);
     Some (err, d\<lparr>raw_rx_queue := q\<rparr>) }"

definition axiomnet_raw_tx_hwring_init :: "('d, 'u) drvdata \<Rightarrow> int \<times> ('d, 'u) drvdata" where
  "axiomnet_raw_tx_hwring_init d = (0, d\<lparr>raw_tx_port := port_init\<rparr>)"

definition axiomnet_long_queue_release :: "long_msg sw_queue \<Rightarrow> long_msg sw_queue" where
  "axiomnet_long_queue_release q = queue_release q"

definition axiomnet_long_queue_init :: "'d init_env \<Rightarrow> nat \<Rightarrow> long_msg sw_queue \<Rightarrow> nat \<Rightarrow> nat \<Rightarrow> (int \<times> long_msg sw_queue) option" where
  "axiomnet_long_queue_init env i q queues free_elem = queue_init env i long_msg_zero queues free_elem q"

definition axiomnet_rdma_rx_hwring_release :: "('d, 'u) drvdata \<Rightarrow> ('d, 'u) drvdata" where
  "axiomnet_rdma_rx_hwring_release d = d\<lparr>long_rx_queue := axiomnet_long_queue_release (long_rx_queue d)\<rparr>"

definition axiomnet_rdma_tx_hwring_release :: "('d, 'u) drvdata \<Rightarrow> ('d, 'u) drvdata" where
  "axiomnet_rdma_tx_hwring_release d =
     d\<lparr>long_tx_queue := axiomnet_long_queue_release (long_tx_queue d), rdma_queue := queue_release (rdma_queue d)\<rparr>"

definition axiomnet_rdma_rx_hwring_init :: "'d init_env \<Rightarrow> ('d, 'u) drvdata \<Rightarrow> (int \<times> ('d, 'u) drvdata) option" where
  "axiomnet_rdma_rx_hwring_init env d = do {
     let d = d\<lparr>long_rx_ports := replicate AXIOM_PORT_NUM port_init\<rparr>;
     (err, q) \<leftarrow> axiomnet_long_queue_init env 3 (long_rx_queue d) AXIOM_PORT_NUM AXIOMREG_LEN_LONG_BUF;
     Some (err, d\<lparr>long_rx_queue := q\<rparr>) }"

text \<open>The loops \<open>for (i = 0; i < n; i++)\<close> that set fields of the descriptors.\<close>

fun upd_loop :: "(nat \<Rightarrow> 'a \<Rightarrow> 'a) \<Rightarrow> nat list \<Rightarrow> 'a list \<Rightarrow> 'a list option" where
  "upd_loop f [] xs = Some xs"
| "upd_loop f (i # is) xs = do { x \<leftarrow> arr_get xs (int i); xs \<leftarrow> arr_set xs (int i) (f i x); upd_loop f is xs }"

definition rdma_status_init :: "nat \<Rightarrow> rdma_status \<Rightarrow> rdma_status" where
  "rdma_status_init i rs = rs\<lparr>rs_msg_id := of_nat i, rs_msg_id_counter := 0,
     rs_header := (rs_header rs)\<lparr>dh_node := AXIOM_NULL_NODE\<rparr>, rs_wakes := 0\<rparr>"

definition axiomnet_rdma_tx_hwring_init :: "'d init_env \<Rightarrow> ('d, 'u) drvdata \<Rightarrow> (int \<times> ('d, 'u) drvdata) option" where
  "axiomnet_rdma_tx_hwring_init env d = do {
     let d = d\<lparr>rdma_port := port_init\<rparr>;
     (err, q) \<leftarrow> queue_init env 1 rdma_status_zero 0 AXIOM_MSG_ID_NUM (rdma_queue d);
     let d = d\<lparr>rdma_queue := q\<rparr>;
     if err \<noteq> 0 then Some (err, d)
     else do {
       ds \<leftarrow> sq_desc q;
       ds \<leftarrow> upd_loop rdma_status_init [0..<AXIOM_MSG_ID_NUM] ds;
       let d = d\<lparr>rdma_queue := q\<lparr>sq_desc := Some ds\<rparr>, long_tx_port := port_init\<rparr>;
       (err, lq) \<leftarrow> axiomnet_long_queue_init env 2 (long_tx_queue d) 0 AXIOMREG_LEN_LONG_BUF;
       let d = d\<lparr>long_tx_queue := lq\<rparr>;
       if err \<noteq> 0 then Some (err, d\<lparr>rdma_queue := queue_release (rdma_queue d)\<rparr>)
       else Some (0, d) } }"

section \<open>The memory of the NIC\<close>

definition axiomnet_rdma_release :: "('d, 'u) drvdata \<Rightarrow> ('d, 'u) drvdata" where
  "axiomnet_rdma_release d = d\<lparr>long_vaddr := 0, dma_paddr := 0, dma_size := 0, rdma_paddr := 0, rdma_size := 0,
     long_paddr := 0, long_size := 0\<rparr>"

abbreviation (input) LONG_BUFS_SIZE :: nat where "LONG_BUFS_SIZE \<equiv> AXIOMREG_LEN_LONG_BUF * AXIOM_LONG_PAYLOAD_BUF_SIZE"

definition long_rx_buf :: "('d, 'u) drvdata \<Rightarrow> nat \<Rightarrow> long_buf_lut" where
  "long_rx_buf d i = \<lparr>lut_buf_id = int i,
     lut_buf_hw = \<lparr>lb_address = ucast (rdma_size d + of_nat (i * AXIOM_LONG_PAYLOAD_BUF_SIZE)),
       lb_size = of_nat AXIOM_LONG_PAYLOAD_MAX_SIZE, lb_msg_id = 0xFF, lb_flags = AXIOMREG_LONG_BUF_FREE\<rparr>,
     lut_buf_sw = long_rx_vaddr d + of_nat (i * AXIOM_LONG_PAYLOAD_BUF_SIZE)\<rparr>"

fun long_rx_bufs_loop :: "'d hw_api \<Rightarrow> nat list \<Rightarrow> ('d, 'u) drvdata \<Rightarrow> ('d, 'u) drvdata option" where
  "long_rx_bufs_loop hw [] d = Some d"
| "long_rx_bufs_loop hw (i # is) d = do {
     lut \<leftarrow> arr_set (long_rxbuf_lut d) (int i) (long_rx_buf d i);
     long_rx_bufs_loop hw is (d\<lparr>long_rxbuf_lut := lut,
       dev_api := hw_set_long_buf hw (dev_api d) (int i) (lut_buf_hw (long_rx_buf d i))\<rparr>) }"

definition long_tx_buf :: "('d, 'u) drvdata \<Rightarrow> nat \<Rightarrow> long_msg \<Rightarrow> long_msg" where
  "long_tx_buf d i m = m\<lparr>lm_payload := long_tx_vaddr d + of_nat (i * AXIOM_LONG_PAYLOAD_BUF_SIZE),
     lm_header := (lm_header m)\<lparr>dh_addr0 :=
       ucast (rdma_size d + of_nat LONG_BUFS_SIZE + of_nat (i * AXIOM_LONG_PAYLOAD_BUF_SIZE))\<rparr>\<rparr>"

text \<open>\<open>axiomnet_rdma_init\<close>: the boolean says whether the buffers got mapped. The result of \<open>ioremap\<close> is not tested.\<close>

definition axiomnet_rdma_init :: "'d hw_api \<Rightarrow> 'd init_env \<Rightarrow> ('d, 'u) drvdata \<Rightarrow> (int \<times> bool \<times> ('d, 'u) drvdata) option" where
  "axiomnet_rdma_init hw env d = (case ie_app env of
     None \<Rightarrow> Some (- EFAULT, False, d)
   | Some (mem_app_base, mem_app_size) \<Rightarrow> (case ie_nic env of
       None \<Rightarrow> Some (- EFAULT, False, d)
     | Some (mem_nic_base, mem_nic_size) \<Rightarrow>
         let lsize = of_nat (2 * LONG_BUFS_SIZE);
             d = d\<lparr>rdma_paddr := mem_app_base, rdma_size := mem_app_size, long_paddr := mem_nic_base, long_size := lsize,
                   dma_paddr := mem_app_base, dma_size := mem_app_size + lsize\<rparr> in
         if lsize > mem_nic_size then Some (- EFAULT, False, d)
         else
           let va = ie_ioremap env mem_nic_base lsize;
               d = d\<lparr>long_vaddr := va, long_rx_vaddr := va, long_tx_vaddr := va + of_nat LONG_BUFS_SIZE\<rparr>;
               d = d\<lparr>dev_api := hw_set_rdma_zone hw (dev_api d) (dma_paddr d) (dma_paddr d + dma_size d - 1)\<rparr> in do {
           d \<leftarrow> long_rx_bufs_loop hw [0..<AXIOMREG_LEN_LONG_BUF] d;
           ds \<leftarrow> sq_desc (long_tx_queue d);
           ds \<leftarrow> upd_loop (long_tx_buf d) [0..<AXIOMREG_LEN_LONG_BUF] ds;
           Some (0, va \<noteq> 0, d\<lparr>long_tx_queue := (long_tx_queue d)\<lparr>sq_desc := Some ds\<rparr>\<rparr>) }))"

section \<open>Character devices\<close>

abbreviation (input) AXIOMNET_DEV_MINOR :: nat where "AXIOMNET_DEV_MINOR \<equiv> 0"
abbreviation (input) AXIOMNET_DEV_RAW_MINOR :: nat where "AXIOMNET_DEV_RAW_MINOR \<equiv> 1"
abbreviation (input) AXIOMNET_DEV_LONG_MINOR :: nat where "AXIOMNET_DEV_LONG_MINOR \<equiv> 2"
abbreviation (input) AXIOMNET_DEV_RDMA_MINOR :: nat where "AXIOMNET_DEV_RDMA_MINOR \<equiv> 3"

text \<open>\<open>device_create\<close> of one of the four nodes: an error number, or 0 and the node.\<close>

definition device_create :: "'d init_env \<Rightarrow> nat \<Rightarrow> resource set \<Rightarrow> int \<times> resource set" where
  "device_create env minor live = (if ie_node env minor < 0 then (ie_node env minor, live) else (0, insert (DevNode minor) live))"

definition device_destroy :: "nat \<Rightarrow> resource set \<Rightarrow> resource set" where
  "device_destroy minor live = live - {DevNode minor}"

definition axiomnet_alloc_chrdev :: "'d init_env \<Rightarrow> ('d, 'u) probe_st \<Rightarrow> int \<times> ('d, 'u) probe_st" where
  "axiomnet_alloc_chrdev env st =
     (let (err, live) = device_create env AXIOMNET_DEV_MINOR (ps_live st) in
      if err \<noteq> 0 then (err, st)
      else let (err, live) = device_create env AXIOMNET_DEV_RAW_MINOR live in
      if err \<noteq> 0 then (err, st\<lparr>ps_live := device_destroy AXIOMNET_DEV_MINOR live\<rparr>)
      else let (err, live) = device_create env AXIOMNET_DEV_LONG_MINOR live in
      if err \<noteq> 0 then (err, st\<lparr>ps_live := device_destroy AXIOMNET_DEV_MINOR (device_destroy AXIOMNET_DEV_RAW_MINOR live)\<rparr>)
      else let (err, live) = device_create env AXIOMNET_DEV_RDMA_MINOR live in
      if err \<noteq> 0 then (err, st\<lparr>ps_live := device_destroy AXIOMNET_DEV_MINOR (device_destroy AXIOMNET_DEV_RAW_MINOR
        (device_destroy AXIOMNET_DEV_LONG_MINOR live))\<rparr>)
      else (0, on_drv (\<lambda>d. d\<lparr>dd_used := 0\<rparr>) (st\<lparr>ps_live := live, ps_chrdev := True\<rparr>)))"

definition axiomnet_destroy_chrdev :: "('d, 'u) probe_st \<Rightarrow> ('d, 'u) probe_st" where
  "axiomnet_destroy_chrdev st = st\<lparr>ps_live := device_destroy AXIOMNET_DEV_MINOR (device_destroy AXIOMNET_DEV_RAW_MINOR
     (device_destroy AXIOMNET_DEV_LONG_MINOR (device_destroy AXIOMNET_DEV_RDMA_MINOR (ps_live st)))), ps_chrdev := False\<rparr>"

text \<open>
  \<open>unregister_chrdev_region\<close> frees as many device numbers as its second argument says. The driver passes
  \<open>AXIOMNET_DEV_MINOR\<close>, the number 0.
\<close>

definition unregister_chrdev_region :: "nat \<Rightarrow> resource set \<Rightarrow> resource set" where
  "unregister_chrdev_region count live = (if count = 0 then live else live - {ChrRegion})"

definition cdev_del :: "nat \<Rightarrow> resource set \<Rightarrow> resource set" where
  "cdev_del minor live = live - {Cdev minor}"

fun cdevs_free :: "nat list \<Rightarrow> resource set \<Rightarrow> resource set" where
  "cdevs_free [] live = unregister_chrdev_region AXIOMNET_DEV_MINOR live"
| "cdevs_free (m # ms) live = cdevs_free ms (cdev_del m live)"

definition axiomnet_init_chrdev :: "'d init_env \<Rightarrow> resource set \<Rightarrow> int \<times> resource set" where
  "axiomnet_init_chrdev env live =
     (if ie_region env \<noteq> 0 then (ie_region env, live)
      else let live = insert ChrRegion live in
      if ie_cdev env AXIOMNET_DEV_MINOR < 0 then (ie_cdev env AXIOMNET_DEV_MINOR, cdevs_free [] live)
      else let live = insert (Cdev AXIOMNET_DEV_MINOR) live in
      if ie_cdev env AXIOMNET_DEV_RAW_MINOR < 0 then (ie_cdev env AXIOMNET_DEV_RAW_MINOR, cdevs_free [AXIOMNET_DEV_MINOR] live)
      else let live = insert (Cdev AXIOMNET_DEV_RAW_MINOR) live in
      if ie_cdev env AXIOMNET_DEV_LONG_MINOR < 0
      then (ie_cdev env AXIOMNET_DEV_LONG_MINOR, cdevs_free [AXIOMNET_DEV_RAW_MINOR, AXIOMNET_DEV_MINOR] live)
      else let live = insert (Cdev AXIOMNET_DEV_LONG_MINOR) live in
      if ie_cdev env AXIOMNET_DEV_RDMA_MINOR < 0
      then (ie_cdev env AXIOMNET_DEV_RDMA_MINOR, cdevs_free [AXIOMNET_DEV_LONG_MINOR, AXIOMNET_DEV_RAW_MINOR, AXIOMNET_DEV_MINOR] live)
      else let live = insert (Cdev AXIOMNET_DEV_RDMA_MINOR) live in
      if ie_class env < 0
      then (ie_class env, cdevs_free [AXIOMNET_DEV_RDMA_MINOR, AXIOMNET_DEV_LONG_MINOR, AXIOMNET_DEV_RAW_MINOR, AXIOMNET_DEV_MINOR] live)
      else (0, insert DevClass live))"

definition axiomnet_cleanup_chrdev :: "resource set \<Rightarrow> resource set" where
  "axiomnet_cleanup_chrdev live =
     cdevs_free [AXIOMNET_DEV_RDMA_MINOR, AXIOMNET_DEV_LONG_MINOR, AXIOMNET_DEV_RAW_MINOR, AXIOMNET_DEV_MINOR] (live - {DevClass})"

definition axiomnet_init :: "'d init_env \<Rightarrow> resource set \<Rightarrow> int \<times> resource set" where
  "axiomnet_init env live = axiomnet_init_chrdev env live"

definition axiomnet_cleanup :: "resource set \<Rightarrow> resource set" where
  "axiomnet_cleanup live = axiomnet_cleanup_chrdev live"

section \<open>Probe and remove\<close>

text \<open>\<open>memset(drvdata, 0, ...)\<close>; the memories behind the pointers are not part of the structure.\<close>

definition evi_zero :: evi_queue where
  "evi_zero = \<lparr>q_queues = 0, q_free_elems = 0, q_head = None, q_tail = None, q_free = 0, q_next = None\<rparr>"

definition queue_zero :: "'m sw_queue" where
  "queue_zero = \<lparr>sq_evi = evi_zero, sq_desc = None, sq_base = 0\<rparr>"

definition kthread_zero :: kthread where
  "kthread_zero = \<lparr>kt_task = False, kt_pid = 0, kt_scheduled = 0, kt_wakes = 0\<rparr>"

definition drvdata_zero :: "'d \<Rightarrow> 'u \<Rightarrow> (u64 \<Rightarrow> u8) \<Rightarrow> ('d, 'u) drvdata" where
  "drvdata_zero dev um lm = \<lparr>dev_api = dev, dd_lock = False, dd_used = 0, dma_paddr = 0, dma_size = 0, rdma_paddr = 0,
     rdma_size = 0, long_paddr = 0, long_vaddr = 0, long_rx_vaddr = 0, long_tx_vaddr = 0, long_size = 0,
     long_rxbuf_lut = replicate AXIOMREG_LEN_LONG_BUF
       \<lparr>lut_buf_id = 0, lut_buf_hw = \<lparr>lb_address = 0, lb_size = 0, lb_msg_id = 0, lb_flags = 0\<rparr>, lut_buf_sw = 0\<rparr>,
     raw_tx_port = port_init, raw_rx_queue = queue_zero, raw_rx_ports = replicate AXIOM_PORT_NUM port_init, raw_rx_port_used = 0,
     rdma_queue = queue_zero, long_tx_queue = queue_zero, rdma_port = port_init, long_tx_port = port_init,
     long_rx_queue = queue_zero, long_rx_ports = replicate AXIOM_PORT_NUM port_init, long_rx_port_used = 0,
     kthread_raw = kthread_zero, kthread_rdma = kthread_zero, kthread_wtd = kthread_zero, dd_stats = (\<lambda>_. 0),
     watchdog_period_msec = 0, retry_delay_usec = 0, routing_table = replicate 256 0, dd_node_id = 0,
     user_mem = um, long_mem = lm\<rparr>"

definition sysfs_zero :: sysfs where
  "sysfs_zero = \<lparr>sf_dev = 0, sf_kobj = (\<lambda>_. False), sf_drvdata = False\<rparr>"

text \<open>The labels at the end of \<open>axiomnet_probe\<close>, each falling through to the next.\<close>

definition sysfs_off :: "('d, 'u) probe_st \<Rightarrow> ('d, 'u) probe_st" where
  "sysfs_off st = (let (sf, live) = axiom_sysfs_uninit (ps_sysfs st) (ps_live st) in st\<lparr>ps_sysfs := sf, ps_live := live\<rparr>)"

definition rdma_off :: "'d hw_api \<Rightarrow> ('d, 'u) probe_st \<Rightarrow> ('d, 'u) probe_st" where
  "rdma_off hw st = on_drv (\<lambda>d. axiomnet_rdma_release (d\<lparr>dev_api := hw_disable_irq hw (dev_api d)\<rparr>)) (st\<lparr>ps_live := ps_live st - {IoMap}\<rparr>)"

definition probe_free_cdev :: "('d, 'u) probe_st \<Rightarrow> ('d, 'u) probe_st" where
  "probe_free_cdev st = axiomnet_destroy_chrdev st"
definition probe_free_sysfs :: "('d, 'u) probe_st \<Rightarrow> ('d, 'u) probe_st" where
  "probe_free_sysfs st = probe_free_cdev (sysfs_off st)"
definition probe_free_tx_ring :: "('d, 'u) probe_st \<Rightarrow> ('d, 'u) probe_st" where
  "probe_free_tx_ring st = probe_free_sysfs (on_drv axiomnet_rdma_tx_hwring_release st)"
definition probe_free_rx_ring :: "('d, 'u) probe_st \<Rightarrow> ('d, 'u) probe_st" where
  "probe_free_rx_ring st = probe_free_tx_ring (on_drv axiomnet_raw_rx_hwring_release st)"
definition probe_free_rdma_rx_ring :: "('d, 'u) probe_st \<Rightarrow> ('d, 'u) probe_st" where
  "probe_free_rdma_rx_ring st = probe_free_rx_ring (on_drv axiomnet_rdma_rx_hwring_release st)"
definition probe_free_raw_kthread :: "('d, 'u) probe_st \<Rightarrow> ('d, 'u) probe_st" where
  "probe_free_raw_kthread st = probe_free_rdma_rx_ring (on_drv (\<lambda>d. d\<lparr>kthread_raw := axiom_kthread_uninit (kthread_raw d)\<rparr>) st)"
definition probe_free_rdma_kthread :: "('d, 'u) probe_st \<Rightarrow> ('d, 'u) probe_st" where
  "probe_free_rdma_kthread st = probe_free_raw_kthread (on_drv (\<lambda>d. d\<lparr>kthread_rdma := axiom_kthread_uninit (kthread_rdma d)\<rparr>) st)"
definition probe_free_rdma :: "'d hw_api \<Rightarrow> ('d, 'u) probe_st \<Rightarrow> ('d, 'u) probe_st" where
  "probe_free_rdma hw st = probe_free_rdma_kthread (rdma_off hw st)"

text \<open>The last part of the probe, from \<open>axiomnet_rdma_init\<close> on, the part from the first thread on, from the receive rings on, and from the rings on.\<close>

definition probe_memory :: "'d hw_api \<Rightarrow> 'd init_env \<Rightarrow> ('d, 'u) probe_st \<Rightarrow> (int \<times> ('d, 'u) probe_st) option" where
  "probe_memory hw env st = do {
     (err, mapped, d) \<leftarrow> axiomnet_rdma_init hw env (ps_drv st);
     let st = st\<lparr>ps_drv := d, ps_live := (if mapped then insert IoMap (ps_live st) else ps_live st)\<rparr>;
     if err \<noteq> 0 then Some (err, probe_free_rdma_kthread st)
     else let st = on_drv (\<lambda>d. d\<lparr>dev_api := hw_enable_irq hw (dev_api d)\<rparr>) st;
              (err, k) = axiom_kthread_init (ie_kthread env 2) (kthread_wtd (ps_drv st));
              st = on_drv (\<lambda>d. d\<lparr>kthread_wtd := k\<rparr>) st in
     if err \<noteq> 0 then Some (err, probe_free_rdma hw st) else Some (0, st) }"

definition probe_threads :: "'d hw_api \<Rightarrow> 'd init_env \<Rightarrow> ('d, 'u) probe_st \<Rightarrow> (int \<times> ('d, 'u) probe_st) option" where
  "probe_threads hw env st =
     (let (err, k) = axiom_kthread_init (ie_kthread env 0) (kthread_raw (ps_drv st));
          st = on_drv (\<lambda>d. d\<lparr>kthread_raw := k\<rparr>) st in
      if err \<noteq> 0 then Some (err, probe_free_rdma_rx_ring st)
      else let (err, k) = axiom_kthread_init (ie_kthread env 1) (kthread_rdma (ps_drv st));
               st = on_drv (\<lambda>d. d\<lparr>kthread_rdma := k\<rparr>) st in
      if err \<noteq> 0 then Some (err, probe_free_raw_kthread st)
      else probe_memory hw env st)"

definition probe_rx_rings :: "'d hw_api \<Rightarrow> 'd init_env \<Rightarrow> ('d, 'u) probe_st \<Rightarrow> (int \<times> ('d, 'u) probe_st) option" where
  "probe_rx_rings hw env st = do {
     (err, d) \<leftarrow> axiomnet_raw_rx_hwring_init env (ps_drv st);
     let st = st\<lparr>ps_drv := d\<rparr>;
     if err \<noteq> 0 then Some (err, probe_free_tx_ring st)
     else do {
       (err, d) \<leftarrow> axiomnet_rdma_rx_hwring_init env (ps_drv st);
       let st = st\<lparr>ps_drv := d\<rparr>;
       if err \<noteq> 0 then Some (err, probe_free_rx_ring st) else probe_threads hw env st } }"

definition probe_rings :: "'d hw_api \<Rightarrow> 'd init_env \<Rightarrow> ('d, 'u) probe_st \<Rightarrow> (int \<times> ('d, 'u) probe_st) option" where
  "probe_rings hw env st =
     (let (err, d) = axiomnet_raw_tx_hwring_init (ps_drv st); st = st\<lparr>ps_drv := d\<rparr> in
      if err \<noteq> 0 then Some (err, probe_free_sysfs st)
      else do {
        (err, d) \<leftarrow> axiomnet_rdma_tx_hwring_init env (ps_drv st);
        let st = st\<lparr>ps_drv := d\<rparr>;
        if err \<noteq> 0 then Some (err, probe_free_sysfs st) else probe_rx_rings hw env st })"

abbreviation (input) AXIOM_RETRY_DELAY_USEC_DEF :: int where "AXIOM_RETRY_DELAY_USEC_DEF \<equiv> 200"
abbreviation (input) AXIOM_WATCHDOG_PERIOD_MSEC_DEF :: int where "AXIOM_WATCHDOG_PERIOD_MSEC_DEF \<equiv> 100"

definition axiomnet_probe :: "'d hw_api \<Rightarrow> 'd init_env \<Rightarrow> 'd \<Rightarrow> ('d, 'u) probe_st \<Rightarrow> (int \<times> ('d, 'u) probe_st) option" where
  "axiomnet_probe hw env dev st =
     (let st = st\<lparr>ps_drv := drvdata_zero dev (user_mem (ps_drv st)) (long_mem (ps_drv st)), ps_sysfs := sysfs_zero\<rparr>;
          (err, dev) = hw_check_version hw dev;
          st = on_drv (\<lambda>d. d\<lparr>dev_api := dev\<rparr>) st in
      if err \<noteq> 0 then Some (err, st)
      else let st = on_drv (\<lambda>d. d\<lparr>dev_api := ie_print env (dev_api d)\<rparr>) st;
               (err, st) = axiomnet_alloc_chrdev env st in
      if err \<noteq> 0 then Some (err, st)
      else let (err, sf, live) = axiom_sysfs_init (ie_sysfs env) (ps_sysfs st) (ps_live st);
               st = st\<lparr>ps_sysfs := sf, ps_live := live\<rparr> in
      if err \<noteq> 0 then Some (err, probe_free_cdev st)
      else probe_rings hw env (on_drv (\<lambda>d. d\<lparr>watchdog_period_msec := AXIOM_RETRY_DELAY_USEC_DEF,
             retry_delay_usec := AXIOM_WATCHDOG_PERIOD_MSEC_DEF\<rparr>) st))"

definition axiomnet_remove :: "'d hw_api \<Rightarrow> ('d, 'u) probe_st \<Rightarrow> int \<times> ('d, 'u) probe_st" where
  "axiomnet_remove hw st =
     (let st = rdma_off hw st;
          st = on_drv (\<lambda>d. d\<lparr>kthread_wtd := axiom_kthread_uninit (kthread_wtd d)\<rparr>) st;
          st = on_drv (\<lambda>d. d\<lparr>kthread_rdma := axiom_kthread_uninit (kthread_rdma d)\<rparr>) st;
          st = on_drv (\<lambda>d. d\<lparr>kthread_raw := axiom_kthread_uninit (kthread_raw d)\<rparr>) st;
          st = on_drv axiomnet_rdma_rx_hwring_release st;
          st = on_drv axiomnet_raw_rx_hwring_release st;
          st = on_drv axiomnet_rdma_tx_hwring_release st in
      (0, axiomnet_destroy_chrdev (sysfs_off st)))"

end
