(* ===== verification/PlatformDrivers.thy ===== *)
theory PlatformDrivers
  imports DriverInit QemuApi
begin

text \<open>
  The platform drivers, which find the NIC, map its registers, request its interrupt and call the common driver:
  \<open>axiom_netdev_arm64.c\<close> for the FPGA, described by the device tree, \<open>axiom_netdev_qemuarm64.c\<close> for the device QEMU emulates,
  and \<open>axiom_netdev_x86.c\<close>, a sketch for a PCI board. The kernel is a record of answers. Mappings made with
  \<open>devm_ioremap_resource\<close> belong to the device and are undone by the kernel.
\<close>

section \<open>Pointers that carry errors\<close>

text \<open>
  The last 4095 addresses stand for error numbers. \<open>PTR_ERR\<close> is a \<open>long\<close>, which the drivers store in an \<open>int\<close>.
\<close>

definition IS_ERR :: "u64 \<Rightarrow> bool" where
  "IS_ERR p \<longleftrightarrow> - 4095 \<le> p"
definition PTR_ERR :: "u64 \<Rightarrow> int" where
  "PTR_ERR p = sint (ucast p :: u32)"

section \<open>The register blocks of the FPGA\<close>

text \<open>
  The device tree: the node a property of the device points to, the resources of a node (an error number and an address),
  the mapping of a resource, and numeric properties of a node (an error number and the value).
\<close>

record of_env =
  oe_phandle :: "string \<Rightarrow> u64"
  oe_resource :: "u64 \<Rightarrow> nat \<Rightarrow> int \<times> u64"
  oe_ioremap :: "u64 \<Rightarrow> u64"
  oe_u32 :: "u64 \<Rightarrow> string \<Rightarrow> int \<times> int"
  oe_verbose :: bool

text \<open>
  The steps all blocks share: resource \<open>i\<close> of the node is looked up and mapped. The result of the mapping is stored even when it is an error; the
  error number returned then is that of the \<^emph>\<open>node\<close>, a valid pointer.
\<close>

definition map_resource :: "of_env \<Rightarrow> u64 \<Rightarrow> nat \<Rightarrow> int \<times> u64 option" where
  "map_resource oe node i =
     (let (err, res) = oe_resource oe node i in
      if err \<noteq> 0 then (err, None)
      else let p = oe_ioremap oe res in if IS_ERR p then (PTR_ERR node, Some p) else (0, Some p))"

definition axiomnet_gpio_init :: "of_env \<Rightarrow> string \<Rightarrow> axi_gpio \<Rightarrow> int \<times> axi_gpio" where
  "axiomnet_gpio_init oe gpio_name gpio =
     (let node = oe_phandle oe gpio_name in
      if IS_ERR node then (PTR_ERR node, gpio)
      else let (err, p) = map_resource oe node 0;
               gpio = (case p of None \<Rightarrow> gpio | Some p \<Rightarrow> gpio\<lparr>gp_base := p\<rparr>) in
      if err \<noteq> 0 then (err, gpio)
      else let (err, dual) = oe_u32 oe node ''xlnx,is-dual'' in
      if err \<noteq> 0 then (err, gpio) else (0, gpio\<lparr>gp_dual := dual\<rparr>))"

definition axiomnet_reg_init :: "of_env \<Rightarrow> string \<Rightarrow> axi_reg \<Rightarrow> int \<times> axi_reg" where
  "axiomnet_reg_init oe reg_name reg =
     (let node = oe_phandle oe reg_name in
      if IS_ERR node then (PTR_ERR node, reg)
      else let (err, p) = map_resource oe node 0 in (err, case p of None \<Rightarrow> reg | Some p \<Rightarrow> reg\<lparr>rg_base := p\<rparr>))"

definition axiomnet_bram_init :: "of_env \<Rightarrow> string \<Rightarrow> axi_bram \<Rightarrow> int \<times> axi_bram" where
  "axiomnet_bram_init oe bram_name bram =
     (let node = oe_phandle oe bram_name in
      if IS_ERR node then (PTR_ERR node, bram)
      else let (err, p) = map_resource oe node 0 in (err, case p of None \<Rightarrow> bram | Some p \<Rightarrow> bram\<lparr>br_base := p\<rparr>))"

definition axiomnet_fifo_init :: "'h mmio \<Rightarrow> of_env \<Rightarrow> string \<Rightarrow> axi_fifo \<Rightarrow> 'h \<Rightarrow> int \<times> axi_fifo \<times> 'h" where
  "axiomnet_fifo_init mm oe fifo_name fifo h =
     (let node = oe_phandle oe fifo_name in
      if IS_ERR node then (PTR_ERR node, fifo, h)
      else let (err, p) = map_resource oe node 0;
               fifo = (case p of None \<Rightarrow> fifo | Some p \<Rightarrow> fifo\<lparr>ff_base := p\<rparr>) in
      if err \<noteq> 0 then (err, fifo, h)
      else let (err, p) = map_resource oe node 1;
               fifo = (case p of None \<Rightarrow> fifo | Some p \<Rightarrow> fifo\<lparr>ff_axi4_base := p\<rparr>) in
      if err \<noteq> 0 then (err, fifo, h)
      else let (err, axi4) = oe_u32 oe node ''xlnx,data-interface-type'' in
      if err \<noteq> 0 then (err, fifo, h)
      else let fifo = fifo\<lparr>ff_axi4 := axi4\<rparr>;
               h = axi_fifo_reset mm fifo h;
               h = (if oe_verbose oe then snd (axi_fifo_rx_occupancy mm fifo (snd (axi_fifo_tx_vacancy mm fifo h))) else h) in
      (0, fifo, h))"

text \<open>
  The tables of \<open>axiomnet_axi_init\<close>: name, place in the structure of registers, and whether the block is mandatory. Their loops differ
  in the test that ends them: the one for the memories has \<open>err & mandatory\<close>, where the others have \<open>err && mandatory\<close>.
\<close>

type_synonym 'a place = "(axiom_dev_regs \<Rightarrow> 'a) \<times> ('a \<Rightarrow> axiom_dev_regs \<Rightarrow> axiom_dev_regs)"

definition reg_to_init :: "(string \<times> axi_reg place \<times> bool) list" where
  "reg_to_init = [(''registers'', (ar_registers, \<lambda>x r. r\<lparr>ar_registers := x\<rparr>), True)]"
definition gpio_to_init :: "(string \<times> axi_gpio place \<times> bool) list" where
  "gpio_to_init = [(''gpio-debug'', (ar_debug, \<lambda>x r. r\<lparr>ar_debug := x\<rparr>), False)]"
definition fifo_to_init :: "(string \<times> axi_fifo place \<times> bool) list" where
  "fifo_to_init =
     [(''fifo-raw-tx'', (ar_fifo_raw_tx, \<lambda>x r. r\<lparr>ar_fifo_raw_tx := x\<rparr>), True),
      (''fifo-raw-rx'', (ar_fifo_raw_rx, \<lambda>x r. r\<lparr>ar_fifo_raw_rx := x\<rparr>), True),
      (''fifo-rdma-tx'', (ar_fifo_rdma_tx, \<lambda>x r. r\<lparr>ar_fifo_rdma_tx := x\<rparr>), True),
      (''fifo-rdma-rx'', (ar_fifo_rdma_rx, \<lambda>x r. r\<lparr>ar_fifo_rdma_rx := x\<rparr>), True)]"
definition bram_to_init :: "(string \<times> axi_bram place \<times> bool) list" where
  "bram_to_init =
     [(''bram-long-buf'', (ar_long_buf, \<lambda>x r. r\<lparr>ar_long_buf := x\<rparr>), True),
      (''bram-routing'', (ar_routing, \<lambda>x r. r\<lparr>ar_routing := x\<rparr>), True)]"

fun init_blocks :: "(int \<Rightarrow> bool \<Rightarrow> bool) \<Rightarrow> (string \<Rightarrow> 'a \<Rightarrow> 'h \<Rightarrow> int \<times> 'a \<times> 'h) \<Rightarrow> (string \<times> 'a place \<times> bool) list \<Rightarrow>
    axiom_dev_regs \<Rightarrow> 'h \<Rightarrow> int \<times> axiom_dev_regs \<times> 'h" where
  "init_blocks stop f [] regs h = (0, regs, h)"
| "init_blocks stop f ((name, (get, put), mandatory) # bs) regs h =
     (let (err, x, h) = f name (get regs) h; regs = put x regs in
      if stop err mandatory then (err, regs, h) else init_blocks stop f bs regs h)"

definition err_and_mandatory :: "int \<Rightarrow> bool \<Rightarrow> bool" where
  "err_and_mandatory err mandatory \<longleftrightarrow> err \<noteq> 0 \<and> mandatory"
definition err_bitand_mandatory :: "int \<Rightarrow> bool \<Rightarrow> bool" where
  "err_bitand_mandatory err mandatory \<longleftrightarrow> err AND of_bool mandatory \<noteq> 0"

definition axiomnet_axi_init :: "'h mmio \<Rightarrow> of_env \<Rightarrow> axiom_dev_regs \<Rightarrow> 'h \<Rightarrow> int \<times> axiom_dev_regs \<times> 'h" where
  "axiomnet_axi_init mm oe regs h =
     (let (err, regs, h) = init_blocks err_and_mandatory (\<lambda>name x h. let (err, x) = axiomnet_reg_init oe name x in (err, x, h)) reg_to_init regs h in
      if err \<noteq> 0 then (err, regs, h)
      else let (err, regs, h) = init_blocks err_and_mandatory (\<lambda>name x h. let (err, x) = axiomnet_gpio_init oe name x in (err, x, h)) gpio_to_init regs h in
      if err \<noteq> 0 then (err, regs, h)
      else let (err, regs, h) = init_blocks err_and_mandatory (axiomnet_fifo_init mm oe) fifo_to_init regs h in
      if err \<noteq> 0 then (err, regs, h)
      else let (err, regs, h) = init_blocks err_bitand_mandatory (\<lambda>name x h. let (err, x) = axiomnet_bram_init oe name x in (err, x, h)) bram_to_init regs h in
      if err \<noteq> 0 then (err, regs, h)
      else let h = axi_reg_write32 mm (ar_registers regs) AXIOMREG_IO_CONTROL (AXIOMREG_CONTROL_RESET OR AXIOMREG_CONTROL_ACK_ENABLE) h;
               h = axi_reg_write32 mm (ar_registers regs) AXIOMREG_IO_CONTROL AXIOMREG_CONTROL_ACK_ENABLE h;
               h = (if oe_verbose oe then snd (axi_reg_read32 mm (ar_registers regs) AXIOMREG_IO_CONTROL h) else h) in
      (0, regs, h))"

text \<open>The structure as \<open>kzalloc\<close> returns it.\<close>

definition regs_zero :: axiom_dev_regs where
  "regs_zero = (let f = \<lparr>ff_base = 0, ff_axi4_base = 0, ff_axi4 = 0\<rparr> in
     \<lparr>ar_registers = \<lparr>rg_base = 0\<rparr>, ar_fifo_raw_tx = f, ar_fifo_raw_rx = f, ar_fifo_rdma_tx = f, ar_fifo_rdma_rx = f,
      ar_long_buf = \<lparr>br_base = 0\<rparr>, ar_routing = \<lparr>br_base = 0\<rparr>, ar_debug = \<lparr>gp_base = 0, gp_dual = 0\<rparr>\<rparr>)"

section \<open>Probe and remove\<close>

text \<open>
  What a platform driver holds besides the common driver: its data, the device of the hardware layer and the interrupt
  line. \<open>pe_early_irq\<close> says that the interrupt line, which is shared, fires after \<open>request_irq\<close> and before the
  common driver has set its device; the handler then follows a \<open>NULL\<close> pointer. \<open>pe_vmalloc\<close> is the answer to \<open>axiom_hw_dev_alloc\<close>.
\<close>

datatype plat_res = PlatData | HwDev | IrqLine

record ('d, 'u) plat_st =
  pl_probe :: "('d, 'u) probe_st"
  pl_live :: "plat_res set"

record 'd plat_env =
  pe_kzalloc :: bool
  pe_vmalloc :: bool
  pe_request_irq :: int
  pe_early_irq :: bool
  pe_common :: "'d init_env"

definition pl_take :: "plat_res \<Rightarrow> ('d, 'u) plat_st \<Rightarrow> ('d, 'u) plat_st" where
  "pl_take r st = st\<lparr>pl_live := insert r (pl_live st)\<rparr>"
definition pl_drop :: "plat_res \<Rightarrow> ('d, 'u) plat_st \<Rightarrow> ('d, 'u) plat_st" where
  "pl_drop r st = st\<lparr>pl_live := pl_live st - {r}\<rparr>"

definition axiomnet_arm_irq :: "'d hw_api \<Rightarrow> ('d, 'u) drvdata \<Rightarrow> (bool \<times> ('d, 'u) drvdata) option" where
  "axiomnet_arm_irq hw d = do { d \<leftarrow> axiomnet_irqhandler hw d; Some (True, d) }"

text \<open>The labels at the end of the probe functions.\<close>

definition arm_free_local :: "('d, 'u) plat_st \<Rightarrow> ('d, 'u) plat_st" where
  "arm_free_local st = pl_drop PlatData st"
definition arm_free_hw_dev :: "('d, 'u) plat_st \<Rightarrow> ('d, 'u) plat_st" where
  "arm_free_hw_dev st = arm_free_local (pl_drop HwDev st)"
definition arm_free_irq :: "('d, 'u) plat_st \<Rightarrow> ('d, 'u) plat_st" where
  "arm_free_irq st = arm_free_hw_dev (pl_drop IrqLine st)"

text \<open>The probe from the allocation of the hardware device on, which the two device tree drivers have in the same words.\<close>

definition arm_probe_device :: "'d hw_api \<Rightarrow> 'd option \<Rightarrow> 'd plat_env \<Rightarrow> ('d, 'u) plat_st \<Rightarrow> (int \<times> ('d, 'u) plat_st) option" where
  "arm_probe_device hw alloc env st = do {
     dev \<leftarrow> alloc;
     let st = pl_take HwDev st;
     let dev = hw_disable_irq hw dev;
     if pe_request_irq env \<noteq> 0 then Some (- EIO, arm_free_hw_dev st)
     else do {
       let st = pl_take IrqLine st;
       if pe_early_irq env then None
       else do {
         (err, ps) \<leftarrow> axiomnet_probe hw (pe_common env) dev (pl_probe st);
         let st = st\<lparr>pl_probe := ps\<rparr>;
         if err \<noteq> 0 then Some (err, arm_free_irq st) else Some (0, st) } } }"

definition axiomnet_arm_probe :: "'h mmio \<Rightarrow> of_env \<Rightarrow> 'h arm64_dev plat_env \<Rightarrow> 'h \<Rightarrow> ('h arm64_dev, 'u) plat_st \<Rightarrow>
    (int \<times> axiom_dev_regs \<times> ('h arm64_dev, 'u) plat_st) option" where
  "axiomnet_arm_probe mm oe env h st =
     (if \<not> pe_kzalloc env then Some (- ENOMEM, regs_zero, st)
      else let st = pl_take PlatData st; (err, regs, h) = axiomnet_axi_init mm oe regs_zero h in
      if err \<noteq> 0 then Some (err, regs, arm_free_local st)
      else do {
        (err, st) \<leftarrow> arm_probe_device (arm64_hw mm regs) (axiom_hw_dev_alloc (pe_vmalloc env) h) env st;
        Some (err, regs, st) })"

definition axiomnet_arm_remove :: "'d hw_api \<Rightarrow> ('d, 'u) plat_st \<Rightarrow> int \<times> ('d, 'u) plat_st" where
  "axiomnet_arm_remove hw st =
     (let (err, ps) = axiomnet_remove hw (pl_probe st) in
      (0, pl_drop PlatData (pl_drop HwDev (pl_drop IrqLine (st\<lparr>pl_probe := ps\<rparr>)))))"

text \<open>The driver for QEMU: one resource is mapped, and the error number is that of the mapping.\<close>

definition qemu_arm_probe :: "'h qemu_io \<Rightarrow> raw32_member \<Rightarrow> u64 \<Rightarrow> 'h qemu_dev plat_env \<Rightarrow> 'h \<Rightarrow> ('h qemu_dev, 'u) plat_st \<Rightarrow>
    (int \<times> ('h qemu_dev, 'u) plat_st) option" where
  "qemu_arm_probe io m32 vregs env h st =
     (if \<not> pe_kzalloc env then Some (- ENOMEM, st)
      else let st = pl_take PlatData st in
      if IS_ERR vregs then Some (PTR_ERR vregs, arm_free_local st)
      else arm_probe_device (qemu_hw io vregs m32) (qemu_hw_dev_alloc (pe_vmalloc env) h) env st)"

definition qemu_arm_remove :: "'d hw_api \<Rightarrow> ('d, 'u) plat_st \<Rightarrow> int \<times> ('d, 'u) plat_st" where
  "qemu_arm_remove hw st =
     (let (err, ps) = axiomnet_remove hw (pl_probe st) in
      (0, pl_drop PlatData (pl_drop HwDev (pl_drop IrqLine (st\<lparr>pl_probe := ps\<rparr>)))))"

definition qemu_arm_irq :: "'d hw_api \<Rightarrow> ('d, 'u) drvdata \<Rightarrow> (bool \<times> ('d, 'u) drvdata) option" where
  "qemu_arm_irq hw d = do { d \<leftarrow> axiomnet_irqhandler hw d; Some (True, d) }"

text \<open>
  The driver for x86, over any hardware layer: no layer for it exists. Registers are not mapped, the interrupt is not requested, and
  the labels \<open>free_irq\<close> and \<open>free_local\<close> both release the driver's data only.
\<close>

definition axiomnet_x86_irq :: "'d hw_api \<Rightarrow> ('d, 'u) drvdata \<Rightarrow> (bool \<times> ('d, 'u) drvdata) option" where
  "axiomnet_x86_irq hw d = do { d \<leftarrow> axiomnet_irqhandler hw d; Some (True, d) }"

definition x86_free_local :: "('d, 'u) plat_st \<Rightarrow> ('d, 'u) plat_st" where
  "x86_free_local st = pl_drop PlatData st"

definition axiomnet_x86_probe :: "'d hw_api \<Rightarrow> 'd option \<Rightarrow> 'd plat_env \<Rightarrow> ('d, 'u) plat_st \<Rightarrow> (int \<times> ('d, 'u) plat_st) option" where
  "axiomnet_x86_probe hw alloc env st =
     (if \<not> pe_kzalloc env then Some (- ENOMEM, st)
      else let st = pl_take PlatData st in
      case alloc of
        None \<Rightarrow> Some (- ENOMEM, x86_free_local st)
      | Some dev \<Rightarrow> do {
          let st = pl_take HwDev st;
          (err, ps) \<leftarrow> axiomnet_probe hw (pe_common env) (hw_disable_irq hw dev) (pl_probe st);
          let st = st\<lparr>pl_probe := ps\<rparr>;
          if err \<noteq> 0 then Some (err, x86_free_local st) else Some (0, st) })"

definition axiomnet_x86_remove :: "'d hw_api \<Rightarrow> ('d, 'u) plat_st \<Rightarrow> ('d, 'u) plat_st" where
  "axiomnet_x86_remove hw st =
     (let (err, ps) = axiomnet_remove hw (pl_probe st) in pl_drop PlatData (pl_drop HwDev (st\<lparr>pl_probe := ps\<rparr>)))"

section \<open>Loading and unloading\<close>

text \<open>
  The module: the common part, then the registration with the platform or PCI bus, whose answer is \<open>reg\<close>; the boolean
  of the state says whether the driver is registered.
\<close>

definition axiomnet_arm_init :: "'d init_env \<Rightarrow> int \<Rightarrow> resource set \<times> bool \<Rightarrow> int \<times> resource set \<times> bool" where
  "axiomnet_arm_init env reg st =
     (let (err, live) = axiomnet_init env (fst st) in
      if err \<noteq> 0 then (err, live, snd st)
      else if reg \<noteq> 0 then (reg, axiomnet_cleanup live, snd st)
      else (0, live, True))"

definition axiomnet_arm_cleanup :: "resource set \<times> bool \<Rightarrow> resource set \<times> bool" where
  "axiomnet_arm_cleanup st = (axiomnet_cleanup (fst st), False)"

definition qemu_arm_init :: "'d init_env \<Rightarrow> int \<Rightarrow> resource set \<times> bool \<Rightarrow> int \<times> resource set \<times> bool" where
  "qemu_arm_init env reg st =
     (let (err, live) = axiomnet_init env (fst st) in
      if err \<noteq> 0 then (err, live, snd st)
      else if reg \<noteq> 0 then (reg, axiomnet_cleanup live, snd st)
      else (0, live, True))"

definition qemu_arm_cleanup :: "resource set \<times> bool \<Rightarrow> resource set \<times> bool" where
  "qemu_arm_cleanup st = (axiomnet_cleanup (fst st), False)"

definition axiomnet_x86_init :: "'d init_env \<Rightarrow> int \<Rightarrow> resource set \<times> bool \<Rightarrow> int \<times> resource set \<times> bool" where
  "axiomnet_x86_init env reg st =
     (let (err, live) = axiomnet_init env (fst st) in
      if err \<noteq> 0 then (err, live, snd st)
      else if reg \<noteq> 0 then (reg, axiomnet_cleanup live, snd st)
      else (0, live, True))"

definition axiomnet_x86_cleanup :: "resource set \<times> bool \<Rightarrow> resource set \<times> bool" where
  "axiomnet_x86_cleanup st = (axiomnet_cleanup (fst st), False)"

end
