(* ===== verification/InitProps.thy ===== *)
theory InitProps
  imports DriverInit
begin

text \<open>
  The properties of initialisation: a probe that succeeds establishes the invariants the other theories start
  from; a probe that fails at any step, and a removal, give back everything the driver held.
\<close>

text \<open>A kernel that grants every request of the probe.\<close>

definition grants :: "'d init_env \<Rightarrow> bool" where
  "grants env \<longleftrightarrow> (\<forall>i. ie_node env i \<ge> 0) \<and> se_root (ie_sysfs env) \<ge> 0 \<and> (\<forall>k. se_kobj (ie_sysfs env) k \<and> se_groups (ie_sysfs env) k = 0) \<and>
     (\<forall>i k. ie_mok env i k) \<and> (\<forall>i. ie_kcalloc env i \<noteq> None) \<and> (\<forall>i. \<exists>p. ie_kthread env i = Inr p) \<and> ie_app env \<noteq> None \<and>
     (\<exists>b n. ie_nic env = Some (b, n) \<and> of_nat (2 * LONG_BUFS_SIZE) \<le> n)"

lemma not_grants:
  "ie_kthread env i = Inl e \<Longrightarrow> \<not> grants env"
  "ie_nic env = Some (b, n) \<Longrightarrow> n < of_nat (2 * LONG_BUFS_SIZE) \<Longrightarrow> \<not> grants env"
  "ie_node env j < 0 \<Longrightarrow> \<not> grants env"
  unfolding grants_def by (metis Inl_Inr_False) (auto simp: not_le)

section \<open>Queues and loops\<close>

definition queue_null :: "'m sw_queue \<Rightarrow> bool" where
  "queue_null q \<longleftrightarrow> sq_desc q = None \<and> q_head (sq_evi q) = None \<and> q_tail (sq_evi q) = None \<and> q_next (sq_evi q) = None"

lemma queue_release_null [simp]: "queue_null (queue_release q)"
  by (simp add: queue_null_def queue_release_def eviq_release_def)

lemma eviq_init_no_queues: "mok 2 \<Longrightarrow> eviq_init mok junk q 0 n = eviq_init (\<lambda>_. True) junk q 0 n"
  by (simp add: eviq_init_def eviq_init_heads_def eviq_malloc_def)

lemma eviq_init_total:
  assumes "0 < n" "n < 32768"
  shows "\<exists>r q'. eviq_init mok junk q (int m) (int n) = Some (r, q') \<and>
    (r = 0 \<and> eviq_rep q' [0..<n] (replicate m []) {} \<or>
     r = - 1 \<and> q_head q' = None \<and> q_tail q' = None \<and> q_next q' = None \<and> \<not> (mok 0 \<and> mok 1 \<and> mok 2))"
proof (cases "m = 0")
  case True
  show ?thesis
  proof (cases "mok 2")
    case True
    from eviq_init_rep [OF assms, of "\<lambda>_. True" junk q 0] \<open>m = 0\<close> show ?thesis
      by (auto simp: eviq_init_no_queues [of mok, OF True])
  next
    case False
    with \<open>m = 0\<close> show ?thesis by (simp add: eviq_init_def eviq_init_heads_def eviq_malloc_def eviq_release_def)
  qed
next
  case False
  then show ?thesis using eviq_init_rep [OF assms, of mok junk q m] eviq_init_fail [of mok m junk q "int n"] by blast
qed

lemma queue_init_cases:
  assumes "0 < n" "n < 32768" and "sq_desc q = None"
  shows "\<exists>r q'. queue_init env i zero m n q = Some (r, q') \<and>
    (r = 0 \<and> swq_rep q' [0..<n] (replicate m []) {} (replicate n zero) \<or> r = - ENOMEM \<and> queue_null q' \<and> \<not> grants env)"
proof -
  obtain r e where e: "eviq_init (ie_mok env i) (ie_junk env i) (sq_evi q) (int m) (int n) = Some (r, e)"
    "r = 0 \<and> eviq_rep e [0..<n] (replicate m []) {} \<or>
     r = - 1 \<and> q_head e = None \<and> q_tail e = None \<and> q_next e = None \<and> \<not> (ie_mok env i 0 \<and> ie_mok env i 1 \<and> ie_mok env i 2)"
    using eviq_init_total [OF assms(1,2)] by blast
  then show ?thesis using assms(3)
    by (cases "ie_kcalloc env i") (auto simp: grants_def queue_init_def queue_null_def eviq_release_def swq_rep_def)
qed

lemma upd_loop_part:
  "a \<le> b \<Longrightarrow> b \<le> length xs \<Longrightarrow>
   upd_loop f [a..<b] xs = Some (take a xs @ map (\<lambda>i. f i (xs ! i)) [a..<b] @ drop b xs)"
proof (induction "b - a" arbitrary: a xs)
  case 0
  then show ?case by simp
next
  case (Suc k)
  then have ab: "a < b" "a < length xs" by auto
  then have "upd_loop f [a..<b] xs = upd_loop f [Suc a..<b] (xs[a := f a (xs ! a)])" by (simp add: upt_conv_Cons)
  also have "\<dots> = Some (take (Suc a) (xs[a := f a (xs ! a)]) @ map (\<lambda>i. f i (xs[a := f a (xs ! a)] ! i)) [Suc a..<b] @ drop b xs)"
    using Suc ab by simp
  also have "\<dots> = Some (take a xs @ map (\<lambda>i. f i (xs ! i)) [a..<b] @ drop b xs)"
    using ab by (simp add: take_Suc_conv_app_nth upt_conv_Cons)
  finally show ?case .
qed

lemma upd_loop_replicate: "upd_loop f [0..<n] (replicate n z) = Some (map (\<lambda>i. f i z) [0..<n])"
  using upd_loop_part [of 0 n "replicate n z" f] by simp

lemma long_rx_bufs_loop_part:
  "a \<le> b \<Longrightarrow> b \<le> length (long_rxbuf_lut d) \<Longrightarrow>
   \<exists>v. long_rx_bufs_loop hw [a..<b] d =
     Some (d\<lparr>long_rxbuf_lut := take a (long_rxbuf_lut d) @ map (long_rx_buf d) [a..<b] @ drop b (long_rxbuf_lut d), dev_api := v\<rparr>)"
proof (induction "b - a" arbitrary: a d)
  case 0
  then show ?case by (auto intro: exI [of _ "dev_api d"])
next
  case (Suc k)
  let ?x = "long_rx_buf d a"
  let ?d = "d\<lparr>long_rxbuf_lut := (long_rxbuf_lut d)[a := ?x], dev_api := hw_set_long_buf hw (dev_api d) (int a) (lut_buf_hw ?x)\<rparr>"
  from Suc have ab: "a < b" "a < length (long_rxbuf_lut d)" by auto
  have same: "long_rx_buf ?d = long_rx_buf d" by (simp add: long_rx_buf_def fun_eq_iff)
  have "long_rx_bufs_loop hw [a..<b] d = long_rx_bufs_loop hw [Suc a..<b] ?d" using ab by (simp add: upt_conv_Cons)
  with Suc.hyps(1) [of "Suc a" ?d] Suc ab same show ?case
    by (simp add: take_Suc_conv_app_nth upt_conv_Cons)
qed

section \<open>The rings\<close>

definition status_table :: "rdma_status list" where
  "status_table = map (\<lambda>i. rdma_status_init i rdma_status_zero) [0..<AXIOM_MSG_ID_NUM]"

lemma status_table_ok: "rdma_table {} status_table"
  by (simp add: rdma_table_def status_table_def rdma_status_init_def rdma_in_flight_def)

text \<open>What a ring initialisation does: it fails with everything it has released, or its queues are ready and empty.\<close>

lemma rdma_tx_ring_cases:
  assumes "queue_null (rdma_queue d)" "queue_null (long_tx_queue d)"
  obtains (failed) r q lq p where "axiomnet_rdma_tx_hwring_init env d =
      Some (r, d\<lparr>rdma_port := port_init, rdma_queue := q, long_tx_port := p, long_tx_queue := lq\<rparr>)"
      "r \<noteq> 0" "queue_null q" "queue_null lq" "\<not> grants env"
    | (ready) q lq where "axiomnet_rdma_tx_hwring_init env d =
      Some (0, d\<lparr>rdma_port := port_init, rdma_queue := q, long_tx_port := port_init, long_tx_queue := lq\<rparr>)"
      "swq_rep q [0..<256] [] {} status_table" "swq_rep lq [0..<32] [] {} (replicate 32 long_msg_zero)"
proof -
  from assms have null: "sq_desc (rdma_queue d) = None" "sq_desc (long_tx_queue d) = None" by (simp_all add: queue_null_def)
  obtain r q where q: "queue_init env 1 rdma_status_zero 0 256 (rdma_queue d) = Some (r, q)"
    "r = 0 \<and> swq_rep q [0..<256] (replicate 0 []) {} (replicate 256 rdma_status_zero) \<or> r = - ENOMEM \<and> queue_null q \<and> \<not> grants env"
    using queue_init_cases [of 256 "rdma_queue d" env 1 rdma_status_zero 0] null(1) by auto
  obtain r' lq where lq: "queue_init env 2 long_msg_zero 0 32 (long_tx_queue d) = Some (r', lq)"
    "r' = 0 \<and> swq_rep lq [0..<32] (replicate 0 []) {} (replicate 32 long_msg_zero) \<or> r' = - ENOMEM \<and> queue_null lq \<and> \<not> grants env"
    using queue_init_cases [of 32 "long_tx_queue d" env 2 long_msg_zero 0] null(2) by auto
  note defs = axiomnet_rdma_tx_hwring_init_def axiomnet_long_queue_init_def upd_loop_replicate
  show thesis
  proof (cases "r = 0")
    case False
    with q assms(2) show thesis
      by (intro failed [where r = r and q = q and p = "long_tx_port d" and lq = "long_tx_queue d"]) (simp_all add: defs)
  next
    case True
    with q(2) have rep: "swq_rep q [0..<256] [] {} (replicate 256 rdma_status_zero)" by (simp add: ENOMEM_def)
    then have desc: "sq_desc q = Some (replicate 256 rdma_status_zero)" by (simp add: swq_rep_def)
    show thesis
    proof (cases "r' = 0")
      case r': True
      with lq(2) have "swq_rep lq [0..<32] [] {} (replicate 32 long_msg_zero)" by (simp add: ENOMEM_def)
      moreover have "swq_rep (q\<lparr>sq_desc := Some status_table\<rparr>) [0..<256] [] {} status_table"
        using rep by (simp add: swq_rep_def status_table_def)
      ultimately show thesis using True r' q(1) lq(1) desc
        by (intro ready [where q = "q\<lparr>sq_desc := Some status_table\<rparr>" and lq = lq]) (simp_all add: defs status_table_def)
    next
      case False
      with True q(1) lq desc show thesis
        by (intro failed [where r = r' and q = "queue_release (q\<lparr>sq_desc := Some status_table\<rparr>)" and p = port_init and lq = lq]) (simp_all add: defs status_table_def)
    qed
  qed
qed

lemma raw_rx_ring_cases:
  assumes "queue_null (raw_rx_queue d)"
  shows "\<exists>r q. axiomnet_raw_rx_hwring_init env d = Some (r, d\<lparr>raw_rx_ports := replicate 7 port_init, raw_rx_queue := q\<rparr>) \<and>
      (r = 0 \<and> swq_rep q [0..<1792] (replicate 7 []) {} (replicate 1792 raw_msg_zero) \<or> r \<noteq> 0 \<and> queue_null q \<and> \<not> grants env)"
  using queue_init_cases [of 1792 "raw_rx_queue d" env 0 raw_msg_zero 7] assms
  by (fastforce simp: axiomnet_raw_rx_hwring_init_def ENOMEM_def queue_null_def)

lemma rdma_rx_ring_cases:
  assumes "queue_null (long_rx_queue d)"
  shows "\<exists>r q. axiomnet_rdma_rx_hwring_init env d = Some (r, d\<lparr>long_rx_ports := replicate 7 port_init, long_rx_queue := q\<rparr>) \<and>
      (r = 0 \<and> swq_rep q [0..<32] (replicate 7 []) {} (replicate 32 long_msg_zero) \<or> r \<noteq> 0 \<and> queue_null q \<and> \<not> grants env)"
  using queue_init_cases [of 32 "long_rx_queue d" env 3 long_msg_zero 7] assms
  by (fastforce simp: axiomnet_rdma_rx_hwring_init_def axiomnet_long_queue_init_def ENOMEM_def queue_null_def)

section \<open>The memory of the NIC\<close>

text \<open>
  The layout: the RDMA zone, then 32 receive buffers, then 32 transmit buffers of 64 KiB each, in the
  address space of the NIC and in the kernel's mapping of the buffers.
\<close>

definition long_layout :: "('d, 'u) drvdata \<Rightarrow> bool" where
  "long_layout d \<longleftrightarrow> long_rxbuf_lut d = map (long_rx_buf d) [0..<32] \<and>
     sq_desc (long_tx_queue d) = Some (map (\<lambda>i. long_tx_buf d i long_msg_zero) [0..<32]) \<and>
     long_rx_vaddr d = long_vaddr d \<and> long_tx_vaddr d = long_vaddr d + of_nat LONG_BUFS_SIZE \<and>
     long_size d = of_nat (2 * LONG_BUFS_SIZE) \<and> dma_paddr d = rdma_paddr d \<and> dma_size d = rdma_size d + long_size d"

definition rdma_init_frame :: "('d, 'u) drvdata \<Rightarrow> ('d, 'u) drvdata \<Rightarrow> bool" where
  "rdma_init_frame d d' \<longleftrightarrow> d' = d\<lparr>dev_api := dev_api d', dma_paddr := dma_paddr d', dma_size := dma_size d', rdma_paddr := rdma_paddr d',
     rdma_size := rdma_size d', long_paddr := long_paddr d', long_vaddr := long_vaddr d', long_rx_vaddr := long_rx_vaddr d',
     long_tx_vaddr := long_tx_vaddr d', long_size := long_size d', long_rxbuf_lut := long_rxbuf_lut d',
     long_tx_queue := (long_tx_queue d)\<lparr>sq_desc := sq_desc (long_tx_queue d')\<rparr>\<rparr>"

lemma sq_desc_update_eq: "q = p\<lparr>sq_desc := y\<rparr> \<Longrightarrow> q\<lparr>sq_desc := x\<rparr> = p\<lparr>sq_desc := x\<rparr>"
  by (cases p; cases q) simp

lemma rdma_init_frame_step:
  "rdma_init_frame d d1 \<Longrightarrow>
   rdma_init_frame d (d1\<lparr>long_rxbuf_lut := l, dev_api := v, long_tx_queue := (long_tx_queue d1)\<lparr>sq_desc := x\<rparr>\<rparr>)"
  unfolding rdma_init_frame_def by (cases d; cases d1) (simp, erule sq_desc_update_eq)

lemma rdma_init_cases:
  assumes "sq_desc (long_tx_queue d) = Some (replicate 32 long_msg_zero)" and "length (long_rxbuf_lut d) = 32"
  shows "\<exists>r b d'. axiomnet_rdma_init hw env d = Some (r, b, d') \<and> rdma_init_frame d d' \<and> (r \<noteq> 0 \<and> \<not> b \<and> \<not> grants env \<or> r = 0 \<and> long_layout d')"
proof (cases "ie_app env")
  case None
  with assms(1) show ?thesis by (auto simp: axiomnet_rdma_init_def rdma_init_frame_def EFAULT_def grants_def)
next
  case (Some app)
  obtain ab as where app: "app = (ab, as)" by (cases app)
  show ?thesis
  proof (cases "ie_nic env")
    case None
    with Some app assms(1) show ?thesis by (auto simp: axiomnet_rdma_init_def rdma_init_frame_def EFAULT_def grants_def)
  next
    case (Some nic)
    obtain nb ns where nic: "nic = (nb, ns)" by (cases nic)
    let ?ls = "of_nat (2 * LONG_BUFS_SIZE) :: u64"
    let ?d = "d\<lparr>rdma_paddr := ab, rdma_size := as, long_paddr := nb, long_size := ?ls, dma_paddr := ab, dma_size := as + ?ls\<rparr>"
    let ?va = "ie_ioremap env nb ?ls"
    let ?d2 = "?d\<lparr>long_vaddr := ?va, long_rx_vaddr := ?va, long_tx_vaddr := ?va + of_nat LONG_BUFS_SIZE\<rparr>"
    let ?d3 = "?d2\<lparr>dev_api := hw_set_rdma_zone hw (dev_api d) ab (ab + (as + ?ls) - 1)\<rparr>"
    note unf = axiomnet_rdma_init_def \<open>ie_app env = Some app\<close> Some app nic option.case prod.case Let_def
    show ?thesis
    proof (cases "?ls > ns")
      case True
      then show ?thesis unfolding unf using not_grants(2) [OF Some [unfolded nic]]
        by (auto simp: rdma_init_frame_def EFAULT_def assms(1))
    next
      case False
      define d3 where "d3 = ?d3"
      have run: "axiomnet_rdma_init hw env d = do {
           d \<leftarrow> long_rx_bufs_loop hw [0..<32] d3;
           ds \<leftarrow> sq_desc (long_tx_queue d);
           ds \<leftarrow> upd_loop (long_tx_buf d) [0..<32] ds;
           Some (0, ?va \<noteq> 0, d\<lparr>long_tx_queue := (long_tx_queue d)\<lparr>sq_desc := Some ds\<rparr>\<rparr>) }"
        unfolding unf d3_def using False by simp
      have d3: "length (long_rxbuf_lut d3) = 32" "sq_desc (long_tx_queue d3) = Some (replicate 32 long_msg_zero)"
        "long_rx_vaddr d3 = long_vaddr d3" "long_tx_vaddr d3 = long_vaddr d3 + of_nat LONG_BUFS_SIZE" "long_size d3 = ?ls"
        "dma_paddr d3 = rdma_paddr d3" "dma_size d3 = rdma_size d3 + ?ls" using assms by (simp_all add: d3_def)
      have fr: "rdma_init_frame d d3" by (simp add: d3_def rdma_init_frame_def assms(1))
      obtain v where lp: "long_rx_bufs_loop hw [0..<32] d3 = Some (d3\<lparr>long_rxbuf_lut := map (long_rx_buf d3) [0..<32], dev_api := v\<rparr>)"
        using long_rx_bufs_loop_part [of 0 32 d3 hw] d3(1) by auto
      define d4 where "d4 = d3\<lparr>long_rxbuf_lut := map (long_rx_buf d3) [0..<32], dev_api := v\<rparr>"
      define d5 where "d5 = d4\<lparr>long_tx_queue := (long_tx_queue d4)\<lparr>sq_desc := Some (map (\<lambda>i. long_tx_buf d4 i long_msg_zero) [0..<32])\<rparr>\<rparr>"
      have "axiomnet_rdma_init hw env d = Some (0, ?va \<noteq> 0, d5)"
        using run lp d3(2) by (simp add: d4_def d5_def upd_loop_replicate del: upt_rec_numeral)
      moreover have "long_rx_buf d5 = long_rx_buf d3" "long_tx_buf d5 = long_tx_buf d4"
        by (simp_all add: d5_def d4_def long_rx_buf_def long_tx_buf_def fun_eq_iff)
      then have "long_layout d5" using d3(3-7) by (simp add: long_layout_def d5_def d4_def del: upt_rec_numeral)
      moreover have "rdma_init_frame d d5" using rdma_init_frame_step [OF fr] by (simp add: d5_def d4_def del: upt_rec_numeral)
      ultimately show ?thesis by blast
    qed
  qed
qed

section \<open>Unwinding\<close>

abbreviation "dev_nodes \<equiv> {DevNode 0, DevNode 1, DevNode 2, DevNode 3}"

definition holds_nothing :: "('d, 'u) drvdata \<Rightarrow> bool" where
  "holds_nothing d \<longleftrightarrow> queue_null (raw_rx_queue d) \<and> queue_null (rdma_queue d) \<and> queue_null (long_tx_queue d) \<and>
     queue_null (long_rx_queue d) \<and> \<not> kt_task (kthread_raw d) \<and> \<not> kt_task (kthread_rdma d) \<and> \<not> kt_task (kthread_wtd d)"

text \<open>The resources of a probe under way: the nodes, and the sysfs tree if there is one.\<close>

definition probing :: "resource set \<Rightarrow> ('d, 'u) probe_st \<Rightarrow> bool" where
  "probing live st \<longleftrightarrow> live \<inter> (dev_nodes \<union> sys_tree UNIV \<union> {IoMap}) = {} \<and>
     ps_live st = live \<union> dev_nodes \<union> (if sf_dev (ps_sysfs st) = 0 then {} else sys_tree UNIV)"

lemma probing_drv [simp]: "probing live (on_drv f st) = probing live st" "probing live (st\<lparr>ps_drv := d\<rparr>) = probing live st"
  by (simp_all add: probing_def on_drv_def)

lemma on_drv_simps [simp]:
  "ps_drv (on_drv f st) = f (ps_drv st)" "ps_live (on_drv f st) = ps_live st" "ps_sysfs (on_drv f st) = ps_sysfs st"
  "ps_chrdev (on_drv f st) = ps_chrdev st"
  by (simp_all add: on_drv_def)

lemma free_sysfs_all:
  assumes "probing live st"
  shows "ps_live (probe_free_sysfs st) = live" "ps_drv (probe_free_sysfs st) = ps_drv st" "\<not> ps_chrdev (probe_free_sysfs st)"
  using assms by (auto simp: probing_def probe_free_sysfs_def probe_free_cdev_def sysfs_off_def sysfs_uninit_eq
      axiomnet_destroy_chrdev_def device_destroy_def sys_tree_def)

text \<open>From whichever label the probe leaves, everything is given back.\<close>

definition gave_back :: "resource set \<Rightarrow> ('d, 'u) probe_st \<Rightarrow> bool" where
  "gave_back live st \<longleftrightarrow> ps_live st = live \<and> \<not> ps_chrdev st \<and> holds_nothing (ps_drv st)"

lemmas release_defs = axiomnet_rdma_tx_hwring_release_def axiomnet_raw_rx_hwring_release_def axiomnet_rdma_rx_hwring_release_def
  axiomnet_long_queue_release_def axiom_kthread_uninit_def axiomnet_rdma_release_def

lemma free_labels:
  assumes "probing live st" and "\<not> kt_task (kthread_wtd (ps_drv st))"
  shows "holds_nothing (ps_drv st) \<Longrightarrow> gave_back live (probe_free_sysfs st)"
    and "queue_null (raw_rx_queue (ps_drv st)) \<Longrightarrow> queue_null (long_rx_queue (ps_drv st)) \<Longrightarrow> \<not> kt_task (kthread_raw (ps_drv st)) \<Longrightarrow>
      \<not> kt_task (kthread_rdma (ps_drv st)) \<Longrightarrow> gave_back live (probe_free_tx_ring st)"
    and "queue_null (long_rx_queue (ps_drv st)) \<Longrightarrow> \<not> kt_task (kthread_raw (ps_drv st)) \<Longrightarrow>
      \<not> kt_task (kthread_rdma (ps_drv st)) \<Longrightarrow> gave_back live (probe_free_rx_ring st)"
    and "\<not> kt_task (kthread_raw (ps_drv st)) \<Longrightarrow> \<not> kt_task (kthread_rdma (ps_drv st)) \<Longrightarrow> gave_back live (probe_free_rdma_rx_ring st)"
    and "\<not> kt_task (kthread_rdma (ps_drv st)) \<Longrightarrow> gave_back live (probe_free_raw_kthread st)"
    and "gave_back live (probe_free_rdma_kthread st)"
  using assms
  by (simp_all add: gave_back_def holds_nothing_def free_sysfs_all probe_free_tx_ring_def probe_free_rx_ring_def
      probe_free_rdma_rx_ring_def probe_free_raw_kthread_def probe_free_rdma_kthread_def release_defs)

lemma free_rdma_label:
  assumes "probing live st" and "ps_live st' = ps_live st \<union> m" "m \<subseteq> {IoMap}" and "ps_sysfs st' = ps_sysfs st"
    and "\<not> kt_task (kthread_wtd (ps_drv st'))"
  shows "gave_back live (probe_free_rdma hw st')"
proof -
  have "probing live (rdma_off hw st')"
    using assms(1-4) by (auto simp: probing_def rdma_off_def sys_tree_def)
  then show ?thesis unfolding probe_free_rdma_def using assms(5)
    by (intro free_labels(6)) (simp_all add: rdma_off_def release_defs)
qed

section \<open>Success\<close>

definition rings_ready :: "long_msg list \<Rightarrow> ('d, 'u) drvdata \<Rightarrow> bool" where
  "rings_ready lms d \<longleftrightarrow>
     swq_rep (raw_rx_queue d) [0..<1792] (replicate 7 []) {} (replicate 1792 raw_msg_zero) \<and> raw_rx_ports d = replicate 7 port_init \<and>
     swq_rep (rdma_queue d) [0..<256] [] {} status_table \<and> rdma_port d = port_init \<and> raw_tx_port d = port_init \<and>
     swq_rep (long_tx_queue d) [0..<32] [] {} lms \<and> long_tx_port d = port_init \<and>
     swq_rep (long_rx_queue d) [0..<32] (replicate 7 []) {} (replicate 32 long_msg_zero) \<and> long_rx_ports d = replicate 7 port_init"

text \<open>
  A driver ready for use: the invariants of all message paths hold with no slot owned by anybody, no file is open and no port
  bound, all queues are empty and all slots free, the mutexes are free, the threads run, and the memory is laid out.
\<close>

definition driver_ready :: "('d, 'u) drvdata \<Rightarrow> bool" where
  "driver_ready d \<longleftrightarrow> raw_inv d {} \<and> nic_inv d {} {} {} \<and> files_inv Map.empty d \<and>
     (\<forall>p < 7. raw_pkts d p = [] \<and> long_hdrs d p = []) \<and>
     swq_free (raw_rx_queue d) = 1792 \<and> swq_free (rdma_queue d) = 256 \<and> swq_free (long_tx_queue d) = 32 \<and> swq_free (long_rx_queue d) = 32 \<and>
     (\<forall>sel p. get_port sel d = Some p \<longrightarrow> \<not> sp_mutex p) \<and>
     kt_task (kthread_raw d) \<and> kt_task (kthread_rdma d) \<and> kt_task (kthread_wtd d) \<and> long_layout d"

lemma port_init_free [simp]: "\<not> sp_mutex port_init"
  by (simp add: port_init_def)

lemma rings_ready_inv:
  assumes "rings_ready lms d"
  shows "raw_inv d {}" "nic_inv d {} {} {}" "p < 7 \<Longrightarrow> raw_pkts d p = []" "p < 7 \<Longrightarrow> long_hdrs d p = []"
    "swq_free (raw_rx_queue d) = 1792" "swq_free (rdma_queue d) = 256" "swq_free (long_tx_queue d) = 32" "swq_free (long_rx_queue d) = 32"
    "get_port sel d = Some x \<Longrightarrow> \<not> sp_mutex x"
proof -
  from assms have rep: "swq_rep (raw_rx_queue d) [0..<1792] (replicate 7 []) {} (replicate 1792 raw_msg_zero)"
      "swq_rep (rdma_queue d) [0..<256] [] {} status_table" "swq_rep (long_tx_queue d) [0..<32] [] {} lms"
      "swq_rep (long_rx_queue d) [0..<32] (replicate 7 []) {} (replicate 32 long_msg_zero)"
    and ports: "raw_rx_ports d = replicate 7 port_init" "long_rx_ports d = replicate 7 port_init" "rdma_port d = port_init"
      "raw_tx_port d = port_init" "long_tx_port d = port_init" by (simp_all add: rings_ready_def)
  show "raw_inv d {}" by (rule raw_invI [OF rep(1)]) (simp_all add: ports raw_msg_wf_def raw_msg_zero_def)
  show "nic_inv d {} {} {}"
    using rep(2,3) status_table_ok long_invI [OF rep(4)] ports by (auto simp: nic_inv_def rdma_inv_def callbacks_inv_def)
  show "raw_pkts d p = []" "long_hdrs d p = []" if "p < 7"
    using that swq_rep_contents(2) [OF rep(1), of p] swq_rep_contents(2) [OF rep(4), of p] by (simp_all add: raw_pkts_def long_hdrs_def)
  show "swq_free (raw_rx_queue d) = 1792" "swq_free (rdma_queue d) = 256" "swq_free (long_tx_queue d) = 32" "swq_free (long_rx_queue d) = 32"
    using rep [THEN swq_rep_contents(1)] by simp_all
  show "\<not> sp_mutex x" if "get_port sel d = Some x"
    using that ports by (cases sel) (auto simp: arr_get_def split: if_splits)
qed

text \<open>The second half of the probe on ready rings.\<close>

lemma kthread_init_simps:
  "axiom_kthread_init (Inl e) k = (e, k\<lparr>kt_wakes := 0\<rparr>)"
  "axiom_kthread_init (Inr p) k = (0, k\<lparr>kt_wakes := 0, kt_task := True, kt_scheduled := 0, kt_pid := p\<rparr>)"
  by (simp_all add: axiom_kthread_init_def Let_def)

definition probe_result :: "resource set \<Rightarrow> int \<Rightarrow> ('d, 'u) probe_st \<Rightarrow> bool" where
  "probe_result live r st \<longleftrightarrow> (r \<noteq> 0 \<longrightarrow> gave_back live st) \<and>
     (r = 0 \<longrightarrow> ps_chrdev st \<and> driver_ready (ps_drv st) \<and> watchdog_period_msec (ps_drv st) = 200 \<and> retry_delay_usec (ps_drv st) = 100 \<and>
        (\<exists>m \<subseteq> {IoMap}. ps_live st = live \<union> dev_nodes \<union> (if sf_dev (ps_sysfs st) = 0 then {} else sys_tree UNIV) \<union> m))"

lemma rdma_init_ready:
  assumes "rdma_init_frame d d'" and "long_layout d'" and "rings_ready lms d" and "length lms = 32"
  shows "rings_ready (map (\<lambda>i. long_tx_buf d' i long_msg_zero) [0..<32]) d'"
proof -
  have d': "d' = d\<lparr>dev_api := dev_api d', dma_paddr := dma_paddr d', dma_size := dma_size d', rdma_paddr := rdma_paddr d',
     rdma_size := rdma_size d', long_paddr := long_paddr d', long_vaddr := long_vaddr d', long_rx_vaddr := long_rx_vaddr d',
     long_tx_vaddr := long_tx_vaddr d', long_size := long_size d', long_rxbuf_lut := long_rxbuf_lut d',
     long_tx_queue := (long_tx_queue d)\<lparr>sq_desc := sq_desc (long_tx_queue d')\<rparr>\<rparr>" using assms(1) by (simp add: rdma_init_frame_def)
  have f: "raw_rx_queue d' = raw_rx_queue d" "raw_rx_ports d' = raw_rx_ports d" "rdma_queue d' = rdma_queue d"
    "rdma_port d' = rdma_port d" "raw_tx_port d' = raw_tx_port d" "long_tx_port d' = long_tx_port d"
    "long_rx_queue d' = long_rx_queue d" "long_rx_ports d' = long_rx_ports d"
    "long_tx_queue d' = (long_tx_queue d)\<lparr>sq_desc := sq_desc (long_tx_queue d')\<rparr>" by (subst d', simp)+
  have "swq_rep (long_tx_queue d') [0..<32] [] {} (map (\<lambda>i. long_tx_buf d' i long_msg_zero) [0..<32])"
    using assms(2,3) unfolding swq_rep_def rings_ready_def long_layout_def by (subst f(9)) simp
  with assms(3) f(1-8) show ?thesis by (simp add: rings_ready_def)
qed

lemma rdma_init_frameD:
  assumes "rdma_init_frame d d'"
  shows "kthread_raw d' = kthread_raw d" "kthread_rdma d' = kthread_rdma d" "kthread_wtd d' = kthread_wtd d" "dd_used d' = dd_used d"
    "dd_lock d' = dd_lock d" "raw_rx_port_used d' = raw_rx_port_used d" "long_rx_port_used d' = long_rx_port_used d"
    "watchdog_period_msec d' = watchdog_period_msec d" "retry_delay_usec d' = retry_delay_usec d"
  using assms unfolding rdma_init_frame_def by (cases d; cases d'; simp)+

text \<open>Threads and interrupt mask do not matter for the layout and the rings.\<close>

definition same_rings :: "('d, 'u) drvdata \<Rightarrow> ('d, 'u) drvdata \<Rightarrow> bool" where
  "same_rings d d' \<longleftrightarrow> d' = d\<lparr>dev_api := dev_api d', kthread_raw := kthread_raw d', kthread_rdma := kthread_rdma d', kthread_wtd := kthread_wtd d'\<rparr>"

lemma same_rings_ready:
  assumes "same_rings d d'"
  shows "rings_ready lms d' = rings_ready lms d" "long_layout d' = long_layout d" "files_init d' = files_init d"
    "length (long_rxbuf_lut d') = length (long_rxbuf_lut d)" "watchdog_period_msec d' = watchdog_period_msec d" "retry_delay_usec d' = retry_delay_usec d"
proof -
  have eq: "d' = d\<lparr>dev_api := dev_api d', kthread_raw := kthread_raw d', kthread_rdma := kthread_rdma d', kthread_wtd := kthread_wtd d'\<rparr>"
    using assms by (simp add: same_rings_def)
  show "rings_ready lms d' = rings_ready lms d" "long_layout d' = long_layout d" "files_init d' = files_init d"
    "length (long_rxbuf_lut d') = length (long_rxbuf_lut d)" "watchdog_period_msec d' = watchdog_period_msec d" "retry_delay_usec d' = retry_delay_usec d"
    by (subst eq, simp add: rings_ready_def long_layout_def files_init_def long_rx_buf_def [abs_def] long_tx_buf_def [abs_def])+
qed

lemma driver_readyI:
  assumes "rings_ready lms d" "long_layout d" "files_init d" "kt_task (kthread_raw d)" "kt_task (kthread_rdma d)" "kt_task (kthread_wtd d)"
  shows "driver_ready d"
  unfolding driver_ready_def using rings_ready_inv [OF assms(1)] files_init_inv [OF assms(3)] assms(2,4-6) by blast

text \<open>The state of the probe once the rings are ready; the watchdog thread comes last.\<close>

definition rings_up :: "resource set \<Rightarrow> ('d, 'u) probe_st \<Rightarrow> bool" where
  "rings_up live st \<longleftrightarrow> probing live st \<and> ps_chrdev st \<and> rings_ready (replicate 32 long_msg_zero) (ps_drv st) \<and>
     length (long_rxbuf_lut (ps_drv st)) = 32 \<and> files_init (ps_drv st) \<and>
     watchdog_period_msec (ps_drv st) = 200 \<and> retry_delay_usec (ps_drv st) = 100 \<and> \<not> kt_task (kthread_wtd (ps_drv st))"

lemma probe_memory_done:
  assumes up: "rings_up live st" and task: "kt_task (kthread_raw (ps_drv st))" "kt_task (kthread_rdma (ps_drv st))"
    and d3: "rdma_init_frame (ps_drv st) d3" "long_layout d3" and sr: "same_rings d3 (ps_drv st')"
    and st': "kthread_raw (ps_drv st') = kthread_raw d3" "kthread_rdma (ps_drv st') = kthread_rdma d3" "kt_task (kthread_wtd (ps_drv st'))"
      "ps_live st' = ps_live st \<union> m" "m \<subseteq> {IoMap}" "ps_sysfs st' = ps_sysfs st" "ps_chrdev st'"
  shows "probe_result live 0 st'"
proof -
  note fr = rdma_init_frameD [OF d3(1)] and same = same_rings_ready [OF sr]
  let ?lms = "map (\<lambda>i. long_tx_buf d3 i long_msg_zero) [0..<32]"
  have rr: "rings_ready ?lms d3" by (rule rdma_init_ready [OF d3, where lms = "replicate 32 long_msg_zero"]) (use up in \<open>simp_all add: rings_up_def\<close>)
  have "files_init d3" using fr up by (simp add: files_init_def rings_up_def)
  then have "driver_ready (ps_drv st')"
    using rr d3(2) same st' task fr(1,2) by (intro driver_readyI [where lms = ?lms]) simp_all
  moreover have "watchdog_period_msec (ps_drv st') = 200" "retry_delay_usec (ps_drv st') = 100"
    using same(5,6) fr(8,9) up by (simp_all add: rings_up_def)
  moreover have "\<exists>m \<subseteq> {IoMap}. ps_live st' = live \<union> dev_nodes \<union> (if sf_dev (ps_sysfs st') = 0 then {} else sys_tree UNIV) \<union> m"
    using st'(4-6) up by (intro exI [of _ m]) (simp add: probing_def rings_up_def)
  ultimately show ?thesis using st'(7) by (simp add: probe_result_def)
qed

lemma probe_memory_result:
  assumes up: "rings_up live st" and task: "kt_task (kthread_raw (ps_drv st))" "kt_task (kthread_rdma (ps_drv st))"
    and env: "\<And>i e. ie_kthread env i = Inl e \<Longrightarrow> e < 0"
  shows "\<exists>r st'. probe_memory hw env st = Some (r, st') \<and> probe_result live r st' \<and> (grants env \<longrightarrow> r = 0)"
proof -
  have "sq_desc (long_tx_queue (ps_drv st)) = Some (replicate 32 long_msg_zero)" "length (long_rxbuf_lut (ps_drv st)) = 32"
    using up by (simp_all add: rings_up_def rings_ready_def swq_rep_def)
  from rdma_init_cases [OF this, of hw env] obtain r b d3 where
    d3: "axiomnet_rdma_init hw env (ps_drv st) = Some (r, b, d3)" "rdma_init_frame (ps_drv st) d3" "r \<noteq> 0 \<and> \<not> b \<and> \<not> grants env \<or> r = 0 \<and> long_layout d3" by auto
  have p: "probing live st" "ps_chrdev st" "\<not> kt_task (kthread_wtd d3)"
    using up rdma_init_frameD(3) [OF d3(2)] by (simp_all add: rings_up_def)
  let ?m = "if b then {IoMap} else {}"
  let ?st3 = "st\<lparr>ps_drv := d3, ps_live := (if b then insert IoMap (ps_live st) else ps_live st)\<rparr>"
  let ?st4 = "on_drv (\<lambda>d. d\<lparr>dev_api := hw_enable_irq hw (dev_api d)\<rparr>) ?st3"
  show ?thesis
  proof (cases "r = 0")
    case False
    then have "\<not> b" using d3(3) by blast
    with p have "gave_back live (probe_free_rdma_kthread ?st3)" by (intro free_labels(6)) simp_all
    with False d3(1,3) show ?thesis by (simp add: probe_memory_def probe_result_def)
  next
    case True
    show ?thesis
    proof (cases "ie_kthread env 2")
      case (Inl e)
      have "gave_back live (probe_free_rdma hw (on_drv (\<lambda>d. d\<lparr>kthread_wtd := (kthread_wtd d3)\<lparr>kt_wakes := 0\<rparr>\<rparr>) ?st4))"
        by (rule free_rdma_label [OF p(1), where m = ?m]) (use p in auto)
      with Inl env [OF Inl] not_grants(1) [OF Inl] True d3(1) show ?thesis by (simp add: probe_memory_def kthread_init_simps probe_result_def)
    next
      case (Inr pid)
      let ?st5 = "on_drv (\<lambda>d. d\<lparr>kthread_wtd := (kthread_wtd d3)\<lparr>kt_wakes := 0, kt_task := True, kt_scheduled := 0, kt_pid := pid\<rparr>\<rparr>) ?st4"
      have "probe_result live 0 ?st5"
        by (rule probe_memory_done [OF up task d3(2), where m = ?m]) (use True d3(3) p in \<open>auto simp: same_rings_def\<close>)
      with Inr True d3(1) show ?thesis by (simp add: probe_memory_def kthread_init_simps)
    qed
  qed
qed

lemma probe_threads_result:
  assumes up: "rings_up live st" and d: "\<not> kt_task (kthread_raw (ps_drv st))" "\<not> kt_task (kthread_rdma (ps_drv st))"
    and env: "\<And>i e. ie_kthread env i = Inl e \<Longrightarrow> e < 0"
  shows "\<exists>r st'. probe_threads hw env st = Some (r, st') \<and> probe_result live r st' \<and> (grants env \<longrightarrow> r = 0)"
proof (cases "ie_kthread env 0")
  case (Inl e)
  have "gave_back live (probe_free_rdma_rx_ring (on_drv (\<lambda>d. d\<lparr>kthread_raw := (kthread_raw (ps_drv st))\<lparr>kt_wakes := 0\<rparr>\<rparr>) st))"
    by (rule free_labels(4)) (use up d in \<open>simp_all add: rings_up_def\<close>)
  with Inl env [OF Inl] not_grants(1) [OF Inl] show ?thesis by (simp add: probe_threads_def kthread_init_simps probe_result_def)
next
  case i0: (Inr p0)
  define k0 where "k0 = (kthread_raw (ps_drv st))\<lparr>kt_wakes := 0, kt_task := True, kt_scheduled := 0, kt_pid := p0\<rparr>"
  let ?st1 = "on_drv (\<lambda>d. d\<lparr>kthread_raw := k0\<rparr>) st"
  show ?thesis
  proof (cases "ie_kthread env 1")
    case (Inl e)
    have "gave_back live (probe_free_raw_kthread (on_drv (\<lambda>d. d\<lparr>kthread_rdma := (kthread_rdma (ps_drv st))\<lparr>kt_wakes := 0\<rparr>\<rparr>) ?st1))"
      by (rule free_labels(5)) (use up d in \<open>simp_all add: rings_up_def\<close>)
    with i0 Inl env [OF Inl] not_grants(1) [OF Inl] show ?thesis by (simp add: probe_threads_def kthread_init_simps probe_result_def k0_def)
  next
    case (Inr p1)
    define k1 where "k1 = (kthread_rdma (ps_drv st))\<lparr>kt_wakes := 0, kt_task := True, kt_scheduled := 0, kt_pid := p1\<rparr>"
    let ?st2 = "on_drv (\<lambda>d. d\<lparr>kthread_rdma := k1\<rparr>) ?st1"
    have "rings_up live ?st2"
      using up same_rings_ready [of "ps_drv st" "ps_drv ?st2"] by (simp add: rings_up_def same_rings_def)
    from probe_memory_result [OF this _ _ env, where hw = hw] i0 Inr show ?thesis
      by (simp add: probe_threads_def kthread_init_simps k0_def k1_def)
  qed
qed

text \<open>The state of the probe before the receive rings, with the transmit rings ready.\<close>

definition tx_up :: "resource set \<Rightarrow> ('d, 'u) probe_st \<Rightarrow> bool" where
  "tx_up live st \<longleftrightarrow> probing live st \<and> ps_chrdev st \<and> length (long_rxbuf_lut (ps_drv st)) = 32 \<and> files_init (ps_drv st) \<and>
     watchdog_period_msec (ps_drv st) = 200 \<and> retry_delay_usec (ps_drv st) = 100 \<and>
     queue_null (raw_rx_queue (ps_drv st)) \<and> queue_null (long_rx_queue (ps_drv st)) \<and>
     \<not> kt_task (kthread_raw (ps_drv st)) \<and> \<not> kt_task (kthread_rdma (ps_drv st)) \<and> \<not> kt_task (kthread_wtd (ps_drv st)) \<and>
     swq_rep (rdma_queue (ps_drv st)) [0..<256] [] {} status_table \<and> rdma_port (ps_drv st) = port_init \<and> raw_tx_port (ps_drv st) = port_init \<and>
     swq_rep (long_tx_queue (ps_drv st)) [0..<32] [] {} (replicate 32 long_msg_zero) \<and> long_tx_port (ps_drv st) = port_init"

lemma probe_rx_rings_result:
  assumes up: "tx_up live st" and env: "\<And>i e. ie_kthread env i = Inl e \<Longrightarrow> e < 0"
  shows "\<exists>r st'. probe_rx_rings hw env st = Some (r, st') \<and> probe_result live r st' \<and> (grants env \<longrightarrow> r = 0)"
proof -
  let ?d = "ps_drv st"
  obtain r rq where raw: "axiomnet_raw_rx_hwring_init env ?d = Some (r, ?d\<lparr>raw_rx_ports := replicate 7 port_init, raw_rx_queue := rq\<rparr>)"
    "r = 0 \<and> swq_rep rq [0..<1792] (replicate 7 []) {} (replicate 1792 raw_msg_zero) \<or> r \<noteq> 0 \<and> queue_null rq \<and> \<not> grants env"
    using raw_rx_ring_cases [of ?d env] up by (auto simp: tx_up_def)
  define d3 where "d3 = ?d\<lparr>raw_rx_ports := replicate 7 port_init, raw_rx_queue := rq\<rparr>"
  show ?thesis
  proof (cases "r = 0")
    case False
    then have "gave_back live (probe_free_tx_ring (st\<lparr>ps_drv := d3\<rparr>))"
      by (intro free_labels(2)) (use up raw in \<open>simp_all add: d3_def tx_up_def\<close>)
    with False raw show ?thesis by (simp add: probe_rx_rings_def probe_result_def d3_def)
  next
    case True
    obtain r' xq where rx: "axiomnet_rdma_rx_hwring_init env d3 = Some (r', d3\<lparr>long_rx_ports := replicate 7 port_init, long_rx_queue := xq\<rparr>)"
      "r' = 0 \<and> swq_rep xq [0..<32] (replicate 7 []) {} (replicate 32 long_msg_zero) \<or> r' \<noteq> 0 \<and> queue_null xq \<and> \<not> grants env"
      using rdma_rx_ring_cases [of d3 env] up by (auto simp: d3_def tx_up_def)
    define d4 where "d4 = d3\<lparr>long_rx_ports := replicate 7 port_init, long_rx_queue := xq\<rparr>"
    have run: "probe_rx_rings hw env st = (if r' \<noteq> 0 then Some (r', probe_free_rx_ring (st\<lparr>ps_drv := d4\<rparr>)) else probe_threads hw env (st\<lparr>ps_drv := d4\<rparr>))"
      using True raw(1) [folded d3_def] rx(1) by (simp add: probe_rx_rings_def d4_def)
    show ?thesis
    proof (cases "r' = 0")
      case False
      then have "gave_back live (probe_free_rx_ring (st\<lparr>ps_drv := d4\<rparr>))"
        by (intro free_labels(3)) (use up rx in \<open>simp_all add: d4_def d3_def tx_up_def\<close>)
      with False run rx(2) show ?thesis by (simp add: probe_result_def)
    next
      case r': True
      have "rings_up live (st\<lparr>ps_drv := d4\<rparr>)"
        using up raw(2) rx(2) True r' by (simp add: rings_up_def rings_ready_def d4_def d3_def tx_up_def files_init_def)
      from probe_threads_result [OF this _ _ env, where hw = hw] up r' run show ?thesis by (simp add: d4_def d3_def tx_up_def)
    qed
  qed
qed

lemma probe_rings_result:
  assumes st: "probing live st" "ps_chrdev st" and d: "holds_nothing (ps_drv st)" "length (long_rxbuf_lut (ps_drv st)) = 32"
      "files_init (ps_drv st)" "watchdog_period_msec (ps_drv st) = 200" "retry_delay_usec (ps_drv st) = 100"
    and env: "\<And>i e. ie_kthread env i = Inl e \<Longrightarrow> e < 0"
  shows "\<exists>r st'. probe_rings hw env st = Some (r, st') \<and> probe_result live r st' \<and> (grants env \<longrightarrow> r = 0)"
proof -
  define d1 where "d1 = (ps_drv st)\<lparr>raw_tx_port := port_init\<rparr>"
  have n: "queue_null (rdma_queue d1)" "queue_null (long_tx_queue d1)" "queue_null (raw_rx_queue d1)" "queue_null (long_rx_queue d1)"
    "\<not> kt_task (kthread_raw d1)" "\<not> kt_task (kthread_rdma d1)" "\<not> kt_task (kthread_wtd d1)" using d(1) by (simp_all add: holds_nothing_def d1_def)
  have run: "probe_rings hw env st = do {
      (err, d) \<leftarrow> axiomnet_rdma_tx_hwring_init env d1;
      if err \<noteq> 0 then Some (err, probe_free_sysfs (st\<lparr>ps_drv := d\<rparr>)) else probe_rx_rings hw env (st\<lparr>ps_drv := d\<rparr>) }"
    by (simp add: probe_rings_def axiomnet_raw_tx_hwring_init_def d1_def Let_def)
  show ?thesis
  proof (cases rule: rdma_tx_ring_cases [OF n(1,2), where env = env, case_names failed ready])
    case (failed r q lq p)
    have "gave_back live (probe_free_sysfs (st\<lparr>ps_drv := d1\<lparr>rdma_port := port_init, rdma_queue := q, long_tx_port := p, long_tx_queue := lq\<rparr>\<rparr>))"
      by (rule free_labels(1)) (use st n failed in \<open>simp_all add: holds_nothing_def\<close>)
    with run failed(1,2,5) show ?thesis by (simp add: probe_result_def)
  next
    case (ready q lq)
    let ?d2 = "d1\<lparr>rdma_port := port_init, rdma_queue := q, long_tx_port := port_init, long_tx_queue := lq\<rparr>"
    have "tx_up live (st\<lparr>ps_drv := ?d2\<rparr>)" using st d n ready(2,3) by (simp add: tx_up_def d1_def files_init_def)
    from probe_rx_rings_result [OF this env, where hw = hw] run ready(1) show ?thesis by simp
  qed
qed

section \<open>Probe and remove\<close>

text \<open>The answers of the kernel are as documented: an error is a negative number.\<close>

definition env_ok :: "'d init_env \<Rightarrow> bool" where
  "env_ok env \<longleftrightarrow> (\<forall>i e. ie_kthread env i = Inl e \<longrightarrow> e < 0)"

lemma alloc_chrdev_cases:
  assumes "axiomnet_alloc_chrdev env st = (r, st')" and "ps_live st \<inter> dev_nodes = {}"
  shows "r \<noteq> 0 \<and> st' = st \<and> \<not> grants env \<or> r = 0 \<and> st' = on_drv (\<lambda>d. d\<lparr>dd_used := 0\<rparr>) (st\<lparr>ps_live := ps_live st \<union> dev_nodes, ps_chrdev := True\<rparr>)"
  using assms by (auto simp: axiomnet_alloc_chrdev_def device_create_def device_destroy_def insert_Diff_if insert_commute split: if_splits
      dest: not_grants(3))

lemma drvdata_zero_clean:
  "holds_nothing (drvdata_zero dev um lm)" "files_init (drvdata_zero dev um lm)" "length (long_rxbuf_lut (drvdata_zero dev um lm)) = 32"
  by (simp_all add: drvdata_zero_def holds_nothing_def queue_null_def queue_zero_def evi_zero_def kthread_zero_def files_init_def)

lemma probe_free_cdev_all:
  assumes "ps_live st = live \<union> dev_nodes" "live \<inter> dev_nodes = {}" "holds_nothing (ps_drv st)"
  shows "gave_back live (probe_free_cdev st)"
  using assms by (auto simp: gave_back_def probe_free_cdev_def axiomnet_destroy_chrdev_def device_destroy_def)

lemma probe_sysfs_result:
  assumes env: "env_ok env" and live: "live \<inter> (dev_nodes \<union> sys_tree UNIV \<union> {IoMap}) = {}" "ps_live st = live \<union> dev_nodes" "ps_chrdev st"
    and d: "holds_nothing (ps_drv st)" "files_init (ps_drv st)" "length (long_rxbuf_lut (ps_drv st)) = 32"
    and sf: "axiom_sysfs_init (ie_sysfs env) (ps_sysfs st) (ps_live st) = (err, sf, live')"
  shows "\<exists>r st'. (if err \<noteq> 0 then Some (err, probe_free_cdev (st\<lparr>ps_sysfs := sf, ps_live := live'\<rparr>))
      else probe_rings hw env (on_drv (\<lambda>d. d\<lparr>watchdog_period_msec := 200, retry_delay_usec := 100\<rparr>) (st\<lparr>ps_sysfs := sf, ps_live := live'\<rparr>)))
    = Some (r, st') \<and> probe_result live r st' \<and> (grants env \<longrightarrow> r = 0)"
proof -
  have "ps_live st \<inter> sys_tree UNIV = {}" using live by (auto simp: sys_tree_def)
  from sysfs_init_cases [OF sf this] have cases: "err \<noteq> 0 \<and> live' = ps_live st \<or>
    err = 0 \<and> live' = ps_live st \<union> (if sf_dev sf = 0 then {} else sys_tree UNIV)" by (cases "err = 0") auto
  show ?thesis
  proof (cases "err = 0")
    case False
    have "\<not> grants env" using False sf by (auto simp: grants_def axiom_sysfs_init_def)
    with False show ?thesis using cases live d probe_free_cdev_all [of "st\<lparr>ps_sysfs := sf, ps_live := live'\<rparr>" live]
      by (auto simp: probe_result_def)
  next
    case True
    with cases live have "probing live (st\<lparr>ps_sysfs := sf, ps_live := live'\<rparr>)" by (simp add: probing_def)
    then have "\<exists>r st'. probe_rings hw env (on_drv (\<lambda>d. d\<lparr>watchdog_period_msec := 200, retry_delay_usec := 100\<rparr>)
        (st\<lparr>ps_sysfs := sf, ps_live := live'\<rparr>)) = Some (r, st') \<and> probe_result live r st' \<and> (grants env \<longrightarrow> r = 0)"
      by (intro probe_rings_result) (use env live d in \<open>auto simp: env_ok_def holds_nothing_def files_init_def\<close>)
    with True show ?thesis by simp
  qed
qed

lemma remove_gives_back:
  assumes "live \<inter> (dev_nodes \<union> sys_tree UNIV \<union> {IoMap}) = {}"
    and "ps_live st = live \<union> dev_nodes \<union> (if sf_dev (ps_sysfs st) = 0 then {} else sys_tree UNIV) \<union> m" "m \<subseteq> {IoMap}"
  shows "gave_back live (snd (axiomnet_remove hw st))"
proof -
  have "probing live (rdma_off hw st)" using assms by (auto simp: probing_def rdma_off_def sys_tree_def)
  then show ?thesis
    by (simp add: axiomnet_remove_def Let_def gave_back_def holds_nothing_def release_defs free_sysfs_all
        flip: probe_free_sysfs_def [unfolded probe_free_cdev_def])
qed

lemma probe_returns:
  assumes "env_ok env" and "ps_live st \<inter> (dev_nodes \<union> sys_tree UNIV \<union> {IoMap}) = {}" and "\<not> ps_chrdev st"
  shows "\<exists>r st'. axiomnet_probe hw env dev st = Some (r, st') \<and> probe_result (ps_live st) r st' \<and>
    (grants env \<longrightarrow> fst (hw_check_version hw dev) = 0 \<longrightarrow> r = 0)"
proof -
  let ?live = "ps_live st"
  obtain err dev' where ver: "hw_check_version hw dev = (err, dev')" by (cases "hw_check_version hw dev")
  let ?d = "drvdata_zero dev (user_mem (ps_drv st)) (long_mem (ps_drv st))"
  let ?st2 = "st\<lparr>ps_sysfs := sysfs_zero, ps_drv := ?d\<lparr>dev_api := ie_print env dev'\<rparr>\<rparr>"
  have clean: "holds_nothing (?d\<lparr>dev_api := v, dd_used := u\<rparr>)" "holds_nothing (?d\<lparr>dev_api := v\<rparr>)" for v u
    using drvdata_zero_clean(1) by (simp_all add: holds_nothing_def)
  show ?thesis
  proof (cases "err = 0")
    case False
    then show ?thesis using ver assms(3) clean by (simp add: axiomnet_probe_def on_drv_def probe_result_def gave_back_def)
  next
    case True
    obtain r st3 where al: "axiomnet_alloc_chrdev env ?st2 = (r, st3)" by (cases "axiomnet_alloc_chrdev env ?st2")
    have disj: "ps_live ?st2 \<inter> dev_nodes = {}" using assms(2) by auto
    obtain serr sf live' where sf: "axiom_sysfs_init (ie_sysfs env) (ps_sysfs st3) (ps_live st3) = (serr, sf, live')"
      by (cases "axiom_sysfs_init (ie_sysfs env) (ps_sysfs st3) (ps_live st3)") auto
    have run: "axiomnet_probe hw env dev st = (if r \<noteq> 0 then Some (r, st3) else
      if serr \<noteq> 0 then Some (serr, probe_free_cdev (st3\<lparr>ps_sysfs := sf, ps_live := live'\<rparr>))
      else probe_rings hw env (on_drv (\<lambda>d. d\<lparr>watchdog_period_msec := 200, retry_delay_usec := 100\<rparr>) (st3\<lparr>ps_sysfs := sf, ps_live := live'\<rparr>)))"
      using True ver al sf by (simp add: axiomnet_probe_def on_drv_def)
    from alloc_chrdev_cases [OF al disj] show ?thesis
    proof
      assume "r \<noteq> 0 \<and> st3 = ?st2 \<and> \<not> grants env"
      with run assms(3) clean show ?thesis by (simp add: probe_result_def gave_back_def)
    next
      assume r: "r = 0 \<and> st3 = on_drv (\<lambda>d. d\<lparr>dd_used := 0\<rparr>) (?st2\<lparr>ps_live := ps_live ?st2 \<union> dev_nodes, ps_chrdev := True\<rparr>)"
      then have "ps_live st3 = ?live \<union> dev_nodes" "ps_chrdev st3" "holds_nothing (ps_drv st3)" "files_init (ps_drv st3)"
          "length (long_rxbuf_lut (ps_drv st3)) = 32" using clean drvdata_zero_clean(2) [of dev "user_mem (ps_drv st)" "long_mem (ps_drv st)"]
            drvdata_zero_clean(3) by (simp_all add: files_init_def)
      note res = probe_sysfs_result [OF assms(1,2) this sf, of hw]
      from r have "r = 0" ..
      with run have "axiomnet_probe hw env dev st = (if serr \<noteq> 0 then Some (serr, probe_free_cdev (st3\<lparr>ps_sysfs := sf, ps_live := live'\<rparr>))
        else probe_rings hw env (on_drv (\<lambda>d. d\<lparr>watchdog_period_msec := 200, retry_delay_usec := 100\<rparr>) (st3\<lparr>ps_sysfs := sf, ps_live := live'\<rparr>)))"
        by simp
      with res show ?thesis by (simp only:) blast
    qed
  qed
qed

text \<open>
  Property C33. Probing the device always returns, and it succeeds when the kernel grants all its requests. When it succeeds, the driver is ready for use: the invariants of the RAW, RDMA,
  LONG and port components hold with all queues empty, all slots free, all mutexes free, all threads running
  and the memory laid out, and the default parameters are set. When it fails, at whichever of its steps, the driver holds
  nothing any more: queues, threads, device nodes, sysfs tree and mapping are gone. And what a successful
  probe has acquired is given back completely by \<open>axiomnet_remove\<close>.
\<close>

theorem probe_all_or_nothing:
  assumes "env_ok env" and "ps_live st \<inter> (dev_nodes \<union> sys_tree UNIV \<union> {IoMap}) = {}" and "\<not> ps_chrdev st"
  shows "\<exists>r st'. axiomnet_probe hw env dev st = Some (r, st') \<and> probe_result (ps_live st) r st' \<and>
    (grants env \<longrightarrow> fst (hw_check_version hw dev) = 0 \<longrightarrow> r = 0) \<and>
    (r = 0 \<longrightarrow> gave_back (ps_live st) (snd (axiomnet_remove hw st')))"
proof -
  from probe_returns [OF assms] obtain r st' where
    res: "axiomnet_probe hw env dev st = Some (r, st')" "probe_result (ps_live st) r st'"
      "grants env \<longrightarrow> fst (hw_check_version hw dev) = 0 \<longrightarrow> r = 0" by blast
  moreover have "gave_back (ps_live st) (snd (axiomnet_remove hw st'))" if r0: "r = 0"
  proof -
    from res(2) r0 obtain m where "m \<subseteq> {IoMap}"
      "ps_live st' = ps_live st \<union> dev_nodes \<union> (if sf_dev (ps_sysfs st') = 0 then {} else sys_tree UNIV) \<union> m" by (auto simp: probe_result_def)
    then show ?thesis by (intro remove_gives_back [OF assms(2)])
  qed
  ultimately show ?thesis by blast
qed

text \<open>A kernel that grants everything but the watchdog thread, and one that grants everything.\<close>

definition demo_env :: "int + int \<Rightarrow> demo_dev init_env" where
  "demo_env wtd = \<lparr>ie_print = (\<lambda>v. v), ie_node = (\<lambda>_. 0), ie_sysfs = \<lparr>se_root = 0, se_kobj = (\<lambda>_. True), se_groups = (\<lambda>_. 0)\<rparr>,
     ie_mok = (\<lambda>_ _. True), ie_junk = (\<lambda>_ _ _. 0), ie_kcalloc = (\<lambda>i. Some (of_nat (4096 * i))),
     ie_kthread = (\<lambda>i. if i = 2 then wtd else Inr 7), ie_app = Some (0x40000000, 0x10000000), ie_nic = Some (0x50000000, 0x800000),
     ie_ioremap = (\<lambda>a n. 0x70000000), ie_region = 0, ie_cdev = (\<lambda>_. 0), ie_class = 0\<rparr>"

definition demo_probe :: "(demo_dev, u64 \<Rightarrow> u8 option) probe_st" where
  "demo_probe = \<lparr>ps_drv = demo_d, ps_sysfs = sysfs_zero, ps_chrdev = False, ps_live = {}\<rparr>"

theorem probe_all_or_nothing_witness:
  "(\<exists>st'. axiomnet_probe demo_hw (demo_env (Inr 8)) demo_v demo_probe = Some (0, st') \<and> driver_ready (ps_drv st')) \<and>
   (\<exists>r st'. axiomnet_probe demo_hw (demo_env (Inl (- 12))) demo_v demo_probe = Some (r, st') \<and> (r \<noteq> 0 \<longrightarrow> gave_back {} st'))"
proof -
  have ok: "env_ok (demo_env (Inl (- 12)))" "env_ok (demo_env (Inr 8))" by (simp_all add: env_ok_def demo_env_def)
  have "grants (demo_env (Inr 8))" "fst (hw_check_version demo_hw demo_v) = 0" by (simp_all add: grants_def demo_env_def demo_hw_def)
  with probe_all_or_nothing [OF ok(1), of demo_probe demo_hw demo_v] probe_all_or_nothing [OF ok(2), of demo_probe demo_hw demo_v]
  show ?thesis by (auto simp: demo_probe_def probe_result_def)
qed

section \<open>Loading and unloading\<close>

text \<open>
  Loading the module creates the four character devices and the class, and unloading removes them; but the
  device number region stays behind, since the driver passes a minor number where the number of devices is meant.
\<close>

lemma module_leaks_region:
  assumes "axiomnet_init env live = (0, live')" and "live \<inter> insert ChrRegion (insert DevClass (range Cdev)) = {}"
    and "ie_cdev env 0 \<le> 0" "ie_cdev env 1 \<le> 0" "ie_cdev env 2 \<le> 0" "ie_cdev env 3 \<le> 0"
  shows "axiomnet_cleanup live' = insert ChrRegion live"
proof -
  have "live' = live \<union> {ChrRegion, DevClass, Cdev 0, Cdev 1, Cdev 2, Cdev 3}"
    using assms(1,3-6) by (auto simp: axiomnet_init_def axiomnet_init_chrdev_def Let_def split: if_splits)
  with assms(2) show ?thesis
    by (auto simp: axiomnet_cleanup_def axiomnet_cleanup_chrdev_def cdev_del_def unregister_chrdev_region_def)
qed

end
