(* ===== verification/PlatformProps.thy ===== *)
theory PlatformProps
  imports PlatformDrivers InitProps
begin

text \<open>
  Properties of the platform drivers: which register blocks of the FPGA must be there for the driver to start and which
  failures it overlooks, and that probing a platform device acquires everything or nothing.
\<close>

section \<open>Error pointers\<close>

lemma PTR_ERR_even: "8 dvd unat p \<Longrightarrow> even (PTR_ERR p)"
proof -
  assume "8 dvd unat p"
  then have "even (unat p)" by auto
  then have "\<not> bit (unat p) 0" by (simp add: bit_0)
  then have "\<not> bit p 0" by (simp add: bit_unsigned_iff)
  then have "\<not> bit (PTR_ERR p) 0" by (simp add: PTR_ERR_def bit_simps)
  then show ?thesis by (simp add: bit_0)
qed

lemma err_bitand_mandatory_iff [simp]: "err_bitand_mandatory err True \<longleftrightarrow> odd err"
  by (simp add: err_bitand_mandatory_def and_one_eq odd_iff_mod_2_eq_one)

lemma err_and_mandatory_simps [simp]: "err_and_mandatory err True \<longleftrightarrow> err \<noteq> 0" "\<not> err_and_mandatory err False"
  by (simp_all add: err_and_mandatory_def)

section \<open>Register blocks\<close>

text \<open>Where resource \<open>i\<close> of a block is mapped, when it can be.\<close>

definition block_at :: "of_env \<Rightarrow> string \<Rightarrow> nat \<Rightarrow> u64 \<Rightarrow> bool" where
  "block_at oe name i p \<longleftrightarrow> \<not> IS_ERR (oe_phandle oe name) \<and> fst (oe_resource oe (oe_phandle oe name) i) = 0 \<and>
     p = oe_ioremap oe (snd (oe_resource oe (oe_phandle oe name) i)) \<and> \<not> IS_ERR p"

text \<open>The nodes of the device tree lie at addresses whose lower half is not 0.\<close>

definition nodes_ok :: "of_env \<Rightarrow> bool" where
  "nodes_ok oe \<longleftrightarrow> (\<forall>name. PTR_ERR (oe_phandle oe name) \<noteq> 0)"

lemma map_resource_cases:
  assumes "nodes_ok oe" "\<not> IS_ERR (oe_phandle oe name)"
  obtains (ok) p where "map_resource oe (oe_phandle oe name) i = (0, Some p)" "block_at oe name i p"
  | (failed) err x where "map_resource oe (oe_phandle oe name) i = (err, x)" "err \<noteq> 0" "\<And>p. \<not> block_at oe name i p"
proof (cases "fst (oe_resource oe (oe_phandle oe name) i) = 0")
  case True
  let ?p = "oe_ioremap oe (snd (oe_resource oe (oe_phandle oe name) i))"
  show ?thesis
  proof (cases "IS_ERR ?p")
    case err: True
    with True assms show ?thesis
      by (intro failed [of "PTR_ERR (oe_phandle oe name)" "Some ?p"]) (auto simp: map_resource_def Let_def case_prod_beta block_at_def nodes_ok_def)
  next
    case False
    with True assms show ?thesis by (intro ok [of ?p]) (auto simp: map_resource_def Let_def case_prod_beta block_at_def)
  qed
next
  case False
  with assms show ?thesis
    by (intro failed [of "fst (oe_resource oe (oe_phandle oe name) i)" None]) (auto simp: map_resource_def Let_def case_prod_beta block_at_def)
qed

text \<open>When the parts of a block initialise, and to what addresses.\<close>

lemma reg_init_result:
  assumes "nodes_ok oe"
  shows "fst (axiomnet_reg_init oe name reg) = 0 \<longleftrightarrow> (\<exists>p. block_at oe name 0 p)"
    "block_at oe name 0 p \<Longrightarrow> snd (axiomnet_reg_init oe name reg) = reg\<lparr>rg_base := p\<rparr>"
proof -
  have "(fst (axiomnet_reg_init oe name reg) = 0 \<longleftrightarrow> (\<exists>p. block_at oe name 0 p)) \<and>
    (\<forall>p. block_at oe name 0 p \<longrightarrow> snd (axiomnet_reg_init oe name reg) = reg\<lparr>rg_base := p\<rparr>)"
  proof (cases "IS_ERR (oe_phandle oe name)")
    case True
    with assms show ?thesis by (simp add: axiomnet_reg_init_def Let_def block_at_def nodes_ok_def)
  next
    case False
    show ?thesis
    proof (cases rule: map_resource_cases [OF assms False, where i = 0, case_names ok failed])
      case (ok p)
      then show ?thesis using False by (auto simp: axiomnet_reg_init_def Let_def block_at_def)
    next
      case (failed err x)
      then show ?thesis using False by (simp add: axiomnet_reg_init_def)
    qed
  qed
  then show "fst (axiomnet_reg_init oe name reg) = 0 \<longleftrightarrow> (\<exists>p. block_at oe name 0 p)"
    "block_at oe name 0 p \<Longrightarrow> snd (axiomnet_reg_init oe name reg) = reg\<lparr>rg_base := p\<rparr>" by auto
qed

lemma bram_init_result:
  assumes "nodes_ok oe"
  shows "fst (axiomnet_bram_init oe name bram) = 0 \<longleftrightarrow> (\<exists>p. block_at oe name 0 p)"
    "block_at oe name 0 p \<Longrightarrow> snd (axiomnet_bram_init oe name bram) = bram\<lparr>br_base := p\<rparr>"
proof -
  have eq: "fst (axiomnet_bram_init oe name bram) = fst (axiomnet_reg_init oe name \<lparr>rg_base = br_base bram\<rparr>)"
    "br_base (snd (axiomnet_bram_init oe name bram)) = rg_base (snd (axiomnet_reg_init oe name \<lparr>rg_base = br_base bram\<rparr>))"
    by (simp_all add: axiomnet_bram_init_def axiomnet_reg_init_def Let_def case_prod_beta split: option.split)
  show "fst (axiomnet_bram_init oe name bram) = 0 \<longleftrightarrow> (\<exists>p. block_at oe name 0 p)" unfolding eq(1) by (rule reg_init_result(1) [OF assms])
  show "snd (axiomnet_bram_init oe name bram) = bram\<lparr>br_base := p\<rparr>" if "block_at oe name 0 p"
    using eq(2) unfolding reg_init_result(2) [OF assms that] by (cases "snd (axiomnet_bram_init oe name bram)") simp
qed

definition fifo_ok :: "of_env \<Rightarrow> string \<Rightarrow> bool" where
  "fifo_ok oe name \<longleftrightarrow> (\<exists>p. block_at oe name 0 p) \<and> (\<exists>p. block_at oe name 1 p) \<and>
     fst (oe_u32 oe (oe_phandle oe name) ''xlnx,data-interface-type'') = 0"

definition fifo_at :: "of_env \<Rightarrow> string \<Rightarrow> axi_fifo \<Rightarrow> bool" where
  "fifo_at oe name f \<longleftrightarrow> block_at oe name 0 (ff_base f) \<and> block_at oe name 1 (ff_axi4_base f) \<and>
     ff_axi4 f = snd (oe_u32 oe (oe_phandle oe name) ''xlnx,data-interface-type'')"

lemma fifo_init_result:
  assumes "nodes_ok oe" "axiomnet_fifo_init mm oe name fifo h = (err, fifo', h')"
  shows "(err = 0 \<longleftrightarrow> fifo_ok oe name) \<and> (err = 0 \<longrightarrow> fifo_at oe name fifo')"
proof (cases "IS_ERR (oe_phandle oe name)")
  case True
  with assms show ?thesis by (auto simp: axiomnet_fifo_init_def Let_def block_at_def nodes_ok_def fifo_ok_def)
next
  case False
  show ?thesis
  proof (cases rule: map_resource_cases [OF assms(1) False, where i = 0, case_names ok failed])
    case (ok p)
    note p0 = ok
    show ?thesis
    proof (cases rule: map_resource_cases [OF assms(1) False, where i = 1, case_names ok failed])
      case (ok q)
      obtain e v where u: "oe_u32 oe (oe_phandle oe name) ''xlnx,data-interface-type'' = (e, v)" by fastforce
      show ?thesis using assms(2) False p0 ok u by (auto simp: axiomnet_fifo_init_def Let_def fifo_ok_def fifo_at_def split: if_splits)
    next
      case (failed e x)
      then show ?thesis using assms(2) False p0 by (auto simp: axiomnet_fifo_init_def Let_def fifo_ok_def)
    qed
  next
    case (failed e x)
    then show ?thesis using assms(2) False by (auto simp: axiomnet_fifo_init_def Let_def fifo_ok_def)
  qed
qed

text \<open>The loops over the tables: the one for the GPIO block never stops, the others at the first block that fails.\<close>

lemma init_blocks_simps:
  "init_blocks err_and_mandatory f ((n, (g, u), True) # bs) regs h =
     (case f n (g regs) h of (err, x, h) \<Rightarrow> if err \<noteq> 0 then (err, u x regs, h) else init_blocks err_and_mandatory f bs (u x regs) h)"
  "init_blocks err_bitand_mandatory f ((n, (g, u), True) # bs) regs h =
     (case f n (g regs) h of (err, x, h) \<Rightarrow> if odd err then (err, u x regs, h) else init_blocks err_bitand_mandatory f bs (u x regs) h)"
  "init_blocks err_and_mandatory f [(n, (g, u), False)] regs h = (case f n (g regs) h of (err, x, h) \<Rightarrow> (0, u x regs, h))"
  by (simp_all add: Let_def case_prod_beta)

definition fifo_names :: "string list" where
  "fifo_names = [''fifo-raw-tx'', ''fifo-raw-rx'', ''fifo-rdma-tx'', ''fifo-rdma-rx'']"

definition bram_names :: "string list" where
  "bram_names = [''bram-long-buf'', ''bram-routing'']"

abbreviation (input) bram_err :: "of_env \<Rightarrow> string \<Rightarrow> int" where
  "bram_err oe name \<equiv> fst (axiomnet_bram_init oe name \<lparr>br_base = 0\<rparr>)"

definition fifos_at :: "of_env \<Rightarrow> axiom_dev_regs \<Rightarrow> bool" where
  "fifos_at oe regs \<longleftrightarrow> fifo_at oe ''fifo-raw-tx'' (ar_fifo_raw_tx regs) \<and> fifo_at oe ''fifo-raw-rx'' (ar_fifo_raw_rx regs) \<and>
     fifo_at oe ''fifo-rdma-tx'' (ar_fifo_rdma_tx regs) \<and> fifo_at oe ''fifo-rdma-rx'' (ar_fifo_rdma_rx regs)"

lemma init_fifos_result:
  assumes "nodes_ok oe" "init_blocks err_and_mandatory (axiomnet_fifo_init mm oe) fifo_to_init regs h = (err, regs', h')"
  shows "(err = 0 \<longleftrightarrow> list_all (fifo_ok oe) fifo_names) \<and> (err = 0 \<longrightarrow> fifos_at oe regs' \<and> ar_registers regs' = ar_registers regs \<and>
    ar_long_buf regs' = ar_long_buf regs \<and> ar_routing regs' = ar_routing regs)"
proof -
  note res = fifo_init_result [OF assms(1)]
  obtain e1 f1 h1 where s1: "axiomnet_fifo_init mm oe ''fifo-raw-tx'' (ar_fifo_raw_tx regs) h = (e1, f1, h1)" by (metis prod_cases3)
  obtain e2 f2 h2 where s2: "axiomnet_fifo_init mm oe ''fifo-raw-rx'' (ar_fifo_raw_rx regs) h1 = (e2, f2, h2)" by (metis prod_cases3)
  obtain e3 f3 h3 where s3: "axiomnet_fifo_init mm oe ''fifo-rdma-tx'' (ar_fifo_rdma_tx regs) h2 = (e3, f3, h3)" by (metis prod_cases3)
  obtain e4 f4 h4 where s4: "axiomnet_fifo_init mm oe ''fifo-rdma-rx'' (ar_fifo_rdma_rx regs) h3 = (e4, f4, h4)" by (metis prod_cases3)
  show ?thesis
    using assms(2) res [OF s1] res [OF s2] res [OF s3] res [OF s4]
    by (auto simp: fifo_to_init_def init_blocks_simps s1 s2 s3 s4 fifo_names_def fifos_at_def simp del: init_blocks.simps(2) split: if_splits)
qed

lemma init_brams_result:
  assumes "nodes_ok oe" "br_base (ar_long_buf regs) = 0" "br_base (ar_routing regs) = 0"
    and "init_blocks err_bitand_mandatory (\<lambda>name x h. let (err, x) = axiomnet_bram_init oe name x in (err, x, h)) bram_to_init regs h = (err, regs', h')"
  shows "(err = 0 \<longleftrightarrow> list_all (\<lambda>name. even (bram_err oe name)) bram_names) \<and> (err = 0 \<longrightarrow> h' = h \<and>
    regs' = regs\<lparr>ar_long_buf := snd (axiomnet_bram_init oe ''bram-long-buf'' \<lparr>br_base = 0\<rparr>),
      ar_routing := snd (axiomnet_bram_init oe ''bram-routing'' \<lparr>br_base = 0\<rparr>)\<rparr>)"
proof -
  have z: "ar_long_buf regs = \<lparr>br_base = 0\<rparr>" "ar_routing regs = \<lparr>br_base = 0\<rparr>"
    using assms(2,3) by (cases "ar_long_buf regs"; cases "ar_routing regs"; simp)+
  have odd0: "odd e \<Longrightarrow> e \<noteq> (0 :: int)" for e by auto
  show ?thesis using assms(4) odd0
    by (auto simp: bram_to_init_def init_blocks_simps z bram_names_def Let_def case_prod_beta simp del: init_blocks.simps(2) split: if_splits)
qed

lemma arm_axi_init_blocks_lemma:
  assumes "nodes_ok oe" and "axiomnet_axi_init mm oe regs_zero h = (err, regs, h')"
  shows "(err = 0 \<longleftrightarrow> (\<exists>p. block_at oe ''registers'' 0 p) \<and> list_all (fifo_ok oe) fifo_names \<and>
      list_all (\<lambda>name. even (bram_err oe name)) bram_names) \<and>
    (err = 0 \<longrightarrow> block_at oe ''registers'' 0 (rg_base (ar_registers regs)) \<and> fifos_at oe regs \<and>
      (\<forall>p. block_at oe ''bram-long-buf'' 0 p \<longrightarrow> br_base (ar_long_buf regs) = p) \<and>
      (\<forall>p. block_at oe ''bram-routing'' 0 p \<longrightarrow> br_base (ar_routing regs) = p))"
proof -
  note reg = reg_init_result [OF assms(1), where name = "''registers''" and reg = "ar_registers regs_zero"]
  obtain e1 x1 where r: "axiomnet_reg_init oe ''registers'' (ar_registers regs_zero) = (e1, x1)" by fastforce
  let ?r1 = "regs_zero\<lparr>ar_registers := x1\<rparr>"
  obtain e2 x2 where g: "axiomnet_gpio_init oe ''gpio-debug'' (ar_debug regs_zero) = (e2, x2)" by fastforce
  let ?r2 = "?r1\<lparr>ar_debug := x2\<rparr>"
  obtain e3 r3 h3 where f: "init_blocks err_and_mandatory (axiomnet_fifo_init mm oe) fifo_to_init ?r2 h = (e3, r3, h3)" by (metis prod_cases3)
  obtain e4 r4 h4 where b: "init_blocks err_bitand_mandatory (\<lambda>name x h. let (err, x) = axiomnet_bram_init oe name x in (err, x, h))
      bram_to_init r3 h3 = (e4, r4, h4)" by (metis prod_cases3)
  have run: "fst (axiomnet_axi_init mm oe regs_zero h) = (if e1 \<noteq> 0 then e1 else if e3 \<noteq> 0 then e3 else e4)"
    "e1 = 0 \<Longrightarrow> e3 = 0 \<Longrightarrow> e4 = 0 \<Longrightarrow> fst (snd (axiomnet_axi_init mm oe regs_zero h)) = r4"
    unfolding axiomnet_axi_init_def using f b
    by (simp_all add: reg_to_init_def gpio_to_init_def init_blocks_simps r g Let_def del: init_blocks.simps(2))
  show ?thesis
  proof (cases "e1 = 0")
    case False
    then show ?thesis using run(1) assms(2) reg(1) r by auto
  next
    case e1: True
    then obtain p where p: "block_at oe ''registers'' 0 p" using reg(1) r by auto
    then have x1: "rg_base x1 = p" using reg(2) [OF p] r by simp
    from init_fifos_result [OF assms(1) f] have fr: "e3 = 0 \<longleftrightarrow> list_all (fifo_ok oe) fifo_names"
      "e3 = 0 \<Longrightarrow> fifos_at oe r3 \<and> ar_registers r3 = x1 \<and> br_base (ar_long_buf r3) = 0 \<and> br_base (ar_routing r3) = 0"
      by (auto simp: regs_zero_def Let_def)
    show ?thesis
    proof (cases "e3 = 0")
      case False
      then show ?thesis using run(1) assms(2) e1 fr(1) by auto
    next
      case True
      note br = init_brams_result [OF assms(1) _ _ b]
      have bases: "\<forall>p. block_at oe name 0 p \<longrightarrow> br_base (snd (axiomnet_bram_init oe name \<lparr>br_base = 0\<rparr>)) = p" for name
        using bram_init_result(2) [OF assms(1), of name] by simp
      from True run e1 assms(2) have "err = e4" "e4 = 0 \<longrightarrow> regs = r4" by auto
      then show ?thesis using br fr True p x1 bases by (auto simp: fifos_at_def)
    qed
  qed
qed

text \<open>
  Property C37. What \<open>axiomnet_axi_init\<close> demands of the device tree. It succeeds exactly when the register block and the four FIFOs are
  described completely and can be mapped, and the errors of the two memories, if any, are even numbers; the debug block is
  optional. On success registers and FIFOs are at the mapped addresses, with their interface type, and a
  memory is at its mapped address if it has one. The memories are declared mandatory too, but their errors are combined with the
  flag by a bitwise \<open>&\<close>, so that even error numbers are overlooked.
\<close>

theorem arm_axi_init_blocks:
  assumes "nodes_ok oe" and "axiomnet_axi_init mm oe regs_zero h = (err, regs, h')"
  shows "(err = 0 \<longleftrightarrow> (\<exists>p. block_at oe ''registers'' 0 p) \<and> list_all (fifo_ok oe) fifo_names \<and>
      list_all (\<lambda>name. even (bram_err oe name)) bram_names) \<and>
    (err = 0 \<longrightarrow> block_at oe ''registers'' 0 (rg_base (ar_registers regs)) \<and> fifos_at oe regs \<and>
      (\<forall>p. block_at oe ''bram-long-buf'' 0 p \<longrightarrow> br_base (ar_long_buf regs) = p) \<and>
      (\<forall>p. block_at oe ''bram-routing'' 0 p \<longrightarrow> br_base (ar_routing regs) = p))"
  by (rule arm_axi_init_blocks_lemma [OF assms])

text \<open>
  A memory that is described but cannot be mapped: its error number is the lower half of the address of its node, an even
  number, so the failure is overlooked and the error pointer is used as the base address.
\<close>

lemma bram_mapping_failure_overlooked:
  assumes "8 dvd unat (oe_phandle oe name)" "\<not> IS_ERR (oe_phandle oe name)" "oe_resource oe (oe_phandle oe name) 0 = (0, res)"
    and "IS_ERR (oe_ioremap oe res)"
  shows "even (bram_err oe name) \<and> IS_ERR (br_base (snd (axiomnet_bram_init oe name bram)))"
  using assms PTR_ERR_even [OF assms(1)] by (simp add: axiomnet_bram_init_def map_resource_def Let_def)

text \<open>The optional debug block likewise keeps an error pointer, which \<open>axiom_print_fpga_debug\<close> does not tell from an address.\<close>

lemma gpio_keeps_error_pointer:
  assumes "\<not> IS_ERR (oe_phandle oe name)" "oe_resource oe (oe_phandle oe name) 0 = (0, res)" "IS_ERR (oe_ioremap oe res)" "nodes_ok oe"
  shows "gp_base (snd (axiomnet_gpio_init oe name gpio)) = oe_ioremap oe res \<and> gp_base (snd (axiomnet_gpio_init oe name gpio)) \<noteq> 0"
proof -
  have "\<not> IS_ERR 0" by (simp add: IS_ERR_def)
  then have "oe_ioremap oe res \<noteq> 0" using assms(3) by metis
  with assms show ?thesis by (simp add: axiomnet_gpio_init_def map_resource_def Let_def nodes_ok_def)
qed

text \<open>A device tree with everything but the routing memory, which cannot be mapped.\<close>

definition demo_of :: of_env where
  "demo_of = \<lparr>oe_phandle = (\<lambda>name. if name = ''bram-routing'' then 0x8010 else 0x8000), oe_resource = (\<lambda>node i. (0, node + of_nat i)),
     oe_ioremap = (\<lambda>res. if res = 0x8010 then - 12 else 0x100000 + res), oe_u32 = (\<lambda>node prop. (0, 1)), oe_verbose = False\<rparr>"

definition null_mm :: "unit mmio" where
  "null_mm = \<lparr>ioread32 = (\<lambda>a h. (0, h)), iowrite32 = (\<lambda>x a h. h), readq = (\<lambda>a h. (0, h)), writeq = (\<lambda>x a h. h), schedule = (\<lambda>h. h)\<rparr>"

lemma demo_of_nodes: "nodes_ok demo_of"
  by (simp add: nodes_ok_def demo_of_def PTR_ERR_def)

lemma demo_of_at: "name \<noteq> ''bram-routing'' \<Longrightarrow> i < 2 \<Longrightarrow> block_at demo_of name i p \<longleftrightarrow> p = 0x108000 + of_nat i"
  by (auto simp: block_at_def demo_of_def IS_ERR_def less_2_cases_iff word_le_nat_alt)

lemma demo_of_blocks:
  "\<exists>p. block_at demo_of ''registers'' 0 p" "list_all (fifo_ok demo_of) fifo_names" "list_all (\<lambda>name. even (bram_err demo_of name)) bram_names"
proof -
  show "\<exists>p. block_at demo_of ''registers'' 0 p" by (simp add: demo_of_at)
  have "fifo_ok demo_of name" if "name \<in> set fifo_names" for name
  proof -
    from that have "name \<noteq> ''bram-routing''" by (auto simp: fifo_names_def)
    moreover have "fst (oe_u32 demo_of node q) = 0" for node q by (simp add: demo_of_def)
    ultimately show ?thesis by (simp add: fifo_ok_def demo_of_at)
  qed
  then show "list_all (fifo_ok demo_of) fifo_names" by (simp add: list_all_iff)
  have "even (bram_err demo_of ''bram-routing'')"
    by (simp add: axiomnet_bram_init_def map_resource_def demo_of_def IS_ERR_def PTR_ERR_def Let_def)
  moreover have "bram_err demo_of ''bram-long-buf'' = 0"
    using bram_init_result(1) [OF demo_of_nodes, of "''bram-long-buf''"] by (simp add: demo_of_at)
  ultimately show "list_all (\<lambda>name. even (bram_err demo_of name)) bram_names" by (simp add: bram_names_def)
qed

lemma demo_axi_init: "fst (axiomnet_axi_init null_mm demo_of regs_zero ()) = 0"
proof -
  obtain err regs h where run: "axiomnet_axi_init null_mm demo_of regs_zero () = (err, regs, h)" by (metis prod_cases3)
  with arm_axi_init_blocks_lemma [OF demo_of_nodes run] demo_of_blocks show ?thesis by simp
qed

theorem arm_axi_init_blocks_witness:
  "rg_base (ar_registers (fst (snd (axiomnet_axi_init null_mm demo_of regs_zero ())))) = 0x108000"
proof -
  obtain err regs h where run: "axiomnet_axi_init null_mm demo_of regs_zero () = (err, regs, h)" by (metis prod_cases3)
  with arm_axi_init_blocks [OF demo_of_nodes run] demo_axi_init have "block_at demo_of ''registers'' 0 (rg_base (ar_registers regs))" by simp
  with run demo_of_at [of "''registers''" 0] show ?thesis by simp
qed

section \<open>Probing a platform device\<close>

lemma pl_simps [simp]:
  "pl_live (pl_take r st) = insert r (pl_live st)" "pl_live (pl_drop r st) = pl_live st - {r}"
  "pl_probe (pl_take r st) = pl_probe st" "pl_probe (pl_drop r st) = pl_probe st"
  by (simp_all add: pl_take_def pl_drop_def)

text \<open>The common driver may be probed: none of its resources is held.\<close>

definition common_free :: "('d, 'u) probe_st \<Rightarrow> bool" where
  "common_free ps \<longleftrightarrow> ps_live ps \<inter> (dev_nodes \<union> sys_tree UNIV \<union> {IoMap}) = {} \<and> \<not> ps_chrdev ps"

text \<open>The common driver holds nothing: it was not started, or has given everything back.\<close>

definition common_off :: "('d, 'u) probe_st \<Rightarrow> ('d, 'u) probe_st \<Rightarrow> bool" where
  "common_off ps ps' \<longleftrightarrow> ps' = ps \<or> gave_back (ps_live ps) ps'"

text \<open>
  Probe result of a platform driver that held \<open>{PlatData}\<close>: everything is held and the common driver is ready,
  and removing gives all of it back; or nothing is held.
\<close>

definition plat_result :: "'d hw_api \<Rightarrow> ('d, 'u) probe_st \<Rightarrow> int \<Rightarrow> ('d, 'u) plat_st \<Rightarrow> bool" where
  "plat_result hw ps err st' \<longleftrightarrow>
     (err = 0 \<longrightarrow> pl_live st' = {PlatData, HwDev, IrqLine} \<and> driver_ready (ps_drv (pl_probe st')) \<and>
        pl_live (snd (axiomnet_arm_remove hw st')) = {} \<and> gave_back (ps_live ps) (pl_probe (snd (axiomnet_arm_remove hw st')))) \<and>
     (err \<noteq> 0 \<longrightarrow> pl_live st' = {} \<and> common_off ps (pl_probe st'))"

lemma arm_probe_device_result:
  assumes "env_ok (pe_common env)" "common_free (pl_probe st)" "\<not> pe_early_irq env" "pl_live st = {PlatData}"
  shows "\<exists>err st'. arm_probe_device hw (Some dev) env st = Some (err, st') \<and> plat_result hw (pl_probe st) err st' \<and>
    (pe_request_irq env = 0 \<longrightarrow> grants (pe_common env) \<longrightarrow> fst (hw_check_version hw (hw_disable_irq hw dev)) = 0 \<longrightarrow> err = 0)"
proof (cases "pe_request_irq env = 0")
  case False
  then show ?thesis using assms(4)
    by (simp add: arm_probe_device_def plat_result_def common_off_def arm_free_hw_dev_def arm_free_local_def EIO_def)
next
  case True
  from assms(2) have free: "ps_live (pl_probe st) \<inter> (dev_nodes \<union> sys_tree UNIV \<union> {IoMap}) = {}" "\<not> ps_chrdev (pl_probe st)"
    by (simp_all add: common_free_def)
  from probe_returns [OF assms(1) free, where hw = hw and dev = "hw_disable_irq hw dev"] obtain r ps where
    ps: "axiomnet_probe hw (pe_common env) (hw_disable_irq hw dev) (pl_probe st) = Some (r, ps)" "probe_result (ps_live (pl_probe st)) r ps"
      "grants (pe_common env) \<longrightarrow> fst (hw_check_version hw (hw_disable_irq hw dev)) = 0 \<longrightarrow> r = 0" by blast
  let ?st = "(pl_take IrqLine (pl_take HwDev st))\<lparr>pl_probe := ps\<rparr>"
  have run: "arm_probe_device hw (Some dev) env st = Some (if r \<noteq> 0 then (r, arm_free_irq ?st) else (0, ?st))"
    using True assms(3) ps(1) by (simp add: arm_probe_device_def Let_def)
  show ?thesis
  proof (cases "r = 0")
    case r: True
    with ps(2) obtain m where m: "m \<subseteq> {IoMap}" "driver_ready (ps_drv ps)"
      "ps_live ps = ps_live (pl_probe st) \<union> dev_nodes \<union> (if sf_dev (ps_sysfs ps) = 0 then {} else sys_tree UNIV) \<union> m"
      by (auto simp: probe_result_def)
    have "gave_back (ps_live (pl_probe st)) (snd (axiomnet_remove hw ps))" by (rule remove_gives_back [OF free(1) m(3,1)])
    then have "plat_result hw (pl_probe st) 0 ?st"
      using assms(4) m(2) by (auto simp: plat_result_def axiomnet_arm_remove_def Let_def case_prod_beta)
    with run r show ?thesis by simp
  next
    case False
    then have "plat_result hw (pl_probe st) r (arm_free_irq ?st)"
      using assms(4) ps(2) by (simp add: plat_result_def common_off_def probe_result_def arm_free_irq_def arm_free_hw_dev_def arm_free_local_def)
    with run False ps(3) show ?thesis by auto
  qed
qed


definition willing_kernel :: "'d init_env" where
  "willing_kernel = (let k = demo_env (Inr 8) in \<lparr>ie_print = (\<lambda>v. v), ie_node = ie_node k, ie_sysfs = ie_sysfs k, ie_mok = ie_mok k, ie_junk = ie_junk k,
     ie_kcalloc = ie_kcalloc k, ie_kthread = ie_kthread k, ie_app = ie_app k, ie_nic = ie_nic k, ie_ioremap = ie_ioremap k,
     ie_region = ie_region k, ie_cdev = ie_cdev k, ie_class = ie_class k\<rparr>)"

definition demo_plat :: "int \<Rightarrow> 'd plat_env" where
  "demo_plat ret = \<lparr>pe_kzalloc = True, pe_vmalloc = True, pe_request_irq = ret, pe_early_irq = False, pe_common = willing_kernel\<rparr>"

definition plat_new :: "'d \<Rightarrow> ('d, u64 \<Rightarrow> u8 option) plat_st" where
  "plat_new dev = \<lparr>pl_probe = \<lparr>ps_drv = drvdata_zero dev (\<lambda>_. None) (\<lambda>_. 0), ps_sysfs = sysfs_zero, ps_chrdev = False, ps_live = {}\<rparr>, pl_live = {}\<rparr>"

lemma willing_kernel_ok: "env_ok willing_kernel" "grants willing_kernel"
  by (simp_all add: env_ok_def grants_def willing_kernel_def demo_env_def Let_def)

definition demo_adev :: "unit arm64_dev" where
  "demo_adev = \<lparr>ad_next_raw_id = 0, ad_hw = ()\<rparr>"


text \<open>The driver for QEMU likewise.\<close>

lemma qemu_probe_all_or_nothing:
  assumes "env_ok (pe_common env)" "common_free (pl_probe st)" "pl_live st = {}" "pe_vmalloc env" "\<not> pe_early_irq env"
    and "IS_ERR vregs \<Longrightarrow> PTR_ERR vregs \<noteq> 0"
  shows "\<exists>err st'. qemu_arm_probe io m32 vregs env h st = Some (err, st') \<and> plat_result (qemu_hw io vregs m32) (pl_probe st) err st'"
proof -
  have "common_free (pl_probe (pl_take PlatData st))" "pl_live (pl_take PlatData st) = {PlatData}" using assms by simp_all
  note dev = arm_probe_device_result [OF assms(1) this(1) assms(5) this(2), where hw = "qemu_hw io vregs m32" and dev = "\<lparr>qd_next_raw_id = 0, qd_hw = h\<rparr>"]
  consider "\<not> pe_kzalloc env" | "pe_kzalloc env" "IS_ERR vregs" | "pe_kzalloc env" "\<not> IS_ERR vregs" by blast
  then show ?thesis
  proof cases
    case 3
    then have "qemu_arm_probe io m32 vregs env h st = arm_probe_device (qemu_hw io vregs m32) (Some \<lparr>qd_next_raw_id = 0, qd_hw = h\<rparr>) env (pl_take PlatData st)"
      using assms(4) by (simp add: qemu_arm_probe_def qemu_hw_dev_alloc_def)
    with dev show ?thesis by (simp only: pl_simps) blast
  qed (use assms(3,6) in \<open>simp_all add: qemu_arm_probe_def plat_result_def common_off_def arm_free_local_def ENOMEM_def\<close>)
qed

text \<open>
  A shared interrupt that arrives before the common driver has set its device follows a \<open>NULL\<close> pointer; the probe for x86
  keeps the hardware device when the common probe fails.
\<close>

lemma early_irq_crashes: "pe_request_irq env = 0 \<Longrightarrow> pe_early_irq env \<Longrightarrow> arm_probe_device hw (Some dev) env st = None"
  by (simp add: arm_probe_device_def Let_def)

lemma x86_probe_leaks:
  assumes "pe_kzalloc env" "axiomnet_probe hw (pe_common env) (hw_disable_irq hw dev) (pl_probe st) = Some (err, ps)" "err \<noteq> 0"
  shows "\<exists>st'. axiomnet_x86_probe hw (Some dev) env st = Some (err, st') \<and> HwDev \<in> pl_live st'"
  using assms by (simp add: axiomnet_x86_probe_def x86_free_local_def Let_def)

section \<open>Loading and unloading\<close>

text \<open>
  Loading and unloading the module: when the registration with the bus is refused, or the module is unloaded again, only the device number
  region of the common part stays behind.
\<close>

lemma arm_module_lifecycle:
  assumes "live \<inter> insert ChrRegion (insert DevClass (range Cdev)) = {}"
    and "ie_cdev env 0 \<le> 0" "ie_cdev env 1 \<le> 0" "ie_cdev env 2 \<le> 0" "ie_cdev env 3 \<le> 0"
    and "axiomnet_arm_init env reg (live, False) = (err, st)" "fst (axiomnet_init env live) = 0"
  shows "(reg \<noteq> 0 \<longrightarrow> err = reg \<and> st = (insert ChrRegion live, False)) \<and>
    (reg = 0 \<longrightarrow> err = 0 \<and> snd st \<and> axiomnet_arm_cleanup st = (insert ChrRegion live, False))"
proof -
  obtain live' where i: "axiomnet_init env live = (0, live')" using assms(7) by (cases "axiomnet_init env live") auto
  have "axiomnet_cleanup live' = insert ChrRegion live" by (rule module_leaks_region [OF i assms(1-5)])
  moreover have "axiomnet_arm_init env reg (live, False) = (if reg \<noteq> 0 then (reg, axiomnet_cleanup live', False) else (0, live', True))"
    using i by (simp add: axiomnet_arm_init_def)
  ultimately have "axiomnet_cleanup live' = insert ChrRegion live"
      "(err, st) = (if reg \<noteq> 0 then (reg, insert ChrRegion live, False) else (0, live', True))" using assms(6) by simp_all
  then show ?thesis by (cases "reg = 0") (simp_all add: axiomnet_arm_cleanup_def)
qed

end
