(* ===== verification/DriverIoctl.thy ===== *)
theory DriverIoctl
  imports LongIo
begin

text \<open>
  The system call layer (\<open>axiom_netdev_driver/axiom_netdev_common.c\<close>, lines 2035 to 2525, and the
  argument structures of \<open>axiom_netdev_driver/axiom_netdev_user.h\<close>): polling and the four \<open>ioctl\<close>
  handlers. An argument structure is decoded from the bytes at the user's address at the offsets of
  the 64-bit ABI, and written back byte by byte. The file's \<open>drvdata\<close> pointer is never \<open>NULL\<close> after a
  successful open, so the test for it has no branch here.
\<close>

section \<open>Polling\<close>

abbreviation (input) POLLIN :: u32 where "POLLIN \<equiv> 0x0001"
abbreviation (input) POLLOUT :: u32 where "POLLOUT \<equiv> 0x0004"
abbreviation (input) POLLRDNORM :: u32 where "POLLRDNORM \<equiv> 0x0040"
abbreviation (input) POLLWRNORM :: u32 where "POLLWRNORM \<equiv> 0x0100"

text \<open>\<open>poll_wait\<close> only registers the caller with a wait queue; an index outside the ports is undefined.\<close>

definition axiomnet_poll_raw :: "'d hw_api \<Rightarrow> priv \<Rightarrow> u32 \<Rightarrow> ('d, 'u) drvdata \<Rightarrow> (u32 \<times> ('d, 'u) drvdata) option" where
  "axiomnet_poll_raw hw pr events d =
     (let port = bind_port pr;
          (ret, d) = (if events AND POLLOUT \<noteq> 0 then
              let d = inc_stat poll_raw_tx d; (n, d) = axiomnet_raw_tx_avail hw d in
              if n \<noteq> 0 then (POLLOUT OR POLLWRNORM, inc_stat poll_avail_raw_tx d) else (0, d)
            else (0, d)) in
      if events AND POLLIN \<noteq> 0 \<and> port \<noteq> AXIOMNET_PORT_INVALID then do {
        p \<leftarrow> get_port (RawRx port) d;
        (b, d) \<leftarrow> axiomnet_raw_rx_avail port (inc_stat poll_raw_rx d);
        Some (if b then (ret OR POLLIN OR POLLRDNORM, inc_stat poll_avail_raw_rx d) else (ret, d)) }
      else Some (ret, d))"

definition axiomnet_poll_rdma :: "'d hw_api \<Rightarrow> priv \<Rightarrow> u32 \<Rightarrow> ('d, 'u) drvdata \<Rightarrow> (u32 \<times> ('d, 'u) drvdata) option" where
  "axiomnet_poll_rdma hw pr events d =
     Some (if events AND POLLOUT \<noteq> 0 then
         let d = inc_stat poll_rdma_tx d; (b, d) = axiomnet_rdma_tx_avail hw d in
         if b then (POLLOUT OR POLLWRNORM, inc_stat poll_avail_rdma_tx d) else (0, d)
       else (0, d))"

definition axiomnet_poll_long :: "'d hw_api \<Rightarrow> priv \<Rightarrow> u32 \<Rightarrow> ('d, 'u) drvdata \<Rightarrow> (u32 \<times> ('d, 'u) drvdata) option" where
  "axiomnet_poll_long hw pr events d = do {
     let port = bind_port pr;
     (ret, d) \<leftarrow> (if events AND POLLOUT \<noteq> 0 then do {
         (b, d) \<leftarrow> axiomnet_long_tx_avail (inc_stat poll_long_tx d);
         let (b, d) = (if b then axiomnet_rdma_tx_avail hw d else (False, d));
         Some (if b then (POLLOUT OR POLLWRNORM, inc_stat poll_avail_long_tx d) else (0, d)) }
       else Some (0, d));
     if events AND POLLIN \<noteq> 0 \<and> port \<noteq> AXIOMNET_PORT_INVALID then do {
       p \<leftarrow> get_port (LongRx port) d;
       (b, d) \<leftarrow> axiomnet_long_rx_avail port (inc_stat poll_long_rx d);
       Some (if b then (ret OR POLLIN OR POLLRDNORM, inc_stat poll_avail_long_rx d) else (ret, d)) }
     else Some (ret, d) }"

section \<open>Argument structures\<close>

datatype ioctl_cmd =
    AXNET_SET_NODEID | AXNET_GET_NODEID | AXNET_SET_ROUTING | AXNET_GET_ROUTING | AXNET_GET_IFNUMBER
  | AXNET_GET_IFINFO | AXNET_GET_STATUS | AXNET_SET_CONTROL | AXNET_GET_CONTROL | AXNET_BIND
  | AXNET_SEND_RAW | AXNET_RECV_RAW | AXNET_SEND_RAW_AVAIL | AXNET_RECV_RAW_AVAIL | AXNET_FLUSH_RAW
  | AXNET_RDMA_SIZE | AXNET_RDMA_WRITE | AXNET_RDMA_READ | AXNET_SEND_LONG | AXNET_RECV_LONG
  | AXNET_SEND_LONG_AVAIL | AXNET_RECV_LONG_AVAIL | AXNET_FLUSH_LONG | AXNET_SEND_RAW_IOV
  | AXNET_RECV_RAW_IOV | AXNET_SEND_LONG_IOV | AXNET_RECV_LONG_IOV | AXNET_RDMA_CHECK
  | AXNET_RDMA_WAIT | AXNET_GET_STATS | AXNET_DEBUG_INFO | AXNET_UNKNOWN

text \<open>
  The local variables whose addresses matter for the user copies: the argument structure, the array
  \<open>iov\<close>, the message of \<open>axiomnet_raw_send\<close> and the token of \<open>axiomnet_rdma_wait\<close>; the address of the
  statistics in the driver structure; and what \<open>vmalloc\<close> returns.
\<close>

record ioctl_locals =
  il_buf :: u64
  il_iov :: u64
  il_raw :: "u64 \<times> u8 list"
  il_token :: u64
  il_stats :: u64
  il_vmalloc :: "u64 \<Rightarrow> u64 option"

text \<open>
  \<open>axiom_copy_from_user\<close> into a local of \<open>n\<close> bytes: writing behind it is undefined behaviour, and the
  inner option is the \<open>-EFAULT\<close> of the handlers.
\<close>

definition copy_struct :: "'u uaccess \<Rightarrow> 'u \<Rightarrow> u64 \<Rightarrow> u64 \<Rightarrow> u64 \<Rightarrow> nat \<Rightarrow> u8 list option option" where
  "copy_struct ua u kbuf argp n sz =
     (let (ret, bs) = axiom_copy_from_user ua u kbuf argp n in
      if sz < length bs then None else Some (if ret \<noteq> 0 then None else Some bs))"

definition put_struct :: "'u uaccess \<Rightarrow> u64 \<Rightarrow> u64 \<Rightarrow> u8 list \<Rightarrow> ('d, 'u) drvdata \<Rightarrow> (bool \<times> ('d, 'u) drvdata) option" where
  "put_struct ua kbuf argp bs d = do {
     (ret, u) \<leftarrow> axiom_copy_to_user ua (user_mem d) argp kbuf bs (of_nat (length bs));
     Some (ret \<noteq> 0, d\<lparr>user_mem := u\<rparr>) }"

text \<open>\<open>get_user\<close> and \<open>put_user\<close>, whose results the handlers ignore; a failed \<open>get_user\<close> yields 0.\<close>

definition get_user :: "'u uaccess \<Rightarrow> 'u \<Rightarrow> u64 \<Rightarrow> nat \<Rightarrow> u8 list" where
  "get_user ua u argp n = (if ua_access_ok ua argp (of_nat n) then get_user_loop ua u argp n else replicate n 0)"

definition put_user :: "'u uaccess \<Rightarrow> u64 \<Rightarrow> u8 list \<Rightarrow> ('d, 'u) drvdata \<Rightarrow> ('d, 'u) drvdata option" where
  "put_user ua argp bs d =
     (if ua_access_ok ua argp (of_nat (length bs)) then do {
        u \<leftarrow> put_user_loop ua (user_mem d) argp bs (length bs);
        Some (d\<lparr>user_mem := u\<rparr>) }
      else Some d)"

definition ptr_at :: "nat \<Rightarrow> u8 list \<Rightarrow> u64" where "ptr_at off bs = le_word (take 8 (drop off bs))"
definition u32_at :: "nat \<Rightarrow> u8 list \<Rightarrow> u32" where "u32_at off bs = le_word (take 4 (drop off bs))"

fun iovs_of :: "nat \<Rightarrow> u8 list \<Rightarrow> iovec list" where
  "iovs_of 0 bs = []"
| "iovs_of (Suc n) bs = \<lparr>iov_base = ptr_at 0 bs, iov_len = ptr_at 8 bs\<rparr> # iovs_of n (drop 16 bs)"

text \<open>The user's \<open>iovec\<close> array: an error code or the vectors. A negative count passes the first test.\<close>

definition copy_iov :: "'u uaccess \<Rightarrow> 'u \<Rightarrow> u64 \<Rightarrow> u64 \<Rightarrow> int \<Rightarrow> (int + iovec list) option" where
  "copy_iov ua u kbuf iov iovcnt =
     (if iovcnt > AXIOMNET_MAX_IOVEC then Some (Inl (- EFBIG))
      else do {
        r \<leftarrow> copy_struct ua u kbuf iov (of_int iovcnt * 16) (16 * nat AXIOMNET_MAX_IOVEC);
        Some (case r of None \<Rightarrow> Inl (- EFAULT) | Some bs \<Rightarrow> Inr (iovs_of (nat iovcnt) bs)) })"

definition ioctl_bind :: "'u uaccess \<Rightarrow> ioctl_locals \<Rightarrow> (priv \<Rightarrow> ('d, 'u) drvdata \<Rightarrow> (int \<times> ('d, 'u) drvdata) option) \<Rightarrow>
    u64 \<Rightarrow> priv \<Rightarrow> ('d, 'u) drvdata \<Rightarrow> (int \<times> priv \<times> ('d, 'u) drvdata) option" where
  "ioctl_bind ua loc flush arg pr d = do {
     b \<leftarrow> copy_struct ua (user_mem d) (il_buf loc) arg 2 2;
     case b of
       None \<Rightarrow> Some (- EFAULT, pr, d)
     | Some bs \<Rightarrow> do {
         (ret, port, pr, d) \<leftarrow> axiomnet_bind pr (bs ! 0) d;
         if ret \<noteq> 0 then Some (ret, pr, d)
         else do {
           (ret, d) \<leftarrow> (if bs ! 1 \<noteq> 0 then flush pr d else Some (0, d));
           if ret \<noteq> 0 then Some (ret, pr, d)
           else do {
             (err, d) \<leftarrow> put_struct ua (il_buf loc) arg [port, bs ! 1] d;
             Some (if err then - EFAULT else 0, pr, d) } } } }"

section \<open>The handlers\<close>

type_synonym ('d, 'u) ioctl_result = "(int \<times> priv \<times> ('d, 'u) drvdata wait_ev list \<times> ('d, 'u) drvdata) option"

text \<open>Send and receive of the RAW handler: \<open>hdr\<close> bytes in front of the pointer are header and padding.\<close>

definition ioctl_raw_recv :: "'u uaccess \<Rightarrow> ioctl_locals \<Rightarrow> bool \<Rightarrow> u64 \<Rightarrow> u8 list \<Rightarrow> iovec list \<Rightarrow> priv \<Rightarrow>
    ('d, 'u) drvdata wait_ev list \<Rightarrow> ('d, 'u) drvdata \<Rightarrow> ('d, 'u) ioctl_result" where
  "ioctl_raw_recv ua loc nonblock arg bs iov pr env d = do {
     (ret, h, env, d) \<leftarrow> axiomnet_raw_recv ua nonblock pr (raw_hdr_of_bytes bs) iov env d;
     if ret < 0 then Some (ret, pr, env, d)
     else do {
       (err, d) \<leftarrow> put_struct ua (il_buf loc) arg (raw_hdr_bytes h @ drop 5 bs) d;
       Some (if err then - EFAULT else 0, pr, env, d) } }"

definition axiomnet_ioctl_raw :: "'d hw_api \<Rightarrow> 'u uaccess \<Rightarrow> ioctl_locals \<Rightarrow> bool \<Rightarrow> ioctl_cmd \<Rightarrow> u64 \<Rightarrow> priv \<Rightarrow>
    ('d, 'u) drvdata wait_ev list \<Rightarrow> ('d, 'u) drvdata \<Rightarrow> ('d, 'u) ioctl_result" where
  "axiomnet_ioctl_raw hw ua loc nonblock cmd arg pr env d = (case cmd of
     AXNET_BIND \<Rightarrow> do {
       (ret, pr, d) \<leftarrow> ioctl_bind ua loc axiomnet_raw_flush arg pr d;
       Some (ret, pr, env, d) }
   | AXNET_SEND_RAW \<Rightarrow> do {
       b \<leftarrow> copy_struct ua (user_mem d) (il_buf loc) arg 16 16;
       case b of
         None \<Rightarrow> Some (- EFAULT, pr, env, d)
       | Some bs \<Rightarrow> do {
           let h = raw_hdr_of_bytes bs;
           (ret, env, d) \<leftarrow> axiomnet_raw_send hw ua (il_raw loc) nonblock h
              [\<lparr>iov_base = ptr_at 8 bs, iov_len = ucast (rh_payload_size h)\<rparr>] env d;
           Some (ret, pr, env, d) } }
   | AXNET_SEND_RAW_IOV \<Rightarrow> do {
       b \<leftarrow> copy_struct ua (user_mem d) (il_buf loc) arg 24 24;
       case b of
         None \<Rightarrow> Some (- EFAULT, pr, env, d)
       | Some bs \<Rightarrow> do {
           r \<leftarrow> copy_iov ua (user_mem d) (il_iov loc) (ptr_at 8 bs) (sint (u32_at 16 bs));
           case r of
             Inl err \<Rightarrow> Some (err, pr, env, d)
           | Inr iov \<Rightarrow> do {
               (ret, env, d) \<leftarrow> axiomnet_raw_send hw ua (il_raw loc) nonblock (raw_hdr_of_bytes bs) iov env d;
               Some (ret, pr, env, d) } } }
   | AXNET_RECV_RAW \<Rightarrow> do {
       b \<leftarrow> copy_struct ua (user_mem d) (il_buf loc) arg 16 16;
       case b of
         None \<Rightarrow> Some (- EFAULT, pr, env, d)
       | Some bs \<Rightarrow> ioctl_raw_recv ua loc nonblock arg bs
           [\<lparr>iov_base = ptr_at 8 bs, iov_len = ucast (rh_payload_size (raw_hdr_of_bytes bs))\<rparr>] pr env d }
   | AXNET_RECV_RAW_IOV \<Rightarrow> do {
       b \<leftarrow> copy_struct ua (user_mem d) (il_buf loc) arg 24 24;
       case b of
         None \<Rightarrow> Some (- EFAULT, pr, env, d)
       | Some bs \<Rightarrow> do {
           r \<leftarrow> copy_iov ua (user_mem d) (il_iov loc) (ptr_at 8 bs) (sint (u32_at 16 bs));
           case r of
             Inl err \<Rightarrow> Some (err, pr, env, d)
           | Inr iov \<Rightarrow> ioctl_raw_recv ua loc nonblock arg bs iov pr env d } }
   | AXNET_SEND_RAW_AVAIL \<Rightarrow> do {
       let (n, d) = axiomnet_raw_tx_avail hw d;
       d \<leftarrow> put_user ua arg (le_bytes 4 (of_int n :: u32)) d;
       Some (0, pr, env, d) }
   | AXNET_RECV_RAW_AVAIL \<Rightarrow>
       (let port = axiomnet_check_port pr in
        if port < 0 then Some (port, pr, env, d)
        else do {
          (b, d) \<leftarrow> axiomnet_raw_rx_avail port d;
          d \<leftarrow> put_user ua arg (le_bytes 4 (of_bool b :: u32)) d;
          Some (0, pr, env, d) })
   | AXNET_FLUSH_RAW \<Rightarrow> do {
       (ret, d) \<leftarrow> axiomnet_raw_flush pr d;
       Some (ret, pr, env, d) }
   | _ \<Rightarrow> Some (- EINVAL, pr, env, d))"

definition ioctl_long_recv :: "'d hw_api \<Rightarrow> 'u uaccess \<Rightarrow> ioctl_locals \<Rightarrow> bool \<Rightarrow> u64 \<Rightarrow> u8 list \<Rightarrow> iovec list \<Rightarrow> priv \<Rightarrow>
    ('d, 'u) drvdata wait_ev list \<Rightarrow> ('d, 'u) drvdata \<Rightarrow> ('d, 'u) ioctl_result" where
  "ioctl_long_recv hw ua loc nonblock arg bs iov pr env d = do {
     (ret, h, env, d) \<leftarrow> axiomnet_long_recv hw ua nonblock pr (rdma_hdr_of_bytes bs) iov env d;
     if ret < 0 then Some (ret, pr, env, d)
     else do {
       (err, d) \<leftarrow> put_struct ua (il_buf loc) arg (rdma_hdr_bytes h @ drop 16 bs) d;
       Some (if err then - EFAULT else 0, pr, env, d) } }"

definition axiomnet_ioctl_long :: "'d hw_api \<Rightarrow> 'u uaccess \<Rightarrow> ioctl_locals \<Rightarrow> bool \<Rightarrow> ioctl_cmd \<Rightarrow> u64 \<Rightarrow> priv \<Rightarrow>
    ('d, 'u) drvdata wait_ev list \<Rightarrow> ('d, 'u) drvdata \<Rightarrow> ('d, 'u) ioctl_result" where
  "axiomnet_ioctl_long hw ua loc nonblock cmd arg pr env d = (case cmd of
     AXNET_BIND \<Rightarrow> do {
       (ret, pr, d) \<leftarrow> ioctl_bind ua loc (axiomnet_long_flush hw) arg pr d;
       Some (ret, pr, env, d) }
   | AXNET_SEND_LONG \<Rightarrow> do {
       b \<leftarrow> copy_struct ua (user_mem d) (il_buf loc) arg 24 24;
       case b of
         None \<Rightarrow> Some (- EFAULT, pr, env, d)
       | Some bs \<Rightarrow> do {
           let h = rdma_hdr_of_bytes bs;
           (ret, env, d) \<leftarrow> axiomnet_long_send hw ua nonblock h
              [\<lparr>iov_base = ptr_at 16 bs, iov_len = ucast (dh_payload_size h)\<rparr>] env d;
           Some (ret, pr, env, d) } }
   | AXNET_SEND_LONG_IOV \<Rightarrow> do {
       b \<leftarrow> copy_struct ua (user_mem d) (il_buf loc) arg 32 32;
       case b of
         None \<Rightarrow> Some (- EFAULT, pr, env, d)
       | Some bs \<Rightarrow> do {
           r \<leftarrow> copy_iov ua (user_mem d) (il_iov loc) (ptr_at 16 bs) (sint (u32_at 24 bs));
           case r of
             Inl err \<Rightarrow> Some (err, pr, env, d)
           | Inr iov \<Rightarrow> do {
               (ret, env, d) \<leftarrow> axiomnet_long_send hw ua nonblock (rdma_hdr_of_bytes bs) iov env d;
               Some (ret, pr, env, d) } } }
   | AXNET_RECV_LONG \<Rightarrow> do {
       b \<leftarrow> copy_struct ua (user_mem d) (il_buf loc) arg 24 24;
       case b of
         None \<Rightarrow> Some (- EFAULT, pr, env, d)
       | Some bs \<Rightarrow> ioctl_long_recv hw ua loc nonblock arg bs
           [\<lparr>iov_base = ptr_at 16 bs, iov_len = ucast (dh_payload_size (rdma_hdr_of_bytes bs))\<rparr>] pr env d }
   | AXNET_RECV_LONG_IOV \<Rightarrow> do {
       b \<leftarrow> copy_struct ua (user_mem d) (il_buf loc) arg 32 32;
       case b of
         None \<Rightarrow> Some (- EFAULT, pr, env, d)
       | Some bs \<Rightarrow> do {
           r \<leftarrow> copy_iov ua (user_mem d) (il_iov loc) (ptr_at 16 bs) (sint (u32_at 24 bs));
           case r of
             Inl err \<Rightarrow> Some (err, pr, env, d)
           | Inr iov \<Rightarrow> ioctl_long_recv hw ua loc nonblock arg bs iov pr env d } }
   | AXNET_SEND_LONG_AVAIL \<Rightarrow> do {
       (b, d) \<leftarrow> axiomnet_long_tx_avail d;
       let (b, d) = (if b then axiomnet_rdma_tx_avail hw d else (False, d));
       d \<leftarrow> put_user ua arg (le_bytes 4 (of_bool b :: u32)) d;
       Some (0, pr, env, d) }
   | AXNET_RECV_LONG_AVAIL \<Rightarrow>
       (let port = axiomnet_check_port pr in
        if port < 0 then Some (port, pr, env, d)
        else do {
          (b, d) \<leftarrow> axiomnet_long_rx_avail port d;
          d \<leftarrow> put_user ua arg (le_bytes 4 (of_bool b :: u32)) d;
          Some (0, pr, env, d) })
   | AXNET_FLUSH_LONG \<Rightarrow> do {
       (ret, d) \<leftarrow> axiomnet_long_flush hw pr d;
       Some (ret, pr, env, d) }
   | _ \<Rightarrow> Some (- EINVAL, pr, env, d))"

text \<open>
  The addresses of an RDMA request: offsets from the memory allocator driver (\<open>v2o\<close> stands for
  \<open>axiom_mem_dev_virt2off\<close>: application, address and size to error code and offset), or the user's
  values themselves on a file that has mapped the RDMA zone.
\<close>

definition rdma_addrs :: "(int \<Rightarrow> u64 \<Rightarrow> u64 \<Rightarrow> int \<times> u64) \<Rightarrow> priv \<Rightarrow> u8 list \<Rightarrow> rdma_hdr option" where
  "rdma_addrs v2o pr bs =
     (let h = rdma_hdr_of_bytes bs; src = ptr_at 24 bs; dst = ptr_at 32 bs; app = sint (u32_at 44 bs);
          n = ucast (dh_payload_size h) in
      if rdma_debug pr = 0 then
        case v2o app src n of (r, so) \<Rightarrow>
          if r \<noteq> 0 then None
          else case v2o app dst n of (r, dof) \<Rightarrow>
            if r \<noteq> 0 then None else Some (h\<lparr>dh_addr0 := ucast so, dh_addr1 := ucast dof\<rparr>)
      else Some (h\<lparr>dh_addr0 := ucast src, dh_addr1 := ucast dst\<rparr>))"

definition ioctl_rdma_tx :: "'d hw_api \<Rightarrow> 'u uaccess \<Rightarrow> (int \<Rightarrow> u64 \<Rightarrow> u64 \<Rightarrow> int \<times> u64) \<Rightarrow> ioctl_locals \<Rightarrow> bool \<Rightarrow> u64 \<Rightarrow> priv \<Rightarrow>
    ('d, 'u) drvdata wait_ev list \<Rightarrow> ('d, 'u) drvdata \<Rightarrow> ('d, 'u) ioctl_result" where
  "ioctl_rdma_tx hw ua v2o loc nonblock arg pr env d = do {
     b \<leftarrow> copy_struct ua (user_mem d) (il_buf loc) arg 48 48;
     case b of
       None \<Rightarrow> Some (- EFAULT, pr, env, d)
     | Some bs \<Rightarrow> (case rdma_addrs v2o pr bs of
         None \<Rightarrow> Some (- EFAULT, pr, env, d)
       | Some h \<Rightarrow> do {
           (ret, h, tok, env, d) \<leftarrow> axiomnet_rdma_tx hw nonblock h (Some (ptr_at 16 bs)) None (u32_at 40 bs) env d;
           if ret < 0 then Some (ret, pr, env, d)
           else do {
             tok \<leftarrow> tok;
             (err, d) \<leftarrow> put_struct ua (il_buf loc) arg (rdma_hdr_bytes h @ le_bytes 8 tok @ drop 24 bs) d;
             Some (if err then - EFAULT else ret, pr, env, d) } }) }"

definition axiomnet_ioctl_rdma :: "'d hw_api \<Rightarrow> 'u uaccess \<Rightarrow> (int \<Rightarrow> u64 \<Rightarrow> u64 \<Rightarrow> int \<times> u64) \<Rightarrow> ioctl_locals \<Rightarrow> bool \<Rightarrow>
    ioctl_cmd \<Rightarrow> u64 \<Rightarrow> priv \<Rightarrow> ('d, 'u) drvdata wait_ev list \<Rightarrow> ('d, 'u) drvdata \<Rightarrow> ('d, 'u) ioctl_result" where
  "axiomnet_ioctl_rdma hw ua v2o loc nonblock cmd arg pr env d = (case cmd of
     AXNET_RDMA_SIZE \<Rightarrow> do {
       d \<leftarrow> put_user ua arg (le_bytes 8 (rdma_size d)) d;
       Some (0, pr, env, d) }
   | AXNET_RDMA_WRITE \<Rightarrow> ioctl_rdma_tx hw ua v2o loc nonblock arg pr env d
   | AXNET_RDMA_READ \<Rightarrow> ioctl_rdma_tx hw ua v2o loc nonblock arg pr env d
   | AXNET_RDMA_CHECK \<Rightarrow> do {
       b \<leftarrow> copy_struct ua (user_mem d) (il_buf loc) arg 16 16;
       case b of
         None \<Rightarrow> Some (- EFAULT, pr, env, d)
       | Some bs \<Rightarrow> do {
           (ret, d) \<leftarrow> axiomnet_rdma_check ua (il_vmalloc loc) (ptr_at 0 bs) (sint (u32_at 8 bs)) d;
           Some (ret, pr, env, d) } }
   | AXNET_RDMA_WAIT \<Rightarrow> do {
       b \<leftarrow> copy_struct ua (user_mem d) (il_buf loc) arg 16 16;
       case b of
         None \<Rightarrow> Some (- EFAULT, pr, env, d)
       | Some bs \<Rightarrow> do {
           (ret, env, d) \<leftarrow> axiomnet_rdma_wait ua (il_token loc) (ptr_at 0 bs) (sint (u32_at 8 bs)) env d;
           Some (ret, pr, env, d) } }
   | _ \<Rightarrow> Some (- EINVAL, pr, env, d))"

subsection \<open>Debug output\<close>

text \<open>The debug functions as the values they print; reading the registers goes through the device.\<close>

definition axiomnet_debug_raw :: "'d hw_api \<Rightarrow> ('d, 'u) drvdata \<Rightarrow> (int list \<times> ('d, 'u) drvdata) option" where
  "axiomnet_debug_raw hw d = do {
     let (a, v) = hw_raw_tx_avail hw (dev_api d);
     let (b, d) = axiomnet_raw_tx_avail hw (d\<lparr>dev_api := v\<rparr>);
     let (c, v) = hw_raw_rx_avail hw (dev_api d);
     ps \<leftarrow> those (map (\<lambda>i. eviq_avail (sq_evi (raw_rx_queue d)) (int i)) [0..<AXIOM_PORT_NUM]);
     Some ([uint a, b, uint c, of_bool (eviq_free_avail (sq_evi (raw_rx_queue d)))] @ map of_bool ps, d\<lparr>dev_api := v\<rparr>) }"

definition axiomnet_debug_long :: "('d, 'u) drvdata \<Rightarrow> int list option" where
  "axiomnet_debug_long d = do {
     ps \<leftarrow> those (map (\<lambda>i. eviq_avail (sq_evi (long_rx_queue d)) (int i)) [0..<AXIOM_PORT_NUM]);
     Some ([of_bool (eviq_free_avail (sq_evi (long_tx_queue d))), of_bool (eviq_free_avail (sq_evi (long_rx_queue d)))] @
       map of_bool ps) }"

definition axiomnet_debug_rdma :: "'d hw_api \<Rightarrow> ('d, 'u) drvdata \<Rightarrow> (int list \<times> ('d, 'u) drvdata) option" where
  "axiomnet_debug_rdma hw d = do {
     let (a, v) = hw_rdma_tx_avail hw (dev_api d);
     let (b, d) = axiomnet_rdma_tx_avail hw (d\<lparr>dev_api := v\<rparr>);
     let (c, v) = hw_rdma_rx_avail hw (dev_api d);
     rs \<leftarrow> those (map (\<lambda>i. get_status (int i) d) [0..<AXIOM_MSG_ID_NUM]);
     Some ([uint a, of_bool b, uint c] @
       concat (map (\<lambda>r. [of_bool (rs_ack_waiting r), of_bool (rs_ack_received r), uint (dh_node (rs_header r))]) rs),
       d\<lparr>dev_api := v\<rparr>) }"

abbreviation (input) AXIOM_DEBUG_FLAG_RAW :: u32 where "AXIOM_DEBUG_FLAG_RAW \<equiv> 0x10"
abbreviation (input) AXIOM_DEBUG_FLAG_LONG :: u32 where "AXIOM_DEBUG_FLAG_LONG \<equiv> 0x20"
abbreviation (input) AXIOM_DEBUG_FLAG_RDMA :: u32 where "AXIOM_DEBUG_FLAG_RDMA \<equiv> 0x40"

text \<open>
  \<open>axiomnet_debug_info\<close>; \<open>regs flags v\<close> is the device after the register dumps of the hardware layer
  (\<open>axiom_print_*_reg\<close>) that the flags ask for.
\<close>

definition axiomnet_debug_info :: "'d hw_api \<Rightarrow> (u32 \<Rightarrow> 'd \<Rightarrow> 'd) \<Rightarrow> u32 \<Rightarrow> ('d, 'u) drvdata \<Rightarrow>
    (int \<times> int list \<times> ('d, 'u) drvdata) option" where
  "axiomnet_debug_info hw regs flags d = do {
     let d = d\<lparr>dev_api := regs flags (dev_api d)\<rparr>;
     (o1, d) \<leftarrow> (if flags AND AXIOM_DEBUG_FLAG_RAW \<noteq> 0 then axiomnet_debug_raw hw d else Some ([], d));
     o2 \<leftarrow> (if flags AND AXIOM_DEBUG_FLAG_LONG \<noteq> 0 then axiomnet_debug_long d else Some []);
     (o3, d) \<leftarrow> (if flags AND AXIOM_DEBUG_FLAG_RDMA \<noteq> 0 then axiomnet_debug_rdma hw d else Some ([], d));
     Some (0, o1 @ o2 @ o3, d) }"

subsection \<open>The generic file\<close>

text \<open>The counters in the order of \<open>struct axiom_stats\<close>.\<close>

definition stat_list :: "stat list" where
  "stat_list = [irq, irq_raw_tx, irq_raw_rx, irq_rdma_tx, irq_rdma_rx,
     pkt_raw_tx, pkt_raw_rx, pkt_long_tx, pkt_long_rx, pkt_rdma_tx, pkt_rdma_rx,
     bytes_raw_tx, bytes_raw_rx, bytes_long_tx, bytes_long_rx, bytes_rdma_tx, bytes_rdma_rx,
     err_raw_tx, err_raw_rx, err_long_tx, err_long_rx, err_rdma_tx, err_rdma_rx,
     wait_raw_tx, wait_raw_rx, wait_long_tx, wait_long_rx, wait_rdma_tx, wait_rdma_rx,
     poll_raw_tx, poll_raw_rx, poll_long_tx, poll_long_rx, poll_rdma_tx, poll_rdma_rx,
     poll_avail_raw_tx, poll_avail_raw_rx, poll_avail_long_tx, poll_avail_long_rx,
     poll_avail_rdma_tx, poll_avail_rdma_rx, retries_rdma, discarded_rdma]"

definition ioctl_routing :: "'d hw_api \<Rightarrow> 'u uaccess \<Rightarrow> ioctl_locals \<Rightarrow> bool \<Rightarrow> u64 \<Rightarrow> ('d, 'u) drvdata \<Rightarrow>
    (int \<times> ('d, 'u) drvdata) option" where
  "ioctl_routing hw ua loc is_set arg d = do {
     b \<leftarrow> copy_struct ua (user_mem d) (il_buf loc) arg 2 2;
     case b of
       None \<Rightarrow> Some (- EFAULT, d)
     | Some bs \<Rightarrow>
         let node = bs ! 0 in
         if is_set then
           (let (ret, v) = hw_set_routing hw (dev_api d) node (bs ! 1); d = d\<lparr>dev_api := v\<rparr> in
            if ret \<noteq> 0 then Some (- EFAULT, d)
            else do {
              rt \<leftarrow> arr_set (routing_table d) (uint node) (bs ! 1);
              Some (0, d\<lparr>routing_table := rt\<rparr>) })
         else
           (let (ret, m, v) = hw_get_routing hw (dev_api d) node; d = d\<lparr>dev_api := v\<rparr> in
            if ret \<noteq> 0 then Some (- EFAULT, d)
            else do {
              rt \<leftarrow> arr_set (routing_table d) (uint node) m;
              (r, u) \<leftarrow> axiom_copy_to_user ua (user_mem d) arg (il_buf loc) [node, m] 2;
              Some (sint r, d\<lparr>routing_table := rt, user_mem := u\<rparr>) }) }"

definition axiomnet_ioctl_generic :: "'d hw_api \<Rightarrow> 'u uaccess \<Rightarrow> (u32 \<Rightarrow> 'd \<Rightarrow> 'd) \<Rightarrow> ioctl_locals \<Rightarrow> ioctl_cmd \<Rightarrow> u64 \<Rightarrow>
    ('d, 'u) drvdata \<Rightarrow> (int \<times> ('d, 'u) drvdata) option" where
  "axiomnet_ioctl_generic hw ua regs loc cmd arg d = (case cmd of
     AXNET_SET_NODEID \<Rightarrow>
       (let id = le_word (get_user ua (user_mem d) arg 1) in
        Some (0, d\<lparr>dev_api := hw_set_node_id hw (dev_api d) id, dd_node_id := id\<rparr>))
   | AXNET_GET_NODEID \<Rightarrow> do {
       let (id, v) = hw_get_node_id hw (dev_api d);
       d \<leftarrow> put_user ua arg [id] (d\<lparr>dev_api := v\<rparr>);
       Some (0, d\<lparr>dd_node_id := id\<rparr>) }
   | AXNET_SET_ROUTING \<Rightarrow> ioctl_routing hw ua loc True arg d
   | AXNET_GET_ROUTING \<Rightarrow> ioctl_routing hw ua loc False arg d
   | AXNET_GET_IFNUMBER \<Rightarrow> do {
       let (ret, n, v) = hw_get_if_number hw (dev_api d);
       d \<leftarrow> put_user ua arg [n] (d\<lparr>dev_api := v\<rparr>);
       Some (ret, d) }
   | AXNET_GET_IFINFO \<Rightarrow> do {
       let i = le_word (get_user ua (user_mem d) arg 1);
       let (ret, f, v) = hw_get_if_info hw (dev_api d) i;
       d \<leftarrow> put_user ua arg [f] (d\<lparr>dev_api := v\<rparr>);
       Some (ret, d) }
   | AXNET_GET_STATUS \<Rightarrow> do {
       let (x, v) = hw_read_ni_status hw (dev_api d);
       d \<leftarrow> put_user ua arg (le_bytes 4 x) (d\<lparr>dev_api := v\<rparr>);
       Some (0, d) }
   | AXNET_GET_CONTROL \<Rightarrow> do {
       let (x, v) = hw_read_ni_control hw (dev_api d);
       d \<leftarrow> put_user ua arg (le_bytes 4 x) (d\<lparr>dev_api := v\<rparr>);
       Some (0, d) }
   | AXNET_SET_CONTROL \<Rightarrow>
       Some (0, d\<lparr>dev_api := hw_set_ni_control hw (dev_api d) (le_word (get_user ua (user_mem d) arg 4))\<rparr>)
   | AXNET_GET_STATS \<Rightarrow> do {
       (err, d) \<leftarrow> put_struct ua (il_stats loc) arg (concat (map (\<lambda>k. le_bytes 8 (dd_stats d k)) stat_list)) d;
       Some (if err then - EFAULT else 0, d) }
   | AXNET_DEBUG_INFO \<Rightarrow> do {
       b \<leftarrow> copy_struct ua (user_mem d) (il_buf loc) arg 4 4;
       case b of
         None \<Rightarrow> Some (- EFAULT, d)
       | Some bs \<Rightarrow> do {
           (ret, out, d) \<leftarrow> axiomnet_debug_info hw regs (le_word bs) d;
           Some (ret, d) } }
   | _ \<Rightarrow> Some (- EINVAL, d))"

end
