(* ===== verification/UserApi.thy ===== *)
theory UserApi
  imports DriverIoctl
begin

text \<open>
  The user library (\<open>axiom_user_library/axiom_user_api.c\<close>): opening and closing the device, flags,
  RAW, LONG and RDMA messages, and the node configuration. The operating system is a parameter, a
  record of the calls the library makes, over a world \<open>'w\<close> that holds the process's memory and
  the kernel. A structure passed to \<open>ioctl\<close> is its byte image in the 64-bit ABI; the bytes a local
  structure has before the code assigns its fields are the argument \<open>junk\<close>. A device pointer is an
  option, \<open>None\<close> being \<open>NULL\<close>. The tracing calls (\<open>AXIOM_EXTRAE\<close>, see \<open>UserTrace\<close>) and the messages have no effect on the results.
\<close>

section \<open>The operating system\<close>

text \<open>
  \<open>os_ioctl\<close> takes the argument structure and returns the result, \<open>errno\<close> and the structure
  afterwards; \<open>None\<close> is a call that never returns. \<open>os_poll\<close> takes descriptors with their events, and
  returns their \<open>revents\<close>. \<open>os_load\<close> reads the process's memory.
\<close>

record 'w os =
  os_calloc :: "'w \<Rightarrow> bool \<times> 'w"
  os_free :: "'w \<Rightarrow> 'w"
  os_open :: "string \<Rightarrow> 'w \<Rightarrow> int \<times> 'w"
  os_close :: "int \<Rightarrow> 'w \<Rightarrow> 'w"
  os_getfl :: "int \<Rightarrow> 'w \<Rightarrow> u32 \<times> 'w"
  os_setfl :: "int \<Rightarrow> u32 \<Rightarrow> 'w \<Rightarrow> int \<times> 'w"
  os_ioctl :: "int \<Rightarrow> ioctl_cmd \<Rightarrow> u8 list \<Rightarrow> 'w \<Rightarrow> (int \<times> int \<times> u8 list \<times> 'w) option"
  os_poll :: "(int \<times> u16) list \<Rightarrow> int \<Rightarrow> 'w \<Rightarrow> (int \<times> u16 list \<times> 'w) option"
  os_mmap :: "u64 \<Rightarrow> u64 \<Rightarrow> int \<Rightarrow> 'w \<Rightarrow> u64 \<times> 'w"
  os_munmap :: "u64 \<Rightarrow> u64 \<Rightarrow> 'w \<Rightarrow> int \<times> 'w"
  os_getenv :: "string \<Rightarrow> 'w \<Rightarrow> string option"
  os_load :: "u64 \<Rightarrow> nat \<Rightarrow> 'w \<Rightarrow> u8 list option"

abbreviation (input) O_NONBLOCK :: u32 where "O_NONBLOCK \<equiv> 0x800"
abbreviation (input) POLL_IN :: u16 where "POLL_IN \<equiv> 1"
abbreviation (input) MAP_FAILED :: u64 where "MAP_FAILED \<equiv> - 1"
abbreviation (input) AXIOM_RDMA_FIXED_ADDR :: u64 where "AXIOM_RDMA_FIXED_ADDR \<equiv> 0x3000000000"
abbreviation (input) AXIOM_FLAG_NOBLOCK_RAW :: u64 where "AXIOM_FLAG_NOBLOCK_RAW \<equiv> 1"
abbreviation (input) AXIOM_FLAG_NOBLOCK_LONG :: u64 where "AXIOM_FLAG_NOBLOCK_LONG \<equiv> 2"
abbreviation (input) AXIOM_FLAG_NOBLOCK_RDMA :: u64 where "AXIOM_FLAG_NOBLOCK_RDMA \<equiv> 4"
abbreviation (input) AXIOM_FLAG_NOFLUSH :: u64 where "AXIOM_FLAG_NOFLUSH \<equiv> 8"
abbreviation (input) AXIOCTL_RDMA_FLAGS_ASYNC :: u32 where "AXIOCTL_RDMA_FLAGS_ASYNC \<equiv> 1"
abbreviation (input) AXIOM_INTERFACES_NUM :: nat where "AXIOM_INTERFACES_NUM \<equiv> 5"

section \<open>Opening and closing\<close>

record axiom_dev =
  fd_generic :: int
  fd_raw :: int
  fd_long :: int
  fd_rdma :: int
  recv_fds :: "(int \<times> u16) list"
  dev_flags :: u64
  dev_rdma_addr :: u64
  dev_rdma_size :: u64
  dev_appid :: int

text \<open>What \<open>calloc\<close> returns: \<open>axiom_dev_t\<close> with every byte zero.\<close>

definition axiom_dev_zero :: axiom_dev where
  "axiom_dev_zero = \<lparr>fd_generic = 0, fd_raw = 0, fd_long = 0, fd_rdma = 0, recv_fds = [(0, 0), (0, 0)], dev_flags = 0,
     dev_rdma_addr = 0, dev_rdma_size = 0, dev_appid = 0\<rparr>"

text \<open>The check every function starts with: the device exists and the descriptor is positive.\<close>

definition opened :: "(axiom_dev \<Rightarrow> int) \<Rightarrow> axiom_dev option \<Rightarrow> axiom_dev option" where
  "opened fd dev = (case dev of None \<Rightarrow> None | Some v \<Rightarrow> if fd v \<le> 0 then None else Some v)"

text \<open>\<open>strtoul(s, NULL, 10)\<close>: white space, a sign, digits; \<open>ULONG_MAX\<close> when the number is too large.\<close>

definition strtoul10 :: "string \<Rightarrow> u64" where
  "strtoul10 s =
     (let s = dropWhile (\<lambda>c. c \<in> set [CHR 0x20, CHR 0x09, CHR 0x0A, CHR 0x0B, CHR 0x0C, CHR 0x0D]) s;
          neg = (case s of c # _ \<Rightarrow> c = CHR ''-'' | [] \<Rightarrow> False);
          s = (case s of c # cs \<Rightarrow> if c = CHR ''-'' \<or> c = CHR ''+'' then cs else s | [] \<Rightarrow> []);
          ds = takeWhile (\<lambda>c. 48 \<le> (of_char c :: nat) \<and> (of_char c :: nat) \<le> 57) s;
          n = foldl (\<lambda>n c. 10 * n + (of_char c - 48)) (0 :: nat) ds in
      if n \<ge> 2 ^ 64 then - 1 else if neg then - of_nat n else of_nat n)"

definition axiom_get_appid :: "'w os \<Rightarrow> 'w \<Rightarrow> int" where
  "axiom_get_appid os w = (case os_getenv os ''AXIOM_ALLOC_APPID'' w of
     None \<Rightarrow> AXIOM_RET_ERROR
   | Some s \<Rightarrow> uint (ucast (strtoul10 s) :: u8))"

definition axiom_fcntl :: "'w os \<Rightarrow> int \<Rightarrow> u32 \<Rightarrow> bool \<Rightarrow> 'w \<Rightarrow> int \<times> 'w" where
  "axiom_fcntl os fd flag on w =
     (let (fd_flags, w) = os_getfl os fd w in
      if fd_flags = - 1 then (AXIOM_RET_ERROR, w)
      else
        let fd_flags = (if on then fd_flags OR flag else fd_flags AND NOT flag);
            (ret, w) = os_setfl os fd fd_flags w in
        (if ret = - 1 then AXIOM_RET_ERROR else AXIOM_RET_OK, w))"

text \<open>The results of the three calls are combined and then dropped.\<close>

definition axiom_update_flags :: "'w os \<Rightarrow> axiom_dev \<Rightarrow> u64 \<Rightarrow> 'w \<Rightarrow> int \<times> 'w" where
  "axiom_update_flags os v update_flags w =
     (let upd = (\<lambda>flag fd w. if update_flags AND flag \<noteq> 0
            then snd (axiom_fcntl os fd O_NONBLOCK (dev_flags v AND flag \<noteq> 0) w) else w);
          w = upd AXIOM_FLAG_NOBLOCK_RAW (fd_raw v) w;
          w = upd AXIOM_FLAG_NOBLOCK_LONG (fd_long v) w;
          w = upd AXIOM_FLAG_NOBLOCK_RDMA (fd_rdma v) w in
      (AXIOM_RET_OK, w))"

definition axiom_set_flags :: "'w os \<Rightarrow> axiom_dev option \<Rightarrow> u64 \<Rightarrow> 'w \<Rightarrow> int \<times> axiom_dev option \<times> 'w" where
  "axiom_set_flags os dev flags w = (case opened fd_generic dev of
     None \<Rightarrow> (AXIOM_RET_ERROR, dev, w)
   | Some v \<Rightarrow>
       let v = v\<lparr>dev_flags := dev_flags v OR flags\<rparr>; (ret, w) = axiom_update_flags os v flags w in
       (ret, Some v, w))"

definition axiom_unset_flags :: "'w os \<Rightarrow> axiom_dev option \<Rightarrow> u64 \<Rightarrow> 'w \<Rightarrow> int \<times> axiom_dev option \<times> 'w" where
  "axiom_unset_flags os dev flags w = (case opened fd_generic dev of
     None \<Rightarrow> (AXIOM_RET_ERROR, dev, w)
   | Some v \<Rightarrow>
       let v = v\<lparr>dev_flags := dev_flags v AND NOT flags\<rparr>; (ret, w) = axiom_update_flags os v flags w in
       (ret, Some v, w))"

text \<open>The labels of the error path, each entered from the one before.\<close>

definition free_dev :: "'w os \<Rightarrow> 'w \<Rightarrow> axiom_dev option \<times> 'w" where
  "free_dev os w = (None, os_free os w)"
definition close_fd_gen :: "'w os \<Rightarrow> axiom_dev \<Rightarrow> 'w \<Rightarrow> axiom_dev option \<times> 'w" where
  "close_fd_gen os v w = free_dev os (os_close os (fd_generic v) w)"
definition close_fd_raw :: "'w os \<Rightarrow> axiom_dev \<Rightarrow> 'w \<Rightarrow> axiom_dev option \<times> 'w" where
  "close_fd_raw os v w = close_fd_gen os v (os_close os (fd_raw v) w)"
definition close_fd_long :: "'w os \<Rightarrow> axiom_dev \<Rightarrow> 'w \<Rightarrow> axiom_dev option \<times> 'w" where
  "close_fd_long os v w = close_fd_raw os v (os_close os (fd_long v) w)"
definition close_fd_rdma :: "'w os \<Rightarrow> axiom_dev \<Rightarrow> 'w \<Rightarrow> axiom_dev option \<times> 'w" where
  "close_fd_rdma os v w = close_fd_long os v (os_close os (fd_rdma v) w)"

definition axiom_open :: "'w os \<Rightarrow> u64 option \<Rightarrow> 'w \<Rightarrow> axiom_dev option \<times> 'w" where
  "axiom_open os args w =
     (let (ok, w) = os_calloc os w in
      if \<not> ok then (None, w)
      else let (fd, w) = os_open os ''/dev/axiom'' w; v = axiom_dev_zero\<lparr>fd_generic := fd\<rparr> in
      if fd < 0 then free_dev os w
      else let (fd, w) = os_open os ''/dev/axiom-raw'' w; v = v\<lparr>fd_raw := fd\<rparr> in
      if fd < 0 then close_fd_gen os v w
      else let v = v\<lparr>recv_fds := [(fd, POLL_IN), (0, 0)]\<rparr>;
               (fd, w) = os_open os ''/dev/axiom-long'' w; v = v\<lparr>fd_long := fd\<rparr> in
      if fd < 0 then close_fd_raw os v w
      else let v = v\<lparr>recv_fds := [(fd_raw v, POLL_IN), (fd, POLL_IN)]\<rparr>;
               (fd, w) = os_open os ''/dev/axiom-rdma'' w; v = v\<lparr>fd_rdma := fd\<rparr> in
      if fd < 0 then close_fd_long os v w
      else case args of
        None \<Rightarrow> (Some (v\<lparr>dev_appid := axiom_get_appid os w\<rparr>), w)
      | Some flags \<Rightarrow>
          let (ret, dev, w) = axiom_set_flags os (Some v) flags w in
          if ret \<noteq> 0 then close_fd_rdma os v w
          else (map_option (\<lambda>v. v\<lparr>dev_appid := axiom_get_appid os w\<rparr>) dev, w))"

definition axiom_close :: "'w os \<Rightarrow> axiom_dev option \<Rightarrow> 'w \<Rightarrow> 'w" where
  "axiom_close os dev w = (case dev of
     None \<Rightarrow> w
   | Some v \<Rightarrow> os_free os (os_close os (fd_generic v) (os_close os (fd_raw v)
       (os_close os (fd_long v) (os_close os (fd_rdma v) w)))))"

definition axiom_get_fds :: "axiom_dev option \<Rightarrow> int \<times> (int \<times> int \<times> int) option" where
  "axiom_get_fds dev = (case opened fd_generic dev of
     None \<Rightarrow> (AXIOM_RET_ERROR, None)
   | Some v \<Rightarrow> (AXIOM_RET_OK, Some (fd_raw v, fd_long v, fd_rdma v)))"

text \<open>The structure of the second \<open>ioctl\<close> is the one the first has filled in: both bind the same port.\<close>

definition axiom_bind :: "'w os \<Rightarrow> axiom_dev option \<Rightarrow> u8 \<Rightarrow> 'w \<Rightarrow> (int \<times> 'w) option" where
  "axiom_bind os dev port w = (case opened fd_generic dev of
     None \<Rightarrow> Some (AXIOM_RET_ERROR, w)
   | Some v \<Rightarrow> do {
       let arg = [port, if dev_flags v AND AXIOM_FLAG_NOFLUSH \<noteq> 0 then 0 else 1];
       (ret, arg, w) \<leftarrow> (if fd_raw v \<ge> 0 then do {
           (ret, errno, arg, w) \<leftarrow> os_ioctl os (fd_raw v) AXNET_BIND arg w;
           Some (ret, arg, w) }
         else Some (0, arg, w));
       if ret < 0 then Some (AXIOM_RET_ERROR, w)
       else do {
         (ret, arg, w) \<leftarrow> (if fd_long v \<ge> 0 then do {
             (ret, errno, arg, w) \<leftarrow> os_ioctl os (fd_long v) AXNET_BIND arg w;
             Some (ret, arg, w) }
           else Some (0, arg, w));
         Some (if ret < 0 then AXIOM_RET_ERROR else uint (arg ! 0), w) } })"

section \<open>RAW and LONG messages\<close>

text \<open>How a failed \<open>ioctl\<close> is reported.\<close>

definition ioctl_error :: "int \<Rightarrow> int" where
  "ioctl_error errno = (if errno = EAGAIN then AXIOM_RET_NOTAVAIL else if errno = EINTR then AXIOM_RET_INTR
     else if errno = ENXIO then AXIOM_RET_NOTREACH else AXIOM_RET_ERROR)"

definition axiom_send_raw_prepare :: "raw_hdr \<Rightarrow> u8 \<Rightarrow> u8 \<Rightarrow> u8 \<Rightarrow> u8 \<Rightarrow> int \<times> raw_hdr" where
  "axiom_send_raw_prepare h dst_id port type payload_size =
     (if unat payload_size > AXIOM_RAW_PAYLOAD_MAX_SIZE then (AXIOM_RET_ERROR, h)
      else (AXIOM_RET_OK, h\<lparr>rh_port_type := set_pt_type (type AND 7) (set_pt_port (port AND 7) (rh_port_type h)),
         rh_node := dst_id, rh_payload_size := payload_size\<rparr>))"

text \<open>The two argument structures, after their headers: padding, a pointer, and for the second a count.\<close>

definition raw_arg :: "u8 list \<Rightarrow> raw_hdr \<Rightarrow> u64 \<Rightarrow> u8 list" where
  "raw_arg junk h payload = raw_hdr_bytes h @ take 3 (drop 5 junk) @ le_bytes 8 payload"
definition raw_iov_arg :: "u8 list \<Rightarrow> raw_hdr \<Rightarrow> u64 \<Rightarrow> u32 \<Rightarrow> u8 list" where
  "raw_iov_arg junk h iov iovcnt = raw_arg junk h iov @ le_bytes 4 iovcnt @ take 4 (drop 20 junk)"

definition axiom_send_raw :: "'w os \<Rightarrow> u8 list \<Rightarrow> axiom_dev option \<Rightarrow> u8 \<Rightarrow> u8 \<Rightarrow> u8 \<Rightarrow> u8 \<Rightarrow> u64 \<Rightarrow> 'w \<Rightarrow>
    (int \<times> 'w) option" where
  "axiom_send_raw os junk dev dst_id port type payload_size payload w = (case opened fd_raw dev of
     None \<Rightarrow> Some (AXIOM_RET_ERROR, w)
   | Some v \<Rightarrow>
       let (ret, h) = axiom_send_raw_prepare (raw_hdr_of_bytes junk) dst_id port type payload_size in
       if ret < 0 then Some (ret, w)
       else do {
         (ret, errno, arg, w) \<leftarrow> os_ioctl os (fd_raw v) AXNET_SEND_RAW (raw_arg junk h payload) w;
         Some (if ret < 0 then ioctl_error errno else ret, w) })"

definition axiom_send_iov_raw :: "'w os \<Rightarrow> u8 list \<Rightarrow> axiom_dev option \<Rightarrow> u8 \<Rightarrow> u8 \<Rightarrow> u8 \<Rightarrow> u8 \<Rightarrow> u64 \<Rightarrow> u32 \<Rightarrow> 'w \<Rightarrow>
    (int \<times> 'w) option" where
  "axiom_send_iov_raw os junk dev dst_id port type payload_size iov iovcnt w = (case opened fd_raw dev of
     None \<Rightarrow> Some (AXIOM_RET_ERROR, w)
   | Some v \<Rightarrow>
       let (ret, h) = axiom_send_raw_prepare (raw_hdr_of_bytes junk) dst_id port type payload_size in
       if ret < 0 then Some (ret, w)
       else do {
         (ret, errno, arg, w) \<leftarrow> os_ioctl os (fd_raw v) AXNET_SEND_RAW_IOV (raw_iov_arg junk h iov iovcnt) w;
         Some (if ret < 0 then ioctl_error errno else ret, w) })"

text \<open>The variables a receive function stores its results in; \<open>'n\<close> is the type of the payload size.\<close>

record 'n recv_out =
  ro_src :: u8
  ro_port :: u8
  ro_type :: u8
  ro_size :: 'n

definition axiom_recv_raw_finalize :: "raw_hdr \<Rightarrow> int \<times> u8 recv_out" where
  "axiom_recv_raw_finalize h = (uint (rh_msg_id h), \<lparr>ro_src = rh_node h, ro_port = pt_port (rh_port_type h) AND 7,
     ro_type = pt_type (rh_port_type h) AND 7, ro_size = rh_payload_size h\<rparr>)"

definition recv_raw_ioctl :: "'w os \<Rightarrow> axiom_dev option \<Rightarrow> ioctl_cmd \<Rightarrow> u8 list \<Rightarrow> u8 recv_out \<Rightarrow> 'w \<Rightarrow>
    (int \<times> u8 recv_out \<times> 'w) option" where
  "recv_raw_ioctl os dev cmd arg out w = (case opened fd_raw dev of
     None \<Rightarrow> Some (AXIOM_RET_ERROR, out, w)
   | Some v \<Rightarrow>
       if unat (ro_size out) > AXIOM_RAW_PAYLOAD_MAX_SIZE then Some (AXIOM_RET_ERROR, out, w)
       else do {
         (ret, errno, arg, w) \<leftarrow> os_ioctl os (fd_raw v) cmd arg w;
         if ret < 0 then Some (ioctl_error errno, out, w)
         else let (ret, out) = axiom_recv_raw_finalize (raw_hdr_of_bytes arg) in Some (ret, out, w) })"

definition axiom_recv_raw :: "'w os \<Rightarrow> u8 list \<Rightarrow> axiom_dev option \<Rightarrow> u64 \<Rightarrow> u8 recv_out \<Rightarrow> 'w \<Rightarrow>
    (int \<times> u8 recv_out \<times> 'w) option" where
  "axiom_recv_raw os junk dev payload out w = recv_raw_ioctl os dev AXNET_RECV_RAW
     (raw_arg junk ((raw_hdr_of_bytes junk)\<lparr>rh_payload_size := ro_size out\<rparr>) payload) out w"

definition axiom_recv_iov_raw :: "'w os \<Rightarrow> u8 list \<Rightarrow> axiom_dev option \<Rightarrow> u64 \<Rightarrow> u32 \<Rightarrow> u8 recv_out \<Rightarrow> 'w \<Rightarrow>
    (int \<times> u8 recv_out \<times> 'w) option" where
  "axiom_recv_iov_raw os junk dev iov iovcnt out w = recv_raw_ioctl os dev AXNET_RECV_RAW_IOV
     (raw_iov_arg junk ((raw_hdr_of_bytes junk)\<lparr>rh_payload_size := ro_size out\<rparr>) iov iovcnt) out w"

text \<open>An \<open>ioctl\<close> that stores an \<open>int\<close>.\<close>

definition avail_ioctl :: "'w os \<Rightarrow> (axiom_dev \<Rightarrow> int) \<Rightarrow> ioctl_cmd \<Rightarrow> u8 list \<Rightarrow> axiom_dev option \<Rightarrow> 'w \<Rightarrow> (int \<times> 'w) option" where
  "avail_ioctl os fd cmd junk dev w = (case opened fd dev of
     None \<Rightarrow> Some (AXIOM_RET_ERROR, w)
   | Some v \<Rightarrow> do {
       (ret, errno, arg, w) \<leftarrow> os_ioctl os (fd v) cmd (take 4 junk) w;
       Some (if ret < 0 then AXIOM_RET_ERROR else sint (u32_at 0 arg), w) })"

definition flush_ioctl :: "'w os \<Rightarrow> (axiom_dev \<Rightarrow> int) \<Rightarrow> ioctl_cmd \<Rightarrow> axiom_dev option \<Rightarrow> 'w \<Rightarrow> (int \<times> 'w) option" where
  "flush_ioctl os fd cmd dev w = (case opened fd dev of
     None \<Rightarrow> Some (AXIOM_RET_ERROR, w)
   | Some v \<Rightarrow> do {
       (ret, errno, arg, w) \<leftarrow> os_ioctl os (fd v) cmd [] w;
       Some (if ret < 0 then AXIOM_RET_ERROR else AXIOM_RET_OK, w) })"

definition axiom_send_raw_avail :: "'w os \<Rightarrow> u8 list \<Rightarrow> axiom_dev option \<Rightarrow> 'w \<Rightarrow> (int \<times> 'w) option" where
  "axiom_send_raw_avail os = avail_ioctl os fd_raw AXNET_SEND_RAW_AVAIL"
definition axiom_recv_raw_avail :: "'w os \<Rightarrow> u8 list \<Rightarrow> axiom_dev option \<Rightarrow> 'w \<Rightarrow> (int \<times> 'w) option" where
  "axiom_recv_raw_avail os = avail_ioctl os fd_raw AXNET_RECV_RAW_AVAIL"
definition axiom_flush_raw :: "'w os \<Rightarrow> axiom_dev option \<Rightarrow> 'w \<Rightarrow> (int \<times> 'w) option" where
  "axiom_flush_raw os = flush_ioctl os fd_raw AXNET_FLUSH_RAW"

definition axiom_send_long_prepare :: "rdma_hdr \<Rightarrow> u8 \<Rightarrow> u8 \<Rightarrow> u16 \<Rightarrow> int \<times> rdma_hdr" where
  "axiom_send_long_prepare h dst_id port payload_size =
     (if unat payload_size > AXIOM_LONG_PAYLOAD_MAX_SIZE then (AXIOM_RET_ERROR, h)
      else (AXIOM_RET_OK, h\<lparr>dh_port_type := set_pt_type (AXIOM_TYPE_LONG_DATA AND 7) (set_pt_port (port AND 7) (dh_port_type h)),
         dh_node := dst_id, dh_payload_size := payload_size\<rparr>))"

definition long_arg :: "rdma_hdr \<Rightarrow> u64 \<Rightarrow> u8 list" where
  "long_arg h payload = rdma_hdr_bytes h @ le_bytes 8 payload"
definition long_iov_arg :: "u8 list \<Rightarrow> rdma_hdr \<Rightarrow> u64 \<Rightarrow> u32 \<Rightarrow> u8 list" where
  "long_iov_arg junk h iov iovcnt = long_arg h iov @ le_bytes 4 iovcnt @ take 4 (drop 28 junk)"

definition axiom_send_long :: "'w os \<Rightarrow> u8 list \<Rightarrow> axiom_dev option \<Rightarrow> u8 \<Rightarrow> u8 \<Rightarrow> u16 \<Rightarrow> u64 \<Rightarrow> 'w \<Rightarrow> (int \<times> 'w) option" where
  "axiom_send_long os junk dev dst_id port payload_size payload w = (case opened fd_long dev of
     None \<Rightarrow> Some (AXIOM_RET_ERROR, w)
   | Some v \<Rightarrow>
       let (ret, h) = axiom_send_long_prepare (rdma_hdr_of_bytes junk) dst_id port payload_size in
       if ret < 0 then Some (ret, w)
       else do {
         (ret, errno, arg, w) \<leftarrow> os_ioctl os (fd_long v) AXNET_SEND_LONG (long_arg h payload) w;
         Some (if ret < 0 then ioctl_error errno else ret, w) })"

definition axiom_send_iov_long :: "'w os \<Rightarrow> u8 list \<Rightarrow> axiom_dev option \<Rightarrow> u8 \<Rightarrow> u8 \<Rightarrow> u16 \<Rightarrow> u64 \<Rightarrow> u32 \<Rightarrow> 'w \<Rightarrow>
    (int \<times> 'w) option" where
  "axiom_send_iov_long os junk dev dst_id port payload_size iov iovcnt w = (case opened fd_long dev of
     None \<Rightarrow> Some (AXIOM_RET_ERROR, w)
   | Some v \<Rightarrow>
       let (ret, h) = axiom_send_long_prepare (rdma_hdr_of_bytes junk) dst_id port payload_size in
       if ret < 0 then Some (ret, w)
       else do {
         (ret, errno, arg, w) \<leftarrow> os_ioctl os (fd_long v) AXNET_SEND_LONG_IOV (long_iov_arg junk h iov iovcnt) w;
         Some (if ret < 0 then ioctl_error errno else ret, w) })"

definition axiom_recv_long_finalize :: "rdma_hdr \<Rightarrow> u16 recv_out \<Rightarrow> int \<times> u16 recv_out" where
  "axiom_recv_long_finalize h out = (uint (dh_msg_id h), out\<lparr>ro_src := dh_node h, ro_port := pt_port (dh_port_type h) AND 7,
     ro_size := dh_payload_size h\<rparr>)"

definition recv_long_ioctl :: "'w os \<Rightarrow> axiom_dev option \<Rightarrow> ioctl_cmd \<Rightarrow> u8 list \<Rightarrow> u16 recv_out \<Rightarrow> 'w \<Rightarrow>
    (int \<times> u16 recv_out \<times> 'w) option" where
  "recv_long_ioctl os dev cmd arg out w = (case opened fd_long dev of
     None \<Rightarrow> Some (AXIOM_RET_ERROR, out, w)
   | Some v \<Rightarrow>
       if unat (ro_size out) > AXIOM_LONG_PAYLOAD_MAX_SIZE then Some (AXIOM_RET_ERROR, out, w)
       else do {
         (ret, errno, arg, w) \<leftarrow> os_ioctl os (fd_long v) cmd arg w;
         if ret < 0 then Some (ioctl_error errno, out, w)
         else let (ret, out) = axiom_recv_long_finalize (rdma_hdr_of_bytes arg) out in Some (ret, out, w) })"

definition axiom_recv_long :: "'w os \<Rightarrow> u8 list \<Rightarrow> axiom_dev option \<Rightarrow> u64 \<Rightarrow> u16 recv_out \<Rightarrow> 'w \<Rightarrow>
    (int \<times> u16 recv_out \<times> 'w) option" where
  "axiom_recv_long os junk dev payload out w = recv_long_ioctl os dev AXNET_RECV_LONG
     (long_arg ((rdma_hdr_of_bytes junk)\<lparr>dh_payload_size := ro_size out\<rparr>) payload) out w"

definition axiom_recv_iov_long :: "'w os \<Rightarrow> u8 list \<Rightarrow> axiom_dev option \<Rightarrow> u64 \<Rightarrow> u32 \<Rightarrow> u16 recv_out \<Rightarrow> 'w \<Rightarrow>
    (int \<times> u16 recv_out \<times> 'w) option" where
  "axiom_recv_iov_long os junk dev iov iovcnt out w = recv_long_ioctl os dev AXNET_RECV_LONG_IOV
     (long_iov_arg junk ((rdma_hdr_of_bytes junk)\<lparr>dh_payload_size := ro_size out\<rparr>) iov iovcnt) out w"

definition axiom_send_long_avail :: "'w os \<Rightarrow> u8 list \<Rightarrow> axiom_dev option \<Rightarrow> 'w \<Rightarrow> (int \<times> 'w) option" where
  "axiom_send_long_avail os = avail_ioctl os fd_long AXNET_SEND_LONG_AVAIL"
definition axiom_recv_long_avail :: "'w os \<Rightarrow> u8 list \<Rightarrow> axiom_dev option \<Rightarrow> 'w \<Rightarrow> (int \<times> 'w) option" where
  "axiom_recv_long_avail os = avail_ioctl os fd_long AXNET_RECV_LONG_AVAIL"
definition axiom_flush_long :: "'w os \<Rightarrow> axiom_dev option \<Rightarrow> 'w \<Rightarrow> (int \<times> 'w) option" where
  "axiom_flush_long os = flush_ioctl os fd_long AXNET_FLUSH_LONG"

subsection \<open>Messages of either kind\<close>

text \<open>The casts to the size types of the two kinds drop the upper bits.\<close>

definition axiom_send :: "'w os \<Rightarrow> u8 list \<Rightarrow> axiom_dev option \<Rightarrow> u8 \<Rightarrow> u8 \<Rightarrow> u64 \<Rightarrow> u64 \<Rightarrow> 'w \<Rightarrow> (int \<times> 'w) option" where
  "axiom_send os junk dev dst_id port payload_size payload w =
     (if unat payload_size \<le> AXIOM_RAW_PAYLOAD_MAX_SIZE
      then axiom_send_raw os junk dev dst_id port AXIOM_TYPE_RAW_DATA (ucast payload_size) payload w
      else axiom_send_long os junk dev dst_id port (ucast payload_size) payload w)"

definition axiom_send_iov :: "'w os \<Rightarrow> u8 list \<Rightarrow> axiom_dev option \<Rightarrow> u8 \<Rightarrow> u8 \<Rightarrow> u64 \<Rightarrow> u64 \<Rightarrow> u32 \<Rightarrow> 'w \<Rightarrow>
    (int \<times> 'w) option" where
  "axiom_send_iov os junk dev dst_id port payload_size iov iovcnt w =
     (if unat payload_size \<le> AXIOM_RAW_PAYLOAD_MAX_SIZE
      then axiom_send_iov_raw os junk dev dst_id port AXIOM_TYPE_RAW_DATA (ucast payload_size) iov iovcnt w
      else axiom_send_iov_long os junk dev dst_id port (ucast payload_size) iov iovcnt w)"

text \<open>
  The loop over the two descriptors of \<open>recv_fds\<close>: the first that is readable is read. \<open>rr\<close> and \<open>lr\<close>
  are the receive functions of the two kinds, with buffer or with vectors.
\<close>

fun recv_loop :: "axiom_dev \<Rightarrow> (u8 recv_out \<Rightarrow> 'w \<Rightarrow> (int \<times> u8 recv_out \<times> 'w) option) \<Rightarrow>
    (u16 recv_out \<Rightarrow> 'w \<Rightarrow> (int \<times> u16 recv_out \<times> 'w) option) \<Rightarrow> (int \<times> u16) list \<Rightarrow> u64 recv_out \<Rightarrow> 'w \<Rightarrow>
    (int \<times> u64 recv_out \<times> 'w) option" where
  "recv_loop v rr lr [] out w = Some (AXIOM_RET_ERROR, out, w)"
| "recv_loop v rr lr ((fd, revents) # fds) out w =
     (if revents AND POLL_IN \<noteq> 0 \<and> fd = fd_raw v then do {
        let psize = (if unat (ro_size out) < AXIOM_RAW_PAYLOAD_MAX_SIZE then ucast (ro_size out)
                     else of_nat AXIOM_RAW_PAYLOAD_MAX_SIZE);
        (ret, r, w) \<leftarrow> rr \<lparr>ro_src = ro_src out, ro_port = ro_port out, ro_type = ro_type out, ro_size = psize\<rparr> w;
        Some (ret, \<lparr>ro_src = ro_src r, ro_port = ro_port r, ro_type = ro_type r, ro_size = ucast (ro_size r)\<rparr>, w) }
      else if revents AND POLL_IN \<noteq> 0 \<and> fd = fd_long v then do {
        let psize = (if unat (ro_size out) < AXIOM_LONG_PAYLOAD_MAX_SIZE then ucast (ro_size out)
                     else of_nat AXIOM_LONG_PAYLOAD_MAX_SIZE);
        (ret, r, w) \<leftarrow> lr \<lparr>ro_src = ro_src out, ro_port = ro_port out, ro_type = ro_type out, ro_size = psize\<rparr> w;
        Some (ret, \<lparr>ro_src = ro_src r, ro_port = ro_port r, ro_type = AXIOM_TYPE_LONG_DATA, ro_size = ucast (ro_size r)\<rparr>, w) }
      else recv_loop v rr lr fds out w)"

definition recv_poll :: "'w os \<Rightarrow> axiom_dev option \<Rightarrow> (u8 recv_out \<Rightarrow> 'w \<Rightarrow> (int \<times> u8 recv_out \<times> 'w) option) \<Rightarrow>
    (u16 recv_out \<Rightarrow> 'w \<Rightarrow> (int \<times> u16 recv_out \<times> 'w) option) \<Rightarrow> u64 recv_out \<Rightarrow> 'w \<Rightarrow> (int \<times> u64 recv_out \<times> 'w) option" where
  "recv_poll os dev rr lr out w = (case dev of
     None \<Rightarrow> Some (AXIOM_RET_ERROR, out, w)
   | Some v \<Rightarrow> do {
       let timeout = (if dev_flags v AND (AXIOM_FLAG_NOBLOCK_RAW OR AXIOM_FLAG_NOBLOCK_LONG) \<noteq> 0 then 0 else - 1);
       (fds_ready, revents, w) \<leftarrow> os_poll os (recv_fds v) timeout w;
       if fds_ready < 0 then Some (AXIOM_RET_ERROR, out, w)
       else if fds_ready = 0 then Some (AXIOM_RET_NOTAVAIL, out, w)
       else recv_loop v rr lr (zip (map fst (recv_fds v)) revents) out w })"

definition axiom_recv :: "'w os \<Rightarrow> u8 list \<Rightarrow> axiom_dev option \<Rightarrow> u64 \<Rightarrow> u64 recv_out \<Rightarrow> 'w \<Rightarrow> (int \<times> u64 recv_out \<times> 'w) option" where
  "axiom_recv os junk dev payload =
     recv_poll os dev (axiom_recv_raw os junk dev payload) (axiom_recv_long os junk dev payload)"

definition axiom_recv_iov :: "'w os \<Rightarrow> u8 list \<Rightarrow> axiom_dev option \<Rightarrow> u64 \<Rightarrow> u32 \<Rightarrow> u64 recv_out \<Rightarrow> 'w \<Rightarrow>
    (int \<times> u64 recv_out \<times> 'w) option" where
  "axiom_recv_iov os junk dev iov iovcnt =
     recv_poll os dev (axiom_recv_iov_raw os junk dev iov iovcnt) (axiom_recv_iov_long os junk dev iov iovcnt)"

section \<open>RDMA\<close>

definition axiom_rdma_munmap :: "'w os \<Rightarrow> axiom_dev option \<Rightarrow> 'w \<Rightarrow> int \<times> axiom_dev option \<times> 'w" where
  "axiom_rdma_munmap os dev w = (case opened fd_rdma dev of
     None \<Rightarrow> (AXIOM_RET_ERROR, dev, w)
   | Some v \<Rightarrow>
       if dev_rdma_addr v = 0 then (AXIOM_RET_ERROR, dev, w)
       else
         let (ret, w) = os_munmap os (dev_rdma_addr v) (dev_rdma_size v) w in
         if ret \<noteq> 0 then (AXIOM_RET_ERROR, dev, w)
         else (AXIOM_RET_OK, Some (v\<lparr>dev_rdma_addr := 0, dev_rdma_size := 0\<rparr>), w))"

text \<open>
  \<open>*sizep\<close> is read before \<open>sizep\<close> is tested, so the argument is the size. The result is the address, 0 being
  \<open>NULL\<close>, and the size to store.
\<close>

definition axiom_rdma_mmap :: "'w os \<Rightarrow> axiom_dev option \<Rightarrow> u64 \<Rightarrow> 'w \<Rightarrow> (u64 \<times> u64 \<times> axiom_dev option \<times> 'w) option" where
  "axiom_rdma_mmap os dev size0 w = (case opened fd_rdma dev of
     None \<Rightarrow> Some (0, size0, dev, w)
   | Some v \<Rightarrow>
       if dev_rdma_addr v \<noteq> 0 then Some (0, size0, dev, w)
       else do {
         (ret, errno, arg, w) \<leftarrow> os_ioctl os (fd_rdma v) AXNET_RDMA_SIZE (le_bytes 8 size0) w;
         let size = ptr_at 0 arg;
         if ret < 0 \<or> size = 0 then Some (0, size0, dev, w)
         else
           let (addr, w) = os_mmap os AXIOM_RDMA_FIXED_ADDR size (fd_rdma v) w in
           if addr = MAP_FAILED then Some (0, size0, dev, w)
           else if addr \<noteq> AXIOM_RDMA_FIXED_ADDR then
             let (ret, dev, w) = axiom_rdma_munmap os dev w in Some (0, size0, dev, w)
           else Some (addr, size, Some (v\<lparr>dev_rdma_addr := addr, dev_rdma_size := size\<rparr>), w) })"

text \<open>
  \<open>axiom_rdma_write_internal\<close> and \<open>axiom_rdma_read_internal\<close> differ in the type of the request and the
  command. The token is the third component of the result, when one is stored.
\<close>

definition rdma_arg :: "u8 list \<Rightarrow> rdma_hdr \<Rightarrow> u64 \<Rightarrow> u64 \<Rightarrow> u32 \<Rightarrow> int \<Rightarrow> u8 list" where
  "rdma_arg junk h src dst flags app_id = rdma_hdr_bytes h @ take 8 (drop 16 junk) @ le_bytes 8 src @ le_bytes 8 dst @
     le_bytes 4 flags @ le_bytes 4 (of_int app_id :: u32)"

definition axiom_rdma_internal :: "u8 \<Rightarrow> ioctl_cmd \<Rightarrow> 'w os \<Rightarrow> u8 list \<Rightarrow> axiom_dev option \<Rightarrow> u8 \<Rightarrow> u64 \<Rightarrow> u64 \<Rightarrow> u64 \<Rightarrow>
    u32 \<Rightarrow> 'w \<Rightarrow> (int \<times> token option \<times> 'w) option" where
  "axiom_rdma_internal type cmd os junk dev remote_id payload_size src_addr dst_addr flags w = (case opened fd_rdma dev of
     None \<Rightarrow> Some (AXIOM_RET_ERROR, None, w)
   | Some v \<Rightarrow>
       if payload_size AND 7 \<noteq> 0 then Some (AXIOM_RET_ERROR, None, w)
       else if unat payload_size > AXIOM_RDMA_PAYLOAD_MAX_SIZE then Some (AXIOM_RET_ERROR, None, w)
       else do {
         let h = rdma_hdr_of_bytes junk;
         let h = h\<lparr>dh_port_type := set_pt_s 0 (set_pt_type type (dh_port_type h)), dh_node := remote_id,
               dh_payload_size := ucast (drop_bit AXIOM_RDMA_PAYLOAD_SIZE_ORDER payload_size)\<rparr>;
         (ret, errno, arg, w) \<leftarrow> os_ioctl os (fd_rdma v) cmd (rdma_arg junk h src_addr dst_addr flags (dev_appid v)) w;
         if ret < 0 then Some (ioctl_error errno, None, w)
         else let token = ptr_at 16 arg in Some (uint (tk_msg_id token), Some token, w) })"

definition axiom_rdma_write_internal :: "'w os \<Rightarrow> u8 list \<Rightarrow> axiom_dev option \<Rightarrow> u8 \<Rightarrow> u64 \<Rightarrow> u64 \<Rightarrow> u64 \<Rightarrow> u32 \<Rightarrow> 'w \<Rightarrow>
    (int \<times> token option \<times> 'w) option" where
  "axiom_rdma_write_internal = axiom_rdma_internal AXIOM_TYPE_RDMA_WRITE AXNET_RDMA_WRITE"
definition axiom_rdma_read_internal :: "'w os \<Rightarrow> u8 list \<Rightarrow> axiom_dev option \<Rightarrow> u8 \<Rightarrow> u64 \<Rightarrow> u64 \<Rightarrow> u64 \<Rightarrow> u32 \<Rightarrow> 'w \<Rightarrow>
    (int \<times> token option \<times> 'w) option" where
  "axiom_rdma_read_internal = axiom_rdma_internal AXIOM_TYPE_RDMA_READ AXNET_RDMA_READ"

definition axiom_rdma_write_sync :: "'w os \<Rightarrow> u8 list \<Rightarrow> axiom_dev option \<Rightarrow> u8 \<Rightarrow> u64 \<Rightarrow> u64 \<Rightarrow> u64 \<Rightarrow> 'w \<Rightarrow>
    (int \<times> token option \<times> 'w) option" where
  "axiom_rdma_write_sync os junk dev remote_id n src dst = axiom_rdma_write_internal os junk dev remote_id n src dst 0"
definition axiom_rdma_write :: "'w os \<Rightarrow> u8 list \<Rightarrow> axiom_dev option \<Rightarrow> u8 \<Rightarrow> u64 \<Rightarrow> u64 \<Rightarrow> u64 \<Rightarrow> 'w \<Rightarrow>
    (int \<times> token option \<times> 'w) option" where
  "axiom_rdma_write os junk dev remote_id n src dst =
     axiom_rdma_write_internal os junk dev remote_id n src dst AXIOCTL_RDMA_FLAGS_ASYNC"
definition axiom_rdma_read_sync :: "'w os \<Rightarrow> u8 list \<Rightarrow> axiom_dev option \<Rightarrow> u8 \<Rightarrow> u64 \<Rightarrow> u64 \<Rightarrow> u64 \<Rightarrow> 'w \<Rightarrow>
    (int \<times> token option \<times> 'w) option" where
  "axiom_rdma_read_sync os junk dev remote_id n src dst = axiom_rdma_read_internal os junk dev remote_id n src dst 0"
definition axiom_rdma_read :: "'w os \<Rightarrow> u8 list \<Rightarrow> axiom_dev option \<Rightarrow> u8 \<Rightarrow> u64 \<Rightarrow> u64 \<Rightarrow> u64 \<Rightarrow> 'w \<Rightarrow>
    (int \<times> token option \<times> 'w) option" where
  "axiom_rdma_read os junk dev remote_id n src dst =
     axiom_rdma_read_internal os junk dev remote_id n src dst AXIOCTL_RDMA_FLAGS_ASYNC"

text \<open>\<open>axiom_ioctl_token_t\<close>: a pointer, a count and padding.\<close>

definition token_arg :: "u8 list \<Rightarrow> u64 \<Rightarrow> int \<Rightarrow> u8 list" where
  "token_arg junk tokens count = le_bytes 8 tokens @ le_bytes 4 (of_int count :: u32) @ take 4 (drop 12 junk)"

definition axiom_rdma_check :: "'w os \<Rightarrow> u8 list \<Rightarrow> axiom_dev option \<Rightarrow> u64 \<Rightarrow> int \<Rightarrow> 'w \<Rightarrow> (int \<times> 'w) option" where
  "axiom_rdma_check os junk dev tokens tokencnt w = (case opened fd_rdma dev of
     None \<Rightarrow> Some (AXIOM_RET_ERROR, w)
   | Some v \<Rightarrow> do {
       (ret, errno, arg, w) \<leftarrow> os_ioctl os (fd_rdma v) AXNET_RDMA_CHECK (token_arg junk tokens tokencnt) w;
       Some (if ret < 0 then AXIOM_RET_ERROR else ret, w) })"

definition axiom_rdma_wait_internal :: "'w os \<Rightarrow> u8 list \<Rightarrow> axiom_dev \<Rightarrow> u64 \<Rightarrow> 'w \<Rightarrow> (int \<times> int \<times> 'w) option" where
  "axiom_rdma_wait_internal os junk v token w = do {
     (ret, errno, arg, w) \<leftarrow> os_ioctl os (fd_rdma v) AXNET_RDMA_WAIT (token_arg junk token 1) w;
     Some (ret, errno, w) }"

text \<open>
  The search for the last pending token among the first \<open>n\<close>. When there is none the code goes on with
  the element in front of the array, which is undefined behaviour, as is an unreadable array.
\<close>

fun find_pending :: "'w os \<Rightarrow> u64 \<Rightarrow> nat \<Rightarrow> 'w \<Rightarrow> u64 option" where
  "find_pending os tokens 0 w = None"
| "find_pending os tokens (Suc i) w = do {
     bs \<leftarrow> os_load os (tokens + of_nat (8 * i)) 8 w;
     if tk_status (ptr_at 0 bs) = AXIOM_TOKEN_PENDING then Some (tokens + of_nat (8 * i))
     else find_pending os tokens i w }"

text \<open>The loop: \<open>Inl r\<close> when the function returns \<open>r\<close> from inside, \<open>Inr ret\<close> when the loop is left.\<close>

partial_function (option) rdma_user_wait_loop ::
    "'w os \<Rightarrow> u8 list \<Rightarrow> axiom_dev \<Rightarrow> u64 \<Rightarrow> int \<Rightarrow> int \<Rightarrow> int \<Rightarrow> 'w \<Rightarrow> ((int + int) \<times> 'w) option" where
  "rdma_user_wait_loop os junk v tokens tokencnt acked ret w =
     (if acked < tokencnt then do {
        token \<leftarrow> find_pending os tokens (nat tokencnt) w;
        (ret, errno, w) \<leftarrow> axiom_rdma_wait_internal os junk v token w;
        if ret < 0 then Some (Inr (if errno = EAGAIN then AXIOM_RET_NOTAVAIL else AXIOM_RET_ERROR), w)
        else do {
          (acked, w) \<leftarrow> axiom_rdma_check os junk (Some v) tokens tokencnt w;
          if acked < 0 then Some (Inl acked, w)
          else rdma_user_wait_loop os junk v tokens tokencnt acked ret w } }
      else Some (Inr ret, w))"

definition axiom_rdma_wait :: "'w os \<Rightarrow> u8 list \<Rightarrow> axiom_dev option \<Rightarrow> u64 \<Rightarrow> int \<Rightarrow> 'w \<Rightarrow> (int \<times> 'w) option" where
  "axiom_rdma_wait os junk dev tokens tokencnt w = (case opened fd_rdma dev of
     None \<Rightarrow> Some (AXIOM_RET_ERROR, w)
   | Some v \<Rightarrow> do {
       (acked, w) \<leftarrow> axiom_rdma_check os junk dev tokens tokencnt w;
       if acked < 0 then Some (acked, w)
       else do {
         (r, w) \<leftarrow> rdma_user_wait_loop os junk v tokens tokencnt acked 0 w;
         Some (case r of Inl ret \<Rightarrow> ret | Inr ret \<Rightarrow> AXIOM_RET_OK, w) } })"

section \<open>Configuration of the node\<close>

text \<open>Reading an unsigned value of \<open>n\<close> bytes: a failed \<open>ioctl\<close> leaves the local variable as it was.\<close>

definition get_ioctl :: "nat \<Rightarrow> ioctl_cmd \<Rightarrow> 'w os \<Rightarrow> u8 list \<Rightarrow> axiom_dev option \<Rightarrow> 'w \<Rightarrow> ('n::len word \<times> 'w) option" where
  "get_ioctl n cmd os junk dev w = (case opened fd_generic dev of
     None \<Rightarrow> Some (- 1, w)
   | Some v \<Rightarrow> do {
       (ret, errno, arg, w) \<leftarrow> os_ioctl os (fd_generic v) cmd (take n junk) w;
       Some (le_word (take n arg), w) })"

definition set_ioctl :: "ioctl_cmd \<Rightarrow> 'w os \<Rightarrow> axiom_dev option \<Rightarrow> u8 list \<Rightarrow> 'w \<Rightarrow> 'w option" where
  "set_ioctl cmd os dev arg w = (case opened fd_generic dev of
     None \<Rightarrow> Some w
   | Some v \<Rightarrow> do {
       (ret, errno, arg, w) \<leftarrow> os_ioctl os (fd_generic v) cmd arg w;
       Some w })"

definition axiom_read_ni_status :: "'w os \<Rightarrow> u8 list \<Rightarrow> axiom_dev option \<Rightarrow> 'w \<Rightarrow> (u32 \<times> 'w) option" where
  "axiom_read_ni_status = get_ioctl 4 AXNET_GET_STATUS"
definition axiom_set_ni_control :: "'w os \<Rightarrow> axiom_dev option \<Rightarrow> u32 \<Rightarrow> 'w \<Rightarrow> 'w option" where
  "axiom_set_ni_control os dev reg_mask = set_ioctl AXNET_SET_CONTROL os dev (le_bytes 4 reg_mask)"
definition axiom_read_ni_control :: "'w os \<Rightarrow> u8 list \<Rightarrow> axiom_dev option \<Rightarrow> 'w \<Rightarrow> (u32 \<times> 'w) option" where
  "axiom_read_ni_control = get_ioctl 4 AXNET_GET_CONTROL"
definition axiom_set_node_id :: "'w os \<Rightarrow> axiom_dev option \<Rightarrow> u8 \<Rightarrow> 'w \<Rightarrow> 'w option" where
  "axiom_set_node_id os dev node_id = set_ioctl AXNET_SET_NODEID os dev [node_id]"
definition axiom_get_node_id :: "'w os \<Rightarrow> u8 list \<Rightarrow> axiom_dev option \<Rightarrow> 'w \<Rightarrow> (u8 \<times> 'w) option" where
  "axiom_get_node_id = get_ioctl 1 AXNET_GET_NODEID"

text \<open>An \<open>ioctl\<close> with an argument structure whose failure is reported; the structure is \<open>None\<close> then.\<close>

definition struct_ioctl :: "ioctl_cmd \<Rightarrow> 'w os \<Rightarrow> axiom_dev option \<Rightarrow> u8 list \<Rightarrow> 'w \<Rightarrow> (int \<times> u8 list option \<times> 'w) option" where
  "struct_ioctl cmd os dev arg w = (case opened fd_generic dev of
     None \<Rightarrow> Some (AXIOM_RET_ERROR, None, w)
   | Some v \<Rightarrow> do {
       (ret, errno, arg, w) \<leftarrow> os_ioctl os (fd_generic v) cmd arg w;
       Some (if ret < 0 then (AXIOM_RET_ERROR, None, w) else (AXIOM_RET_OK, Some arg, w)) })"

definition axiom_set_routing :: "'w os \<Rightarrow> axiom_dev option \<Rightarrow> u8 \<Rightarrow> u8 \<Rightarrow> 'w \<Rightarrow> (int \<times> 'w) option" where
  "axiom_set_routing os dev node_id enabled_mask w = do {
     (ret, arg, w) \<leftarrow> struct_ioctl AXNET_SET_ROUTING os dev [node_id, enabled_mask] w;
     Some (ret, w) }"

definition axiom_get_routing :: "'w os \<Rightarrow> axiom_dev option \<Rightarrow> u8 \<Rightarrow> 'w \<Rightarrow> (int \<times> u8 option \<times> 'w) option" where
  "axiom_get_routing os dev node_id w = do {
     (ret, arg, w) \<leftarrow> struct_ioctl AXNET_GET_ROUTING os dev [node_id, 0] w;
     Some (ret, map_option (\<lambda>bs. bs ! 1) arg, w) }"

definition axiom_get_if_number :: "'w os \<Rightarrow> axiom_dev option \<Rightarrow> u8 \<Rightarrow> 'w \<Rightarrow> (int \<times> u8 list option \<times> 'w) option" where
  "axiom_get_if_number os dev if_number = struct_ioctl AXNET_GET_IFNUMBER os dev [if_number]"
definition axiom_get_if_info :: "'w os \<Rightarrow> axiom_dev option \<Rightarrow> u8 \<Rightarrow> 'w \<Rightarrow> (int \<times> u8 list option \<times> 'w) option" where
  "axiom_get_if_info os dev if_number = struct_ioctl AXNET_GET_IFINFO os dev [if_number]"
definition axiom_get_statistics :: "'w os \<Rightarrow> axiom_dev option \<Rightarrow> u8 list \<Rightarrow> 'w \<Rightarrow> (int \<times> u8 list option \<times> 'w) option" where
  "axiom_get_statistics os dev stats = struct_ioctl AXNET_GET_STATS os dev stats"
definition axiom_debug_info :: "'w os \<Rightarrow> axiom_dev option \<Rightarrow> u32 \<Rightarrow> 'w \<Rightarrow> (int \<times> u8 list option \<times> 'w) option" where
  "axiom_debug_info os dev flags = struct_ioctl AXNET_DEBUG_INFO os dev (le_bytes 4 flags)"

text \<open>The number of the first interface of the mask, counted from \<open>i\<close>, \<open>n\<close> of them being left.\<close>

fun first_interface :: "u8 \<Rightarrow> nat \<Rightarrow> nat \<Rightarrow> u8 option" where
  "first_interface m i 0 = None"
| "first_interface m i (Suc n) = (if m AND push_bit i 1 \<noteq> 0 then Some (of_nat i) else first_interface m (Suc i) n)"

definition axiom_next_hop :: "'w os \<Rightarrow> axiom_dev option \<Rightarrow> u8 \<Rightarrow> 'w \<Rightarrow> (int \<times> u8 option \<times> 'w) option" where
  "axiom_next_hop os dev dst_id w = (case opened fd_generic dev of
     None \<Rightarrow> Some (AXIOM_RET_ERROR, None, w)
   | Some v \<Rightarrow> do {
       (ret, m, w) \<leftarrow> axiom_get_routing os dev dst_id w;
       if ret < 0 then Some (ret, None, w)
       else do {
         m \<leftarrow> m;
         Some (case first_interface m 0 AXIOM_INTERFACES_NUM of
             None \<Rightarrow> (AXIOM_RET_ERROR, None, w)
           | Some i \<Rightarrow> (AXIOM_RET_OK, Some i, w)) } })"

text \<open>The loop of \<open>axiom_get_num_nodes\<close> over the nodes that are left.\<close>

fun num_nodes_loop :: "'w os \<Rightarrow> axiom_dev option \<Rightarrow> u8 \<Rightarrow> nat list \<Rightarrow> int \<Rightarrow> 'w \<Rightarrow> (int \<times> 'w) option" where
  "num_nodes_loop os dev node_id [] num_nodes w = Some (num_nodes, w)"
| "num_nodes_loop os dev node_id (i # is) num_nodes w =
     (if i = unat node_id then num_nodes_loop os dev node_id is num_nodes w
      else do {
        (err, m, w) \<leftarrow> axiom_get_routing os dev (of_nat i) w;
        if err \<noteq> 0 then Some (num_nodes, w)
        else do {
          m \<leftarrow> m;
          num_nodes_loop os dev node_id is (if m \<noteq> 0 \<and> m \<noteq> 1 then num_nodes + 1 else num_nodes) w } })"

definition axiom_get_num_nodes :: "'w os \<Rightarrow> u8 list \<Rightarrow> axiom_dev option \<Rightarrow> 'w \<Rightarrow> (int \<times> 'w) option" where
  "axiom_get_num_nodes os junk dev w = (case opened fd_generic dev of
     None \<Rightarrow> Some (AXIOM_RET_ERROR, w)
   | Some v \<Rightarrow> do {
       (node_id, w) \<leftarrow> axiom_get_node_id os junk dev w;
       num_nodes_loop os dev node_id [0..<AXIOM_NODES_NUM] 1 w })"

end
