(* ===== verification/IoctlProps.thy ===== *)
theory IoctlProps
  imports DriverIoctl
begin

text \<open>
  Properties of the system call layer: what polling reports, the whole path of a RAW receive from
  the user's argument structure to the user's buffer, and the routing table.
\<close>

section \<open>Polling\<close>

text \<open>
  Property C23. Polling a RAW file tells the truth: it reports a readable file exactly when reading was asked for and
  a packet waits on the bound port, a writable one exactly when writing was asked for and the
  hardware has room, and it changes nothing but the device registers it reads and its counters.
\<close>

theorem poll_raw_truthful:
  assumes "raw_inv d own" and "p < 7" "bind_port pr = int p" and "hw_raw_tx_avail hw (dev_api d) = (n, v)"
  shows "\<exists>d'. axiomnet_poll_raw hw pr events d = Some (
      (if events AND POLLOUT \<noteq> 0 \<and> n \<noteq> 0 then POLLOUT OR POLLWRNORM else 0) OR
      (if events AND POLLIN \<noteq> 0 \<and> raw_pkts d p \<noteq> [] then POLLIN OR POLLRDNORM else 0), d') \<and>
    d' = d\<lparr>dev_api := (if events AND POLLOUT \<noteq> 0 then v else dev_api d), dd_stats := dd_stats d'\<rparr>"
proof -
  from assms(1) obtain fs qs ds where rep: "swq_rep (raw_rx_queue d) fs qs own ds" and len: "length qs = 7"
    and ports: "length (raw_rx_ports d) = 7" by (auto simp: raw_inv_def)
  have av: "eviq_avail (sq_evi (raw_rx_queue d)) (int p) = Some (raw_pkts d p \<noteq> [])"
    using swq_avail(1) [OF rep, of p] swq_rep_contents(2) [OF rep, of p] len assms(2) by (simp add: raw_pkts_def)
  have p: "p < length (raw_rx_ports d)" using ports assms(2) by simp
  show ?thesis
    using assms(3,4) av p
    by (auto simp: axiomnet_poll_raw_def axiomnet_raw_tx_avail_def axiomnet_raw_rx_avail_def inc_stat_def Let_def
        split: prod.splits)
qed

theorem poll_raw_truthful_witness:
  "\<exists>d'. axiomnet_poll_raw demo_hw demo_pr 5 demo_one = Some (POLLOUT OR POLLWRNORM OR (POLLIN OR POLLRDNORM), d')"
  using poll_raw_truthful [OF demo_one_inv, of 2 demo_pr demo_hw 1 "dev_api demo_one" 5] demo_one_pkts
  by (auto simp: demo_pr_def demo_hw_def)

section \<open>The path of a RAW receive\<close>

lemma copy_struct_ok:
  assumes "uaccess_spec ua view" "ua_access_ok ua arg n" "umem_read (view u) arg (unat n) = map Some bs"
    "copy_aligned kbuf arg n" "unat n \<le> sz"
  shows "copy_struct ua u kbuf arg n sz = Some (Some bs)"
proof -
  have "readable (view u) arg (unat n)" using assms(3) by (auto simp: readable_def)
  from axiom_copy_from_user_ok [OF assms(1,2) this assms(4)] obtain bs' where
    "axiom_copy_from_user ua u kbuf arg n = (0, bs')" "map Some bs' = map Some bs" using assms(3) by auto
  moreover from this(2) have "bs' = bs" by (simp add: inj_map_eq_map)
  moreover have "length bs = unat n" using assms(3) by (metis length_map length_umem_read)
  ultimately show ?thesis using assms(5) by (simp add: copy_struct_def)
qed

lemma put_struct_ok:
  assumes "uaccess_spec ua view" "ua_access_ok ua arg (of_nat (length bs))" "readable (view (user_mem d)) arg (length bs)"
    "copy_aligned arg kbuf (of_nat (length bs))" "length bs < 2 ^ 32"
  shows "\<exists>u. put_struct ua kbuf arg bs d = Some (False, d\<lparr>user_mem := u\<rparr>) \<and> view u = umem_write (view (user_mem d)) arg bs"
proof -
  have n: "unat (of_nat (length bs) :: u64) = length bs" using assms(5) by (intro unat_of_nat_u64) simp
  with axiom_copy_to_user_ok [OF assms(1,2) _ assms(4), of "user_mem d" bs] assms(3) obtain u where
    "axiom_copy_to_user ua (user_mem d) arg kbuf bs (of_nat (length bs)) = Some (0, u)"
    "view u = umem_write (view (user_mem d)) arg bs" by auto
  then show ?thesis by (auto simp: put_struct_def)
qed

lemma scatter_readable:
  "readable m a n \<Longrightarrow> readable (scatter_mem m iov bs) a n"
  by (induction m iov bs rule: scatter_mem.induct) (auto simp: readable_write)

lemma ioctl_recv_raw_lemma:
  assumes "uaccess_spec ua view" and "raw_inv d own" and "p < 7" "bind_port pr = int p"
    and "\<not> sp_mutex (raw_rx_ports d ! p)" and "raw_pkts d p = k # ks"
    and "ua_access_ok ua arg 16" and "umem_read (view (user_mem d)) arg 16 = map Some bs"
    and "rh_payload_size (fst k) \<le> rh_payload_size (raw_hdr_of_bytes bs)" "unat (rh_payload_size (fst k)) \<le> 251"
    and "scatter_ok ua (view (user_mem d)) (sq_base (raw_rx_queue d) + 5) (unat (rh_payload_size (fst k)))
       [\<lparr>iov_base = ptr_at 8 bs, iov_len = ucast (rh_payload_size (raw_hdr_of_bytes bs))\<rparr>]"
  shows "\<exists>d'. axiomnet_ioctl_raw hw ua loc nonblock AXNET_RECV_RAW arg pr env d = Some (0, pr, env, d') \<and>
    raw_inv d' own \<and> (\<forall>p' < 7. raw_pkts d' p' = (if p' = p then ks else raw_pkts d p')) \<and>
    view (user_mem d') = umem_write
      (scatter_mem (view (user_mem d)) [\<lparr>iov_base = ptr_at 8 bs, iov_len = ucast (rh_payload_size (raw_hdr_of_bytes bs))\<rparr>] (snd k))
      arg (raw_hdr_bytes (fst k) @ drop 5 bs)"
proof -
  let ?iov = "[\<lparr>iov_base = ptr_at 8 bs, iov_len = ucast (rh_payload_size (raw_hdr_of_bytes bs))\<rparr>] :: iovec list"
  have lbs: "length bs = 16" using arg_cong [OF assms(8), of length] by simp
  have cs: "copy_struct ua (user_mem d) (il_buf loc) arg 16 16 = Some (Some bs)"
    by (rule copy_struct_ok [OF assms(1,7)]) (use assms(8) in \<open>simp_all add: copy_aligned_long\<close>)
  from raw_recv_delivers_lemma [OF assms(1-6,9-11), of nonblock env] obtain d1 where
    d1: "axiomnet_raw_recv ua nonblock pr (raw_hdr_of_bytes bs) ?iov env d =
        Some (5 + uint (rh_payload_size (fst k)), fst k, env, d1)" "raw_inv d1 own"
      "view (user_mem d1) = scatter_mem (view (user_mem d)) ?iov (snd k)"
      "\<forall>p' < 7. raw_pkts d1 p' = (if p' = p then ks else raw_pkts d p')" by blast
  let ?out = "raw_hdr_bytes (fst k) @ drop 5 bs"
  have lo: "length ?out = 16" using lbs by simp
  have "readable (view (user_mem d)) arg 16" using assms(8) by (auto simp: readable_def)
  then have "readable (view (user_mem d1)) arg (length ?out)" unfolding d1(3) lo by (rule scatter_readable)
  moreover
  have n: "of_nat (length ?out) = (16 :: u64)" unfolding lo by simp
  have "ua_access_ok ua arg (of_nat (length ?out))" "copy_aligned arg (il_buf loc) (of_nat (length ?out))"
    unfolding n by (rule assms(7), simp add: copy_aligned_long)
  ultimately obtain u where u: "put_struct ua (il_buf loc) arg ?out d1 = Some (False, d1\<lparr>user_mem := u\<rparr>)"
    "view u = umem_write (view (user_mem d1)) arg ?out"
    using put_struct_ok [OF assms(1), of arg ?out d1 "il_buf loc"] lo by auto
  have "\<not> 5 + uint (rh_payload_size (fst k)) < 0" using unsigned_greater_eq [of "rh_payload_size (fst k)"] by (simp add: not_less)
  then have "axiomnet_ioctl_raw hw ua loc nonblock AXNET_RECV_RAW arg pr env d = Some (0, pr, env, d1\<lparr>user_mem := u\<rparr>)"
    using cs d1(1) u(1) by (simp add: axiomnet_ioctl_raw_def ioctl_raw_recv_def)
  moreover have "raw_inv (d1\<lparr>user_mem := u\<rparr>) own" "raw_pkts (d1\<lparr>user_mem := u\<rparr>) p' = raw_pkts d1 p'" for p'
    using d1(2) by (simp_all add: raw_inv_def raw_pkts_def)
  ultimately show ?thesis using d1(3,4) u(2) by (intro exI [of _ "d1\<lparr>user_mem := u\<rparr>"]) simp
qed

text \<open>
  The receive system call on a RAW file: the argument structure at \<open>arg\<close> holds a header that
  announces the room behind the payload pointer. When a packet waits that fits there, the call returns
  0; the user's buffer holds the packet's payload and the argument structure its header, the rest of
  the structure and of the user's memory being unchanged; the packet is taken from the port.
\<close>

theorem ioctl_recv_raw_delivers:
  assumes "uaccess_spec ua view" and "raw_inv d own" and "p < 7" "bind_port pr = int p"
    and "\<not> sp_mutex (raw_rx_ports d ! p)" and "raw_pkts d p = k # ks"
    and "ua_access_ok ua arg 16" and "umem_read (view (user_mem d)) arg 16 = map Some bs"
    and "rh_payload_size (fst k) \<le> rh_payload_size (raw_hdr_of_bytes bs)" "unat (rh_payload_size (fst k)) \<le> 251"
    and "scatter_ok ua (view (user_mem d)) (sq_base (raw_rx_queue d) + 5) (unat (rh_payload_size (fst k)))
       [\<lparr>iov_base = ptr_at 8 bs, iov_len = ucast (rh_payload_size (raw_hdr_of_bytes bs))\<rparr>]"
  shows "\<exists>d'. axiomnet_ioctl_raw hw ua loc nonblock AXNET_RECV_RAW arg pr env d = Some (0, pr, env, d') \<and>
    raw_inv d' own \<and> (\<forall>p' < 7. raw_pkts d' p' = (if p' = p then ks else raw_pkts d p')) \<and>
    view (user_mem d') = umem_write
      (scatter_mem (view (user_mem d)) [\<lparr>iov_base = ptr_at 8 bs, iov_len = ucast (rh_payload_size (raw_hdr_of_bytes bs))\<rparr>] (snd k))
      arg (raw_hdr_bytes (fst k) @ drop 5 bs)"
  by (rule ioctl_recv_raw_lemma [OF assms])

text \<open>A user that asks for a packet of at most four bytes, to be stored at address 4352.\<close>

definition demo_arg :: "u8 list" where
  "demo_arg = [0, 0, 0, 4, 0, 0, 0, 0, 0, 17, 0, 0, 0, 0, 0, 0]"

definition demo_call :: "(demo_dev, u64 \<Rightarrow> u8 option) drvdata" where
  "demo_call = demo_one\<lparr>user_mem := umem_write (user_mem demo_one) 4096 demo_arg\<rparr>"

definition demo_locals :: ioctl_locals where
  "demo_locals = \<lparr>il_buf = 0, il_iov = 64, il_raw = (512, replicate 251 0), il_token = 32, il_stats = 1024,
     il_vmalloc = (\<lambda>n. Some 0)\<rparr>"

lemma demo_call_arg:
  "umem_read (user_mem demo_call) 4096 16 = map Some demo_arg" "ptr_at 8 demo_arg = 4352"
  "rh_payload_size (raw_hdr_of_bytes demo_arg) = 4"
  by (simp_all add: demo_call_def demo_arg_def umem_read_numeral ptr_at_def raw_hdr_of_bytes_def)

lemma demo_call_scatter:
  "scatter_ok umem_ua (user_mem demo_call) (sq_base (raw_rx_queue demo_call) + 5) 4 [\<lparr>iov_base = 4352, iov_len = 4\<rparr>]"
  by (simp add: demo_call_def demo_arg_def demo_one_def demo_d_def umem_ua_def readable_def umem_read_numeral
      copy_aligned_def odd_part_def)

theorem ioctl_recv_raw_delivers_witness:
  "\<exists>d'. axiomnet_ioctl_raw demo_hw umem_ua demo_locals True AXNET_RECV_RAW 4096 demo_pr [] demo_call =
     Some (0, demo_pr, [], d') \<and> raw_pkts d' 2 = []"
proof -
  have "raw_inv demo_call {}" "raw_pkts demo_call 2 = [(rm_header (demo_pkt 2 10), [10, 1, 2, 3])]"
    "\<not> sp_mutex (raw_rx_ports demo_call ! 2)"
    using demo_one_inv demo_one_pkts
    by (simp_all add: demo_call_def raw_inv_def raw_pkts_def demo_one_def demo_d_def demo_port_def)
  then show ?thesis
    using ioctl_recv_raw_delivers [OF umem_ua_spec, of demo_call "{}" 2 demo_pr "(rm_header (demo_pkt 2 10), [10, 1, 2, 3])"
        "[]" 4096 demo_arg demo_hw demo_locals True "[]"] demo_call_arg demo_call_scatter
    by (auto simp: demo_pr_def demo_pkt_def umem_ua_def)
qed

section \<open>The routing table\<close>

lemma routing_arr_set: "length rt = 256 \<Longrightarrow> arr_set rt (uint (node :: u8)) x = Some (rt[unat node := x])"
proof -
  assume "length rt = 256"
  moreover have "unat node < 256" using unsigned_less [of node] by simp
  ultimately show ?thesis using arr_set_nth [of "unat node" rt x] by (simp add: uint_nat del: of_nat_unat)
qed

lemma ioctl_set_routing:
  assumes "uaccess_spec ua view" "ua_access_ok ua arg 2" "umem_read (view (user_mem d)) arg 2 = [Some node, Some ifs]"
    "copy_aligned (il_buf loc) arg 2" "length (routing_table d) = 256" "hw_set_routing hw (dev_api d) node ifs = (0, v)"
  shows "axiomnet_ioctl_generic hw ua regs loc AXNET_SET_ROUTING arg d =
    Some (0, d\<lparr>dev_api := v, routing_table := (routing_table d)[unat node := ifs]\<rparr>)"
proof -
  have "copy_struct ua (user_mem d) (il_buf loc) arg 2 2 = Some (Some [node, ifs])"
    by (rule copy_struct_ok [OF assms(1,2)]) (use assms(3,4) in simp_all)
  moreover have "arr_set (routing_table d) (uint node) ifs = Some ((routing_table d)[unat node := ifs])"
    using assms(5) by (rule routing_arr_set)
  ultimately show ?thesis using assms(6) by (simp add: axiomnet_ioctl_generic_def ioctl_routing_def)
qed

lemma ioctl_get_routing:
  assumes "uaccess_spec ua view" "ua_access_ok ua arg 2" "umem_read (view (user_mem d)) arg 2 = [Some node, Some x]"
    "copy_aligned (il_buf loc) arg 2" "copy_aligned arg (il_buf loc) 2" "length (routing_table d) = 256"
    "hw_get_routing hw (dev_api d) node = (0, ifs, v)"
  shows "\<exists>u. axiomnet_ioctl_generic hw ua regs loc AXNET_GET_ROUTING arg d =
      Some (0, d\<lparr>dev_api := v, routing_table := (routing_table d)[unat node := ifs], user_mem := u\<rparr>) \<and>
    view u = umem_write (view (user_mem d)) arg [node, ifs]"
proof -
  have "copy_struct ua (user_mem d) (il_buf loc) arg 2 2 = Some (Some [node, x])"
    by (rule copy_struct_ok [OF assms(1,2)]) (use assms(3,4) in simp_all)
  moreover have "readable (view (user_mem d)) arg (unat (2 :: u64))" using assms(3) by (simp add: readable_def)
  from axiom_copy_to_user_ok [OF assms(1,2) this assms(5), of "[node, ifs]"] obtain u where
    "axiom_copy_to_user ua (user_mem d) arg (il_buf loc) [node, ifs] 2 = Some (0, u)"
    "view u = umem_write (view (user_mem d)) arg [node, ifs]" by auto
  moreover have "arr_set (routing_table d) (uint node) ifs = Some ((routing_table d)[unat node := ifs])"
    using assms(6) by (rule routing_arr_set)
  ultimately show ?thesis using assms(7) by (auto simp: axiomnet_ioctl_generic_def ioctl_routing_def)
qed



end
