(* ===== verification/NodeSystem.thy ===== *)
theory NodeSystem
  imports UserApi IoctlProps
begin

text \<open>
  A node as a process of the user library sees it: the process's descriptor table and memory on top of the
  driver. It implements the operating system interface of the library by the file operations of
  the driver (the four tables of \<open>axiom_netdev_common.c\<close>, lines 2678 to 2712), so that library and driver
  can be run together. The memory of the process is the concrete partial map of the user copy
  theory.
\<close>

section \<open>State\<close>

type_synonym 'd nic = "('d, u64 \<Rightarrow> u8 option) drvdata"

record open_file =
  of_priv :: priv
  of_flags :: u32

text \<open>
  \<open>sy_files\<close> is the descriptor table, \<open>sy_stack\<close> the address of the argument structure of the running
  library call, \<open>sy_env\<close> what happens while the process sleeps in the driver, \<open>sy_heap\<close> the number of
  device structures the library has allocated, \<open>sy_errno\<close> the last error.
\<close>

record 'd node =
  sy_drv :: "'d nic"
  sy_files :: "open_file option list"
  sy_stack :: u64
  sy_env :: "'d nic wait_ev list"
  sy_heap :: nat
  sy_errno :: int

text \<open>
  What the driver needs of its surroundings: hardware, addresses of kernel locals, register dumps,
  the memory allocator driver, whether \<open>kzalloc\<close> succeeds, \<open>remap_pfn_range\<close>; and of the process: whether
  \<open>calloc\<close> succeeds, its environment, and where \<open>mmap\<close> places a mapping.
\<close>

record 'd kernel =
  k_hw :: "'d hw_api"
  k_loc :: ioctl_locals
  k_regs :: "u32 \<Rightarrow> 'd \<Rightarrow> 'd"
  k_v2o :: "int \<Rightarrow> u64 \<Rightarrow> u64 \<Rightarrow> int \<times> u64"
  k_kzalloc :: bool
  k_remap :: "u64 \<Rightarrow> u64 \<Rightarrow> int"
  k_calloc :: bool
  k_getenv :: "string \<Rightarrow> string option"
  k_place :: "u64 \<Rightarrow> u64"

section \<open>The descriptor table\<close>

definition file_at :: "int \<Rightarrow> 'd node \<Rightarrow> open_file option" where
  "file_at fd w = (if 0 \<le> fd \<and> nat fd < length (sy_files w) then sy_files w ! nat fd else None)"

definition set_file :: "int \<Rightarrow> open_file option \<Rightarrow> 'd node \<Rightarrow> 'd node" where
  "set_file fd f w = w\<lparr>sy_files := (sy_files w)[nat fd := f]\<rparr>"

text \<open>The lowest unused descriptor, as \<open>open\<close> must return it.\<close>

fun install_file :: "open_file \<Rightarrow> open_file option list \<Rightarrow> nat \<times> open_file option list" where
  "install_file f [] = (0, [Some f])"
| "install_file f (None # fs) = (0, Some f # fs)"
| "install_file f (Some g # fs) = (let (i, fs) = install_file f fs in (Suc i, Some g # fs))"

definition sys_fds :: "'d node \<Rightarrow> int set" where
  "sys_fds w = {fd. file_at fd w \<noteq> None}"

section \<open>System calls\<close>

text \<open>The class of a device file, by its name.\<close>

definition dev_class :: "string \<Rightarrow> fdtype option" where
  "dev_class name = (if name = ''/dev/axiom'' then Some FDTYPE_GENERIC
     else if name = ''/dev/axiom-raw'' then Some FDTYPE_RAW
     else if name = ''/dev/axiom-long'' then Some FDTYPE_LONG
     else if name = ''/dev/axiom-rdma'' then Some FDTYPE_RDMA else None)"

text \<open>
  Opening runs the open function of the class, closing its release function. A driver that is stuck on
  its own lock makes the call fail here; it never is, the lock being free between calls.
\<close>

definition sys_open :: "'d kernel \<Rightarrow> string \<Rightarrow> 'd node \<Rightarrow> int \<times> 'd node" where
  "sys_open k name w = (case dev_class name of
     None \<Rightarrow> (- 1, w)
   | Some t \<Rightarrow> (case axiomnet_open t (k_kzalloc k) (sy_drv w) of
       Some (err, Some pr, d) \<Rightarrow>
         if err \<noteq> 0 then (- 1, w\<lparr>sy_drv := d, sy_errno := - err\<rparr>)
         else let (i, fs) = install_file \<lparr>of_priv = pr, of_flags = 2\<rparr> (sy_files w) in
           (int i, w\<lparr>sy_drv := d, sy_files := fs\<rparr>)
     | Some (err, None, d) \<Rightarrow> (- 1, w\<lparr>sy_drv := d, sy_errno := - err\<rparr>)
     | None \<Rightarrow> (- 1, w)))"

definition sys_close :: "int \<Rightarrow> 'd node \<Rightarrow> 'd node" where
  "sys_close fd w = (case file_at fd w of
     None \<Rightarrow> w
   | Some f \<Rightarrow> (case axiomnet_release (of_priv f) (sy_drv w) of
       None \<Rightarrow> set_file fd None w
     | Some d \<Rightarrow> set_file fd None (w\<lparr>sy_drv := d\<rparr>)))"

definition sys_getfl :: "int \<Rightarrow> 'd node \<Rightarrow> u32 \<times> 'd node" where
  "sys_getfl fd w = (case file_at fd w of None \<Rightarrow> (- 1, w) | Some f \<Rightarrow> (of_flags f, w))"

definition sys_setfl :: "int \<Rightarrow> u32 \<Rightarrow> 'd node \<Rightarrow> int \<times> 'd node" where
  "sys_setfl fd flags w = (case file_at fd w of
     None \<Rightarrow> (- 1, w)
   | Some f \<Rightarrow> (0, set_file fd (Some (f\<lparr>of_flags := flags\<rparr>)) w))"

text \<open>The \<open>unlocked_ioctl\<close> entries of the four tables.\<close>

definition fops_ioctl :: "'d kernel \<Rightarrow> open_file \<Rightarrow> ioctl_cmd \<Rightarrow> u64 \<Rightarrow> 'd nic wait_ev list \<Rightarrow> 'd nic \<Rightarrow>
    ('d, u64 \<Rightarrow> u8 option) ioctl_result" where
  "fops_ioctl k f cmd arg env d =
     (let pr = of_priv f; nonblock = (of_flags f AND O_NONBLOCK \<noteq> 0) in
      case fd_type pr of
        FDTYPE_GENERIC \<Rightarrow> do {
          (ret, d) \<leftarrow> axiomnet_ioctl_generic (k_hw k) umem_ua (k_regs k) (k_loc k) cmd arg d;
          Some (ret, pr, env, d) }
      | FDTYPE_RAW \<Rightarrow> axiomnet_ioctl_raw (k_hw k) umem_ua (k_loc k) nonblock cmd arg pr env d
      | FDTYPE_LONG \<Rightarrow> axiomnet_ioctl_long (k_hw k) umem_ua (k_loc k) nonblock cmd arg pr env d
      | FDTYPE_RDMA \<Rightarrow> axiomnet_ioctl_rdma (k_hw k) umem_ua (k_v2o k) (k_loc k) nonblock cmd arg pr env d)"

text \<open>
  The result of a system call: an error code becomes -1 with \<open>errno\<close> set, an interrupted call reports
  \<open>EINTR\<close>, any other result is converted to \<open>int\<close>.
\<close>

definition syscall_ret :: "int \<Rightarrow> int \<times> int" where
  "syscall_ret r = (if r = - ERESTARTSYS then (- 1, EINTR) else if - 4095 \<le> r \<and> r < 0 then (- 1, - r)
     else (sint (of_int r :: u32), 0))"

text \<open>The argument structure lies at \<open>sy_stack\<close> during the call, and is read back from there.\<close>

definition sys_ioctl :: "'d kernel \<Rightarrow> int \<Rightarrow> ioctl_cmd \<Rightarrow> u8 list \<Rightarrow> 'd node \<Rightarrow> (int \<times> int \<times> u8 list \<times> 'd node) option" where
  "sys_ioctl k fd cmd arg w = (case file_at fd w of
     None \<Rightarrow> Some (- 1, 9, arg, w)
   | Some f \<Rightarrow> do {
       let d = (sy_drv w)\<lparr>user_mem := umem_write (user_mem (sy_drv w)) (sy_stack w) arg\<rparr>;
       (r, pr, env, d) \<leftarrow> fops_ioctl k f cmd (sy_stack w) (sy_env w) d;
       let (ret, errno) = syscall_ret r;
       bs \<leftarrow> those (umem_read (user_mem d) (sy_stack w) (length arg));
       Some (ret, errno, bs, set_file fd (Some (f\<lparr>of_priv := pr\<rparr>)) (w\<lparr>sy_drv := d, sy_env := env\<rparr>)) })"

text \<open>The \<open>poll\<close> entries; a file without one is always readable and writable.\<close>

definition fops_poll :: "'d kernel \<Rightarrow> open_file \<Rightarrow> u32 \<Rightarrow> 'd nic \<Rightarrow> (u32 \<times> 'd nic) option" where
  "fops_poll k f events d = (case fd_type (of_priv f) of
     FDTYPE_GENERIC \<Rightarrow> Some (POLLIN OR POLLOUT OR POLLRDNORM OR POLLWRNORM, d)
   | FDTYPE_RAW \<Rightarrow> axiomnet_poll_raw (k_hw k) (of_priv f) events d
   | FDTYPE_LONG \<Rightarrow> axiomnet_poll_long (k_hw k) (of_priv f) events d
   | FDTYPE_RDMA \<Rightarrow> axiomnet_poll_rdma (k_hw k) (of_priv f) events d)"

text \<open>One pass over the descriptors: \<open>revents\<close> holds the events asked for that the file reports.\<close>

fun poll_pass :: "'d kernel \<Rightarrow> (int \<times> u16) list \<Rightarrow> 'd node \<Rightarrow> (u16 list \<times> 'd node) option" where
  "poll_pass k [] w = Some ([], w)"
| "poll_pass k ((fd, events) # fds) w = (case file_at fd w of
     None \<Rightarrow> do { (rs, w) \<leftarrow> poll_pass k fds w; Some (32 # rs, w) }
   | Some f \<Rightarrow> do {
       (r, d) \<leftarrow> fops_poll k f (ucast events) (sy_drv w);
       (rs, w) \<leftarrow> poll_pass k fds (w\<lparr>sy_drv := d\<rparr>);
       Some ((ucast r AND events) # rs, w) })"

text \<open>
  \<open>poll\<close>: with time-out 0 one pass; with -1 the process sleeps until a wake-up changes the outcome, \<open>n\<close>
  wake-ups at most being left.
\<close>

fun sys_poll_wait :: "'d kernel \<Rightarrow> (int \<times> u16) list \<Rightarrow> int \<Rightarrow> nat \<Rightarrow> 'd node \<Rightarrow> (int \<times> u16 list \<times> 'd node) option" where
  "sys_poll_wait k fds timeout n w = do {
     (rs, w) \<leftarrow> poll_pass k fds w;
     let c = length (filter (\<lambda>r. r \<noteq> 0) rs);
     if 0 < c \<or> timeout = 0 then Some (int c, rs, w)
     else case (n, sy_env w) of
         (Suc m, Wake f # env) \<Rightarrow> sys_poll_wait k fds timeout m (w\<lparr>sy_drv := f (sy_drv w), sy_env := env\<rparr>)
       | (_, Signal # env) \<Rightarrow> Some (- 1, rs, w\<lparr>sy_env := env, sy_errno := EINTR\<rparr>)
       | _ \<Rightarrow> None }"

definition sys_poll :: "'d kernel \<Rightarrow> (int \<times> u16) list \<Rightarrow> int \<Rightarrow> 'd node \<Rightarrow> (int \<times> u16 list \<times> 'd node) option" where
  "sys_poll k fds timeout w = sys_poll_wait k fds timeout (length (sy_env w)) w"

definition sys_mmap :: "'d kernel \<Rightarrow> u64 \<Rightarrow> u64 \<Rightarrow> int \<Rightarrow> 'd node \<Rightarrow> u64 \<times> 'd node" where
  "sys_mmap k addr n fd w = (case file_at fd w of
     None \<Rightarrow> (MAP_FAILED, w)
   | Some f \<Rightarrow> if fd_type (of_priv f) \<noteq> FDTYPE_RDMA then (MAP_FAILED, w)
       else let a = k_place k addr in
         case axiomnet_mmap (k_remap k) a (a + n) 0 (of_priv f) (sy_drv w) of
           None \<Rightarrow> (MAP_FAILED, w)
         | Some (err, pr, d) \<Rightarrow> (if err \<noteq> 0 then MAP_FAILED else a, set_file fd (Some (f\<lparr>of_priv := pr\<rparr>)) (w\<lparr>sy_drv := d\<rparr>)))"

definition sys_load :: "u64 \<Rightarrow> nat \<Rightarrow> 'd node \<Rightarrow> u8 list option" where
  "sys_load a n w = those (umem_read (user_mem (sy_drv w)) a n)"

text \<open>A store of the process to its own memory.\<close>

definition node_store :: "u64 \<Rightarrow> u8 list \<Rightarrow> 'd node \<Rightarrow> 'd node" where
  "node_store a bs w = w\<lparr>sy_drv := (sy_drv w)\<lparr>user_mem := umem_write (user_mem (sy_drv w)) a bs\<rparr>\<rparr>"

definition node_os :: "'d kernel \<Rightarrow> 'd node os" where
  "node_os k = \<lparr>os_calloc = (\<lambda>w. (k_calloc k, if k_calloc k then w\<lparr>sy_heap := Suc (sy_heap w)\<rparr> else w)),
     os_free = (\<lambda>w. w\<lparr>sy_heap := sy_heap w - 1\<rparr>),
     os_open = sys_open k, os_close = sys_close, os_getfl = sys_getfl, os_setfl = sys_setfl,
     os_ioctl = sys_ioctl k, os_poll = sys_poll k, os_mmap = sys_mmap k,
     os_munmap = (\<lambda>a n w. (0, w)), os_getenv = (\<lambda>s w. k_getenv k s), os_load = sys_load\<rparr>"

end
