(* ===== verification/UserProps.thy ===== *)
theory UserProps
  imports NodeSystem
begin

text \<open>
  Properties of the user library. What it needs of the operating system is stated by locales
  and discharged for the node model, where library and driver run together.
\<close>

section \<open>Descriptors and memory\<close>

text \<open>
  The contract of the calls that acquire and give back resources: \<open>fds\<close> are the open descriptors of
  the process, \<open>heap\<close> counts its device structures.
\<close>

locale posix_files =
  fixes os :: "'w os" and fds :: "'w \<Rightarrow> int set" and heap :: "'w \<Rightarrow> nat"
  assumes open_fds: "os_open os name w = (fd, w') \<Longrightarrow>
      heap w' = heap w \<and> (if fd < 0 then fds w' = fds w else fd \<notin> fds w \<and> fds w' = insert fd (fds w))"
    and close_fds: "fds (os_close os fd w) = fds w - {fd}" "heap (os_close os fd w) = heap w"
    and calloc_heap: "os_calloc os w = (ok, w') \<Longrightarrow> fds w' = fds w \<and> heap w' = (if ok then Suc (heap w) else heap w)"
    and free_heap: "fds (os_free os w) = fds w" "heap (os_free os w) = heap w - 1"
    and getfl_fds: "fds (snd (os_getfl os fd w)) = fds w" "heap (snd (os_getfl os fd w)) = heap w"
    and setfl_fds: "fds (snd (os_setfl os fd fl w)) = fds w" "heap (snd (os_setfl os fd fl w)) = heap w"
begin

lemma fcntl_snd: "fds (snd (axiom_fcntl os fd flag on w)) = fds w" "heap (snd (axiom_fcntl os fd flag on w)) = heap w"
  by (simp_all add: axiom_fcntl_def Let_def case_prod_unfold getfl_fds setfl_fds)

lemma update_flags_fds:
  "fst (axiom_update_flags os v fl w) = 0" "fds (snd (axiom_update_flags os v fl w)) = fds w"
  "heap (snd (axiom_update_flags os v fl w)) = heap w"
  by (auto simp: axiom_update_flags_def Let_def fcntl_snd)

lemma set_flags_fds:
  assumes "axiom_set_flags os (Some v) fl w = (r, dev, w')"
  shows "fds w' = fds w \<and> heap w' = heap w \<and> (if r = 0 then dev = Some (v\<lparr>dev_flags := dev_flags v OR fl\<rparr>) else r = - 1)"
  using assms update_flags_fds [of "v\<lparr>dev_flags := dev_flags v OR fl\<rparr>" fl w]
  by (auto simp: axiom_set_flags_def opened_def Let_def split: if_splits prod.splits)

text \<open>What an open device holds, beside what the process had before.\<close>

definition holds_dev :: "'w \<Rightarrow> 'w \<Rightarrow> axiom_dev \<Rightarrow> bool" where
  "holds_dev w w' v \<longleftrightarrow> distinct [fd_generic v, fd_raw v, fd_long v, fd_rdma v] \<and>
     fds w \<inter> {fd_generic v, fd_raw v, fd_long v, fd_rdma v} = {} \<and>
     fds w' = fds w \<union> {fd_generic v, fd_raw v, fd_long v, fd_rdma v} \<and> heap w' = Suc (heap w) \<and>
     recv_fds v = [(fd_raw v, POLL_IN), (fd_long v, POLL_IN)]"

lemma close_restores:
  assumes "holds_dev w w' v"
  shows "fds (axiom_close os (Some v) w') = fds w" "heap (axiom_close os (Some v) w') = heap w"
  using assms by (auto simp: axiom_close_def holds_dev_def close_fds free_heap)

lemma close_rdma_restores:
  assumes "holds_dev w w' v" and "close_fd_rdma os v w' = (dev, w'')"
  shows "dev = None" "fds w'' = fds w" "heap w'' = heap w"
  using assms by (auto simp: close_fd_rdma_def close_fd_long_def close_fd_raw_def close_fd_gen_def free_dev_def
      holds_dev_def close_fds free_heap)

lemma open_outcome:
  assumes "axiom_open os args w = (dev, w')"
  shows "(dev = None \<and> fds w' = fds w \<and> heap w' = heap w) \<or> (\<exists>v. dev = Some v \<and> holds_dev w w' v)"
proof -
  obtain ok w0 where c: "os_calloc os w = (ok, w0)" by fastforce
  obtain fd1 w1 where o1: "os_open os ''/dev/axiom'' w0 = (fd1, w1)" by fastforce
  obtain fd2 w2 where o2: "os_open os ''/dev/axiom-raw'' w1 = (fd2, w2)" by fastforce
  obtain fd3 w3 where o3: "os_open os ''/dev/axiom-long'' w2 = (fd3, w3)" by fastforce
  obtain fd4 w4 where o4: "os_open os ''/dev/axiom-rdma'' w3 = (fd4, w4)" by fastforce
  note f = calloc_heap [OF c] open_fds [OF o1] open_fds [OF o2] open_fds [OF o3] open_fds [OF o4]
  let ?v = "axiom_dev_zero\<lparr>fd_generic := fd1, fd_raw := fd2, recv_fds := [(fd2, POLL_IN), (fd3, POLL_IN)],
      fd_long := fd3, fd_rdma := fd4\<rparr>"
  note defs = axiom_open_def close_fd_long_def close_fd_raw_def close_fd_gen_def free_dev_def Let_def
  show ?thesis
  proof (cases "ok \<and> fd1 \<ge> 0 \<and> fd2 \<ge> 0 \<and> fd3 \<ge> 0 \<and> fd4 \<ge> 0")
    case False
    then consider "\<not> ok" | "ok" "fd1 < 0" | "ok" "fd1 \<ge> 0" "fd2 < 0" | "ok" "fd1 \<ge> 0" "fd2 \<ge> 0" "fd3 < 0"
      | "ok" "fd1 \<ge> 0" "fd2 \<ge> 0" "fd3 \<ge> 0" "fd4 < 0" by linarith
    then have "dev = None \<and> fds w' = fds w \<and> heap w' = heap w"
      by cases (use assms c o1 o2 o3 o4 f in \<open>auto simp: defs close_fds free_heap\<close>)
    then show ?thesis by blast
  next
    case True
    then have v: "holds_dev w w4 ?v" using f by (auto simp: holds_dev_def)
    show ?thesis
    proof (cases args)
      case None
      then show ?thesis using True assms c o1 o2 o3 o4 v by (auto simp: axiom_open_def Let_def holds_dev_def axiom_dev_zero_def)
    next
      case (Some fl)
      obtain r dev' w5 where s: "axiom_set_flags os (Some ?v) fl w4 = (r, dev', w5)" by (metis prod_cases3)
      note sf = set_flags_fds [OF s]
      have v5: "holds_dev w w5 ?v" using v sf by (simp add: holds_dev_def)
      show ?thesis
      proof (cases "r = 0")
        case True': True
        then show ?thesis using True Some assms c o1 o2 o3 o4 s sf v5
          by (auto simp: axiom_open_def Let_def holds_dev_def axiom_dev_zero_def)
      next
        case False
        then have "axiom_open os args w = close_fd_rdma os ?v w5"
          using True Some c o1 o2 o3 o4 s by (simp add: axiom_open_def Let_def axiom_dev_zero_def)
        then show ?thesis using close_rdma_restores [OF v5] assms by metis
      qed
    qed
  qed
qed

end

subsection \<open>The node model keeps the contract\<close>

lemma install_file_fresh:
  "install_file f fs = (i, fs') \<Longrightarrow> (i < length fs \<longrightarrow> fs ! i = None) \<and> i < length fs' \<and> fs' ! i = Some f \<and>
    (\<forall>j. j \<noteq> i \<longrightarrow> (j < length fs' \<and> fs' ! j \<noteq> None \<longleftrightarrow> j < length fs \<and> fs ! j \<noteq> None))"
proof (induction f fs arbitrary: i fs' rule: install_file.induct)
  case (2 f fs)
  then show ?case by (auto simp: nth_Cons split: nat.splits)
next
  case (3 f g fs)
  from 3(2) obtain j gs where j: "install_file f fs = (j, gs)" "i = Suc j" "fs' = Some g # gs"
    by (auto split: prod.splits)
  from 3(1) [OF j(1)] j(2,3) show ?case by (auto simp: nth_Cons split: nat.splits)
qed auto

lemma sys_open_fds:
  assumes "sys_open k name w = (fd, w')"
  shows "sy_heap w' = sy_heap w" and
    "if fd < 0 then sys_fds w' = sys_fds w else fd \<notin> sys_fds w \<and> sys_fds w' = insert fd (sys_fds w)"
proof -
  have "sy_heap w' = sy_heap w \<and> (sy_files w' = sy_files w \<and> fd < 0 \<or>
      (\<exists>f i. install_file f (sy_files w) = (i, sy_files w') \<and> fd = int i))"
    using assms by (auto simp: sys_open_def Let_def split: option.splits if_splits prod.splits)
  then show "sy_heap w' = sy_heap w" and
    "if fd < 0 then sys_fds w' = sys_fds w else fd \<notin> sys_fds w \<and> sys_fds w' = insert fd (sys_fds w)"
  proof -
    assume *: "sy_heap w' = sy_heap w \<and> (sy_files w' = sy_files w \<and> fd < 0 \<or>
      (\<exists>f i. install_file f (sy_files w) = (i, sy_files w') \<and> fd = int i))"
    show "if fd < 0 then sys_fds w' = sys_fds w else fd \<notin> sys_fds w \<and> sys_fds w' = insert fd (sys_fds w)"
    proof (cases "fd < 0")
      case True
      with * show ?thesis by (auto simp: sys_fds_def file_at_def)
    next
      case False
      with * obtain f i where i: "install_file f (sy_files w) = (i, sy_files w')" "fd = int i" by auto
      have "x \<in> sys_fds w' \<longleftrightarrow> x = fd \<or> x \<in> sys_fds w" for x
      proof (cases "x < 0")
        case False
        then obtain n where "x = int n" using nonneg_int_cases [of x] by auto
        then show ?thesis using install_file_fresh [OF i(1)] i(2) 
          by (cases "n = i") (auto simp: sys_fds_def file_at_def simp del: not_None_eq)
      qed (use i in \<open>auto simp: sys_fds_def file_at_def\<close>)
      moreover have "fd \<notin> sys_fds w" using install_file_fresh [OF i(1)] i(2) by (auto simp: sys_fds_def file_at_def)
      ultimately show ?thesis using False by auto
    qed
  qed simp
qed

lemma sys_set_file_fds: "sys_fds (set_file fd None w) = sys_fds w - {fd}" if "file_at fd w \<noteq> None"
  using that by (auto simp: sys_fds_def file_at_def set_file_def nth_list_update split: if_splits)

lemma sys_set_flags_fds: "sys_fds (set_file fd (Some g) w) = sys_fds w" if "file_at fd w \<noteq> None"
  using that by (auto simp: sys_fds_def file_at_def set_file_def nth_list_update split: if_splits)

lemma sys_fds_drv [simp]: "sys_fds (w\<lparr>sy_drv := d\<rparr>) = sys_fds w" "file_at fd (w\<lparr>sy_drv := d\<rparr>) = file_at fd w"
  by (simp_all add: sys_fds_def file_at_def)

lemma sys_heap_set_file: "sy_heap (set_file fd f w) = sy_heap w" by (simp add: set_file_def)
lemma sys_fds_heap: "sys_fds (w\<lparr>sy_heap := n\<rparr>) = sys_fds w" by (simp add: sys_fds_def file_at_def)

interpretation node_files: posix_files "node_os k" sys_fds sy_heap
proof
  show "os_open (node_os k) name w = (fd, w') \<Longrightarrow> sy_heap w' = sy_heap w \<and>
      (if fd < 0 then sys_fds w' = sys_fds w else fd \<notin> sys_fds w \<and> sys_fds w' = insert fd (sys_fds w))" for name w fd w'
    using sys_open_fds [of k name w fd w'] by (simp add: node_os_def)
  show "sys_fds (os_close (node_os k) fd w) = sys_fds w - {fd}" for fd w
  proof (cases "file_at fd w")
    case None
    then show ?thesis by (auto simp: node_os_def sys_close_def sys_fds_def)
  next
    case (Some f)
    then show ?thesis by (auto simp: node_os_def sys_close_def sys_set_file_fds split: option.splits)
  qed
qed (auto simp: node_os_def sys_close_def sys_getfl_def sys_setfl_def sys_set_flags_fds sys_heap_set_file sys_fds_heap
    split: option.splits if_splits)

section \<open>Opening and closing the device\<close>

text \<open>
  Property C25. Opening the device either fails and leaves the process with the descriptors and the memory it
  had, whichever of the five steps failed; or it returns a device with four new, different descriptors and
  the RAW and LONG ones registered for polling, and closing that device gives everything back.
\<close>

theorem axiom_open_close_balanced:
  assumes "posix_files os fds heap" and "axiom_open os args w = (dev, w')"
  shows "(dev = None \<longrightarrow> fds w' = fds w \<and> heap w' = heap w) \<and>
    (\<forall>v. dev = Some v \<longrightarrow> distinct [fd_generic v, fd_raw v, fd_long v, fd_rdma v] \<and>
       fds w \<inter> {fd_generic v, fd_raw v, fd_long v, fd_rdma v} = {} \<and>
       fds w' = fds w \<union> {fd_generic v, fd_raw v, fd_long v, fd_rdma v} \<and>
       recv_fds v = [(fd_raw v, POLL_IN), (fd_long v, POLL_IN)] \<and>
       fds (axiom_close os dev w') = fds w \<and> heap (axiom_close os dev w') = heap w)"
  using posix_files.open_outcome [OF assms] posix_files.close_restores [OF assms(1)]
  by (auto simp: posix_files.holds_dev_def [OF assms(1)])

definition demo_kernel :: "demo_dev kernel" where
  "demo_kernel = \<lparr>k_hw = demo_hw, k_loc = demo_locals, k_regs = (\<lambda>_ v. v), k_v2o = (\<lambda>_ a _. (0, a)), k_kzalloc = True,
     k_remap = (\<lambda>_ _. 0), k_calloc = True, k_getenv = (\<lambda>_. Some ''12''), k_place = (\<lambda>a. a)\<rparr>"

definition std_file :: open_file where
  "std_file = \<lparr>of_priv = \<lparr>bind_port = - 1, fd_type = FDTYPE_GENERIC, rdma_debug = 0\<rparr>, of_flags = 2\<rparr>"

definition demo_node :: "demo_dev node" where
  "demo_node = \<lparr>sy_drv = demo_d, sy_files = replicate 3 (Some std_file), sy_stack = 4096, sy_env = [], sy_heap = 0, sy_errno = 0\<rparr>"

definition demo_user :: axiom_dev where
  "demo_user = \<lparr>fd_generic = 3, fd_raw = 4, fd_long = 5, fd_rdma = 6, recv_fds = [(4, 1), (5, 1)], dev_flags = 0,
     dev_rdma_addr = 0, dev_rdma_size = 0, dev_appid = 12\<rparr>"

lemma demo_appid: "axiom_get_appid (node_os demo_kernel) w = 12"
  by (simp add: axiom_get_appid_def node_os_def demo_kernel_def strtoul10_def)

lemma demo_open: "\<exists>w'. axiom_open (node_os demo_kernel) None demo_node = (Some demo_user, w')"
  unfolding axiom_open_def demo_appid
  by (simp add: node_os_def demo_kernel_def demo_node_def sys_open_def dev_class_def
      open_eq demo_d_def Let_def numeral_3_eq_3 axiom_dev_zero_def demo_user_def)

theorem axiom_open_close_balanced_witness:
  "\<exists>w'. axiom_open (node_os demo_kernel) None demo_node = (Some demo_user, w') \<and>
     sys_fds w' = sys_fds demo_node \<union> {3, 4, 5, 6} \<and> sys_fds (axiom_close (node_os demo_kernel) (Some demo_user) w') = sys_fds demo_node"
proof -
  obtain w' where o: "axiom_open (node_os demo_kernel) None demo_node = (Some demo_user, w')" using demo_open by blast
  show ?thesis using axiom_open_close_balanced [OF node_files.posix_files_axioms o] o by (auto simp: demo_user_def)
qed

section \<open>Sending\<close>

text \<open>
  Property C28. \<open>axiom_send\<close> chooses the message class by the size: up to 248 bytes it passes a RAW data message, up
  to 65528 bytes a LONG message, each announcing exactly the caller's size, destination and port. A larger size
  is not refused as such: only its value modulo \<open>2 ^ 16\<close> is announced, so that every size that exceeds
  a multiple of 65536 by at most 65528 is accepted and loses the rest of the payload.
\<close>

theorem axiom_send_class:
  assumes "dev = Some v" "0 < fd_raw v" "0 < fd_long v"
  shows "(unat n \<le> 248 \<longrightarrow> (\<exists>h. rh_payload_size h = ucast n \<and> unat (rh_payload_size h) = unat n \<and> rh_node h = dst \<and>
          pt_type (rh_port_type h) = AXIOM_TYPE_RAW_DATA \<and> pt_port (rh_port_type h) = port AND 7 \<and>
          axiom_send os junk dev dst port n payload w =
            map_option (\<lambda>(ret, errno, arg, w). (if ret < 0 then ioctl_error errno else ret, w))
              (os_ioctl os (fd_raw v) AXNET_SEND_RAW (raw_arg junk h payload) w))) \<and>
    (248 < unat n \<longrightarrow> unat n mod 65536 \<le> 65528 \<longrightarrow>
        (\<exists>h. unat (dh_payload_size h) = unat n mod 65536 \<and> dh_node h = dst \<and>
          pt_type (dh_port_type h) = AXIOM_TYPE_LONG_DATA \<and> pt_port (dh_port_type h) = port AND 7 \<and>
          axiom_send os junk dev dst port n payload w =
            map_option (\<lambda>(ret, errno, arg, w). (if ret < 0 then ioctl_error errno else ret, w))
              (os_ioctl os (fd_long v) AXNET_SEND_LONG (long_arg h payload) w))) \<and>
    (65528 < unat n mod 65536 \<longrightarrow> axiom_send os junk dev dst port n payload w = Some (AXIOM_RET_ERROR, w))"
proof (intro conjI impI)
  have bind: "Option.bind x (\<lambda>(ret, errno, arg, w). Some (f ret errno, w)) =
      map_option (\<lambda>(ret, errno, arg, w). (f ret errno, w)) x" for x :: "(int \<times> int \<times> u8 list \<times> 'a) option" and f :: "int \<Rightarrow> int \<Rightarrow> int"
    by (cases x) (auto split: prod.splits)
  {
    assume n: "unat n \<le> 248"
    then have u: "unat (ucast n :: u8) = unat n" by (simp add: unsigned_ucast_eq take_bit_nat_eq_self)
    let ?h = "snd (axiom_send_raw_prepare (raw_hdr_of_bytes junk) dst port AXIOM_TYPE_RAW_DATA (ucast n))"
    show "\<exists>h. rh_payload_size h = ucast n \<and> unat (rh_payload_size h) = unat n \<and> rh_node h = dst \<and>
          pt_type (rh_port_type h) = AXIOM_TYPE_RAW_DATA \<and> pt_port (rh_port_type h) = port AND 7 \<and>
          axiom_send os junk dev dst port n payload w =
            map_option (\<lambda>(ret, errno, arg, w). (if ret < 0 then ioctl_error errno else ret, w))
              (os_ioctl os (fd_raw v) AXNET_SEND_RAW (raw_arg junk h payload) w)"
      using assms n u by (intro exI [of _ ?h])
        (auto simp: axiom_send_def axiom_send_raw_def opened_def axiom_send_raw_prepare_def bind)
  }
  have u: "unat (ucast n :: u16) = unat n mod 65536" by (simp add: unsigned_ucast_eq take_bit_nat_def)
  {
    assume n: "248 < unat n" "unat n mod 65536 \<le> 65528"
    let ?h = "snd (axiom_send_long_prepare (rdma_hdr_of_bytes junk) dst port (ucast n))"
    show "\<exists>h. unat (dh_payload_size h) = unat n mod 65536 \<and> dh_node h = dst \<and>
          pt_type (dh_port_type h) = AXIOM_TYPE_LONG_DATA \<and> pt_port (dh_port_type h) = port AND 7 \<and>
          axiom_send os junk dev dst port n payload w =
            map_option (\<lambda>(ret, errno, arg, w). (if ret < 0 then ioctl_error errno else ret, w))
              (os_ioctl os (fd_long v) AXNET_SEND_LONG (long_arg h payload) w)"
      using assms n u by (intro exI [of _ ?h])
        (auto simp: axiom_send_def axiom_send_long_def opened_def axiom_send_long_prepare_def bind)
  }
  assume "65528 < unat n mod 65536"
  moreover from this have "248 < unat n" using mod_less_eq_dividend [of "unat n" 65536] by linarith
  ultimately show "axiom_send os junk dev dst port n payload w = Some (AXIOM_RET_ERROR, w)"
    using assms u by (simp add: axiom_send_def axiom_send_long_def opened_def axiom_send_long_prepare_def)
qed

theorem axiom_send_class_witness:
  "\<exists>h. unat (dh_payload_size h) = 8 \<and> axiom_send (node_os demo_kernel) (replicate 24 0) (Some demo_user) 2 1 65544 8192 demo_node =
     map_option (\<lambda>(ret, errno, arg, w). (if ret < 0 then ioctl_error errno else ret, w))
       (os_ioctl (node_os demo_kernel) 5 AXNET_SEND_LONG (long_arg h 8192) demo_node)"
  using axiom_send_class [of "Some demo_user" demo_user 65544 2 1 "node_os demo_kernel" "replicate 24 0" 8192 demo_node]
  by (auto simp: demo_user_def)

section \<open>Waiting for RDMA requests\<close>

lemma rdma_user_wait_done:
  assumes check: "\<And>w. ok w \<Longrightarrow> \<exists>w'. axiom_rdma_check os junk (Some v) tokens (int n) w = Some (int (acked w'), w') \<and>
      ok w' \<and> acked w \<le> acked w' \<and> acked w' \<le> n"
    and wait: "\<And>w. ok w \<Longrightarrow> acked w < n \<Longrightarrow> \<exists>t ret e w'. find_pending os tokens n w = Some t \<and>
      axiom_rdma_wait_internal os junk v t w = Some (ret, e, w') \<and> 0 \<le> ret \<and> ok w' \<and> acked w < acked w'"
    and "ok w" "acked w \<le> n"
  shows "\<exists>r w'. rdma_user_wait_loop os junk v tokens (int n) (int (acked w)) ret w = Some (Inr r, w') \<and> ok w' \<and> acked w' = n"
  using assms(3,4)
proof (induction "n - acked w" arbitrary: w ret rule: less_induct)
  case less
  show ?case
  proof (cases "acked w < n")
    case False
    then show ?thesis using less.prems by (subst rdma_user_wait_loop.simps) auto
  next
    case True
    with wait less.prems obtain t ret1 e w1 where t: "find_pending os tokens n w = Some t"
      "axiom_rdma_wait_internal os junk v t w = Some (ret1, e, w1)" "0 \<le> ret1" "ok w1" "acked w < acked w1" by blast
    from check [OF t(4)] obtain w2 where w2: "axiom_rdma_check os junk (Some v) tokens (int n) w1 = Some (int (acked w2), w2)"
      "ok w2" "acked w1 \<le> acked w2" "acked w2 \<le> n" by blast
    have "n - acked w2 < n - acked w" using True t(5) w2(3) by linarith
    from less.hyps [OF this w2(2,4)] obtain r w3 where
      "rdma_user_wait_loop os junk v tokens (int n) (int (acked w2)) ret1 w2 = Some (Inr r, w3)" "ok w3" "acked w3 = n" by blast
    then show ?thesis using True t w2(1) by (subst rdma_user_wait_loop.simps) auto
  qed
qed


text \<open>
  Two tokens of a device whose requests complete one after the other: the world is the number of
  completed requests, token 0 being the first to complete.
\<close>

definition demo_token :: "bool \<Rightarrow> u8 list" where
  "demo_token done = le_bytes 8 (set_tk_status (if done then AXIOM_TOKEN_ACKED else AXIOM_TOKEN_PENDING) 0)"

definition demo_wait_os :: "nat os" where
  "demo_wait_os = \<lparr>os_calloc = (\<lambda>w. (True, w)), os_free = (\<lambda>w. w), os_open = (\<lambda>_ w. (- 1, w)), os_close = (\<lambda>_ w. w),
     os_getfl = (\<lambda>_ w. (0, w)), os_setfl = (\<lambda>_ _ w. (0, w)),
     os_ioctl = (\<lambda>fd cmd arg w. case cmd of AXNET_RDMA_CHECK \<Rightarrow> Some (int w, 0, arg, w)
        | AXNET_RDMA_WAIT \<Rightarrow> Some (0, 0, arg, min 2 (Suc w)) | _ \<Rightarrow> Some (- 1, EINVAL, arg, w)),
     os_poll = (\<lambda>_ _ w. None), os_mmap = (\<lambda>_ _ _ w. (0, w)), os_munmap = (\<lambda>_ _ w. (0, w)), os_getenv = (\<lambda>_ _. None),
     os_load = (\<lambda>a n w. Some (demo_token (unat a < 8 * w)))\<rparr>"

lemma demo_token_status: "tk_status (ptr_at 0 (demo_token b)) = (if b then AXIOM_TOKEN_ACKED else AXIOM_TOKEN_PENDING)"
  by (simp add: demo_token_def ptr_at_def le_word_le_bytes)


text \<open>
  A failed wait is not reported: when a token of the array is still pending and the driver's wait returns an
  error, whatever its \<open>errno\<close>, the call returns success, although fewer tokens than asked for are acknowledged.
\<close>

theorem axiom_rdma_wait_hides_error:
  assumes "0 < fd_rdma v" and "axiom_rdma_check os junk (Some v) tokens cnt w = Some (acked, w1)" "0 \<le> acked" "acked < cnt"
    and "find_pending os tokens (nat cnt) w1 = Some t" "axiom_rdma_wait_internal os junk v t w1 = Some (ret, errno, w2)" "ret < 0"
  shows "axiom_rdma_wait os junk (Some v) tokens cnt w = Some (AXIOM_RET_OK, w2)"
proof -
  have "rdma_user_wait_loop os junk v tokens cnt acked 0 w1 =
      Some (Inr (if errno = EAGAIN then AXIOM_RET_NOTAVAIL else AXIOM_RET_ERROR), w2)"
    using assms by (subst rdma_user_wait_loop.simps) simp
  then show ?thesis using assms by (simp add: axiom_rdma_wait_def opened_def)
qed

theorem axiom_rdma_wait_hides_error_witness:
  "axiom_rdma_wait (demo_wait_os\<lparr>os_ioctl := \<lambda>fd cmd arg w. if cmd = AXNET_RDMA_CHECK then Some (0, 0, arg, w)
      else Some (- 1, EAGAIN, arg, w)\<rparr>) (replicate 16 0) (Some demo_user) 0 2 0 = Some (AXIOM_RET_OK, 0)"
proof -
  let ?os = "demo_wait_os\<lparr>os_ioctl := \<lambda>fd cmd arg w. if cmd = AXNET_RDMA_CHECK then Some (0, 0, arg, w)
      else Some (- 1, EAGAIN, arg, w)\<rparr>"
  have "find_pending ?os 0 (nat 2) 0 = Some 8" by (simp add: demo_wait_os_def demo_token_status numeral_2_eq_2)
  then show ?thesis
    by (intro axiom_rdma_wait_hides_error [of _ _ _ _ _ _ 0 0 8 "- 1" EAGAIN])
      (simp_all add: demo_user_def axiom_rdma_check_def opened_def axiom_rdma_wait_internal_def)
qed

end
