(* ===== verification/NodeProps.thy ===== *)
theory NodeProps
  imports UserProps
begin

text \<open>
  Library and driver together: a call of the user library is followed through the system call and
  the driver's handler down to the queues and the hardware, on the node model.
\<close>

section \<open>Memory of the process\<close>

lemma umem_write_other: "(\<And>i. i < length bs \<Longrightarrow> a \<noteq> b + of_nat i) \<Longrightarrow> umem_write m b bs a = m a"
proof (induction bs arbitrary: m b)
  case (Cons x bs)
  have "a \<noteq> b" using Cons.prems [of 0] by simp
  moreover
  have "a \<noteq> b + 1 + of_nat i" if "i < length bs" for i using Cons.prems [of "Suc i"] that by (simp add: add.assoc)
  then have "umem_write (m(b \<mapsto> x)) (b + 1) bs a = (m(b \<mapsto> x)) a" by (rule Cons.IH)
  ultimately show ?case by simp
qed simp

text \<open>Two regions of memory that do not overlap.\<close>

definition apart :: "u64 \<Rightarrow> nat \<Rightarrow> u64 \<Rightarrow> nat \<Rightarrow> bool" where
  "apart a n b k = (\<forall>i < n. \<forall>j < k. a + of_nat i \<noteq> b + of_nat j)"

lemma apart_below:
  assumes "unat b + k \<le> unat a" "unat a + n < 2 ^ 64"
  shows "apart a n b k"
proof (unfold apart_def, intro allI impI)
  fix i j assume i: "i < n" "j < k"
  have "unat (a + of_nat i) = unat a + i" "unat (b + of_nat j) = unat b + j"
    using assms i by (simp_all add: unat_word_ariths unsigned_of_nat take_bit_nat_eq_self)
  then show "a + of_nat i \<noteq> b + of_nat j" using assms(1) i by (metis add_leD1 leD le_add1 less_le_trans nat_add_left_cancel_less)
qed

lemma umem_read_write_apart: "apart a n b (length bs) \<Longrightarrow> umem_read (umem_write m b bs) a n = umem_read m a n"
  by (rule nth_equalityI) (auto simp: apart_def umem_read_nth intro!: umem_write_other)

lemma those_map_Some [simp]: "those (map Some xs) = Some xs"
  by (induction xs) auto

lemma readable_after_write: "length bs < 2 ^ 64 \<Longrightarrow> readable (umem_write m a bs) a (length bs)"
  by (auto simp: readable_def umem_read_write)

section \<open>Receiving a RAW message\<close>

lemma raw_pkts_length:
  assumes "raw_inv d own" "p < 7" "raw_pkts d p = k # ks" "unat (rh_payload_size (fst k)) \<le> 251"
  shows "length (snd k) = unat (rh_payload_size (fst k))"
proof -
  from raw_inv_pkts [OF assms(1-3)] obtain ds s where "\<forall>m \<in> set ds. raw_msg_wf m" "k = raw_pkt_of (ds ! s)" "s < length ds" .
  moreover from this have "raw_msg_wf (ds ! s)" by simp
  ultimately show ?thesis using assms(4) by (simp add: raw_pkt_of_def raw_msg_wf_def)
qed

lemma raw_arg_fields:
  "raw_hdr_of_bytes (raw_arg junk h a) = h" "length junk = 16 \<Longrightarrow> length (raw_arg junk h a) = 16"
  "length junk = 16 \<Longrightarrow> ptr_at 8 (raw_arg junk h a) = a"
  by (simp_all add: raw_arg_def ptr_at_def le_word_le_bytes)

lemma syscall_ret_ok: "0 \<le> r \<Longrightarrow> r < 2 ^ 31 \<Longrightarrow> syscall_ret r = (r, 0)"
  by (simp add: syscall_ret_def ERESTARTSYS_def signed_of_int signed_take_bit_int_eq_self)

text \<open>The node just before the driver's handler runs: the argument structure is on the stack.\<close>

lemma sys_ioctl_run:
  assumes "file_at fd w = Some f" "0 \<le> r" "r < 2 ^ 31"
    and "fops_ioctl k f cmd (sy_stack w) (sy_env w) ((sy_drv w)\<lparr>user_mem := umem_write (user_mem (sy_drv w)) (sy_stack w) arg\<rparr>) =
      Some (r, pr, env, d)"
    and "umem_read (user_mem d) (sy_stack w) (length arg) = map Some bs"
  shows "os_ioctl (node_os k) fd cmd arg w =
    Some (r, 0, bs, set_file fd (Some (f\<lparr>of_priv := pr\<rparr>)) (w\<lparr>sy_drv := d, sy_env := env\<rparr>))"
  using assms syscall_ret_ok [of r] by (simp add: node_os_def sys_ioctl_def)

text \<open>The property of this section, as a lemma for the composition of two nodes.\<close>

lemma axiom_recv_raw_lemma:
  assumes "0 < fd_raw v" "file_at (fd_raw v) w = Some f" "fd_type (of_priv f) = FDTYPE_RAW"
    and "bind_port (of_priv f) = int p" "p < 7" and "raw_inv (sy_drv w) own" "\<not> sp_mutex (raw_rx_ports (sy_drv w) ! p)"
    and "raw_pkts (sy_drv w) p = pk # pks"
    and "rh_payload_size (fst pk) \<le> ro_size out" "unat (ro_size out) \<le> 248" and "length junk = 16"
    and "ua_access_ok umem_ua (sy_stack w) 16" "readable (user_mem (sy_drv w)) (sy_stack w) 16"
    and "apart payload (length (snd pk)) (sy_stack w) 16"
    and "scatter_ok umem_ua (user_mem (sy_drv w)) (sq_base (raw_rx_queue (sy_drv w)) + 5) (unat (rh_payload_size (fst pk)))
       [\<lparr>iov_base = payload, iov_len = ucast (ro_size out)\<rparr>]"
  shows "\<exists>w'. axiom_recv_raw (node_os k) junk (Some v) payload out w = Some (uint (rh_msg_id (fst pk)),
      \<lparr>ro_src = rh_node (fst pk), ro_port = pt_port (rh_port_type (fst pk)), ro_type = pt_type (rh_port_type (fst pk)),
       ro_size = rh_payload_size (fst pk)\<rparr>, w') \<and>
    umem_read (user_mem (sy_drv w')) payload (unat (rh_payload_size (fst pk))) = map Some (snd pk) \<and>
    raw_inv (sy_drv w') own \<and> (\<forall>p' < 7. raw_pkts (sy_drv w') p' = (if p' = p then pks else raw_pkts (sy_drv w) p'))"
proof -
  let ?h = "(raw_hdr_of_bytes junk)\<lparr>rh_payload_size := ro_size out\<rparr>"
  let ?arg = "raw_arg junk ?h payload"
  let ?m = "umem_write (user_mem (sy_drv w)) (sy_stack w) ?arg"
  let ?d = "(sy_drv w)\<lparr>user_mem := ?m\<rparr>"
  let ?iov = "[\<lparr>iov_base = payload, iov_len = ucast (ro_size out)\<rparr>] :: iovec list"
  let ?loc = "k_loc k" and ?nb = "of_flags f AND O_NONBLOCK \<noteq> 0"
  have fit: "unat (rh_payload_size (fst pk)) \<le> unat (ro_size out)" using assms(9) by (simp add: word_le_nat_alt)
  have small: "unat (rh_payload_size (fst pk)) \<le> 251" using fit assms(10) by linarith
  have len: "length (snd pk) = unat (rh_payload_size (fst pk))" by (rule raw_pkts_length [OF assms(6,5,8) small])
  have "unat (ucast (ro_size out) :: u64) = unat (ro_size out)" using assms(10)
    by (simp add: unsigned_ucast_eq take_bit_nat_eq_self)
  then have tk: "take (unat (ucast (ro_size out) :: u64)) (snd pk) = snd pk" using fit len by simp
  have rd: "umem_read ?m (sy_stack w) 16 = map Some ?arg"
    using umem_read_write [of ?arg] raw_arg_fields(2) [OF assms(11), of ?h payload] by simp
  have pk: "raw_inv ?d own" "raw_pkts ?d = raw_pkts (sy_drv w)" using assms(6) by (simp_all add: raw_inv_def raw_pkts_def fun_eq_iff)
  have sc: "scatter_ok umem_ua ?m (sq_base (raw_rx_queue ?d) + 5) (unat (rh_payload_size (fst pk))) ?iov"
    using scatter_ok_write [OF assms(15)] by simp
  have "\<exists>d'. axiomnet_ioctl_raw (k_hw k) umem_ua ?loc ?nb AXNET_RECV_RAW (sy_stack w) (of_priv f) (sy_env w) ?d =
      Some (0, of_priv f, sy_env w, d') \<and> raw_inv d' own \<and>
      (\<forall>p' < 7. raw_pkts d' p' = (if p' = p then pks else raw_pkts ?d p')) \<and>
      user_mem d' = umem_write (scatter_mem (user_mem ?d) [\<lparr>iov_base = ptr_at 8 ?arg,
        iov_len = ucast (rh_payload_size (raw_hdr_of_bytes ?arg))\<rparr>] (snd pk)) (sy_stack w) (raw_hdr_bytes (fst pk) @ drop 5 ?arg)"
    by (rule ioctl_recv_raw_lemma [OF umem_ua_spec pk(1) assms(5,4)])
      (use assms small rd pk(2) sc in \<open>simp_all add: raw_arg_fields del: scatter_ok.simps\<close>)
  then obtain d' where d': "axiomnet_ioctl_raw (k_hw k) umem_ua ?loc ?nb AXNET_RECV_RAW (sy_stack w) (of_priv f) (sy_env w) ?d =
      Some (0, of_priv f, sy_env w, d')" "raw_inv d' own" "\<forall>p' < 7. raw_pkts d' p' = (if p' = p then pks else raw_pkts (sy_drv w) p')"
      "user_mem d' = umem_write (umem_write ?m payload (snd pk)) (sy_stack w) (raw_hdr_bytes (fst pk) @ drop 5 ?arg)"
    unfolding raw_arg_fields(1) raw_arg_fields(3) [OF assms(11)] pk(2) using tk by auto
  let ?out = "raw_hdr_bytes (fst pk) @ drop 5 ?arg"
  have lo: "length ?out = 16" using raw_arg_fields(2) [OF assms(11), of ?h payload] by simp
  then have rb: "umem_read (user_mem d') (sy_stack w) (length ?arg) = map Some ?out"
    using umem_read_write [of ?out] raw_arg_fields(2) [OF assms(11), of ?h payload] unfolding d'(4) by simp
  let ?w' = "set_file (fd_raw v) (Some (f\<lparr>of_priv := of_priv f\<rparr>)) (w\<lparr>sy_drv := d', sy_env := sy_env w\<rparr>)"
  have "os_ioctl (node_os k) (fd_raw v) AXNET_RECV_RAW ?arg w = Some (0, 0, ?out, ?w')"
    by (rule sys_ioctl_run [OF assms(2) _ _ _ rb]) (use d'(1) assms(3) in \<open>simp_all add: fops_ioctl_def\<close>)
  then have "axiom_recv_raw (node_os k) junk (Some v) payload out w = Some (uint (rh_msg_id (fst pk)),
      \<lparr>ro_src = rh_node (fst pk), ro_port = pt_port (rh_port_type (fst pk)), ro_type = pt_type (rh_port_type (fst pk)),
       ro_size = rh_payload_size (fst pk)\<rparr>, ?w')"
    using assms(1,10) by (simp add: axiom_recv_raw_def recv_raw_ioctl_def opened_def axiom_recv_raw_finalize_def pt_defs and.assoc)
  moreover have "length (snd pk) < 2 ^ 64" using len small by simp
  then have "umem_read (user_mem d') payload (length (snd pk)) = map Some (snd pk)"
    unfolding d'(4) using assms(14) umem_read_write_apart [of payload "length (snd pk)" "sy_stack w" ?out] lo
    by (simp only: umem_read_write)
  ultimately show ?thesis using d'(2,3) len by (intro exI [of _ ?w']) (simp add: set_file_def)
qed

text \<open>
  \<open>axiom_recv_raw\<close> from end to end. A process with the RAW file bound to a port on which a packet waits that fits
  its buffer gets the message id as the result, source, port, type and size of that packet in its
  variables and exactly the packet's payload in its buffer. The driver has taken that packet, and no
  other, from its queue, and the driver's invariant holds.
\<close>

theorem axiom_recv_raw_end_to_end:
  assumes "0 < fd_raw v" "file_at (fd_raw v) w = Some f" "fd_type (of_priv f) = FDTYPE_RAW"
    and "bind_port (of_priv f) = int p" "p < 7" and "raw_inv (sy_drv w) own" "\<not> sp_mutex (raw_rx_ports (sy_drv w) ! p)"
    and "raw_pkts (sy_drv w) p = pk # pks"
    and "rh_payload_size (fst pk) \<le> ro_size out" "unat (ro_size out) \<le> 248" and "length junk = 16"
    and "ua_access_ok umem_ua (sy_stack w) 16" "readable (user_mem (sy_drv w)) (sy_stack w) 16"
    and "apart payload (length (snd pk)) (sy_stack w) 16"
    and "scatter_ok umem_ua (user_mem (sy_drv w)) (sq_base (raw_rx_queue (sy_drv w)) + 5) (unat (rh_payload_size (fst pk)))
       [\<lparr>iov_base = payload, iov_len = ucast (ro_size out)\<rparr>]"
  shows "\<exists>w'. axiom_recv_raw (node_os k) junk (Some v) payload out w = Some (uint (rh_msg_id (fst pk)),
      \<lparr>ro_src = rh_node (fst pk), ro_port = pt_port (rh_port_type (fst pk)), ro_type = pt_type (rh_port_type (fst pk)),
       ro_size = rh_payload_size (fst pk)\<rparr>, w') \<and>
    umem_read (user_mem (sy_drv w')) payload (unat (rh_payload_size (fst pk))) = map Some (snd pk) \<and>
    raw_inv (sy_drv w') own \<and> (\<forall>p' < 7. raw_pkts (sy_drv w') p' = (if p' = p then pks else raw_pkts (sy_drv w) p'))"
  by (rule axiom_recv_raw_lemma [OF assms])

definition demo_recv :: "demo_dev node" where
  "demo_recv = demo_node\<lparr>sy_drv := demo_one, sy_files := replicate 4 (Some std_file) @ [Some \<lparr>of_priv = demo_pr, of_flags = 2\<rparr>]\<rparr>"

theorem axiom_recv_raw_end_to_end_witness:
  "\<exists>w'. axiom_recv_raw (node_os demo_kernel) (replicate 16 0) (Some demo_user) 4352
      \<lparr>ro_src = 0, ro_port = 0, ro_type = 0, ro_size = 200\<rparr> demo_recv =
     Some (10, \<lparr>ro_src = 2, ro_port = 2, ro_type = 3, ro_size = 4\<rparr>, w') \<and>
   umem_read (user_mem (sy_drv w')) 4352 4 = map Some [10, 1, 2, 3]"
proof -
  have f: "file_at (fd_raw demo_user) demo_recv = Some \<lparr>of_priv = demo_pr, of_flags = 2\<rparr>"
    by (simp add: file_at_def demo_user_def demo_recv_def nth_append)
  let ?out = "\<lparr>ro_src = 0, ro_port = 0, ro_type = 0, ro_size = 200\<rparr> :: u8 recv_out"
  let ?pk = "(rm_header (demo_pkt 2 10), [10, 1, 2, 3 :: u8])"
  have mx: "\<not> sp_mutex (raw_rx_ports (sy_drv demo_recv) ! 2)" by (simp add: demo_recv_def demo_one_def demo_d_def demo_port_def)
  have sc: "scatter_ok umem_ua (user_mem (sy_drv demo_recv)) (sq_base (raw_rx_queue (sy_drv demo_recv)) + 5)
      (unat (rh_payload_size (fst ?pk))) [\<lparr>iov_base = 4352, iov_len = ucast (ro_size ?out)\<rparr>]"
    by (simp add: demo_recv_def demo_one_def demo_d_def umem_ua_def readable_def umem_read_numeral copy_aligned_def odd_part_def
        demo_pkt_def)
  have ap: "apart 4352 (length (snd ?pk)) (sy_stack demo_recv) 16"
    by (rule apart_below) (simp_all add: demo_recv_def demo_node_def)
  have st: "readable (user_mem (sy_drv demo_recv)) (sy_stack demo_recv) 16" "ua_access_ok umem_ua (sy_stack demo_recv) 16"
    by (simp_all add: demo_recv_def demo_node_def demo_one_def demo_d_def readable_def umem_read_numeral umem_ua_def)
  have d: "raw_inv (sy_drv demo_recv) {}" "raw_pkts (sy_drv demo_recv) 2 = [?pk]"
    using demo_one_inv demo_one_pkts by (simp_all add: demo_recv_def)
  have "fd_type (of_priv \<lparr>of_priv = demo_pr, of_flags = 2\<rparr>) = FDTYPE_RAW" "bind_port (of_priv \<lparr>of_priv = demo_pr, of_flags = 2\<rparr>) = int 2"
    "0 < fd_raw demo_user" by (simp_all add: demo_pr_def demo_user_def)
  from axiom_recv_raw_end_to_end [OF this(3) f this(1,2) _ d(1) mx d(2), of ?out "replicate 16 0" 4352 demo_kernel] sc ap st
  show ?thesis by (auto simp: demo_pkt_def pt_defs simp del: scatter_ok.simps)
qed

section \<open>Counting the nodes\<close>

text \<open>
  What the library relies on when it asks for the configuration: in every state \<open>ok\<close> the node id and the
  entries of the routing table can be read, and reading leads to a state in which they are the same.
\<close>

locale routing_service =
  fixes os :: "'w os" and dev :: "axiom_dev option" and junk :: "u8 list" and ok :: "'w \<Rightarrow> bool"
    and node_id :: u8 and table :: "u8 \<Rightarrow> u8"
  assumes dev_open: "opened fd_generic dev \<noteq> None"
    and get_node_id: "ok w \<Longrightarrow> \<exists>w'. axiom_get_node_id os junk dev w = Some (node_id, w') \<and> ok w'"
    and get_routing: "ok w \<Longrightarrow> \<exists>w'. axiom_get_routing os dev n w = Some (0, Some (table n), w') \<and> ok w'"
begin

text \<open>A node counts when it is reached by another interface than the loopback.\<close>

definition reachable_node :: "nat \<Rightarrow> bool" where
  "reachable_node i \<longleftrightarrow> i \<noteq> unat node_id \<and> table (of_nat i) \<noteq> 0 \<and> table (of_nat i) \<noteq> 1"

lemma num_nodes_loop_counts:
  "ok w \<Longrightarrow> \<exists>w'. num_nodes_loop os dev node_id is c w = Some (c + int (length (filter reachable_node is)), w') \<and> ok w'"
proof (induction "is" arbitrary: c w)
  case (Cons i "is")
  show ?case
  proof (cases "i = unat node_id")
    case True
    then show ?thesis using Cons by (simp add: reachable_node_def)
  next
    case False
    from get_routing [OF Cons.prems, of "of_nat i"] obtain w1 where
      w1: "axiom_get_routing os dev (of_nat i) w = Some (0, Some (table (of_nat i)), w1)" "ok w1" by blast
    from Cons.IH [OF w1(2), of "if table (of_nat i) \<noteq> 0 \<and> table (of_nat i) \<noteq> 1 then c + 1 else c"] False w1(1)
    show ?thesis by (auto simp: reachable_node_def)
  qed
qed auto

lemma get_num_nodes:
  assumes "ok w"
  shows "\<exists>w'. axiom_get_num_nodes os junk dev w =
    Some (1 + int (card {n. n \<noteq> node_id \<and> table n \<noteq> 0 \<and> table n \<noteq> 1}), w') \<and> ok w'"
proof -
  from get_node_id [OF assms] obtain w1 where w1: "axiom_get_node_id os junk dev w = Some (node_id, w1)" "ok w1" by blast
  let ?S = "{n. n \<noteq> node_id \<and> table n \<noteq> 0 \<and> table n \<noteq> 1}"
  have "?S = (of_nat :: nat \<Rightarrow> u8) ` set (filter reachable_node [0..<256])"
  proof (intro set_eqI iffI)
    fix n assume n: "n \<in> ?S"
    then have "unat n \<in> set (filter reachable_node [0..<256])"
      using unsigned_less [of n] unsigned_word_eqI [of n node_id] by (auto simp: reachable_node_def)
    then show "n \<in> of_nat ` set (filter reachable_node [0..<256])" by (intro image_eqI [of n of_nat "unat n"]) simp_all
  qed (auto simp: reachable_node_def unsigned_of_nat take_bit_nat_eq_self)
  moreover have "inj_on (of_nat :: nat \<Rightarrow> u8) (set (filter reachable_node [0..<256]))"
    by (rule inj_on_inverseI [of _ unat]) (auto simp: unsigned_of_nat take_bit_nat_eq_self)
  ultimately have "card ?S = length (filter reachable_node [0..<256])"
    by (simp only: card_image distinct_card distinct_filter distinct_upt)
  with num_nodes_loop_counts [OF w1(2), of "[0..<256]" 1] w1(1) dev_open show ?thesis
    by (auto simp: axiom_get_num_nodes_def)
qed

end

subsection \<open>On the node\<close>

text \<open>
  The service as the driver provides it: the hardware returns node id and routing entries in
  every device state \<open>inv\<close>, which reading keeps.
\<close>

locale node_routing =
  fixes k :: "'d kernel" and v :: axiom_dev and junk :: "u8 list" and inv :: "'d \<Rightarrow> bool" and node_id :: u8 and table :: "u8 \<Rightarrow> u8"
  assumes generic_fd: "0 < fd_generic v" and junk_len: "0 < length junk"
    and hw_node_id: "inv x \<Longrightarrow> \<exists>x'. hw_get_node_id (k_hw k) x = (node_id, x') \<and> inv x'"
    and hw_routing: "inv x \<Longrightarrow> \<exists>x'. hw_get_routing (k_hw k) x n = (0, table n, x') \<and> inv x'"
begin

definition node_ok :: "'d node \<Rightarrow> bool" where
  "node_ok w \<longleftrightarrow> (\<exists>f. file_at (fd_generic v) w = Some f \<and> fd_type (of_priv f) = FDTYPE_GENERIC) \<and>
     inv (dev_api (sy_drv w)) \<and> length (routing_table (sy_drv w)) = 256 \<and>
     ua_access_ok umem_ua (sy_stack w) 1 \<and> ua_access_ok umem_ua (sy_stack w) 2 \<and>
     copy_aligned (il_buf (k_loc k)) (sy_stack w) 2 \<and> copy_aligned (sy_stack w) (il_buf (k_loc k)) 2"

lemma node_ok_after:
  assumes "node_ok w" "file_at (fd_generic v) w = Some f" "inv (dev_api d)" "length (routing_table d) = 256"
  shows "node_ok (set_file (fd_generic v) (Some (f\<lparr>of_priv := of_priv f\<rparr>)) (w\<lparr>sy_drv := d, sy_env := env\<rparr>))"
  using assms by (auto simp: node_ok_def file_at_def set_file_def split: if_splits)

lemma node_get_routing:
  assumes "node_ok w"
  shows "\<exists>w'. axiom_get_routing (node_os k) (Some v) n w = Some (0, Some (table n), w') \<and> node_ok w'"
proof -
  from assms obtain f where f: "file_at (fd_generic v) w = Some f" "fd_type (of_priv f) = FDTYPE_GENERIC"
    and inv: "inv (dev_api (sy_drv w))" and len: "length (routing_table (sy_drv w)) = 256"
    and st: "ua_access_ok umem_ua (sy_stack w) 2" "copy_aligned (il_buf (k_loc k)) (sy_stack w) 2"
      "copy_aligned (sy_stack w) (il_buf (k_loc k)) 2" by (auto simp: node_ok_def)
  from hw_routing [OF inv, of n] obtain x where x: "hw_get_routing (k_hw k) (dev_api (sy_drv w)) n = (0, table n, x)" "inv x" by blast
  let ?m = "umem_write (user_mem (sy_drv w)) (sy_stack w) [n, 0]"
  let ?d = "(sy_drv w)\<lparr>user_mem := ?m\<rparr>"
  have rd: "umem_read (user_mem ?d) (sy_stack w) 2 = [Some n, Some 0]"
    using umem_read_write [of "[n, 0]" "user_mem (sy_drv w)" "sy_stack w"] by (simp add: numeral_2_eq_2)
  from ioctl_get_routing [of umem_ua "\<lambda>u. u" "sy_stack w" ?d n 0 "k_loc k" "k_hw k" "table n" x "k_regs k"]
    umem_ua_spec st rd len x(1) obtain u where
    u: "axiomnet_ioctl_generic (k_hw k) umem_ua (k_regs k) (k_loc k) AXNET_GET_ROUTING (sy_stack w) ?d =
      Some (0, ?d\<lparr>dev_api := x, routing_table := (routing_table ?d)[unat n := table n], user_mem := u\<rparr>)"
      "u = umem_write ?m (sy_stack w) [n, table n]" by auto
  let ?d' = "?d\<lparr>dev_api := x, routing_table := (routing_table ?d)[unat n := table n], user_mem := u\<rparr>"
  have rb: "umem_read (user_mem ?d') (sy_stack w) (length [n, 0]) = map Some [n, table n]"
    using umem_read_write [of "[n, table n]" ?m "sy_stack w"] u(2) by simp
  let ?w' = "set_file (fd_generic v) (Some (f\<lparr>of_priv := of_priv f\<rparr>)) (w\<lparr>sy_drv := ?d', sy_env := sy_env w\<rparr>)"
  have "os_ioctl (node_os k) (fd_generic v) AXNET_GET_ROUTING [n, 0] w = Some (0, 0, [n, table n], ?w')"
    by (rule sys_ioctl_run [OF f(1) _ _ _ rb]) (use u(1) f(2) in \<open>simp_all add: fops_ioctl_def\<close>)
  moreover have "node_ok ?w'" by (rule node_ok_after [OF assms f(1)]) (use x(2) len in simp_all)
  ultimately show ?thesis using generic_fd by (simp add: axiom_get_routing_def struct_ioctl_def opened_def)
qed

lemma node_get_node_id:
  assumes "node_ok w"
  shows "\<exists>w'. axiom_get_node_id (node_os k) junk (Some v) w = Some (node_id, w') \<and> node_ok w'"
proof -
  from assms obtain f where f: "file_at (fd_generic v) w = Some f" "fd_type (of_priv f) = FDTYPE_GENERIC"
    and inv: "inv (dev_api (sy_drv w))" and len: "length (routing_table (sy_drv w)) = 256"
    and st: "ua_access_ok umem_ua (sy_stack w) 1" by (auto simp: node_ok_def)
  from hw_node_id [OF inv] obtain x where x: "hw_get_node_id (k_hw k) (dev_api (sy_drv w)) = (node_id, x)" "inv x" by blast
  obtain b where b: "take 1 junk = [b]" using junk_len by (cases junk) auto
  let ?m = "umem_write (user_mem (sy_drv w)) (sy_stack w) [b]"
  let ?d = "(sy_drv w)\<lparr>user_mem := ?m\<rparr>"
  have "readable ?m (sy_stack w) 1" using readable_after_write [of "[b]" "user_mem (sy_drv w)" "sy_stack w"] by simp
  with put_user_loop_view [OF umem_ua_spec, of ?m "sy_stack w" 1 "[node_id]"] obtain u where
    u: "put_user_loop umem_ua ?m (sy_stack w) [node_id] 1 = Some u" "u = umem_write ?m (sy_stack w) [node_id]" by auto
  let ?d' = "?d\<lparr>dev_api := x, user_mem := u, dd_node_id := node_id\<rparr>"
  have io: "axiomnet_ioctl_generic (k_hw k) umem_ua (k_regs k) (k_loc k) AXNET_GET_NODEID (sy_stack w) ?d = Some (0, ?d')"
    using x(1) u(1) st by (simp add: axiomnet_ioctl_generic_def put_user_def)
  have rb: "umem_read (user_mem ?d') (sy_stack w) (length [b]) = map Some [node_id]"
    using umem_read_write [of "[node_id]" ?m "sy_stack w"] u(2) by simp
  let ?w' = "set_file (fd_generic v) (Some (f\<lparr>of_priv := of_priv f\<rparr>)) (w\<lparr>sy_drv := ?d', sy_env := sy_env w\<rparr>)"
  have "os_ioctl (node_os k) (fd_generic v) AXNET_GET_NODEID [b] w = Some (0, 0, [node_id], ?w')"
    by (rule sys_ioctl_run [OF f(1) _ _ _ rb]) (use io f(2) in \<open>simp_all add: fops_ioctl_def\<close>)
  moreover have "node_ok ?w'" by (rule node_ok_after [OF assms f(1)]) (use x(2) len in simp_all)
  ultimately show ?thesis using generic_fd b by (simp add: axiom_get_node_id_def get_ioctl_def opened_def)
qed

end

sublocale node_routing \<subseteq> routing_service "node_os k" "Some v" junk node_ok node_id table
  by unfold_locales (use generic_fd node_get_node_id node_get_routing in \<open>simp_all add: opened_def\<close>)

text \<open>The device of the witnesses, with the nodes 2 and 3 reachable and the own node in the loopback.\<close>

definition demo_table :: "u8 \<Rightarrow> u8" where
  "demo_table = (\<lambda>_. 0)(1 := 1, 2 := 2, 3 := 4)"

interpretation demo_routing: node_routing demo_kernel demo_user "[0]" "\<lambda>x. dv_node_id x = 1 \<and> dv_routing x = demo_table" 1 demo_table
  by unfold_locales (auto simp: demo_user_def demo_kernel_def demo_hw_def)

text \<open>
  Property C27. \<open>axiom_get_num_nodes\<close> returns the number of nodes of the cluster: the local one and every other node whose
  routing entry names a physical interface, that is, is neither empty nor the loopback alone.
\<close>

theorem axiom_get_num_nodes_counts:
  assumes "routing_service os dev junk ok node_id table" and "ok w"
  shows "\<exists>w'. axiom_get_num_nodes os junk dev w =
    Some (1 + int (card {n. n \<noteq> node_id \<and> table n \<noteq> 0 \<and> table n \<noteq> 1}), w') \<and> ok w'"
  by (rule routing_service.get_num_nodes [OF assms])

definition demo_count :: "demo_dev node" where
  "demo_count = demo_node\<lparr>sy_drv := demo_d\<lparr>dev_api := demo_v\<lparr>dv_routing := demo_table\<rparr>\<rparr>,
     sy_files := replicate 4 (Some std_file)\<rparr>"

theorem axiom_get_num_nodes_counts_witness:
  "\<exists>w'. axiom_get_num_nodes (node_os demo_kernel) [0] (Some demo_user) demo_count = Some (3, w')"
proof -
  have h: "demo_routing.node_ok demo_count" unfolding demo_routing.node_ok_def
    by (simp add: file_at_def demo_count_def demo_node_def demo_user_def std_file_def demo_d_def demo_v_def
        umem_ua_def demo_kernel_def demo_locals_def copy_aligned_def odd_part_def)
  have "{n. n \<noteq> 1 \<and> demo_table n \<noteq> 0 \<and> demo_table n \<noteq> 1} = {2, 3}" by (auto simp: demo_table_def)
  then show ?thesis using axiom_get_num_nodes_counts [OF demo_routing.routing_service_axioms h] by auto
qed

end
