(* ===== verification/Arm64Props.thy ===== *)
theory Arm64Props
  imports Arm64Api NodeProps WorkerThreads
begin

text \<open>
  The arm64 hardware layer keeps the contracts the driver relies on. What it needs of the FPGA is
  stated by a locale over the words in the FIFOs; the layer's loops are shown to move messages
  through them without loss, and the contracts of the RAW and RDMA workers follow.
\<close>

section \<open>Words and packets\<close>

definition word_bytes :: "u64 list \<Rightarrow> u8 list" where
  "word_bytes ws = concat (map (le_bytes 8) ws)"

lemma length_le_bytes8 [simp]: "length (le_bytes n w) = n"
  by (simp add: le_bytes_def)

lemma length_word_bytes [simp]: "length (word_bytes ws) = 8 * length ws"
  by (induction ws) (simp_all add: word_bytes_def)

text \<open>The RAW packet in a sequence of words, and when the sequence holds a whole packet the driver's buffer has room for.\<close>

definition raw_pkt_of_words :: "u64 list \<Rightarrow> raw_pkt" where
  "raw_pkt_of_words ws = (let h = raw_hdr_of_bytes (word_bytes ws) in
     (h, take (unat (rh_payload_size h)) (drop 5 (word_bytes ws))))"

definition raw_words_ok :: "u64 list \<Rightarrow> bool" where
  "raw_words_ok ws \<longleftrightarrow> 1 \<le> length ws \<and> length ws \<le> 32 \<and>
     unat (rh_payload_size (raw_hdr_of_bytes (word_bytes ws))) + 5 \<le> 8 * length ws"

definition rdma_of_words :: "u64 list \<Rightarrow> rdma_hdr" where
  "rdma_of_words ws = rdma_hdr_of_bytes (word_bytes ws)"

text \<open>The words \<open>axiom_hw_raw_tx\<close> writes for a message.\<close>

definition raw_word_count :: "nat \<Rightarrow> nat" where
  "raw_word_count psize = 1 + (min psize 251 - 3 + 7) div 8"

definition raw_words :: "raw_msg \<Rightarrow> u64 list" where
  "raw_words m = map (\<lambda>j. le_word (take 8 (drop (8 * j) (raw_msg_bytes m)))) [0..<raw_word_count (unat (rh_payload_size (rm_header m)))]"

lemma word_bytes_chunks: "8 * n \<le> length bs \<Longrightarrow> word_bytes (map (\<lambda>j. le_word (take 8 (drop (8 * j) bs))) [0..<n]) = take (8 * n) bs"
proof (induction n)
  case (Suc n)
  have "le_bytes 8 (le_word (take 8 (drop (8 * n) bs)) :: u64) = take 8 (drop (8 * n) bs)"
    using Suc.prems by (intro le_bytes_le_word) simp_all
  moreover have "take (8 * Suc n) bs = take (8 * n) bs @ take 8 (drop (8 * n) bs)"
    by (simp add: take_add [symmetric] algebra_simps)
  ultimately show ?case using Suc by (simp add: word_bytes_def)
qed (simp add: word_bytes_def)

lemma raw_word_count_bounds: "raw_word_count psize \<le> 32" "psize \<le> 251 \<Longrightarrow> psize + 5 \<le> 8 * raw_word_count psize"
proof -
  show "raw_word_count psize \<le> 32" unfolding raw_word_count_def by linarith
  have "n + 5 \<le> 8 * (1 + (n - 3 + 7) div 8)" for n :: nat by presburger
  then show "psize \<le> 251 \<Longrightarrow> psize + 5 \<le> 8 * raw_word_count psize" by (simp add: raw_word_count_def min_absorb1)
qed

lemma raw_hdr_of_bytes_take: "5 \<le> n \<Longrightarrow> raw_hdr_of_bytes (take n bs) = raw_hdr_of_bytes bs"
  by (simp add: raw_hdr_of_bytes_def)

text \<open>Decoding the words of a message gives the message back.\<close>

lemma raw_words_decode:
  assumes "raw_msg_wf m" "unat (rh_payload_size (rm_header m)) \<le> 251"
  shows "raw_pkt_of_words (raw_words m) = raw_pkt_of m" "raw_words_ok (raw_words m)"
proof -
  let ?n = "raw_word_count (unat (rh_payload_size (rm_header m)))"
  note b = raw_word_count_bounds(1) [of "unat (rh_payload_size (rm_header m))"] raw_word_count_bounds(2) [OF assms(2)]
  have wb: "word_bytes (raw_words m) = take (8 * ?n) (raw_msg_bytes m)"
    unfolding raw_words_def using b(1) length_raw_msg_bytes [OF assms(1)] by (intro word_bytes_chunks) simp
  have "5 \<le> 8 * ?n" using b(2) by linarith
  then have hdr: "raw_hdr_of_bytes (word_bytes (raw_words m)) = rm_header m"
    unfolding wb by (simp add: raw_hdr_of_bytes_take raw_msg_bytes_def)
  have "take (unat (rh_payload_size (rm_header m))) (drop 5 (take (8 * ?n) (raw_msg_bytes m))) =
      take (unat (rh_payload_size (rm_header m))) (rm_payload m)"
    using b(2) by (simp add: drop_take raw_msg_bytes_def)
  then show "raw_pkt_of_words (raw_words m) = raw_pkt_of m"
    using hdr by (simp add: raw_pkt_of_words_def raw_pkt_of_def wb Let_def)
  have "length (raw_words m) = ?n" "1 \<le> ?n" by (simp_all add: raw_words_def raw_word_count_def)
  then show "raw_words_ok (raw_words m)" unfolding raw_words_ok_def hdr using b by simp
qed

lemma chunk_count:
  assumes "i < (m :: nat)"
  shows "(m - i + 7) div 8 = Suc ((m - (i + 8) + 7) div 8)"
proof (cases "m \<le> i + 8")
  case True
  with assms have "8 \<le> m - i + 7" "m - i + 7 < 16" by auto
  then have "(m - i + 7) div 8 = 1" by simp
  with True show ?thesis by simp
next
  case False
  then have eq: "m - i + 7 = 8 + (m - (i + 8) + 7)" by simp
  have "(8 + x) div 8 = Suc (x div 8)" for x :: nat by simp
  then show ?thesis by (subst eq)
qed

lemma of_nat_u32_nonzero: "0 < n \<Longrightarrow> n < 2 ^ 32 \<Longrightarrow> (of_nat n :: u32) \<noteq> 0"
proof
  assume "0 < n" "n < 2 ^ 32" "(of_nat n :: u32) = 0"
  moreover from this(2) have "unat (of_nat n :: u32) = n" by (simp add: unsigned_of_nat take_bit_nat_eq_self)
  ultimately show False by simp
qed

section \<open>The FPGA\<close>

text \<open>
  What the layer needs of the FPGA. \<open>rx\<close> lists the packets in a receive FIFO that have not been read completely,
  \<open>cur\<close> the words that are left of the packet being read, which starts when its length is read; \<open>sent\<close> lists the
  packets that were handed to a transmit FIFO, \<open>pend\<close> the words written since the last one. A receive FIFO
  reports occupancy exactly when a packet waits. When a thread has yielded the processor, a transmit
  FIFO has room for a message; even without that, one of two reads finds room for something. RAW
  packets fit the driver's buffer, RDMA descriptors have two words.
\<close>

locale axi_nic =
  fixes mm :: "'h mmio" and r :: axiom_dev_regs and rx :: "'h \<Rightarrow> axi_fifo \<Rightarrow> u64 list list" and cur :: "'h \<Rightarrow> axi_fifo \<Rightarrow> u64 list"
    and sent :: "'h \<Rightarrow> axi_fifo \<Rightarrow> u64 list list" and pend :: "'h \<Rightarrow> axi_fifo \<Rightarrow> u64 list"
  assumes rx_differ: "ar_fifo_raw_rx r \<noteq> ar_fifo_rdma_rx r"
    and occupancy: "f \<in> {ar_fifo_raw_rx r, ar_fifo_rdma_rx r} \<Longrightarrow> axi_fifo_rx_occupancy mm f h = (n, h') \<Longrightarrow>
      (n \<noteq> 0 \<longleftrightarrow> rx h f \<noteq> []) \<and> rx h' = rx h"
    and getlen: "f \<in> {ar_fifo_raw_rx r, ar_fifo_rdma_rx r} \<Longrightarrow> rx h f = ws # rest \<Longrightarrow>
      \<exists>h'. axi_fifo_rx_getlen mm f h = (of_nat (8 * length ws), h') \<and> rx h' = rx h \<and> cur h' f = ws"
    and read64: "f \<in> {ar_fifo_raw_rx r, ar_fifo_rdma_rx r} \<Longrightarrow> cur h f = w # ws \<Longrightarrow>
      \<exists>h'. axi_fifo_read64 mm f h = (w, h') \<and> cur h' f = ws \<and> rx h' = (if ws = [] then (rx h)(f := tl (rx h f)) else rx h)"
    and raw_ok: "ws \<in> set (rx h (ar_fifo_raw_rx r)) \<Longrightarrow> raw_words_ok ws"
    and rdma_ok: "ws \<in> set (rx h (ar_fifo_rdma_rx r)) \<Longrightarrow> length ws = 2"
    and vacancy: "f \<in> {ar_fifo_raw_tx r, ar_fifo_rdma_tx r} \<Longrightarrow> axi_fifo_tx_vacancy mm f h = (n, h') \<Longrightarrow>
      rx h' = rx h \<and> sent h' = sent h \<and> pend h' = pend h \<and> (n \<noteq> 0 \<or> fst (axi_fifo_tx_vacancy mm f h') \<noteq> 0)"
    and yields: "rx (schedule mm h) = rx h" "sent (schedule mm h) = sent h" "pend (schedule mm h) = pend h"
    and room: "f \<in> {ar_fifo_raw_tx r, ar_fifo_rdma_tx r} \<Longrightarrow> 260 \<le> unat (fst (axi_fifo_tx_vacancy mm f (schedule mm h)))"
    and write64: "f \<in> {ar_fifo_raw_tx r, ar_fifo_rdma_tx r} \<Longrightarrow> rx (axi_fifo_write64 mm f w h) = rx h"
      "f \<in> {ar_fifo_raw_tx r, ar_fifo_rdma_tx r} \<Longrightarrow> sent (axi_fifo_write64 mm f w h) = sent h"
      "f \<in> {ar_fifo_raw_tx r, ar_fifo_rdma_tx r} \<Longrightarrow> pend (axi_fifo_write64 mm f w h) = (pend h)(f := pend h f @ [w])"
    and setlen: "f \<in> {ar_fifo_raw_tx r, ar_fifo_rdma_tx r} \<Longrightarrow> rx (axi_fifo_tx_setlen mm f n h) = rx h"
      "f \<in> {ar_fifo_raw_tx r, ar_fifo_rdma_tx r} \<Longrightarrow> n = of_nat (8 * length (pend h f)) \<Longrightarrow>
        sent (axi_fifo_tx_setlen mm f n h) = (sent h)(f := sent h f @ [pend h f])"
begin

lemma wait_vacancy_ends:
  assumes "f \<in> {ar_fifo_raw_tx r, ar_fifo_rdma_tx r}" "need \<le> 260"
  shows "\<exists>h'. wait_vacancy mm f need h = Some h' \<and> rx h' = rx h \<and> sent h' = sent h \<and> pend h' = pend h"
proof -
  obtain n h1 where v: "axi_fifo_tx_vacancy mm f h = (n, h1)" by fastforce
  obtain n2 h2 where v2: "axi_fifo_tx_vacancy mm f (schedule mm h1) = (n2, h2)" by fastforce
  have "260 \<le> unat n2" using room [OF assms(1), of h1] v2 by simp
  then have "wait_vacancy mm f need (schedule mm h1) = Some h2"
    using v2 assms(2) by (subst wait_vacancy.simps) simp
  then have "wait_vacancy mm f need h = Some (if unat n < need then h2 else h1)"
    using v by (subst wait_vacancy.simps) simp
  then show ?thesis using vacancy [OF assms(1) v] vacancy [OF assms(1) v2] yields by auto
qed

subsection \<open>Receiving\<close>

lemma raw_rx_loop_reads:
  assumes "f \<in> {ar_fifo_raw_rx r, ar_fifo_rdma_rx r}"
  shows "cur h f = ws \<Longrightarrow> i + 8 * length ws \<le> length p \<Longrightarrow> 8 * length ws < 2 ^ 32 \<Longrightarrow>
    \<exists>h'. raw_rx_loop mm f p i (of_nat (8 * length ws)) h =
        Some (take i p @ word_bytes ws @ drop (i + 8 * length ws) p, h') \<and>
      rx h' = (if ws = [] then rx h else (rx h)(f := tl (rx h f)))"
proof (induction ws arbitrary: h i p)
  case Nil
  then show ?case by (subst raw_rx_loop.simps) (simp add: word_bytes_def)
next
  case (Cons w ws)
  from read64 [OF assms Cons.prems(1)] obtain h1 where h1: "axi_fifo_read64 mm f h = (w, h1)" "cur h1 f = ws"
    "rx h1 = (if ws = [] then (rx h)(f := tl (rx h f)) else rx h)" by blast
  let ?p = "take i p @ le_bytes 8 w @ drop (i + 8) p"
  have len: "length ?p = length p" using Cons.prems(2) by simp
  have "i + 8 + 8 * length ws \<le> length ?p" "8 * length ws < 2 ^ 32" unfolding len using Cons.prems(2,3) by simp_all
  from Cons.IH [OF h1(2) this] obtain h' where
    h': "raw_rx_loop mm f ?p (i + 8) (of_nat (8 * length ws)) h1 =
        Some (take (i + 8) ?p @ word_bytes ws @ drop (i + 8 + 8 * length ws) ?p, h')"
      "rx h' = (if ws = [] then rx h1 else (rx h1)(f := tl (rx h1 f)))" by blast
  have nz: "(of_nat (8 * length (w # ws)) :: u32) \<noteq> 0" by (rule of_nat_u32_nonzero [OF _ Cons.prems(3)]) simp
  have step: "(of_nat (8 * length (w # ws)) :: u32) - 8 = of_nat (8 * length ws)" by simp
  have "raw_rx_loop mm f p i (of_nat (8 * length (w # ws))) h = raw_rx_loop mm f ?p (i + 8) (of_nat (8 * length ws)) h1"
    unfolding raw_rx_loop.simps [of mm f p i "of_nat (8 * length (w # ws))" h] step using nz h1(1) Cons.prems(2) by simp
  moreover have "take (i + 8) ?p @ word_bytes ws @ drop (i + 8 + 8 * length ws) ?p =
      take i p @ word_bytes (w # ws) @ drop (i + 8 * length (w # ws)) p"
    using Cons.prems(2) by (simp add: word_bytes_def drop_drop algebra_simps)
  moreover have "rx h' = (rx h)(f := tl (rx h f))" using h'(2) h1(3) by (cases ws) auto
  ultimately show ?case using h'(1) by (intro exI [of _ h']) (simp only: list.distinct if_False)
qed

lemma word_bytes_Cons: "word_bytes (w # ws) = le_bytes 8 w @ word_bytes ws"
  by (simp add: word_bytes_def)

lemma raw_rx_takes:
  assumes "rx (ad_hw v) (ar_fifo_raw_rx r) = ws # rest" "raw_msg_wf old"
  shows "\<exists>m h'. axiom_hw_raw_rx mm r v old = Some (rh_msg_id (rm_header m), m, v\<lparr>ad_hw := h'\<rparr>) \<and>
    raw_pkt_of m = raw_pkt_of_words ws \<and> raw_msg_wf m \<and> rx h' = (rx (ad_hw v))(ar_fifo_raw_rx r := rest)"
proof -
  let ?f = "ar_fifo_raw_rx r" and ?h = "ad_hw v"
  from assms(1) have ok: "raw_words_ok ws" by (intro raw_ok [of _ ?h]) simp
  then obtain w us where ws: "ws = w # us" by (cases ws) (auto simp: raw_words_ok_def)
  from ok ws have n: "length us \<le> 31" by (simp add: raw_words_ok_def)
  from getlen [OF _ assms(1)] obtain h1 where h1: "axi_fifo_rx_getlen mm ?f ?h = (of_nat (8 * length ws), h1)"
    "rx h1 = rx ?h" "cur h1 ?f = w # us" using ws by auto
  from read64 [OF _ h1(3)] obtain h2 where h2: "axi_fifo_read64 mm ?f h1 = (w, h2)" "cur h2 ?f = us"
    "rx h2 = (if us = [] then (rx h1)(?f := tl (rx h1 ?f)) else rx h1)" by auto
  let ?m = "raw_msg_of_bytes (le_bytes 8 w @ drop 8 (raw_msg_bytes old))"
  have lp: "length (rm_payload ?m) = 251" using length_raw_msg_bytes [OF assms(2)] by (simp add: raw_msg_of_bytes_def)
  from raw_rx_loop_reads [OF _ h2(2), of 3 "rm_payload ?m"] lp n obtain h' where
    h': "raw_rx_loop mm ?f (rm_payload ?m) 3 (of_nat (8 * length us)) h2 =
        Some (take 3 (rm_payload ?m) @ word_bytes us @ drop (3 + 8 * length us) (rm_payload ?m), h')"
      "rx h' = (if us = [] then rx h2 else (rx h2)(?f := tl (rx h2 ?f)))" by auto
  let ?m' = "?m\<lparr>rm_payload := take 3 (rm_payload ?m) @ word_bytes us @ drop (3 + 8 * length us) (rm_payload ?m)\<rparr>"
  have len: "(of_nat (8 * length ws) :: u32) - 8 = of_nat (8 * length us)" using ws by simp
  have "axiom_hw_raw_rx mm r v old = Some (rh_msg_id (rm_header ?m'), ?m', v\<lparr>ad_hw := h'\<rparr>)"
    unfolding axiom_hw_raw_rx_def h1(1) Let_def prod.case h2(1) len h'(1) by simp
  moreover have "rx h' = (rx ?h)(?f := rest)" using h'(2) h2(3) h1(2) assms(1) by (cases us) auto
  moreover have "raw_msg_wf ?m'" using lp n by (simp add: raw_msg_wf_def)
  moreover have "raw_pkt_of ?m' = raw_pkt_of_words ws"
  proof -
    have hd: "rm_header ?m = raw_hdr_of_bytes (word_bytes ws)"
      using ws by (simp add: raw_msg_of_bytes_def raw_hdr_of_bytes_def word_bytes_Cons nth_append)
    have "take 3 (rm_payload ?m) = drop 5 (le_bytes 8 w)" by (simp add: raw_msg_of_bytes_def)
    then have "take 3 (rm_payload ?m) @ word_bytes us = drop 5 (word_bytes ws)" by (simp add: ws word_bytes_Cons)
    moreover have "unat (rh_payload_size (rm_header ?m)) \<le> length (drop 5 (word_bytes ws))"
      using ok unfolding hd raw_words_ok_def length_drop length_word_bytes by linarith
    ultimately show ?thesis using hd by (simp add: raw_pkt_of_def raw_pkt_of_words_def Let_def flip: append_assoc)
  qed
  ultimately show ?thesis by blast
qed

lemma rdma_rx_takes:
  assumes "rx (ad_hw v) (ar_fifo_rdma_rx r) = ws # rest"
  shows "\<exists>h'. axiom_hw_rdma_rx mm r v old = Some (dh_msg_id (rdma_of_words ws), rdma_of_words ws, v\<lparr>ad_hw := h'\<rparr>) \<and>
    rx h' = (rx (ad_hw v))(ar_fifo_rdma_rx r := rest)"
proof -
  let ?f = "ar_fifo_rdma_rx r" and ?h = "ad_hw v"
  from assms have "length ws = 2" by (intro rdma_ok [of _ ?h]) simp
  then obtain w0 w1 where ws: "ws = [w0, w1]" by (auto simp: numeral_2_eq_2 length_Suc_conv)
  from getlen [OF _ assms] ws obtain h1 where h1: "axi_fifo_rx_getlen mm ?f ?h = (16, h1)" "rx h1 = rx ?h" "cur h1 ?f = [w0, w1]" by auto
  from read64 [OF _ h1(3)] obtain h2 where h2: "axi_fifo_read64 mm ?f h1 = (w0, h2)" "cur h2 ?f = [w1]" "rx h2 = rx h1" by auto
  from read64 [OF _ h2(2)] obtain h3 where h3: "axi_fifo_read64 mm ?f h2 = (w1, h3)" "rx h3 = (rx h2)(?f := tl (rx h2 ?f))" by auto
  show ?thesis using h1 h2 h3 assms ws by (intro exI [of _ h3]) (simp add: axiom_hw_rdma_rx_def Let_def rdma_of_words_def word_bytes_def)
qed

subsection \<open>Transmitting\<close>

lemma raw_tx_loop_writes:
  assumes "f \<in> {ar_fifo_raw_tx r, ar_fifo_rdma_tx r}"
  shows "i \<le> 251 \<Longrightarrow> 251 - i = 8 * k \<Longrightarrow> length p = 251 \<Longrightarrow>
    \<exists>h'. raw_tx_loop mm f p psize i n h = Some (n + of_nat (8 * ((min psize 251 - i + 7) div 8)), h') \<and>
      rx h' = rx h \<and> sent h' = sent h \<and>
      pend h' f = pend h f @ map (\<lambda>j. le_word (take 8 (drop (i + 8 * j) p))) [0..<(min psize 251 - i + 7) div 8]"
proof (induction k arbitrary: i n h)
  case 0
  then show ?case by (subst raw_tx_loop.simps) simp
next
  case (Suc k)
  let ?c = "\<lambda>i. (min psize 251 - i + 7) div 8"
  let ?w = "\<lambda>i. le_word (take 8 (drop i p)) :: u64"
  show ?case
  proof (cases "i < psize")
    case False
    then show ?thesis by (subst raw_tx_loop.simps) simp
  next
    case True
    have i: "i + 8 \<le> 251" "251 - (i + 8) = 8 * k" using Suc.prems(1,2) by auto
    from Suc.IH [OF i Suc.prems(3), of "n + 8" "axi_fifo_write64 mm f (?w i) h"] obtain h' where
      h': "raw_tx_loop mm f p psize (i + 8) (n + 8) (axi_fifo_write64 mm f (?w i) h) = Some (n + 8 + of_nat (8 * ?c (i + 8)), h')"
        "rx h' = rx h" "sent h' = sent h" "pend h' f = (pend h f @ [?w i]) @ map (\<lambda>j. ?w (i + 8 + 8 * j)) [0..<?c (i + 8)]"
      using write64 [OF assms] by auto
    have c: "?c i = Suc (?c (i + 8))" using True i(1) by (intro chunk_count) simp
    have "[0..<Suc (?c (i + 8))] = 0 # map Suc [0..<?c (i + 8)]" by (simp add: map_Suc_upt upt_conv_Cons del: upt_Suc)
    then have "pend h' f = pend h f @ map (\<lambda>j. ?w (i + 8 * j)) [0..<?c i]"
      unfolding c h'(4) by (simp add: algebra_simps del: upt_Suc)
    moreover have "raw_tx_loop mm f p psize i n h = Some (n + of_nat (8 * ?c i), h')"
      unfolding c using h'(1) True i(1) Suc.prems(3) by (subst raw_tx_loop.simps) (simp add: algebra_simps)
    ultimately show ?thesis using h'(2,3) by blast
  qed
qed

lemma raw_tx_sends:
  assumes "raw_msg_wf m" "pend (ad_hw v) (ar_fifo_raw_tx r) = []"
  shows "\<exists>m' v'. axiom_hw_raw_tx mm r v m = Some (ad_next_raw_id v, m', v') \<and>
    m' = m\<lparr>rm_header := (rm_header m)\<lparr>rh_port_type := set_pt_s 0 (rh_port_type (rm_header m)), rh_msg_id := ad_next_raw_id v\<rparr>\<rparr> \<and>
    ad_next_raw_id v' = ad_next_raw_id v + 1 \<and> rx (ad_hw v') = rx (ad_hw v) \<and>
    sent (ad_hw v') = (sent (ad_hw v))(ar_fifo_raw_tx r := sent (ad_hw v) (ar_fifo_raw_tx r) @ [raw_words m'])"
proof -
  let ?f = "ar_fifo_raw_tx r" and ?ps = "unat (rh_payload_size (rm_header m))"
  let ?m = "m\<lparr>rm_header := (rm_header m)\<lparr>rh_port_type := set_pt_s 0 (rh_port_type (rm_header m)), rh_msg_id := ad_next_raw_id v\<rparr>\<rparr>"
  have "?ps < 2 ^ LENGTH(8)" by (rule unsigned_less)
  then have "5 + ?ps \<le> 260" by simp
  with wait_vacancy_ends [of ?f "5 + ?ps" "ad_hw v"] obtain h1 where h1: "wait_vacancy mm ?f (5 + ?ps) (ad_hw v) = Some h1"
    "rx h1 = rx (ad_hw v)" "sent h1 = sent (ad_hw v)" "pend h1 = pend (ad_hw v)" by auto
  let ?h2 = "axi_fifo_write64 mm ?f (le_word (take 8 (raw_msg_bytes ?m))) h1"
  have p2: "rx ?h2 = rx (ad_hw v)" "sent ?h2 = sent (ad_hw v)" "pend ?h2 ?f = [le_word (take 8 (raw_msg_bytes ?m))]"
    using h1 write64 [of ?f] assms(2) by simp_all
  let ?c = "(min ?ps 251 - 3 + 7) div 8"
  have lp: "length (rm_payload ?m) = 251" using assms(1) by (simp add: raw_msg_wf_def)
  from raw_tx_loop_writes [of ?f 3 31 "rm_payload ?m" ?ps 8 ?h2] lp p2 obtain h3 where
    h3: "raw_tx_loop mm ?f (rm_payload ?m) ?ps 3 8 ?h2 = Some (8 + of_nat (8 * ?c), h3)" "rx h3 = rx (ad_hw v)" "sent h3 = sent (ad_hw v)"
      "pend h3 ?f = le_word (take 8 (raw_msg_bytes ?m)) # map (\<lambda>j. le_word (take 8 (drop (3 + 8 * j) (rm_payload ?m)))) [0..<?c]" by auto
  have words: "pend h3 ?f = raw_words ?m"
  proof -
    have "[0..<Suc ?c] = 0 # map Suc [0..<?c]" by (simp add: map_Suc_upt upt_conv_Cons del: upt_Suc)
    moreover have "drop (8 * Suc j) (raw_msg_bytes ?m) = drop (3 + 8 * j) (rm_payload ?m)" for j
      by (simp add: raw_msg_bytes_def algebra_simps)
    ultimately show ?thesis unfolding h3(4) raw_words_def raw_word_count_def by (simp del: upt_Suc mult_Suc_right)
  qed
  have "length (raw_words ?m) = Suc ?c" by (simp add: raw_words_def raw_word_count_def)
  then have n: "8 + of_nat (8 * ?c) = (of_nat (8 * length (pend h3 ?f)) :: u32)" unfolding words by simp
  have "axiom_hw_raw_tx mm r v m = Some (ad_next_raw_id v, ?m, v\<lparr>ad_next_raw_id := ad_next_raw_id v + 1,
      ad_hw := axi_fifo_tx_setlen mm ?f (8 + of_nat (8 * ?c)) h3\<rparr>)"
    unfolding axiom_hw_raw_tx_def Let_def using h1(1) h3(1) by simp
  then show ?thesis using setlen(1) [of ?f _ h3] setlen(2) [OF _ n] h3 words by auto
qed

lemma rdma_tx_sends:
  "\<exists>h' v'. axiom_hw_rdma_tx mm r v hdr = Some (dh_msg_id h', h', v') \<and> h' = hdr\<lparr>dh_port_type := set_pt_s 0 (dh_port_type hdr)\<rparr> \<and>
     rx (ad_hw v') = rx (ad_hw v)"
proof -
  let ?f = "ar_fifo_rdma_tx r"
  from wait_vacancy_ends [of ?f 16 "ad_hw v"] obtain h1 where "wait_vacancy mm ?f 16 (ad_hw v) = Some h1" "rx h1 = rx (ad_hw v)" by auto
  then show ?thesis using write64(1) [of ?f] setlen(1) [of ?f] by (simp add: axiom_hw_rdma_tx_def Let_def)
qed

end

subsection \<open>The contracts of the workers\<close>

sublocale axi_nic \<subseteq> rdma_device "arm64_hw mm r" "\<lambda>v. map rdma_of_words (rx (ad_hw v) (ar_fifo_rdma_rx r))"
proof
  fix v :: "'h arm64_dev" and old hdr :: rdma_hdr and k ks
  obtain n h' where o: "axi_fifo_rx_occupancy mm (ar_fifo_rdma_rx r) (ad_hw v) = (n, h')" by fastforce
  from occupancy [OF _ o] have "(n \<noteq> 0) = (rx (ad_hw v) (ar_fifo_rdma_rx r) \<noteq> [])" "rx h' = rx (ad_hw v)" by auto
  then show "fst (hw_rdma_rx_avail (arm64_hw mm r) v) \<noteq> 0 \<longleftrightarrow> map rdma_of_words (rx (ad_hw v) (ar_fifo_rdma_rx r)) \<noteq> []"
    "map rdma_of_words (rx (ad_hw (snd (hw_rdma_rx_avail (arm64_hw mm r) v))) (ar_fifo_rdma_rx r)) =
      map rdma_of_words (rx (ad_hw v) (ar_fifo_rdma_rx r))"
    using o by (simp_all add: arm64_hw_def axiom_hw_rdma_rx_avail_def on_hw_def)
  show "\<exists>v'. hw_rdma_rx (arm64_hw mm r) v old = Some (dh_msg_id k, k, v') \<and> map rdma_of_words (rx (ad_hw v') (ar_fifo_rdma_rx r)) = ks"
    if "map rdma_of_words (rx (ad_hw v) (ar_fifo_rdma_rx r)) = k # ks"
  proof -
    from that obtain ws rest where ws: "rx (ad_hw v) (ar_fifo_rdma_rx r) = ws # rest" "k = rdma_of_words ws" "ks = map rdma_of_words rest"
      by auto
    from rdma_rx_takes [OF ws(1), of old] obtain h' where
      "axiom_hw_rdma_rx mm r v old = Some (dh_msg_id k, k, v\<lparr>ad_hw := h'\<rparr>)" "rx h' = (rx (ad_hw v))(ar_fifo_rdma_rx r := rest)"
      using ws(2) by blast
    then show ?thesis using ws(3) by (simp add: arm64_hw_def)
  qed
  show "\<exists>v'. wait_tx_space (arm64_hw mm r) v = Some v' \<and>
      map rdma_of_words (rx (ad_hw v') (ar_fifo_rdma_rx r)) = map rdma_of_words (rx (ad_hw v) (ar_fifo_rdma_rx r))"
  proof -
    obtain n h1 where v1: "axi_fifo_tx_vacancy mm (ar_fifo_rdma_tx r) (ad_hw v) = (n, h1)" by fastforce
    obtain n2 h2 where v2: "axi_fifo_tx_vacancy mm (ar_fifo_rdma_tx r) h1 = (n2, h2)" by fastforce
    have rd: "hw_rdma_tx_avail (arm64_hw mm r) v = (n, v\<lparr>ad_hw := h1\<rparr>)"
      "hw_rdma_tx_avail (arm64_hw mm r) (v\<lparr>ad_hw := h1\<rparr>) = (n2, v\<lparr>ad_hw := h2\<rparr>)"
      using v1 v2 by (simp_all add: arm64_hw_def axiom_hw_rdma_tx_avail_def on_hw_def)
    have "n2 \<noteq> 0" if "n = 0" using vacancy [OF _ v1] v2 that by auto
    then have "wait_tx_space (arm64_hw mm r) v = Some (v\<lparr>ad_hw := if n = 0 then h2 else h1\<rparr>)"
      using rd wait_tx_space.simps [of "arm64_hw mm r" "v\<lparr>ad_hw := h1\<rparr>"] by (subst wait_tx_space.simps) simp
    then show ?thesis using vacancy [OF _ v1] vacancy [OF _ v2] by simp
  qed
  from rdma_tx_sends [of v hdr] obtain h' v' where "axiom_hw_rdma_tx mm r v hdr = Some (dh_msg_id h', h', v')"
    "h' = hdr\<lparr>dh_port_type := set_pt_s 0 (dh_port_type hdr)\<rparr>" "rx (ad_hw v') = rx (ad_hw v)" by blast
  then show "\<exists>h' v'. hw_rdma_tx (arm64_hw mm r) v hdr = Some (dh_msg_id h', h', v') \<and> dh_node h' = dh_node hdr \<and>
      map rdma_of_words (rx (ad_hw v') (ar_fifo_rdma_rx r)) = map rdma_of_words (rx (ad_hw v) (ar_fifo_rdma_rx r))"
    by (simp add: arm64_hw_def)
qed

context axi_nic
begin

lemma rdma_contract: "rdma_device (arm64_hw mm r) (\<lambda>v. map rdma_of_words (rx (ad_hw v) (ar_fifo_rdma_rx r)))"
  by (rule rdma_device_axioms)

end

lemma arm64_raw_fifo:
  assumes "axi_nic mm r rx cur sent pend"
  shows "raw_rx_fifo (arm64_hw mm r) (\<lambda>v. map raw_pkt_of_words (rx (ad_hw v) (ar_fifo_raw_rx r)))"
  unfolding raw_rx_fifo_def
proof (intro conjI allI impI)
  fix v :: "'a arm64_dev" and old k ks
  obtain n h' where o: "axi_fifo_rx_occupancy mm (ar_fifo_raw_rx r) (ad_hw v) = (n, h')" by fastforce
  from axi_nic.occupancy [OF assms _ o] have "(n \<noteq> 0) = (rx (ad_hw v) (ar_fifo_raw_rx r) \<noteq> [])" "rx h' = rx (ad_hw v)" by auto
  then show "(fst (hw_raw_rx_avail (arm64_hw mm r) v) \<noteq> 0) = (map raw_pkt_of_words (rx (ad_hw v) (ar_fifo_raw_rx r)) \<noteq> [])"
    "map raw_pkt_of_words (rx (ad_hw (snd (hw_raw_rx_avail (arm64_hw mm r) v))) (ar_fifo_raw_rx r)) =
      map raw_pkt_of_words (rx (ad_hw v) (ar_fifo_raw_rx r))"
    using o by (simp_all add: arm64_hw_def axiom_hw_raw_rx_avail_def on_hw_def)
  assume k: "map raw_pkt_of_words (rx (ad_hw v) (ar_fifo_raw_rx r)) = k # ks" and old: "raw_msg_wf old"
  from k obtain ws rest where ws: "rx (ad_hw v) (ar_fifo_raw_rx r) = ws # rest" "k = raw_pkt_of_words ws" "ks = map raw_pkt_of_words rest"
    by auto
  from axi_nic.raw_rx_takes [OF assms ws(1) old] obtain m h' where
    "axiom_hw_raw_rx mm r v old = Some (rh_msg_id (rm_header m), m, v\<lparr>ad_hw := h'\<rparr>)" "raw_pkt_of m = k" "raw_msg_wf m"
    "rx h' = (rx (ad_hw v))(ar_fifo_raw_rx r := rest)" using ws(2) by blast
  then show "\<exists>i m v'. hw_raw_rx (arm64_hw mm r) v old = Some (i, m, v') \<and> raw_pkt_of m = k \<and> raw_msg_wf m \<and>
      map raw_pkt_of_words (rx (ad_hw v') (ar_fifo_raw_rx r)) = ks"
    using ws(3) by (simp add: arm64_hw_def)
qed

section \<open>A model of the FPGA\<close>

text \<open>
  The registers at fixed addresses; FIFOs that are filled from outside, with packets that fit; memory
  behind the other addresses. Reading a vacancy lets the transmit FIFO drain.
\<close>

typedef raw_packet = "{ws. raw_words_ok ws}"
proof
  show "replicate 32 0 \<in> {ws. raw_words_ok ws}"
    using unsigned_less [of "rh_payload_size (raw_hdr_of_bytes (word_bytes (replicate 32 0)))"]
    by (simp add: raw_words_ok_def raw_hdr_of_bytes_def word_bytes_def le_bytes_def numeral_eq_Suc)
qed

record axi_model =
  am_raw :: "raw_packet list"
  am_raw_cur :: "u64 list"
  am_rdma :: "(u64 \<times> u64) list"
  am_rdma_cur :: "u64 list"
  am_raw_sent :: "u64 list list"
  am_raw_pend :: "u64 list"
  am_rdma_sent :: "u64 list list"
  am_rdma_pend :: "u64 list"
  am_vac :: u32
  am_mem :: "u64 \<Rightarrow> u32"

definition axi_regs :: axiom_dev_regs where
  "axi_regs = \<lparr>ar_registers = \<lparr>rg_base = 0x1000\<rparr>,
     ar_fifo_raw_tx = \<lparr>ff_base = 0x2000, ff_axi4_base = 0x20000, ff_axi4 = 1\<rparr>,
     ar_fifo_raw_rx = \<lparr>ff_base = 0x3000, ff_axi4_base = 0x30000, ff_axi4 = 1\<rparr>,
     ar_fifo_rdma_tx = \<lparr>ff_base = 0x4000, ff_axi4_base = 0x40000, ff_axi4 = 1\<rparr>,
     ar_fifo_rdma_rx = \<lparr>ff_base = 0x5000, ff_axi4_base = 0x50000, ff_axi4 = 1\<rparr>,
     ar_long_buf = \<lparr>br_base = 0x6000\<rparr>, ar_routing = \<lparr>br_base = 0x7000\<rparr>, ar_debug = \<lparr>gp_base = 0, gp_dual = 0\<rparr>\<rparr>"

definition axi_ioread32 :: "u64 \<Rightarrow> axi_model \<Rightarrow> u32 \<times> axi_model" where
  "axi_ioread32 a h =
     (if a = 0x301c then (if am_raw h = [] then 0 else 1, h)
      else if a = 0x501c then (if am_rdma h = [] then 0 else 1, h)
      else if a = 0x3024 then (case am_raw h of [] \<Rightarrow> (0, h)
        | p # ps \<Rightarrow> (of_nat (8 * length (Rep_raw_packet p)), h\<lparr>am_raw_cur := Rep_raw_packet p\<rparr>))
      else if a = 0x5024 then (case am_rdma h of [] \<Rightarrow> (0, h) | (x, y) # ps \<Rightarrow> (16, h\<lparr>am_rdma_cur := [x, y]\<rparr>))
      else if a = 0x200c \<or> a = 0x400c then (am_vac h, h\<lparr>am_vac := 512\<rparr>)
      else (am_mem h a, h))"

definition axi_iowrite32 :: "u32 \<Rightarrow> u64 \<Rightarrow> axi_model \<Rightarrow> axi_model" where
  "axi_iowrite32 x a h =
     (if a = 0x2014 then h\<lparr>am_raw_sent := am_raw_sent h @ [am_raw_pend h], am_raw_pend := []\<rparr>
      else if a = 0x4014 then h\<lparr>am_rdma_sent := am_rdma_sent h @ [am_rdma_pend h], am_rdma_pend := []\<rparr>
      else h\<lparr>am_mem := (am_mem h)(a := x)\<rparr>)"

definition axi_readq :: "u64 \<Rightarrow> axi_model \<Rightarrow> u64 \<times> axi_model" where
  "axi_readq a h =
     (if a = 0x31000 then (case am_raw_cur h of [] \<Rightarrow> (0, h)
        | w # ws \<Rightarrow> (w, h\<lparr>am_raw_cur := ws, am_raw := if ws = [] then tl (am_raw h) else am_raw h\<rparr>))
      else if a = 0x51000 then (case am_rdma_cur h of [] \<Rightarrow> (0, h)
        | w # ws \<Rightarrow> (w, h\<lparr>am_rdma_cur := ws, am_rdma := if ws = [] then tl (am_rdma h) else am_rdma h\<rparr>))
      else (0, h))"

definition axi_writeq :: "u64 \<Rightarrow> u64 \<Rightarrow> axi_model \<Rightarrow> axi_model" where
  "axi_writeq x a h =
     (if a = 0x20000 then h\<lparr>am_raw_pend := am_raw_pend h @ [x], am_vac := am_vac h - 1\<rparr>
      else if a = 0x40000 then h\<lparr>am_rdma_pend := am_rdma_pend h @ [x], am_vac := am_vac h - 1\<rparr>
      else h\<lparr>am_mem := (am_mem h)(a := ucast x, a + 4 := ucast (drop_bit 32 x))\<rparr>)"

definition axi_mm :: "axi_model mmio" where
  "axi_mm = \<lparr>ioread32 = axi_ioread32, iowrite32 = axi_iowrite32, readq = axi_readq, writeq = axi_writeq,
     schedule = (\<lambda>h. h\<lparr>am_vac := 512\<rparr>)\<rparr>"

definition axi_rx :: "axi_model \<Rightarrow> axi_fifo \<Rightarrow> u64 list list" where
  "axi_rx h f = (if f = ar_fifo_raw_rx axi_regs then map Rep_raw_packet (am_raw h)
     else if f = ar_fifo_rdma_rx axi_regs then map (\<lambda>(x, y). [x, y]) (am_rdma h) else [])"
definition axi_cur :: "axi_model \<Rightarrow> axi_fifo \<Rightarrow> u64 list" where
  "axi_cur h f = (if f = ar_fifo_raw_rx axi_regs then am_raw_cur h else if f = ar_fifo_rdma_rx axi_regs then am_rdma_cur h else [])"
definition axi_sent :: "axi_model \<Rightarrow> axi_fifo \<Rightarrow> u64 list list" where
  "axi_sent h f = (if f = ar_fifo_raw_tx axi_regs then am_raw_sent h else if f = ar_fifo_rdma_tx axi_regs then am_rdma_sent h else [])"
definition axi_pend :: "axi_model \<Rightarrow> axi_fifo \<Rightarrow> u64 list" where
  "axi_pend h f = (if f = ar_fifo_raw_tx axi_regs then am_raw_pend h else if f = ar_fifo_rdma_tx axi_regs then am_rdma_pend h else [])"

lemmas axi_view_defs = axi_rx_def axi_cur_def axi_sent_def axi_pend_def

lemma axi_fifos_differ [simp]:
  "ar_fifo_raw_rx axi_regs \<noteq> ar_fifo_rdma_rx axi_regs" "ar_fifo_rdma_rx axi_regs \<noteq> ar_fifo_raw_rx axi_regs"
  "ar_fifo_raw_tx axi_regs \<noteq> ar_fifo_rdma_tx axi_regs" "ar_fifo_rdma_tx axi_regs \<noteq> ar_fifo_raw_tx axi_regs"
  by (simp_all add: axi_regs_def)

lemma axi_access [simp]:
  "axi_fifo_rx_occupancy axi_mm (ar_fifo_raw_rx axi_regs) h = (if am_raw h = [] then 0 else 1, h)"
  "axi_fifo_rx_occupancy axi_mm (ar_fifo_rdma_rx axi_regs) h = (if am_rdma h = [] then 0 else 1, h)"
  "axi_fifo_rx_getlen axi_mm (ar_fifo_raw_rx axi_regs) h = (case am_raw h of [] \<Rightarrow> (0, h)
     | p # ps \<Rightarrow> (of_nat (8 * length (Rep_raw_packet p)), h\<lparr>am_raw_cur := Rep_raw_packet p\<rparr>))"
  "axi_fifo_rx_getlen axi_mm (ar_fifo_rdma_rx axi_regs) h =
     (case am_rdma h of [] \<Rightarrow> (0, h) | (x, y) # ps \<Rightarrow> (16, h\<lparr>am_rdma_cur := [x, y]\<rparr>))"
  "axi_fifo_read64 axi_mm (ar_fifo_raw_rx axi_regs) h = (case am_raw_cur h of [] \<Rightarrow> (0, h)
     | w # ws \<Rightarrow> (w, h\<lparr>am_raw_cur := ws, am_raw := if ws = [] then tl (am_raw h) else am_raw h\<rparr>))"
  "axi_fifo_read64 axi_mm (ar_fifo_rdma_rx axi_regs) h = (case am_rdma_cur h of [] \<Rightarrow> (0, h)
     | w # ws \<Rightarrow> (w, h\<lparr>am_rdma_cur := ws, am_rdma := if ws = [] then tl (am_rdma h) else am_rdma h\<rparr>))"
  "axi_fifo_tx_vacancy axi_mm (ar_fifo_raw_tx axi_regs) h = (am_vac h, h\<lparr>am_vac := 512\<rparr>)"
  "axi_fifo_tx_vacancy axi_mm (ar_fifo_rdma_tx axi_regs) h = (am_vac h, h\<lparr>am_vac := 512\<rparr>)"
  "axi_fifo_write64 axi_mm (ar_fifo_raw_tx axi_regs) w h = h\<lparr>am_raw_pend := am_raw_pend h @ [w], am_vac := am_vac h - 1\<rparr>"
  "axi_fifo_write64 axi_mm (ar_fifo_rdma_tx axi_regs) w h = h\<lparr>am_rdma_pend := am_rdma_pend h @ [w], am_vac := am_vac h - 1\<rparr>"
  "axi_fifo_tx_setlen axi_mm (ar_fifo_raw_tx axi_regs) n h = h\<lparr>am_raw_sent := am_raw_sent h @ [am_raw_pend h], am_raw_pend := []\<rparr>"
  "axi_fifo_tx_setlen axi_mm (ar_fifo_rdma_tx axi_regs) n h = h\<lparr>am_rdma_sent := am_rdma_sent h @ [am_rdma_pend h], am_rdma_pend := []\<rparr>"
  "schedule axi_mm h = h\<lparr>am_vac := 512\<rparr>"
  by (simp_all add: axi_fifo_defs axi_mm_def axi_regs_def axi_ioread32_def axi_readq_def axi_writeq_def axi_iowrite32_def)

lemma map_pair_tl: "map (\<lambda>(x, y). [x, y]) (tl ps) = tl (map (\<lambda>(x, y). [x, y]) ps)"
  by (rule map_tl)

interpretation axi: axi_nic axi_mm axi_regs axi_rx axi_cur axi_sent axi_pend
proof (unfold_locales, goal_cases)
  case (2 f h n h')
  then show ?case by (auto simp: axi_view_defs fun_eq_iff split: if_splits)
next
  case (3 f h ws rest)
  then show ?case by (auto simp: axi_view_defs fun_eq_iff)
next
  case (4 f h w ws)
  then show ?case by (auto simp: axi_view_defs fun_eq_iff map_tl)
next
  case (5 ws h)
  then show ?case using Rep_raw_packet by (auto simp: axi_rx_def)
qed (auto simp: axi_view_defs fun_eq_iff)

text \<open>The receive threads of a driver on this hardware.\<close>

interpretation arm64_raw_thread: raw_thread "arm64_hw axi_mm axi_regs" "\<lambda>v. map raw_pkt_of_words (axi_rx (ad_hw v) (ar_fifo_raw_rx axi_regs))" "{}"
  by unfold_locales (rule arm64_raw_fifo [OF axi.axi_nic_axioms])

interpretation arm64_rdma_thread: rdma_thread "arm64_hw axi_mm axi_regs" "\<lambda>v. map rdma_of_words (axi_rx (ad_hw v) (ar_fifo_rdma_rx axi_regs))" rdma_hdr_zero
  using axi.rdma_contract by (simp add: rdma_thread_def)

section \<open>Properties\<close>



text \<open>
  A RAW message on the wire: what one node's \<open>axiom_hw_raw_tx\<close> hands to its FPGA as a packet of 64-bit
  words is decoded by another node's \<open>axiom_hw_raw_rx\<close>, when that packet is the first in its FIFO, to the same header,
  with the message id the sender returned, and the same payload; exactly that packet is taken out, and the buffer is not
  overrun. The sender has cleared the \<open>s\<close> bit and numbered the message.
\<close>

theorem arm64_raw_roundtrip:
  assumes "axi_nic mmA rA rxA curA sentA pendA" and "axi_nic mmB rB rxB curB sentB pendB"
    and "raw_msg_wf m" "unat (rh_payload_size (rm_header m)) \<le> 251" and "pendA (ad_hw v) (ar_fifo_raw_tx rA) = []"
  shows "\<exists>m' v' ws. axiom_hw_raw_tx mmA rA v m = Some (ad_next_raw_id v, m', v') \<and>
    m' = m\<lparr>rm_header := (rm_header m)\<lparr>rh_port_type := set_pt_s 0 (rh_port_type (rm_header m)), rh_msg_id := ad_next_raw_id v\<rparr>\<rparr> \<and>
    sentA (ad_hw v') (ar_fifo_raw_tx rA) = sentA (ad_hw v) (ar_fifo_raw_tx rA) @ [ws] \<and>
    (\<forall>u rest old. rxB (ad_hw u) (ar_fifo_raw_rx rB) = ws # rest \<longrightarrow> raw_msg_wf old \<longrightarrow>
       (\<exists>m2 u'. axiom_hw_raw_rx mmB rB u old = Some (ad_next_raw_id v, m2, u') \<and> raw_pkt_of m2 = raw_pkt_of m' \<and>
          rxB (ad_hw u') (ar_fifo_raw_rx rB) = rest))"
proof -
  from axi_nic.raw_tx_sends [OF assms(1,3,5)] obtain m' v' where tx: "axiom_hw_raw_tx mmA rA v m = Some (ad_next_raw_id v, m', v')"
    "m' = m\<lparr>rm_header := (rm_header m)\<lparr>rh_port_type := set_pt_s 0 (rh_port_type (rm_header m)), rh_msg_id := ad_next_raw_id v\<rparr>\<rparr>"
    "sentA (ad_hw v') = (sentA (ad_hw v))(ar_fifo_raw_tx rA := sentA (ad_hw v) (ar_fifo_raw_tx rA) @ [raw_words m'])" by blast
  have m': "raw_msg_wf m'" "unat (rh_payload_size (rm_header m')) \<le> 251" "rh_msg_id (rm_header m') = ad_next_raw_id v"
    using assms(3,4) tx(2) by (simp_all add: raw_msg_wf_def)
  have "\<exists>m2 u'. axiom_hw_raw_rx mmB rB u old = Some (ad_next_raw_id v, m2, u') \<and> raw_pkt_of m2 = raw_pkt_of m' \<and>
          rxB (ad_hw u') (ar_fifo_raw_rx rB) = rest"
    if u: "rxB (ad_hw u) (ar_fifo_raw_rx rB) = raw_words m' # rest" "raw_msg_wf old" for u rest old
  proof -
    from axi_nic.raw_rx_takes [OF assms(2) u] obtain m2 h' where
      rx: "axiom_hw_raw_rx mmB rB u old = Some (rh_msg_id (rm_header m2), m2, u\<lparr>ad_hw := h'\<rparr>)"
      "raw_pkt_of m2 = raw_pkt_of_words (raw_words m')" "rxB h' = (rxB (ad_hw u))(ar_fifo_raw_rx rB := rest)" by blast
    have pk: "raw_pkt_of m2 = raw_pkt_of m'" using rx(2) raw_words_decode(1) [OF m'(1,2)] by simp
    then have "rm_header m2 = rm_header m'" by (simp add: raw_pkt_of_def)
    with rx pk m'(3) show ?thesis by (intro exI [of _ m2] exI [of _ "u\<lparr>ad_hw := h'\<rparr>"]) simp
  qed
  with tx show ?thesis by (intro exI [of _ m'] exI [of _ v'] exI [of _ "raw_words m'"]) simp
qed

definition axi_empty :: "axi_model arm64_dev" where
  "axi_empty = \<lparr>ad_next_raw_id = 7, ad_hw = \<lparr>am_raw = [], am_raw_cur = [], am_rdma = [], am_rdma_cur = [], am_raw_sent = [],
     am_raw_pend = [], am_rdma_sent = [], am_rdma_pend = [], am_vac = 512, am_mem = (\<lambda>_. 0)\<rparr>\<rparr>"

theorem arm64_raw_roundtrip_witness:
  "\<exists>m' v' ws. axiom_hw_raw_tx axi_mm axi_regs axi_empty demo_raw_msg = Some (7, m', v') \<and>
     axi_sent (ad_hw v') (ar_fifo_raw_tx axi_regs) = [ws]"
  using arm64_raw_roundtrip [OF axi.axi_nic_axioms axi.axi_nic_axioms, of demo_raw_msg axi_empty]
  by (auto simp: axi_empty_def axi_pend_def axi_sent_def demo_raw_msg_def raw_msg_wf_def)

section \<open>Termination of the receive loop\<close>

lemma unat_minus_8: "8 dvd unat (t :: u32) \<and> 8 \<le> unat t \<and> unat t \<le> n + 8 \<longleftrightarrow> 8 dvd unat (t - 8) \<and> unat (t - 8) \<le> n" if "n < 2 ^ 31" for t n
proof (cases "8 \<le> unat t")
  case True
  then have "unat (t - 8) = unat t - 8" by (simp add: unat_sub word_le_nat_alt)
  with True show ?thesis by (auto simp: dvd_minus_self)
next
  case False
  have "t < 8" using False by (simp add: word_less_nat_alt)
  then have "unat (t - 8) = 2 ^ 32 + unat t - 8"
    by (simp add: unat_sub_if_size word_less_nat_alt word_le_nat_alt word_size)
  with False that show ?thesis by auto
qed

text \<open>The loop ends exactly when the length is a multiple of eight that fits into the rest of the buffer.\<close>

lemma raw_rx_loop_ends:
  "i \<le> length p \<Longrightarrow> length p < 2 ^ 31 \<Longrightarrow> raw_rx_loop mm f p i t h \<noteq> None \<longleftrightarrow> 8 dvd unat t \<and> i + unat t \<le> length p"
proof (induction "length p - i" arbitrary: i p t h rule: less_induct)
  case less
  show ?case
  proof (cases "t = 0")
    case True
    then show ?thesis using less.prems by (simp add: raw_rx_loop.simps [of mm f p i])
  next
    case False
    then have t: "0 < unat t" by (simp add: unat_gt_0)
    show ?thesis
    proof (cases "i + 8 \<le> length p")
      case True
      obtain w h1 where w: "axi_fifo_read64 mm f h = (w, h1)" by fastforce
      let ?p = "take i p @ le_bytes 8 w @ drop (i + 8) p"
      have len: "length ?p = length p" using True by simp
      have "raw_rx_loop mm f ?p (i + 8) (t - 8) h1 \<noteq> None \<longleftrightarrow> 8 dvd unat (t - 8) \<and> i + 8 + unat (t - 8) \<le> length ?p"
        by (rule less.hyps) (use True less.prems len in linarith)+
      moreover have "raw_rx_loop mm f p i t h = raw_rx_loop mm f ?p (i + 8) (t - 8) h1"
        using False True w by (simp add: raw_rx_loop.simps [of mm f p i])
      moreover have "8 dvd unat (t - 8) \<and> unat (t - 8) \<le> length p - (i + 8) \<longleftrightarrow> 8 dvd unat t \<and> 8 \<le> unat t \<and> unat t \<le> length p - (i + 8) + 8"
        using unat_minus_8 [of "length p - (i + 8)" t] less.prems by auto
      moreover have "8 dvd unat t \<longrightarrow> 8 \<le> unat t" using t by (auto dest: dvd_imp_le)
      ultimately show ?thesis using True unfolding len by auto
    next
      case False
      have "8 dvd unat t \<longrightarrow> 8 \<le> unat t" using t by (auto dest: dvd_imp_le)
      then show ?thesis using False \<open>t \<noteq> 0\<close> by (auto simp: raw_rx_loop.simps [of mm f p i])
    qed
  qed
qed



section \<open>Routing\<close>

text \<open>
  The routing memory holds one interface number per node: of a mask with several interfaces, only
  the first one is found again, while the driver's own table keeps the whole mask.
\<close>

lemma ffs_lowest: "m \<noteq> 0 \<Longrightarrow> \<exists>i < 8. ffs m = Suc i \<and> bit m i \<and> (\<forall>j < i. \<not> bit m j)"
proof -
  have "(\<exists>j < n. bit m (i + j)) \<Longrightarrow> \<exists>j < n. ffs_from n m i = Suc (i + j) \<and> bit m (i + j) \<and> (\<forall>l < j. \<not> bit m (i + l))" for n i
  proof (induction n arbitrary: i)
    case (Suc n)
    show ?case
    proof (cases "bit m i")
      case True
      then show ?thesis by (intro exI [of _ 0]) simp
    next
      case False
      with Suc.prems obtain j where "j < n" "bit m (Suc i + j)" by (auto simp: less_Suc_eq_0_disj)
      with Suc.IH [of "Suc i"] obtain j where "j < n" "ffs_from n m (Suc i) = Suc (Suc i + j)" "bit m (Suc i + j)"
        "\<forall>l < j. \<not> bit m (Suc i + l)" by blast
      then show ?thesis using False by (intro exI [of _ "Suc j"]) (auto simp: less_Suc_eq_0_disj)
    qed
  qed simp
  from this [of 8 0] have *: "(\<exists>j < 8. bit m j) \<Longrightarrow> \<exists>j < 8. ffs m = Suc j \<and> bit m j \<and> (\<forall>l < j. \<not> bit m l)" by (simp add: ffs_def)
  assume "m \<noteq> 0"
  then have "\<exists>j < 8. bit m j" using bit_word_eqI [of m 0] by auto
  then show ?thesis by (rule *)
qed

lemma arm64_routing_single:
  assumes "\<And>x h. fst (ioread32 mm (br_base (ar_routing r) + ucast n * 4) (iowrite32 mm x (br_base (ar_routing r) + ucast n * 4) h)) = x"
  shows "fst (snd (axiom_hw_get_routing mm r (snd (axiom_hw_set_routing mm r v n m)) n)) =
    (if m = 0 then 0 else push_bit (ffs m - 1) 1)"
proof (cases "m = 0")
  case True
  then show ?thesis using assms
    by (simp add: axiom_hw_get_routing_def axiom_hw_set_routing_def axi_reg_defs on_hw_def Let_def case_prod_unfold)
next
  case False
  from ffs_lowest [OF False] obtain i where i: "i < 8" "ffs m = Suc i" by auto
  then have "unat (of_nat i :: u32) = i" by (simp add: unsigned_of_nat take_bit_nat_eq_self)
  moreover have "(of_nat i :: u32) \<noteq> 0xFF"
  proof
    assume "(of_nat i :: u32) = 0xFF"
    then have "unat (of_nat i :: u32) = 255" by simp
    with calculation i(1) show False by simp
  qed
  moreover have "(ucast (push_bit i (1 :: u32)) :: u8) = push_bit i 1"
    using i(1) by (intro bit_word_eqI) (simp add: bit_ucast_iff bit_exp_iff)
  ultimately show ?thesis using assms False i
    by (simp add: axiom_hw_get_routing_def axiom_hw_set_routing_def axi_reg_defs on_hw_def Let_def case_prod_unfold)
qed

text \<open>The library's node count on the arm64 layer: node 1 with one neighbour, node 2, on the first physical interface.\<close>

definition arm64_kernel :: "axi_model arm64_dev kernel" where
  "arm64_kernel = \<lparr>k_hw = arm64_hw axi_mm axi_regs, k_loc = demo_locals, k_regs = (\<lambda>_ v. v), k_v2o = (\<lambda>_ a _. (0, a)), k_kzalloc = True,
     k_remap = (\<lambda>_ _. 0), k_calloc = True, k_getenv = (\<lambda>_. None), k_place = (\<lambda>a. a)\<rparr>"

definition arm64_routes :: "axi_model arm64_dev \<Rightarrow> bool" where
  "arm64_routes v \<longleftrightarrow> am_mem (ad_hw v) 0x1028 = 1 \<and> (\<forall>n. am_mem (ad_hw v) (0x7000 + ucast (n :: u8) * 4) = (if n = 2 then 1 else 0xFF))"

lemma routing_address:
  "0x7000 + ucast (n :: u8) * 4 \<notin> {0x301c, 0x501c, 0x3024, 0x5024, 0x200c, 0x400c :: u64}"
proof -
  have "unat n < 256" using unsigned_less [of n] by simp
  then have "unat (0x7000 + ucast n * 4 :: u64) = 0x7000 + 4 * unat n"
    by (simp add: unat_word_ariths unsigned_ucast_eq take_bit_nat_eq_self)
  then have "0x7000 \<le> unat (0x7000 + ucast n * 4 :: u64)" by simp
  moreover have "x \<notin> {0x301c, 0x501c, 0x3024, 0x5024, 0x200c, 0x400c}" if "0x7000 \<le> unat x" for x :: u64 using that by auto
  ultimately show ?thesis by blast
qed

interpretation arm64_routing: node_routing arm64_kernel demo_user "[0]" arm64_routes 1 "\<lambda>n. if n = 2 then 2 else 0"
proof (unfold_locales, goal_cases)
  case (3 x)
  then show ?case
    by (simp add: arm64_kernel_def arm64_hw_def axiom_hw_get_node_id_def on_hw_def axi_reg_defs axi_mm_def axi_regs_def axi_ioread32_def
        arm64_routes_def)
next
  case (4 x n)
  have "axi_ioread32 (0x7000 + ucast n * 4) (ad_hw x) = (am_mem (ad_hw x) (0x7000 + ucast n * 4), ad_hw x)"
    using routing_address [of n] by (simp add: axi_ioread32_def)
  with 4 show ?case
    by (auto simp: arm64_kernel_def arm64_hw_def axiom_hw_get_routing_def on_hw_def axi_reg_defs axi_mm_def axi_regs_def arm64_routes_def)
qed (simp_all add: demo_user_def)

end
