(* ===== verification/TwoNodes.thy ===== *)
theory TwoNodes
  imports Arm64Props
begin

text \<open>
  Two nodes and the wire between them: a process on one node calls \<open>axiom_send_raw\<close>, a process on the other node calls
  \<open>axiom_recv_raw\<close>. The call is followed through library, system call, driver and hardware layer of the first node and,
  after the packet has arrived, through receive worker, driver, system call and library of the second.
\<close>

section \<open>Processes and their buffers\<close>

text \<open>A process that has opened the device; its RAW file is bound to port \<open>p\<close>.\<close>

definition raw_process :: "'d node \<Rightarrow> axiom_dev \<Rightarrow> int \<Rightarrow> bool" where
  "raw_process w v p \<longleftrightarrow> 0 < fd_raw v \<and>
     (\<exists>f. file_at (fd_raw v) w = Some f \<and> fd_type (of_priv f) = FDTYPE_RAW \<and> bind_port (of_priv f) = p) \<and>
     unat (sy_stack w) + 16 \<le> 2 ^ 48 \<and> readable (user_mem (sy_drv w)) (sy_stack w) 16"

text \<open>A buffer of \<open>n\<close> bytes in its memory, apart from its stack; a short one is aligned (see \<open>copy_aligned\<close>).\<close>

definition user_buffer :: "'d node \<Rightarrow> u64 \<Rightarrow> nat \<Rightarrow> bool" where
  "user_buffer w a n \<longleftrightarrow> unat a + n \<le> 2 ^ 48 \<and> readable (user_mem (sy_drv w)) a n \<and>
     (odd_part a = AXIOM_COPY_ALIGN \<or> 8 \<le> n) \<and> apart a n (sy_stack w) 16"

lemma buffer_aligned:
  assumes "odd_part a = AXIOM_COPY_ALIGN \<or> 8 \<le> n" "n < 2 ^ 64"
  shows "copy_aligned kbuf a (of_nat n)" "copy_aligned a kbuf (of_nat n)"
proof -
  have "8 \<le> n \<Longrightarrow> (8 :: u64) \<le> of_nat n" using assms(2) by (simp add: word_le_nat_alt unsigned_of_nat take_bit_nat_eq_self)
  moreover have "odd_part a = AXIOM_COPY_ALIGN \<Longrightarrow> copy_aligned x a y" "odd_part a = AXIOM_COPY_ALIGN \<Longrightarrow> copy_aligned a x y" for x y
    by (auto simp: copy_aligned_def)
  ultimately show "copy_aligned kbuf a (of_nat n)" "copy_aligned a kbuf (of_nat n)"
    using assms(1) copy_aligned_long by blast+
qed

section \<open>Sending\<close>

lemma axiom_send_raw_lemma:
  assumes proc: "raw_process w v q" and mtx: "\<not> sp_mutex (raw_tx_port (sy_drv w))"
    and buf: "length (snd (il_raw (k_loc k))) = 251"
    and rt: "length (routing_table (sy_drv w)) = 256"
      "type AND 7 = AXIOM_TYPE_RAW_NEIGHBOUR \<or> routing_table (sy_drv w) ! unat dst \<noteq> 0"
    and av: "hw_raw_tx_avail (k_hw k) (dev_api (sy_drv w)) = (n, x)" "n \<noteq> 0"
    and sz: "unat psz \<le> 248" "length junk = 16"
    and ub: "user_buffer w payload (unat psz)" "umem_read (user_mem (sy_drv w)) payload (unat psz) = map Some bs"
    and h: "h = snd (axiom_send_raw_prepare (raw_hdr_of_bytes junk) dst port type psz)"
    and tx: "hw_raw_tx (k_hw k) x \<lparr>rm_header = raw_tx_header h, rm_payload = bs @ drop (length bs) (snd (il_raw (k_loc k)))\<rparr> =
      Some (i, m, x')"
  shows "\<exists>w'. axiom_send_raw (node_os k) junk (Some v) dst port type psz payload w = Some (uint i, w') \<and>
    dev_api (sy_drv w') = x'"
proof -
  from proc obtain f where f: "0 < fd_raw v" "file_at (fd_raw v) w = Some f" "fd_type (of_priv f) = FDTYPE_RAW"
    and st: "unat (sy_stack w) + 16 \<le> 2 ^ 48" by (auto simp: raw_process_def)
  let ?arg = "raw_arg junk h payload" and ?nb = "of_flags f AND O_NONBLOCK \<noteq> 0"
  let ?m = "umem_write (user_mem (sy_drv w)) (sy_stack w) ?arg"
  let ?d = "(sy_drv w)\<lparr>user_mem := ?m\<rparr>"
  let ?iov = "[\<lparr>iov_base = payload, iov_len = ucast psz\<rparr>] :: iovec list"
  have prep: "axiom_send_raw_prepare (raw_hdr_of_bytes junk) dst port type psz = (0, h)"
    "rh_payload_size h = psz" "rh_node h = dst" "pt_type (rh_port_type h) = type AND 7"
    using sz(1) h by (simp_all add: axiom_send_raw_prepare_def)
  have la: "length ?arg = 16" by (rule raw_arg_fields(2) [OF sz(2)])
  have rd: "umem_read ?m (sy_stack w) (unat (16 :: u64)) = map Some ?arg"
    using umem_read_write [of ?arg] la by simp
  have cs: "copy_struct umem_ua ?m (il_buf (k_loc k)) (sy_stack w) 16 16 = Some (Some ?arg)"
    by (rule copy_struct_ok [OF umem_ua_spec]) (use st rd in \<open>simp_all add: umem_ua_def copy_aligned_long\<close>)
  have n: "unat (ucast psz :: u64) = unat psz" using sz(1) by (simp add: unsigned_ucast_eq take_bit_nat_eq_self)
  have lb: "length bs = unat psz" using arg_cong [OF ub(2), of length] by simp
  have rdp: "umem_read ?m payload (unat psz) = map Some bs"
    using umem_read_write_apart [of payload "unat psz" "sy_stack w" ?arg] ub la by (simp add: user_buffer_def)
  then have gb: "gather_bytes ?m ?iov = bs" using n by (simp add: comp_def)
  have "(of_nat (unat psz) :: u64) = ucast psz" by simp
  then have "copy_aligned (fst (il_raw (k_loc k)) + 5) payload (ucast psz)"
    using buffer_aligned(1) [of payload "unat psz" "fst (il_raw (k_loc k)) + 5"] ub(1) sz(1)
    by (simp add: user_buffer_def)
  moreover have "readable ?m payload (unat psz)" using rdp by (auto simp: readable_def)
  ultimately have g: "gather_ok umem_ua (user_mem ?d) (fst (il_raw (k_loc k)) + 5) (unat (rh_payload_size h)) ?iov"
    using ub(1) n prep(2) by (simp add: user_buffer_def umem_ua_def)
  let ?d' = "?d\<lparr>dev_api := x', dd_stats := stat_add bytes_raw_tx (ucast (rh_payload_size h)) (stat_add pkt_raw_tx 1 (dd_stats ?d))\<rparr>"
  have "axiomnet_raw_send (k_hw k) umem_ua (fst (il_raw (k_loc k)), snd (il_raw (k_loc k))) ?nb h ?iov (sy_env w) ?d =
      Some (uint i, sy_env w, ?d')"
    by (rule raw_send_lemma [OF umem_ua_spec _ _ buf _ _ _ av(2) g])
      (use mtx sz(1) rt av(1) prep tx gb in simp_all)
  then have io: "axiomnet_ioctl_raw (k_hw k) umem_ua (k_loc k) ?nb AXNET_SEND_RAW (sy_stack w) (of_priv f) (sy_env w) ?d =
      Some (uint i, of_priv f, sy_env w, ?d')"
    using cs prep(2) by (simp add: axiomnet_ioctl_raw_def raw_arg_fields(1) raw_arg_fields(3) [OF sz(2)])
  have rb: "umem_read (user_mem ?d') (sy_stack w) (length ?arg) = map Some ?arg" using rd la by simp
  have "uint i < 2 ^ LENGTH(8)" by (rule uint_lt2p)
  then have i: "0 \<le> uint i" "uint i < 2 ^ 31" by simp_all
  have "os_ioctl (node_os k) (fd_raw v) AXNET_SEND_RAW ?arg w =
      Some (uint i, 0, ?arg, set_file (fd_raw v) (Some (f\<lparr>of_priv := of_priv f\<rparr>)) (w\<lparr>sy_drv := ?d', sy_env := sy_env w\<rparr>))"
    by (rule sys_ioctl_run [OF f(2) i _ rb]) (use io f(3) in \<open>simp add: fops_ioctl_def\<close>)
  then show ?thesis using f(1) prep(1) i(1) by (simp add: axiom_send_raw_def opened_def set_file_def)
qed

section \<open>Receiving\<close>

lemma raw_rx_frame_mem: "raw_rx_frame d d' \<Longrightarrow> user_mem d' = user_mem d"
  unfolding raw_rx_frame_def by (cases d; cases d') simp

text \<open>The worker brings the first packet of the FIFO to its empty port, and the process takes it from there.\<close>

lemma axiom_recv_raw_arrived:
  assumes nic: "axi_nic mm r rx cur sent pend" "k_hw k = arm64_hw mm r"
    and proc: "raw_process b v (int p)" "p < 7" and inv: "raw_inv (sy_drv b) own"
    and port: "\<not> sp_mutex (raw_rx_ports (sy_drv b) ! p)" "raw_pkts (sy_drv b) p = []" "swq_free (raw_rx_queue (sy_drv b)) \<noteq> 0"
    and fifo: "rx (ad_hw (dev_api (sy_drv b))) (ar_fifo_raw_rx r) = ws # rest" "raw_pkt_of_words ws = pk" "pkt_port pk = p"
    and out: "rh_payload_size (fst pk) \<le> ro_size out" "unat (ro_size out) \<le> 248" "length junk = 16"
    and ub: "user_buffer b payload (unat (rh_payload_size (fst pk)))"
  shows "\<exists>d b'. axiom_raw_rx_dequeue (k_hw k) (sy_drv b) = Some d \<and>
    axiom_recv_raw (node_os k) junk (Some v) payload out (b\<lparr>sy_drv := d\<rparr>) = Some (uint (rh_msg_id (fst pk)),
      \<lparr>ro_src = rh_node (fst pk), ro_port = pt_port (rh_port_type (fst pk)), ro_type = pt_type (rh_port_type (fst pk)),
       ro_size = rh_payload_size (fst pk)\<rparr>, b') \<and>
    umem_read (user_mem (sy_drv b')) payload (unat (rh_payload_size (fst pk))) = map Some (snd pk) \<and> raw_inv (sy_drv b') own"
proof -
  let ?view = "\<lambda>v. map raw_pkt_of_words (rx (ad_hw v) (ar_fifo_raw_rx r))" and ?n = "unat (rh_payload_size (fst pk))"
  have v: "?view (dev_api (sy_drv b)) = pk # map raw_pkt_of_words rest" using fifo by simp
  from raw_rx_dequeue_ok [OF arm64_raw_fifo [OF nic(1)] inv v] obtain d n where
    d: "axiom_raw_rx_dequeue (arm64_hw mm r) (sy_drv b) = Some d" "raw_inv d own" "raw_rx_frame (sy_drv b) d"
      "n \<ge> length (pk # map raw_pkt_of_words rest) \<or> swq_free (raw_rx_queue d) = 0"
      "\<forall>p < 7. raw_pkts d p = raw_pkts (sy_drv b) p @ filter (\<lambda>k. pkt_port k = p) (take n (pk # map raw_pkt_of_words rest))"
      "swq_free (raw_rx_queue d) + count_valid (take n (pk # map raw_pkt_of_words rest)) = swq_free (raw_rx_queue (sy_drv b))"
    by blast
  have "n \<noteq> 0" using d(4,6) port(3) by (cases "n = 0") (simp_all add: count_valid_def)
  then obtain m where "n = Suc m" by (cases n) auto
  then have pks: "raw_pkts d p = pk # filter (\<lambda>k. pkt_port k = p) (take m (map raw_pkt_of_words rest))"
    using d(5) proc(2) port(2) fifo(3) by simp
  from proc obtain f where f: "0 < fd_raw v" "file_at (fd_raw v) b = Some f" "fd_type (of_priv f) = FDTYPE_RAW" "bind_port (of_priv f) = int p"
    and st: "unat (sy_stack b) + 16 \<le> 2 ^ 48" "readable (user_mem (sy_drv b)) (sy_stack b) 16" by (auto simp: raw_process_def)
  let ?b = "b\<lparr>sy_drv := d\<rparr>"
  have um: "user_mem d = user_mem (sy_drv b)" by (rule raw_rx_frame_mem [OF d(3)])
  have "length (raw_rx_ports (sy_drv b)) = 7" using inv by (auto simp: raw_inv_def)
  then have mx: "\<not> sp_mutex (raw_rx_ports d ! p)"
    using d(3) port(1) proc(2) raw_rx_frame_ports [OF d(3)] unfolding raw_rx_frame_def by (metis nth_map)
  have sm: "?n \<le> unat (ro_size out)" using out(1) by (simp add: word_le_nat_alt)
  have un: "unat (ucast (ro_size out) :: u64) = unat (ro_size out)" using out(2) by (simp add: unsigned_ucast_eq take_bit_nat_eq_self)
  have "(of_nat ?n :: u64) = ucast (rh_payload_size (fst pk))" "unat (ucast (rh_payload_size (fst pk)) :: u64) = ?n" 
    using sm out(2) by (simp_all add: unsigned_ucast_eq take_bit_nat_eq_self)
  moreover from this(1) have "copy_aligned payload kb (ucast (rh_payload_size (fst pk)))" for kb
    using buffer_aligned(2) [of payload ?n kb] ub sm out(2) by (simp add: user_buffer_def)
  ultimately have sc: "scatter_ok umem_ua (user_mem d) (sq_base (raw_rx_queue d) + 5) ?n [\<lparr>iov_base = payload, iov_len = ucast (ro_size out)\<rparr>]"
    using ub sm un out(2) um by (simp add: user_buffer_def umem_ua_def min_absorb2)
  have len: "length (snd pk) = ?n" using raw_pkts_length [OF d(2) proc(2) pks] sm out(2) by simp
  have "file_at (fd_raw v) ?b = file_at (fd_raw v) b" by (simp add: file_at_def)
  then have fb: "file_at (fd_raw v) ?b = Some f" using f(2) by simp
  have acc: "ua_access_ok umem_ua (sy_stack ?b) 16" using st by (simp add: umem_ua_def)
  have "\<exists>w'. axiom_recv_raw (node_os k) junk (Some v) payload out ?b = Some (uint (rh_msg_id (fst pk)),
      \<lparr>ro_src = rh_node (fst pk), ro_port = pt_port (rh_port_type (fst pk)), ro_type = pt_type (rh_port_type (fst pk)),
       ro_size = rh_payload_size (fst pk)\<rparr>, w') \<and>
    umem_read (user_mem (sy_drv w')) payload ?n = map Some (snd pk) \<and>
    raw_inv (sy_drv w') own \<and> (\<forall>p' < 7. raw_pkts (sy_drv w') p' = (if p' = p then filter (\<lambda>k. pkt_port k = p) (take m (map raw_pkt_of_words rest)) else raw_pkts (sy_drv ?b) p'))"
    by (rule axiom_recv_raw_lemma [OF f(1) fb f(3,4) proc(2)])
      (use acc d(2) mx pks out st um ub len sc in \<open>simp_all add: user_buffer_def del: scatter_ok.simps\<close>)
  then show ?thesis using d(1) nic(2) by auto
qed

section \<open>From node to node\<close>

text \<open>A sender: a process whose driver is idle, and either has a route to the destination or the message is for a neighbour,
  whose interface is then the destination. A receiver: its port is empty and slots are free.\<close>

definition raw_sender :: "'d node \<Rightarrow> axiom_dev \<Rightarrow> u8 \<Rightarrow> u8 \<Rightarrow> bool" where
  "raw_sender w v type dst \<longleftrightarrow> (\<exists>q. raw_process w v q) \<and> \<not> sp_mutex (raw_tx_port (sy_drv w)) \<and>
     length (routing_table (sy_drv w)) = 256 \<and>
     (type AND 7 = AXIOM_TYPE_RAW_NEIGHBOUR \<or> routing_table (sy_drv w) ! unat dst \<noteq> 0)"

definition raw_receiver :: "'d node \<Rightarrow> axiom_dev \<Rightarrow> nat \<Rightarrow> nat set \<Rightarrow> bool" where
  "raw_receiver w v p own \<longleftrightarrow> raw_process w v (int p) \<and> raw_inv (sy_drv w) own \<and> \<not> sp_mutex (raw_rx_ports (sy_drv w) ! p) \<and>
     raw_pkts (sy_drv w) p = [] \<and> swq_free (raw_rx_queue (sy_drv w)) \<noteq> 0"

text \<open>
  What the network does with a RAW packet: header and payload arrive as they were sent, except that the field that named the
  destination names the source (the fields \<open>tx.dst_node\<close> and \<open>rx.src_node\<close> of \<open>axiom_raw_hdr_t\<close>, one byte).
\<close>

definition wire_delivers :: "u8 \<Rightarrow> u64 list \<Rightarrow> u64 list \<Rightarrow> bool" where
  "wire_delivers src ws ws' \<longleftrightarrow>
     raw_pkt_of_words ws' = ((fst (raw_pkt_of_words ws))\<lparr>rh_node := src\<rparr>, snd (raw_pkt_of_words ws))"

lemma port_mask: "unat (p :: u8) < 8 \<Longrightarrow> p AND 7 = p"
proof -
  assume p: "unat p < 8"
  have "(7 :: u8) = mask 3" by (simp add: mask_eq_exp_minus_1)
  then have "p AND 7 = take_bit 3 p" by (simp add: take_bit_eq_mask)
  also have "\<dots> = p" using p by (intro word_unat_eq_iff [THEN iffD2]) (simp add: unsigned_take_bit_eq take_bit_nat_eq_self)
  finally show ?thesis .
qed

lemma raw_tx_header_fields:
  assumes "unat psz \<le> 248" "h = snd (axiom_send_raw_prepare h0 dst port type psz)" "unat port < 8"
  shows "pt_port (rh_port_type (raw_tx_header h)) = port" "pt_type (rh_port_type (raw_tx_header h)) = type AND 7"
    "rh_node (raw_tx_header h) = dst" "rh_payload_size (raw_tx_header h) = psz"
  using assms port_mask [OF assms(3)] by (simp_all add: axiom_send_raw_prepare_def raw_tx_header_def)

lemma raw_message_sent:
  assumes nic: "axi_nic mm r rx cur sent pend" "k_hw k = arm64_hw mm r"
    and idle: "raw_sender a v type dst" "length (snd (il_raw (k_loc k))) = 251"
      "pend (ad_hw (dev_api (sy_drv a))) (ar_fifo_raw_tx r) = []"
      "fst (axi_fifo_tx_vacancy mm (ar_fifo_raw_tx r) (ad_hw (dev_api (sy_drv a)))) \<noteq> 0"
    and msg: "unat psz \<le> 248" "length junk = 16" "unat port < 8" "user_buffer a buf (unat psz)"
      "umem_read (user_mem (sy_drv a)) buf (unat psz) = map Some bytes"
  shows "\<exists>i a' ws hdr. axiom_send_raw (node_os k) junk (Some v) dst port type psz buf a = Some (uint i, a') \<and>
    sent (ad_hw (dev_api (sy_drv a'))) (ar_fifo_raw_tx r) = sent (ad_hw (dev_api (sy_drv a))) (ar_fifo_raw_tx r) @ [ws] \<and>
    raw_pkt_of_words ws = (hdr, bytes) \<and> rh_msg_id hdr = i \<and> rh_node hdr = dst \<and> pt_port (rh_port_type hdr) = port \<and>
    pt_type (rh_port_type hdr) = type AND 7 \<and> rh_payload_size hdr = psz"
proof -
  let ?f = "ar_fifo_raw_tx r"
  define h where h: "h = snd (axiom_send_raw_prepare (raw_hdr_of_bytes junk) dst port type psz)"
  note fl = raw_tx_header_fields [OF msg(1) h msg(3)]
  obtain n h1 where v: "axi_fifo_tx_vacancy mm ?f (ad_hw (dev_api (sy_drv a))) = (n, h1)" by fastforce
  from axi_nic.vacancy [OF nic(1) _ v] have h1: "sent h1 = sent (ad_hw (dev_api (sy_drv a)))" "pend h1 = pend (ad_hw (dev_api (sy_drv a)))"
    by auto
  let ?x = "(dev_api (sy_drv a))\<lparr>ad_hw := h1\<rparr>"
  let ?m = "\<lparr>rm_header = raw_tx_header h, rm_payload = bytes @ drop (length bytes) (snd (il_raw (k_loc k)))\<rparr>"
  have lb: "length bytes = unat psz" using arg_cong [OF msg(5), of length] by simp
  have wf: "raw_msg_wf ?m" using lb msg(1) idle(2) by (simp add: raw_msg_wf_def)
  have "pend (ad_hw ?x) ?f = []" using h1(2) idle(3) by simp
  from axi_nic.raw_tx_sends [OF nic(1) wf this] obtain m' x' where
    tx: "axiom_hw_raw_tx mm r ?x ?m = Some (ad_next_raw_id ?x, m', x')"
    "m' = ?m\<lparr>rm_header := (rm_header ?m)\<lparr>rh_port_type := set_pt_s 0 (rh_port_type (rm_header ?m)), rh_msg_id := ad_next_raw_id ?x\<rparr>\<rparr>"
    "sent (ad_hw x') = (sent (ad_hw ?x))(?f := sent (ad_hw ?x) ?f @ [raw_words m'])" by blast
  have m': "raw_msg_wf m'" "unat (rh_payload_size (rm_header m')) \<le> 251"
    using wf fl(4) msg(1) unfolding tx(2) by (simp_all add: raw_msg_wf_def)
  have "\<exists>a'. axiom_send_raw (node_os k) junk (Some v) dst port type psz buf a = Some (uint (ad_next_raw_id ?x), a') \<and>
      dev_api (sy_drv a') = x'"
  proof -
    from idle(1) obtain q where q: "raw_process a v q" "\<not> sp_mutex (raw_tx_port (sy_drv a))" "length (routing_table (sy_drv a)) = 256"
      "type AND 7 = AXIOM_TYPE_RAW_NEIGHBOUR \<or> routing_table (sy_drv a) ! unat dst \<noteq> 0" by (auto simp: raw_sender_def)
    have av: "hw_raw_tx_avail (k_hw k) (dev_api (sy_drv a)) = (n, ?x)" using v nic(2)
      by (simp add: arm64_hw_def axiom_hw_raw_tx_avail_def on_hw_def)
    have "hw_raw_tx (k_hw k) ?x ?m = Some (ad_next_raw_id ?x, m', x')" using tx(1) nic(2) by (simp add: arm64_hw_def)
    from axiom_send_raw_lemma [OF q(1,2) idle(2) q(3,4) av _ msg(1,2,4,5) h this] idle(4) v show ?thesis by simp
  qed
  then obtain a' where "axiom_send_raw (node_os k) junk (Some v) dst port type psz buf a = Some (uint (ad_next_raw_id ?x), a')"
      "dev_api (sy_drv a') = x'" by blast
  moreover have "raw_pkt_of_words (raw_words m') = (rm_header m', bytes)"
    using raw_words_decode(1) [OF m'] fl(4) lb unfolding tx(2) by (simp add: raw_pkt_of_def)
  moreover have "rh_node (rm_header m') = dst" "pt_port (rh_port_type (rm_header m')) = port" "rh_msg_id (rm_header m') = ad_next_raw_id ?x"
    "pt_type (rh_port_type (rm_header m')) = type AND 7" "rh_payload_size (rm_header m') = psz"
    using fl unfolding tx(2) by simp_all
  ultimately show ?thesis using tx(3) h1(1)
    by (intro exI [of _ "ad_next_raw_id ?x"] exI [of _ a'] exI [of _ "raw_words m'"] exI [of _ "rm_header m'"]) simp
qed

text \<open>Receiving the packet, with the fields of its header and its bytes given.\<close>

lemma raw_message_received:
  assumes "axi_nic mm r rx cur sent pend" "k_hw k = arm64_hw mm r"
    and pk: "raw_pkt_of_words ws = (hdr, bytes)" "pt_port (rh_port_type hdr) = port" "rh_payload_size hdr = psz" "unat port < 7"
    and rcv: "raw_receiver b v (unat port) own" "user_buffer b buf (unat psz)" "wire_delivers src ws ws'"
      "rx (ad_hw (dev_api (sy_drv b))) (ar_fifo_raw_rx r) = ws' # rest"
    and out: "psz \<le> ro_size out" "unat (ro_size out) \<le> 248" "length junk = 16"
  shows "\<exists>d b'. axiom_raw_rx_dequeue (k_hw k) (sy_drv b) = Some d \<and>
    axiom_recv_raw (node_os k) junk (Some v) buf out (b\<lparr>sy_drv := d\<rparr>) = Some (uint (rh_msg_id hdr),
      \<lparr>ro_src = src, ro_port = port, ro_type = pt_type (rh_port_type hdr), ro_size = psz\<rparr>, b') \<and>
    umem_read (user_mem (sy_drv b')) buf (unat psz) = map Some bytes \<and> raw_inv (sy_drv b') own"
proof -
  let ?pk = "(hdr\<lparr>rh_node := src\<rparr>, bytes)"
  have "raw_pkt_of_words ws' = ?pk" using rcv(3) pk(1) by (simp add: wire_delivers_def)
  moreover have "pkt_port ?pk = unat port" using pk(2) by (simp add: pkt_port_def)
  ultimately show ?thesis
    using axiom_recv_raw_arrived [OF assms(1,2) _ pk(4) _ _ _ _ rcv(4), where pk = ?pk and v = v and own = own] rcv(1,2) out pk(2,3)
    by (simp add: raw_receiver_def)
qed

text \<open>
  Property C3. A RAW message from process to process. \<open>axiom_send_raw\<close> on a node with a free hardware queue and a route (none is needed for a message to a neighbour) returns the id of
  the message and hands the FPGA one packet, addressed to the destination and holding the bytes of the buffer. When the network brings that packet to the head of
  another node's FIFO, where a process has bound the port the message names, that node's receive worker returns, and
  \<open>axiom_recv_raw\<close> then returns the same id, the source that the network named, the port, the type and the size, with
  exactly the sender's bytes in the receiver's buffer; the driver's invariant holds afterwards. Both nodes run the arm64 layer.
\<close>

theorem raw_message_between_nodes:
  assumes "axi_nic mmA rA rxA curA sentA pendA" "k_hw kA = arm64_hw mmA rA"
    and "axi_nic mmB rB rxB curB sentB pendB" "k_hw kB = arm64_hw mmB rB"
    and "raw_sender a va type dst" "length (snd (il_raw (k_loc kA))) = 251"
      "pendA (ad_hw (dev_api (sy_drv a))) (ar_fifo_raw_tx rA) = []"
      "fst (axi_fifo_tx_vacancy mmA (ar_fifo_raw_tx rA) (ad_hw (dev_api (sy_drv a)))) \<noteq> 0"
    and "unat psz \<le> 248" "length junk = 16" "unat port < 7" "user_buffer a buf (unat psz)"
      "umem_read (user_mem (sy_drv a)) buf (unat psz) = map Some bytes"
    and "psz \<le> ro_size out" "unat (ro_size out) \<le> 248" "length junk' = 16"
  shows "\<exists>(i :: u8) a' ws. axiom_send_raw (node_os kA) junk (Some va) dst port type psz buf a = Some (uint i, a') \<and>
    sentA (ad_hw (dev_api (sy_drv a'))) (ar_fifo_raw_tx rA) = sentA (ad_hw (dev_api (sy_drv a))) (ar_fifo_raw_tx rA) @ [ws] \<and>
    rh_node (fst (raw_pkt_of_words ws)) = dst \<and> rh_payload_size (fst (raw_pkt_of_words ws)) = psz \<and> snd (raw_pkt_of_words ws) = bytes \<and>
    (\<forall>b vb own src ws' rest. raw_receiver b vb (unat port) own \<longrightarrow> user_buffer b buf' (unat psz) \<longrightarrow> wire_delivers src ws ws' \<longrightarrow>
      rxB (ad_hw (dev_api (sy_drv b))) (ar_fifo_raw_rx rB) = ws' # rest \<longrightarrow>
      (\<exists>d b'. axiom_raw_rx_dequeue (k_hw kB) (sy_drv b) = Some d \<and>
        axiom_recv_raw (node_os kB) junk' (Some vb) buf' out (b\<lparr>sy_drv := d\<rparr>) = Some (uint i,
          \<lparr>ro_src = src, ro_port = port, ro_type = type AND 7, ro_size = psz\<rparr>, b') \<and>
        umem_read (user_mem (sy_drv b')) buf' (unat psz) = map Some bytes \<and> raw_inv (sy_drv b') own))"
proof -
  have "unat port < 8" using assms(11) by simp
  from raw_message_sent [OF assms(1,2,5-10) this assms(12,13)] obtain i a' ws hdr where
    snd: "axiom_send_raw (node_os kA) junk (Some va) dst port type psz buf a = Some (uint i, a')"
      "sentA (ad_hw (dev_api (sy_drv a'))) (ar_fifo_raw_tx rA) = sentA (ad_hw (dev_api (sy_drv a))) (ar_fifo_raw_tx rA) @ [ws]"
    and pk: "raw_pkt_of_words ws = (hdr, bytes)" "rh_msg_id hdr = i" "rh_node hdr = dst" "pt_port (rh_port_type hdr) = port"
      "pt_type (rh_port_type hdr) = type AND 7" "rh_payload_size hdr = psz" by blast
  note received = raw_message_received [OF assms(3,4) pk(1,4,6) assms(11) _ _ _ _ assms(14-16), unfolded pk(2,5)]
  have "rh_node (fst (raw_pkt_of_words ws)) = dst" "rh_payload_size (fst (raw_pkt_of_words ws)) = psz" "snd (raw_pkt_of_words ws) = bytes"
    using pk(1,3,6) by simp_all
  then show ?thesis using snd received by blast
qed

text \<open>Two nodes with the FPGA of the witnesses. A process on the first sends four bytes to node 2, port 2.\<close>

definition arm_d :: "axi_model arm64_dev \<Rightarrow> (axi_model arm64_dev, u64 \<Rightarrow> u8 option) drvdata" where
  "arm_d v = \<lparr>dev_api = v, dd_lock = False, dd_used = 0, dma_paddr = 0, dma_size = 0, rdma_paddr = 4096,
     rdma_size = 4096, long_paddr = 0, long_vaddr = 0, long_rx_vaddr = 0, long_tx_vaddr = 0, long_size = 0,
     long_rxbuf_lut = long_rxbuf_lut demo_d, raw_tx_port = demo_port, raw_rx_queue = raw_rx_queue demo_d,
     raw_rx_ports = raw_rx_ports demo_d, raw_rx_port_used = 0, rdma_queue = rdma_queue demo_d, long_tx_queue = long_tx_queue demo_d,
     rdma_port = demo_port, long_tx_port = demo_port, long_rx_queue = long_rx_queue demo_d, long_rx_ports = long_rx_ports demo_d,
     long_rx_port_used = 0, kthread_raw = demo_kthread, kthread_rdma = demo_kthread, kthread_wtd = demo_kthread,
     dd_stats = (\<lambda>_. 0), watchdog_period_msec = 200, retry_delay_usec = 100, routing_table = routing_table demo_d, dd_node_id = 1,
     user_mem = umem_write (user_mem demo_d) 4352 [10, 1, 2, 3], long_mem = (\<lambda>_. 0)\<rparr>"

definition arm_node :: "nat \<Rightarrow> axi_model arm64_dev \<Rightarrow> axi_model arm64_dev node" where
  "arm_node p v = \<lparr>sy_drv = arm_d v, sy_files = replicate 4 (Some std_file) @ [Some \<lparr>of_priv = demo_pr\<lparr>bind_port := int p\<rparr>, of_flags = 2\<rparr>],
     sy_stack = 4096, sy_env = [], sy_heap = 0, sy_errno = 0\<rparr>"

definition arm_kernel :: "axi_model arm64_dev kernel" where
  "arm_kernel = \<lparr>k_hw = arm64_hw axi_mm axi_regs, k_loc = demo_locals, k_regs = (\<lambda>_ v. v), k_v2o = (\<lambda>_ a _. (0, a)), k_kzalloc = True,
     k_remap = (\<lambda>_ _. 0), k_calloc = True, k_getenv = (\<lambda>_. None), k_place = (\<lambda>a. a)\<rparr>"

lemma arm_node_process: "raw_process (arm_node p v) demo_user (int p)"
  by (simp add: raw_process_def arm_node_def demo_user_def file_at_def nth_append demo_pr_def arm_d_def demo_d_def readable_def
      umem_read_numeral)

lemma arm_node_ends: "raw_sender (arm_node p v) demo_user type 2" "p < 7 \<Longrightarrow> raw_receiver (arm_node p v) demo_user p {}"
proof -
  show "raw_sender (arm_node p v) demo_user type 2" using arm_node_process
    by (auto simp: raw_sender_def arm_node_def arm_d_def demo_port_def demo_d_def)
  have "raw_inv (arm_d v) {}" "p < 7 \<Longrightarrow> raw_pkts (arm_d v) p = []" "swq_free (raw_rx_queue (arm_d v)) = swq_free (raw_rx_queue demo_d)"
    using demo_d_inv demo_d_pkts [of p] by (simp_all add: raw_inv_def raw_pkts_def arm_d_def)
  moreover have "swq_free (raw_rx_queue demo_d) \<noteq> 0"
    using swq_rep_contents(1) [of "raw_rx_queue demo_d" "[0, 1]" "replicate 7 []" "{}" "replicate 2 demo_raw_msg"] demo_evi_rep [of 7]
    by (simp add: swq_rep_def demo_d_def)
  ultimately show "p < 7 \<Longrightarrow> raw_receiver (arm_node p v) demo_user p {}" using arm_node_process
    by (simp add: raw_receiver_def arm_node_def arm_d_def demo_d_def demo_port_def)
qed

lemma arm_node_buffer: "user_buffer (arm_node p v) 4352 4" "umem_read (user_mem (sy_drv (arm_node p v))) 4352 4 = map Some [10, 1, 2, 3]"
proof -
  have "apart 4352 4 4096 16" by (rule apart_below) simp_all
  then show "user_buffer (arm_node p v) 4352 4"
    by (simp add: user_buffer_def arm_node_def arm_d_def demo_d_def readable_def umem_read_numeral odd_part_def)
  show "umem_read (user_mem (sy_drv (arm_node p v))) 4352 4 = map Some [10, 1, 2, 3]"
    by (simp add: arm_node_def arm_d_def umem_read_numeral)
qed

lemma arm_node_demands:
  "k_hw arm_kernel = arm64_hw axi_mm axi_regs" "length (snd (il_raw (k_loc arm_kernel))) = 251"
  "axi_pend (ad_hw (dev_api (sy_drv (arm_node p axi_empty)))) (ar_fifo_raw_tx axi_regs) = []"
  "fst (axi_fifo_tx_vacancy axi_mm (ar_fifo_raw_tx axi_regs) (ad_hw (dev_api (sy_drv (arm_node p axi_empty))))) \<noteq> 0"
  by (simp_all add: arm_kernel_def demo_locals_def arm_node_def arm_d_def axi_empty_def axi_pend_def)

text \<open>The second node, with a packet in its FIFO.\<close>

definition arm_node_with :: "nat \<Rightarrow> u64 list \<Rightarrow> axi_model arm64_dev node" where
  "arm_node_with p ws = arm_node p (axi_empty\<lparr>ad_hw := (ad_hw axi_empty)\<lparr>am_raw := [Abs_raw_packet ws]\<rparr>\<rparr>)"

lemma wire_can_deliver:
  assumes "unat (rh_payload_size (fst (raw_pkt_of_words ws))) = length (snd (raw_pkt_of_words ws))"
    "length (snd (raw_pkt_of_words ws)) \<le> 248"
  shows "\<exists>ws'. wire_delivers src ws ws' \<and> raw_words_ok ws'"
proof -
  let ?h = "(fst (raw_pkt_of_words ws))\<lparr>rh_node := src\<rparr>" and ?bs = "snd (raw_pkt_of_words ws)"
  let ?m = "\<lparr>rm_header = ?h, rm_payload = ?bs @ replicate (251 - length ?bs) 0\<rparr>"
  have "raw_msg_wf ?m" "unat (rh_payload_size (rm_header ?m)) \<le> 251" "raw_pkt_of ?m = (?h, ?bs)"
    using assms by (simp_all add: raw_msg_wf_def raw_pkt_of_def)
  with raw_words_decode [of ?m] show ?thesis by (intro exI [of _ "raw_words ?m"]) (simp add: wire_delivers_def)
qed

theorem raw_message_between_nodes_witness:
  "\<exists>(i :: u8) a' ws ws' d b'. axiom_send_raw (node_os arm_kernel) (replicate 16 0) (Some demo_user) 2 2 3 4 4352 (arm_node 2 axi_empty) =
       Some (uint i, a') \<and>
     axi_sent (ad_hw (dev_api (sy_drv a'))) (ar_fifo_raw_tx axi_regs) = [ws] \<and> wire_delivers 1 ws ws' \<and>
     axiom_raw_rx_dequeue (k_hw arm_kernel) (sy_drv (arm_node_with 2 ws')) = Some d \<and>
     axiom_recv_raw (node_os arm_kernel) (replicate 16 0) (Some demo_user) 4352 \<lparr>ro_src = 0, ro_port = 0, ro_type = 0, ro_size = 200\<rparr>
       ((arm_node_with 2 ws')\<lparr>sy_drv := d\<rparr>) = Some (uint i, \<lparr>ro_src = 1, ro_port = 2, ro_type = 3, ro_size = 4\<rparr>, b') \<and>
     umem_read (user_mem (sy_drv b')) 4352 4 = map Some [10, 1, 2, 3]"
proof -
  let ?out = "\<lparr>ro_src = 0, ro_port = 0, ro_type = 0, ro_size = 200\<rparr> :: u8 recv_out" and ?rx = "ar_fifo_raw_rx axi_regs"
  have "unat (4 :: u8) = 4" "unat (2 :: u8) = 2" by simp_all
  then obtain i a' ws where snd: "axiom_send_raw (node_os arm_kernel) (replicate 16 0) (Some demo_user) 2 2 3 4 4352 (arm_node 2 axi_empty) =
       Some (uint (i :: u8), a')"
     "axi_sent (ad_hw (dev_api (sy_drv a'))) (ar_fifo_raw_tx axi_regs) = axi_sent (ad_hw (dev_api (sy_drv (arm_node 2 axi_empty)))) (ar_fifo_raw_tx axi_regs) @ [ws]"
     "rh_payload_size (fst (raw_pkt_of_words ws)) = 4" "snd (raw_pkt_of_words ws) = [10, 1, 2, 3]"
    and rcv: "\<And>b vb own src ws' rest. raw_receiver b vb 2 own \<Longrightarrow> user_buffer b 4352 4 \<Longrightarrow> wire_delivers src ws ws' \<Longrightarrow>
      axi_rx (ad_hw (dev_api (sy_drv b))) ?rx = ws' # rest \<Longrightarrow>
      \<exists>d b'. axiom_raw_rx_dequeue (k_hw arm_kernel) (sy_drv b) = Some d \<and>
        axiom_recv_raw (node_os arm_kernel) (replicate 16 0) (Some vb) 4352 ?out (b\<lparr>sy_drv := d\<rparr>) =
          Some (uint i, \<lparr>ro_src = src, ro_port = 2, ro_type = 3 AND 7, ro_size = 4\<rparr>, b') \<and>
        umem_read (user_mem (sy_drv b')) 4352 4 = map Some [10, 1, 2, 3] \<and> raw_inv (sy_drv b') own"
    using raw_message_between_nodes [OF axi.axi_nic_axioms arm_node_demands(1) axi.axi_nic_axioms arm_node_demands(1)
        arm_node_ends(1) [of 2] arm_node_demands(2) arm_node_demands(3,4) [of 2], of 4 "replicate 16 0" 2 4352 "[10, 1, 2, 3]" ?out "replicate 16 0" 3 4352] arm_node_buffer
    by auto
  from wire_can_deliver [of ws 1] snd(3,4) obtain ws' where ws': "wire_delivers 1 ws ws'" "raw_words_ok ws'" by auto
  have "axi_rx (ad_hw (dev_api (sy_drv (arm_node_with 2 ws')))) ?rx = ws' # []"
    using ws'(2) by (simp add: arm_node_with_def arm_node_def arm_d_def axi_rx_def Abs_raw_packet_inverse)
  from rcv [OF _ _ ws'(1) this] obtain d b' where
    "axiom_raw_rx_dequeue (k_hw arm_kernel) (sy_drv (arm_node_with 2 ws')) = Some d"
    "axiom_recv_raw (node_os arm_kernel) (replicate 16 0) (Some demo_user) 4352 ?out ((arm_node_with 2 ws')\<lparr>sy_drv := d\<rparr>) =
       Some (uint i, \<lparr>ro_src = 1, ro_port = 2, ro_type = 3 AND 7, ro_size = 4\<rparr>, b')"
    "umem_read (user_mem (sy_drv b')) 4352 4 = map Some [10, 1, 2, 3]"
    using arm_node_ends(2) [of 2] arm_node_buffer(1) unfolding arm_node_with_def by force
  moreover have "axi_sent (ad_hw (dev_api (sy_drv (arm_node 2 axi_empty)))) (ar_fifo_raw_tx axi_regs) = []"
    by (simp add: arm_node_def arm_d_def axi_empty_def axi_sent_def)
  ultimately show ?thesis using snd(1,2) ws'(1) by auto
qed

end
