(* ===== verification/ProtocolMsgs.thy ===== *)
theory ProtocolMsgs
  imports UserApi
begin

text \<open>
  The messages of the initialisation protocols (\<open>include/axiom_nic_discovery.h\<close>, \<open>include/axiom_nic_routing.h\<close>,
  \<open>include/axiom_nic_init.h\<close>): inline functions that pack a small structure into the payload of a RAW message and unpack
  it. The structure is a local variable of the function: \<open>stk\<close> is its address and \<open>st\<close> stores bytes in the memory of the
  process, so that bytes the function does not assign keep what the stack held before.
\<close>

section \<open>Payloads\<close>

abbreviation (input) AXIOM_RAW_PORT_INIT :: u8 where "AXIOM_RAW_PORT_INIT \<equiv> 0"

record axiom_discovery_payload =
  dp_command :: u8
  dp_src_node :: u8
  dp_dst_node :: u8
  dp_src_dst_if :: u8

record axiom_routing_payload =
  rp_command :: u8
  rp_node_id :: u8
  rp_if_mask :: u8
  rp_spare :: u8

definition discovery_bytes :: "axiom_discovery_payload \<Rightarrow> u8 list" where
  "discovery_bytes p = [dp_command p, dp_src_node p, dp_dst_node p, dp_src_dst_if p]"
definition discovery_of_bytes :: "u8 list \<Rightarrow> axiom_discovery_payload" where
  "discovery_of_bytes bs = \<lparr>dp_command = bs ! 0, dp_src_node = bs ! 1, dp_dst_node = bs ! 2, dp_src_dst_if = bs ! 3\<rparr>"
definition routing_of_bytes :: "u8 list \<Rightarrow> axiom_routing_payload" where
  "routing_of_bytes bs = \<lparr>rp_command = bs ! 0, rp_node_id = bs ! 1, rp_if_mask = bs ! 2, rp_spare = bs ! 3\<rparr>"

lemma discovery_of_bytes_bytes [simp]: "discovery_of_bytes (discovery_bytes p) = p"
  by (simp add: discovery_bytes_def discovery_of_bytes_def)

section \<open>Discovery\<close>

definition axiom_send_raw_discovery :: "'w os \<Rightarrow> (u64 \<Rightarrow> u8 list \<Rightarrow> 'w \<Rightarrow> 'w) \<Rightarrow> u8 list \<Rightarrow> u64 \<Rightarrow> axiom_dev option \<Rightarrow> u8 \<Rightarrow> u8 \<Rightarrow>
    u8 \<Rightarrow> u8 \<Rightarrow> u8 \<Rightarrow> u8 \<Rightarrow> 'w \<Rightarrow> (int \<times> 'w) option" where
  "axiom_send_raw_discovery os st junk stk dev interface cmd src_id dst_id src_if dst_if w =
     (let payload = \<lparr>dp_command = cmd, dp_src_node = src_id, dp_dst_node = dst_id,
            dp_src_dst_if = push_bit 4 (0x0F AND src_if) OR (0x0F AND dst_if)\<rparr>
      in axiom_send_raw os junk dev interface AXIOM_RAW_PORT_INIT AXIOM_TYPE_RAW_NEIGHBOUR 4 stk (st stk (discovery_bytes payload) w))"

text \<open>What a receive function stores through its pointers; the interface is stored by \<open>axiom_recv_raw\<close> itself, even if it is not a discovery message.\<close>

record discovery_out =
  do_interface :: u8
  do_cmd :: u8
  do_src_id :: u8
  do_dst_id :: u8
  do_src_if :: u8
  do_dst_if :: u8

definition axiom_recv_raw_discovery :: "'w os \<Rightarrow> u8 list \<Rightarrow> u64 \<Rightarrow> axiom_dev option \<Rightarrow> discovery_out \<Rightarrow> 'w \<Rightarrow>
    (int \<times> discovery_out \<times> 'w) option" where
  "axiom_recv_raw_discovery os junk stk dev out w = do {
     (ret, r, w) \<leftarrow> axiom_recv_raw os junk dev stk
        \<lparr>ro_src = do_interface out, ro_port = AXIOM_RAW_PORT_INIT, ro_type = AXIOM_TYPE_RAW_NEIGHBOUR, ro_size = 4\<rparr> w;
     let out = out\<lparr>do_interface := ro_src r\<rparr>;
     bs \<leftarrow> os_load os stk 4 w;
     if ret < AXIOM_RET_OK \<or> ro_port r \<noteq> AXIOM_RAW_PORT_INIT \<or> ro_size r \<noteq> 4 then Some (AXIOM_RET_ERROR, out, w)
     else let p = discovery_of_bytes bs in
       Some (AXIOM_RET_OK, out\<lparr>do_cmd := dp_command p, do_src_id := dp_src_node p, do_dst_id := dp_dst_node p,
         do_src_if := drop_bit 4 (dp_src_dst_if p) AND 0x0F, do_dst_if := dp_src_dst_if p AND 0x0F\<rparr>, w) }"

section \<open>Routing\<close>

text \<open>The \<open>spare\<close> byte is not assigned: only three bytes of the structure are stored, but all four are sent.\<close>

definition axiom_send_raw_delivery :: "'w os \<Rightarrow> (u64 \<Rightarrow> u8 list \<Rightarrow> 'w \<Rightarrow> 'w) \<Rightarrow> u8 list \<Rightarrow> u64 \<Rightarrow> axiom_dev option \<Rightarrow> u8 \<Rightarrow> u8 \<Rightarrow>
    u8 \<Rightarrow> u8 \<Rightarrow> 'w \<Rightarrow> (int \<times> 'w) option" where
  "axiom_send_raw_delivery os st junk stk dev dst_node_id cmd payload_node_id payload_if_mask w =
     axiom_send_raw os junk dev dst_node_id AXIOM_RAW_PORT_INIT AXIOM_TYPE_RAW_DATA 4 stk (st stk [cmd, payload_node_id, payload_if_mask] w)"

definition axiom_send_raw_set_routing :: "'w os \<Rightarrow> (u64 \<Rightarrow> u8 list \<Rightarrow> 'w \<Rightarrow> 'w) \<Rightarrow> u8 list \<Rightarrow> u64 \<Rightarrow> axiom_dev option \<Rightarrow> u8 \<Rightarrow> u8 \<Rightarrow>
    'w \<Rightarrow> (int \<times> 'w) option" where
  "axiom_send_raw_set_routing os st junk stk dev interface cmd w =
     axiom_send_raw os junk dev interface AXIOM_RAW_PORT_INIT AXIOM_TYPE_RAW_NEIGHBOUR 4 stk (st stk [cmd, 0, 0] w)"

record routing_out =
  uo_src :: u8
  uo_cmd :: u8
  uo_node_id :: u8
  uo_if_mask :: u8

text \<open>The common part of the two receive functions; the payload is read after a message of any size.\<close>

definition recv_raw_routing :: "'w os \<Rightarrow> u8 list \<Rightarrow> u64 \<Rightarrow> axiom_dev option \<Rightarrow> u8 \<Rightarrow> u8 \<Rightarrow> 'w \<Rightarrow>
    (int \<times> u8 \<times> axiom_routing_payload \<times> 'w) option" where
  "recv_raw_routing os junk stk dev type src w = do {
     (ret, r, w) \<leftarrow> axiom_recv_raw os junk dev stk \<lparr>ro_src = src, ro_port = AXIOM_RAW_PORT_INIT, ro_type = type, ro_size = 4\<rparr> w;
     bs \<leftarrow> os_load os stk 4 w;
     Some (if ret < AXIOM_RET_OK \<or> ro_port r \<noteq> AXIOM_RAW_PORT_INIT then AXIOM_RET_ERROR else AXIOM_RET_OK, ro_src r, routing_of_bytes bs, w) }"

definition axiom_recv_raw_delivery :: "'w os \<Rightarrow> u8 list \<Rightarrow> u64 \<Rightarrow> axiom_dev option \<Rightarrow> routing_out \<Rightarrow> 'w \<Rightarrow>
    (int \<times> routing_out \<times> 'w) option" where
  "axiom_recv_raw_delivery os junk stk dev out w = do {
     (ret, src, p, w) \<leftarrow> recv_raw_routing os junk stk dev AXIOM_TYPE_RAW_DATA (uo_src out) w;
     let out = out\<lparr>uo_src := src\<rparr>;
     Some (ret, if ret < AXIOM_RET_OK then out
       else out\<lparr>uo_cmd := rp_command p, uo_node_id := rp_node_id p, uo_if_mask := rp_if_mask p\<rparr>, w) }"

definition axiom_recv_raw_set_routing :: "'w os \<Rightarrow> u8 list \<Rightarrow> u64 \<Rightarrow> axiom_dev option \<Rightarrow> routing_out \<Rightarrow> 'w \<Rightarrow>
    (int \<times> routing_out \<times> 'w) option" where
  "axiom_recv_raw_set_routing os junk stk dev out w = do {
     (ret, src, p, w) \<leftarrow> recv_raw_routing os junk stk dev AXIOM_TYPE_RAW_NEIGHBOUR (uo_src out) w;
     let out = out\<lparr>uo_src := src\<rparr>;
     Some (ret, if ret < AXIOM_RET_OK then out else out\<lparr>uo_cmd := rp_command p\<rparr>, w) }"

text \<open>
  A message that is too short is accepted by the routing functions: whatever the size, the values come from the four bytes
  of the local variable, of which the message has set only a part. The discovery function refuses it.
\<close>

lemma short_message_accepted:
  assumes "axiom_recv_raw os junk dev stk \<lparr>ro_src = uo_src out, ro_port = 0, ro_type = 3, ro_size = 4\<rparr> w = Some (ret, r, w')"
    and "0 \<le> ret" "ro_port r = 0" "os_load os stk 4 w' = Some bs"
  shows "axiom_recv_raw_delivery os junk stk dev out w = Some (0, out\<lparr>uo_src := ro_src r, uo_cmd := bs ! 0, uo_node_id := bs ! 1, uo_if_mask := bs ! 2\<rparr>, w')"
  using assms by (simp add: axiom_recv_raw_delivery_def recv_raw_routing_def routing_of_bytes_def)

lemma short_discovery_refused:
  assumes "axiom_recv_raw os junk dev stk \<lparr>ro_src = do_interface out, ro_port = 0, ro_type = 2, ro_size = 4\<rparr> w = Some (ret, r, w')"
    and "ro_size r \<noteq> 4" "os_load os stk 4 w' = Some bs"
  shows "axiom_recv_raw_discovery os junk stk dev out w = Some (- 1, out\<lparr>do_interface := ro_src r\<rparr>, w')"
  using assms by (simp add: axiom_recv_raw_discovery_def)

section \<open>Messages of the init daemon\<close>

text \<open>The result parameters of \<open>axiom_recv_init\<close>: those of \<open>axiom_recv\<close> and the command. The payload is the caller's buffer.\<close>

definition axiom_recv_init :: "'w os \<Rightarrow> u8 list \<Rightarrow> axiom_dev option \<Rightarrow> u64 \<Rightarrow> u64 recv_out \<Rightarrow> u8 \<Rightarrow> 'w \<Rightarrow>
    (int \<times> u64 recv_out \<times> u8 \<times> 'w) option" where
  "axiom_recv_init os junk dev payload out cmd w = do {
     (ret, r, w) \<leftarrow> axiom_recv os junk dev payload (out\<lparr>ro_port := AXIOM_RAW_PORT_INIT\<rparr>) w;
     if ret < AXIOM_RET_OK \<or> ro_port r \<noteq> AXIOM_RAW_PORT_INIT \<or> ro_size r = 0 then Some (AXIOM_RET_ERROR, r\<lparr>ro_port := ro_port out\<rparr>, cmd, w)
     else do {
       bs \<leftarrow> os_load os payload 1 w;
       Some (AXIOM_RET_OK, r\<lparr>ro_port := ro_port out\<rparr>, bs ! 0, w) } }"

end
