(* ===== verification/ProtocolProps.thy ===== *)
theory ProtocolProps
  imports TwoNodes ProtocolMsgs
begin

text \<open>
  The protocol messages over the wire: what one node's discovery or routing function sends is what the other node's
  function returns, through both libraries, drivers and hardware layers.
\<close>

section \<open>Local variables of a process\<close>

text \<open>Room for a payload of four bytes on the stack, aligned, beside the argument structure of the system call.\<close>

definition payload_var :: "'d node \<Rightarrow> u64 \<Rightarrow> bool" where
  "payload_var w a \<longleftrightarrow> user_buffer w a 4 \<and> odd_part a = AXIOM_COPY_ALIGN"

lemma node_store_fields [simp]:
  "dev_api (sy_drv (node_store a bs w)) = dev_api (sy_drv w)" "sy_stack (node_store a bs w) = sy_stack w"
  "user_mem (sy_drv (node_store a bs w)) = umem_write (user_mem (sy_drv w)) a bs"
  by (simp_all add: node_store_def)

lemma node_store_sender [simp]: "raw_sender w v type dst \<Longrightarrow> raw_sender (node_store a bs w) v type dst"
proof -
  have "file_at fd (node_store a bs w) = file_at fd w" for fd by (simp add: file_at_def node_store_def)
  then have "raw_process w v q \<Longrightarrow> raw_process (node_store a bs w) v q" for q
    by (auto simp: raw_process_def intro: readable_write)
  then show "raw_sender w v type dst \<Longrightarrow> raw_sender (node_store a bs w) v type dst"
    by (auto simp: raw_sender_def node_store_def)
qed

lemma node_store_buffer: "user_buffer w b n \<Longrightarrow> user_buffer (node_store a bs w) b n"
  by (auto simp: user_buffer_def intro: readable_write)

lemma node_load: "umem_read (user_mem (sy_drv w)) a n = map Some bs \<Longrightarrow> os_load (node_os k) a n w = Some bs"
  by (simp add: node_os_def sys_load_def)

section \<open>Discovery\<close>

lemma nibbles: "(15 AND drop_bit 4 (push_bit 4 x)) AND 15 = x AND (15 :: u8)" "(240 AND push_bit 4 x OR 15 AND y) AND 15 = y AND (15 :: u8)"
  by (rule u8_eqI; simp add: u8_bits)+


lemma arm_node_payload: "payload_var (arm_node p v) 4352"
  using arm_node_buffer(1) by (simp add: payload_var_def odd_part_def)


end
