(* ===== verification/LongCycle.thy ===== *)
theory LongCycle
  imports LongIo
begin

text \<open>
  The life of a LONG message at its sender: the call takes a request slot and a transmit buffer, the acknowledgement gives both
  back, however much later it comes and whatever else has happened in the driver.
\<close>

section \<open>The acknowledgement\<close>

definition positive_ack :: "u8 \<Rightarrow> u8 \<Rightarrow> rdma_hdr \<Rightarrow> bool" where
  "positive_ack i node h \<longleftrightarrow> pt_s (dh_port_type h) = 1 \<and> pt_error (dh_port_type h) = 0 \<and> dh_msg_id h = i \<and> dh_node h = node"

lemma callback_slot:
  assumes "callbacks_inv d own lown" "i \<in> own" "rs_callback (rdma_slot d i) = Some (of_nat k)" "sint (of_nat k :: s16) = int k"
  shows "k \<in> lown"
proof -
  have "\<exists>k' \<in> lown. (of_nat k :: s16) = of_nat k'" using assms(1-3) unfolding callbacks_inv_def by blast
  then obtain k' where k': "k' \<in> lown" "(of_nat k :: s16) = of_nat k'" by blast
  from assms(1) obtain lfs lds where rep: "swq_rep (long_tx_queue d) lfs [] lown lds" by (auto simp: callbacks_inv_def)
  then have "sint (of_nat k' :: s16) = int k'" using swq_rep_slot(2) [OF rep, of k'] k'(1) by simp
  then have "k = k'" using assms(4) k'(2) by simp
  then show ?thesis using k'(1) by simp
qed

context rdma_device begin

lemma worker_frees:
  assumes inv: "nic_inv d own lown rown" and i: "i \<in> own" "i < 256"
    and slot: "\<not> rs_ack_waiting (rdma_slot d i)" "rs_callback (rdma_slot d i) = Some (of_nat k)" "sint (of_nat k :: s16) = int k"
    and ack: "fifo (dev_api d) = ack # ks" "positive_ack (of_nat i) (dh_node (rs_header (rdma_slot d i))) ack" "\<forall>x \<in> set ks. ack_sane x"
  shows "\<exists>d' own' lown'. axiom_rdma_rx_dequeue hw old d = Some d' \<and> nic_inv d' own' lown' rown \<and> own' \<subseteq> own - {i} \<and>
    lown' \<subseteq> lown - {k} \<and> fifo (dev_api d') = []"
proof -
  let ?d = "d\<lparr>dev_api := snd (hw_rdma_rx_avail hw (dev_api d))\<rparr>"
  have "fifo (dev_api ?d) = ack # ks" using ack(1) rx_avail(2) by simp
  from rx [OF this, of old] obtain v where v: "hw_rdma_rx hw (dev_api ?d) old = Some (dh_msg_id ack, ack, v)" "fifo v = ks" by blast
  let ?e = "?d\<lparr>dev_api := v\<rparr>"
  have e: "nic_inv ?e own lown rown" "rdma_slot ?e = rdma_slot d"
    using nic_inv_cong [OF inv, of ?e rown] inv by (simp_all add: nic_inv_def long_inv_def rdma_slot_def fun_eq_iff)
  have k: "k \<in> lown" using callback_slot [OF _ i(1) slot(2,3)] inv by (simp add: nic_inv_def)
  have id: "unat (dh_msg_id ack) = i" using ack(2) i(2) by (simp add: positive_ack_def unsigned_of_nat take_bit_nat_eq_self)
  have "\<exists>d1. rdma_rx_ack hw (dh_msg_id ack) ack ?e = Some d1 \<and> nic_inv d1 (own - {i}) (lown - {k}) rown \<and> dev_api d1 = dev_api ?e"
    by (rule ack_frees [OF e(1) i(1) id]) (use e(2) slot k ack(2) in \<open>simp_all add: positive_ack_def\<close>)
  then obtain d1 where d1: "rdma_rx_ack hw (dh_msg_id ack) ack ?e = Some d1" "nic_inv d1 (own - {i}) (lown - {k}) rown" "dev_api d1 = v"
    by auto
  have body: "rdma_rx_body hw old ?d = Some (ack, d1)" using v(1) d1(1) ack(2) by (simp add: rdma_rx_body_def positive_ack_def)
  from worker_drains [OF d1(2) _ ack(3), of ack] d1(3) v(2) obtain d' own' lown' where
    d': "axiom_rdma_rx_dequeue hw ack d1 = Some d'" "nic_inv d' own' lown' rown" "own' \<subseteq> own - {i}" "lown' \<subseteq> lown - {k}" "fifo (dev_api d') = []"
    by auto
  have "axiom_rdma_rx_dequeue hw old d = Some d'"
    using ack(1) body d'(1) by (subst axiom_rdma_rx_dequeue.simps) (simp add: work_todo)
  with d' show ?thesis by blast
qed

end

section \<open>Send and acknowledgement\<close>

text \<open>
  Property C16. A LONG message at its sender. With a free transmit buffer, a free request slot and room in the hardware, the call
  stores the bytes of the user's buffers at the start of a buffer and changes nothing else of the reserved memory; it returns the
  id of the one request that goes out for that buffer, takes one request slot and one buffer that nobody used, and leaves the
  mutexes free. However the driver goes on, as long as it keeps its invariant and the request, when the positive
  acknowledgement of the destination comes to the head of the receive FIFO the worker returns with request slot and buffer
  given back, and no other is taken.
\<close>

theorem long_request_lifecycle:
  fixes d :: "('d, 'u) drvdata"
  assumes "rdma_device hw fifo" and "uaccess_spec ua view" and "nic_inv d own lown rown" and "\<not> sp_mutex (long_tx_port d)"
    and "swq_free (rdma_queue d) \<noteq> 0" "swq_free (long_tx_queue d) \<noteq> 0"
    and "unat (dh_payload_size user) \<le> AXIOM_LONG_PAYLOAD_MAX_SIZE"
    and "gather_ok ua (view (user_mem d)) (lm_payload (long_desc d (long_next d))) (unat (dh_payload_size user)) iov"
    and "rdma_valid d (long_tx_header user (lm_header (long_desc d (long_next d))))"
    and "hw_rdma_tx_avail hw (dev_api d) = (n, dev)" "n \<noteq> 0"
    and "hw_rdma_tx hw dev (rdma_tx_header (of_nat (rdma_next d)) (long_tx_header user (lm_header (long_desc d (long_next d))))) =
       Some (of_nat (rdma_next d), rdma_tx_header (of_nat (rdma_next d)) (long_tx_header user (lm_header (long_desc d (long_next d)))), dev')"
  shows "\<exists>i k d'. axiomnet_long_send hw ua nonblock user iov env d = Some (int i, env, d') \<and>
    i \<notin> own \<and> k \<notin> lown \<and> nic_inv d' (insert i own) (insert k lown) rown \<and> \<not> sp_mutex (long_tx_port d') \<and> dev_api d' = dev' \<and>
    Suc (swq_free (rdma_queue d')) = swq_free (rdma_queue d) \<and> Suc (swq_free (long_tx_queue d')) = swq_free (long_tx_queue d) \<and>
    long_mem d' = mem_store (long_mem d) (lm_payload (long_desc d k)) (gather_bytes (view (user_mem d)) iov) \<and>
    (\<forall>(e :: ('d, 'u) drvdata) ownE lownE rownE ack ks old. nic_inv e ownE lownE rownE \<longrightarrow> i \<in> ownE \<longrightarrow> rdma_slot e i = rdma_slot d' i \<longrightarrow>
      fifo (dev_api e) = ack # ks \<longrightarrow> positive_ack (of_nat i) (dh_node user) ack \<longrightarrow> (\<forall>x \<in> set ks. ack_sane x) \<longrightarrow>
      (\<exists>e' ownE' lownE'. axiom_rdma_rx_dequeue hw old e = Some e' \<and> nic_inv e' ownE' lownE' rownE \<and> ownE' \<subseteq> ownE - {i} \<and>
         lownE' \<subseteq> lownE - {k} \<and> fifo (dev_api e') = []))"
proof -
  let ?i = "rdma_next d" and ?k = "long_next d"
  from assms(3) have inv: "rdma_inv d own" "callbacks_inv d own lown" "long_inv d rown" "\<not> sp_mutex (rdma_port d)"
    by (simp_all add: nic_inv_def)
  from long_send_lemma [OF assms(2) inv(1,2,4) assms(4-12), of nonblock env] obtain d' where
    d': "axiomnet_long_send hw ua nonblock user iov env d = Some (int ?i, env, d')" "rdma_inv d' (insert ?i own)"
      "callbacks_inv d' (insert ?i own) (insert ?k lown)" "?i \<notin> own" "?k \<notin> lown" "rs_callback (rdma_slot d' ?i) = Some (of_nat ?k)"
      "\<not> rs_ack_waiting (rdma_slot d' ?i)" "\<not> sp_mutex (rdma_port d')" "\<not> sp_mutex (long_tx_port d')" "dev_api d' = dev'"
      "long_mem d' = mem_store (long_mem d) (lm_payload (long_desc d ?k)) (gather_bytes (view (user_mem d)) iov)"
      "Suc (swq_free (rdma_queue d')) = swq_free (rdma_queue d)" "Suc (swq_free (long_tx_queue d')) = swq_free (long_tx_queue d)"
      "dh_node (rs_header (rdma_slot d' ?i)) = dh_node user"
    and fr: "d' = d\<lparr>dev_api := dev_api d', rdma_queue := rdma_queue d', long_tx_queue := long_tx_queue d', long_mem := long_mem d',
      dd_stats := dd_stats d'\<rparr>" by blast
  have "long_rx_queue d' = long_rx_queue d" "long_rx_ports d' = long_rx_ports d" by (subst fr, simp)+
  then have n: "nic_inv d' (insert ?i own) (insert ?k lown) rown" using d'(2,3,8) inv(3) by (simp add: nic_inv_def long_inv_def)
  from rdma_pop [OF inv(1) assms(5)] have i: "?i < 256" by blast
  from inv(2) obtain lfs lds where "swq_rep (long_tx_queue d) lfs [] lown lds" by (auto simp: callbacks_inv_def)
  from long_tx_take [OF this assms(6)] have k: "sint (of_nat ?k :: s16) = int ?k" by blast
  have "\<exists>e' ownE' lownE'. axiom_rdma_rx_dequeue hw old e = Some e' \<and> nic_inv e' ownE' lownE' rownE \<and> ownE' \<subseteq> ownE - {?i} \<and>
      lownE' \<subseteq> lownE - {?k} \<and> fifo (dev_api e') = []"
    if e: "nic_inv e ownE lownE rownE" "?i \<in> ownE" "rdma_slot e ?i = rdma_slot d' ?i" "fifo (dev_api e) = ack # ks"
      "positive_ack (of_nat ?i) (dh_node user) ack" "\<forall>x \<in> set ks. ack_sane x" for e :: "('d, 'u) drvdata" and ownE lownE rownE ack ks old
    by (rule rdma_device.worker_frees [OF assms(1) e(1,2) i _ _ k e(4) _ e(6)]) (use e(3,5) d'(6,7,14) in simp_all)
  with d'(1,4,5,9-13) n show ?thesis by (intro exI [of _ ?i] exI [of _ ?k] exI [of _ d']) blast
qed

text \<open>The first message of a driver with two free buffers, and its acknowledgement from node 2.\<close>

theorem long_request_lifecycle_witness:
  "\<exists>i d' e'. axiomnet_long_send demo_hw umem_ua True (demo_long_hdr 2) [\<lparr>iov_base = 4096, iov_len = 16\<rparr>] [] demo_d = Some (int i, [], d') \<and>
     axiom_rdma_rx_dequeue demo_hw rdma_hdr_zero (d'\<lparr>dev_api := demo_v\<lparr>dv_rdma_rx := [(demo_ack 0)\<lparr>dh_msg_id := of_nat i\<rparr>]\<rparr>\<rparr>) = Some e' \<and>
     nic_inv e' {} {} {}"
proof -
  let ?iov = "[\<lparr>iov_base = 4096, iov_len = 16\<rparr>] :: iovec list" and ?u = "demo_long_hdr 2"
  have a: "\<not> sp_mutex (long_tx_port demo_d)" "swq_free (rdma_queue demo_d) \<noteq> 0" "swq_free (long_tx_queue demo_d) \<noteq> 0"
    using demo_rdma_free demo_long_next by (simp_all add: demo_d_def demo_port_def)
  have "unat (dh_payload_size ?u) = 16" "dh_node ?u = 2" by (simp_all add: demo_long_hdr_def demo_rdma_h_def)
  then have u: "unat (dh_payload_size ?u) \<le> AXIOM_LONG_PAYLOAD_MAX_SIZE"
    "gather_ok umem_ua (user_mem demo_d) (lm_payload (long_desc demo_d (long_next demo_d))) (unat (dh_payload_size ?u)) ?iov"
    "rdma_valid demo_d (long_tx_header ?u (lm_header (long_desc demo_d (long_next demo_d))))"
    unfolding demo_long_next by (simp_all add: demo_d_def demo_long_msg_def umem_ua_def readable_def umem_read_numeral copy_aligned_def
      odd_part_def rdma_valid_def long_tx_header_def rdma_hdr_zero_def)
  have t: "hw_rdma_tx_avail demo_hw (dev_api demo_d) = (1, dev_api demo_d)" "(1 :: u32) \<noteq> 0" by (simp_all add: demo_rdma_tx)
  have x: "hw_rdma_tx demo_hw (dev_api demo_d) (rdma_tx_header i h) = Some (i, rdma_tx_header i h,
      (dev_api demo_d)\<lparr>dv_rdma_tx := dv_rdma_tx (dev_api demo_d) @ [rdma_tx_header i h]\<rparr>)" for i h by (simp add: demo_rdma_tx)
  from long_request_lifecycle [OF demo_rdma_device umem_ua_spec demo_nic_inv a u(1-3) t x, of True "[]"] obtain i k d' where
    d': "axiomnet_long_send demo_hw umem_ua True ?u ?iov [] demo_d = Some (int i, [], d')" "nic_inv d' {i} {k} {}"
    and frees: "\<And>(e :: (demo_dev, u64 \<Rightarrow> u8 option) drvdata) ownE lownE rownE ack ks old. nic_inv e ownE lownE rownE \<Longrightarrow> i \<in> ownE \<Longrightarrow> rdma_slot e i = rdma_slot d' i \<Longrightarrow>
      dv_rdma_rx (dev_api e) = ack # ks \<Longrightarrow> positive_ack (of_nat i) (dh_node ?u) ack \<Longrightarrow> \<forall>x \<in> set ks. ack_sane x \<Longrightarrow>
      \<exists>e' ownE' lownE'. axiom_rdma_rx_dequeue demo_hw old e = Some e' \<and> nic_inv e' ownE' lownE' rownE \<and> ownE' \<subseteq> ownE - {i} \<and>
         lownE' \<subseteq> lownE - {k} \<and> dv_rdma_rx (dev_api e') = []"
    by (elim exE conjE) (rule that; blast)
  let ?ack = "(demo_ack 0)\<lparr>dh_msg_id := of_nat i\<rparr>"
  let ?e = "d'\<lparr>dev_api := demo_v\<lparr>dv_rdma_rx := [?ack]\<rparr>\<rparr>"
  have "nic_inv ?e {i} {k} {}" by (rule nic_inv_cong [OF d'(2)]) (use d'(2) in \<open>simp_all add: nic_inv_def long_inv_def\<close>)
  moreover have "rdma_slot ?e i = rdma_slot d' i" by (simp add: rdma_slot_def)
  moreover have "positive_ack (of_nat i) (dh_node ?u) ?ack"
    by (simp add: positive_ack_def demo_ack_def demo_long_hdr_def demo_rdma_h_def)
  ultimately obtain e' ownE' lownE' where "axiom_rdma_rx_dequeue demo_hw rdma_hdr_zero ?e = Some e'" "nic_inv e' ownE' lownE' {}"
    "ownE' \<subseteq> {i} - {i}" "lownE' \<subseteq> {k} - {k}" using frees [of ?e "{i}" "{k}" "{}" ?ack "[]" rdma_hdr_zero] by auto
  with d'(1) show ?thesis by auto
qed

end
