(* ===== verification/LongNodes.thy ===== *)
theory LongNodes
  imports TwoNodes
begin

text \<open>
  LONG messages between two nodes: \<open>axiom_send_long\<close> on one, \<open>axiom_recv_long\<close> on the other. The payload does not pass through the
  FIFO: it is stored in a transmit buffer, the FPGA moves it to a receive buffer of the other node, and only the
  descriptor is queued there.
\<close>

section \<open>What the receive worker leaves alone\<close>

text \<open>The memories, the buffer table and the mutexes of the ports.\<close>

definition kept :: "('d, 'u) drvdata \<Rightarrow> 'u \<times> (u64 \<Rightarrow> u8) \<times> long_buf_lut list \<times> u64 \<times> u64 \<times> bool list" where
  "kept d = (user_mem d, long_mem d, long_rxbuf_lut d, rdma_size d, long_vaddr d, map sp_mutex (long_rx_ports d))"

lemma kept_wake_up: "wake_up sel d = Some d' \<Longrightarrow> kept d' = kept d"
  by (cases sel) (auto simp: wake_up_def kept_def bind_eq_Some arr_get_def arr_set_def map_mutex_wake split: if_splits)

lemma kept_rdma_mutex: "mutex_lock RdmaTx d = Some d' \<Longrightarrow> kept d' = kept d" "mutex_unlock RdmaTx d = Some d' \<Longrightarrow> kept d' = kept d"
  by (auto simp: mutex_lock_def mutex_unlock_def kept_def split: if_splits)

lemma kept_set_status: "set_status i rs d = Some d' \<Longrightarrow> kept d' = kept d"
  by (auto simp: set_status_def bind_eq_Some kept_def)

lemma kept_update [simp]:
  "kept (d\<lparr>dev_api := v\<rparr>) = kept d" "kept (d\<lparr>rdma_queue := q\<rparr>) = kept d" "kept (d\<lparr>long_tx_queue := lq\<rparr>) = kept d"
  "kept (d\<lparr>long_rx_queue := lq\<rparr>) = kept d" "kept (inc_stat k d) = kept d" "kept (add_stat k n d) = kept d"
  by (simp_all add: kept_def inc_stat_def add_stat_def)

definition keeps :: "('d, 'u) drvdata \<Rightarrow> ('d, 'u) drvdata option \<Rightarrow> bool" where
  "keeps d m \<longleftrightarrow> (\<forall>d'. m = Some d' \<longrightarrow> kept d' = kept d)"

lemma keeps_rules:
  "(\<And>x. m = Some x \<Longrightarrow> keeps d (f x)) \<Longrightarrow> keeps d (m \<bind> f)"
  "(\<And>x. x = e \<Longrightarrow> keeps d (f x)) \<Longrightarrow> keeps d (Let e f)"
  "(b \<Longrightarrow> keeps d x) \<Longrightarrow> (\<not> b \<Longrightarrow> keeps d y) \<Longrightarrow> keeps d (if b then x else y)"
  "(\<And>x y. p = (x, y) \<Longrightarrow> keeps d (g x y)) \<Longrightarrow> keeps d (case p of (x, y) \<Rightarrow> g x y)"
  "kept d' = kept d \<Longrightarrow> keeps d (Some d')"
  by (auto simp: keeps_def bind_eq_Some split: prod.splits)

lemma kept_retry: "rdma_retry hw i d = Some (b, d') \<Longrightarrow> kept d' = kept d"
  by (auto simp: rdma_retry_def bind_eq_Some dest!: kept_rdma_mutex kept_set_status)

lemma kept_callback: "axiomnet_long_callback s d = Some d' \<Longrightarrow> kept d' = kept d"
  by (auto simp: axiomnet_long_callback_def bind_eq_Some dest!: kept_wake_up)

lemma kept_complete: "rdma_complete i d = Some d' \<Longrightarrow> kept d' = kept d"
  by (auto simp: rdma_complete_def bind_eq_Some Let_def split: if_splits option.splits
      dest!: kept_wake_up kept_set_status kept_callback)

lemma kept_ack: "rdma_rx_ack hw i h d = Some d' \<Longrightarrow> kept d' = kept d"
  by (auto simp: rdma_rx_ack_def bind_eq_Some Let_def split: if_splits dest!: kept_retry kept_complete)

lemma kept_long: "rdma_rx_long h d = Some d' \<Longrightarrow> kept d' = kept d"
proof -
  have "keeps d (rdma_rx_long h d)" unfolding rdma_rx_long_def
    by (intro keeps_rules) (auto split: if_splits dest: kept_wake_up)
  then show "rdma_rx_long h d = Some d' \<Longrightarrow> kept d' = kept d" by (simp add: keeps_def)
qed

lemma kept_body: "rdma_rx_body hw old d = Some (h, d') \<Longrightarrow> kept d' = kept d"
  by (auto simp: rdma_rx_body_def Let_def bind_eq_Some split: if_splits dest!: kept_ack kept_long)

lemma kept_dequeue: "axiom_rdma_rx_dequeue hw old d = Some d' \<Longrightarrow> kept d' = kept d"
proof (induct rule: axiom_rdma_rx_dequeue.raw_induct [rotated, consumes 1, case_names 1])
  case (1 w hw old d y)
  then show ?case
    by (auto simp: axiomnet_rdma_rx_work_todo_def bind_eq_Some split: if_splits prod.splits dest!: kept_body)
qed

section \<open>The zone of the LONG buffers\<close>

text \<open>
  The 64 buffers of 64 KiB lie behind the memory for RDMA, 32 for reception and 32 for transmission. The network and the driver
  name them differently: a request has offsets in the zone the NIC serves, the driver its own mapping.
\<close>

definition zone_vaddr :: "('d, 'u) drvdata \<Rightarrow> u32 \<Rightarrow> u64" where
  "zone_vaddr d a = long_vaddr d + (ucast a - rdma_size d)"

definition buf_offset :: "('d, 'u) drvdata \<Rightarrow> nat \<Rightarrow> nat" where
  "buf_offset d i = unat (rdma_size d) + i * 65536"

definition long_zone :: "('d, 'u) drvdata \<Rightarrow> bool" where
  "long_zone d \<longleftrightarrow> 8 dvd unat (rdma_size d) \<and> buf_offset d 64 \<le> 2 ^ 32 \<and> length (long_rxbuf_lut d) = 32 \<and>
     (\<forall>i < 32. lb_address (lut_buf_hw (long_rxbuf_lut d ! i)) = of_nat (buf_offset d i) \<and>
        lut_buf_sw (long_rxbuf_lut d ! i) = long_vaddr d + of_nat (i * 65536)) \<and>
     (\<exists>ds. sq_desc (long_tx_queue d) = Some ds \<and> length ds = 32 \<and>
        (\<forall>i < 32. tx_src_addr (lm_header (ds ! i)) = of_nat (buf_offset d (32 + i)) \<and> tx_dst_addr (lm_header (ds ! i)) AND 7 = 0 \<and>
           lm_payload (ds ! i) = long_vaddr d + of_nat ((32 + i) * 65536)))"

lemma zone_buffer:
  assumes "long_zone d" "i < 64"
  shows "unat (of_nat (buf_offset d i) :: u32) = buf_offset d i"
    and "zone_vaddr d (of_nat (buf_offset d i)) = long_vaddr d + of_nat (i * 65536)"
    and "(of_nat (buf_offset d i) :: u32) AND 7 = 0"
proof -
  from assms have b: "buf_offset d i < 2 ^ 32" by (simp add: long_zone_def buf_offset_def)
  then show u: "unat (of_nat (buf_offset d i) :: u32) = buf_offset d i"
    by (simp add: unsigned_of_nat take_bit_nat_eq_self)
  have "(ucast (of_nat (buf_offset d i) :: u32) :: u64) = of_nat (buf_offset d i)"
    using b by (intro word_unat_eq_iff [THEN iffD2]) (simp add: unsigned_ucast_eq unsigned_of_nat take_bit_nat_eq_self)
  then show "zone_vaddr d (of_nat (buf_offset d i)) = long_vaddr d + of_nat (i * 65536)"
    by (simp add: zone_vaddr_def buf_offset_def)
  have "8 dvd buf_offset d i" using assms by (simp add: long_zone_def buf_offset_def)
  then have "unat (take_bit 3 (of_nat (buf_offset d i) :: u32)) = 0"
    by (simp add: unsigned_take_bit_eq u) (simp add: take_bit_eq_mod)
  moreover have "(7 :: u32) = mask 3" by (simp add: mask_eq_exp_minus_1)
  ultimately show "(of_nat (buf_offset d i) :: u32) AND 7 = 0"
    by (metis take_bit_eq_mask unat_eq_zero)
qed

lemma zone_rx:
  assumes "long_zone d" "l \<in> set (long_rxbuf_lut d)"
  shows "axiomnet_long_rdma2buf d (lb_address (lut_buf_hw l)) = Some (Some l)"
    and "zone_vaddr d (lb_address (lut_buf_hw l)) = lut_buf_sw l"
proof -
  from assms obtain i where i: "i < 32" "l = long_rxbuf_lut d ! i" by (auto simp: long_zone_def in_set_conv_nth)
  then have a: "lb_address (lut_buf_hw l) = of_nat (buf_offset d i)" and s: "lut_buf_sw l = long_vaddr d + of_nat (i * 65536)"
    using assms(1) by (auto simp: long_zone_def)
  from zone_buffer(1,2) [OF assms(1), of i] i(1) have
    u: "unat (lb_address (lut_buf_hw l)) = buf_offset d i" "zone_vaddr d (lb_address (lut_buf_hw l)) = lut_buf_sw l" by (simp_all add: a s)
  from u(2) show "zone_vaddr d (lb_address (lut_buf_hw l)) = lut_buf_sw l" .
  have "unat (rdma_size d) \<le> 2 ^ 32" "length (long_rxbuf_lut d) = 32" using assms(1) by (simp_all add: long_zone_def buf_offset_def)
  then show "axiomnet_long_rdma2buf d (lb_address (lut_buf_hw l)) = Some (Some l)"
    using i(1) by (subst long_rdma2buf_lemma) (simp_all add: u(1) buf_offset_def i(2) [symmetric])
qed

lemma zone_tx:
  assumes "long_zone d" "sq_desc (long_tx_queue d) = Some ds" "i < length ds"
  shows "zone_vaddr d (tx_src_addr (lm_header (ds ! i))) = lm_payload (ds ! i)" "tx_src_addr (lm_header (ds ! i)) AND 7 = 0"
    "tx_dst_addr (lm_header (ds ! i)) AND 7 = 0"
  using assms zone_buffer(2,3) [of d "32 + i"] by (auto simp: long_zone_def)

lemma long_zone_write:
  assumes "long_zone d" "sq_desc (long_tx_queue d) = Some ds" "sq_desc (long_tx_queue d') = Some (ds[i := (ds ! i)\<lparr>lm_header := h\<rparr>])"
    and "dh_addr0 h = dh_addr0 (lm_header (ds ! i))" "dh_addr1 h = dh_addr1 (lm_header (ds ! i))"
    and "rdma_size d' = rdma_size d" "long_vaddr d' = long_vaddr d" "long_rxbuf_lut d' = long_rxbuf_lut d"
  shows "long_zone d'"
proof -
  have "lm_payload (ds[i := (ds ! i)\<lparr>lm_header := h\<rparr>] ! j) = lm_payload (ds ! j)"
    "dh_addr0 (lm_header (ds[i := (ds ! i)\<lparr>lm_header := h\<rparr>] ! j)) = dh_addr0 (lm_header (ds ! j))"
    "dh_addr1 (lm_header (ds[i := (ds ! i)\<lparr>lm_header := h\<rparr>] ! j)) = dh_addr1 (lm_header (ds ! j))" if "j < length ds" for j
    using assms(4,5) that by (cases "j = i"; simp)+
  then show ?thesis using assms by (simp add: long_zone_def buf_offset_def)
qed

lemma mem_load_store: "length bs < 2 ^ 64 \<Longrightarrow> mem_load (mem_store m a bs) a (length bs) = bs"
  by (rule nth_equalityI) (simp_all add: mem_load_def mem_store_def unsigned_of_nat take_bit_nat_eq_self Let_def)

section \<open>A descriptor on the wire\<close>

lemma word_bytes_split:
  assumes "length bs = 16"
  shows "word_bytes [le_word (take 8 bs), le_word (drop 8 bs)] = bs"
proof -
  have "le_bytes 8 (le_word (take 8 bs) :: u64) = take 8 bs" "le_bytes 8 (le_word (drop 8 bs) :: u64) = drop 8 bs"
    using assms by (intro le_bytes_le_word; simp)+
  then show ?thesis by (simp add: word_bytes_def)
qed

context axi_nic begin

lemma rdma_tx_wire:
  assumes "pend (ad_hw v) (ar_fifo_rdma_tx r) = []"
  shows "\<exists>v' ws. axiom_hw_rdma_tx mm r v hdr = Some (dh_msg_id hdr, hdr\<lparr>dh_port_type := set_pt_s 0 (dh_port_type hdr)\<rparr>, v') \<and>
    sent (ad_hw v') (ar_fifo_rdma_tx r) = sent (ad_hw v) (ar_fifo_rdma_tx r) @ [ws] \<and>
    rdma_of_words ws = hdr\<lparr>dh_port_type := set_pt_s 0 (dh_port_type hdr)\<rparr> \<and> rx (ad_hw v') = rx (ad_hw v)"
proof -
  let ?f = "ar_fifo_rdma_tx r" and ?h = "hdr\<lparr>dh_port_type := set_pt_s 0 (dh_port_type hdr)\<rparr>"
  from wait_vacancy_ends [of ?f 16 "ad_hw v"] obtain h1 where h1: "wait_vacancy mm ?f 16 (ad_hw v) = Some h1"
    "rx h1 = rx (ad_hw v)" "sent h1 = sent (ad_hw v)" "pend h1 = pend (ad_hw v)" by auto
  let ?w0 = "le_word (take 8 (rdma_hdr_bytes ?h))" and ?w1 = "le_word (drop 8 (rdma_hdr_bytes ?h))"
  let ?h3 = "axi_fifo_write64 mm ?f ?w1 (axi_fifo_write64 mm ?f ?w0 h1)"
  have p: "pend ?h3 ?f = [?w0, ?w1]" "sent ?h3 = sent (ad_hw v)" "rx ?h3 = rx (ad_hw v)"
    using write64 [of ?f] h1 assms by simp_all
  have "(16 :: u32) = of_nat (8 * length (pend ?h3 ?f))" unfolding p(1) by simp
  from setlen(2) [OF _ this] setlen(1) [of ?f 16 ?h3] p have
    "sent (axi_fifo_tx_setlen mm ?f 16 ?h3) ?f = sent (ad_hw v) ?f @ [[?w0, ?w1]]" "rx (axi_fifo_tx_setlen mm ?f 16 ?h3) = rx (ad_hw v)"
    by simp_all
  moreover have "rdma_of_words [?w0, ?w1] = ?h" by (simp add: rdma_of_words_def word_bytes_split)
  moreover have "axiom_hw_rdma_tx mm r v hdr = Some (dh_msg_id hdr, ?h, v\<lparr>ad_hw := axi_fifo_tx_setlen mm ?f 16 ?h3\<rparr>)"
    using h1(1) by (simp add: axiom_hw_rdma_tx_def Let_def)
  ultimately show ?thesis by (intro exI [of _ "v\<lparr>ad_hw := axi_fifo_tx_setlen mm ?f 16 ?h3\<rparr>"] exI [of _ "[?w0, ?w1]"]) simp
qed

end

section \<open>Processes with LONG files\<close>

definition long_process :: "'d node \<Rightarrow> axiom_dev \<Rightarrow> int \<Rightarrow> bool" where
  "long_process w v p \<longleftrightarrow> 0 < fd_long v \<and>
     (\<exists>f. file_at (fd_long v) w = Some f \<and> fd_type (of_priv f) = FDTYPE_LONG \<and> bind_port (of_priv f) = p) \<and>
     unat (sy_stack w) + 24 \<le> 2 ^ 48 \<and> readable (user_mem (sy_drv w)) (sy_stack w) 24"

definition long_buffer :: "'d node \<Rightarrow> u64 \<Rightarrow> nat \<Rightarrow> bool" where
  "long_buffer w a n \<longleftrightarrow> unat a + n \<le> 2 ^ 48 \<and> readable (user_mem (sy_drv w)) a n \<and>
     (odd_part a = AXIOM_COPY_ALIGN \<or> 8 \<le> n) \<and> apart a n (sy_stack w) 24"

lemma long_arg_fields:
  "rdma_hdr_of_bytes (long_arg h a) = h" "length (long_arg h a) = 24" "ptr_at 16 (long_arg h a) = a"
proof -
  have "rdma_hdr_of_bytes (rdma_hdr_bytes h @ x) = rdma_hdr_of_bytes (rdma_hdr_bytes h)" for x
    by (simp add: rdma_hdr_of_bytes_def nth_append)
  then show "rdma_hdr_of_bytes (long_arg h a) = h" by (simp add: long_arg_def)
  show "length (long_arg h a) = 24" "ptr_at 16 (long_arg h a) = a"
    by (simp_all add: long_arg_def ptr_at_def le_word_le_bytes)
qed

text \<open>The first system call of both directions: the argument structure, on the stack, is read back as it was put there.\<close>

lemma long_arg_copied:
  assumes "unat (sy_stack w) + 24 \<le> 2 ^ 48"
  shows "copy_struct umem_ua (umem_write m (sy_stack w) (long_arg h a)) kb (sy_stack w) 24 24 = Some (Some (long_arg h a))"
    and "umem_read (umem_write m (sy_stack w) (long_arg h a)) (sy_stack w) 24 = map Some (long_arg h a)"
proof -
  have rd: "umem_read (umem_write m (sy_stack w) (long_arg h a)) (sy_stack w) 24 = map Some (long_arg h a)"
    using umem_read_write [of "long_arg h a" m "sy_stack w"] long_arg_fields(2) [of h a] by simp
  then show "umem_read (umem_write m (sy_stack w) (long_arg h a)) (sy_stack w) 24 = map Some (long_arg h a)" .
  show "copy_struct umem_ua (umem_write m (sy_stack w) (long_arg h a)) kb (sy_stack w) 24 24 = Some (Some (long_arg h a))"
    by (rule copy_struct_ok [OF umem_ua_spec]) (use assms rd in \<open>simp_all add: umem_ua_def copy_aligned_long\<close>)
qed

section \<open>Sending\<close>

text \<open>
  A process that can send: its driver is idle, there is a route, and a request slot and a transmit buffer are free.
\<close>

definition long_sender :: "'d node \<Rightarrow> axiom_dev \<Rightarrow> u8 \<Rightarrow> nat set \<Rightarrow> nat set \<Rightarrow> nat set \<Rightarrow> bool" where
  "long_sender w v dst own lown rown \<longleftrightarrow> (\<exists>q. long_process w v q) \<and> nic_inv (sy_drv w) own lown rown \<and> long_zone (sy_drv w) \<and>
     \<not> sp_mutex (long_tx_port (sy_drv w)) \<and> swq_free (rdma_queue (sy_drv w)) \<noteq> 0 \<and> swq_free (long_tx_queue (sy_drv w)) \<noteq> 0 \<and>
     length (routing_table (sy_drv w)) = 256 \<and> routing_table (sy_drv w) ! unat dst \<noteq> 0 \<and> dst \<noteq> AXIOM_NULL_NODE"

lemma long_next_desc:
  assumes "callbacks_inv d own lown" "swq_free (long_tx_queue d) \<noteq> 0"
  obtains ds where "sq_desc (long_tx_queue d) = Some ds" "long_next d < length ds" "long_desc d (long_next d) = ds ! long_next d"
proof -
  from assms(1) obtain lfs ds where rep: "swq_rep (long_tx_queue d) lfs [] lown ds" by (auto simp: callbacks_inv_def)
  moreover from this have "sq_desc (long_tx_queue d) = Some ds" by (simp add: swq_rep_def)
  ultimately show thesis using that long_tx_take [OF rep assms(2)] by blast
qed

text \<open>The driver's part of the call, on the arm64 layer.\<close>

lemma long_send_wire:
  fixes d :: "('h arm64_dev, u64 \<Rightarrow> u8 option) drvdata"
  assumes nic: "axi_nic mm r rx cur sent pend"
    and inv: "nic_inv d own lown rown" "long_zone d" "\<not> sp_mutex (long_tx_port d)"
    and free: "swq_free (rdma_queue d) \<noteq> 0" "swq_free (long_tx_queue d) \<noteq> 0"
    and idle: "pend (ad_hw (dev_api d)) (ar_fifo_rdma_tx r) = []"
      "fst (axi_fifo_tx_vacancy mm (ar_fifo_rdma_tx r) (ad_hw (dev_api d))) \<noteq> 0"
    and user: "length (routing_table d) = 256" "routing_table d ! unat (dh_node user) \<noteq> 0" "dh_node user \<noteq> AXIOM_NULL_NODE"
      "unat (dh_payload_size user) \<le> AXIOM_LONG_PAYLOAD_MAX_SIZE"
      "\<And>kb. gather_ok umem_ua (user_mem d) kb (unat (dh_payload_size user)) iov"
    and bytes: "gather_bytes (user_mem d) iov = bytes"
  shows "\<exists>(i :: u8) d' ws own' lown'. axiomnet_long_send (arm64_hw mm r) umem_ua nonblock user iov env d = Some (uint i, env, d') \<and>
    sent (ad_hw (dev_api d')) (ar_fifo_rdma_tx r) = sent (ad_hw (dev_api d)) (ar_fifo_rdma_tx r) @ [ws] \<and>
    dh_msg_id (rdma_of_words ws) = i \<and> dh_node (rdma_of_words ws) = dh_node user \<and>
    dh_payload_size (rdma_of_words ws) = dh_payload_size user \<and>
    dh_port_type (rdma_of_words ws) = set_pt_s 0 (set_pt_error 0 (dh_port_type user)) \<and>
    mem_load (long_mem d') (zone_vaddr d' (tx_src_addr (rdma_of_words ws))) (length bytes) = bytes \<and>
    nic_inv d' own' lown' rown \<and> long_zone d' \<and> user_mem d' = user_mem d"
proof -
  let ?f = "ar_fifo_rdma_tx r" and ?k = "long_next d" and ?i = "rdma_next d"
  from inv(1) have r: "rdma_inv d own" and cb: "callbacks_inv d own lown" and li: "long_inv d rown" and mx: "\<not> sp_mutex (rdma_port d)"
    by (simp_all add: nic_inv_def)
  from long_next_desc [OF cb free(2)] obtain ds where
    ds: "sq_desc (long_tx_queue d) = Some ds" "?k < length ds" "long_desc d ?k = ds ! ?k" .
  note z = zone_tx [OF inv(2) ds(1,2)]
  let ?h = "long_tx_header user (lm_header (ds ! ?k))"
  let ?t = "rdma_tx_header (of_nat ?i) ?h"
  have hf: "dh_node ?h = dh_node user" "dh_payload_size ?h = dh_payload_size user" "dh_port_type ?h = dh_port_type user"
    "dh_addr0 ?h = dh_addr0 (lm_header (ds ! ?k))" "dh_addr1 ?h = dh_addr1 (lm_header (ds ! ?k))" by (simp_all add: long_tx_header_def)
  have tf: "?t\<lparr>dh_port_type := set_pt_s 0 (dh_port_type ?t)\<rparr> = ?t" by (simp add: rdma_tx_header_def set_pt_s_def and.assoc)
  obtain n h1 where v: "axi_fifo_tx_vacancy mm ?f (ad_hw (dev_api d)) = (n, h1)" by fastforce
  from axi_nic.vacancy [OF nic _ v] have h1: "sent h1 = sent (ad_hw (dev_api d))" "pend h1 = pend (ad_hw (dev_api d))" by auto
  let ?x = "(dev_api d)\<lparr>ad_hw := h1\<rparr>"
  have "pend (ad_hw ?x) ?f = []" using h1(2) idle(1) by simp
  from axi_nic.rdma_tx_wire [OF nic this, of ?t] tf obtain x' ws where
    tx: "axiom_hw_rdma_tx mm r ?x ?t = Some (of_nat ?i, ?t, x')" "sent (ad_hw x') ?f = sent (ad_hw ?x) ?f @ [ws]" "rdma_of_words ws = ?t"
    by auto
  have val: "rdma_valid d ?h" using user z(2,3) by (simp add: rdma_valid_def hf)
  have av: "hw_rdma_tx_avail (arm64_hw mm r) (dev_api d) = (n, ?x)" "n \<noteq> 0" using v idle(2)
    by (simp_all add: arm64_hw_def axiom_hw_rdma_tx_avail_def on_hw_def)
  have "hw_rdma_tx (arm64_hw mm r) ?x ?t = Some (of_nat ?i, ?t, x')" using tx(1) by (simp add: arm64_hw_def)
  from long_send_lemma [OF umem_ua_spec r cb mx inv(3) free user(4) user(5), unfolded ds(3), OF val av this, of nonblock env] obtain d' where
    d': "axiomnet_long_send (arm64_hw mm r) umem_ua nonblock user iov env d = Some (int ?i, env, d')"
      "rdma_inv d' (insert ?i own)" "callbacks_inv d' (insert ?i own) (insert ?k lown)" "\<not> sp_mutex (rdma_port d')"
      "dev_api d' = x'" "long_mem d' = mem_store (long_mem d) (lm_payload (ds ! ?k)) bytes"
    and fr: "d' = d\<lparr>dev_api := dev_api d', rdma_queue := rdma_queue d', long_tx_queue := long_tx_queue d', long_mem := long_mem d',
        dd_stats := dd_stats d'\<rparr>"
    and "\<exists>ds0 h'. sq_desc (long_tx_queue d) = Some ds0 \<and> dh_addr0 h' = dh_addr0 (lm_header (ds0 ! ?k)) \<and>
       dh_addr1 h' = dh_addr1 (lm_header (ds0 ! ?k)) \<and>
       sq_desc (long_tx_queue d') = Some (ds0[?k := (ds0 ! ?k)\<lparr>lm_header := h'\<rparr>])" unfolding bytes by blast
  then obtain h' where h': "dh_addr0 h' = dh_addr0 (lm_header (ds ! ?k))" "dh_addr1 h' = dh_addr1 (lm_header (ds ! ?k))"
    "sq_desc (long_tx_queue d') = Some (ds[?k := (ds ! ?k)\<lparr>lm_header := h'\<rparr>])" using ds(1) by auto
  have same: "rdma_size d' = rdma_size d" "long_vaddr d' = long_vaddr d" "long_rxbuf_lut d' = long_rxbuf_lut d"
    "long_rx_queue d' = long_rx_queue d" "long_rx_ports d' = long_rx_ports d" "user_mem d' = user_mem d" by (subst fr, simp)+
  have "long_zone d'" by (rule long_zone_write [OF inv(2) ds(1) h'(3,1,2) same(1-3)])
  moreover have "nic_inv d' (insert ?i own) (insert ?k lown) rown"
    using d'(2-4) li long_inv_same [OF same(4,5)] by (simp add: nic_inv_def)
  moreover have "length bytes < 2 ^ 64" using length_gather_bytes [OF user(5)] user(4) unfolding bytes by simp
  then have "mem_load (long_mem d') (zone_vaddr d' (tx_src_addr ?t)) (length bytes) = bytes"
    using z(1) same by (simp add: d'(6) zone_vaddr_def rdma_tx_header_def hf mem_load_store)
  moreover from rdma_pop [OF r free(1)] have "?i < 256" by blast
  then have "uint (of_nat ?i :: u8) = int ?i" by (simp add: unsigned_of_nat take_bit_nat_eq_self)
  moreover have "sent (ad_hw (dev_api d')) ?f = sent (ad_hw (dev_api d)) ?f @ [ws]" using tx(2) h1(1) d'(5) by simp
  moreover have "dh_msg_id ?t = of_nat ?i" "dh_node ?t = dh_node user" "dh_payload_size ?t = dh_payload_size user"
    "dh_port_type ?t = set_pt_s 0 (set_pt_error 0 (dh_port_type user))" by (simp_all add: rdma_tx_header_def hf)
  ultimately show ?thesis using d'(1) same(6) tx(3)
    by (intro exI [of _ "of_nat ?i"] exI [of _ d'] exI [of _ ws] exI [of _ "insert ?i own"] exI [of _ "insert ?k lown"]) simp
qed

text \<open>The fields the library puts in the header.\<close>

lemma long_prepare_fields:
  assumes "unat psz \<le> 65528" "unat port < 8" "h = snd (axiom_send_long_prepare h0 dst port psz)"
  shows "axiom_send_long_prepare h0 dst port psz = (0, h)" "dh_node h = dst" "dh_payload_size h = psz"
    "pt_port (dh_port_type h) = port" "pt_type (dh_port_type h) = AXIOM_TYPE_LONG_DATA"
  using assms port_mask [OF assms(2)] by (simp_all add: axiom_send_long_prepare_def)

lemma long_message_sent:
  assumes nic: "axi_nic mm r rx cur sent pend" "k_hw k = arm64_hw mm r"
    and idle: "long_sender a v dst own lown rown"
      "pend (ad_hw (dev_api (sy_drv a))) (ar_fifo_rdma_tx r) = []"
      "fst (axi_fifo_tx_vacancy mm (ar_fifo_rdma_tx r) (ad_hw (dev_api (sy_drv a)))) \<noteq> 0"
    and msg: "unat psz \<le> 65528" "unat port < 8" "long_buffer a buf (unat psz)"
      "umem_read (user_mem (sy_drv a)) buf (unat psz) = map Some bytes"
  shows "\<exists>(i :: u8) a' ws hdr own' lown'. axiom_send_long (node_os k) junk (Some v) dst port psz buf a = Some (uint i, a') \<and>
    sent (ad_hw (dev_api (sy_drv a'))) (ar_fifo_rdma_tx r) = sent (ad_hw (dev_api (sy_drv a))) (ar_fifo_rdma_tx r) @ [ws] \<and>
    rdma_of_words ws = hdr \<and> dh_msg_id hdr = i \<and> dh_node hdr = dst \<and> pt_port (dh_port_type hdr) = port \<and>
    pt_type (dh_port_type hdr) = AXIOM_TYPE_LONG_DATA \<and> pt_s (dh_port_type hdr) = 0 \<and> dh_payload_size hdr = psz \<and>
    mem_load (long_mem (sy_drv a')) (zone_vaddr (sy_drv a') (tx_src_addr hdr)) (unat psz) = bytes \<and>
    nic_inv (sy_drv a') own' lown' rown \<and> long_zone (sy_drv a')"
proof -
  define h where "h = snd (axiom_send_long_prepare (rdma_hdr_of_bytes junk) dst port psz)"
  note hf = long_prepare_fields [OF msg(1,2) h_def]
  from idle(1) obtain q where proc: "long_process a v q" and inv: "nic_inv (sy_drv a) own lown rown" "long_zone (sy_drv a)"
    and free: "\<not> sp_mutex (long_tx_port (sy_drv a))" "swq_free (rdma_queue (sy_drv a)) \<noteq> 0" "swq_free (long_tx_queue (sy_drv a)) \<noteq> 0"
    and rt: "length (routing_table (sy_drv a)) = 256" "routing_table (sy_drv a) ! unat dst \<noteq> 0" "dst \<noteq> AXIOM_NULL_NODE"
    by (auto simp: long_sender_def)
  from proc obtain f where f: "0 < fd_long v" "file_at (fd_long v) a = Some f" "fd_type (of_priv f) = FDTYPE_LONG"
    and st: "unat (sy_stack a) + 24 \<le> 2 ^ 48" by (auto simp: long_process_def)
  let ?arg = "long_arg h buf" and ?nb = "of_flags f AND O_NONBLOCK \<noteq> 0"
  let ?m = "umem_write (user_mem (sy_drv a)) (sy_stack a) ?arg"
  let ?d = "(sy_drv a)\<lparr>user_mem := ?m\<rparr>"
  let ?iov = "[\<lparr>iov_base = buf, iov_len = ucast psz\<rparr>] :: iovec list"
  have n: "unat (ucast psz :: u64) = unat psz" using msg(1) by (simp add: unsigned_ucast_eq take_bit_nat_eq_self)
  have rdp: "umem_read ?m buf (unat psz) = map Some bytes"
    using umem_read_write_apart [of buf "unat psz" "sy_stack a" ?arg] msg(3,4) by (simp add: long_buffer_def long_arg_fields(2))
  then have gb: "gather_bytes (user_mem ?d) ?iov = bytes" using n by (simp add: comp_def)
  have "readable ?m buf (unat psz)" using rdp by (auto simp: readable_def)
  moreover have "copy_aligned kb buf (ucast psz)" for kb
    using buffer_aligned(1) [of buf "unat psz" kb] msg(1,3) by (simp add: long_buffer_def)
  ultimately have g: "gather_ok umem_ua (user_mem ?d) kb (unat (dh_payload_size h)) ?iov" for kb
    using msg(3) n hf(3) by (simp add: long_buffer_def umem_ua_def)
  have inv': "nic_inv ?d own lown rown" by (rule nic_inv_cong [OF inv(1)]) (use inv(1) in \<open>simp_all add: nic_inv_def long_inv_def\<close>)
  have z': "long_zone ?d" using inv(2) by (simp add: long_zone_def buf_offset_def)
  have "\<exists>(i :: u8) d' ws own' lown'. axiomnet_long_send (arm64_hw mm r) umem_ua ?nb h ?iov (sy_env a) ?d = Some (uint i, sy_env a, d') \<and>
    sent (ad_hw (dev_api d')) (ar_fifo_rdma_tx r) = sent (ad_hw (dev_api ?d)) (ar_fifo_rdma_tx r) @ [ws] \<and>
    dh_msg_id (rdma_of_words ws) = i \<and> dh_node (rdma_of_words ws) = dh_node h \<and>
    dh_payload_size (rdma_of_words ws) = dh_payload_size h \<and>
    dh_port_type (rdma_of_words ws) = set_pt_s 0 (set_pt_error 0 (dh_port_type h)) \<and>
    mem_load (long_mem d') (zone_vaddr d' (tx_src_addr (rdma_of_words ws))) (length bytes) = bytes \<and>
    nic_inv d' own' lown' rown \<and> long_zone d' \<and> user_mem d' = user_mem ?d"
    by (rule long_send_wire [OF nic(1) inv' z' _ _ _ _ _ _ _ _ _ g gb])
      (use free idle(2,3) rt hf msg(1) in simp_all)
  then obtain i d' ws own' lown' where d': "axiomnet_long_send (arm64_hw mm r) umem_ua ?nb h ?iov (sy_env a) ?d = Some (uint (i :: u8), sy_env a, d')"
    "sent (ad_hw (dev_api d')) (ar_fifo_rdma_tx r) = sent (ad_hw (dev_api ?d)) (ar_fifo_rdma_tx r) @ [ws]"
    "dh_msg_id (rdma_of_words ws) = i" "dh_node (rdma_of_words ws) = dh_node h" "dh_payload_size (rdma_of_words ws) = dh_payload_size h"
    "dh_port_type (rdma_of_words ws) = set_pt_s 0 (set_pt_error 0 (dh_port_type h))"
    "mem_load (long_mem d') (zone_vaddr d' (tx_src_addr (rdma_of_words ws))) (length bytes) = bytes"
    "nic_inv d' own' lown' rown" "long_zone d'" "user_mem d' = user_mem ?d" by blast
  note cp = long_arg_copied [OF st, of "user_mem (sy_drv a)" h buf]
  have io: "axiomnet_ioctl_long (k_hw k) umem_ua (k_loc k) ?nb AXNET_SEND_LONG (sy_stack a) (of_priv f) (sy_env a) ?d =
      Some (uint i, of_priv f, sy_env a, d')"
    using cp(1) d'(1) hf(3) nic(2) by (simp add: axiomnet_ioctl_long_def long_arg_fields)
  have rb: "umem_read (user_mem d') (sy_stack a) (length ?arg) = map Some ?arg" using cp(2) d'(10) by (simp add: long_arg_fields(2))
  have "uint i < 2 ^ LENGTH(8)" by (rule uint_lt2p)
  then have i: "0 \<le> uint i" "uint i < 2 ^ 31" by simp_all
  let ?a' = "set_file (fd_long v) (Some (f\<lparr>of_priv := of_priv f\<rparr>)) (a\<lparr>sy_drv := d', sy_env := sy_env a\<rparr>)"
  have "os_ioctl (node_os k) (fd_long v) AXNET_SEND_LONG ?arg a = Some (uint i, 0, ?arg, ?a')"
    by (rule sys_ioctl_run [OF f(2) i _ rb]) (use io f(3) in \<open>simp add: fops_ioctl_def\<close>)
  then have "axiom_send_long (node_os k) junk (Some v) dst port psz buf a = Some (uint i, ?a')"
    using f(1) hf(1) i(1) by (simp add: axiom_send_long_def opened_def)
  moreover have "length bytes = unat psz" using arg_cong [OF msg(4), of length] by simp
  ultimately show ?thesis using d' hf(2-5)
    by (intro exI [of _ i] exI [of _ ?a'] exI [of _ ws] exI [of _ "rdma_of_words ws"] exI [of _ own'] exI [of _ lown']) (simp add: set_file_def)
qed

section \<open>Receiving\<close>

text \<open>The system call: the first message of the port, from the receive buffer to the buffer of the process.\<close>

lemma ioctl_recv_long:
  fixes d :: "('d, u64 \<Rightarrow> u8 option) drvdata"
  assumes inv: "nic_inv d own lown rown" and p: "p < 7" "bind_port pr = int p" and mx: "\<not> sp_mutex (long_rx_ports d ! p)"
    and h: "long_hdrs d p = h # hs" and l: "axiomnet_long_rdma2buf d (rx_dst_addr h) = Some (Some l)"
    and cp: "copy_struct umem_ua (user_mem d) (il_buf loc) arg 24 24 = Some (Some (long_arg h0 buf))"
      "readable (user_mem d) arg 24" "ua_access_ok umem_ua arg 24"
    and size: "dh_payload_size h \<le> dh_payload_size h0"
    and sc: "scatter_ok umem_ua (user_mem d) (lut_buf_sw l) (unat (dh_payload_size h)) [\<lparr>iov_base = buf, iov_len = ucast (dh_payload_size h0)\<rparr>]"
  shows "\<exists>d'. axiomnet_ioctl_long hw umem_ua loc nonblock AXNET_RECV_LONG arg pr env d = Some (0, pr, env, d') \<and>
    nic_inv d' own lown rown \<and>
    user_mem d' = umem_write (umem_write (user_mem d) buf (mem_load (long_mem d) (lut_buf_sw l) (unat (dh_payload_size h)))) arg (long_arg h buf)"
proof -
  let ?iov = "[\<lparr>iov_base = buf, iov_len = ucast (dh_payload_size h0)\<rparr>] :: iovec list" and ?n = "unat (dh_payload_size h)"
  let ?bs = "mem_load (long_mem d) (lut_buf_sw l) ?n"
  from inv have li: "long_inv d rown" by (simp add: nic_inv_def)
  from long_recv_lemma [OF umem_ua_spec li p mx h l size sc, of hw nonblock env] obtain d1 where
    d1: "axiomnet_long_recv hw umem_ua nonblock pr h0 ?iov env d = Some (16 + uint (dh_payload_size h), h, env, d1)" "long_inv d1 rown"
      "user_mem d1 = scatter_mem (user_mem d) ?iov ?bs"
    and fr: "d1 = d\<lparr>dev_api := hw_set_long_buf hw (dev_api d) (lut_buf_id l) (lut_buf_hw l), long_rx_queue := long_rx_queue d1,
      user_mem := user_mem d1, kthread_rdma := (if swq_free (long_rx_queue d) = 0 then kthread_rdma d
        else axiom_kthread_wakeup (kthread_rdma d))\<rparr>" by blast
  have f: "rdma_queue d1 = rdma_queue d" "long_tx_queue d1 = long_tx_queue d" "rdma_port d1 = rdma_port d" by (subst fr, simp)+
  have "?n \<le> unat (dh_payload_size h0)" using size by (simp add: word_le_nat_alt)
  moreover have "unat (ucast (dh_payload_size h0) :: u64) = unat (dh_payload_size h0)"
    using unsigned_less [of "dh_payload_size h0", where ?'a = nat] by (simp add: unsigned_ucast_eq take_bit_nat_eq_self)
  moreover have "length ?bs = ?n" by (simp add: mem_load_def)
  ultimately have m1: "user_mem d1 = umem_write (user_mem d) buf ?bs" using d1(3) by simp
  let ?out = "long_arg h buf"
  have lo: "length ?out = 24" "of_nat (length ?out) = (24 :: u64)" by (simp_all add: long_arg_fields(2))
  have "readable (user_mem d1) arg (length ?out)" unfolding m1 lo using cp(2) by (rule readable_write)
  moreover have "ua_access_ok umem_ua arg (of_nat (length ?out))" "copy_aligned arg (il_buf loc) (of_nat (length ?out))"
    unfolding lo(2) by (rule cp(3), simp add: copy_aligned_long)
  ultimately obtain u where u: "put_struct umem_ua (il_buf loc) arg ?out d1 = Some (False, d1\<lparr>user_mem := u\<rparr>)"
    "u = umem_write (user_mem d1) arg ?out"
    using put_struct_ok [OF umem_ua_spec, of arg ?out d1 "il_buf loc"] lo by auto
  have "rdma_hdr_bytes h @ drop 16 (long_arg h0 buf) = ?out" by (simp add: long_arg_def)
  moreover have "\<not> 16 + uint (dh_payload_size h) < 0" using unsigned_greater_eq [of "dh_payload_size h"] by (simp add: not_less)
  ultimately have "axiomnet_ioctl_long hw umem_ua loc nonblock AXNET_RECV_LONG arg pr env d = Some (0, pr, env, d1\<lparr>user_mem := u\<rparr>)"
    using cp(1) d1(1) u(1) by (simp add: axiomnet_ioctl_long_def ioctl_long_recv_def long_arg_fields)
  moreover have "nic_inv (d1\<lparr>user_mem := u\<rparr>) own lown rown"
    by (rule nic_inv_cong [OF inv]) (use f d1(2) in \<open>simp_all add: long_inv_def\<close>)
  ultimately show ?thesis using u(2) m1 by (intro exI [of _ "d1\<lparr>user_mem := u\<rparr>"]) simp
qed

lemma axiom_recv_long_lemma:
  assumes proc: "long_process w v (int p)" "p < 7" and inv: "nic_inv (sy_drv w) own lown rown"
    and mx: "\<not> sp_mutex (long_rx_ports (sy_drv w) ! p)" and h: "long_hdrs (sy_drv w) p = h # hs"
    and l: "axiomnet_long_rdma2buf (sy_drv w) (rx_dst_addr h) = Some (Some l)"
    and size: "dh_payload_size h \<le> ro_size out" "unat (ro_size out) \<le> 65528"
    and ub: "long_buffer w buf (unat (dh_payload_size h))"
  shows "\<exists>w'. axiom_recv_long (node_os k) junk (Some v) buf out w = Some (uint (dh_msg_id h),
      out\<lparr>ro_src := dh_node h, ro_port := pt_port (dh_port_type h), ro_size := dh_payload_size h\<rparr>, w') \<and>
    umem_read (user_mem (sy_drv w')) buf (unat (dh_payload_size h)) =
      map Some (mem_load (long_mem (sy_drv w)) (lut_buf_sw l) (unat (dh_payload_size h))) \<and>
    nic_inv (sy_drv w') own lown rown"
proof -
  from proc obtain f where f: "0 < fd_long v" "file_at (fd_long v) w = Some f" "fd_type (of_priv f) = FDTYPE_LONG"
      "bind_port (of_priv f) = int p"
    and st: "unat (sy_stack w) + 24 \<le> 2 ^ 48" "readable (user_mem (sy_drv w)) (sy_stack w) 24" by (auto simp: long_process_def)
  let ?h0 = "(rdma_hdr_of_bytes junk)\<lparr>dh_payload_size := ro_size out\<rparr>" and ?n = "unat (dh_payload_size h)"
  let ?arg = "long_arg ?h0 buf" and ?nb = "of_flags f AND O_NONBLOCK \<noteq> 0"
  let ?m = "umem_write (user_mem (sy_drv w)) (sy_stack w) ?arg"
  let ?d = "(sy_drv w)\<lparr>user_mem := ?m\<rparr>" and ?bs = "mem_load (long_mem (sy_drv w)) (lut_buf_sw l) (unat (dh_payload_size h))"
  note cp = long_arg_copied [OF st(1), of "user_mem (sy_drv w)" ?h0 buf]
  have inv': "nic_inv ?d own lown rown" by (rule nic_inv_cong [OF inv]) (use inv in \<open>simp_all add: nic_inv_def long_inv_def\<close>)
  have l': "axiomnet_long_rdma2buf ?d (rx_dst_addr h) = Some (Some l)" using l rdma2buf_cong [of ?d "sy_drv w"] by simp
  have fit: "?n \<le> unat (ro_size out)" using size(1) by (simp add: word_le_nat_alt)
  have un: "unat (ucast (ro_size out) :: u64) = unat (ro_size out)" using size(2) by (simp add: unsigned_ucast_eq take_bit_nat_eq_self)
  have "(of_nat ?n :: u64) = ucast (dh_payload_size h)" "unat (ucast (dh_payload_size h) :: u64) = ?n"
    using fit size(2) by (simp_all add: unsigned_ucast_eq take_bit_nat_eq_self)
  moreover from this(1) have "copy_aligned buf kb (ucast (dh_payload_size h))" for kb
    using buffer_aligned(2) [of buf ?n kb] ub fit size(2) by (simp add: long_buffer_def)
  ultimately have "scatter_ok umem_ua (user_mem (sy_drv w)) (lut_buf_sw l) ?n [\<lparr>iov_base = buf, iov_len = ucast (ro_size out)\<rparr>]"
    using ub fit un size(2) by (simp add: long_buffer_def umem_ua_def min_absorb2)
  then have sc: "scatter_ok umem_ua (user_mem ?d) (lut_buf_sw l) ?n [\<lparr>iov_base = buf, iov_len = ucast (dh_payload_size ?h0)\<rparr>]"
    using scatter_ok_write by (simp del: scatter_ok.simps)
  have "\<exists>d'. axiomnet_ioctl_long (k_hw k) umem_ua (k_loc k) ?nb AXNET_RECV_LONG (sy_stack w) (of_priv f) (sy_env w) ?d =
      Some (0, of_priv f, sy_env w, d') \<and> nic_inv d' own lown rown \<and>
    user_mem d' = umem_write (umem_write (user_mem ?d) buf (mem_load (long_mem ?d) (lut_buf_sw l) ?n)) (sy_stack w) (long_arg h buf)"
    by (rule ioctl_recv_long [OF inv' proc(2) f(4) _ _ l' _ _ _ _ sc])
      (use mx h cp(1) readable_write [OF st(2)] st(1) size(1) in \<open>simp_all add: long_hdrs_def umem_ua_def\<close>)
  then obtain d' where d': "axiomnet_ioctl_long (k_hw k) umem_ua (k_loc k) ?nb AXNET_RECV_LONG (sy_stack w) (of_priv f) (sy_env w) ?d =
      Some (0, of_priv f, sy_env w, d')" "nic_inv d' own lown rown"
    "user_mem d' = umem_write (umem_write ?m buf ?bs) (sy_stack w) (long_arg h buf)" by auto
  have rb: "umem_read (user_mem d') (sy_stack w) (length ?arg) = map Some (long_arg h buf)"
    using umem_read_write [of "long_arg h buf"] unfolding d'(3) by (simp add: long_arg_fields(2))
  let ?w' = "set_file (fd_long v) (Some (f\<lparr>of_priv := of_priv f\<rparr>)) (w\<lparr>sy_drv := d', sy_env := sy_env w\<rparr>)"
  have "os_ioctl (node_os k) (fd_long v) AXNET_RECV_LONG ?arg w = Some (0, 0, long_arg h buf, ?w')"
    by (rule sys_ioctl_run [OF f(2) _ _ _ rb]) (use d'(1) f(3) in \<open>simp_all add: fops_ioctl_def\<close>)
  then have run: "axiom_recv_long (node_os k) junk (Some v) buf out w = Some (uint (dh_msg_id h),
      out\<lparr>ro_src := dh_node h, ro_port := pt_port (dh_port_type h), ro_size := dh_payload_size h\<rparr>, ?w')"
    using f(1) size(2) by (simp add: axiom_recv_long_def recv_long_ioctl_def opened_def axiom_recv_long_finalize_def long_arg_fields(1)
        pt_defs and.assoc)
  have "length ?bs = ?n" "?n < 2 ^ 64" using fit size(2) by (simp_all add: mem_load_def)
  then have "umem_read (user_mem d') buf ?n = map Some ?bs"
    unfolding d'(3) using ub umem_read_write_apart [of buf ?n "sy_stack w" "long_arg h buf" "umem_write ?m buf ?bs"] umem_read_write [of ?bs ?m buf]
    by (simp add: long_buffer_def long_arg_fields(2))
  with d'(2) run show ?thesis by (intro exI [of _ ?w']) (simp add: set_file_def)
qed

section \<open>From node to node\<close>

text \<open>A process whose LONG file is bound to an empty port, on a node with room for a message.\<close>

definition long_receiver :: "'d node \<Rightarrow> axiom_dev \<Rightarrow> nat \<Rightarrow> nat set \<Rightarrow> nat set \<Rightarrow> nat set \<Rightarrow> bool" where
  "long_receiver w v p own lown rown \<longleftrightarrow> long_process w v (int p) \<and> nic_inv (sy_drv w) own lown rown \<and> long_zone (sy_drv w) \<and>
     \<not> sp_mutex (long_rx_ports (sy_drv w) ! p) \<and> long_hdrs (sy_drv w) p = [] \<and> swq_free (long_rx_queue (sy_drv w)) \<noteq> 0"

text \<open>
  What the two FPGAs do with a LONG message: the payload is copied from the transmit buffer of one node, which the descriptor names by
  its offset, to a receive buffer of the other, whose offset the descriptor has when it arrives there, next to the id of the
  source. Which of the buffers it was given the FPGA takes is left open.
\<close>

definition long_wire_delivers :: "u8 \<Rightarrow> ('d, 'u) drvdata \<Rightarrow> u64 list \<Rightarrow> ('e, 'v) drvdata \<Rightarrow> u64 list \<Rightarrow> bool" where
  "long_wire_delivers src dA ws dB ws' \<longleftrightarrow> (let h = rdma_of_words ws; h' = rdma_of_words ws'; n = unat (dh_payload_size h) in
     dh_port_type h' = dh_port_type h \<and> dh_node h' = src \<and> dh_msg_id h' = dh_msg_id h \<and> dh_payload_size h' = dh_payload_size h \<and>
     (\<exists>l \<in> set (long_rxbuf_lut dB). rx_dst_addr h' = lb_address (lut_buf_hw l)) \<and>
     mem_load (long_mem dB) (zone_vaddr dB (rx_dst_addr h')) n = mem_load (long_mem dA) (zone_vaddr dA (tx_src_addr h)) n)"

lemma long_message_received:
  assumes nic: "axi_nic mm r rx cur sent pend" "k_hw k = arm64_hw mm r"
    and hdr: "rdma_of_words ws = hdr" "pt_port (dh_port_type hdr) = port" "pt_type (dh_port_type hdr) = AXIOM_TYPE_LONG_DATA"
      "pt_s (dh_port_type hdr) = 0" "dh_payload_size hdr = psz" "unat port < 7"
    and payload: "mem_load (long_mem dA) (zone_vaddr dA (tx_src_addr hdr)) (unat psz) = bytes"
    and rcv: "long_receiver b v (unat port) own lown rown" "long_buffer b buf (unat psz)"
    and wire: "long_wire_delivers src dA ws (sy_drv b) ws'" "rx (ad_hw (dev_api (sy_drv b))) (ar_fifo_rdma_rx r) = ws' # rest"
      "\<forall>us \<in> set rest. ack_sane (rdma_of_words us)"
    and out: "psz \<le> ro_size out" "unat (ro_size out) \<le> 65528"
  shows "\<exists>d b' own' lown'. axiom_rdma_rx_dequeue (k_hw k) old (sy_drv b) = Some d \<and>
    axiom_recv_long (node_os k) junk (Some v) buf out (b\<lparr>sy_drv := d\<rparr>) = Some (uint (dh_msg_id hdr),
      out\<lparr>ro_src := src, ro_port := port, ro_size := psz\<rparr>, b') \<and>
    umem_read (user_mem (sy_drv b')) buf (unat psz) = map Some bytes \<and> nic_inv (sy_drv b') own' lown' rown \<and>
    rx (ad_hw (dev_api d)) (ar_fifo_rdma_rx r) = []"
proof -
  let ?p = "unat port" and ?h' = "rdma_of_words ws'" and ?d0 = "sy_drv b"
  from wire(1) hdr(1,5) obtain l where l: "l \<in> set (long_rxbuf_lut ?d0)" "rx_dst_addr ?h' = lb_address (lut_buf_hw l)"
    and h': "dh_port_type ?h' = dh_port_type hdr" "dh_node ?h' = src" "dh_msg_id ?h' = dh_msg_id hdr" "dh_payload_size ?h' = psz"
    and mem: "mem_load (long_mem ?d0) (zone_vaddr ?d0 (rx_dst_addr ?h')) (unat psz) = bytes"
    using payload by (auto simp: long_wire_delivers_def Let_def)
  from rcv(1) have proc: "long_process b v (int ?p)" and inv: "nic_inv ?d0 own lown rown" and zone: "long_zone ?d0"
    and port: "\<not> sp_mutex (long_rx_ports ?d0 ! ?p)" "long_hdrs ?d0 ?p = []" "swq_free (long_rx_queue ?d0) \<noteq> 0"
    by (simp_all add: long_receiver_def)
  note z = zone_rx [OF zone l(1)]
  have il: "is_long ?h'" "long_port ?h' = ?p" using hdr h'(1) by (simp_all add: is_long_def long_port_def)
  let ?ks = "map rdma_of_words (ws' # rest)"
  have "\<forall>x \<in> set ?ks. ack_sane x" using wire(3) hdr(4) h'(1) by (simp add: ack_sane_def)
  from rdma_device.worker_drains [OF axi_nic.rdma_contract [OF nic(1)] inv _ this, of old] wire(2) obtain d own' lown' where
    d: "axiom_rdma_rx_dequeue (arm64_hw mm r) old ?d0 = Some d" "nic_inv d own' lown' rown"
      "map rdma_of_words (rx (ad_hw (dev_api d)) (ar_fifo_rdma_rx r)) = []"
      "\<forall>p < 7. long_hdrs d p = long_hdrs ?d0 p @ filter (\<lambda>k. long_port k = p) (take (swq_free (long_rx_queue ?d0)) (filter is_long ?ks))"
    by auto
  from port(3) obtain m where "swq_free (long_rx_queue ?d0) = Suc m" by (cases "swq_free (long_rx_queue ?d0)") auto
  then obtain hs where hs: "long_hdrs d ?p = ?h' # hs" using d(4) hdr(6) port(2) il by auto
  from kept_dequeue [OF d(1)] have kd: "user_mem d = user_mem ?d0" "long_mem d = long_mem ?d0" "long_rxbuf_lut d = long_rxbuf_lut ?d0"
    "rdma_size d = rdma_size ?d0" "map sp_mutex (long_rx_ports d) = map sp_mutex (long_rx_ports ?d0)" by (simp_all add: kept_def)
  have "length (long_rx_ports ?d0) = 7" using inv by (simp add: nic_inv_def long_inv_def)
  then have mx: "\<not> sp_mutex (long_rx_ports d ! ?p)" using kd(5) port(1) hdr(6) by (metis length_map nth_map)
  have l': "axiomnet_long_rdma2buf d (rx_dst_addr ?h') = Some (Some l)" using z(1) l(2) rdma2buf_cong [OF kd(4,3)] by simp
  let ?b = "b\<lparr>sy_drv := d\<rparr>"
  have "file_at (fd_long v) ?b = file_at (fd_long v) b" by (simp add: file_at_def)
  then have us: "long_process ?b v (int ?p)" "long_buffer ?b buf (unat psz)"
    using proc rcv(2) kd(1) by (simp_all add: long_process_def long_buffer_def)
  have "\<exists>w'. axiom_recv_long (node_os k) junk (Some v) buf out ?b = Some (uint (dh_msg_id ?h'),
      out\<lparr>ro_src := dh_node ?h', ro_port := pt_port (dh_port_type ?h'), ro_size := dh_payload_size ?h'\<rparr>, w') \<and>
    umem_read (user_mem (sy_drv w')) buf (unat (dh_payload_size ?h')) =
      map Some (mem_load (long_mem (sy_drv ?b)) (lut_buf_sw l) (unat (dh_payload_size ?h'))) \<and>
    nic_inv (sy_drv w') own' lown' rown"
    by (rule axiom_recv_long_lemma [OF us(1) hdr(6)]) (use us(2) d(2) mx hs l' out h'(4) in simp_all)
  then show ?thesis using d(1,3) nic(2) h' hdr(2) mem z(2) l(2) kd(2) by (auto simp: h')
qed

text \<open>
  Property C4. A LONG message from process to process. \<open>axiom_send_long\<close> on a node with a route, a free request and a free transmit
  buffer returns the id of the request and hands the FPGA one descriptor, addressed to the destination, whose source address is
  the offset of a transmit buffer that holds the bytes of the user's buffer; the invariants of the driver and the layout of the
  buffers are kept, so that the node can send again. When the network has copied that buffer into one of another node's receive
  buffers and brings the descriptor to the head of its FIFO, where a process has bound the port, that node's receive worker
  empties the FIFO, whatever else is in it, and \<open>axiom_recv_long\<close> returns the same id, the source that the network named,
  the port and the size, with exactly the sender's bytes in the receiver's buffer; the driver's invariant holds afterwards.
  Both nodes run the arm64 layer.
\<close>

theorem long_message_between_nodes:
  assumes "axi_nic mmA rA rxA curA sentA pendA" "k_hw kA = arm64_hw mmA rA"
    and "axi_nic mmB rB rxB curB sentB pendB" "k_hw kB = arm64_hw mmB rB"
    and "long_sender a va dst ownA lownA rownA"
      "pendA (ad_hw (dev_api (sy_drv a))) (ar_fifo_rdma_tx rA) = []"
      "fst (axi_fifo_tx_vacancy mmA (ar_fifo_rdma_tx rA) (ad_hw (dev_api (sy_drv a)))) \<noteq> 0"
    and "unat psz \<le> 65528" "unat port < 7" "long_buffer a buf (unat psz)"
      "umem_read (user_mem (sy_drv a)) buf (unat psz) = map Some bytes"
    and "psz \<le> ro_size out" "unat (ro_size out) \<le> 65528"
  shows "\<exists>(i :: u8) a' ws ownA' lownA'. axiom_send_long (node_os kA) junk (Some va) dst port psz buf a = Some (uint i, a') \<and>
    sentA (ad_hw (dev_api (sy_drv a'))) (ar_fifo_rdma_tx rA) = sentA (ad_hw (dev_api (sy_drv a))) (ar_fifo_rdma_tx rA) @ [ws] \<and>
    dh_node (rdma_of_words ws) = dst \<and> dh_payload_size (rdma_of_words ws) = psz \<and>
    mem_load (long_mem (sy_drv a')) (zone_vaddr (sy_drv a') (tx_src_addr (rdma_of_words ws))) (unat psz) = bytes \<and>
    nic_inv (sy_drv a') ownA' lownA' rownA \<and> long_zone (sy_drv a') \<and>
    (\<forall>b vb own lown rown src ws' rest old. long_receiver b vb (unat port) own lown rown \<longrightarrow> long_buffer b buf' (unat psz) \<longrightarrow>
      long_wire_delivers src (sy_drv a') ws (sy_drv b) ws' \<longrightarrow>
      rxB (ad_hw (dev_api (sy_drv b))) (ar_fifo_rdma_rx rB) = ws' # rest \<longrightarrow> (\<forall>us \<in> set rest. ack_sane (rdma_of_words us)) \<longrightarrow>
      (\<exists>d b' own' lown'. axiom_rdma_rx_dequeue (k_hw kB) old (sy_drv b) = Some d \<and>
        axiom_recv_long (node_os kB) junk' (Some vb) buf' out (b\<lparr>sy_drv := d\<rparr>) = Some (uint i,
          out\<lparr>ro_src := src, ro_port := port, ro_size := psz\<rparr>, b') \<and>
        umem_read (user_mem (sy_drv b')) buf' (unat psz) = map Some bytes \<and> nic_inv (sy_drv b') own' lown' rown \<and>
        rxB (ad_hw (dev_api d)) (ar_fifo_rdma_rx rB) = []))"
proof -
  have "unat port < 8" using assms(9) by simp
  from long_message_sent [OF assms(1,2,5-8) this assms(10,11)] obtain i a' ws hdr ownA' lownA' where
    snd: "axiom_send_long (node_os kA) junk (Some va) dst port psz buf a = Some (uint (i :: u8), a')"
      "sentA (ad_hw (dev_api (sy_drv a'))) (ar_fifo_rdma_tx rA) = sentA (ad_hw (dev_api (sy_drv a))) (ar_fifo_rdma_tx rA) @ [ws]"
    and h: "rdma_of_words ws = hdr" "dh_msg_id hdr = i" "dh_node hdr = dst" "pt_port (dh_port_type hdr) = port"
      "pt_type (dh_port_type hdr) = AXIOM_TYPE_LONG_DATA" "pt_s (dh_port_type hdr) = 0" "dh_payload_size hdr = psz"
    and m: "mem_load (long_mem (sy_drv a')) (zone_vaddr (sy_drv a') (tx_src_addr hdr)) (unat psz) = bytes"
    and inv: "nic_inv (sy_drv a') ownA' lownA' rownA" "long_zone (sy_drv a')" by blast
  note received = long_message_received [OF assms(3,4) h(1,4-7) assms(9) m _ _ _ _ _ assms(12,13), unfolded h(2)]
  have "dh_node (rdma_of_words ws) = dst" "dh_payload_size (rdma_of_words ws) = psz"
    "mem_load (long_mem (sy_drv a')) (zone_vaddr (sy_drv a') (tx_src_addr (rdma_of_words ws))) (unat psz) = bytes"
    using h(1,3,7) m by simp_all
  with snd inv show ?thesis
    by (intro exI [of _ i] exI [of _ a'] exI [of _ ws] exI [of _ ownA'] exI [of _ lownA'] conjI allI impI) (assumption | rule received)+
qed

text \<open>
  Two nodes with the FPGA of the witnesses and the buffers laid out behind 4096 bytes of RDMA memory. A process on the first sends
  four bytes to node 2, port 2.
\<close>

definition zone_msg :: "nat \<Rightarrow> long_msg" where
  "zone_msg i = \<lparr>lm_header = rdma_hdr_zero\<lparr>dh_addr0 := of_nat (4096 + (32 + i) * 65536)\<rparr>, lm_payload = of_nat ((32 + i) * 65536)\<rparr>"

definition long_d :: "axi_model arm64_dev \<Rightarrow> (u64 \<Rightarrow> u8) \<Rightarrow> (axi_model arm64_dev, u64 \<Rightarrow> u8 option) drvdata" where
  "long_d v m = (arm_d v)\<lparr>long_tx_queue := \<lparr>sq_evi = demo_evi 0, sq_desc = Some (map zone_msg [0..<32]), sq_base = 0\<rparr>, long_mem := m\<rparr>"

definition long_node :: "axi_model arm64_dev \<Rightarrow> (u64 \<Rightarrow> u8) \<Rightarrow> axi_model arm64_dev node" where
  "long_node v m = (arm_node 2 v)\<lparr>sy_drv := long_d v m, sy_files := replicate 5 (Some std_file) @
     [Some \<lparr>of_priv = demo_pr\<lparr>fd_type := FDTYPE_LONG\<rparr>, of_flags = 2\<rparr>]\<rparr>"

lemma long_node_inv: "nic_inv (long_d v m) {} {} {}"
proof -
  have rep: "swq_rep (long_tx_queue (long_d v m)) [0, 1] [] {} (map zone_msg [0..<32])"
    "swq_rep (long_rx_queue (long_d v m)) [0, 1] (replicate 7 []) {} (map demo_long_msg [0..<32])"
    using demo_evi_rep [of 0] demo_evi_rep [of 7] by (simp_all add: swq_rep_def long_d_def arm_d_def demo_d_def)
  have "length (long_rx_ports (long_d v m)) = 7" by (simp add: long_d_def arm_d_def demo_d_def)
  then have "long_inv (long_d v m) {}" by (intro long_invI [OF rep(2)]) simp_all
  moreover have "callbacks_inv (long_d v m) {} {}" using rep(1) by (auto simp: callbacks_inv_def)
  moreover have "rdma_inv (long_d v m) {}" using demo_rdma_inv by (simp add: rdma_inv_def long_d_def arm_d_def)
  ultimately show ?thesis by (simp add: nic_inv_def long_d_def arm_d_def demo_port_def)
qed

lemma long_node_zone: "long_zone (long_d v m)"
  by (simp add: long_zone_def buf_offset_def long_d_def arm_d_def demo_d_def demo_lut_def zone_msg_def rdma_hdr_zero_def)

lemma long_node_ends: "long_sender (long_node v m) demo_user 2 {} {} {}" "long_receiver (long_node v m) demo_user 2 {} {} {}"
proof -
  have proc: "long_process (long_node v m) demo_user (int 2)"
    by (simp add: long_process_def long_node_def arm_node_def demo_user_def file_at_def nth_append demo_pr_def long_d_def arm_d_def demo_d_def
        readable_def umem_read_numeral)
  have rep: "swq_rep (long_tx_queue (long_d v m)) [0, 1] [] {} (map zone_msg [0..<32])"
    "swq_rep (long_rx_queue (long_d v m)) [0, 1] (replicate 7 []) {} (map demo_long_msg [0..<32])"
    using demo_evi_rep [of 0] demo_evi_rep [of 7] by (simp_all add: swq_rep_def long_d_def arm_d_def demo_d_def)
  have free: "swq_free (long_tx_queue (long_d v m)) = 2" "swq_free (long_rx_queue (long_d v m)) = 2" "long_hdrs (long_d v m) 2 = []"
    "swq_free (rdma_queue (long_d v m)) = 2"
    using swq_rep_contents(1) [OF rep(1)] swq_rep_contents(1) [OF rep(2)] swq_rep_contents(2) [OF rep(2), of 2] demo_rdma_free(1)
    by (simp_all add: long_hdrs_def long_d_def arm_d_def)
  have d: "sy_drv (long_node v m) = long_d v m" by (simp add: long_node_def)
  have "\<not> sp_mutex (long_tx_port (long_d v m))" "\<not> sp_mutex (long_rx_ports (long_d v m) ! 2)"
    "length (routing_table (long_d v m)) = 256" "routing_table (long_d v m) ! 2 \<noteq> 0"
    by (simp_all add: long_d_def arm_d_def demo_d_def demo_port_def)
  with proc free long_node_inv [of v m] long_node_zone [of v m] show
    "long_sender (long_node v m) demo_user 2 {} {} {}" "long_receiver (long_node v m) demo_user 2 {} {} {}"
    by (auto simp: long_sender_def long_receiver_def d)
qed

lemma long_node_buffer: "long_buffer (long_node v m) 4352 4" "umem_read (user_mem (sy_drv (long_node v m))) 4352 4 = map Some [10, 1, 2, 3]"
proof -
  have "apart 4352 4 4096 24" by (rule apart_below) simp_all
  then show "long_buffer (long_node v m) 4352 4"
    by (simp add: long_buffer_def long_node_def arm_node_def long_d_def arm_d_def demo_d_def readable_def umem_read_numeral odd_part_def)
  show "umem_read (user_mem (sy_drv (long_node v m))) 4352 4 = map Some [10, 1, 2, 3]"
    by (simp add: long_node_def long_d_def arm_d_def umem_read_numeral)
qed

text \<open>The second node, with a descriptor in its FIFO and the bytes in its first receive buffer.\<close>

definition long_node_with :: "rdma_hdr \<Rightarrow> axi_model arm64_dev node" where
  "long_node_with h = long_node (axi_empty\<lparr>ad_hw := (ad_hw axi_empty)\<lparr>am_rdma :=
     [(le_word (take 8 (rdma_hdr_bytes h)), le_word (drop 8 (rdma_hdr_bytes h)))]\<rparr>\<rparr>) (mem_store (\<lambda>_. 0) 0 [10, 1, 2, 3])"

definition moved :: "u64 list \<Rightarrow> rdma_hdr" where
  "moved ws = (rdma_of_words ws)\<lparr>dh_node := 1, dh_addr0 := 4096\<rparr>"

lemma long_wire_can_deliver:
  assumes "dh_payload_size (rdma_of_words ws) = 4"
    and "mem_load (long_mem d) (zone_vaddr d (tx_src_addr (rdma_of_words ws))) 4 = [10, 1, 2, 3]"
  shows "\<exists>ws'. axi_rx (ad_hw (dev_api (sy_drv (long_node_with (moved ws))))) (ar_fifo_rdma_rx axi_regs) = [ws'] \<and>
    long_wire_delivers 1 d ws (sy_drv (long_node_with (moved ws))) ws'"
proof -
  let ?h = "moved ws" and ?d = "sy_drv (long_node_with (moved ws))"
  let ?ws = "[le_word (take 8 (rdma_hdr_bytes ?h)), le_word (drop 8 (rdma_hdr_bytes ?h))]"
  have h: "rdma_of_words ?ws = ?h" by (simp add: rdma_of_words_def word_bytes_split)
  have z: "long_rxbuf_lut ?d = map demo_lut [0..<32]" "zone_vaddr ?d 4096 = 0" "long_mem ?d = mem_store (\<lambda>_. 0) 0 [10, 1, 2, 3]"
    by (simp_all add: long_node_with_def long_node_def long_d_def arm_d_def demo_d_def zone_vaddr_def)
  have "demo_lut 0 \<in> set (long_rxbuf_lut ?d)" "4096 = lb_address (lut_buf_hw (demo_lut 0))"
    unfolding z(1) set_map by (rule imageI, simp, simp add: demo_lut_def)
  then have b: "\<exists>l \<in> set (long_rxbuf_lut ?d). 4096 = lb_address (lut_buf_hw l)" by blast
  have n: "length [10, 1, 2, 3 :: u8] = 4" "length [10, 1, 2, 3 :: u8] < 2 ^ 64" by simp_all
  have "mem_load (long_mem ?d) 0 4 = [10, 1, 2, 3]" unfolding z(3) by (rule mem_load_store [OF n(2), unfolded n(1)])
  moreover have mf: "dh_node ?h = 1" "dh_addr0 ?h = 4096" "dh_port_type ?h = dh_port_type (rdma_of_words ws)"
    "dh_msg_id ?h = dh_msg_id (rdma_of_words ws)" "dh_payload_size ?h = dh_payload_size (rdma_of_words ws)" by (simp_all add: moved_def)
  ultimately have "long_wire_delivers 1 d ws ?d ?ws"
    using assms b mf unfolding long_wire_delivers_def Let_def h by (simp add: z(2))
  moreover have "axi_rx (ad_hw (dev_api ?d)) (ar_fifo_rdma_rx axi_regs) = [?ws]"
    by (simp add: long_node_with_def long_node_def long_d_def arm_d_def axi_rx_def axi_regs_def)
  ultimately show ?thesis by blast
qed

theorem long_message_between_nodes_witness:
  "\<exists>(i :: u8) a' ws ws' d b'. axiom_send_long (node_os arm_kernel) (replicate 16 0) (Some demo_user) 2 2 4 4352 (long_node axi_empty (\<lambda>_. 0)) =
       Some (uint i, a') \<and>
     axi_sent (ad_hw (dev_api (sy_drv a'))) (ar_fifo_rdma_tx axi_regs) = [ws] \<and>
     long_wire_delivers 1 (sy_drv a') ws (sy_drv (long_node_with (moved ws))) ws' \<and>
     axiom_rdma_rx_dequeue (k_hw arm_kernel) rdma_hdr_zero (sy_drv (long_node_with (moved ws))) = Some d \<and>
     axiom_recv_long (node_os arm_kernel) (replicate 16 0) (Some demo_user) 4352 \<lparr>ro_src = 0, ro_port = 0, ro_type = 0, ro_size = 200\<rparr>
       ((long_node_with (moved ws))\<lparr>sy_drv := d\<rparr>) = Some (uint i, \<lparr>ro_src = 1, ro_port = 2, ro_type = 0, ro_size = 4\<rparr>, b') \<and>
     umem_read (user_mem (sy_drv b')) 4352 4 = map Some [10, 1, 2, 3]"
proof -
  let ?out = "\<lparr>ro_src = 0, ro_port = 0, ro_type = 0, ro_size = 200\<rparr> :: u16 recv_out" and ?rx = "ar_fifo_rdma_rx axi_regs"
  let ?a = "long_node axi_empty (\<lambda>_. 0)"
  have idle: "axi_pend (ad_hw (dev_api (sy_drv ?a))) (ar_fifo_rdma_tx axi_regs) = []"
    "fst (axi_fifo_tx_vacancy axi_mm (ar_fifo_rdma_tx axi_regs) (ad_hw (dev_api (sy_drv ?a)))) \<noteq> 0"
    "axi_sent (ad_hw (dev_api (sy_drv ?a))) (ar_fifo_rdma_tx axi_regs) = []"
    by (simp_all add: long_node_def long_d_def arm_d_def axi_empty_def axi_pend_def axi_sent_def axi_regs_def
        axi_fifo_tx_vacancy_def axi_mm_def axi_ioread32_def)
  have "unat (4 :: u16) \<le> 65528" "unat (2 :: u8) < 7" "long_buffer ?a 4352 (unat (4 :: u16))"
    "umem_read (user_mem (sy_drv ?a)) 4352 (unat (4 :: u16)) = map Some [10, 1, 2, 3]" "4 \<le> ro_size ?out" "unat (ro_size ?out) \<le> 65528"
    using long_node_buffer [of axi_empty "\<lambda>_. 0"] by simp_all
  from long_message_between_nodes [OF axi.axi_nic_axioms arm_node_demands(1) axi.axi_nic_axioms arm_node_demands(1)
      long_node_ends(1) [of axi_empty "\<lambda>_. 0"] idle(1,2) this, where junk = "replicate 16 0" and junk' = "replicate 16 0" and buf' = 4352]
  obtain i a' ws where
    snd: "axiom_send_long (node_os arm_kernel) (replicate 16 0) (Some demo_user) 2 2 4 4352 ?a = Some (uint (i :: u8), a')"
     "axi_sent (ad_hw (dev_api (sy_drv a'))) (ar_fifo_rdma_tx axi_regs) =
        axi_sent (ad_hw (dev_api (sy_drv ?a))) (ar_fifo_rdma_tx axi_regs) @ [ws]"
     "dh_payload_size (rdma_of_words ws) = 4"
     "mem_load (long_mem (sy_drv a')) (zone_vaddr (sy_drv a') (tx_src_addr (rdma_of_words ws))) (unat (4 :: u16)) = [10, 1, 2, 3]"
    and rcv: "\<And>b vb own lown rown src ws' rest old. long_receiver b vb (unat (2 :: u8)) own lown rown \<Longrightarrow>
      long_buffer b 4352 (unat (4 :: u16)) \<Longrightarrow>
      long_wire_delivers src (sy_drv a') ws (sy_drv b) ws' \<Longrightarrow> axi_rx (ad_hw (dev_api (sy_drv b))) ?rx = ws' # rest \<Longrightarrow>
      \<forall>us \<in> set rest. ack_sane (rdma_of_words us) \<Longrightarrow>
      \<exists>d b'. axiom_rdma_rx_dequeue (k_hw arm_kernel) old (sy_drv b) = Some d \<and>
        axiom_recv_long (node_os arm_kernel) (replicate 16 0) (Some vb) 4352 ?out (b\<lparr>sy_drv := d\<rparr>) =
          Some (uint i, ?out\<lparr>ro_src := src, ro_port := 2, ro_size := 4\<rparr>, b') \<and>
        umem_read (user_mem (sy_drv b')) 4352 (unat (4 :: u16)) = map Some [10, 1, 2, 3]"
    by (elim exE conjE) (rule that; blast)
  have "mem_load (long_mem (sy_drv a')) (zone_vaddr (sy_drv a') (tx_src_addr (rdma_of_words ws))) 4 = [10, 1, 2, 3]" using snd(4) by simp
  from long_wire_can_deliver [OF snd(3) this] obtain ws' where
    ws': "axi_rx (ad_hw (dev_api (sy_drv (long_node_with (moved ws))))) ?rx = [ws']"
      "long_wire_delivers 1 (sy_drv a') ws (sy_drv (long_node_with (moved ws))) ws'" by blast
  from rcv [OF _ _ ws'(2,1), of demo_user "{}" "{}" "{}" rdma_hdr_zero] obtain d b' where
    "axiom_rdma_rx_dequeue (k_hw arm_kernel) rdma_hdr_zero (sy_drv (long_node_with (moved ws))) = Some d"
    "axiom_recv_long (node_os arm_kernel) (replicate 16 0) (Some demo_user) 4352 ?out ((long_node_with (moved ws))\<lparr>sy_drv := d\<rparr>) =
       Some (uint i, ?out\<lparr>ro_src := 1, ro_port := 2, ro_size := 4\<rparr>, b')"
    "umem_read (user_mem (sy_drv b')) 4352 4 = map Some [10, 1, 2, 3]"
    using long_node_ends(2) long_node_buffer(1) unfolding long_node_with_def by auto
  with snd(1,2) idle(3) ws'(2) show ?thesis by auto
qed

end
