(* ===== verification/ReadyNodes.thy ===== *)
theory ReadyNodes
  imports LongNodes InitProps
begin

text \<open>
  The demands of the two-node properties on a driver, from the probe: the buffers that \<open>axiomnet_rdma_init\<close> lays out form the
  zone a LONG message travels through, and a driver as the probe leaves it can send and receive messages of both kinds.
\<close>

lemma rx_buf_address:
  assumes "buf_offset d 64 \<le> 2 ^ 32" "i < 64"
  shows "(ucast (rdma_size d + of_nat (i * 65536)) :: u32) = of_nat (buf_offset d i)"
proof -
  have "rdma_size d + of_nat (i * 65536) = of_nat (buf_offset d i)" by (simp add: buf_offset_def)
  moreover have "buf_offset d i < 2 ^ 32" using assms by (simp add: buf_offset_def)
  ultimately show ?thesis
    by (intro word_unat_eq_iff [THEN iffD2]) (simp add: unsigned_ucast_eq unsigned_of_nat take_bit_nat_eq_self)
qed

text \<open>The zone begins on a multiple of eight and ends within the 32 bits of an RDMA address.\<close>

lemma long_layout_zone:
  assumes "long_layout d" "8 dvd unat (rdma_size d)" "buf_offset d 64 \<le> 2 ^ 32"
  shows "long_zone d"
proof -
  have "(ucast (rdma_size d + of_nat LONG_BUFS_SIZE + of_nat (i * 65536)) :: u32) = of_nat (buf_offset d (32 + i))" if "i < 32" for i
    using rx_buf_address [OF assms(3), of "32 + i"] that by (simp add: add.assoc)
  then show ?thesis using assms rx_buf_address [OF assms(3)]
    by (simp add: long_zone_def long_layout_def long_rx_buf_def long_tx_buf_def long_msg_zero_def rdma_hdr_zero_def algebra_simps
        del: upt_rec_numeral)
qed

lemma ready_long:
  assumes "driver_ready (sy_drv w)" "8 dvd unat (rdma_size (sy_drv w))" "buf_offset (sy_drv w) 64 \<le> 2 ^ 32"
    and "long_process w v (int p)" "p < 7"
  shows "long_receiver w v p {} {} {}"
    and "length (routing_table (sy_drv w)) = 256 \<Longrightarrow> routing_table (sy_drv w) ! unat dst \<noteq> 0 \<Longrightarrow> dst \<noteq> AXIOM_NULL_NODE \<Longrightarrow>
      long_sender w v dst {} {} {}"
proof -
  from assms(1) have r: "nic_inv (sy_drv w) {} {} {}" "long_hdrs (sy_drv w) p = []" "long_layout (sy_drv w)"
    "swq_free (rdma_queue (sy_drv w)) = 256" "swq_free (long_tx_queue (sy_drv w)) = 32" "swq_free (long_rx_queue (sy_drv w)) = 32"
    and m: "\<And>sel x. get_port sel (sy_drv w) = Some x \<Longrightarrow> \<not> sp_mutex x" using assms(5) by (auto simp: driver_ready_def)
  have "length (long_rx_ports (sy_drv w)) = 7" using r(1) by (simp add: nic_inv_def long_inv_def)
  then have "\<not> sp_mutex (long_rx_ports (sy_drv w) ! p)" "\<not> sp_mutex (long_tx_port (sy_drv w))"
    using m [of "LongRx (int p)"] m [of LongTx] assms(5) by simp_all
  with r long_layout_zone [OF r(3) assms(2,3)] assms(4) show "long_receiver w v p {} {} {}"
    "length (routing_table (sy_drv w)) = 256 \<Longrightarrow> routing_table (sy_drv w) ! unat dst \<noteq> 0 \<Longrightarrow> dst \<noteq> AXIOM_NULL_NODE \<Longrightarrow>
      long_sender w v dst {} {} {}" by (auto simp: long_receiver_def long_sender_def)
qed

lemma ready_raw:
  assumes "driver_ready (sy_drv w)" "raw_process w v (int p)" "p < 7"
  shows "raw_receiver w v p {}"
    and "length (routing_table (sy_drv w)) = 256 \<Longrightarrow> type AND 7 = AXIOM_TYPE_RAW_NEIGHBOUR \<or> routing_table (sy_drv w) ! unat dst \<noteq> 0 \<Longrightarrow>
      raw_sender w v type dst"
proof -
  from assms(1) have r: "raw_inv (sy_drv w) {}" "raw_pkts (sy_drv w) p = []" "swq_free (raw_rx_queue (sy_drv w)) = 1792"
    and m: "\<And>sel x. get_port sel (sy_drv w) = Some x \<Longrightarrow> \<not> sp_mutex x" using assms(3) by (auto simp: driver_ready_def)
  have "length (raw_rx_ports (sy_drv w)) = 7" using r(1) by (auto simp: raw_inv_def)
  then have "\<not> sp_mutex (raw_rx_ports (sy_drv w) ! p)" "\<not> sp_mutex (raw_tx_port (sy_drv w))"
    using m [of "RawRx (int p)"] m [of RawTx] assms(3) by simp_all
  with r assms(2) show "raw_receiver w v p {}"
    "length (routing_table (sy_drv w)) = 256 \<Longrightarrow> type AND 7 = AXIOM_TYPE_RAW_NEIGHBOUR \<or> routing_table (sy_drv w) ! unat dst \<noteq> 0 \<Longrightarrow>
      raw_sender w v type dst" by (auto simp: raw_receiver_def raw_sender_def)
qed

end
