(* ===== verification/SimTopology.thy ===== *)
theory SimTopology
  imports NicTypes
begin

text \<open>
  The topology of a simulated network (\<open>include/axiom_sim_topology.h\<close>): for every node and interface the node at
  the other end, from which \<open>axsw_if_topology_init\<close> works out the interface at the other end. The property shows
  that the result is a pairing of the ends of the links.
\<close>

section \<open>The function\<close>

text \<open>\<open>AXIOM_NODES_NUM\<close> is 256 and \<open>AXIOM_INTERFACES_NUM\<close> is 5; \<open>AXIOM_NULL_NODE\<close> (255) marks an unused interface.\<close>

abbreviation (input) TOPOLOGY_NODES :: nat where "TOPOLOGY_NODES \<equiv> 256"
abbreviation (input) TOPOLOGY_IFS :: nat where "TOPOLOGY_IFS \<equiv> 5"

record axiom_topology =
  tp_topology :: "u8 list list"
  tp_if_topology :: "u8 list list"
  tp_num_nodes :: int
  tp_num_interfaces :: int

definition tp_get :: "u8 list list \<Rightarrow> int \<Rightarrow> int \<Rightarrow> u8 option" where
  "tp_get m n i = do { row \<leftarrow> arr_get m n; arr_get row i }"

definition tp_set :: "u8 list list \<Rightarrow> int \<Rightarrow> int \<Rightarrow> u8 \<Rightarrow> u8 list list option" where
  "tp_set m n i v = do { row \<leftarrow> arr_get m n; row \<leftarrow> arr_set row i v; arr_set m n row }"

text \<open>A \<open>for\<close> loop over the numbers of a list.\<close>

fun for_each :: "('a \<Rightarrow> 's \<Rightarrow> 's option) \<Rightarrow> 'a list \<Rightarrow> 's \<Rightarrow> 's option" where
  "for_each f [] s = Some s"
| "for_each f (x # xs) s = do { s \<leftarrow> f x s; for_each f xs s }"

text \<open>The search for an interface of the neighbour that leads back and is not taken.\<close>

fun pair_search :: "axiom_topology \<Rightarrow> int \<Rightarrow> u8 \<Rightarrow> nat list \<Rightarrow> nat option option" where
  "pair_search t node_index pair_node [] = Some None"
| "pair_search t node_index pair_node (i # is) = do {
     back \<leftarrow> tp_get (tp_topology t) (uint pair_node) (int i);
     if uint back = node_index then do {
       used \<leftarrow> tp_get (tp_if_topology t) (uint pair_node) (int i);
       if used = AXIOM_NULL_NODE then Some (Some i) else pair_search t node_index pair_node is }
     else pair_search t node_index pair_node is }"

definition axsw_link :: "nat \<Rightarrow> nat \<Rightarrow> axiom_topology \<Rightarrow> axiom_topology option" where
  "axsw_link node_index if_index t = do {
     pair_node \<leftarrow> tp_get (tp_topology t) (int node_index) (int if_index);
     if pair_node = AXIOM_NULL_NODE then Some t
     else do {
       r \<leftarrow> pair_search t (int node_index) pair_node [0..<TOPOLOGY_IFS];
       case r of
         None \<Rightarrow> Some t
       | Some i \<Rightarrow> do {
           f \<leftarrow> tp_set (tp_if_topology t) (int node_index) (int if_index) (of_nat i);
           f \<leftarrow> tp_set f (uint pair_node) (int i) (of_nat if_index);
           Some (t\<lparr>tp_if_topology := f\<rparr>) } } }"

definition axsw_if_topology_init :: "axiom_topology \<Rightarrow> int \<Rightarrow> axiom_topology option" where
  "axsw_if_topology_init t num_nodes = do {
     f \<leftarrow> for_each (\<lambda>n. for_each (\<lambda>i f. tp_set f (int n) (int i) AXIOM_NULL_NODE) [0..<TOPOLOGY_IFS]) [0..<nat num_nodes] (tp_if_topology t);
     for_each (\<lambda>n. for_each (axsw_link n) [0..<TOPOLOGY_IFS]) [0..<nat num_nodes] (t\<lparr>tp_if_topology := f\<rparr>) }"

section \<open>The tables as functions\<close>

definition grid :: "u8 list list \<Rightarrow> bool" where
  "grid m \<longleftrightarrow> length m = TOPOLOGY_NODES \<and> list_all (\<lambda>row. length row = TOPOLOGY_IFS) m"

definition cell :: "u8 list list \<Rightarrow> nat \<Rightarrow> nat \<Rightarrow> nat" where
  "cell m n i = unat (m ! n ! i)"

lemma grid_get: "grid m \<Longrightarrow> n < 256 \<Longrightarrow> i < 5 \<Longrightarrow> tp_get m (int n) (int i) = Some (m ! n ! i)"
  by (simp add: grid_def tp_get_def list_all_length)

lemma grid_set:
  assumes "grid m" "n < 256" "i < 5"
  shows "\<exists>m'. tp_set m (int n) (int i) v = Some m' \<and> grid m' \<and>
    (\<forall>a b. cell m' a b = (if a = n \<and> b = i then unat v else cell m a b))"
proof -
  let ?m = "m[n := (m ! n)[i := v]]"
  have len: "n < length m" "i < length (m ! n)" using assms by (simp_all add: grid_def list_all_length)
  have "grid ?m" using assms by (auto simp: grid_def list_all_length nth_list_update)
  moreover have "cell ?m a b = (if a = n \<and> b = i then unat v else cell m a b)" for a b
    using len by (cases "a = n") (simp_all add: cell_def nth_list_update)
  ultimately show ?thesis using len by (intro exI [of _ ?m]) (simp add: tp_set_def)
qed

lemma for_each_append: "for_each f (xs @ ys) s = do { s \<leftarrow> for_each f xs s; for_each f ys s }"
  by (induction xs arbitrary: s) (auto split: bind_splits)

text \<open>A loop with an invariant returns and establishes it.\<close>

lemma for_each_upt:
  assumes "I 0 s" and "\<And>k s. k < n \<Longrightarrow> I k s \<Longrightarrow> \<exists>s'. f k s = Some s' \<and> I (Suc k) s'"
  shows "\<exists>s'. for_each f [0..<n] s = Some s' \<and> I n s'"
  using assms(2)
proof (induction n)
  case (Suc n)
  then obtain s1 where "for_each f [0..<n] s = Some s1" "I n s1" by fastforce
  with Suc.prems [of n s1] show ?case by (auto simp: for_each_append)
qed (use assms(1) in simp)

section \<open>Pairing the ends of the links\<close>

text \<open>
  The link at interface \<open>i\<close> of node \<open>n\<close> leads to node \<open>t n i\<close>. A topology is well formed when every link leads to one of
  the nodes, and between two nodes there are as many links one way as the other.
\<close>

definition links :: "(nat \<Rightarrow> nat \<Rightarrow> nat) \<Rightarrow> nat \<Rightarrow> nat \<Rightarrow> nat set" where
  "links t n m = {i. i < TOPOLOGY_IFS \<and> t n i = m}"

definition topology_wf :: "nat \<Rightarrow> (nat \<Rightarrow> nat \<Rightarrow> nat) \<Rightarrow> bool" where
  "topology_wf N t \<longleftrightarrow> (\<forall>n < N. \<forall>i < TOPOLOGY_IFS. t n i < N \<or> t n i = 255) \<and>
     (\<forall>n < N. \<forall>m < N. card (links t n m) = card (links t m n))"

text \<open>The entries of \<open>f\<close> that are set name interfaces at the two ends of one link.\<close>

definition paired :: "nat \<Rightarrow> (nat \<Rightarrow> nat \<Rightarrow> nat) \<Rightarrow> (nat \<Rightarrow> nat \<Rightarrow> nat) \<Rightarrow> bool" where
  "paired N t f \<longleftrightarrow> (\<forall>a < N. \<forall>b < TOPOLOGY_IFS. f a b \<noteq> 255 \<longrightarrow>
     t a b < N \<and> f a b < TOPOLOGY_IFS \<and> t (t a b) (f a b) = a \<and> f (t a b) (f a b) = b)"

definition visited :: "nat \<Rightarrow> nat \<Rightarrow> nat \<Rightarrow> nat \<Rightarrow> bool" where
  "visited n i a b \<longleftrightarrow> a < n \<or> a = n \<and> b < i"

text \<open>The invariant of the loops before they visit interface \<open>i\<close> of node \<open>n\<close>.\<close>

definition link_inv :: "nat \<Rightarrow> (nat \<Rightarrow> nat \<Rightarrow> nat) \<Rightarrow> nat \<Rightarrow> nat \<Rightarrow> (nat \<Rightarrow> nat \<Rightarrow> nat) \<Rightarrow> bool" where
  "link_inv N t n i f \<longleftrightarrow> paired N t f \<and>
     (\<forall>a < N. \<forall>b < TOPOLOGY_IFS. visited n i a b \<longrightarrow> t a b < N \<longrightarrow> f a b \<noteq> 255) \<and>
     (\<forall>a < N. \<forall>b < TOPOLOGY_IFS. f a b \<noteq> 255 \<longrightarrow> visited n i a b \<or> t a b < a)"

lemma link_invD:
  assumes "link_inv N t n i f" "a < N" "b < 5"
  shows "f a b \<noteq> 255 \<Longrightarrow> t a b < N \<and> f a b < 5 \<and> t (t a b) (f a b) = a \<and> f (t a b) (f a b) = b"
    "visited n i a b \<Longrightarrow> t a b < N \<Longrightarrow> f a b \<noteq> 255"
    "f a b \<noteq> 255 \<Longrightarrow> visited n i a b \<or> t a b < a"
  using assms by (simp_all add: link_inv_def paired_def)

text \<open>A link that is not paired yet finds a partner, since as many links are left one way as the other.\<close>

lemma partner_exists:
  assumes inv: "link_inv N t n i f" and wf: "topology_wf N t" and n: "n < N" "i < 5" "t n i = m" "m < N" and free: "f n i = 255"
  shows "\<exists>j < 5. t m j = n \<and> f m j = 255"
proof (rule ccontr)
  assume "\<not> ?thesis"
  then have all: "j < 5 \<Longrightarrow> t m j = n \<Longrightarrow> f m j \<noteq> 255" for j by blast
  have fin: "finite (links t a b)" for a b by (simp add: links_def)
  have "f m ` links t m n \<subseteq> links t n m - {i}"
  proof
    fix x assume "x \<in> f m ` links t m n"
    then obtain j where j: "j < 5" "t m j = n" "x = f m j" by (auto simp: links_def)
    with link_invD(1) [OF inv n(4) j(1)] all have "x < 5" "t n x = m" "f n x = j" by auto
    then show "x \<in> links t n m - {i}" using free j(1) by (auto simp: links_def)
  qed
  moreover have "inj_on (f m) (links t m n)"
  proof (rule inj_on_inverseI [of _ "f n"])
    fix j assume "j \<in> links t m n"
    then have "j < 5" "t m j = n" by (auto simp: links_def)
    then show "f n (f m j) = j" using link_invD(1) [OF inv n(4)] all by metis
  qed
  ultimately have "card (links t m n) \<le> card (links t n m - {i})" using fin by (intro card_inj_on_le) auto
  moreover have "card (links t n m - {i}) < card (links t n m)" using n fin by (intro card_Diff1_less) (auto simp: links_def)
  moreover have "card (links t n m) = card (links t m n)" using wf n by (simp add: topology_wf_def)
  ultimately show False by linarith
qed

text \<open>Of an entry that is set already, the other end belongs to an earlier node, so that no partner is left.\<close>

lemma no_partner_left:
  assumes inv: "link_inv N t n i f" and n: "n < N" "i < 5" "t n i = m" "m < N" and set: "f n i \<noteq> 255" and j: "j < 5" "t m j = n"
  shows "f m j \<noteq> 255"
proof -
  have "m < n" using link_invD(3) [OF inv n(1,2) set] n(3) by (simp add: visited_def)
  then show ?thesis using link_invD(2) [OF inv n(4) j(1)] j(2) n(1) by (simp add: visited_def)
qed

lemma visited_Suc: "visited n (Suc i) a b \<longleftrightarrow> visited n i a b \<or> a = n \<and> b = i"
  by (auto simp: visited_def)

lemma link_inv_skip:
  assumes "link_inv N t n i f" "\<not> t n i < N \<or> f n i \<noteq> 255"
  shows "link_inv N t n (Suc i) f"
  using assms unfolding link_inv_def visited_Suc by blast

text \<open>The first partner that is free, for a link of a node to itself, is the interface itself.\<close>

lemma link_inv_pair:
  assumes inv: "link_inv N t n i f" and n: "n < N" "i < 5" "t n i = m" "m < N" and free: "f n i = 255"
    and j: "j < 5" "t m j = n" "f m j = 255" and first: "\<And>j'. j' < j \<Longrightarrow> t m j' = n \<Longrightarrow> f m j' \<noteq> 255"
    and g: "\<And>a b. g a b = (if a = m \<and> b = j then i else if a = n \<and> b = i then j else f a b)"
  shows "link_inv N t n (Suc i) g"
proof -
  have self: "m = n \<Longrightarrow> j = i"
  proof (rule ccontr)
    assume m: "m = n" and "j \<noteq> i"
    then consider "j < i" | "i < j" by linarith
    then show False
    proof cases
      case 1
      then have "f n j \<noteq> 255" using link_invD(2) [OF inv n(1) j(1)] j(2) n(1) m by (simp add: visited_def)
      with j(3) m show False by simp
    next
      case 2
      with first [of i] n(3) free m show False by simp
    qed
  qed
  have ends: "g m j = i" "g n i = j" using g [of m j] g [of n i] self by (cases "n = m"; simp)+
  have old: "t a b < N \<and> g a b < 5 \<and> t (t a b) (g a b) = a \<and> g (t a b) (g a b) = b"
    if "a < N" "b < 5" "g a b \<noteq> 255" for a b
  proof -
    consider "a = m" "b = j" | "a = n" "b = i" "\<not> (a = m \<and> b = j)" | "\<not> (a = m \<and> b = j)" "\<not> (a = n \<and> b = i)" by blast
    then show ?thesis
    proof cases
      case 1
      then show ?thesis by (simp add: ends n j)
    next
      case 2
      then show ?thesis by (simp add: ends n j)
    next
      case 3
      then have "g a b = f a b" using g [of a b] by auto
      with that have p: "t a b < N" "f a b < 5" "t (t a b) (f a b) = a" "f (t a b) (f a b) = b"
        using link_invD(1) [OF inv that(1,2)] by auto
      have "f (t a b) (f a b) \<noteq> 255" using p(4) that(2) by simp
      then have "\<not> (t a b = m \<and> f a b = j)" "\<not> (t a b = n \<and> f a b = i)" using j(3) free by auto
      then have "g (t a b) (f a b) = f (t a b) (f a b)" using g [of "t a b" "f a b"] by auto
      with p \<open>g a b = f a b\<close> show ?thesis by simp
    qed
  qed
  have mono: "f a b \<noteq> 255 \<Longrightarrow> g a b \<noteq> 255" for a b using n(2) j(1) g [of a b] by auto
  have gn: "g n i \<noteq> 255" using ends(2) j(1) by simp
  have "visited n (Suc i) a b \<or> t a b < a" if "a < N" "b < 5" "g a b \<noteq> 255" for a b
  proof (cases "a = m \<and> b = j")
    case True
    then show ?thesis using self j(2) by (cases "m = n") (auto simp: visited_def)
  next
    case False
    then show ?thesis using link_invD(3) [OF inv that(1,2)] that(3) g [of a b] by (auto simp: visited_Suc split: if_splits)
  qed
  moreover have "g a b \<noteq> 255" if "a < N" "b < 5" "visited n (Suc i) a b" "t a b < N" for a b
    using that gn mono link_invD(2) [OF inv that(1,2)] unfolding visited_Suc by blast
  ultimately show ?thesis using old unfolding link_inv_def paired_def by blast
qed

section \<open>The loops\<close>

lemma null_cell: "m ! n ! i = AXIOM_NULL_NODE \<longleftrightarrow> cell m n i = 255"
  by (simp add: cell_def word_unat_eq_iff)

lemma cell_less: "cell m n i < 256"
  using unsigned_less [of "m ! n ! i"] by (simp add: cell_def)

lemma pair_search_finds:
  assumes "grid (tp_topology t)" "grid (tp_if_topology t)" "m < 256"
  shows "set js \<subseteq> {..<5} \<Longrightarrow> sorted_wrt (<) js \<Longrightarrow> \<exists>r. pair_search t (int n) (of_nat m) js = Some r \<and>
    (case r of None \<Rightarrow> \<forall>j \<in> set js. cell (tp_topology t) m j = n \<longrightarrow> cell (tp_if_topology t) m j \<noteq> 255
     | Some j \<Rightarrow> j \<in> set js \<and> cell (tp_topology t) m j = n \<and> cell (tp_if_topology t) m j = 255 \<and>
         (\<forall>j' \<in> set js. j' < j \<longrightarrow> cell (tp_topology t) m j' = n \<longrightarrow> cell (tp_if_topology t) m j' \<noteq> 255))"
proof (induction js)
  case (Cons k ks)
  from Cons obtain r where r: "pair_search t (int n) (of_nat m) ks = Some r"
    "case r of None \<Rightarrow> \<forall>j \<in> set ks. cell (tp_topology t) m j = n \<longrightarrow> cell (tp_if_topology t) m j \<noteq> 255
     | Some j \<Rightarrow> j \<in> set ks \<and> cell (tp_topology t) m j = n \<and> cell (tp_if_topology t) m j = 255 \<and>
         (\<forall>j' \<in> set ks. j' < j \<longrightarrow> cell (tp_topology t) m j' = n \<longrightarrow> cell (tp_if_topology t) m j' \<noteq> 255)" by auto
  have u: "uint (of_nat m :: u8) = int m" using assms(3) by (simp add: unsigned_of_nat take_bit_nat_eq_self)
  have k: "k < 5" using Cons.prems by simp
  note get = grid_get [OF assms(1,3) k] grid_get [OF assms(2,3) k]
  have "(uint (tp_topology t ! m ! k) = int n) = (cell (tp_topology t) m k = n)"
    by (simp add: cell_def uint_nat del: of_nat_unat)
  then have "pair_search t (int n) (of_nat m) (k # ks) =
      (if cell (tp_topology t) m k = n \<and> cell (tp_if_topology t) m k = 255 then Some (Some k) else Some r)"
    using get u r(1) by (simp add: null_cell)
  then show ?case using r(2) Cons.prems(2) by (cases r) auto
qed simp

text \<open>The state of the loops: the tables are in bounds, and only the second is changed.\<close>

definition loop_inv :: "axiom_topology \<Rightarrow> nat \<Rightarrow> nat \<Rightarrow> nat \<Rightarrow> axiom_topology \<Rightarrow> bool" where
  "loop_inv t0 N n i t \<longleftrightarrow> grid (tp_if_topology t) \<and> t = t0\<lparr>tp_if_topology := tp_if_topology t\<rparr> \<and>
     link_inv N (cell (tp_topology t0)) n i (cell (tp_if_topology t)) \<and>
     (\<forall>a < N. \<forall>b < 5. cell (tp_topology t0) a b = 255 \<longrightarrow> cell (tp_if_topology t) a b = 255)"

lemma axsw_link_step:
  assumes t0: "grid (tp_topology t0)" "topology_wf N (cell (tp_topology t0))" "N \<le> 255"
    and inv: "loop_inv t0 N n i t" and n: "n < N" "i < 5"
  shows "\<exists>t'. axsw_link n i t = Some t' \<and> loop_inv t0 N n (Suc i) t'"
proof -
  let ?t = "cell (tp_topology t0)" and ?f = "cell (tp_if_topology t)"
  let ?p = "tp_topology t0 ! n ! i" and ?m = "?t n i"
  from inv have t: "grid (tp_if_topology t)" "t = t0\<lparr>tp_if_topology := tp_if_topology t\<rparr>" "link_inv N ?t n i ?f"
    "\<forall>a < N. \<forall>b < 5. ?t a b = 255 \<longrightarrow> ?f a b = 255" by (auto simp: loop_inv_def)
  have topo: "tp_topology t = tp_topology t0" using t(2) by (metis axiom_topology.select_convs(1) axiom_topology.surjective axiom_topology.update_convs(2))
  have get: "tp_get (tp_topology t) (int n) (int i) = Some ?p" using grid_get [OF t0(1)] n t0(3) topo by simp
  have p: "?p = of_nat ?m" by (simp add: cell_def)
  show ?thesis
  proof (cases "?m = 255")
    case True
    then have "loop_inv t0 N n (Suc i) t" using t t0(3) link_inv_skip [OF t(3)] by (simp add: loop_inv_def)
    then show ?thesis using get True by (simp add: axsw_link_def null_cell)
  next
    case False
    then have m: "?m < N" using t0(2) n by (auto simp: topology_wf_def)
    have "grid (tp_topology t)" "?m < 256" using t0(1,3) topo m by simp_all
    moreover have "set [0..<5] \<subseteq> {..<5 :: nat}" "sorted_wrt (<) [0..<5 :: nat]" by auto
    ultimately obtain r where r: "pair_search t (int n) (of_nat ?m) [0..<5] = Some r"
        "case r of None \<Rightarrow> \<forall>j \<in> set [0..<5]. ?t ?m j = n \<longrightarrow> ?f ?m j \<noteq> 255
         | Some j \<Rightarrow> j \<in> set [0..<5] \<and> ?t ?m j = n \<and> ?f ?m j = 255 \<and> (\<forall>j' \<in> set [0..<5]. j' < j \<longrightarrow> ?t ?m j' = n \<longrightarrow> ?f ?m j' \<noteq> 255)"
      using pair_search_finds [of t ?m "[0..<5]" n] t(1) unfolding topo by blast
    have run: "axsw_link n i t = (case r of None \<Rightarrow> Some t | Some j \<Rightarrow> do {
           f \<leftarrow> tp_set (tp_if_topology t) (int n) (int i) (of_nat j);
           f \<leftarrow> tp_set f (int ?m) (int j) (of_nat i);
           Some (t\<lparr>tp_if_topology := f\<rparr>) })"
    proof -
      have "?p \<noteq> AXIOM_NULL_NODE" "uint ?p = int ?m" using False null_cell by (simp_all add: cell_def uint_nat del: of_nat_unat)
      then show ?thesis using get r(1) unfolding p [symmetric] by (simp add: axsw_link_def cong: option.case_cong)
    qed
    show ?thesis
    proof (cases r)
      case None
      then have "?f n i \<noteq> 255" using partner_exists [OF t(3) t0(2) n refl m] r(2) by auto
      then have "loop_inv t0 N n (Suc i) t" using t link_inv_skip [OF t(3)] by (simp add: loop_inv_def)
      then show ?thesis using run None by simp
    next
      case (Some j)
      then have j: "j < 5" "?t ?m j = n" "?f ?m j = 255" "\<And>j'. j' < j \<Longrightarrow> ?t ?m j' = n \<Longrightarrow> ?f ?m j' \<noteq> 255" using r(2) by auto
      have free: "?f n i = 255" using no_partner_left [OF t(3) n refl m _ j(1,2)] j(3) by blast
      have b: "n < 256" "?m < 256" using n(1) m t0(3) by simp_all
      from grid_set [OF t(1) b(1) n(2), of "of_nat j"] obtain f1 where
        f1: "tp_set (tp_if_topology t) (int n) (int i) (of_nat j) = Some f1" "grid f1"
          "\<And>a b. cell f1 a b = (if a = n \<and> b = i then j else ?f a b)"
        using j(1) by (auto simp: unsigned_of_nat take_bit_nat_eq_self)
      from grid_set [OF f1(2) b(2) j(1), of "of_nat i"] obtain f2 where
        f2: "tp_set f1 (int ?m) (int j) (of_nat i) = Some f2" "grid f2"
          "\<And>a b. cell f2 a b = (if a = ?m \<and> b = j then i else cell f1 a b)"
        using n(2) by (auto simp: unsigned_of_nat take_bit_nat_eq_self)
      let ?t' = "t\<lparr>tp_if_topology := f2\<rparr>"
      have g: "cell f2 a b = (if a = ?m \<and> b = j then i else if a = n \<and> b = i then j else ?f a b)" for a b
        using f1(3) f2(3) by simp
      have "link_inv N ?t n (Suc i) (cell f2)"
        by (rule link_inv_pair [OF t(3) n refl m free j(1-4) g])
      moreover have "cell f2 a b = 255" if "a < N" "b < 5" "?t a b = 255" for a b
        using t(4) that g [of a b] j(2) n(1) t0(3) False by auto
      moreover have "?t' = t0\<lparr>tp_if_topology := f2\<rparr>" by (subst t(2)) simp
      ultimately have "loop_inv t0 N n (Suc i) ?t'" using f2(2) by (simp add: loop_inv_def)
      then show ?thesis using run Some f1(1) f2(1) by simp
    qed
  qed
qed

lemma topology_cleared:
  assumes "grid f" "N \<le> 256"
  shows "\<exists>f'. for_each (\<lambda>n. for_each (\<lambda>i f. tp_set f (int n) (int i) AXIOM_NULL_NODE) [0..<5]) [0..<N] f = Some f' \<and>
    grid f' \<and> (\<forall>a < N. \<forall>b < 5. cell f' a b = 255)"
proof -
  let ?I = "\<lambda>n f. grid f \<and> (\<forall>a < n. \<forall>b < 5. cell f a b = 255)"
  have row: "\<exists>f'. for_each (\<lambda>i f. tp_set f (int n) (int i) AXIOM_NULL_NODE) [0..<5] f = Some f' \<and> ?I (Suc n) f'"
    if n: "n < 256" and f: "?I n f" for n f
  proof -
    let ?J = "\<lambda>i f. ?I n f \<and> (\<forall>b < i. cell f n b = 255)"
    have step: "\<exists>f'. tp_set f (int n) (int i) AXIOM_NULL_NODE = Some f' \<and> ?J (Suc i) f'" if i: "i < 5" and f: "?J i f" for i f
      using grid_set [OF _ n i, of f AXIOM_NULL_NODE] f by (auto simp: less_Suc_eq)
    have "?J 0 f" using f by simp
    from for_each_upt [where I = ?J and f = "\<lambda>i f. tp_set f (int n) (int i) AXIOM_NULL_NODE", OF this step] obtain f' where
      "for_each (\<lambda>i f. tp_set f (int n) (int i) AXIOM_NULL_NODE) [0..<5] f = Some f'" "?J 5 f'" by blast
    then show ?thesis by (auto simp: less_Suc_eq)
  qed
  have "?I 0 f" using assms(1) by simp
  from for_each_upt [where I = ?I and n = N and f = "\<lambda>n. for_each (\<lambda>i f. tp_set f (int n) (int i) AXIOM_NULL_NODE) [0..<5]", OF this row]
  show ?thesis using assms(2) by simp
qed

text \<open>
  Property C39. The interfaces of a simulated network. For a well-formed topology of at most 255 nodes \<open>axsw_if_topology_init\<close> stays within
  its tables and changes only the table of interfaces; afterwards the entry of every link, whichever node it belongs to, is
  the interface at the other end: the link there leads back and its own entry names this interface. Unused interfaces have
  no entry.
\<close>

theorem if_topology_pairs:
  assumes "grid (tp_topology t)" "grid (tp_if_topology t)" and "N \<le> 255" "topology_wf N (cell (tp_topology t))"
  shows "\<exists>t'. axsw_if_topology_init t (int N) = Some t' \<and> t' = t\<lparr>tp_if_topology := tp_if_topology t'\<rparr> \<and>
    (\<forall>n < N. \<forall>i < TOPOLOGY_IFS. let m = cell (tp_topology t) n i; j = cell (tp_if_topology t') n i in
       if m = 255 then j = 255
       else j < TOPOLOGY_IFS \<and> cell (tp_topology t) m j = n \<and> cell (tp_if_topology t') m j = i)"
proof -
  from topology_cleared [OF assms(2), of N] assms(3) obtain f where
    f: "for_each (\<lambda>n. for_each (\<lambda>i f. tp_set f (int n) (int i) AXIOM_NULL_NODE) [0..<5]) [0..<N] (tp_if_topology t) = Some f"
      "grid f" "\<forall>a < N. \<forall>b < 5. cell f a b = 255" by auto
  let ?t = "cell (tp_topology t)"
  have start: "loop_inv t N 0 0 (t\<lparr>tp_if_topology := f\<rparr>)"
    using f(2,3) by (simp add: loop_inv_def link_inv_def paired_def visited_def)
  have "b < 5 \<Longrightarrow> visited n 5 a b = visited (Suc n) 0 a b" for n a b by (auto simp: visited_def)
  then have next_row: "loop_inv t N n 5 s \<Longrightarrow> loop_inv t N (Suc n) 0 s" for n s
    by (simp add: loop_inv_def link_inv_def)
  have row: "\<exists>s'. for_each (axsw_link n) [0..<5] s = Some s' \<and> loop_inv t N (Suc n) 0 s'" if n: "n < N" and s: "loop_inv t N n 0 s" for n s
  proof -
    from for_each_upt [where I = "loop_inv t N n" and f = "axsw_link n", OF s axsw_link_step [OF assms(1,4,3) _ n]] obtain s' where
      "for_each (axsw_link n) [0..<5] s = Some s'" "loop_inv t N n 5 s'" by blast
    then show ?thesis using next_row by blast
  qed
  from for_each_upt [where I = "\<lambda>n. loop_inv t N n 0" and n = N and f = "\<lambda>n. for_each (axsw_link n) [0..<5]", OF start row] obtain t' where
    t': "for_each (\<lambda>n. for_each (axsw_link n) [0..<5]) [0..<N] (t\<lparr>tp_if_topology := f\<rparr>) = Some t'" "loop_inv t N N 0 t'" by blast
  let ?f = "cell (tp_if_topology t')"
  have inv: "link_inv N ?t N 0 ?f" "\<forall>a < N. \<forall>b < 5. ?t a b = 255 \<longrightarrow> ?f a b = 255" "t' = t\<lparr>tp_if_topology := tp_if_topology t'\<rparr>"
    using t'(2) unfolding loop_inv_def by blast+
  have "?f n i < 5 \<and> ?t (?t n i) (?f n i) = n \<and> ?f (?t n i) (?f n i) = i" if "n < N" "i < 5" "?t n i \<noteq> 255" for n i
  proof -
    have "?t n i < N" using assms(4) that by (auto simp: topology_wf_def)
    then have "?f n i \<noteq> 255" using link_invD(2) [OF inv(1) that(1,2)] that(1) by (simp add: visited_def)
    then show ?thesis using link_invD(1) [OF inv(1) that(1,2)] by blast
  qed
  moreover have "axsw_if_topology_init t (int N) = Some t'" using f(1) t'(1) by (simp add: axsw_if_topology_init_def)
  ultimately show ?thesis using inv(2,3) by (intro exI [of _ t']) (simp add: Let_def)
qed

text \<open>Two nodes with two links between them, crossed, and a third connected to the first.\<close>

definition demo_topology :: axiom_topology where
  "demo_topology = \<lparr>tp_topology = [[1, 1, 2, 255, 255], [255, 0, 255, 0, 255], [0, 255, 255, 255, 255]] @ replicate 253 (replicate 5 255),
     tp_if_topology = replicate 256 (replicate 5 0), tp_num_nodes = 3, tp_num_interfaces = 5\<rparr>"

theorem if_topology_pairs_witness:
  "\<exists>t'. axsw_if_topology_init demo_topology 3 = Some t' \<and> cell (tp_if_topology t') 0 0 < 5 \<and>
     cell (tp_topology demo_topology) 1 (cell (tp_if_topology t') 0 0) = 0 \<and> cell (tp_if_topology t') 1 (cell (tp_if_topology t') 0 0) = 0"
proof -
  have g: "grid (tp_topology demo_topology)" "grid (tp_if_topology demo_topology)"
    by (auto simp: grid_def demo_topology_def list_all_iff)
  have c: "cell (tp_topology demo_topology) 0 0 = 1" "cell (tp_topology demo_topology) 0 1 = 1" "cell (tp_topology demo_topology) 0 2 = 2"
    "cell (tp_topology demo_topology) 0 3 = 255" "cell (tp_topology demo_topology) 0 4 = 255"
    "cell (tp_topology demo_topology) 1 0 = 255" "cell (tp_topology demo_topology) 1 1 = 0" "cell (tp_topology demo_topology) 1 2 = 255"
    "cell (tp_topology demo_topology) 1 3 = 0" "cell (tp_topology demo_topology) 1 4 = 255"
    "cell (tp_topology demo_topology) 2 0 = 0" "cell (tp_topology demo_topology) 2 1 = 255" "cell (tp_topology demo_topology) 2 2 = 255"
    "cell (tp_topology demo_topology) 2 3 = 255" "cell (tp_topology demo_topology) 2 4 = 255"
    by (simp_all add: cell_def demo_topology_def nth_append)
  have five: "i < 5 \<longleftrightarrow> i = 0 \<or> i = 1 \<or> i = 2 \<or> i = 3 \<or> i = 4" and three: "i < 3 \<longleftrightarrow> i = 0 \<or> i = 1 \<or> i = 2" for i :: nat by auto
  let ?t = "cell (tp_topology demo_topology)"
  have "links ?t 0 0 = {}" "links ?t 0 1 = {0, 1}" "links ?t 0 2 = {2}" "links ?t 1 0 = {1, 3}" "links ?t 1 1 = {}" "links ?t 1 2 = {}"
    "links ?t 2 0 = {0}" "links ?t 2 1 = {}" "links ?t 2 2 = {}"
    unfolding links_def five using c by (auto intro!: gr0I)
  then have "topology_wf 3 ?t" unfolding topology_wf_def five three using c by auto
  from if_topology_pairs [OF g _ this] obtain t' where
    t': "axsw_if_topology_init demo_topology (int 3) = Some t'" and
    all: "\<forall>n < 3. \<forall>i < 5. let m = cell (tp_topology demo_topology) n i; j = cell (tp_if_topology t') n i in
       if m = 255 then j = 255
       else j < 5 \<and> cell (tp_topology demo_topology) m j = n \<and> cell (tp_if_topology t') m j = i" by auto
  have "(0 :: nat) < 3" "(0 :: nat) < 5" by simp_all
  with all c(1) t' show ?thesis by (fastforce simp: Let_def)
qed

end
