(* ===== verification/TimeUtil.thy ===== *)
theory TimeUtil
  imports NicTypes "HOL-Library.Signed_Division"
begin

text \<open>
  The time arithmetic of \<open>include/axiom_utility.h\<close>: \<open>struct timespec\<close> and \<open>struct timeval\<close>, whose fields are signed
  64-bit numbers taken as integers (no operation here leaves their range on times a clock returns). The reading
  of a time as one number of nanoseconds is the specification. The three conversions to \<open>double\<close> are not modelled.
\<close>

section \<open>The operations\<close>

record timespec =
  tv_sec :: int
  tv_nsec :: int

record timeval =
  tvl_sec :: int
  tvl_usec :: int

definition timespec_ge :: "timespec \<Rightarrow> timespec \<Rightarrow> int" where
  "timespec_ge a b =
     (if tv_sec a > tv_sec b then 1
      else if tv_sec a < tv_sec b then 0
      else if tv_nsec a \<ge> tv_nsec b then 1
      else 0)"

definition timeval2spec :: "timeval \<Rightarrow> timespec" where
  "timeval2spec a = \<lparr>tv_sec = tvl_sec a, tv_nsec = tvl_usec a * 1000\<rparr>"

definition timespec2val :: "timespec \<Rightarrow> timeval" where
  "timespec2val a = \<lparr>tvl_sec = tv_sec a, tvl_usec = tv_nsec a sdiv 1000\<rparr>"

definition timespec_add :: "timespec \<Rightarrow> timespec \<Rightarrow> timespec" where
  "timespec_add a b =
     (let ret = \<lparr>tv_sec = tv_sec a + tv_sec b, tv_nsec = tv_nsec a + tv_nsec b\<rparr> in
      if tv_nsec ret \<ge> 1000000000
      then \<lparr>tv_sec = tv_sec ret + 1, tv_nsec = tv_nsec ret - 1000000000\<rparr>
      else ret)"

definition timespec_sub :: "timespec \<Rightarrow> timespec \<Rightarrow> timespec" where
  "timespec_sub a b =
     (let ret = \<lparr>tv_sec = tv_sec a - tv_sec b, tv_nsec = tv_nsec a - tv_nsec b\<rparr> in
      if tv_nsec ret < 0
      then \<lparr>tv_sec = tv_sec ret - 1, tv_nsec = tv_nsec ret + 1000000000\<rparr>
      else ret)"

definition timespec2nsec :: "timespec \<Rightarrow> u64" where
  "timespec2nsec ts = of_int (tv_nsec ts) + of_int (tv_sec ts) * 1000000000"

section \<open>Times as numbers\<close>

definition nanos :: "timespec \<Rightarrow> int" where
  "nanos t = tv_sec t * 1000000000 + tv_nsec t"

definition normal_time :: "timespec \<Rightarrow> bool" where
  "normal_time t \<longleftrightarrow> 0 \<le> tv_nsec t \<and> tv_nsec t < 1000000000"

text \<open>The operations as arithmetic on nanoseconds, and what follows for times in normal form.\<close>

lemma timespec_add_nanos: "nanos (timespec_add a b) = nanos a + nanos b"
  and timespec_sub_nanos: "nanos (timespec_sub a b) = nanos a - nanos b"
  by (simp_all add: nanos_def timespec_add_def timespec_sub_def Let_def algebra_simps)

lemma timespec_normal:
  "normal_time a \<Longrightarrow> normal_time b \<Longrightarrow> normal_time (timespec_add a b)"
  "normal_time a \<Longrightarrow> normal_time b \<Longrightarrow> normal_time (timespec_sub a b)"
  by (simp_all add: normal_time_def timespec_add_def timespec_sub_def Let_def)

lemma timespec_ge_nanos: "normal_time a \<Longrightarrow> normal_time b \<Longrightarrow> timespec_ge a b = (if nanos a \<ge> nanos b then 1 else 0)"
  by (auto simp: timespec_ge_def normal_time_def nanos_def)

lemma normal_divmod: "normal_time t \<Longrightarrow> nanos t div 1000000000 = tv_sec t \<and> nanos t mod 1000000000 = tv_nsec t"
  by (simp add: normal_time_def nanos_def)

lemma nanos_inj: "normal_time a \<Longrightarrow> normal_time b \<Longrightarrow> nanos a = nanos b \<Longrightarrow> a = b"
  using normal_divmod [of a] normal_divmod [of b] by simp

lemma timespec_sub_add: "normal_time a \<Longrightarrow> normal_time b \<Longrightarrow> timespec_sub (timespec_add a b) b = a"
  by (rule nanos_inj) (simp_all add: timespec_normal timespec_add_nanos timespec_sub_nanos)

lemma timespec2nsec_nanos:
  assumes "0 \<le> nanos t" "nanos t < 2 ^ 64"
  shows "uint (timespec2nsec t) = nanos t"
proof -
  have "timespec2nsec t = of_int (nanos t)" by (simp add: timespec2nsec_def nanos_def)
  then show ?thesis using assms by (simp only: unsigned_of_int) (simp add: take_bit_int_eq_self)
qed

text \<open>An interval that was measured with two readings of a clock.\<close>

lemma timespec_elapsed:
  assumes "normal_time a" and "normal_time b" and "timespec_ge b a = 1" and "nanos b - nanos a < 2 ^ 64"
  shows "uint (timespec2nsec (timespec_sub b a)) = nanos b - nanos a"
  using assms timespec2nsec_nanos [of "timespec_sub b a"]
  by (simp add: timespec_sub_nanos timespec_ge_nanos split: if_splits)

lemma timeval_roundtrip: "timespec2val (timeval2spec a) = a"
proof -
  have "x * 1000 sdiv 1000 = x" for x :: int by (cases "0 \<le> x") (simp_all add: signed_divide_int_def abs_mult sgn_mult abs_sgn)
  then show ?thesis by (simp add: timespec2val_def timeval2spec_def)
qed

end
