(* ===== verification/UserTest.thy ===== *)
theory UserTest
  imports UserProps
begin

text \<open>
  The test program of the library (\<open>axiom_user_library/axiom_user_test.c\<close>): a sequence of library calls whose results
  it prints. The model returns the exit code and the printed numbers. It is shown to leave nothing open, whatever
  the calls return.
\<close>

section \<open>The program\<close>

text \<open>
  \<open>stk\<close> is the address of the local \<open>payload\<close>, \<open>st\<close> stores bytes in the memory of the process, \<open>junk\<close> are the
  bytes of uninitialised locals. A variable that a failed call does not set keeps its value.
\<close>

definition set_var :: "u8 list option \<Rightarrow> u8 \<Rightarrow> u8" where
  "set_var arg x = (case arg of None \<Rightarrow> x | Some bs \<Rightarrow> bs ! 0)"

definition get_var :: "u8 option \<Rightarrow> u8 \<Rightarrow> u8" where
  "get_var m s = (case m of None \<Rightarrow> s | Some e \<Rightarrow> e)"

fun if_infos :: "'w os \<Rightarrow> axiom_dev option \<Rightarrow> nat list \<Rightarrow> u8 \<Rightarrow> 'w \<Rightarrow> (int list \<times> 'w) option" where
  "if_infos os dev [] if_features w = Some ([], w)"
| "if_infos os dev (i # is) if_features w = do {
     (err, arg, w) \<leftarrow> axiom_get_if_info os dev (of_nat i) w;
     let if_features = (case arg of None \<Rightarrow> if_features | Some bs \<Rightarrow> bs ! 1);
     (out, w) \<leftarrow> if_infos os dev is if_features w;
     Some ([int i, uint if_features, err] @ out, w) }"

abbreviation (input) AX_TEST_NODEID :: u8 where "AX_TEST_NODEID \<equiv> 33"

text \<open>The calls in the order of \<open>main\<close>; \<open>s\<close> is the local \<open>enabled_mask\<close>.\<close>

definition test_registers :: "'w os \<Rightarrow> u8 list \<Rightarrow> axiom_dev option \<Rightarrow> 'w \<Rightarrow> (int list \<times> 'w) option" where
  "test_registers os junk dev w = do {
     (bind1, w) \<leftarrow> axiom_bind os dev AXIOM_PORT_ANY w;
     (bind2, w) \<leftarrow> axiom_bind os dev AXIOM_PORT_ANY w;
     (status, w) \<leftarrow> axiom_read_ni_status os junk dev w;
     (control, w) \<leftarrow> axiom_read_ni_control os junk dev w;
     w \<leftarrow> axiom_set_ni_control os dev 1 w;
     (control', w) \<leftarrow> axiom_read_ni_control os junk dev w;
     Some ([bind1, bind2, uint status, uint control, 1, uint control'], w) }"

definition test_interfaces :: "'w os \<Rightarrow> u8 list \<Rightarrow> axiom_dev option \<Rightarrow> 'w \<Rightarrow> (int list \<times> u8 \<times> 'w) option" where
  "test_interfaces os junk dev w = do {
     (node_id, w) \<leftarrow> axiom_get_node_id os junk dev w;
     w \<leftarrow> axiom_set_node_id os dev AX_TEST_NODEID w;
     (node_id', w) \<leftarrow> axiom_get_node_id os junk dev w;
     (err, arg, w) \<leftarrow> axiom_get_if_number os dev (junk ! 0) w;
     (infos, w) \<leftarrow> if_infos os dev [0, 1, 2, 3] (junk ! 1) w;
     Some ([uint node_id, uint (AX_TEST_NODEID :: u8), uint node_id', uint (set_var arg (junk ! 0)), err] @ infos, node_id', w) }"

definition test_routing :: "'w os \<Rightarrow> axiom_dev option \<Rightarrow> u8 \<Rightarrow> 'w \<Rightarrow> (int list \<times> 'w) option" where
  "test_routing os dev s w = do {
     (err1, w) \<leftarrow> axiom_set_routing os dev 3 0x12 w;
     (err2, m, w) \<leftarrow> axiom_get_routing os dev 3 w;
     let s = get_var m s;
     let out = [3, 0x12, err1, 3, uint s, err2];
     (err3, m, w) \<leftarrow> axiom_get_routing os dev 102 w;
     let s = get_var m s;
     let out = out @ [102, uint s, err3];
     (err4, w) \<leftarrow> axiom_set_routing os dev 102 0x33 w;
     (err5, m, w) \<leftarrow> axiom_get_routing os dev 102 w;
     Some (out @ [102, 0x33, err4, 102, uint (get_var m s), err5], w) }"

text \<open>The messages; the local \<open>payload\<close> is read back from memory, for the last line after the receive has stored to it.\<close>

definition test_messages :: "'w os \<Rightarrow> (u64 \<Rightarrow> u8 list \<Rightarrow> 'w \<Rightarrow> 'w) \<Rightarrow> u8 list \<Rightarrow> u64 \<Rightarrow> axiom_dev option \<Rightarrow> u8 \<Rightarrow> 'w \<Rightarrow>
    (int list \<times> 'w) option" where
  "test_messages os st junk stk dev node_id w = do {
     let w = st stk (le_bytes 4 (1234567 :: u32)) w;
     (err, w) \<leftarrow> axiom_send_raw os junk dev 22 1 AXIOM_TYPE_RAW_DATA 4 stk w;
     sent \<leftarrow> os_load os stk 4 w;
     (err, r, w) \<leftarrow> axiom_recv_raw os junk dev stk \<lparr>ro_src = node_id, ro_port = junk ! 3, ro_type = junk ! 4, ro_size = 4\<rparr> w;
     payload \<leftarrow> os_load os stk 4 w;
     w \<leftarrow> axiom_set_ni_control os dev 0 w;
     (err, w) \<leftarrow> axiom_send_raw os junk dev 22 1 AXIOM_TYPE_RAW_DATA 4 stk w;
     Some ([22, 1, 0, uint (le_word sent :: u32), uint (ro_src r), uint (ro_port r), uint (ro_type r), uint (le_word payload :: u32),
       22, 1, 0, uint (le_word payload :: u32)], w) }"

definition user_test :: "'w os \<Rightarrow> (u64 \<Rightarrow> u8 list \<Rightarrow> 'w \<Rightarrow> 'w) \<Rightarrow> u8 list \<Rightarrow> u64 \<Rightarrow> 'w \<Rightarrow> (int \<times> int list \<times> 'w) option" where
  "user_test os st junk stk w = (case axiom_open os None w of
     (None, w) \<Rightarrow> Some (- 1, [], w)
   | (Some v, w) \<Rightarrow> do {
       (registers, w) \<leftarrow> test_registers os junk (Some v) w;
       (interfaces, node_id, w) \<leftarrow> test_interfaces os junk (Some v) w;
       (routing, w) \<leftarrow> test_routing os (Some v) (junk ! 2) w;
       (messages, w) \<leftarrow> test_messages os st junk stk (Some v) node_id w;
       Some (0, registers @ interfaces @ routing @ messages, axiom_close os (Some v) w) })"

section \<open>What it leaves behind\<close>

text \<open>The operating system as the program uses it: \<open>ioctl\<close> and stores leave descriptors and allocated memory alone.\<close>

locale posix_process = posix_files +
  fixes st :: "u64 \<Rightarrow> u8 list \<Rightarrow> 'a \<Rightarrow> 'a"
  assumes ioctl_fds: "os_ioctl os fd cmd arg w = Some (r, e, bs, w') \<Longrightarrow> fds w' = fds w \<and> heap w' = heap w"
    and store_fds: "fds (st a bs w) = fds w" "heap (st a bs w) = heap w"
begin

definition same :: "'a \<Rightarrow> 'a \<Rightarrow> bool" where
  "same w w' \<longleftrightarrow> fds w' = fds w \<and> heap w' = heap w"

lemma same_ioctl: "os_ioctl os fd cmd arg w = Some (r, e, bs, w') \<Longrightarrow> same w w'"
  using ioctl_fds by (auto simp: same_def)

lemma same_refl: "same w w" and same_trans: "same w w1 \<Longrightarrow> same w1 w2 \<Longrightarrow> same w w2"
  by (simp_all add: same_def)

lemma same_basic:
  "get_ioctl n cmd os junk dev w = Some (x, w') \<Longrightarrow> same w w'"
  "set_ioctl cmd os dev arg w = Some w' \<Longrightarrow> same w w'"
  "struct_ioctl cmd os dev arg w = Some (ret, y, w') \<Longrightarrow> same w w'"
  by (auto simp: get_ioctl_def set_ioctl_def struct_ioctl_def bind_eq_Some_conv same_refl split: option.splits if_splits dest: same_ioctl)

lemma same_bind: "axiom_bind os dev port w = Some (ret, w') \<Longrightarrow> same w w'"
  by (auto simp: axiom_bind_def bind_eq_Some_conv same_refl Let_def split: option.splits if_splits
      dest!: same_ioctl intro: same_trans)

lemma same_send: "axiom_send_raw os junk dev dst port type n a w = Some (ret, w') \<Longrightarrow> same w w'"
  unfolding axiom_send_raw_def
  by (cases "opened fd_raw dev"; cases "axiom_send_raw_prepare (raw_hdr_of_bytes junk) dst port type n")
    (auto simp only: option.case Let_def prod.case bind_eq_Some_conv option.inject prod.inject
      split: if_splits intro: same_refl dest: same_ioctl)

lemma same_recv_ioctl: "recv_raw_ioctl os dev cmd arg out w = Some (ret, out', w') \<Longrightarrow> same w w'"
  unfolding recv_raw_ioctl_def
  by (cases "opened fd_raw dev")
    (auto simp only: option.case Let_def prod.case bind_eq_Some_conv option.inject prod.inject case_prod_unfold prod.sel
      split: if_splits intro: same_refl dest: same_ioctl)

lemma same_recv: "axiom_recv_raw os junk dev a out w = Some (ret, out', w') \<Longrightarrow> same w w'"
  unfolding axiom_recv_raw_def by (rule same_recv_ioctl)

lemma same_config:
  "axiom_read_ni_status os junk dev w = Some (x, w') \<Longrightarrow> same w w'"
  "axiom_read_ni_control os junk dev w = Some (x, w') \<Longrightarrow> same w w'"
  "axiom_get_node_id os junk dev w = Some (y, w') \<Longrightarrow> same w w'"
  "axiom_set_ni_control os dev ctl w = Some w' \<Longrightarrow> same w w'"
  "axiom_set_node_id os dev i w = Some w' \<Longrightarrow> same w w'"
  "axiom_get_if_number os dev n w = Some (ret, arg, w') \<Longrightarrow> same w w'"
  "axiom_get_if_info os dev n w = Some (ret, arg, w') \<Longrightarrow> same w w'"
  "axiom_set_routing os dev n m w = Some (ret, w') \<Longrightarrow> same w w'"
  "axiom_get_routing os dev n w = Some (ret, m', w') \<Longrightarrow> same w w'"
  by (auto simp: axiom_read_ni_status_def axiom_read_ni_control_def axiom_get_node_id_def axiom_set_ni_control_def axiom_set_node_id_def
      axiom_get_if_number_def axiom_get_if_info_def axiom_set_routing_def axiom_get_routing_def bind_eq_Some_conv intro: same_basic)

text \<open>The same facts for results that are not taken apart.\<close>

lemma same_results:
  "axiom_bind os dev port w = Some y1 \<Longrightarrow> same w (snd y1)"
  "axiom_send_raw os junk dev dst port type n a w = Some y1 \<Longrightarrow> same w (snd y1)"
  "axiom_recv_raw os junk dev a out w = Some y3 \<Longrightarrow> same w (snd (snd y3))"
  "axiom_read_ni_status os junk dev w = Some y4 \<Longrightarrow> same w (snd y4)"
  "axiom_read_ni_control os junk dev w = Some y4 \<Longrightarrow> same w (snd y4)"
  "axiom_get_node_id os junk dev w = Some y5 \<Longrightarrow> same w (snd y5)"
  "axiom_get_if_number os dev n w = Some y6 \<Longrightarrow> same w (snd (snd y6))"
  "axiom_get_if_info os dev n w = Some y6 \<Longrightarrow> same w (snd (snd y6))"
  "axiom_set_routing os dev n m w = Some y1 \<Longrightarrow> same w (snd y1)"
  "axiom_get_routing os dev n w = Some y7 \<Longrightarrow> same w (snd (snd y7))"
  by (cases y1; cases y3; cases y4; cases y5; cases y6; cases y7; simp add: same_bind same_send same_recv same_config)+

lemma same_if_infos: "if_infos os dev is f w = Some y \<Longrightarrow> same w (snd y)"
proof (induction "is" arbitrary: f w y)
  case (Cons i "is")
  then show ?case unfolding if_infos.simps case_prod_unfold Let_def bind_eq_Some_conv
    by (elim exE conjE) (drule same_results Cons.IH, force simp: same_def)
qed (auto simp: same_refl)

lemma same_store: "same w (st a bs w)"
  by (simp add: same_def store_fds)

lemma same_registers: "test_registers os junk dev w = Some y \<Longrightarrow> same w (snd y)"
  unfolding test_registers_def case_prod_unfold bind_eq_Some_conv
  by (elim exE conjE) ((drule same_results same_config(4))+, clarsimp simp: same_def)

lemma same_interfaces: "test_interfaces os junk dev w = Some y \<Longrightarrow> same w (snd (snd y))"
  unfolding test_interfaces_def case_prod_unfold bind_eq_Some_conv
  by (elim exE conjE) ((drule same_results same_config(5) same_if_infos)+, clarsimp simp: same_def)

lemma same_routing: "test_routing os dev s w = Some y \<Longrightarrow> same w (snd y)"
  unfolding test_routing_def case_prod_unfold Let_def bind_eq_Some_conv
  by (elim exE conjE) ((drule same_results)+, clarsimp simp: same_def)

lemma same_test_messages: "test_messages os st junk stk dev i w = Some y \<Longrightarrow> same w (snd y)"
  unfolding test_messages_def case_prod_unfold Let_def bind_eq_Some_conv
  by (elim exE conjE) ((drule same_results same_config(4))+, clarsimp simp: same_def store_fds)

lemmas same_parts = same_registers same_interfaces same_routing same_test_messages

lemma user_test_leaves_nothing:
  assumes "user_test os st junk stk w = Some (r, out, w')"
  shows "fds w' = fds w \<and> heap w' = heap w"
proof (cases "axiom_open os None w")
  case (Pair dev w0)
  show ?thesis
  proof (cases dev)
    case None
    then show ?thesis using assms Pair open_outcome [OF Pair] by (simp add: user_test_def)
  next
    case (Some v)
    with Pair assms have "Option.bind (test_registers os junk (Some v) w0) (\<lambda>y1.
        Option.bind (test_interfaces os junk (Some v) (snd y1)) (\<lambda>y2.
        Option.bind (test_routing os (Some v) (junk ! 2) (snd (snd y2))) (\<lambda>y3.
        Option.bind (test_messages os st junk stk (Some v) (fst (snd y2)) (snd y3)) (\<lambda>y4.
        Some (0, fst y1 @ fst y2 @ fst y3 @ fst y4, axiom_close os (Some v) (snd y4)))))) = Some (r, out, w')"
      by (simp add: user_test_def case_prod_unfold)
    then have "\<exists>w1. same w0 w1 \<and> w' = axiom_close os (Some v) w1"
      unfolding bind_eq_Some_conv
      by (elim exE conjE) ((drule same_parts)+, auto simp: same_def)
    then obtain w1 where w1: "same w0 w1" "w' = axiom_close os (Some v) w1" by blast
    have "holds_dev w w0 v" using open_outcome [OF Pair] Some by simp
    then have "holds_dev w w1 v" using w1(1) by (simp add: holds_dev_def same_def)
    from close_restores [OF this] show ?thesis using w1(2) by simp
  qed
qed

end

subsection \<open>On the node\<close>

lemma sys_ioctl_fds:
  assumes "sys_ioctl k fd cmd arg w = Some (r, e, bs, w')"
  shows "sys_fds w' = sys_fds w \<and> sy_heap w' = sy_heap w"
proof (cases "file_at fd w")
  case (Some f)
  with assms obtain g d env where "w' = set_file fd (Some g) (w\<lparr>sy_drv := d, sy_env := env\<rparr>)"
    by (auto simp: sys_ioctl_def Let_def bind_eq_Some_conv case_prod_unfold)
  moreover have "file_at fd (w\<lparr>sy_drv := d, sy_env := env\<rparr>) = Some f"
    using Some by (simp add: file_at_def split: if_splits)
  moreover have "sys_fds (w\<lparr>sy_drv := d, sy_env := env\<rparr>) = sys_fds w" by (simp add: sys_fds_def file_at_def)
  ultimately show ?thesis by (simp add: sys_set_flags_fds sys_heap_set_file)
qed (use assms in \<open>simp add: sys_ioctl_def\<close>)

interpretation node_process: posix_process "node_os k" sys_fds sy_heap node_store
  by unfold_locales (auto simp: node_os_def node_store_def dest!: sys_ioctl_fds)

text \<open>On a node of the model, through library, kernel and driver.\<close>

corollary node_user_test_leaves_nothing:
  "user_test (node_os k) node_store junk stk w = Some (r, out, w') \<Longrightarrow> sys_fds w' = sys_fds w \<and> sy_heap w' = sy_heap w"
  by (rule node_process.user_test_leaves_nothing)

end
