(* ===== verification/UserTrace.thy ===== *)
theory UserTrace
  imports AxPrelude
begin

text \<open>
  The tracing of the user library (\<open>axiom_user_api.c\<close>, lines 32 to 117), compiled in with \<open>AXIOM_EXTRAE_SUPPORT\<close>: every call of
  the library announces itself to Extrae, an external library, and before the first announcement registers the names of the events.
  The state is what the tracing keeps and what it has told Extrae.
\<close>

datatype axiom_extrae_apinic_t = AX_EXTRAE_APINIC_END | AX_EXTRAE_APINIC_OPEN | AX_EXTRAE_APINIC_CLOSE | AX_EXTRAE_APINIC_SEND
  | AX_EXTRAE_APINIC_SEND_IOV | AX_EXTRAE_APINIC_RECV | AX_EXTRAE_APINIC_RECV_IOV | AX_EXTRAE_APINIC_SEND_RAW
  | AX_EXTRAE_APINIC_SEND_IOV_RAW | AX_EXTRAE_APINIC_RECV_RAW | AX_EXTRAE_APINIC_RECV_IOV_RAW | AX_EXTRAE_APINIC_SEND_RAW_AVAIL
  | AX_EXTRAE_APINIC_RECV_RAW_AVAIL | AX_EXTRAE_APINIC_SEND_LONG | AX_EXTRAE_APINIC_SEND_IOV_LONG | AX_EXTRAE_APINIC_RECV_LONG
  | AX_EXTRAE_APINIC_RECV_IOV_LONG | AX_EXTRAE_APINIC_SEND_LONG_AVAIL | AX_EXTRAE_APINIC_RECV_LONG_AVAIL
  | AX_EXTRAE_APINIC_RDMA_READ | AX_EXTRAE_APINIC_RDMA_WRITE | AX_EXTRAE_APINIC_RDMA_CHECK | AX_EXTRAE_APINIC_RDMA_WAIT
  | AX_EXTRAE_APINIC_LAST

fun extrae_value :: "axiom_extrae_apinic_t \<Rightarrow> nat" where
  "extrae_value AX_EXTRAE_APINIC_END = 0" | "extrae_value AX_EXTRAE_APINIC_OPEN = 1" | "extrae_value AX_EXTRAE_APINIC_CLOSE = 2"
| "extrae_value AX_EXTRAE_APINIC_SEND = 3" | "extrae_value AX_EXTRAE_APINIC_SEND_IOV = 4" | "extrae_value AX_EXTRAE_APINIC_RECV = 5"
| "extrae_value AX_EXTRAE_APINIC_RECV_IOV = 6" | "extrae_value AX_EXTRAE_APINIC_SEND_RAW = 7"
| "extrae_value AX_EXTRAE_APINIC_SEND_IOV_RAW = 8" | "extrae_value AX_EXTRAE_APINIC_RECV_RAW = 9"
| "extrae_value AX_EXTRAE_APINIC_RECV_IOV_RAW = 10" | "extrae_value AX_EXTRAE_APINIC_SEND_RAW_AVAIL = 11"
| "extrae_value AX_EXTRAE_APINIC_RECV_RAW_AVAIL = 12" | "extrae_value AX_EXTRAE_APINIC_SEND_LONG = 13"
| "extrae_value AX_EXTRAE_APINIC_SEND_IOV_LONG = 14" | "extrae_value AX_EXTRAE_APINIC_RECV_LONG = 15"
| "extrae_value AX_EXTRAE_APINIC_RECV_IOV_LONG = 16" | "extrae_value AX_EXTRAE_APINIC_SEND_LONG_AVAIL = 17"
| "extrae_value AX_EXTRAE_APINIC_RECV_LONG_AVAIL = 18" | "extrae_value AX_EXTRAE_APINIC_RDMA_READ = 19"
| "extrae_value AX_EXTRAE_APINIC_RDMA_WRITE = 20" | "extrae_value AX_EXTRAE_APINIC_RDMA_CHECK = 21"
| "extrae_value AX_EXTRAE_APINIC_RDMA_WAIT = 22" | "extrae_value AX_EXTRAE_APINIC_LAST = 23"

definition axiom_extrae_apinic_desc :: "string list" where
  "axiom_extrae_apinic_desc = [''axiom_open()'', ''axiom_close()'', ''axiom_send()'', ''axiom_send_iov()'', ''axiom_recv()'',
     ''axiom_recv_iov()'', ''axiom_send_raw()'', ''axiom_send_iov_raw()'', ''axiom_recv_raw()'', ''axiom_recv_iov_raw()'',
     ''axiom_send_raw_avail()'', ''axiom_recv_raw_avail()'', ''axiom_send_long()'', ''axiom_send_iov_long()'',
     ''axiom_recv_long()'', ''axiom_recv_iov_long()'', ''axiom_send_long_avail()'', ''axiom_recv_long_avail()'',
     ''axiom_rdma_read()'', ''axiom_rdma_write()'', ''axiom_rdma_check()'', ''axiom_rdma_wait()'']"

text \<open>The type number is passed to Extrae by reference; each registration and each event is recorded.\<close>

record extrae_def =
  ed_type :: nat
  ed_name :: string
  ed_values :: "nat list"
  ed_desc :: "string list"

record tracer =
  axiom_extrae_apinic :: nat
  axiom_extrae_apinic_init :: bool
  tc_defined :: "extrae_def list"
  tc_events :: "(nat \<times> nat) list"

definition tracer_start :: tracer where
  "tracer_start = \<lparr>axiom_extrae_apinic = 9990000, axiom_extrae_apinic_init = False, tc_defined = [], tc_events = []\<rparr>"

text \<open>\<open>axiom_extrae_init\<close> stores through the result of \<open>malloc\<close> without testing it; \<open>up\<close> is the answer of \<open>Extrae_is_initialized\<close>.\<close>

definition axiom_extrae_init :: "bool \<Rightarrow> bool \<Rightarrow> string \<Rightarrow> string list \<Rightarrow> nat \<Rightarrow> tracer \<Rightarrow> tracer option" where
  "axiom_extrae_init up malloc name val_desc val_num s =
     (if \<not> axiom_extrae_apinic_init s \<and> up then
        if \<not> malloc \<and> 0 < val_num then None
        else Some (s\<lparr>tc_defined := tc_defined s @ [\<lparr>ed_type = axiom_extrae_apinic s, ed_name = name, ed_values = map Suc [0..<val_num],
            ed_desc = val_desc\<rparr>], axiom_extrae_apinic_init := True\<rparr>)
      else Some s)"

definition AXIOM_EXTRAE :: "bool \<Rightarrow> bool \<Rightarrow> axiom_extrae_apinic_t \<Rightarrow> tracer \<Rightarrow> tracer option" where
  "AXIOM_EXTRAE up malloc ev s = do {
     s \<leftarrow> axiom_extrae_init up malloc ''AXIOM NIC API'' axiom_extrae_apinic_desc (extrae_value AX_EXTRAE_APINIC_LAST - 1) s;
     Some (s\<lparr>tc_events := tc_events s @ [(axiom_extrae_apinic s, extrae_value ev)]\<rparr>) }"

fun trace_calls :: "(bool \<times> bool \<times> axiom_extrae_apinic_t) list \<Rightarrow> tracer \<Rightarrow> tracer option" where
  "trace_calls [] s = Some s"
| "trace_calls ((up, malloc, ev) # cs) s = do { s \<leftarrow> AXIOM_EXTRAE up malloc ev s; trace_calls cs s }"

text \<open>The registration: every value an event can have, except the one that ends a call, has exactly one name.\<close>

definition apinic_def :: extrae_def where
  "apinic_def = \<lparr>ed_type = 9990000, ed_name = ''AXIOM NIC API'', ed_values = map Suc [0..<22], ed_desc = axiom_extrae_apinic_desc\<rparr>"

lemma apinic_def_names:
  "length (ed_values apinic_def) = length (ed_desc apinic_def)" "distinct (ed_desc apinic_def)"
  "ev \<noteq> AX_EXTRAE_APINIC_END \<Longrightarrow> ev \<noteq> AX_EXTRAE_APINIC_LAST \<Longrightarrow> extrae_value ev \<in> set (ed_values apinic_def)"
proof -
  show "length (ed_values apinic_def) = length (ed_desc apinic_def)" "distinct (ed_desc apinic_def)"
    by (simp_all add: apinic_def_def axiom_extrae_apinic_desc_def)
  assume "ev \<noteq> AX_EXTRAE_APINIC_END" "ev \<noteq> AX_EXTRAE_APINIC_LAST"
  then have "1 \<le> extrae_value ev \<and> extrae_value ev \<le> 22" by (cases ev) simp_all
  then have "extrae_value ev = Suc (extrae_value ev - 1)" "extrae_value ev - 1 \<in> set [0..<22]" by auto
  then show "extrae_value ev \<in> set (ed_values apinic_def)"
    unfolding apinic_def_def extrae_def.simps set_map by (rule image_eqI)
qed

text \<open>Whatever the order of the calls, and whenever Extrae comes up, the names are registered once at most and every event is passed on.\<close>

lemma trace_calls_step:
  assumes "axiom_extrae_apinic s = 9990000" "tc_defined s = (if axiom_extrae_apinic_init s then [apinic_def] else [])"
    and "\<forall>(up, malloc, ev) \<in> set cs. malloc"
  shows "\<exists>s'. trace_calls cs s = Some s' \<and>
    tc_defined s' = (if axiom_extrae_apinic_init s \<or> (\<exists>c \<in> set cs. fst c) then [apinic_def] else []) \<and>
    tc_events s' = tc_events s @ map (\<lambda>(up, malloc, ev). (9990000, extrae_value ev)) cs"
  using assms
proof (induction cs arbitrary: s)
  case (Cons c cs)
  obtain up malloc ev where c: "c = (up, malloc, ev)" by (cases c)
  let ?s1 = "s\<lparr>tc_defined := (if axiom_extrae_apinic_init s \<or> up then [apinic_def] else []),
    axiom_extrae_apinic_init := axiom_extrae_apinic_init s \<or> up, tc_events := tc_events s @ [(9990000, extrae_value ev)]\<rparr>"
  have "AXIOM_EXTRAE up malloc ev s = Some ?s1"
    using Cons.prems c by (auto simp: AXIOM_EXTRAE_def axiom_extrae_init_def apinic_def_def)
  moreover have "\<exists>s'. trace_calls cs ?s1 = Some s' \<and>
    tc_defined s' = (if axiom_extrae_apinic_init ?s1 \<or> (\<exists>c \<in> set cs. fst c) then [apinic_def] else []) \<and>
    tc_events s' = tc_events ?s1 @ map (\<lambda>(up, malloc, ev). (9990000, extrae_value ev)) cs"
    by (rule Cons.IH) (use Cons.prems in auto)
  ultimately show ?case unfolding c by auto
qed simp

lemma trace_calls_once:
  assumes "\<forall>(up, malloc, ev) \<in> set cs. malloc"
  shows "\<exists>s'. trace_calls cs tracer_start = Some s' \<and> length (tc_defined s') \<le> 1 \<and> set (tc_defined s') \<subseteq> {apinic_def} \<and>
    tc_events s' = map (\<lambda>(up, malloc, ev). (9990000, extrae_value ev)) cs"
  using trace_calls_step [of tracer_start cs] assms by (auto simp: tracer_start_def)

end
