(* ===== verification/Spec2Isabelle.thy ===== *)
theory Spec2Isabelle
  imports EviAlloc Arm64Regs QemuProps PlatformProps ProtocolProps LongCycle ReadyNodes SimTopology TimeUtil UserTest UserTrace
begin

text \<open>
  Verification of the AXIOM NIC software: the kernel driver (\<open>src/axiom_netdev_driver\<close>), the user library
  (\<open>src/axiom_user_library\<close>) and the headers they share (\<open>src/include\<close>).

  \<^bold>\<open>The program.\<close> The AXIOM NIC is an FPGA that connects the nodes of a cluster. It carries small RAW messages, LONG
  messages of up to 64 KiB through buffers in reserved memory, and RDMA reads and writes between reserved memory zones.
  The driver (\<open>axiom_netdev_common.c\<close>) keeps software queues between the hardware FIFOs and the processes: the
  interrupt handler wakes worker threads (\<open>axiom_kthread.c\<close>), which move received packets into one queue per port; the handlers
  of the four character devices send, receive, bind ports, poll, map the RDMA zone and configure the NIC. All queues are
  instances of one queue manager (\<open>evi_queue.h\<close>). The hardware is reached through the functions of \<open>axiom_nic_api_hw.h\<close>,
  implemented for the FPGA in \<open>axiom_kernel_api_arm64.c\<close> over the accessors of \<open>axiom_xilinx.h\<close>, and for an emulated NIC in
  \<open>axiom_kernel_api_qemuarm64.c\<close>; the platform drivers (\<open>axiom_netdev_arm64.c\<close> and its variants) find the device and load the module. The library
  (\<open>axiom_user_api.c\<close>) turns the calls of a process into system calls.

  \<^bold>\<open>The theories\<close>, in the order of the layers, with the sources they model:

  \<^item> \<open>AxPrelude\<close>: bounds-checked arrays, errno values, the option monad and list lemmas shared by all.
  \<^item> \<open>EviQueue\<close> (\<open>evi_queue.h\<close>), \<open>EviAlloc\<close> (\<open>evi_alloc.h\<close>): the queue manager and the array allocator. \<open>eviq_rep\<close> relates the
    arrays to free list, queues and owned slots; the locale \<open>slot_queue\<close> is the contract the driver uses.
  \<^item> \<open>NicTypes\<close> (\<open>axiom_nic_types.h\<close>, \<open>axiom_nic_packets.h\<close>, \<open>axiom_nic_regs.h\<close>): headers with their byte layout, tokens, counters.
    \<open>NicRegs\<close> (\<open>axiom_nic_regs.h\<close>, \<open>axiom_nic_regs_qemuarm64.h\<close>): bit layouts and masks, the register map of the emulated NIC.
  \<^item> \<open>UserCopy\<close>, \<open>IoVec\<close>: the copy routines with the alignment workaround and the loops over iovec arrays.
  \<^item> \<open>DriverState\<close> (\<open>axiom_netdev.h\<close>): the driver data as a record, the hardware interface as a record of functions over an
    abstract device, mutexes, and the blocking loop of the handlers, driven by a list of wake-ups and signals.
    \<open>SwQueue\<close>: queues with descriptors. \<open>DemoDevice\<close>: a small device for the witnesses.
  \<^item> \<open>DriverRaw\<close>, \<open>RawProps\<close>: interrupt handler and RAW messages. \<open>DriverPorts\<close>: files and ports.
  \<^item> \<open>DriverRdma\<close>, \<open>RdmaProps\<close>, \<open>RdmaWorker\<close>: RDMA requests, tokens, acknowledgements and the receive worker.
  \<^item> \<open>DriverLong\<close>, \<open>LongProps\<close>, \<open>LongIo\<close>, \<open>LongCycle\<close>: LONG messages and the watchdog.
  \<^item> \<open>Kthread\<close> (\<open>axiom_kthread.c\<close>), \<open>WorkerThreads\<close>: the thread loop as a step relation, and the three threads of the driver.
  \<^item> \<open>DriverSysfs\<close> (\<open>axiom_netdev_sysfs.c\<close>): the sysfs attributes and tree.
  \<^item> \<open>DriverInit\<close>, \<open>InitProps\<close>: rings, memory layout, character devices, probe, remove, module loading.
  \<^item> \<open>DriverIoctl\<close>, \<open>IoctlProps\<close> (\<open>axiom_netdev_user.h\<close>): poll and ioctl.
  \<^item> \<open>UserApi\<close> (\<open>axiom_user_api.c\<close>): the library over a record of system calls. \<open>NodeSystem\<close>: a node, whose system calls are
    the driver's file operations. \<open>UserProps\<close>, \<open>NodeProps\<close>: properties of the library and of the whole node.
    \<open>UserTrace\<close>: the optional tracing of the library, apart from its calls.
  \<^item> \<open>Arm64Api\<close>, \<open>Arm64Props\<close> (\<open>axiom_kernel_api_arm64.c\<close>, \<open>axiom_xilinx.h\<close>): the hardware layer for the FPGA.
    \<open>Arm64Regs\<close> (\<open>axiom_nic_regs_arm64.h\<close>): its register map, and that the layer keeps to it.
  \<^item> \<open>QemuApi\<close>, \<open>QemuProps\<close> (\<open>axiom_kernel_api_qemuarm64.c\<close>): the hardware layer for the emulated NIC.
  \<^item> \<open>PlatformDrivers\<close>, \<open>PlatformProps\<close> (\<open>axiom_netdev_arm64.c\<close>, \<open>axiom_netdev_qemuarm64.c\<close>, \<open>axiom_netdev_x86.c\<close>): the platform drivers.

  \<^item> \<open>TwoNodes\<close>, \<open>LongNodes\<close>: two nodes joined by a wire, for RAW and for LONG messages. \<open>ReadyNodes\<close>: a driver as the probe
    leaves it meets the demands of both. \<open>ProtocolMsgs\<close>, \<open>ProtocolProps\<close> (\<open>axiom_nic_discovery.h\<close>, \<open>axiom_nic_routing.h\<close>,
    \<open>axiom_nic_init.h\<close>): the messages of the initialisation protocols. \<open>SimTopology\<close> (\<open>axiom_sim_topology.h\<close>): the topology of a simulated
    network. \<open>TimeUtil\<close> (\<open>axiom_utility.h\<close>): time arithmetic. \<open>UserTest\<close> (\<open>axiom_user_test.c\<close>): the test program.

  \<^bold>\<open>State, errors, concurrency.\<close> Operations are functions on the state. An access outside an array, a lock taken twice or a wait that
  never ends is the value \<open>None\<close>; error codes of the sources are the negative numbers they return. The sections under a
  spin lock are the atomic steps. A blocking handler receives the list of events that happen while it sleeps, each an arbitrary
  change of the state; the theorems constrain these changes by rely conditions. The threads interleave with everything else in
  the step relation of \<open>Kthread\<close>.

  \<^bold>\<open>What is proved.\<close>

  \<^item> Queues: every run of the queue manager refines FIFO queues with a free stack; the allocator is first fit and consistent.
  \<^item> Copies: user data arrives unchanged for all alignments but one, for which the overrun is exhibited.
  \<^item> RAW: packets go from the FIFO to the ports in order and without loss; send, receive and flush do what they promise on
    every branch. From the interrupt the packets reach the port within five turns of the thread, and no wake-up is lost.
  \<^item> RDMA: a request gets a slot, a token and is transmitted; its acknowledgement completes it exactly once; the worker drains its FIFO and
    keeps the tables consistent; a refused request is retransmitted without bound.
  \<^item> LONG: send and receive move exactly the user's bytes through the buffers; addresses are mapped to buffers within bounds; what a
    message holds at its sender is given back by its acknowledgement.
  \<^item> Ports: over all sequences of opens, binds and closes no two files share a port and the masks and counters are exact.
  \<^item> System calls and library: receiving from end to end, the routing table, the count of the nodes, opening and closing without leaks,
    waiting for RDMA, the choice of the message class.
  \<^item> Initialisation: a probe establishes all invariants or gives everything back; sysfs parameters round trip.
  \<^item> Hardware layer: it satisfies the contracts of the workers, and what one node transmits another receives; its receive loop ends exactly
    for the lengths of the protocol. The layer for the emulated NIC accesses registers only as its register map allows, and its messages
    round trip.
  \<^item> Two nodes: a RAW message passes unchanged from \<open>axiom_send_raw\<close> in a process on one node to \<open>axiom_recv_raw\<close> in a process on the other, through
    library, system call, driver, worker and register layer on both sides; so does a discovery message. A LONG message passes from
    \<open>axiom_send_long\<close> to \<open>axiom_recv_long\<close>, its payload through the buffers of the two nodes and its descriptor through the FIFOs. The interfaces of a simulated
    network are paired up exactly. Time arithmetic is arithmetic on nanoseconds. The test program leaves nothing open, whatever fails.
  \<^item> Platform: which entries of the device tree the driver needs and which failures it overlooks; a probe takes all resources or none.

  \<^bold>\<open>Interfaces\<close> are locales: \<open>slot_queue\<close> (queue manager), \<open>rdma_device\<close>, \<open>raw_thread\<close>, \<open>rdma_thread\<close> and \<open>kthread_client\<close> (hardware and
  threads), \<open>posix_files\<close>, \<open>posix_process\<close>, \<open>routing_service\<close> and \<open>node_routing\<close> (kernel and library), \<open>axi_nic\<close> (FPGA). Each is interpreted on the model; \<open>axi_nic\<close>
  is a sublocale of \<open>rdma_device\<close>, the thread locales are sublocales of \<open>kthread_client\<close>, and \<open>posix_process\<close> extends \<open>posix_files\<close>.

  \<^bold>\<open>Bounds.\<close> Loops that the sources bound are structural or have a termination measure. Loops that wait for hardware are partial functions
  with result \<open>None\<close> for an endless wait, and the theorems prove that they return under the device contract.
  \<open>eviq_walk\<close> has the length of the array as fuel, which a chain without repetitions never exhausts. The request counter of a thread has 32
  bits; its theorem excludes \<open>2 ^ 32\<close> requests.

  \<^bold>\<open>Outside code\<close> is a parameter: the kernel's user-memory access, allocation, thread and device functions (records of answers), the
  memory device (\<open>axiom_mem_dev\<close>), the FPGA (locale laws). Each use is instantiated in a witness.

  \<^bold>\<open>Not modelled.\<close> Debug printing other than the values printed, the command numbers and frame layouts for programs that are not part
  of the repository, the conversions of times to floating point, and the pseudo code of the documentation, which is prose in the form of
  C. \<open>axiom_kernel_api_qemuarm64.c\<close> is not in the makefile and does not fit the present headers (it uses a member \<open>raw32\<close> of the RAW
  header); the model takes that member as a parameter. Weak memory ordering and the timing of sleeps are abstracted; the wire is a relation
  between what one FPGA sends and what the other receives, which sets the node field of the header as the FPGA does and, for a LONG
  message, copies the payload to one of the receive buffers.
\<close>

end
